(* ===== verification/Keep_Prelude.thy ===== *)
theory Keep_Prelude
  imports Main
    "HOL-Library.Word"
    "HOL-Library.List_Lexorder"
    "HOL-Library.Product_Lexorder"
    "HOL-Library.Char_ord"
begin

unbundle bit_operations_syntax

section \<open>Shared types, results and automation\<close>

text \<open>
  What every component of the native crates uses: bytes and machine words, Rust strings,
  the \<open>Result\<close> values with their sequencing, \<open>usize\<close> arithmetic that is checked against
  the 64-bit width of the supported target, and the string and slice operations of the
  Rust standard library that the code calls.

  A Rust \<open>String\<close> is modelled by the list of the bytes of its UTF-8 encoding, one
  \<open>char\<close> per byte, so \<open>length\<close> is Rust's \<open>len()\<close> and the lexicographic order of
  \<open>List_Lexorder\<close> over \<open>Char_ord\<close> is Rust's order of strings.
\<close>

named_theorems res_simps \<open>rewriting sequenced results\<close>
named_theorems limit_defs \<open>the numeric limits of the crates, as definitions to unfold\<close>

type_synonym u8 = "8 word"
type_synonym u16 = "16 word"
type_synonym u32 = "32 word"
type_synonym u64 = "64 word"
type_synonym bytes = "u8 list"

subsection \<open>Results\<close>

text \<open>\<open>Result<T, E>\<close> is \<open>'e + 'a\<close> with \<open>Inl\<close> for \<open>Err\<close>; \<open>bnd\<close> is the \<open>?\<close> operator.\<close>

type_synonym ('e, 'a) res = "'e + 'a"

definition bnd :: "('e, 'a) res \<Rightarrow> ('a \<Rightarrow> ('e, 'b) res) \<Rightarrow> ('e, 'b) res" where
  "bnd r f = (case r of Inl e \<Rightarrow> Inl e | Inr v \<Rightarrow> f v)"

lemma bnd_simps [simp, res_simps]:
  "bnd (Inl e) f = Inl e"
  "bnd (Inr v) f = f v"
  by (simp_all add: bnd_def)

lemma bnd_assoc: "bnd (bnd r f) g = bnd r (\<lambda>v. bnd (f v) g)"
  by (cases r) simp_all

lemma bnd_eq_Inr: "bnd r f = Inr w \<longleftrightarrow> (\<exists>v. r = Inr v \<and> f v = Inr w)"
  by (cases r) simp_all

lemma bnd_eq_Inl: "bnd r f = Inl e \<longleftrightarrow> r = Inl e \<or> (\<exists>v. r = Inr v \<and> f v = Inl e)"
  by (cases r) simp_all

lemma bnd_cong [fundef_cong]:
  assumes "r = r'" and "\<And>v. r' = Inr v \<Longrightarrow> f v = g v"
  shows "bnd r f = bnd r' g"
  using assms by (cases r') simp_all

lemma bnd_InrE:
  assumes "bnd r f = Inr w"
  obtains v where "r = Inr v" and "f v = Inr w"
  using assms by (cases r) simp_all

definition is_ok :: "('e, 'a) res \<Rightarrow> bool" where
  "is_ok r \<longleftrightarrow> (case r of Inl _ \<Rightarrow> False | Inr _ \<Rightarrow> True)"

lemma is_ok_simps [simp]: "\<not> is_ok (Inl e)" "is_ok (Inr v)"
  by (simp_all add: is_ok_def)

lemma is_ok_iff: "is_ok r \<longleftrightarrow> (\<exists>v. r = Inr v)"
  by (cases r) simp_all

definition ok :: "('e, 'a) res \<Rightarrow> 'a option" where
  "ok r = (case r of Inl _ \<Rightarrow> None | Inr v \<Rightarrow> Some v)"

lemma ok_simps [simp]: "ok (Inl e) = None" "ok (Inr v) = Some v"
  by (simp_all add: ok_def)

lemma ok_eq_Some [simp]: "ok r = Some v \<longleftrightarrow> r = Inr v"
  by (cases r) simp_all

lemma ok_eq_None: "ok r = None \<longleftrightarrow> (\<exists>e. r = Inl e)"
  by (cases r) simp_all

lemma ok_bnd: "ok (bnd r f) = Option.bind (ok r) (\<lambda>v. ok (f v))"
  by (cases r) simp_all

definition map_err :: "('e \<Rightarrow> 'f) \<Rightarrow> ('e, 'a) res \<Rightarrow> ('f, 'a) res" where
  "map_err g r = (case r of Inl e \<Rightarrow> Inl (g e) | Inr v \<Rightarrow> Inr v)"

lemma map_err_simps [simp, res_simps]:
  "map_err g (Inl e) = Inl (g e)"
  "map_err g (Inr v) = Inr v"
  by (simp_all add: map_err_def)

lemma map_err_eq_Inr [simp]: "map_err g r = Inr v \<longleftrightarrow> r = Inr v"
  by (cases r) simp_all

lemma ok_map_err [simp]: "ok (map_err g r) = ok r"
  by (cases r) simp_all

definition ok_or :: "'e \<Rightarrow> 'a option \<Rightarrow> ('e, 'a) res" where
  "ok_or e x = (case x of None \<Rightarrow> Inl e | Some v \<Rightarrow> Inr v)"

lemma ok_or_simps [simp, res_simps]:
  "ok_or e None = Inl e"
  "ok_or e (Some v) = Inr v"
  by (simp_all add: ok_or_def)

lemma ok_or_eq_Inr [simp]: "ok_or e x = Inr v \<longleftrightarrow> x = Some v"
  by (cases x) simp_all

text \<open>\<open>traverse\<close> is \<open>iter().map(f).collect::<Result<Vec<_>, _>>()\<close>: the first error wins.\<close>

fun traverse :: "('a \<Rightarrow> ('e, 'b) res) \<Rightarrow> 'a list \<Rightarrow> ('e, 'b list) res" where
  "traverse f [] = Inr []"
| "traverse f (x # xs) = bnd (f x) (\<lambda>y. bnd (traverse f xs) (\<lambda>ys. Inr (y # ys)))"

lemma traverse_cong [fundef_cong]:
  assumes "xs = ys" and "\<And>x. x \<in> set ys \<Longrightarrow> f x = g x"
  shows "traverse f xs = traverse g ys"
  using assms
proof (induction ys arbitrary: xs)
  case (Cons y ys)
  then have "traverse f ys = traverse g ys" by simp
  with Cons.prems show ?case by simp
qed simp

lemma traverse_Inr_iff:
  "traverse f xs = Inr ys \<longleftrightarrow> list_all2 (\<lambda>x y. f x = Inr y) xs ys"
proof (induction xs arbitrary: ys)
  case Nil
  then show ?case by auto
next
  case (Cons x xs)
  then show ?case by (cases ys) (auto simp: bnd_eq_Inr)
qed

lemma traverse_length: "traverse f xs = Inr ys \<Longrightarrow> length ys = length xs"
  by (auto simp: traverse_Inr_iff dest: list_all2_lengthD)

lemma traverse_Inr_set: "traverse f xs = Inr ys \<Longrightarrow> y \<in> set ys \<Longrightarrow> \<exists>x\<in>set xs. f x = Inr y"
proof (induction xs arbitrary: ys)
  case (Cons x xs)
  then obtain z zs where "f x = Inr z" "traverse f xs = Inr zs" "ys = z # zs"
    by (auto simp: bnd_eq_Inr)
  with Cons show ?case by auto
qed simp

lemma traverse_map_Inr: "(\<And>x. x \<in> set xs \<Longrightarrow> f x = Inr (g x)) \<Longrightarrow> traverse f xs = Inr (map g xs)"
  by (induction xs) simp_all

text \<open>\<open>for_all\<close> runs a check on every element and stops at the first error.\<close>

fun for_all :: "('a \<Rightarrow> ('e, 'b) res) \<Rightarrow> 'a list \<Rightarrow> ('e, unit) res" where
  "for_all f [] = Inr ()"
| "for_all f (x # xs) = bnd (f x) (\<lambda>_. for_all f xs)"

lemma for_all_cong [fundef_cong]:
  assumes "xs = ys" and "\<And>x. x \<in> set ys \<Longrightarrow> f x = g x"
  shows "for_all f xs = for_all g ys"
  using assms
proof (induction ys arbitrary: xs)
  case (Cons y ys)
  then have "for_all f ys = for_all g ys" by simp
  with Cons.prems show ?case by simp
qed simp

lemma for_all_ok: "for_all f xs = Inr u \<longleftrightarrow> (\<forall>x\<in>set xs. is_ok (f x))"
  by (induction xs) (auto simp: bnd_eq_Inr is_ok_iff)

text \<open>A loop over a list that threads a state and may return early.\<close>

fun fold_res :: "('a \<Rightarrow> 's \<Rightarrow> ('e, 's) res) \<Rightarrow> 'a list \<Rightarrow> 's \<Rightarrow> ('e, 's) res" where
  "fold_res f [] s = Inr s"
| "fold_res f (x # xs) s = bnd (f x s) (\<lambda>s'. fold_res f xs s')"

lemma fold_res_append:
  "fold_res f (xs @ ys) s = bnd (fold_res f xs s) (fold_res f ys)"
proof (induction xs arbitrary: s)
  case (Cons x xs)
  then have "fold_res f (xs @ ys) = (\<lambda>s. bnd (fold_res f xs s) (fold_res f ys))"
    by (simp add: fun_eq_iff)
  then show ?case by (simp add: bnd_assoc)
qed simp

lemma fold_res_cong [fundef_cong]:
  assumes "xs = ys" and "s = t" and "\<And>x s. x \<in> set ys \<Longrightarrow> f x s = g x s"
  shows "fold_res f xs s = fold_res g ys t"
  using assms
proof (induction ys arbitrary: xs s t)
  case (Cons y ys)
  then have "fold_res f ys = fold_res g ys" by (simp add: fun_eq_iff)
  with Cons.prems show ?case by simp
qed simp

lemma fold_res_inv:
  assumes "fold_res f xs s = Inr t" and "P s"
    and "\<And>x s s'. x \<in> set xs \<Longrightarrow> P s \<Longrightarrow> f x s = Inr s' \<Longrightarrow> P s'"
  shows "P t"
  using assms by (induction xs arbitrary: s) (auto simp: bnd_eq_Inr)

subsection \<open>\<open>usize\<close> and \<open>u64\<close> arithmetic\<close>

text \<open>
  Lengths, offsets and counters are natural numbers; the code's \<open>checked_add\<close> and
  \<open>checked_mul\<close> compare them with the 64-bit limit of the target.
\<close>

definition usize_max :: nat where "usize_max = 2 ^ 64 - 1"

definition checked_add :: "nat \<Rightarrow> nat \<Rightarrow> nat option" where
  "checked_add a b = (if a + b \<le> usize_max then Some (a + b) else None)"

definition checked_mul :: "nat \<Rightarrow> nat \<Rightarrow> nat option" where
  "checked_mul a b = (if a * b \<le> usize_max then Some (a * b) else None)"

definition saturating_mul :: "nat \<Rightarrow> nat \<Rightarrow> nat" where
  "saturating_mul a b = min (a * b) usize_max"

lemma checked_add_eq_Some: "checked_add a b = Some c \<longleftrightarrow> c = a + b \<and> a + b \<le> usize_max"
  by (auto simp: checked_add_def)

lemma checked_mul_eq_Some: "checked_mul a b = Some c \<longleftrightarrow> c = a * b \<and> a * b \<le> usize_max"
  by (auto simp: checked_mul_def)

lemma unat_le_usize_max [simp]: "unat (w :: u64) \<le> usize_max"
  using unsigned_less [of w, where 'a = nat] by (simp add: usize_max_def)

lemma unat_of_nat_u64: "n \<le> usize_max \<Longrightarrow> unat (of_nat n :: u64) = n"
  by (simp add: usize_max_def unat_of_nat take_bit_nat_eq_self_iff unsigned_of_nat)

subsection \<open>Order\<close>

text \<open>\<open>prior.is_some_and(|p| p >= key)\<close>\<close>

definition repeats :: "'a :: linorder option \<Rightarrow> 'a \<Rightarrow> bool" where
  "repeats prior key \<longleftrightarrow> (case prior of None \<Rightarrow> False | Some p \<Rightarrow> key \<le> p)"

end
