(* ===== verification/Rust_Bytes.thy ===== *)
theory Rust_Bytes
  imports Keep_Prelude
begin

section \<open>Bytes, strings and slices of the Rust standard library\<close>

text \<open>
  The operations of \<open>str\<close>, \<open>[u8]\<close> and the integer types that the crates call, each
  with its documented behaviour: conversion between a string and its bytes, ASCII classes and
  case folding, prefixes, splitting, substring search, big- and little-endian conversion,
  UTF-8 validation, hexadecimal and decimal formatting and parsing.
\<close>

subsection \<open>Strings as bytes\<close>

definition byte_of_char :: "char \<Rightarrow> u8" where
  "byte_of_char c = word_of_nat (of_char c)"

definition char_of_byte :: "u8 \<Rightarrow> char" where
  "char_of_byte b = char_of (unat b)"

definition str_bytes :: "string \<Rightarrow> bytes" where
  "str_bytes s = map byte_of_char s"

definition bytes_str :: "bytes \<Rightarrow> string" where
  "bytes_str bs = map char_of_byte bs"

lemma unat_byte_of_char [simp]: "unat (byte_of_char c) = of_char c"
  by (simp add: byte_of_char_def unsigned_of_nat take_bit_nat_eq_self_iff)

lemma char_of_byte_of_char [simp]: "char_of_byte (byte_of_char c) = c"
  by (simp add: char_of_byte_def)

lemma byte_of_char_of_byte [simp]: "byte_of_char (char_of_byte b) = b"
proof -
  have "unat b < 256" using unsigned_less [of b, where 'a = nat] by simp
  then show ?thesis by (simp add: byte_of_char_def char_of_byte_def)
qed

lemma byte_of_char_eq_iff [simp]: "byte_of_char c = byte_of_char d \<longleftrightarrow> c = d"
  by (metis char_of_byte_of_char)

lemma inj_byte_of_char: "inj byte_of_char"
  by (simp add: inj_def)

lemma bytes_str_bytes [simp]: "bytes_str (str_bytes s) = s"
  by (simp add: bytes_str_def str_bytes_def comp_def map_idI)

lemma str_bytes_str [simp]: "str_bytes (bytes_str bs) = bs"
  by (simp add: bytes_str_def str_bytes_def comp_def map_idI)

lemma str_bytes_eq_iff [simp]: "str_bytes s = str_bytes t \<longleftrightarrow> s = t"
  by (metis bytes_str_bytes)

lemma length_str_bytes [simp]: "length (str_bytes s) = length s"
  by (simp add: str_bytes_def)

lemma length_bytes_str [simp]: "length (bytes_str bs) = length bs"
  by (simp add: bytes_str_def)

lemma str_bytes_simps [simp]:
  "str_bytes [] = []"
  "str_bytes (c # s) = byte_of_char c # str_bytes s"
  "str_bytes (s @ t) = str_bytes s @ str_bytes t"
  by (simp_all add: str_bytes_def)

lemma byte_of_char_less_iff [simp]: "byte_of_char c < byte_of_char d \<longleftrightarrow> c < d"
  by (simp add: word_less_nat_alt less_char_def)

lemma str_bytes_less_iff [simp]: "str_bytes s < str_bytes t \<longleftrightarrow> s < t"
proof (induction s arbitrary: t)
  case Nil
  then show ?case by (cases t) simp_all
next
  case (Cons c s)
  then show ?case by (cases t) (auto simp: Cons_less_Cons)
qed

subsection \<open>ASCII classes and case folding\<close>

definition is_ascii_digit :: "u8 \<Rightarrow> bool" where
  "is_ascii_digit b \<longleftrightarrow> 0x30 \<le> b \<and> b \<le> 0x39"

definition is_ascii_alphanumeric :: "u8 \<Rightarrow> bool" where
  "is_ascii_alphanumeric b \<longleftrightarrow>
     is_ascii_digit b \<or> (0x41 \<le> b \<and> b \<le> 0x5a) \<or> (0x61 \<le> b \<and> b \<le> 0x7a)"

definition lower_hex_byte :: "u8 \<Rightarrow> bool" where
  "lower_hex_byte b \<longleftrightarrow> is_ascii_digit b \<or> (0x61 \<le> b \<and> b \<le> 0x66)"

definition to_ascii_lowercase_byte :: "u8 \<Rightarrow> u8" where
  "to_ascii_lowercase_byte b = (if 0x41 \<le> b \<and> b \<le> 0x5a then b + 32 else b)"

definition to_ascii_lowercase :: "string \<Rightarrow> string" where
  "to_ascii_lowercase s = bytes_str (map to_ascii_lowercase_byte (str_bytes s))"

definition eq_ignore_ascii_case :: "string \<Rightarrow> string \<Rightarrow> bool" where
  "eq_ignore_ascii_case s t \<longleftrightarrow> to_ascii_lowercase s = to_ascii_lowercase t"

lemma length_to_ascii_lowercase [simp]: "length (to_ascii_lowercase s) = length s"
  by (simp add: to_ascii_lowercase_def)

subsection \<open>Prefixes, splitting, searching\<close>

definition starts_with :: "'a list \<Rightarrow> 'a list \<Rightarrow> bool" where
  "starts_with s p \<longleftrightarrow> take (length p) s = p"

definition strip_prefix :: "'a list \<Rightarrow> 'a list \<Rightarrow> 'a list option" where
  "strip_prefix s p = (if starts_with s p then Some (drop (length p) s) else None)"

definition ends_with :: "'a list \<Rightarrow> 'a list \<Rightarrow> bool" where
  "ends_with s p \<longleftrightarrow> length p \<le> length s \<and> drop (length s - length p) s = p"

fun contains_sub :: "'a list \<Rightarrow> 'a list \<Rightarrow> bool" where
  "contains_sub p [] \<longleftrightarrow> p = []"
| "contains_sub p (x # xs) \<longleftrightarrow> starts_with (x # xs) p \<or> contains_sub p xs"

text \<open>\<open>split(sep)\<close>: never empty, one more part than there are separators.\<close>

fun split_on :: "'a \<Rightarrow> 'a list \<Rightarrow> 'a list list" where
  "split_on c [] = [[]]"
| "split_on c (x # xs) =
     (if x = c then [] # split_on c xs
      else (case split_on c xs of [] \<Rightarrow> [[x]] | y # ys \<Rightarrow> (x # y) # ys))"

text \<open>\<open>split_once(sep)\<close>.\<close>

fun split_once :: "'a \<Rightarrow> 'a list \<Rightarrow> ('a list \<times> 'a list) option" where
  "split_once c [] = None"
| "split_once c (x # xs) =
     (if x = c then Some ([], xs)
      else (case split_once c xs of None \<Rightarrow> None | Some (l, r) \<Rightarrow> Some (x # l, r)))"

lemma split_on_not_Nil [simp]: "split_on c xs \<noteq> []"
  by (induction xs) (auto split: list.splits)

fun join_with :: "'a \<Rightarrow> 'a list list \<Rightarrow> 'a list" where
  "join_with c [] = []"
| "join_with c [x] = x"
| "join_with c (x # y # ys) = x @ c # join_with c (y # ys)"

lemma join_split_on: "join_with c (split_on c xs) = xs"
proof (induction xs)
  case (Cons x xs)
  obtain y ys where y: "split_on c xs = y # ys"
    by (cases "split_on c xs") auto
  show ?case using Cons y by (cases ys) auto
qed simp

lemma starts_with_append [simp]: "starts_with (p @ s) p"
  by (simp add: starts_with_def)

lemma starts_with_iff: "starts_with s p \<longleftrightarrow> (\<exists>t. s = p @ t)"
  by (metis append_eq_conv_conj append_take_drop_id starts_with_def)

lemma strip_prefix_eq_Some: "strip_prefix s p = Some t \<longleftrightarrow> s = p @ t"
  by (auto simp: strip_prefix_def starts_with_iff)

text \<open>Strictly increasing neighbours: the \<open>windows(2)\<close> test of the sorted lists.\<close>

fun strictly_sorted :: "'a::linorder list \<Rightarrow> bool" where
  "strictly_sorted [] \<longleftrightarrow> True"
| "strictly_sorted [x] \<longleftrightarrow> True"
| "strictly_sorted (x # y # ys) \<longleftrightarrow> x < y \<and> strictly_sorted (y # ys)"

lemma strictly_sorted_iff: "strictly_sorted xs \<longleftrightarrow> sorted_wrt (<) xs"
proof (induction xs rule: strictly_sorted.induct)
  case (3 x y ys)
  then show ?case by (auto intro: less_trans)
qed simp_all

lemma strictly_sorted_distinct: "strictly_sorted xs \<Longrightarrow> distinct xs \<and> sorted xs"
  by (simp add: strictly_sorted_iff strict_sorted_iff)

subsection \<open>Integers as bytes\<close>

definition to_be_bytes :: "nat \<Rightarrow> 'a::len word \<Rightarrow> bytes" where
  "to_be_bytes n w = map (\<lambda>i. ucast (drop_bit (8 * i) w)) (rev [0..<n])"

definition from_be_bytes :: "bytes \<Rightarrow> 'a::len word" where
  "from_be_bytes bs = fold (\<lambda>b acc. push_bit 8 acc OR ucast b) bs 0"

definition from_le_bytes :: "bytes \<Rightarrow> 'a::len word" where
  "from_le_bytes bs = from_be_bytes (rev bs)"

lemma length_to_be_bytes [simp]: "length (to_be_bytes n w) = n"
  by (simp add: to_be_bytes_def)

lemma to_be_bytes_Suc: "to_be_bytes (Suc n) w = ucast (drop_bit (8 * n) w) # to_be_bytes n w"
  by (simp add: to_be_bytes_def)

lemma to_be_bytes_0 [simp]: "to_be_bytes 0 w = []"
  by (simp add: to_be_bytes_def)

lemma from_be_bytes_snoc: "from_be_bytes (bs @ [b]) = push_bit 8 (from_be_bytes bs) OR ucast b"
  by (simp add: from_be_bytes_def)

lemma bit_from_be_bytes:
  "bit (from_be_bytes bs :: 'a::len word) i \<longleftrightarrow>
     i < LENGTH('a) \<and> i div 8 < length bs \<and> bit (rev bs ! (i div 8)) (i mod 8)"
proof (induction bs arbitrary: i rule: rev_induct)
  case Nil
  then show ?case by (simp add: from_be_bytes_def)
next
  case (snoc b bs)
  show ?case
  proof (cases "i < 8")
    case True
    then show ?thesis by (auto simp: from_be_bytes_snoc bit_simps)
  next
    case False
    then obtain j where j: "i = j + 8" by (metis le_add_diff_inverse2 not_less)
    have "\<not> bit b i" using False by (auto dest: bit_imp_le_length)
    moreover have "(j + 8) div 8 = Suc (j div 8)" by simp
    ultimately show ?thesis
      using snoc.IH [of j] unfolding j by (auto simp: from_be_bytes_snoc bit_simps)
  qed
qed

lemma nth_rev_to_be_bytes: "j < n \<Longrightarrow> rev (to_be_bytes n w) ! j = ucast (drop_bit (8 * j) w)"
  by (simp add: to_be_bytes_def rev_map)

lemma from_to_be_bytes:
  assumes "LENGTH('a::len) = 8 * n"
  shows "from_be_bytes (to_be_bytes n w) = (w :: 'a word)"
proof (rule bit_eqI)
  fix i assume "possible_bit TYPE('a word) i"
  then have i: "i < LENGTH('a)" by simp
  then have "i div 8 < n" using assms by (simp add: less_mult_imp_div_less mult.commute)
  then show "bit (from_be_bytes (to_be_bytes n w) :: 'a word) i = bit w i"
    using i by (simp add: bit_from_be_bytes nth_rev_to_be_bytes bit_simps)
qed

lemma to_from_be_bytes:
  assumes "LENGTH('a::len) = 8 * length bs"
  shows "to_be_bytes (length bs) (from_be_bytes bs :: 'a word) = bs"
proof -
  have "rev (to_be_bytes (length bs) (from_be_bytes bs :: 'a word)) = rev bs"
  proof (rule nth_equalityI)
    fix j assume "j < length (rev (to_be_bytes (length bs) (from_be_bytes bs :: 'a word)))"
    then have j: "j < length bs" by simp
    show "rev (to_be_bytes (length bs) (from_be_bytes bs :: 'a word)) ! j = rev bs ! j"
    proof (rule bit_eqI)
      fix i assume "possible_bit TYPE(u8) i"
      then have i: "i < 8" by simp
      then have "(8 * j + i) div 8 = j" "(8 * j + i) mod 8 = i" by simp_all
      moreover have "8 * j + i < LENGTH('a)" using i j assms by simp
      ultimately show "bit (rev (to_be_bytes (length bs) (from_be_bytes bs :: 'a word)) ! j) i = bit (rev bs ! j) i"
        using i j by (simp add: nth_rev_to_be_bytes bit_simps bit_from_be_bytes add.commute)
    qed
  qed simp
  then show ?thesis by simp
qed

lemma unat_from_be_bytes_less: "unat (from_be_bytes bs :: 'a::len word) < 2 ^ (8 * length bs)"
proof -
  have "take_bit (8 * length bs) (from_be_bytes bs :: 'a word) = from_be_bytes bs"
    by (rule bit_eqI) (auto simp: bit_simps bit_from_be_bytes)
  then have "unat (from_be_bytes bs :: 'a word) = take_bit (8 * length bs) (unat (from_be_bytes bs :: 'a word))"
    by (metis unsigned_take_bit_eq)
  then show ?thesis by (metis take_bit_nat_less_exp)
qed

subsection \<open>UTF-8 validation\<close>

text \<open>\<open>std::str::from_utf8\<close>: the well-formed byte sequences of the Unicode standard.\<close>

definition utf8_cont :: "u8 \<Rightarrow> bool" where
  "utf8_cont b \<longleftrightarrow> 0x80 \<le> b \<and> b \<le> 0xbf"

fun valid_utf8 :: "bytes \<Rightarrow> bool" where
  "valid_utf8 [] \<longleftrightarrow> True"
| "valid_utf8 (b # bs) \<longleftrightarrow>
     (if b < 0x80 then valid_utf8 bs
      else if 0xc2 \<le> b \<and> b \<le> 0xdf then
        (case bs of c # cs \<Rightarrow> utf8_cont c \<and> valid_utf8 cs | _ \<Rightarrow> False)
      else if 0xe0 \<le> b \<and> b \<le> 0xef then
        (case bs of c # d # ds \<Rightarrow>
           (if b = 0xe0 then 0xa0 \<le> c \<and> c \<le> 0xbf
            else if b = 0xed then 0x80 \<le> c \<and> c \<le> 0x9f
            else utf8_cont c) \<and> utf8_cont d \<and> valid_utf8 ds
         | _ \<Rightarrow> False)
      else if 0xf0 \<le> b \<and> b \<le> 0xf4 then
        (case bs of c # d # e # es \<Rightarrow>
           (if b = 0xf0 then 0x90 \<le> c \<and> c \<le> 0xbf
            else if b = 0xf4 then 0x80 \<le> c \<and> c \<le> 0x8f
            else utf8_cont c) \<and> utf8_cont d \<and> utf8_cont e \<and> valid_utf8 es
         | _ \<Rightarrow> False)
      else False)"

lemma valid_utf8_ascii: "(\<And>b. b \<in> set bs \<Longrightarrow> b < 0x80) \<Longrightarrow> valid_utf8 bs"
  by (induction bs) simp_all

subsection \<open>Formatting and parsing numbers\<close>

definition hex_digit :: "nat \<Rightarrow> char" where
  "hex_digit n = (if n < 10 then char_of (48 + n) else char_of (87 + n))"

text \<open>\<open>format!("{byte:02x}")\<close> of every byte, concatenated.\<close>

definition hex_string :: "bytes \<Rightarrow> string" where
  "hex_string bs = concat (map (\<lambda>b. [hex_digit (unat b div 16), hex_digit (unat b mod 16)]) bs)"

lemma length_hex_string [simp]: "length (hex_string bs) = 2 * length bs"
  by (induction bs) (simp_all add: hex_string_def)

definition hex_value :: "u8 \<Rightarrow> nat" where
  "hex_value b = (if is_ascii_digit b then unat b - 48 else unat b - 87)"

text \<open>\<open>n.to_string()\<close>.\<close>

fun dec_string :: "nat \<Rightarrow> string" where
  "dec_string n =
     (if n < 10 then [char_of (48 + n)] else dec_string (n div 10) @ [char_of (48 + n mod 10)])"

declare dec_string.simps [simp del]

text \<open>The value of a string of ASCII digits, as \<open>str::parse\<close> computes it.\<close>

definition dec_value :: "string \<Rightarrow> nat" where
  "dec_value s = fold (\<lambda>c n. 10 * n + (of_char c - 48)) s 0"

lemma dec_value_snoc: "dec_value (s @ [c]) = 10 * dec_value s + (of_char c - 48)"
  by (simp add: dec_value_def)

lemma dec_value_dec_string [simp]: "dec_value (dec_string n) = n"
proof (induction n rule: dec_string.induct)
  case (1 n)
  show ?case
  proof (cases "n < 10")
    case True
    then show ?thesis by (simp add: dec_string.simps [of n] dec_value_def)
  next
    case False
    then show ?thesis
      using "1.IH" [OF False] by (simp add: dec_string.simps [of n] dec_value_snoc)
  qed
qed

lemma dec_string_not_Nil [simp]: "dec_string n \<noteq> []"
  by (subst dec_string.simps) simp

lemma dec_string_digits: "c \<in> set (dec_string n) \<Longrightarrow> is_ascii_digit (byte_of_char c)"
proof (induction n rule: dec_string.induct)
  case (1 n)
  have digit: "is_ascii_digit (byte_of_char (char_of (48 + k)))" if "k < 10" for k :: nat
    using that by (simp add: is_ascii_digit_def word_le_nat_alt)
  show ?case
  proof (cases "n < 10")
    case True
    then show ?thesis using "1.prems" digit [of n] by (simp add: dec_string.simps [of n])
  next
    case False
    have "n mod 10 < 10" by simp
    then show ?thesis
      using False "1.prems" "1.IH" [OF False] digit by (auto simp: dec_string.simps [of n])
  qed
qed

lemma hex_digit_lower: "n < 16 \<Longrightarrow> lower_hex_byte (byte_of_char (hex_digit n))"
  by (auto simp: hex_digit_def lower_hex_byte_def is_ascii_digit_def word_le_nat_alt)

lemma hex_string_lower: "c \<in> set (hex_string bs) \<Longrightarrow> lower_hex_byte (byte_of_char c)"
proof (induction bs)
  case (Cons b bs)
  have "unat b < 256" using unsigned_less [of b, where 'a = nat] by simp
  then have "unat b div 16 < 16" by simp
  then show ?case using Cons by (auto simp: hex_string_def hex_digit_lower)
qed (simp add: hex_string_def)

lemma hex_value_hex_digit: "n < 16 \<Longrightarrow> hex_value (byte_of_char (hex_digit n)) = n"
  by (auto simp: hex_digit_def hex_value_def is_ascii_digit_def word_le_nat_alt)

end
