(* ===== verification/Cbor.thy ===== *)
theory Cbor
  imports Rust_Bytes
begin

section \<open>The bounded canonical CBOR codec\<close>

text \<open>
  \<open>Limits\<close>, \<open>Value\<close>, \<open>Parser\<close>, \<open>encode_bounded\<close> and \<open>decode_canonical\<close> of
  \<open>native/crates/protocol/src/lib.rs\<close>. The parser's position \<open>at\<close> is the offset into the
  input; the re-encoding check of \<open>decode_canonical\<close> is part of the model, and
  \<open>Cbor_Roundtrip\<close> proves that it never fires.
\<close>

subsection \<open>Limits and values\<close>

record limits =
  max_bytes :: nat
  max_depth :: nat
  max_items :: nat
  max_collection_items :: nat
  max_text_bytes :: nat

definition WIRE :: limits where [limit_defs]:
  "WIRE = \<lparr>max_bytes = 1048576, max_depth = 16, max_items = 65536,
           max_collection_items = 1024, max_text_bytes = 4096\<rparr>"

definition MANIFEST :: limits where [limit_defs]:
  "MANIFEST = \<lparr>max_bytes = 4 * 1024 * 1024, max_depth = 16, max_items = 65536,
               max_collection_items = 1024, max_text_bytes = 4096\<rparr>"

definition EVIDENCE :: limits where [limit_defs]:
  "EVIDENCE = \<lparr>max_bytes = 8 * 1024 * 1024, max_depth = 16, max_items = 65536,
               max_collection_items = 1024, max_text_bytes = 4096\<rparr>"

datatype val =
    Null
  | Bool bool
  | Unsigned u64
  | Bytes bytes
  | Text string
  | Array "val list"
  | Map "(string \<times> val) list"

fun val_field :: "val \<Rightarrow> string \<Rightarrow> val option" where
  "val_field (Map entries) name = map_of entries name"
| "val_field _ name = None"

fun as_text :: "val \<Rightarrow> string option" where
  "as_text (Text t) = Some t"
| "as_text _ = None"

fun as_u64 :: "val \<Rightarrow> u64 option" where
  "as_u64 (Unsigned n) = Some n"
| "as_u64 _ = None"

type_synonym 'a pres = "(string, 'a) res"

definition ascii_profile :: "bytes \<Rightarrow> bool" where
  "ascii_profile bs \<longleftrightarrow> list_all (\<lambda>b. b = 0x0a \<or> (0x20 \<le> b \<and> b \<le> 0x7e)) bs"

text \<open>\<open>canonical_key_cmp\<close>: shorter keys first, then byte order; the order of the pairs.\<close>

definition canonical_key :: "bytes \<Rightarrow> nat \<times> bytes" where
  "canonical_key k = (length k, k)"

subsection \<open>Encoding\<close>

definition head :: "u8 \<Rightarrow> u64 \<Rightarrow> bytes" where
  "head major n =
     (if n < 24 then [push_bit 5 major OR ucast n]
      else if n \<le> 0xff then [push_bit 5 major OR 24, ucast n]
      else if n \<le> 0xffff then (push_bit 5 major OR 25) # to_be_bytes 2 (ucast n :: u16)
      else if n \<le> 0xffffffff then (push_bit 5 major OR 26) # to_be_bytes 4 (ucast n :: u32)
      else (push_bit 5 major OR 27) # to_be_bytes 8 n)"

definition encode_text :: "string \<Rightarrow> bytes pres" where
  "encode_text t =
     (if \<not> ascii_profile (str_bytes t) then Inl ''text is outside the native ASCII profile''
      else Inr (head 3 (of_nat (length t)) @ str_bytes t))"

definition encode_key :: "string \<times> val \<Rightarrow> (bytes \<times> val) pres" where
  "encode_key kv = bnd (encode_text (fst kv)) (\<lambda>ek. Inr (ek, snd kv))"

fun adjacent_equal :: "'a list \<Rightarrow> bool" where
  "adjacent_equal (x # y # ys) \<longleftrightarrow> x = y \<or> adjacent_equal (y # ys)"
| "adjacent_equal _ \<longleftrightarrow> False"

lemma val_size_Array [simp]: "v \<in> set vs \<Longrightarrow> size (v :: val) < Suc (size_list size vs)"
  by (induction vs) auto

lemma val_size_Map [simp]:
  "(k, v) \<in> set entries \<Longrightarrow> size (v :: val) < Suc (size_list (size_prod (\<lambda>x. 0) size) entries)"
  by (induction entries) auto

function encode_into :: "val \<Rightarrow> bytes pres" where
  "encode_into Null = Inr [0xf6]"
| "encode_into (Bool b) = Inr [if b then 0xf5 else 0xf4]"
| "encode_into (Unsigned n) = Inr (head 0 n)"
| "encode_into (Bytes bs) = Inr (head 2 (of_nat (length bs)) @ bs)"
| "encode_into (Text t) = encode_text t"
| "encode_into (Array vs) =
     bnd (traverse encode_into vs) (\<lambda>es. Inr (head 4 (of_nat (length vs)) @ concat es))"
| "encode_into (Map entries) =
     bnd (traverse encode_key entries) (\<lambda>keyed.
       let ordered = sort_key (\<lambda>kv. canonical_key (fst kv)) keyed
       in if adjacent_equal (map fst ordered) then Inl ''duplicate map key''
          else bnd (traverse (\<lambda>kv. bnd (encode_into (snd kv)) (\<lambda>ev. Inr (fst kv @ ev))) ordered)
                 (\<lambda>rows. Inr (head 5 (of_nat (length ordered)) @ concat rows)))"
  by pat_completeness auto
termination
proof (relation "measure size", goal_cases)
  case (2 vs v)
  then show ?case by simp
next
  case (3 entries keyed ordered kv)
  then have "kv \<in> set keyed" by simp
  from traverse_Inr_set [OF 3(1) this] obtain k where "(k, snd kv) \<in> set entries"
    by (force simp: encode_key_def bnd_eq_Inr)
  then show ?case by simp
qed simp

definition head_len :: "nat \<Rightarrow> nat" where
  "head_len n = (if n < 24 then 1 else if n \<le> 0xff then 2 else if n \<le> 0xffff then 3
                 else if n \<le> 0xffffffff then 5 else 9)"

definition bounded_add :: "nat \<Rightarrow> nat \<Rightarrow> limits \<Rightarrow> nat pres" where
  "bounded_add l r lim =
     bnd (ok_or ''encoded length overflow'' (checked_add l r)) (\<lambda>total.
       if max_bytes lim < total then Inl ''encoded CBOR exceeds byte bound'' else Inr total)"

text \<open>
  \<open>validate_value_bounds\<close> threads the item counter through the value: a result is the encoded
  length and the counter after it.
\<close>

definition count_item :: "limits \<Rightarrow> nat \<Rightarrow> nat \<Rightarrow> nat pres" where
  "count_item lim depth items =
     (if max_depth lim < depth then Inl ''CBOR depth exceeds bound''
      else bnd (ok_or ''item count overflow'' (checked_add items 1)) (\<lambda>items.
        if max_items lim < items then Inl ''CBOR item count exceeds bound'' else Inr items))"

definition text_bounds :: "string \<Rightarrow> limits \<Rightarrow> nat pres" where
  "text_bounds t lim =
     (if max_text_bytes lim < length t then Inl ''text exceeds bound''
      else if \<not> ascii_profile (str_bytes t) then Inl ''text is outside the native ASCII profile''
      else bounded_add (head_len (length t)) (length t) lim)"

definition check_total :: "limits \<Rightarrow> nat \<times> nat \<Rightarrow> (nat \<times> nat) pres" where
  "check_total lim r =
     (if max_bytes lim < fst r then Inl ''encoded CBOR exceeds byte bound'' else Inr r)"

text \<open>A key is validated as the text value it is, one level deeper.\<close>

definition key_bounds :: "string \<Rightarrow> nat \<Rightarrow> nat \<Rightarrow> limits \<Rightarrow> (nat \<times> nat) pres" where
  "key_bounds k depth items lim =
     bnd (count_item lim depth items) (\<lambda>items.
     bnd (text_bounds k lim) (\<lambda>n. check_total lim (n, items)))"

function validate_value_bounds :: "val \<Rightarrow> nat \<Rightarrow> nat \<Rightarrow> limits \<Rightarrow> (nat \<times> nat) pres" where
  "validate_value_bounds v depth items lim =
     bnd (count_item lim depth items) (\<lambda>items.
     bnd (case v of
         Text t \<Rightarrow> bnd (text_bounds t lim) (\<lambda>n. Inr (n, items))
       | Bytes bs \<Rightarrow> bnd (bounded_add (head_len (length bs)) (length bs) lim) (\<lambda>n. Inr (n, items))
       | Array vs \<Rightarrow>
           if max_collection_items lim < length vs then Inl ''array exceeds bound''
           else fold_res (\<lambda>w (total, items).
                  bnd (validate_value_bounds w (depth + 1) items lim) (\<lambda>(n, items).
                  bnd (bounded_add total n lim) (\<lambda>total. Inr (total, items))))
                vs (head_len (length vs), items)
       | Map entries \<Rightarrow>
           if max_collection_items lim < length entries then Inl ''map exceeds bound''
           else fold_res (\<lambda>kv (total, items).
                  bnd (key_bounds (fst kv) (depth + 1) items lim) (\<lambda>(n, items).
                  bnd (bounded_add total n lim) (\<lambda>total.
                  bnd (validate_value_bounds (snd kv) (depth + 1) items lim) (\<lambda>(n, items).
                  bnd (bounded_add total n lim) (\<lambda>total. Inr (total, items))))))
                entries (head_len (length entries), items)
       | Unsigned n \<Rightarrow> Inr (head_len (unat n), items)
       | _ \<Rightarrow> Inr (1, items))
     (check_total lim))"
  by pat_completeness auto
termination
  by (relation "measure (\<lambda>(v, d, i, l). size v)") auto

declare validate_value_bounds.simps [simp del]

definition encode_bounded :: "val \<Rightarrow> limits \<Rightarrow> bytes pres" where
  "encode_bounded v lim =
     bnd (validate_value_bounds v 0 0 lim) (\<lambda>(encoded_len, _).
     bnd (encode_into v) (\<lambda>out.
       if length out \<noteq> encoded_len then Inl ''encoded CBOR length accounting mismatch''
       else Inr out))"

subsection \<open>Decoding\<close>

record parser =
  p_at :: nat
  p_items :: nat

definition p_take :: "bytes \<Rightarrow> nat \<Rightarrow> parser \<Rightarrow> (bytes \<times> parser) pres" where
  "p_take b count st =
     bnd (ok_or ''length overflow'' (checked_add (p_at st) count)) (\<lambda>end_at.
       if length b < end_at then Inl ''truncated CBOR''
       else Inr (take count (drop (p_at st) b), st\<lparr>p_at := end_at\<rparr>))"

definition p_argument :: "bytes \<Rightarrow> u8 \<Rightarrow> parser \<Rightarrow> (u64 \<times> parser) pres" where
  "p_argument b additional st =
     (if additional \<le> 23 then Inr (ucast additional, st)
      else if additional = 24 then
        bnd (p_take b 1 st) (\<lambda>(bs, st).
          let v = ucast (hd bs) :: u64
          in if v < 24 then Inl ''non-shortest integer'' else Inr (v, st))
      else if additional = 25 then
        bnd (p_take b 2 st) (\<lambda>(bs, st).
          let v = ucast (from_be_bytes bs :: u16) :: u64
          in if v \<le> 0xff then Inl ''non-shortest integer'' else Inr (v, st))
      else if additional = 26 then
        bnd (p_take b 4 st) (\<lambda>(bs, st).
          let v = ucast (from_be_bytes bs :: u32) :: u64
          in if v \<le> 0xffff then Inl ''non-shortest integer'' else Inr (v, st))
      else if additional = 27 then
        bnd (p_take b 8 st) (\<lambda>(bs, st).
          let v = from_be_bytes bs :: u64
          in if v \<le> 0xffffffff then Inl ''non-shortest integer'' else Inr (v, st))
      else Inl ''indefinite/reserved CBOR length'')"

definition p_text :: "bytes \<Rightarrow> limits \<Rightarrow> nat \<Rightarrow> parser \<Rightarrow> (val \<times> parser) pres" where
  "p_text b lim len st =
     (if max_text_bytes lim < len then Inl ''text exceeds bound''
      else bnd (p_take b len st) (\<lambda>(bs, st).
        if \<not> valid_utf8 bs then Inl ''invalid UTF-8''
        else if \<not> ascii_profile bs then Inl ''text is outside the native ASCII profile''
        else Inr (Text (bytes_str bs), st)))"

text \<open>\<open>for _ in 0..len \{ out.push(self.value(depth + 1)?) \}\<close>.\<close>

fun parse_seq :: "nat \<Rightarrow> (parser \<Rightarrow> (val \<times> parser) pres) \<Rightarrow> parser \<Rightarrow> (val list \<times> parser) pres" where
  "parse_seq 0 f st = Inr ([], st)"
| "parse_seq (Suc n) f st =
     bnd (f st) (\<lambda>(v, st1). bnd (parse_seq n f st1) (\<lambda>(vs, st2). Inr (v # vs, st2)))"

lemma parse_seq_cong [fundef_cong]:
  assumes "n = n'" and "st = st'" and "\<And>s. f s = g s"
  shows "parse_seq n f st = parse_seq n' g st'"
  using assms by (metis ext)

text \<open>The map loop: keys must be text and strictly increasing in their encoded form.\<close>

fun parse_entries ::
  "bytes \<Rightarrow> nat \<Rightarrow> (parser \<Rightarrow> (val \<times> parser) pres) \<Rightarrow> bytes option \<Rightarrow> parser
   \<Rightarrow> ((string \<times> val) list \<times> parser) pres" where
  "parse_entries b 0 f prior st = Inr ([], st)"
| "parse_entries b (Suc n) f prior st =
     bnd (f st) (\<lambda>(key, st1).
       let encoded_key = take (p_at st1 - p_at st) (drop (p_at st) b)
       in if (case prior of None \<Rightarrow> False
              | Some previous \<Rightarrow> \<not> canonical_key previous < canonical_key encoded_key)
          then Inl ''map keys are duplicated or noncanonical''
          else (case key of
              Text k \<Rightarrow>
                bnd (f st1) (\<lambda>(v, st2).
                bnd (parse_entries b n f (Some encoded_key) st2) (\<lambda>(rest, st3).
                  Inr ((k, v) # rest, st3)))
            | _ \<Rightarrow> Inl ''map key is not text''))"

lemma parse_entries_cong [fundef_cong]:
  assumes "b = b'" and "n = n'" and "prior = prior'" and "st = st'" and "\<And>s. f s = g s"
  shows "parse_entries b n f prior st = parse_entries b' n' g prior' st'"
  using assms by (metis ext)

function parse_value :: "bytes \<Rightarrow> limits \<Rightarrow> nat \<Rightarrow> parser \<Rightarrow> (val \<times> parser) pres" where
  "parse_value b lim depth st =
     (if max_depth lim < depth then Inl ''CBOR depth exceeds bound''
      else
        bnd (ok_or ''item count overflow'' (checked_add (p_items st) 1)) (\<lambda>items.
        if max_items lim < items then Inl ''CBOR item count exceeds bound''
        else
          bnd (p_take b 1 (st\<lparr>p_items := items\<rparr>)) (\<lambda>(bs, st).
          let initial = hd bs; major = drop_bit 5 initial; additional = initial AND 31
          in if major = 0 then
               bnd (p_argument b additional st) (\<lambda>(n, st). Inr (Unsigned n, st))
             else if major = 1 then Inl ''negative integers are not admitted''
             else if major = 2 then
               bnd (p_argument b additional st) (\<lambda>(n, st).
               bnd (p_take b (unat n) st) (\<lambda>(bs, st). Inr (Bytes bs, st)))
             else if major = 3 then
               bnd (p_argument b additional st) (\<lambda>(n, st). p_text b lim (unat n) st)
             else if major = 4 then
               bnd (p_argument b additional st) (\<lambda>(n, st).
               bnd (if max_collection_items lim < unat n then Inr True
                    else bnd (ok_or ''item count overflow'' (checked_add (p_items st) (unat n)))
                           (\<lambda>total. Inr (max_items lim < total))) (\<lambda>over.
               if over then Inl ''array exceeds bound''
               else bnd (parse_seq (unat n) (parse_value b lim (depth + 1)) st)
                      (\<lambda>(vs, st). Inr (Array vs, st))))
             else if major = 5 then
               bnd (p_argument b additional st) (\<lambda>(n, st).
               bnd (if max_collection_items lim < unat n then Inr True
                    else bnd (ok_or ''item count overflow''
                                (checked_add (p_items st) (saturating_mul (unat n) 2)))
                           (\<lambda>total. Inr (max_items lim < total))) (\<lambda>over.
               if over then Inl ''map exceeds bound''
               else bnd (parse_entries b (unat n) (parse_value b lim (depth + 1)) None st)
                      (\<lambda>(es, st). Inr (Map es, st))))
             else if major = 6 then Inl ''CBOR tags are not admitted''
             else if additional = 20 then Inr (Bool False, st)
             else if additional = 21 then Inr (Bool True, st)
             else if additional = 22 then Inr (Null, st)
             else Inl ''floats/simple values are not admitted'')))"
  by pat_completeness auto
termination
  by (relation "measure (\<lambda>(b, lim, depth, st). max_depth lim + 1 - depth)") auto

declare parse_value.simps [simp del]

definition decode_canonical :: "bytes \<Rightarrow> limits \<Rightarrow> val pres" where
  "decode_canonical b lim =
     (if b = [] \<or> max_bytes lim < length b then Inl ''CBOR byte length is invalid''
      else
        bnd (parse_value b lim 0 \<lparr>p_at = 0, p_items = 0\<rparr>) (\<lambda>(v, st).
        if p_at st \<noteq> length b then Inl ''trailing CBOR bytes''
        else bnd (encode_bounded v lim) (\<lambda>out.
          if out \<noteq> b then Inl ''CBOR is not canonical'' else Inr v)))"

end
