(* ===== verification/Cbor_Encode.thy ===== *)
theory Cbor_Encode
  imports Cbor "HOL-Library.Multiset"
begin

section \<open>What the two passes of the encoder compute\<close>

text \<open>
  The reference functions of the codec: \<open>enc\<close> is the encoding without error paths, \<open>canon\<close>
  sorts every map, \<open>encodable\<close>, \<open>fits\<close>, \<open>vcount\<close> and \<open>elen\<close> say what the two passes of
  \<open>encode_bounded\<close> check and compute. The lemmas relate the encoder's two passes and the parser
  to them.
\<close>

subsection \<open>Reference functions\<close>

definition enck :: "string \<Rightarrow> bytes" where
  "enck k = head 3 (of_nat (length k)) @ str_bytes k"

definition entry_key :: "string \<times> 'a \<Rightarrow> nat \<times> bytes" where
  "entry_key kv = canonical_key (enck (fst kv))"

function enc :: "val \<Rightarrow> bytes" where
  "enc Null = [0xf6]"
| "enc (Bool b) = [if b then 0xf5 else 0xf4]"
| "enc (Unsigned n) = head 0 n"
| "enc (Bytes bs) = head 2 (of_nat (length bs)) @ bs"
| "enc (Text t) = enck t"
| "enc (Array vs) = head 4 (of_nat (length vs)) @ concat (map enc vs)"
| "enc (Map es) =
     head 5 (of_nat (length es)) @ concat (map (\<lambda>kv. enck (fst kv) @ enc (snd kv)) (sort_key entry_key es))"
  by pat_completeness auto
termination by (relation "measure size") auto

function canon :: "val \<Rightarrow> val" where
  "canon Null = Null"
| "canon (Bool b) = Bool b"
| "canon (Unsigned n) = Unsigned n"
| "canon (Bytes bs) = Bytes bs"
| "canon (Text t) = Text t"
| "canon (Array vs) = Array (map canon vs)"
| "canon (Map es) = Map (map (\<lambda>kv. (fst kv, canon (snd kv))) (sort_key entry_key es))"
  by pat_completeness auto
termination by (relation "measure size") auto

fun encodable :: "val \<Rightarrow> bool" where
  "encodable (Text t) \<longleftrightarrow> ascii_profile (str_bytes t)"
| "encodable (Array vs) \<longleftrightarrow> (\<forall>v\<in>set vs. encodable v)"
| "encodable (Map es) \<longleftrightarrow>
     distinct (map fst es) \<and> (\<forall>kv\<in>set es. ascii_profile (str_bytes (fst kv)) \<and> encodable (snd kv))"
| "encodable _ \<longleftrightarrow> True"

fun vcount :: "val \<Rightarrow> nat" where
  "vcount (Array vs) = Suc (sum_list (map vcount vs))"
| "vcount (Map es) = Suc (sum_list (map (\<lambda>kv. Suc (vcount (snd kv))) es))"
| "vcount _ = 1"

definition tlen :: "string \<Rightarrow> nat" where
  "tlen t = head_len (length t) + length t"

fun elen :: "val \<Rightarrow> nat" where
  "elen (Unsigned n) = head_len (unat n)"
| "elen (Bytes bs) = head_len (length bs) + length bs"
| "elen (Text t) = tlen t"
| "elen (Array vs) = head_len (length vs) + sum_list (map elen vs)"
| "elen (Map es) = head_len (length es) + sum_list (map (\<lambda>kv. tlen (fst kv) + elen (snd kv)) es)"
| "elen _ = 1"

definition fits_text :: "limits \<Rightarrow> string \<Rightarrow> bool" where
  "fits_text lim t \<longleftrightarrow> length t \<le> max_text_bytes lim \<and> ascii_profile (str_bytes t)"

fun fits :: "limits \<Rightarrow> nat \<Rightarrow> val \<Rightarrow> bool" where
  "fits lim d (Text t) \<longleftrightarrow> d \<le> max_depth lim \<and> fits_text lim t"
| "fits lim d (Array vs) \<longleftrightarrow>
     d \<le> max_depth lim \<and> length vs \<le> max_collection_items lim \<and> (\<forall>v\<in>set vs. fits lim (Suc d) v)"
| "fits lim d (Map es) \<longleftrightarrow>
     d \<le> max_depth lim \<and> length es \<le> max_collection_items lim
     \<and> (\<forall>kv\<in>set es. Suc d \<le> max_depth lim \<and> fits_text lim (fst kv) \<and> fits lim (Suc d) (snd kv))"
| "fits lim d _ \<longleftrightarrow> d \<le> max_depth lim"

definition usize_limits :: "limits \<Rightarrow> bool" where
  "usize_limits lim \<longleftrightarrow> max_bytes lim \<le> usize_max \<and> max_items lim \<le> usize_max"

text \<open>An induction rule for values that goes through arrays and maps.\<close>

lemma val_induct [case_names Leaf Array Map]:
  assumes leaf: "\<And>v. \<lbrakk>\<And>vs. v \<noteq> Array vs; \<And>es. v \<noteq> Map es\<rbrakk> \<Longrightarrow> P v"
    and array: "\<And>vs. (\<And>v. v \<in> set vs \<Longrightarrow> P v) \<Longrightarrow> P (Array vs)"
    and map: "\<And>es. (\<And>kv. kv \<in> set es \<Longrightarrow> P (snd kv)) \<Longrightarrow> P (Map es)"
  shows "P v"
proof (induction v rule: measure_induct_rule [where f = size])
  case (less v)
  show ?case
  proof (cases v)
    case (Array vs)
    with less show ?thesis by (auto intro: array)
  next
    case (Map es)
    show ?thesis unfolding Map
    proof (rule map)
      fix kv assume "kv \<in> set es"
      then have "(fst kv, snd kv) \<in> set es" by simp
      from val_size_Map [OF this] have "size (snd kv) < size v"
        by (simp only: Map val.size add_Suc_right add_0_right)
      then show "P (snd kv)" by (rule less)
    qed
  qed (simp_all add: leaf)
qed

subsection \<open>The first pass of the encoder\<close>

lemma bounded_add_iff:
  "usize_limits lim \<Longrightarrow> bounded_add l r lim = Inr n \<longleftrightarrow> n = l + r \<and> l + r \<le> max_bytes lim"
  by (auto simp: bounded_add_def bnd_eq_Inr checked_add_def usize_limits_def)

lemma count_item_iff:
  "usize_limits lim \<Longrightarrow>
   count_item lim d i = Inr j \<longleftrightarrow> d \<le> max_depth lim \<and> j = Suc i \<and> Suc i \<le> max_items lim"
  by (auto simp: count_item_def bnd_eq_Inr checked_add_def usize_limits_def)

lemma text_bounds_iff:
  "usize_limits lim \<Longrightarrow>
   text_bounds t lim = Inr n \<longleftrightarrow> fits_text lim t \<and> n = tlen t \<and> tlen t \<le> max_bytes lim"
  by (auto simp: text_bounds_def bounded_add_iff fits_text_def tlen_def)

lemma check_total_iff [simp]: "check_total lim r = Inr r' \<longleftrightarrow> r' = r \<and> fst r \<le> max_bytes lim"
  by (auto simp: check_total_def)

lemma key_bounds_iff:
  "usize_limits lim \<Longrightarrow>
   key_bounds k d i lim = Inr (n, j) \<longleftrightarrow>
     d \<le> max_depth lim \<and> fits_text lim k \<and> j = Suc i \<and> Suc i \<le> max_items lim
     \<and> n = tlen k \<and> tlen k \<le> max_bytes lim"
  by (auto simp: key_bounds_def bnd_eq_Inr count_item_iff text_bounds_iff)

lemma fold_res_bounded:
  assumes "\<And>x t i t' i'. x \<in> set xs \<Longrightarrow> f x (t, i) = Inr (t', i') \<longleftrightarrow>
      P x \<and> t' = t + e x \<and> i' = i + c x \<and> t' \<le> mb \<and> i' \<le> (mi :: nat)"
  shows "fold_res f xs (t, i) = Inr (t', i') \<longleftrightarrow>
     (\<forall>x\<in>set xs. P x) \<and> t' = t + sum_list (map e xs) \<and> i' = i + sum_list (map c xs)
     \<and> (xs = [] \<or> (t' \<le> (mb :: nat) \<and> i' \<le> mi))"
  using assms
proof (induction xs arbitrary: t i)
  case Nil
  then show ?case by auto
next
  case (Cons x xs)
  have IH: "fold_res f xs (t, i) = Inr (t', i') \<longleftrightarrow>
     (\<forall>x\<in>set xs. P x) \<and> t' = t + sum_list (map e xs) \<and> i' = i + sum_list (map c xs)
     \<and> (xs = [] \<or> (t' \<le> mb \<and> i' \<le> mi))" for t i
    by (rule Cons.IH) (simp add: Cons.prems)
  have "fold_res f (x # xs) (t, i) = Inr (t', i') \<longleftrightarrow>
      P x \<and> t + e x \<le> mb \<and> i + c x \<le> mi \<and> fold_res f xs (t + e x, i + c x) = Inr (t', i')"
    by (auto simp: bnd_eq_Inr Cons.prems)
  then show ?case by (auto simp: IH)
qed

lemma validate_value_bounds_iff:
  assumes lim: "usize_limits lim"
  shows "validate_value_bounds v d i lim = Inr (n, j) \<longleftrightarrow>
    fits lim d v \<and> j = i + vcount v \<and> j \<le> max_items lim \<and> n = elen v \<and> n \<le> max_bytes lim"
proof (induction v arbitrary: d i n j rule: val_induct)
  case (Leaf v)
  then show ?case
    by (cases v; subst validate_value_bounds.simps)
      (auto simp: bnd_eq_Inr count_item_iff [OF lim] text_bounds_iff [OF lim] bounded_add_iff [OF lim])
next
  case (Array vs)
  let ?f = "\<lambda>w (total, items).
      bnd (validate_value_bounds w (Suc d) items lim) (\<lambda>(n, items).
      bnd (bounded_add total n lim) (\<lambda>total. Inr (total, items)))"
  have step: "?f w (t, i) = Inr (t', i') \<longleftrightarrow> fits lim (Suc d) w \<and> t' = t + elen w \<and> i' = i + vcount w
      \<and> t' \<le> max_bytes lim \<and> i' \<le> max_items lim" if "w \<in> set vs" for w t i t' i'
    using that by (auto simp: bnd_eq_Inr Array bounded_add_iff [OF lim])
  have fold: "fold_res ?f vs (t, i) = Inr (t', i') \<longleftrightarrow> (\<forall>w\<in>set vs. fits lim (Suc d) w)
      \<and> t' = t + sum_list (map elen vs) \<and> i' = i + sum_list (map vcount vs)
      \<and> (vs = [] \<or> (t' \<le> max_bytes lim \<and> i' \<le> max_items lim))" for t i t' i'
    by (rule fold_res_bounded) (rule step)
  show ?case
    by (subst validate_value_bounds.simps)
      (auto simp: bnd_eq_Inr count_item_iff [OF lim] fold simp del: split_paired_Ex)
next
  case (Map es)
  let ?f = "\<lambda>kv (total, items).
      bnd (key_bounds (fst kv) (Suc d) items lim) (\<lambda>(n, items).
      bnd (bounded_add total n lim) (\<lambda>total.
      bnd (validate_value_bounds (snd kv) (Suc d) items lim) (\<lambda>(n, items).
      bnd (bounded_add total n lim) (\<lambda>total. Inr (total, items)))))"
  have step: "?f kv (t, i) = Inr (t', i') \<longleftrightarrow>
      (Suc d \<le> max_depth lim \<and> fits_text lim (fst kv) \<and> fits lim (Suc d) (snd kv))
      \<and> t' = t + (tlen (fst kv) + elen (snd kv)) \<and> i' = i + Suc (vcount (snd kv))
      \<and> t' \<le> max_bytes lim \<and> i' \<le> max_items lim" if "kv \<in> set es" for kv t i t' i'
    using that by (auto simp: bnd_eq_Inr Map bounded_add_iff [OF lim] key_bounds_iff [OF lim])
  have fold: "fold_res ?f es (t, i) = Inr (t', i') \<longleftrightarrow>
      (\<forall>kv\<in>set es. Suc d \<le> max_depth lim \<and> fits_text lim (fst kv) \<and> fits lim (Suc d) (snd kv))
      \<and> t' = t + sum_list (map (\<lambda>kv. tlen (fst kv) + elen (snd kv)) es)
      \<and> i' = i + sum_list (map (\<lambda>kv. Suc (vcount (snd kv))) es)
      \<and> (es = [] \<or> (t' \<le> max_bytes lim \<and> i' \<le> max_items lim))" for t i t' i'
    by (rule fold_res_bounded) (rule step)
  show ?case
    by (subst validate_value_bounds.simps)
      (auto simp: bnd_eq_Inr count_item_iff [OF lim] fold simp del: split_paired_Ex)
qed


subsection \<open>The second pass of the encoder\<close>

lemma length_head: "length (head m n) = head_len (unat n)"
  by (auto simp: head_def head_len_def word_less_nat_alt word_le_nat_alt)

lemma head_len_pos [simp]: "0 < head_len n"
  by (simp add: head_len_def)

definition additional :: "u64 \<Rightarrow> u8" where
  "additional n = (if n < 24 then ucast n else if n \<le> 0xff then 24 else if n \<le> 0xffff then 25
     else if n \<le> 0xffffffff then 26 else 27)"

definition argument_bytes :: "u64 \<Rightarrow> bytes" where
  "argument_bytes n = (if n < 24 then [] else if n \<le> 0xff then [ucast n]
     else if n \<le> 0xffff then to_be_bytes 2 (ucast n :: u16)
     else if n \<le> 0xffffffff then to_be_bytes 4 (ucast n :: u32) else to_be_bytes 8 n)"

lemma head_eq: "head m n = (push_bit 5 m OR additional n) # argument_bytes n"
  by (simp add: head_def additional_def argument_bytes_def)

lemma unat_ucast_small: "unat n < 256 \<Longrightarrow> unat (ucast (n :: u64) :: u8) = unat n"
  by (simp add: unsigned_ucast_eq take_bit_nat_eq_self_iff)

lemma additional_bound: "additional n < 32"
  by (simp add: additional_def word_less_nat_alt unat_ucast_small)

lemma length_argument_bytes:
  "length (argument_bytes n) = (if additional n = 24 then 1 else if additional n = 25 then 2
     else if additional n = 26 then 4 else if additional n = 27 then 8 else 0)"
proof (cases "n < 24")
  case True
  then have "unat (additional n) < 24"
    by (simp add: additional_def word_less_nat_alt unat_ucast_small)
  then have "additional n \<noteq> 24" "additional n \<noteq> 25" "additional n \<noteq> 26" "additional n \<noteq> 27" by auto
  then show ?thesis using True by (simp add: argument_bytes_def)
next
  case False
  then show ?thesis by (simp add: argument_bytes_def additional_def)
qed

lemma take_bit_word_self: "unat (w :: 'a::len word) < 2 ^ n \<Longrightarrow> take_bit n w = w"
  by (simp add: word_unat_eq_iff unsigned_take_bit_eq take_bit_nat_eq_self_iff)

lemma initial_split:
  assumes "m < (8 :: u8)" and "a < 32"
  shows "drop_bit 5 (push_bit 5 m OR a) = m" and "(push_bit 5 m OR a) AND 31 = a"
proof -
  have m: "take_bit 3 m = m" using assms by (simp add: take_bit_word_self word_less_nat_alt)
  have a: "take_bit 5 a = a" using assms by (simp add: take_bit_word_self word_less_nat_alt)
  have mask: "(31 :: u8) = mask 5" by (simp add: mask_eq_exp_minus_1)
  have bm: "\<not> bit m i" if "3 \<le> i" for i using that by (subst m [symmetric]) (simp add: bit_take_bit_iff)
  have ba: "\<not> bit a i" if "5 \<le> i" for i using that by (subst a [symmetric]) (simp add: bit_take_bit_iff)
  have bm': "bit m i \<Longrightarrow> i < 3" for i using bm not_le by blast
  show "drop_bit 5 (push_bit 5 m OR a) = m"
    by (rule bit_eqI) (auto simp: bit_simps ba dest: bm')
  show "(push_bit 5 m OR a) AND 31 = a"
    unfolding mask by (rule bit_eqI) (auto simp: bit_simps bm ba not_le[symmetric] dest: ba)
qed

lemma initial_join: "push_bit 5 (drop_bit 5 x) OR (x AND 31) = (x :: u8)"
proof -
  have mask: "(31 :: u8) = mask 5" by (simp add: mask_eq_exp_minus_1)
  show ?thesis unfolding mask by (rule bit_eqI) (auto simp: bit_simps)
qed

lemma three_less_8: "(3 :: u8) < 8"
  by simp

lemma enck_inj: "enck k = enck k' \<Longrightarrow> k = k'"
proof -
  assume eq: "enck k = enck k'"
  let ?n = "of_nat (length k) :: u64" and ?n' = "of_nat (length k') :: u64"
  have "push_bit 5 3 OR additional ?n = push_bit 5 3 OR additional ?n'"
    using eq by (simp add: enck_def head_eq)
  then have "additional ?n = additional ?n'"
    using initial_split(2) [of 3, OF _ additional_bound] by (metis three_less_8)
  then have "length (argument_bytes ?n) = length (argument_bytes ?n')"
    by (simp add: length_argument_bytes)
  then show "k = k'" using eq by (simp add: enck_def head_eq)
qed


lemma entry_key_eq_iff [simp]: "entry_key kv = entry_key kv' \<longleftrightarrow> fst kv = fst kv'"
  by (auto simp: entry_key_def canonical_key_def dest: enck_inj)

lemma adjacent_equal_sorted:
  "sorted (map f xs) \<Longrightarrow> (\<And>x y. f x = f y \<longleftrightarrow> g x = g y) \<Longrightarrow>
   adjacent_equal (map g xs) \<longleftrightarrow> \<not> distinct (map g xs)"
proof (induction "map g xs" arbitrary: xs rule: adjacent_equal.induct)
  case (1 gx gy gs)
  then obtain x y ys where xs: "xs = x # y # ys" "gx = g x" "gy = g y" "gs = map g ys" by auto
  have eq: "f x = f y \<longleftrightarrow> g x = g y" for x y by (rule 1(4))
  have tl: "adjacent_equal (map g (y # ys)) \<longleftrightarrow> \<not> distinct (map g (y # ys))"
    using 1(1) [of "y # ys"] 1(3) xs eq by simp
  have "g x = g y" if z: "z \<in> set ys" "g x = g z" for z
  proof -
    from 1(3) z xs have "f y \<le> f z" "f x \<le> f y" by auto
    moreover from z eq have "f x = f z" by simp
    ultimately have "f x = f y" by simp
    then show ?thesis by (simp add: eq)
  qed
  then have "g x \<in> g ` set (y # ys) \<longleftrightarrow> g x = g y" by auto
  then show ?case using tl by (auto simp: xs)
qed auto

lemma sorted_map_sort_key: "sorted (map f (sort_key f xs))"
  by (induction xs) (simp_all add: sorted_insort_key)

lemma insort_key_map: "insort_key f (g x) (map g ys) = map g (insort_key (\<lambda>x. f (g x)) x ys)"
  by (induction ys) simp_all

lemma sort_key_map: "sort_key f (map g xs) = map g (sort_key (\<lambda>x. f (g x)) xs)"
  by (induction xs) (simp_all add: insort_key_map)

lemma sum_list_sort_key: "sum_list (map f (sort_key k xs)) = (sum_list (map f xs) :: nat)"
  by (metis mset_map mset_sort sum_mset_sum_list)

lemma distinct_map_sort_key: "distinct (map f (sort_key k xs)) \<longleftrightarrow> distinct (map f xs)"
  by (metis mset_eq_imp_distinct_iff mset_map mset_sort)

lemma length_le_sum_list:
  "(\<And>x. x \<in> set xs \<Longrightarrow> 0 < f x) \<Longrightarrow> length xs \<le> sum_list (map f xs)" for f :: "'a \<Rightarrow> nat"
proof (induction xs)
  case (Cons x xs)
  then have "0 < f x" "length xs \<le> sum_list (map f xs)" by auto
  then show ?case by simp
qed simp

lemma encode_text_iff: "encode_text t = Inr e \<longleftrightarrow> ascii_profile (str_bytes t) \<and> e = enck t"
  by (auto simp: encode_text_def enck_def)

lemma traverse_encode_key:
  "traverse encode_key es = Inr keyed \<longleftrightarrow>
     (\<forall>kv\<in>set es. ascii_profile (str_bytes (fst kv))) \<and> keyed = map (\<lambda>kv. (enck (fst kv), snd kv)) es"
  by (induction es arbitrary: keyed) (auto simp: bnd_eq_Inr encode_key_def encode_text_iff)

lemma traverse_encode:
  assumes "\<And>x e. x \<in> set xs \<Longrightarrow> f x = Inr e \<longleftrightarrow> P x \<and> e = g x"
  shows "traverse f xs = Inr es \<longleftrightarrow> (\<forall>x\<in>set xs. P x) \<and> es = map g xs"
  using assms by (induction xs arbitrary: es) (auto simp: bnd_eq_Inr)

lemma encode_into_iff: "encode_into v = Inr e \<longleftrightarrow> encodable v \<and> e = enc v"
proof (induction v arbitrary: e rule: val_induct)
  case (Leaf v)
  then show ?case by (cases v) (auto simp: encode_text_iff)
next
  case (Array vs)
  then show ?case by (auto simp: bnd_eq_Inr traverse_encode [where P = encodable and g = enc])
next
  case (Map es)
  let ?g = "\<lambda>kv :: string \<times> val. (enck (fst kv), snd kv)"
  let ?ordered = "map ?g (sort_key entry_key es)"
  have ordered: "sort_key (\<lambda>kv. canonical_key (fst kv)) (map ?g es) = ?ordered"
    by (simp add: sort_key_map entry_key_def [abs_def])
  have eq: "entry_key kv = entry_key kv' \<longleftrightarrow> enck (fst kv) = enck (fst kv')" for kv kv' :: "string \<times> val"
    by (auto dest: enck_inj)
  have "adjacent_equal (map (\<lambda>kv. enck (fst kv)) (sort_key entry_key es))
      \<longleftrightarrow> \<not> distinct (map (\<lambda>kv. enck (fst kv)) (sort_key entry_key es))"
    by (rule adjacent_equal_sorted [OF sorted_map_sort_key eq])
  also have "\<dots> \<longleftrightarrow> \<not> distinct (map enck (map fst es))"
    by (simp add: distinct_map_sort_key comp_def)
  also have "\<dots> \<longleftrightarrow> \<not> distinct (map fst es)"
    using distinct_map [of enck "map fst es"] by (auto simp: inj_on_def dest: enck_inj)
  finally have dup: "adjacent_equal (map fst ?ordered) \<longleftrightarrow> \<not> distinct (map fst es)"
    by (simp add: comp_def)
  have rows: "traverse (\<lambda>kv. bnd (encode_into (snd kv)) (\<lambda>ev. Inr (fst kv @ ev))) ?ordered = Inr rs \<longleftrightarrow>
      (\<forall>kv\<in>set es. encodable (snd kv)) \<and> rs = map (\<lambda>kv. enck (fst kv) @ enc (snd kv)) (sort_key entry_key es)" for rs
  proof -
    have "bnd (encode_into (snd kv)) (\<lambda>ev. Inr (fst kv @ ev)) = Inr e \<longleftrightarrow>
        encodable (snd kv) \<and> e = fst kv @ enc (snd kv)" if "kv \<in> set ?ordered" for kv e
    proof -
      from that obtain kv' where "kv' \<in> set es" "snd kv = snd kv'" by auto
      then show ?thesis by (auto simp: bnd_eq_Inr Map)
    qed
    from traverse_encode [of ?ordered, OF this] show ?thesis by (simp add: comp_def)
  qed
  show ?case
    by (simp add: bnd_eq_Inr traverse_encode_key Let_def ordered dup rows del: map_map) auto
qed

lemma length_enck: "length k \<le> usize_max \<Longrightarrow> length (enck k) = tlen k"
  by (simp add: enck_def tlen_def length_head unat_of_nat_u64)

lemma elen_pos: "0 < elen v"
  by (cases v) (simp_all add: tlen_def)

lemma length_enc: "elen v \<le> usize_max \<Longrightarrow> length (enc v) = elen v"
proof (induction v rule: val_induct)
  case (Leaf v)
  then show ?case by (cases v) (auto simp: length_head unat_of_nat_u64 length_enck tlen_def)
next
  case (Array vs)
  have lens: "map (\<lambda>v. length (enc v)) vs = map elen vs"
  proof (rule map_cong)
    fix v assume v: "v \<in> set vs"
    then have "elen v \<le> sum_list (map elen vs)" by (simp add: member_le_sum_list)
    then show "length (enc v) = elen v" using Array v by simp
  qed simp
  have "length vs \<le> usize_max"
    using length_le_sum_list [of vs elen] Array(2) by (simp add: elen_pos)
  then show ?case by (simp add: length_head unat_of_nat_u64 length_concat comp_def lens del: map_eq_conv)
next
  case (Map es)
  let ?f = "\<lambda>kv :: string \<times> val. tlen (fst kv) + elen (snd kv)"
  have lens: "map (\<lambda>kv. length (enck (fst kv) @ enc (snd kv))) (sort_key entry_key es)
      = map ?f (sort_key entry_key es)"
  proof (rule map_cong)
    fix kv assume "kv \<in> set (sort_key entry_key es)"
    then have kv: "kv \<in> set es" by simp
    then have "?f kv \<le> sum_list (map ?f es)" by (simp add: member_le_sum_list)
    then have "?f kv \<le> usize_max" using Map(2) by simp
    then have "length (fst kv) \<le> usize_max" "elen (snd kv) \<le> usize_max" by (simp_all add: tlen_def)
    then show "length (enck (fst kv) @ enc (snd kv)) = ?f kv"
      using Map(1) [OF kv] by (simp add: length_enck)
  qed simp
  have "length es \<le> usize_max"
    using length_le_sum_list [of es ?f] Map(2) by (simp add: elen_pos)
  moreover have "length (concat (map (\<lambda>kv. enck (fst kv) @ enc (snd kv)) (sort_key entry_key es)))
      = sum_list (map ?f es)"
    using lens by (simp add: length_concat comp_def sum_list_sort_key del: map_eq_conv length_append)
  ultimately show ?case by (simp add: length_head unat_of_nat_u64)
qed

end
