(* ===== verification/Cbor_Parse.thy ===== *)
theory Cbor_Parse
  imports Cbor_Encode
begin

section \<open>What one step of the parser accepts\<close>

text \<open>
  Each reading step of the parser as an equivalence: \<open>p_take\<close>, \<open>p_argument\<close> and \<open>parse_value\<close>
  return a result exactly when the bytes at the position are the encoder's for that result.
\<close>

subsection \<open>Occurrences in the input\<close>

definition occurs :: "bytes \<Rightarrow> nat \<Rightarrow> bytes \<Rightarrow> bool" where
  "occurs b p xs \<longleftrightarrow> p \<le> length b \<and> (\<exists>rest. drop p b = xs @ rest)"

lemma occurs_alt: "occurs b p xs \<longleftrightarrow> p + length xs \<le> length b \<and> take (length xs) (drop p b) = xs"
proof
  assume "occurs b p xs"
  then obtain rest where "p \<le> length b" "drop p b = xs @ rest" by (auto simp: occurs_def)
  moreover from this have "length b - p = length xs + length rest" by (metis length_append length_drop)
  ultimately show "p + length xs \<le> length b \<and> take (length xs) (drop p b) = xs" by simp
next
  assume *: "p + length xs \<le> length b \<and> take (length xs) (drop p b) = xs"
  then have "drop p b = xs @ drop (length xs) (drop p b)"
    by (metis append_take_drop_id)
  then show "occurs b p xs" using * by (auto simp: occurs_def)
qed

lemma occurs_append: "occurs b p (xs @ ys) \<longleftrightarrow> occurs b p xs \<and> occurs b (p + length xs) ys"
proof -
  have "drop (p + length xs) b = drop (length xs) (drop p b)" by (simp add: add.commute)
  then show ?thesis
    unfolding occurs_alt by (auto simp: take_add)
qed

lemma occurs_Nil [simp]: "occurs b p [] \<longleftrightarrow> p \<le> length b"
  by (simp add: occurs_def)

lemma occurs_Cons: "occurs b p (x # xs) \<longleftrightarrow> p < length b \<and> b ! p = x \<and> occurs b (Suc p) xs"
proof -
  have "occurs b p [x] \<longleftrightarrow> p < length b \<and> b ! p = x"
    by (auto simp: occurs_alt take_Suc_conv_app_nth hd_drop_conv_nth take_Suc_Cons take_Suc)
  then show ?thesis using occurs_append [of b p "[x]" xs] by simp
qed

lemma occurs_bound: "occurs b p xs \<Longrightarrow> p + length xs \<le> length b"
  by (simp add: occurs_alt)

lemma occurs_take: "occurs b p xs \<Longrightarrow> take (length xs) (drop p b) = xs"
  by (simp add: occurs_alt)

lemma p_take_iff:
  "length b \<le> usize_max \<Longrightarrow>
   p_take b n st = Inr (xs, st') \<longleftrightarrow>
     length xs = n \<and> occurs b (p_at st) xs \<and> st' = st\<lparr>p_at := p_at st + n\<rparr>"
  by (auto simp: p_take_def bnd_eq_Inr checked_add_def occurs_alt)

lemma ucast_eq_of_unat: "unat n = unat w \<Longrightarrow> n = ucast w"
  by (metis of_nat_unat ucast_id)

lemma word_bytes_iff:
  assumes "LENGTH('a::len) = 8 * k" and "LENGTH('a) \<le> 64"
  shows "length xs = k \<and> n = (ucast (from_be_bytes xs :: 'a word) :: u64) \<longleftrightarrow>
     unat n < 2 ^ (8 * k) \<and> xs = to_be_bytes k (ucast n :: 'a word)"
proof
  assume *: "length xs = k \<and> n = (ucast (from_be_bytes xs :: 'a word) :: u64)"
  let ?w = "from_be_bytes xs :: 'a word"
  have "unat ?w < 2 ^ (8 * k)" using unat_from_be_bytes_less [of xs, where 'a = 'a] * by simp
  moreover have "2 ^ (8 * k) \<le> (2 ^ 64 :: nat)" using assms by (intro power_increasing) simp_all
  ultimately have n: "unat n = unat ?w"
    using * by (simp add: unsigned_ucast_eq take_bit_nat_eq_self_iff)
  from n [symmetric] have "?w = ucast n" by (rule ucast_eq_of_unat)
  then show "unat n < 2 ^ (8 * k) \<and> xs = to_be_bytes k (ucast n :: 'a word)"
    using n \<open>unat ?w < 2 ^ (8 * k)\<close> * to_from_be_bytes [of xs, where 'a = 'a] assms by auto
next
  assume *: "unat n < 2 ^ (8 * k) \<and> xs = to_be_bytes k (ucast n :: 'a word)"
  then have w: "from_be_bytes xs = (ucast n :: 'a word)" by (simp add: from_to_be_bytes assms)
  have "unat (ucast n :: 'a word) = unat n"
    using * assms by (simp add: unsigned_ucast_eq take_bit_nat_eq_self_iff)
  from this [symmetric] have "n = ucast (ucast n :: 'a word)" by (rule ucast_eq_of_unat)
  then show "length xs = k \<and> n = (ucast (from_be_bytes xs :: 'a word) :: u64)"
    using w * by simp
qed

lemma be_argument_iff:
  assumes "length b \<le> usize_max" and "LENGTH('a::len) = 8 * k" and "LENGTH('a) \<le> 64"
  shows "bnd (p_take b k st) (\<lambda>(bs, st). let v = ucast (from_be_bytes bs :: 'a word) :: u64
           in if v \<le> lo then Inl e else Inr (v, st)) = Inr (n, st') \<longleftrightarrow>
     lo < n \<and> unat n < 2 ^ (8 * k) \<and> occurs b (p_at st) (to_be_bytes k (ucast n :: 'a word))
     \<and> st' = st\<lparr>p_at := p_at st + k\<rparr>"
proof -
  have "bnd (p_take b k st) (\<lambda>(bs, st). let v = ucast (from_be_bytes bs :: 'a word) :: u64
           in if v \<le> lo then Inl e else Inr (v, st)) = Inr (n, st') \<longleftrightarrow>
     (\<exists>xs. (length xs = k \<and> n = (ucast (from_be_bytes xs :: 'a word) :: u64)) \<and> lo < n
       \<and> occurs b (p_at st) xs \<and> st' = st\<lparr>p_at := p_at st + k\<rparr>)"
    by (simp add: bnd_eq_Inr p_take_iff [OF assms(1)] Let_def not_le) blast
  also have "\<dots> \<longleftrightarrow> (\<exists>xs. (unat n < 2 ^ (8 * k) \<and> xs = to_be_bytes k (ucast n :: 'a word)) \<and> lo < n
       \<and> occurs b (p_at st) xs \<and> st' = st\<lparr>p_at := p_at st + k\<rparr>)"
    by (simp only: word_bytes_iff [OF assms(2,3)])
  finally show ?thesis by blast
qed

lemma additional_unat:
  "unat (additional n) = (if unat n < 24 then unat n else if unat n \<le> 255 then 24
     else if unat n \<le> 65535 then 25 else if unat n \<le> 4294967295 then 26 else 27)"
  by (simp add: additional_def word_less_nat_alt word_le_nat_alt unat_ucast_small)

lemma p_argument_iff:
  assumes b: "length b \<le> usize_max" and p: "p_at st \<le> length b" and a: "a < 32"
  shows "p_argument b a st = Inr (n, st') \<longleftrightarrow>
     a = additional n \<and> occurs b (p_at st) (argument_bytes n)
     \<and> st' = st\<lparr>p_at := p_at st + length (argument_bytes n)\<rparr>"
proof -
  have n64: "unat n < 18446744073709551616" using unsigned_less [of n, where 'a = nat] by simp
  have eq: "a = additional n \<longleftrightarrow> unat a = unat (additional n)" by (simp add: word_unat_eq_iff)
  consider "unat a \<le> 23" | "a = 24" | "a = 25" | "a = 26" | "a = 27" | "27 < unat a"
    using word_unat_eq_iff [of a] by fastforce
  then show ?thesis
  proof cases
    case 1
    have "n = ucast a \<longleftrightarrow> unat n = unat a"
      using unsigned_less [of a, where 'a = nat] by (auto simp: ucast_eq_of_unat unsigned_ucast_eq take_bit_nat_eq_self_iff)
    then show ?thesis using 1 p
      by (auto simp: p_argument_def word_le_nat_alt eq additional_unat occurs_def argument_bytes_def word_less_nat_alt)
  next
    case 2
    have ucast: "n = ucast x \<longleftrightarrow> unat n < 256 \<and> x = ucast n" for x :: u8
    proof -
      have "unat x < 256" using unsigned_less [of x, where 'a = nat] by simp
      then have "take_bit 64 (unat x) = unat x" by (simp add: take_bit_nat_eq_self_iff)
      moreover have "take_bit 8 (unat n) = unat n \<longleftrightarrow> unat n < 256"
        by (simp add: take_bit_nat_eq_self_iff)
      ultimately show ?thesis using \<open>unat x < 256\<close>
        by (auto simp: word_unat_eq_iff unsigned_ucast_eq)
    qed
    have "p_argument b a st = Inr (n, st') \<longleftrightarrow>
        (\<exists>x. n = ucast x \<and> 24 \<le> n \<and> occurs b (p_at st) [x] \<and> st' = st\<lparr>p_at := p_at st + 1\<rparr>)"
      using 2 by (simp add: p_argument_def bnd_eq_Inr p_take_iff [OF b] Let_def length_Suc_conv not_less)
        (metis list.sel(1))
    moreover have "a = additional n \<longleftrightarrow> 24 \<le> unat n \<and> unat n \<le> 255"
      unfolding eq using 2 by (auto simp: additional_unat)
    ultimately show ?thesis
      by (auto simp: ucast argument_bytes_def word_less_nat_alt word_le_nat_alt)
  next
    case 3
    have "a = additional n \<longleftrightarrow> 255 < unat n \<and> unat n \<le> 65535"
      unfolding eq using 3 by (auto simp: additional_unat)
    moreover have "p_argument b a st = Inr (n, st') \<longleftrightarrow>
        0xff < n \<and> unat n < 2 ^ (8 * 2) \<and> occurs b (p_at st) (to_be_bytes 2 (ucast n :: 16 word))
        \<and> st' = st\<lparr>p_at := p_at st + 2\<rparr>"
      using be_argument_iff [of b 2 st "0xff" "''non-shortest integer''" n st', where 'a = 16, OF b] 3
      by (simp add: p_argument_def)
    ultimately show ?thesis
      by (auto simp: argument_bytes_def word_less_nat_alt word_le_nat_alt )
  next
    case 4
    have "a = additional n \<longleftrightarrow> 65535 < unat n \<and> unat n \<le> 4294967295"
      unfolding eq using 4 by (auto simp: additional_unat)
    moreover have "p_argument b a st = Inr (n, st') \<longleftrightarrow>
        0xffff < n \<and> unat n < 2 ^ (8 * 4) \<and> occurs b (p_at st) (to_be_bytes 4 (ucast n :: 32 word))
        \<and> st' = st\<lparr>p_at := p_at st + 4\<rparr>"
      using be_argument_iff [of b 4 st "0xffff" "''non-shortest integer''" n st', where 'a = 32, OF b] 4
      by (simp add: p_argument_def)
    ultimately show ?thesis
      by (auto simp: argument_bytes_def word_less_nat_alt word_le_nat_alt )
  next
    case 5
    have "a = additional n \<longleftrightarrow> 4294967295 < unat n "
      unfolding eq using 5 by (auto simp: additional_unat)
    moreover have "p_argument b a st = Inr (n, st') \<longleftrightarrow>
        0xffffffff < n \<and> unat n < 2 ^ (8 * 8) \<and> occurs b (p_at st) (to_be_bytes 8 (ucast n :: 64 word))
        \<and> st' = st\<lparr>p_at := p_at st + 8\<rparr>"
      using be_argument_iff [of b 8 st "0xffffffff" "''non-shortest integer''" n st', where 'a = 64, OF b] 5
      by (simp add: p_argument_def)
    ultimately show ?thesis
      by (auto simp: argument_bytes_def word_less_nat_alt word_le_nat_alt n64)
  next
    case 6
    then have "a \<noteq> 24" "a \<noteq> 25" "a \<noteq> 26" "a \<noteq> 27" "\<not> a \<le> 23" by (auto simp: word_le_nat_alt)
    then show ?thesis using 6 by (simp add: p_argument_def eq additional_unat)
  qed
qed

lemma additional_bits: "m < 8 \<Longrightarrow>
    x = push_bit 5 m OR additional n \<longleftrightarrow> drop_bit 5 x = m \<and> x AND 31 = additional n" for m x :: u8
  using initial_split [of m "additional n", OF _ additional_bound] initial_join [of x] by auto

lemma and_31_bound: "x AND 31 < (32 :: u8)"
proof -
  have "x AND 31 = take_bit 5 x" by (simp add: take_bit_eq_mask mask_eq_exp_minus_1)
  moreover have "take_bit 5 (unat x) < 2 ^ 5" by (rule take_bit_nat_less_exp)
  ultimately show ?thesis by (simp add: word_less_nat_alt unsigned_take_bit_eq)
qed

text \<open>The initial byte and the argument of an item are one head.\<close>

lemma head_iff:
  assumes b: "length b \<le> usize_max" and m: "m < 8"
  shows "p_at st < length b \<and> drop_bit 5 (b ! p_at st) = m
       \<and> p_argument b (b ! p_at st AND 31) (st\<lparr>p_at := Suc (p_at st), p_items := i\<rparr>) = Inr (n, st')
     \<longleftrightarrow> occurs b (p_at st) (head m n)
       \<and> st' = \<lparr>p_at = p_at st + length (head m n), p_items = i\<rparr>"
proof (cases "p_at st < length b")
  case True
  then have "p_argument b (b ! p_at st AND 31) (st\<lparr>p_at := Suc (p_at st), p_items := i\<rparr>) = Inr (n, st') \<longleftrightarrow>
     b ! p_at st AND 31 = additional n \<and> occurs b (Suc (p_at st)) (argument_bytes n)
     \<and> st' = \<lparr>p_at = Suc (p_at st) + length (argument_bytes n), p_items = i\<rparr>"
    by (subst p_argument_iff [OF b]) (cases st, simp_all add: and_31_bound)+
  then show ?thesis
    using True by (auto simp: head_eq occurs_Cons additional_bits [OF m])
next
  case False
  then show ?thesis by (simp add: head_eq occurs_Cons)
qed

subsection \<open>What the parser returns, by the shape of the value\<close>

lemma p_take_1:
  "length b \<le> usize_max \<Longrightarrow> p_take b 1 st = Inr (xs, st') \<longleftrightarrow>
     p_at st < length b \<and> xs = [b ! p_at st] \<and> st' = st\<lparr>p_at := Suc (p_at st)\<rparr>"
  by (auto simp: p_take_iff length_Suc_conv occurs_Cons)

lemma p_take_1_bnd:
  "length b \<le> usize_max \<Longrightarrow> bnd (p_take b 1 st) f = Inr r \<longleftrightarrow>
     p_at st < length b \<and> f ([b ! p_at st], st\<lparr>p_at := Suc (p_at st)\<rparr>) = Inr r"
  using p_take_1 [of b st] by (auto simp: bnd_eq_Inr)

lemma checked_items:
  "usize_limits lim \<Longrightarrow>
   bnd (ok_or e (checked_add i k)) (\<lambda>j. if max_items lim < j then Inl e' else f j) = Inr r \<longleftrightarrow>
     i + k \<le> max_items lim \<and> f (i + k) = Inr r"
  by (auto simp: bnd_eq_Inr checked_add_def usize_limits_def)

lemma collection_ok:
  "usize_limits lim \<Longrightarrow>
   bnd (if mc < n then Inr True
        else bnd (ok_or e (checked_add i k)) (\<lambda>total. Inr (max_items lim < total)))
     (\<lambda>over. if over then Inl e' else r) = Inr w \<longleftrightarrow>
     n \<le> mc \<and> i + k \<le> max_items lim \<and> r = Inr w" for n :: nat
  by (auto simp: bnd_eq_Inr checked_add_def usize_limits_def)

lemma major_cases:
  fixes x :: u8
  obtains "drop_bit 5 x = 0" | "drop_bit 5 x = 1" | "drop_bit 5 x = 2" | "drop_bit 5 x = 3"
    | "drop_bit 5 x = 4" | "drop_bit 5 x = 5" | "drop_bit 5 x = 6" | "drop_bit 5 x = 7"
proof -
  have "unat (drop_bit 5 x) = unat x div 32"
    by (simp add: unat_drop_bit_eq flip: drop_bit_eq_div [of 5, simplified])
  moreover have "unat x < 256" using unsigned_less [of x, where 'a = nat] by simp
  ultimately have "unat (drop_bit 5 x) < 8" by (simp add: less_mult_imp_div_less)
  then have "drop_bit 5 x < 8" by (simp add: word_less_nat_alt)
  moreover have "\<forall>n<8. n = 0 \<or> n = 1 \<or> n = 2 \<or> n = 3 \<or> n = 4 \<or> n = 5 \<or> n = 6 \<or> n = (7 :: nat)"
    by auto
  ultimately show thesis
    using that \<open>unat (drop_bit 5 x) < 8\<close> by (auto simp: word_unat_eq_iff)
qed

lemma simple_iff:
  "x = 0xf6 \<longleftrightarrow> drop_bit 5 x = 7 \<and> x AND 31 = 22"
  "x = 0xf5 \<longleftrightarrow> drop_bit 5 x = 7 \<and> x AND 31 = 21"
  "x = 0xf4 \<longleftrightarrow> drop_bit 5 x = 7 \<and> x AND 31 = 20" for x :: u8
  using initial_join [of x] by auto

lemma p_argument_items: "p_argument b a st = Inr (n, st') \<Longrightarrow> p_items st' = p_items st"
  by (auto simp: p_argument_def p_take_def bnd_eq_Inr Let_def split: if_splits)

lemma parse_value_iff:
  assumes b: "length b \<le> usize_max" and lim: "usize_limits lim"
  defines "hd_at m n st st' \<equiv> occurs b (p_at st) (head m n)
      \<and> st' = \<lparr>p_at = p_at st + length (head m n), p_items = Suc (p_items st)\<rparr>"
  shows "parse_value b lim d st = Inr (v, st') \<longleftrightarrow>
    d \<le> max_depth lim \<and> Suc (p_items st) \<le> max_items lim \<and>
    ((\<exists>n. hd_at 0 n st st' \<and> v = Unsigned n)
    \<or> (\<exists>n st1 bs. hd_at 2 n st st1 \<and> p_take b (unat n) st1 = Inr (bs, st') \<and> v = Bytes bs)
    \<or> (\<exists>n st1. hd_at 3 n st st1 \<and> p_text b lim (unat n) st1 = Inr (v, st'))
    \<or> (\<exists>n st1 vs. hd_at 4 n st st1 \<and> unat n \<le> max_collection_items lim
         \<and> Suc (p_items st) + unat n \<le> max_items lim
         \<and> parse_seq (unat n) (parse_value b lim (d + 1)) st1 = Inr (vs, st') \<and> v = Array vs)
    \<or> (\<exists>n st1 es. hd_at 5 n st st1 \<and> unat n \<le> max_collection_items lim
         \<and> Suc (p_items st) + unat n * 2 \<le> max_items lim
         \<and> parse_entries b (unat n) (parse_value b lim (d + 1)) None st1 = Inr (es, st') \<and> v = Map es)
    \<or> (occurs b (p_at st) (enc v) \<and> st' = \<lparr>p_at = Suc (p_at st), p_items = Suc (p_items st)\<rparr>
         \<and> (v = Null \<or> (\<exists>x. v = Bool x))))"
proof -
  let ?x = "b ! p_at st" and ?st = "st\<lparr>p_at := Suc (p_at st), p_items := Suc (p_items st)\<rparr>"
  have hd: "hd_at m n st st' \<longleftrightarrow> p_at st < length b \<and> drop_bit 5 ?x = m
      \<and> p_argument b (?x AND 31) ?st = Inr (n, st')" if "m < 8" for m n st'
    unfolding hd_at_def by (rule head_iff [OF b that, symmetric])
  have hds: "hd_at 0 n st st' \<longleftrightarrow> p_at st < length b \<and> drop_bit 5 ?x = 0 \<and> p_argument b (?x AND 31) ?st = Inr (n, st')"
    "hd_at 2 n st st' \<longleftrightarrow> p_at st < length b \<and> drop_bit 5 ?x = 2 \<and> p_argument b (?x AND 31) ?st = Inr (n, st')"
    "hd_at 3 n st st' \<longleftrightarrow> p_at st < length b \<and> drop_bit 5 ?x = 3 \<and> p_argument b (?x AND 31) ?st = Inr (n, st')"
    "hd_at 4 n st st' \<longleftrightarrow> p_at st < length b \<and> drop_bit 5 ?x = 4 \<and> p_argument b (?x AND 31) ?st = Inr (n, st')"
    "hd_at 5 n st st' \<longleftrightarrow> p_at st < length b \<and> drop_bit 5 ?x = 5 \<and> p_argument b (?x AND 31) ?st = Inr (n, st')"
    for n st' by (rule hd, simp)+
  have st: "st\<lparr>p_items := Suc (p_items st), p_at := Suc (p_at st)\<rparr> = ?st" by (cases st) simp
  have simple: "(occurs b (p_at st) (enc v) \<and> st' = \<lparr>p_at = Suc (p_at st), p_items = Suc (p_items st)\<rparr>
         \<and> (v = Null \<or> (\<exists>x. v = Bool x))) \<longleftrightarrow>
      p_at st < length b \<and> drop_bit 5 ?x = 7 \<and> st' = ?st
         \<and> (?x AND 31 = 22 \<and> v = Null \<or> ?x AND 31 = 21 \<and> v = Bool True \<or> ?x AND 31 = 20 \<and> v = Bool False)"
    by (cases v; cases st) (auto simp: occurs_Cons simple_iff)
  note arg = bnd_eq_Inr [of "p_argument b (?x AND 31) ?st"]
  have sat: "Suc (p_items st) + saturating_mul n 2 \<le> max_items lim \<longleftrightarrow> Suc (p_items st) + n * 2 \<le> max_items lim" for n
    using lim by (auto simp: saturating_mul_def usize_limits_def)
  have items: "(p_argument b (?x AND 31) ?st = Inr (n, st1) \<and> A \<and> p_items st1 + k \<le> max_items lim \<and> R)
      \<longleftrightarrow> (p_argument b (?x AND 31) ?st = Inr (n, st1) \<and> A \<and> Suc (p_items st) + k \<le> max_items lim \<and> R)"
    for n st1 A k R
    using p_argument_items [of b "?x AND 31" ?st n st1] by auto
  show ?thesis
  proof (cases rule: major_cases [of ?x])
    case 1
    have "parse_value b lim d st = Inr (v, st') \<longleftrightarrow>
        d \<le> max_depth lim \<and> Suc (p_items st) \<le> max_items lim \<and> p_at st < length b
        \<and> (\<exists>n. p_argument b (?x AND 31) ?st = Inr (n, st') \<and> v = Unsigned n)"
      apply (subst parse_value.simps, cases "max_depth lim < d", simp)
      apply (simp only: if_False checked_items [OF lim] p_take_1_bnd [OF b])
      apply (simp add: st Let_def 1 arg collection_ok [OF lim])
      apply (simp add: bnd_eq_Inr)?
      apply (auto; fail)?
      done
    then show ?thesis
      by (simp add: hds simple 1 del: enc.simps) blast?
  next
    case 2
    have "parse_value b lim d st = Inr (v, st') \<longleftrightarrow>
        d \<le> max_depth lim \<and> Suc (p_items st) \<le> max_items lim \<and> p_at st < length b
        \<and> (False)"
      apply (subst parse_value.simps, cases "max_depth lim < d", simp)
      apply (simp only: if_False checked_items [OF lim] p_take_1_bnd [OF b])
      apply (simp add: st Let_def 2 arg collection_ok [OF lim])
      apply (simp add: bnd_eq_Inr)?
      apply (auto; fail)?
      done
    then show ?thesis
      by (simp add: hds simple 2 del: enc.simps) blast?
  next
    case 3
    have "parse_value b lim d st = Inr (v, st') \<longleftrightarrow>
        d \<le> max_depth lim \<and> Suc (p_items st) \<le> max_items lim \<and> p_at st < length b
        \<and> (\<exists>n st1 bs. p_argument b (?x AND 31) ?st = Inr (n, st1) \<and> p_take b (unat n) st1 = Inr (bs, st') \<and> v = Bytes bs)"
      apply (subst parse_value.simps, cases "max_depth lim < d", simp)
      apply (simp only: if_False checked_items [OF lim] p_take_1_bnd [OF b])
      apply (simp add: st Let_def 3 arg collection_ok [OF lim])
      apply (simp add: bnd_eq_Inr)?
      apply (auto; fail)?
      done
    then show ?thesis
      by (simp add: hds simple 3 del: enc.simps) blast?
  next
    case 4
    have "parse_value b lim d st = Inr (v, st') \<longleftrightarrow>
        d \<le> max_depth lim \<and> Suc (p_items st) \<le> max_items lim \<and> p_at st < length b
        \<and> (\<exists>n st1. p_argument b (?x AND 31) ?st = Inr (n, st1) \<and> p_text b lim (unat n) st1 = Inr (v, st'))"
      apply (subst parse_value.simps, cases "max_depth lim < d", simp)
      apply (simp only: if_False checked_items [OF lim] p_take_1_bnd [OF b])
      apply (simp add: st Let_def 4 arg collection_ok [OF lim])
      apply (simp add: bnd_eq_Inr)?
      apply (auto; fail)?
      done
    then show ?thesis
      by (simp add: hds simple 4 del: enc.simps) blast?
  next
    case 5
    have "parse_value b lim d st = Inr (v, st') \<longleftrightarrow>
        d \<le> max_depth lim \<and> Suc (p_items st) \<le> max_items lim \<and> p_at st < length b
        \<and> (\<exists>n st1 vs. p_argument b (?x AND 31) ?st = Inr (n, st1) \<and> unat n \<le> max_collection_items lim
         \<and> p_items st1 + unat n \<le> max_items lim
         \<and> parse_seq (unat n) (parse_value b lim (d + 1)) st1 = Inr (vs, st') \<and> v = Array vs)"
      apply (subst parse_value.simps, cases "max_depth lim < d", simp)
      apply (simp only: if_False checked_items [OF lim] p_take_1_bnd [OF b])
      apply (simp add: st Let_def 5 arg collection_ok [OF lim])
      apply (simp add: bnd_eq_Inr)?
      apply (auto; fail)?
      done
    then show ?thesis
      unfolding items sat by (simp add: hds simple 5 del: enc.simps) blast?
  next
    case 6
    have "parse_value b lim d st = Inr (v, st') \<longleftrightarrow>
        d \<le> max_depth lim \<and> Suc (p_items st) \<le> max_items lim \<and> p_at st < length b
        \<and> (\<exists>n st1 es. p_argument b (?x AND 31) ?st = Inr (n, st1) \<and> unat n \<le> max_collection_items lim
         \<and> p_items st1 + saturating_mul (unat n) 2 \<le> max_items lim
         \<and> parse_entries b (unat n) (parse_value b lim (d + 1)) None st1 = Inr (es, st') \<and> v = Map es)"
      apply (subst parse_value.simps, cases "max_depth lim < d", simp)
      apply (simp only: if_False checked_items [OF lim] p_take_1_bnd [OF b])
      apply (simp add: st Let_def 6 arg collection_ok [OF lim])
      apply (simp add: bnd_eq_Inr)?
      apply (auto; fail)?
      done
    then show ?thesis
      unfolding items sat by (simp add: hds simple 6 del: enc.simps) blast?
  next
    case 7
    have "parse_value b lim d st = Inr (v, st') \<longleftrightarrow>
        d \<le> max_depth lim \<and> Suc (p_items st) \<le> max_items lim \<and> p_at st < length b
        \<and> (False)"
      apply (subst parse_value.simps, cases "max_depth lim < d", simp)
      apply (simp only: if_False checked_items [OF lim] p_take_1_bnd [OF b])
      apply (simp add: st Let_def 7 arg collection_ok [OF lim])
      apply (simp add: bnd_eq_Inr)?
      apply (auto; fail)?
      done
    then show ?thesis
      by (simp add: hds simple 7 del: enc.simps) blast?
  next
    case 8
    have "parse_value b lim d st = Inr (v, st') \<longleftrightarrow>
        d \<le> max_depth lim \<and> Suc (p_items st) \<le> max_items lim \<and> p_at st < length b
        \<and> (st' = ?st \<and> (?x AND 31 = 22 \<and> v = Null \<or> ?x AND 31 = 21 \<and> v = Bool True \<or> ?x AND 31 = 20 \<and> v = Bool False))"
      apply (subst parse_value.simps, cases "max_depth lim < d", simp)
      apply (simp only: if_False checked_items [OF lim] p_take_1_bnd [OF b])
      apply (simp add: st Let_def 8 arg collection_ok [OF lim])
      apply (simp add: bnd_eq_Inr)?
      apply (auto; fail)?
      done
    then show ?thesis
      by (simp add: hds simple 8 del: enc.simps) blast?
  qed
qed
end
