(* ===== verification/Cbor_Roundtrip.thy ===== *)
theory Cbor_Roundtrip
  imports Cbor_Parse
begin

section \<open>The codec is a bijection between canonical values and accepted bytes\<close>

text \<open>
  The parser returns a value exactly when the value's encoding occurs at the position, within
  the bounds, with its maps sorted (\<open>parse_value_accepts\<close>). The theorems about
  \<open>decode_canonical\<close> and \<open>encode_bounded\<close> follow.
\<close>

subsection \<open>The parser and the encoding\<close>

lemma ascii_valid_utf8: "ascii_profile bs \<Longrightarrow> valid_utf8 bs"
proof (rule valid_utf8_ascii)
  fix x assume "ascii_profile bs" "x \<in> set bs"
  then have "x = 0x0a \<or> x \<le> 0x7e" by (auto simp: ascii_profile_def list_all_iff)
  then show "x < 0x80" by (auto simp: word_less_nat_alt word_le_nat_alt)
qed

lemma bytes_str_eq: "bytes_str bs = t \<longleftrightarrow> bs = str_bytes t"
  by (metis bytes_str_bytes str_bytes_str)

lemma p_text_iff:
  "length b \<le> usize_max \<Longrightarrow>
   p_text b lim n st = Inr (v, st') \<longleftrightarrow>
     (\<exists>t. v = Text t \<and> length t = n \<and> fits_text lim t \<and> occurs b (p_at st) (str_bytes t)
       \<and> st' = st\<lparr>p_at := p_at st + n\<rparr>)"
  by (auto simp: p_text_def bnd_eq_Inr p_take_iff fits_text_def ascii_valid_utf8)

definition accepts :: "bytes \<Rightarrow> limits \<Rightarrow> nat \<Rightarrow> parser \<Rightarrow> val \<Rightarrow> parser \<Rightarrow> bool" where
  "accepts b lim d st v st' \<longleftrightarrow>
     fits lim d v \<and> encodable v \<and> canon v = v \<and> p_items st + vcount v \<le> max_items lim
     \<and> occurs b (p_at st) (enc v)
     \<and> st' = \<lparr>p_at = p_at st + length (enc v), p_items = p_items st + vcount v\<rparr>"

lemma parse_seq_iff:
  assumes "\<And>v st st'. v \<in> set vs \<Longrightarrow> f st = Inr (v, st') \<longleftrightarrow>
      Q v \<and> p_items st + c v \<le> mi \<and> occurs b (p_at st) (e v)
      \<and> st' = \<lparr>p_at = p_at st + length (e v), p_items = p_items st + c v\<rparr>"
    and "p_items st \<le> mi" and "p_at st \<le> length b"
  shows "parse_seq n f st = Inr (vs, st') \<longleftrightarrow>
      length vs = n \<and> (\<forall>v\<in>set vs. Q v) \<and> p_items st + sum_list (map c vs) \<le> mi
      \<and> occurs b (p_at st) (concat (map e vs))
      \<and> st' = \<lparr>p_at = p_at st + length (concat (map e vs)), p_items = p_items st + sum_list (map c vs)\<rparr>"
  using assms
proof (induction n arbitrary: vs st)
  case 0
  then show ?case by (cases st) auto
next
  case (Suc n)
  show ?case
  proof (cases vs)
    case Nil
    then show ?thesis by (auto simp: bnd_eq_Inr)
  next
    case (Cons v ws)
    let ?st = "\<lparr>p_at = p_at st + length (e v), p_items = p_items st + c v\<rparr>"
    have "parse_seq (Suc n) f st = Inr (vs, st') \<longleftrightarrow>
        (\<exists>st1. f st = Inr (v, st1) \<and> parse_seq n f st1 = Inr (ws, st'))"
      by (auto simp: Cons bnd_eq_Inr)
    also have "\<dots> \<longleftrightarrow> Q v \<and> p_items st + c v \<le> mi \<and> occurs b (p_at st) (e v)
        \<and> parse_seq n f ?st = Inr (ws, st')"
      using Suc.prems(1) [of v] by (auto simp: Cons)
    finally show ?thesis
      using Suc.IH [of ws ?st] Suc.prems(1) occurs_bound [of b "p_at st" "e v"]
      by (auto simp: Cons occurs_append add.assoc)
  qed
qed

lemma parse_entries_Cons:
  "parse_entries b (Suc n) f prior st = Inr (kv # ws, st') \<longleftrightarrow>
    (\<exists>st1 st2. f st = Inr (Text (fst kv), st1)
      \<and> (\<forall>k. prior = Some k \<longrightarrow> canonical_key k < canonical_key (take (p_at st1 - p_at st) (drop (p_at st) b)))
      \<and> f st1 = Inr (snd kv, st2)
      \<and> parse_entries b n f (Some (take (p_at st1 - p_at st) (drop (p_at st) b))) st2 = Inr (ws, st'))"
proof (cases "f st")
  case (Inr r)
  obtain key st1 where r: "r = (key, st1)" by (cases r)
  obtain k v where kv: "kv = (k, v)" by (cases kv)
  show ?thesis
  proof (cases key)
    case (Text t)
    show ?thesis
      by (cases prior) (auto simp: Inr r kv Text Let_def bnd_eq_Inr)
  qed (auto simp: Inr r Let_def split: option.splits)
qed simp

lemma parse_entries_iff:
  assumes "\<And>kv st st'. kv \<in> set es \<Longrightarrow> f st = Inr (Text (fst kv), st') \<longleftrightarrow> K (fst kv) \<and> p_items st + 1 \<le> mi \<and> occurs b (p_at st) (enck (fst kv))
      \<and> st' = \<lparr>p_at = p_at st + length (enck (fst kv)), p_items = p_items st + 1\<rparr>"
    and "\<And>kv st st'. kv \<in> set es \<Longrightarrow> f st = Inr (snd kv, st') \<longleftrightarrow>
      Q (snd kv) \<and> p_items st + c (snd kv) \<le> mi \<and> occurs b (p_at st) (e (snd kv))
      \<and> st' = \<lparr>p_at = p_at st + length (e (snd kv)), p_items = p_items st + c (snd kv)\<rparr>"
    and "p_items st \<le> mi" and "p_at st \<le> length b"
  shows "parse_entries b n f prior st = Inr (es, st') \<longleftrightarrow>
      length es = n \<and> (\<forall>kv\<in>set es. K (fst kv) \<and> Q (snd kv))
      \<and> p_items st + sum_list (map (\<lambda>kv. Suc (c (snd kv))) es) \<le> mi
      \<and> sorted_wrt (<) (map entry_key es)
      \<and> (\<forall>k. prior = Some k \<longrightarrow> es \<noteq> [] \<longrightarrow> canonical_key k < entry_key (hd es))
      \<and> occurs b (p_at st) (concat (map (\<lambda>kv. enck (fst kv) @ e (snd kv)) es))
      \<and> st' = \<lparr>p_at = p_at st + length (concat (map (\<lambda>kv. enck (fst kv) @ e (snd kv)) es)),
               p_items = p_items st + sum_list (map (\<lambda>kv. Suc (c (snd kv))) es)\<rparr>"
  using assms
proof (induction n arbitrary: es st prior)
  case 0
  then show ?case by (cases st) auto
next
  case (Suc n)
  show ?case
  proof (cases es)
    case Nil
    then show ?thesis by (auto simp: bnd_eq_Inr Let_def split: val.splits if_splits)
  next
    case (Cons kv ws)
    let ?k = "fst kv" and ?v = "snd kv"
    let ?st1 = "\<lparr>p_at = p_at st + length (enck ?k), p_items = p_items st + 1\<rparr>"
    let ?st2 = "\<lparr>p_at = p_at ?st1 + length (e ?v), p_items = p_items ?st1 + c ?v\<rparr>"
    have key: "f st = Inr (Text ?k, st1) \<longleftrightarrow> K ?k \<and> p_items st + 1 \<le> mi
        \<and> occurs b (p_at st) (enck ?k) \<and> st1 = ?st1" for st1
      using Suc.prems(1) [of kv st st1] by (simp add: Cons)
    let ?C = "K ?k \<and> Q ?v \<and> p_items ?st1 + c ?v \<le> mi \<and> occurs b (p_at st) (enck ?k @ e ?v)
        \<and> (\<forall>k. prior = Some k \<longrightarrow> canonical_key k < entry_key kv)"
    have step: "parse_entries b (Suc n) f prior st = Inr (es, st') \<longleftrightarrow>
        ?C \<and> parse_entries b n f (Some (enck ?k)) ?st2 = Inr (ws, st')"
      using Suc.prems(2) [of kv] occurs_take [of b "p_at st" "enck ?k"]
      unfolding Cons parse_entries_Cons by (auto simp: key entry_key_def occurs_append)
    have chain: "sorted_wrt (<) (map entry_key (kv # ws)) \<longleftrightarrow> sorted_wrt (<) (map entry_key ws)
        \<and> (\<forall>k. Some (enck ?k) = Some k \<longrightarrow> ws \<noteq> [] \<longrightarrow> canonical_key k < entry_key (hd ws))"
      by (cases ws) (auto simp: entry_key_def intro: less_trans)
    have rest: "parse_entries b n f (Some (enck ?k)) ?st2 = Inr (ws, st') \<longleftrightarrow>
      length ws = n \<and> (\<forall>kv\<in>set ws. K (fst kv) \<and> Q (snd kv))
      \<and> p_items ?st2 + sum_list (map (\<lambda>kv. Suc (c (snd kv))) ws) \<le> mi
      \<and> sorted_wrt (<) (map entry_key ws)
      \<and> (\<forall>k. Some (enck ?k) = Some k \<longrightarrow> ws \<noteq> [] \<longrightarrow> canonical_key k < entry_key (hd ws))
      \<and> occurs b (p_at ?st2) (concat (map (\<lambda>kv. enck (fst kv) @ e (snd kv)) ws))
      \<and> st' = \<lparr>p_at = p_at ?st2 + length (concat (map (\<lambda>kv. enck (fst kv) @ e (snd kv)) ws)),
               p_items = p_items ?st2 + sum_list (map (\<lambda>kv. Suc (c (snd kv))) ws)\<rparr>" if ?C
    proof (rule Suc.IH)
      show "p_items ?st2 \<le> mi" using that by simp
      show "p_at ?st2 \<le> length b" using that occurs_bound [of b "p_at st" "enck ?k @ e ?v"] by simp
    qed (use Suc.prems(1,2) in \<open>simp_all add: Cons\<close>)
    have "parse_entries b (Suc n) f prior st = Inr (es, st') \<longleftrightarrow> ?C \<and>
      length ws = n \<and> (\<forall>kv\<in>set ws. K (fst kv) \<and> Q (snd kv))
      \<and> p_items ?st2 + sum_list (map (\<lambda>kv. Suc (c (snd kv))) ws) \<le> mi
      \<and> sorted_wrt (<) (map entry_key (kv # ws))
      \<and> occurs b (p_at ?st2) (concat (map (\<lambda>kv. enck (fst kv) @ e (snd kv)) ws))
      \<and> st' = \<lparr>p_at = p_at ?st2 + length (concat (map (\<lambda>kv. enck (fst kv) @ e (snd kv)) ws)),
               p_items = p_items ?st2 + sum_list (map (\<lambda>kv. Suc (c (snd kv))) ws)\<rparr>"
      unfolding step chain using rest by blast
    then show ?thesis
      by (auto simp: Cons occurs_append add.assoc simp del: parse_entries.simps)
  qed
qed

lemma count_pos: "0 < vcount v"
  by (cases v) simp_all

lemma sort_key_self: "sorted (map f xs) \<Longrightarrow> sort_key f xs = xs"
  by (induction xs) (auto simp: insort_is_Cons)

lemma map_self_fixed: "map f xs = xs \<Longrightarrow> x \<in> set xs \<Longrightarrow> f x = x"
  by (induction xs) auto

lemma canon_Map_self:
  "distinct (map fst es) \<and> canon (Map es) = Map es \<longleftrightarrow>
     sorted_wrt (<) (map entry_key es) \<and> (\<forall>kv\<in>set es. canon (snd kv) = snd kv)"
proof
  assume *: "distinct (map fst es) \<and> canon (Map es) = Map es"
  then have eq: "map (\<lambda>kv. (fst kv, canon (snd kv))) (sort_key entry_key es) = es" by simp
  from arg_cong [OF this, of "map fst"] have "map fst (sort_key entry_key es) = map fst es"
    by (simp add: comp_def)
  then have "map (canonical_key \<circ> enck) (map fst (sort_key entry_key es)) = map (canonical_key \<circ> enck) (map fst es)"
    by simp
  then have keys: "map entry_key (sort_key entry_key es) = map entry_key es"
    by (simp add: entry_key_def [abs_def] comp_def)
  then have sorted: "sorted (map entry_key es)" by (metis sorted_map_sort_key)
  moreover have "distinct (map entry_key es)"
    using * by (auto simp: distinct_map inj_on_def)
  ultimately have "sorted_wrt (<) (map entry_key es)" by (simp add: strict_sorted_iff)
  moreover have "canon (snd kv) = snd kv" if "kv \<in> set es" for kv
  proof -
    have "map (\<lambda>kv. (fst kv, canon (snd kv))) es = es"
      using eq by (simp add: sort_key_self [OF sorted])
    from map_self_fixed [OF this that] show ?thesis by (cases kv) simp
  qed
  ultimately show "sorted_wrt (<) (map entry_key es) \<and> (\<forall>kv\<in>set es. canon (snd kv) = snd kv)"
    by blast
next
  assume *: "sorted_wrt (<) (map entry_key es) \<and> (\<forall>kv\<in>set es. canon (snd kv) = snd kv)"
  then have "sorted (map entry_key es)" "distinct (map entry_key es)"
    by (simp_all add: strict_sorted_iff)
  then show "distinct (map fst es) \<and> canon (Map es) = Map es"
    using * by (auto simp: sort_key_self distinct_map inj_on_def intro!: map_idI)
qed

lemma length_occurs:
  "length b \<le> usize_max \<Longrightarrow> occurs b p xs \<Longrightarrow> length xs \<le> usize_max"
  using occurs_bound by fastforce

lemma ex_unat: "(\<exists>n :: u64. unat n = k \<and> P n) \<longleftrightarrow> k \<le> usize_max \<and> P (of_nat k)"
proof -
  have "n = of_nat k" if "unat n = k" for n :: u64
    using that by (metis of_nat_unat ucast_id)
  then show ?thesis using unat_le_usize_max unat_of_nat_u64 by metis
qed

lemma count_bounds:
  "length vs \<le> sum_list (map vcount vs)"
  "length es * 2 \<le> sum_list (map (\<lambda>kv. Suc (vcount (snd kv))) es)"
proof -
  show "length vs \<le> sum_list (map vcount vs)" by (rule length_le_sum_list) (rule count_pos)
  show "length es * 2 \<le> sum_list (map (\<lambda>kv. Suc (vcount (snd kv))) es)"
  proof (induction es)
    case (Cons kv es)
    then show ?case using count_pos [of "snd kv"] by simp
  qed simp
qed

lemma parse_text_iff:
  assumes b: "length b \<le> usize_max" and lim: "usize_limits lim"
  shows "parse_value b lim d st = Inr (Text t, st') \<longleftrightarrow>
     d \<le> max_depth lim \<and> fits_text lim t \<and> Suc (p_items st) \<le> max_items lim
     \<and> occurs b (p_at st) (enck t) \<and> st' = \<lparr>p_at = p_at st + length (enck t), p_items = Suc (p_items st)\<rparr>"
proof -
  have "parse_value b lim d st = Inr (Text t, st') \<longleftrightarrow>
      (\<exists>n. unat n = length t \<and> d \<le> max_depth lim \<and> Suc (p_items st) \<le> max_items lim
        \<and> fits_text lim t \<and> occurs b (p_at st) (head 3 n @ str_bytes t)
        \<and> st' = \<lparr>p_at = p_at st + length (head 3 n) + length t, p_items = Suc (p_items st)\<rparr>)"
    by (auto simp: parse_value_iff [OF b lim] p_text_iff [OF b] occurs_append)
  then show ?thesis
    unfolding ex_unat using length_occurs [OF b, of "p_at st" "enck t"]
    by (auto simp: enck_def)
qed

lemma parse_value_accepts:
  assumes b: "length b \<le> usize_max" and lim: "usize_limits lim"
  shows "parse_value b lim d st = Inr (v, st') \<longleftrightarrow> accepts b lim d st v st'"
proof (induction v arbitrary: d st st' rule: val_induct)
  case (Leaf v)
  have len: "length (enc v) \<le> usize_max" if "occurs b (p_at st) (enc v)"
    using length_occurs [OF b that] .
  show ?case
  proof (cases v)
    case (Unsigned n)
    then show ?thesis by (auto simp: parse_value_iff [OF b lim] accepts_def p_text_iff [OF b])
  next
    case (Bytes bs)
    have "parse_value b lim d st = Inr (v, st') \<longleftrightarrow>
        (\<exists>n. unat n = length bs \<and> d \<le> max_depth lim \<and> Suc (p_items st) \<le> max_items lim
          \<and> occurs b (p_at st) (head 2 n @ bs)
          \<and> st' = \<lparr>p_at = p_at st + length (head 2 n) + length bs, p_items = Suc (p_items st)\<rparr>)"
      by (auto simp: parse_value_iff [OF b lim] Bytes p_take_iff [OF b] occurs_append p_text_iff [OF b])
    then show ?thesis
      unfolding ex_unat using len by (auto simp: accepts_def Bytes)
  next
    case (Text t)
    then show ?thesis by (auto simp: parse_text_iff [OF b lim] accepts_def fits_text_def)
  qed (use Leaf in \<open>auto simp: parse_value_iff [OF b lim] accepts_def p_text_iff [OF b]\<close>)
next
  case (Array vs)
  let ?st1 = "\<lambda>n. \<lparr>p_at = p_at st + length (head 4 n), p_items = Suc (p_items st)\<rparr>"
  have seq: "parse_seq k (parse_value b lim (Suc d)) (?st1 n) = Inr (vs, st') \<longleftrightarrow>
      length vs = k \<and> (\<forall>v\<in>set vs. fits lim (Suc d) v \<and> encodable v \<and> canon v = v)
      \<and> p_items (?st1 n) + sum_list (map vcount vs) \<le> max_items lim
      \<and> occurs b (p_at (?st1 n)) (concat (map enc vs))
      \<and> st' = \<lparr>p_at = p_at (?st1 n) + length (concat (map enc vs)),
              p_items = p_items (?st1 n) + sum_list (map vcount vs)\<rparr>"
    if "Suc (p_items st) \<le> max_items lim" "occurs b (p_at st) (head 4 n)" for k n st'
    using that occurs_bound [OF that(2)]
    by (intro parse_seq_iff) (auto simp: Array accepts_def)
  have "parse_value b lim d st = Inr (Array vs, st') \<longleftrightarrow>
      (\<exists>n. d \<le> max_depth lim \<and> Suc (p_items st) \<le> max_items lim \<and> occurs b (p_at st) (head 4 n)
        \<and> unat n \<le> max_collection_items lim \<and> Suc (p_items st) + unat n \<le> max_items lim
        \<and> parse_seq (unat n) (parse_value b lim (Suc d)) (?st1 n) = Inr (vs, st'))"
    by (auto simp: parse_value_iff [OF b lim] p_text_iff [OF b])
  also have "\<dots> \<longleftrightarrow>
      (\<exists>n. unat n = length vs \<and> d \<le> max_depth lim \<and> length vs \<le> max_collection_items lim
        \<and> (\<forall>v\<in>set vs. fits lim (Suc d) v \<and> encodable v \<and> canon v = v)
        \<and> p_items (?st1 n) + sum_list (map vcount vs) \<le> max_items lim
        \<and> occurs b (p_at st) (head 4 n @ concat (map enc vs))
        \<and> st' = \<lparr>p_at = p_at (?st1 n) + length (concat (map enc vs)),
                p_items = p_items (?st1 n) + sum_list (map vcount vs)\<rparr>)"
    using count_bounds(1) [of vs]
    by (intro iff_exI) (auto simp: seq occurs_append)
  finally show ?case
    unfolding ex_unat using lim count_bounds(1) [of vs]
    by (auto simp: accepts_def map_idI usize_limits_def dest: map_self_fixed)
next
  case (Map es)
  let ?st1 = "\<lambda>n. \<lparr>p_at = p_at st + length (head 5 n), p_items = Suc (p_items st)\<rparr>"
  let ?e = "concat (map (\<lambda>kv. enck (fst kv) @ enc (snd kv)) es)"
    and ?c = "sum_list (map (\<lambda>kv. Suc (vcount (snd kv))) es)"
  define K where "K = (\<lambda>k. Suc d \<le> max_depth lim \<and> fits_text lim k)"
  define Q where "Q = (\<lambda>v. fits lim (Suc d) v \<and> encodable v \<and> canon v = v)"
  define A where "A \<longleftrightarrow> (\<forall>kv\<in>set es. K (fst kv) \<and> Q (snd kv))"
  have seq: "parse_entries b k (parse_value b lim (Suc d)) None (?st1 n) = Inr (es, st') \<longleftrightarrow>
      length es = k \<and> A
      \<and> p_items (?st1 n) + ?c \<le> max_items lim
      \<and> sorted_wrt (<) (map entry_key es)
      \<and> (\<forall>k. None = Some k \<longrightarrow> es \<noteq> [] \<longrightarrow> canonical_key k < entry_key (hd es))
      \<and> occurs b (p_at (?st1 n)) ?e
      \<and> st' = \<lparr>p_at = p_at (?st1 n) + length ?e, p_items = p_items (?st1 n) + ?c\<rparr>"
    if "Suc (p_items st) \<le> max_items lim" "occurs b (p_at st) (head 5 n)" for k n st'
    unfolding A_def using that occurs_bound [OF that(2)]
    by (intro parse_entries_iff) (auto simp: Map accepts_def parse_text_iff [OF b lim] K_def Q_def)
  have "parse_value b lim d st = Inr (Map es, st') \<longleftrightarrow>
      (\<exists>n. d \<le> max_depth lim \<and> Suc (p_items st) \<le> max_items lim \<and> occurs b (p_at st) (head 5 n)
        \<and> unat n \<le> max_collection_items lim \<and> Suc (p_items st) + unat n * 2 \<le> max_items lim
        \<and> parse_entries b (unat n) (parse_value b lim (Suc d)) None (?st1 n) = Inr (es, st'))"
    by (auto simp: parse_value_iff [OF b lim] p_text_iff [OF b])
  also have "\<dots> \<longleftrightarrow>
      (\<exists>n. unat n = length es \<and> d \<le> max_depth lim \<and> length es \<le> max_collection_items lim
        \<and> A
        \<and> sorted_wrt (<) (map entry_key es)
        \<and> p_items (?st1 n) + ?c \<le> max_items lim
        \<and> occurs b (p_at st) (head 5 n @ ?e)
        \<and> st' = \<lparr>p_at = p_at (?st1 n) + length ?e, p_items = p_items (?st1 n) + ?c\<rparr>)"
    using count_bounds(2) [of es]
    by (intro iff_exI) (auto simp: seq occurs_append)
  finally have parse: "parse_value b lim d st = Inr (Map es, st') \<longleftrightarrow> length es \<le> usize_max
      \<and> d \<le> max_depth lim \<and> length es \<le> max_collection_items lim \<and> A \<and> sorted_wrt (<) (map entry_key es)
      \<and> Suc (p_items st) + ?c \<le> max_items lim
      \<and> occurs b (p_at st) (head 5 (of_nat (length es)) @ ?e)
      \<and> st' = \<lparr>p_at = p_at (?st1 (of_nat (length es))) + length ?e, p_items = Suc (p_items st) + ?c\<rparr>"
    unfolding ex_unat by simp
  have good: "d \<le> max_depth lim \<and> length es \<le> max_collection_items lim \<and> A \<and> sorted_wrt (<) (map entry_key es)
      \<longleftrightarrow> fits lim d (Map es) \<and> encodable (Map es) \<and> canon (Map es) = Map es"
    using canon_Map_self [of es] unfolding A_def K_def Q_def fits.simps encodable.simps fits_text_def by blast
  have enc: "enc (Map es) = head 5 (of_nat (length es)) @ ?e" if "sorted_wrt (<) (map entry_key es)"
    using that by (simp add: sort_key_self strict_sorted_iff)
  have small: "length es \<le> usize_max" if "Suc (p_items st) + ?c \<le> max_items lim"
    using that lim count_bounds(2) [of es] by (simp add: usize_limits_def)
  show ?case
    unfolding parse accepts_def
    using good enc small by (auto simp del: enc.simps canon.simps fits.simps encodable.simps)
qed

subsection \<open>Sorting the maps of a value\<close>

lemma sort_key_canon:
  "sort_key entry_key (map (\<lambda>kv. (fst kv, canon (snd kv))) (sort_key entry_key es))
    = map (\<lambda>kv. (fst kv, canon (snd kv))) (sort_key entry_key es)"
proof (rule sort_key_self)
  have "map entry_key (map (\<lambda>kv. (fst kv, canon (snd kv))) xs) = map entry_key xs" for xs
    by (simp add: entry_key_def)
  then show "sorted (map entry_key (map (\<lambda>kv. (fst kv, canon (snd kv))) (sort_key entry_key es)))"
    by (metis sorted_map_sort_key)
qed

lemma canon_canon [simp]: "canon (canon v) = canon v"
proof (induction v rule: val_induct)
  case (Leaf v)
  then show ?case by (cases v) auto
next
  case (Map es)
  then show ?case by (simp add: sort_key_canon)
qed simp

lemma enc_canon: "enc (canon v) = enc v"
proof (induction v rule: val_induct)
  case (Leaf v)
  then show ?case by (cases v) auto
next
  case (Array vs)
  then have "map enc (map canon vs) = map enc vs" by simp
  then show ?case by (simp only: canon.simps enc.simps length_map)
next
  case (Map es)
  have "map (\<lambda>kv. enck (fst kv) @ enc (snd kv)) (map (\<lambda>kv. (fst kv, canon (snd kv))) (sort_key entry_key es))
      = map (\<lambda>kv. enck (fst kv) @ enc (snd kv)) (sort_key entry_key es)"
    using Map by simp
  then show ?case by (simp only: canon.simps enc.simps length_map length_sort sort_key_canon)
qed

lemma vcount_canon: "vcount (canon v) = vcount v"
proof (induction v rule: val_induct)
  case (Leaf v)
  then show ?case by (cases v) auto
next
  case (Array vs)
  then have "map (\<lambda>v. vcount (canon v)) vs = map vcount vs" by simp
  then show ?case by (simp add: comp_def del: map_eq_conv)
next
  case (Map es)
  then have "map (\<lambda>kv. Suc (vcount (canon (snd kv)))) (sort_key entry_key es) = map (\<lambda>kv. Suc (vcount (snd kv))) (sort_key entry_key es)"
    by simp
  then show ?case by (simp add: comp_def sum_list_sort_key del: map_eq_conv)
qed

lemma fits_canon: "fits lim d (canon v) \<longleftrightarrow> fits lim d v"
proof (induction v arbitrary: d rule: val_induct)
  case (Leaf v)
  then show ?case by (cases v) auto
next
  case (Map es)
  then show ?case by (auto simp del: split_paired_All)
qed auto

lemma encodable_canon: "encodable (canon v) \<longleftrightarrow> encodable v"
proof (induction v rule: val_induct)
  case (Leaf v)
  then show ?case by (cases v) auto
next
  case (Map es)
  have "distinct (map fst (map (\<lambda>kv. (fst kv, canon (snd kv))) (sort_key entry_key es))) \<longleftrightarrow> distinct (map fst es)"
    by (simp add: comp_def distinct_map_sort_key)
  with Map show ?case by simp
qed auto

subsection \<open>The contract of the codec\<close>

lemma encode_bounded_iff:
  assumes lim: "usize_limits lim"
  shows "encode_bounded v lim = Inr b \<longleftrightarrow> fits lim 0 v \<and> encodable v \<and> vcount v \<le> max_items lim
    \<and> length (enc v) \<le> max_bytes lim \<and> elen v \<le> max_bytes lim \<and> b = enc v"
proof -
  have "elen v \<le> max_bytes lim \<Longrightarrow> length (enc v) = elen v"
    using lim by (intro length_enc) (simp add: usize_limits_def)
  then show ?thesis
    by (auto simp: encode_bounded_def bnd_eq_Inr validate_value_bounds_iff [OF lim] encode_into_iff)
qed

lemma enc_nonempty: "enc v \<noteq> []"
  by (cases v) (simp_all add: head_eq enck_def)

lemma decode_canonical_iff:
  assumes lim: "usize_limits lim"
  shows "decode_canonical b lim = Inr v \<longleftrightarrow> canon v = v \<and> encode_bounded v lim = Inr b"
proof -
  have "length b \<le> usize_max" if "length b \<le> max_bytes lim"
    using that lim by (simp add: usize_limits_def)
  then show ?thesis
    using enc_nonempty [of v]
    by (auto simp: decode_canonical_def bnd_eq_Inr parse_value_accepts [OF _ lim] accepts_def
        encode_bounded_iff [OF lim] occurs_alt split: if_splits)
qed

lemma tlen_le: "tlen t \<le> n \<Longrightarrow> length t \<le> n"
  by (simp add: tlen_def)

lemma elen_canon: "elen (canon v) = elen v"
proof (induction v rule: val_induct)
  case (Leaf v)
  then show ?case by (cases v) auto
next
  case (Array vs)
  then have "map (\<lambda>v. elen (canon v)) vs = map elen vs" by simp
  then show ?case by (simp add: comp_def del: map_eq_conv)
next
  case (Map es)
  then have "map (\<lambda>kv. tlen (fst kv) + elen (canon (snd kv))) (sort_key entry_key es) = map (\<lambda>kv. tlen (fst kv) + elen (snd kv)) (sort_key entry_key es)"
    by simp
  then show ?case by (simp add: comp_def sum_list_sort_key del: map_eq_conv)
qed

lemma length_in_concat: "x \<in> set xs \<Longrightarrow> length (f x) \<le> length (concat (map f xs))"
  by (induction xs) auto

lemma length_le_concat: "(\<And>x. x \<in> set xs \<Longrightarrow> f x \<noteq> []) \<Longrightarrow> length xs \<le> length (concat (map f xs))"
proof (induction xs)
  case (Cons x xs)
  then have "f x \<noteq> []" "length xs \<le> length (concat (map f xs))" by auto
  then show ?case by (cases "f x") auto
qed simp

lemma elen_enc: "length (enc v) \<le> usize_max \<Longrightarrow> elen v = length (enc v)"
proof (induction v rule: val_induct)
  case (Leaf v)
  then show ?case by (cases v) (auto simp: length_head unat_of_nat_u64 enck_def tlen_def)
next
  case (Array vs)
  have le: "length (concat (map enc vs)) \<le> usize_max" using Array(2) by simp
  have "elen v = length (enc v)" if "v \<in> set vs" for v
    using Array(1) [OF that] length_in_concat [OF that, of enc] le by simp
  then have "map elen vs = map (\<lambda>v. length (enc v)) vs" by simp
  moreover have "length vs \<le> usize_max"
    using length_le_concat [of vs enc, OF enc_nonempty] le by simp
  ultimately show ?case
    by (simp add: length_head unat_of_nat_u64 length_concat comp_def del: map_eq_conv)
next
  case (Map es)
  let ?f = "\<lambda>kv. enck (fst kv) @ enc (snd kv)" and ?xs = "sort_key entry_key es"
  have le: "length (concat (map ?f ?xs)) \<le> usize_max" using Map(2) by simp
  have "tlen (fst kv) + elen (snd kv) = length (?f kv)" if "kv \<in> set es" for kv
  proof -
    have "length (?f kv) \<le> usize_max"
      using length_in_concat [of kv ?xs ?f] that le by simp
    then show ?thesis using Map(1) [OF that] length_enck [of "fst kv"] by (simp add: enck_def)
  qed
  then have "map (\<lambda>kv. tlen (fst kv) + elen (snd kv)) ?xs = map (\<lambda>kv. length (?f kv)) ?xs" by simp
  then have "sum_list (map (\<lambda>kv. tlen (fst kv) + elen (snd kv)) es) = length (concat (map ?f ?xs))"
    by (metis (no_types, lifting) length_concat map_map comp_def map_cong sum_list_sort_key)
  moreover have "length es \<le> usize_max"
    using length_le_concat [of ?xs ?f] le enc_nonempty by simp
  ultimately show ?case by (simp add: length_head unat_of_nat_u64)
qed

lemma encode_canon_ok:
  "usize_limits lim \<Longrightarrow> encode_bounded (canon v) lim = Inr b \<longleftrightarrow> encode_bounded v lim = Inr b"
  by (simp add: encode_bounded_iff fits_canon encodable_canon vcount_canon elen_canon enc_canon)

lemma usize_limits_profiles: "usize_limits WIRE" "usize_limits MANIFEST" "usize_limits EVIDENCE"
  by (simp_all add: usize_limits_def limit_defs usize_max_def)

lemma byte_of_char_Char: "byte_of_char (Char b0 b1 b2 b3 b4 b5 b6 b7) = horner_sum of_bool 2 [b0, b1, b2, b3, b4, b5, b6, b7]"
  by (simp add: byte_of_char_def)

lemmas codec_eval = limit_defs fits_text_def ascii_profile_def tlen_def head_len_def head_def enck_def
  entry_key_def canonical_key_def byte_of_char_Char

text \<open>C1: Decoding is the exact inverse of encoding: \<open>decode_canonical\<close> accepts a byte string with
  a value if and only if the value's maps are in key order and \<open>encode_bounded\<close> produces those
  bytes for it, under the same limits.\<close>

theorem decode_inverts_encode:
  assumes "usize_limits lim"
  shows "decode_canonical b lim = Inr v \<longleftrightarrow> canon v = v \<and> encode_bounded v lim = Inr b"
  by (rule decode_canonical_iff [OF assms])

lemma decode_inverts_encode_witness:
  "decode_canonical [0xa2, 0x61, 0x61, 0x01, 0x61, 0x62, 0x82, 0xf6, 0xf5] WIRE
     = Inr (Map [(''a'', Unsigned 1), (''b'', Array [Null, Bool True])])"
  unfolding decode_inverts_encode [OF usize_limits_profiles(1)] encode_bounded_iff [OF usize_limits_profiles(1)]
  by (simp add: codec_eval)

text \<open>Whatever the encoder emits decodes, under the same limits, to the encoded value with the
  entries of its maps in canonical key order.\<close>

theorem encode_decodes:
  assumes "usize_limits lim" and "encode_bounded v lim = Inr b"
  shows "decode_canonical b lim = Inr (canon v)"
  using assms by (simp add: decode_canonical_iff encode_canon_ok)

lemma encode_decodes_witness:
  "decode_canonical [0xa2, 0x61, 0x61, 0x01, 0x61, 0x62, 0x19, 0x01, 0x2c] MANIFEST
     = Inr (canon (Map [(''b'', Unsigned 300), (''a'', Unsigned 1)]))"
  by (rule encode_decodes [OF usize_limits_profiles(2)], subst encode_bounded_iff [OF usize_limits_profiles(2)])
    (simp add: codec_eval to_be_bytes_def upt_rec)

text \<open>The parser alone is strict: nothing it accepts re-encodes to other bytes, so the re-encoding
  comparison of \<open>decode_canonical\<close> never rejects and never fails (defence in depth only).\<close>

theorem parser_is_strict:
  assumes "usize_limits lim" and "length b \<le> max_bytes lim"
    and "parse_value b lim 0 \<lparr>p_at = 0, p_items = 0\<rparr> = Inr (v, st)" and "p_at st = length b"
  shows "decode_canonical b lim = Inr v"
proof -
  have b: "length b \<le> usize_max" using assms(1,2) by (simp add: usize_limits_def)
  have *: "accepts b lim 0 \<lparr>p_at = 0, p_items = 0\<rparr> v st"
    using assms(3) by (simp add: parse_value_accepts [OF b assms(1)])
  then have "b = enc v" using assms(4) by (auto simp: accepts_def occurs_alt)
  with * assms(2) have "encode_bounded v lim = Inr b"
    using elen_enc [of v] b by (simp add: encode_bounded_iff [OF assms(1)] accepts_def)
  with * show ?thesis by (simp add: decode_canonical_iff [OF assms(1)] accepts_def)
qed

lemma parser_is_strict_witness:
  "decode_canonical [0x81, 0x41, 0x07] EVIDENCE = Inr (Array [Bytes [0x07]])"
proof (rule parser_is_strict [OF usize_limits_profiles(3)])
  show "length [0x81, 0x41, 0x07 :: u8] \<le> max_bytes EVIDENCE" by (simp add: limit_defs)
  show "parse_value [0x81, 0x41, 0x07] EVIDENCE 0 \<lparr>p_at = 0, p_items = 0\<rparr>
      = Inr (Array [Bytes [0x07]], \<lparr>p_at = 3, p_items = 2\<rparr>)"
    using usize_limits_profiles(3)
    by (subst parse_value_accepts) (simp_all add: accepts_def occurs_alt codec_eval usize_max_def)
qed simp

text \<open>C2: The encoder's two passes agree: the length computed by \<open>validate_value_bounds\<close> is the length
  of the emitted bytes, so the accounting error is unreachable and every output is within \<open>max_bytes\<close>.\<close>

theorem encode_accounting:
  assumes "usize_limits lim" and "validate_value_bounds v 0 0 lim = Inr (n, j)"
    and "encode_into v = Inr out"
  shows "length out = n \<and> n \<le> max_bytes lim \<and> encode_bounded v lim = Inr out"
proof -
  have n: "n = elen v" "n \<le> max_bytes lim" and out: "out = enc v"
    using assms by (simp_all add: validate_value_bounds_iff encode_into_iff)
  then have "length out = n" using assms(1) length_enc [of v] by (simp add: usize_limits_def)
  then show ?thesis using assms n by (simp add: encode_bounded_def)
qed

lemma encode_accounting_witness:
  "length [0x82, 0x01, 0xf6 :: u8] = 3 \<and> 3 \<le> max_bytes WIRE
   \<and> encode_bounded (Array [Unsigned 1, Null]) WIRE = Inr [0x82, 0x01, 0xf6]"
  by (rule encode_accounting [OF usize_limits_profiles(1), where j = 3];
      subst validate_value_bounds_iff encode_into_iff; simp add: codec_eval usize_limits_profiles(1)[unfolded limit_defs])

text \<open>Every decoded value is within the limits: its depth, its collections, its texts and its
  item count are bounded, every text is printable ASCII and no map repeats a key.\<close>

theorem decoded_within_limits:
  assumes "usize_limits lim" and "decode_canonical b lim = Inr v"
  shows "fits lim 0 v \<and> encodable v \<and> vcount v \<le> max_items lim \<and> 0 < length b \<and> length b \<le> max_bytes lim"
  using assms enc_nonempty [of v] by (simp add: decode_canonical_iff encode_bounded_iff)

lemma decoded_within_limits_witness:
  "fits WIRE 0 (Text ''hi'') \<and> encodable (Text ''hi'') \<and> vcount (Text ''hi'') \<le> max_items WIRE
   \<and> 0 < length [0x62, 0x68, 0x69 :: u8] \<and> length [0x62, 0x68, 0x69 :: u8] \<le> max_bytes WIRE"
  by (rule decoded_within_limits [OF usize_limits_profiles(1)],
      subst decode_canonical_iff [OF usize_limits_profiles(1)],
      subst encode_bounded_iff [OF usize_limits_profiles(1)]) (simp add: codec_eval)

text \<open>Two values have the same encoding exactly when they differ only in the order of map entries.\<close>

theorem encode_injective:
  assumes "usize_limits lim" and "encode_bounded v lim = Inr b" and "encode_bounded w lim = Inr c"
  shows "b = c \<longleftrightarrow> canon v = canon w"
proof
  assume "b = c"
  then show "canon v = canon w"
    using assms encode_canon_ok decode_canonical_iff by (metis canon_canon sum.inject(2))
next
  assume "canon v = canon w"
  then show "b = c" using assms encode_canon_ok by (metis sum.inject(2))
qed

lemma encode_injective_witness:
  "[0x82, 0x01, 0xf6] = [0x81, 0xf6 :: u8] \<longleftrightarrow> canon (Array [Unsigned 1, Null]) = canon (Array [Null])"
  by (rule encode_injective [OF usize_limits_profiles(1)];
      subst encode_bounded_iff [OF usize_limits_profiles(1)]; simp add: codec_eval)

end
