(* ===== verification/Hash_Interface.thy ===== *)
theory Hash_Interface
  imports Rust_Bytes
begin

section \<open>The contract of an incremental hash\<close>

text \<open>
  Several components feed a digest piece by piece (\<open>Sha256State::new\<close>, \<open>update\<close>,
  \<open>finalize\<close>) where others hash one slice. What they rely on is that the pieces do
  not matter: \<open>rep s xs\<close> says that state \<open>s\<close> has absorbed the bytes \<open>xs\<close>.
\<close>

locale incremental_hash =
  fixes new :: 's
    and update :: "'s \<Rightarrow> bytes \<Rightarrow> 's"
    and finalize :: "'s \<Rightarrow> bytes"
    and hash :: "bytes \<Rightarrow> bytes"
    and rep :: "'s \<Rightarrow> bytes \<Rightarrow> bool"
  assumes rep_new: "rep new []"
    and rep_update: "rep s xs \<Longrightarrow> rep (update s ys) (xs @ ys)"
    and finalize_rep: "rep s xs \<Longrightarrow> finalize s = hash xs"
begin

lemma rep_fold: "rep s xs \<Longrightarrow> rep (fold (\<lambda>c s. update s c) cs s) (xs @ concat cs)"
proof (induction cs arbitrary: s xs)
  case (Cons c cs)
  from Cons.IH [OF rep_update [OF Cons.prems]] show ?case by simp
qed simp

lemma chunks_hash: "finalize (fold (\<lambda>c s. update s c) cs new) = hash (concat cs)"
  using rep_fold [OF rep_new, of cs] by (simp add: finalize_rep)

lemma single_hash: "finalize (update new xs) = hash xs"
  using finalize_rep [OF rep_update [OF rep_new]] by simp

lemma two_hash: "finalize (update (update new xs) ys) = hash (xs @ ys)"
  using finalize_rep [OF rep_update [OF rep_update [OF rep_new]]] by simp

end

end
