(* ===== verification/Sha256.thy ===== *)
theory Sha256
  imports Hash_Interface
begin

section \<open>SHA-256: the one-shot function and the streaming state\<close>

text \<open>
  \<open>sha256\<close>, \<open>sha256_hex\<close> and \<open>Sha256State\<close> of \<open>native/crates/protocol/src/lib.rs\<close>. The crate
  carries the compression function twice, once inlined in \<open>sha256\<close> and once as the method
  \<open>compress\<close>; both are modelled and proved equal. A slice of a \<open>[u8; 64]\<close> buffer is the list of
  its bytes, \<open>copy_from_slice\<close> is \<open>write_at\<close>. The two \<open>expect\<close> calls on lengths are the panic
  predicates \<open>sha256_panics\<close>, \<open>sha_update_panics\<close> and \<open>sha_finalize_panics\<close>.
\<close>

subsection \<open>Slices\<close>

function chunks_exact :: "nat \<Rightarrow> 'a list \<Rightarrow> 'a list list" where
  "chunks_exact n xs =
     (if n = 0 \<or> length xs < n then [] else take n xs # chunks_exact n (drop n xs))"
  by pat_completeness auto
termination by (relation "measure (\<lambda>(n, xs). length xs)") auto

declare chunks_exact.simps [simp del]

definition write_at :: "nat \<Rightarrow> 'a list \<Rightarrow> 'a list \<Rightarrow> 'a list" where
  "write_at at xs buf = take at buf @ xs @ drop (at + length xs) buf"

lemma length_write_at [simp]: "at + length xs \<le> length buf \<Longrightarrow> length (write_at at xs buf) = length buf"
  by (simp add: write_at_def)

lemma take_write_at: "at \<le> length buf \<Longrightarrow> take (at + length xs) (write_at at xs buf) = take at buf @ xs"
  by (simp add: write_at_def)

lemma chunks_exact_short [simp]: "length xs < n \<Longrightarrow> chunks_exact n xs = []"
  by (subst chunks_exact.simps) simp

lemma chunks_exact_append:
  assumes "0 < n" and "n dvd length xs"
  shows "chunks_exact n (xs @ ys) = chunks_exact n xs @ chunks_exact n ys"
  using assms
proof (induction n xs rule: chunks_exact.induct)
  case (1 n xs)
  show ?case
  proof (cases "n = 0 \<or> length xs < n")
    case True
    with "1.prems" have "xs = []"
      by (metis dvd_imp_le length_greater_0_conv not_less neq0_conv)
    then show ?thesis using "1.prems" by simp
  next
    case False
    then have "n dvd length (drop n xs)" using "1.prems" by (simp add: dvd_diff_nat)
    then show ?thesis
      using "1.IH" [OF False] False "1.prems"
      by (simp add: chunks_exact.simps [of n "xs @ ys"] chunks_exact.simps [of n xs])
  qed
qed

lemma chunks_exact_one: "0 < n \<Longrightarrow> length xs = n \<Longrightarrow> chunks_exact n xs = [xs]"
  by (simp add: chunks_exact.simps)

lemma chunks_exact_two:
  "0 < n \<Longrightarrow> length xs = n \<Longrightarrow> length ys = n \<Longrightarrow> chunks_exact n (xs @ ys) = [xs, ys]"
  using chunks_exact_append [of n xs ys] by (simp add: chunks_exact_one)

subsection \<open>The round function, inlined in \<open>sha256\<close>\<close>

text \<open>The round constants in decimal; \<open>K256_hex\<close> gives their halves in the notation of the source.\<close>

definition K256 :: "u32 list" where
  "K256 =
    [1116352408, 1899447441, 3049323471, 3921009573, 961987163, 1508970993, 2453635748,
     2870763221, 3624381080, 310598401, 607225278, 1426881987, 1925078388, 2162078206,
     2614888103, 3248222580, 3835390401, 4022224774, 264347078, 604807628, 770255983,
     1249150122, 1555081692, 1996064986, 2554220882, 2821834349, 2952996808, 3210313671,
     3336571891, 3584528711, 113926993, 338241895, 666307205, 773529912, 1294757372,
     1396182291, 1695183700, 1986661051, 2177026350, 2456956037, 2730485921, 2820302411,
     3259730800, 3345764771, 3516065817, 3600352804, 4094571909, 275423344, 430227734,
     506948616, 659060556, 883997877, 958139571, 1322822218, 1537002063, 1747873779,
     1955562222, 2024104815, 2227730452, 2361852424, 2428436474, 2756734187, 3204031479,
     3329325298]"

lemma K256_hex:
  "map (\<lambda>w. (drop_bit 16 w, take_bit 16 w)) K256 =
    [(0x428a, 0x2f98), (0x7137, 0x4491), (0xb5c0, 0xfbcf), (0xe9b5, 0xdba5), (0x3956, 0xc25b),
     (0x59f1, 0x11f1), (0x923f, 0x82a4), (0xab1c, 0x5ed5), (0xd807, 0xaa98), (0x1283, 0x5b01),
     (0x2431, 0x85be), (0x550c, 0x7dc3), (0x72be, 0x5d74), (0x80de, 0xb1fe), (0x9bdc, 0x06a7),
     (0xc19b, 0xf174), (0xe49b, 0x69c1), (0xefbe, 0x4786), (0x0fc1, 0x9dc6), (0x240c, 0xa1cc),
     (0x2de9, 0x2c6f), (0x4a74, 0x84aa), (0x5cb0, 0xa9dc), (0x76f9, 0x88da), (0x983e, 0x5152),
     (0xa831, 0xc66d), (0xb003, 0x27c8), (0xbf59, 0x7fc7), (0xc6e0, 0x0bf3), (0xd5a7, 0x9147),
     (0x06ca, 0x6351), (0x1429, 0x2967), (0x27b7, 0x0a85), (0x2e1b, 0x2138), (0x4d2c, 0x6dfc),
     (0x5338, 0x0d13), (0x650a, 0x7354), (0x766a, 0x0abb), (0x81c2, 0xc92e), (0x9272, 0x2c85),
     (0xa2bf, 0xe8a1), (0xa81a, 0x664b), (0xc24b, 0x8b70), (0xc76c, 0x51a3), (0xd192, 0xe819),
     (0xd699, 0x0624), (0xf40e, 0x3585), (0x106a, 0xa070), (0x19a4, 0xc116), (0x1e37, 0x6c08),
     (0x2748, 0x774c), (0x34b0, 0xbcb5), (0x391c, 0x0cb3), (0x4ed8, 0xaa4a), (0x5b9c, 0xca4f),
     (0x682e, 0x6ff3), (0x748f, 0x82ee), (0x78a5, 0x636f), (0x84c8, 0x7814), (0x8cc7, 0x0208),
     (0x90be, 0xfffa), (0xa450, 0x6ceb), (0xbef9, 0xa3f7), (0xc671, 0x78f2)]"
  by (simp add: K256_def)

definition H256 :: "u32 list" where
  "H256 = [0x6a09e667, 0xbb67ae85, 0x3c6ef372, 0xa54ff53a,
           0x510e527f, 0x9b05688c, 0x1f83d9ab, 0x5be0cd19]"

type_synonym regs = "u32 \<times> u32 \<times> u32 \<times> u32 \<times> u32 \<times> u32 \<times> u32 \<times> u32"

definition sha256_expand :: "nat \<Rightarrow> u32 list \<Rightarrow> u32 list" where
  "sha256_expand i w =
     (let s0 = word_rotr 7 (w ! (i - 15)) XOR word_rotr 18 (w ! (i - 15)) XOR drop_bit 3 (w ! (i - 15));
          s1 = word_rotr 17 (w ! (i - 2)) XOR word_rotr 19 (w ! (i - 2)) XOR drop_bit 10 (w ! (i - 2))
      in w[i := w ! (i - 16) + s0 + w ! (i - 7) + s1])"

definition sha256_schedule :: "bytes \<Rightarrow> u32 list" where
  "sha256_schedule block =
     fold sha256_expand [16..<64] (map from_be_bytes (chunks_exact 4 block) @ replicate 48 0)"

definition sha256_round :: "u32 list \<Rightarrow> nat \<Rightarrow> regs \<Rightarrow> regs" where
  "sha256_round w i = (\<lambda>(a, b, c, d, e, f, g, hh).
     let s1 = word_rotr 6 e XOR word_rotr 11 e XOR word_rotr 25 e;
         ch = (e AND f) XOR (NOT e AND g);
         t1 = hh + s1 + ch + K256 ! i + w ! i;
         s0 = word_rotr 2 a XOR word_rotr 13 a XOR word_rotr 22 a;
         maj = (a AND b) XOR (a AND c) XOR (b AND c);
         t2 = s0 + maj
     in (t1 + t2, a, b, c, d + t1, e, f, g))"

definition sha256_block :: "bytes \<Rightarrow> u32 list \<Rightarrow> u32 list" where
  "sha256_block block h =
     (let w = sha256_schedule block;
          (a, b, c, d, e, f, g, hh) =
            fold (sha256_round w) [0..<64] (h ! 0, h ! 1, h ! 2, h ! 3, h ! 4, h ! 5, h ! 6, h ! 7)
      in map2 (+) h [a, b, c, d, e, f, g, hh])"

text \<open>\<open>while padded.len() % 64 != 56 { padded.push(0) }\<close>.\<close>

definition zeros_missing :: "nat \<Rightarrow> nat" where
  "zeros_missing n = (if n mod 64 \<le> 56 then 56 - n mod 64 else 120 - n mod 64)"

lemma zeros_missing_Suc:
  assumes "n mod 64 \<noteq> 56"
  shows "zeros_missing n = Suc (zeros_missing (Suc n))"
proof -
  have "n mod 64 < 64" by simp
  moreover have "zeros_missing (Suc n) = (if n mod 64 = 63 then 56
      else if Suc (n mod 64) \<le> 56 then 56 - Suc (n mod 64) else 120 - Suc (n mod 64))"
    by (simp add: zeros_missing_def mod_Suc)
  ultimately show ?thesis using assms unfolding zeros_missing_def [of n]
    by (simp split: if_splits)
qed

function push_zeros :: "bytes \<Rightarrow> bytes" where
  "push_zeros p = (if length p mod 64 \<noteq> 56 then push_zeros (p @ [0]) else p)"
  by pat_completeness auto
termination
  by (relation "measure (\<lambda>p. zeros_missing (length p))") (simp_all add: zeros_missing_Suc)

declare push_zeros.simps [simp del]

definition sha256_pad :: "bytes \<Rightarrow> bytes" where
  "sha256_pad bs =
     push_zeros (bs @ [0x80]) @ to_be_bytes 8 (of_nat (8 * length bs) :: u64)"

definition sha256_panics :: "bytes \<Rightarrow> bool" where
  "sha256_panics bs \<longleftrightarrow> checked_mul (length bs) 8 = None"

definition sha256 :: "bytes \<Rightarrow> bytes" where
  "sha256 bs =
     (let h = fold sha256_block (chunks_exact 64 (sha256_pad bs)) H256
      in concat (map (to_be_bytes 4) h))"

definition sha256_hex :: "bytes \<Rightarrow> string" where
  "sha256_hex bs = hex_string (sha256 bs)"

lemma length_sha256_block: "length h = 8 \<Longrightarrow> length (sha256_block block h) = 8"
  by (simp add: sha256_block_def Let_def split: prod.splits)

lemma length_sha256_fold: "length h = 8 \<Longrightarrow> length (fold sha256_block blocks h) = 8"
  by (induction blocks arbitrary: h) (simp_all add: length_sha256_block)

lemma length_sha256 [simp]: "length (sha256 bs) = 32"
proof -
  have "length (concat (map (to_be_bytes 4) h)) = 4 * length h" for h :: "u32 list"
    by (induction h) simp_all
  then show ?thesis using length_sha256_fold [of H256] by (simp add: sha256_def Let_def H256_def)
qed

lemma length_sha256_hex [simp]: "length (sha256_hex bs) = 64"
  by (simp add: sha256_hex_def)

subsection \<open>The streaming state\<close>

record sha_state =
  st_hash :: "u32 list"
  st_buffer :: bytes
  st_buffered :: nat
  st_byte_length :: nat

definition sha_new :: sha_state where
  "sha_new = \<lparr>st_hash = H256, st_buffer = replicate 64 0, st_buffered = 0, st_byte_length = 0\<rparr>"

definition sha_compress :: "bytes \<Rightarrow> u32 list \<Rightarrow> u32 list" where
  "sha_compress block hash =
     (let words = fold (\<lambda>i w.
            let s0 = word_rotr 7 (w ! (i - 15)) XOR word_rotr 18 (w ! (i - 15)) XOR drop_bit 3 (w ! (i - 15));
                s1 = word_rotr 17 (w ! (i - 2)) XOR word_rotr 19 (w ! (i - 2)) XOR drop_bit 10 (w ! (i - 2))
            in w[i := w ! (i - 16) + s0 + w ! (i - 7) + s1])
          [16..<64] (map from_be_bytes (chunks_exact 4 block) @ replicate 48 0);
          (a, b, c, d, e, f, g, h) = fold (\<lambda>i (a, b, c, d, e, f, g, h).
            let upper = word_rotr 6 e XOR word_rotr 11 e XOR word_rotr 25 e;
                choice = (e AND f) XOR (NOT e AND g);
                first = h + upper + choice + K256 ! i + words ! i;
                lower = word_rotr 2 a XOR word_rotr 13 a XOR word_rotr 22 a;
                majority = (a AND b) XOR (a AND c) XOR (b AND c);
                second = lower + majority
            in (first + second, a, b, c, d + first, e, f, g))
          [0..<64] (hash ! 0, hash ! 1, hash ! 2, hash ! 3, hash ! 4, hash ! 5, hash ! 6, hash ! 7)
      in map2 (+) hash [a, b, c, d, e, f, g, h])"

text \<open>\<open>while bytes.len() >= 64\<close>: whole blocks are compressed without touching the buffer.\<close>

function sha_blocks :: "u32 list \<Rightarrow> bytes \<Rightarrow> u32 list \<times> bytes" where
  "sha_blocks h bs =
     (if 64 \<le> length bs then sha_blocks (sha_compress (take 64 bs) h) (drop 64 bs) else (h, bs))"
  by pat_completeness auto
termination by (relation "measure (\<lambda>(h, bs). length bs)") auto

declare sha_blocks.simps [simp del]

definition sha_tail :: "sha_state \<Rightarrow> bytes \<Rightarrow> sha_state" where
  "sha_tail s bs =
     (let (h, rest) = sha_blocks (st_hash s) bs
      in s\<lparr>st_hash := h, st_buffer := write_at 0 rest (st_buffer s), st_buffered := length rest\<rparr>)"

definition sha_update_panics :: "sha_state \<Rightarrow> bytes \<Rightarrow> bool" where
  "sha_update_panics s bs \<longleftrightarrow> checked_add (st_byte_length s) (length bs) = None"

definition sha_update :: "sha_state \<Rightarrow> bytes \<Rightarrow> sha_state" where
  "sha_update s0 bs =
     (let s = s0\<lparr>st_byte_length := st_byte_length s0 + length bs\<rparr>
      in if st_buffered s \<noteq> 0 then
           let n = min (64 - st_buffered s) (length bs);
               s1 = s\<lparr>st_buffer := write_at (st_buffered s) (take n bs) (st_buffer s),
                      st_buffered := st_buffered s + n\<rparr>
           in if st_buffered s1 = 64
              then sha_tail (s1\<lparr>st_hash := sha_compress (st_buffer s1) (st_hash s1), st_buffered := 0\<rparr>)
                     (drop n bs)
              else s1
         else sha_tail s bs)"

definition sha_finalize_panics :: "sha_state \<Rightarrow> bool" where
  "sha_finalize_panics s \<longleftrightarrow> checked_mul (st_byte_length s) 8 = None"

definition sha_finalize :: "sha_state \<Rightarrow> bytes" where
  "sha_finalize s =
     (let bit_length = of_nat (8 * st_byte_length s) :: u64;
          buffer = write_at (st_buffered s) [0x80] (st_buffer s);
          buffered = st_buffered s + 1;
          (hash, buffer) =
            (if 56 < buffered
             then (sha_compress (take buffered buffer @ replicate (64 - buffered) 0) (st_hash s),
                   replicate 64 0)
             else (st_hash s, write_at buffered (replicate (56 - buffered) 0) buffer));
          buffer = write_at 56 (to_be_bytes 8 bit_length) buffer
      in concat (map (to_be_bytes 4) (sha_compress buffer hash)))"

subsection \<open>Both copies of the compression function agree\<close>

lemma sha_compress_eq: "sha_compress = sha256_block"
  unfolding sha_compress_def sha256_block_def sha256_schedule_def sha256_expand_def [abs_def]
    sha256_round_def [abs_def] Let_def
  by (rule refl)

subsection \<open>Padding\<close>

lemma push_zeros_eq: "push_zeros p = p @ replicate (zeros_missing (length p)) 0"
proof (induction p rule: push_zeros.induct)
  case (1 p)
  show ?case
  proof (cases "length p mod 64 \<noteq> 56")
    case True
    then show ?thesis
      using "1.IH" [OF True] by (simp add: push_zeros.simps [of p] zeros_missing_Suc [OF True])
  next
    case False
    then show ?thesis by (simp add: push_zeros.simps [of p] zeros_missing_def)
  qed
qed

lemma zeros_missing_add_64: "64 dvd m \<Longrightarrow> zeros_missing (m + n) = zeros_missing n"
  by (auto simp: zeros_missing_def mod_add_left_eq [symmetric] elim!: dvdE)

text \<open>The last, padded blocks of a message whose unfinished tail is \<open>tail\<close>.\<close>

lemma sha256_pad_split:
  assumes "64 dvd length full"
  shows "sha256_pad (full @ tail) =
    full @ tail @ 0x80 # replicate (zeros_missing (Suc (length tail))) 0
      @ to_be_bytes 8 (of_nat (8 * length (full @ tail)) :: u64)"
proof -
  have "zeros_missing (Suc (length full + length tail)) = zeros_missing (Suc (length tail))"
    using zeros_missing_add_64 [OF assms, of "Suc (length tail)"] by simp
  then show ?thesis by (simp add: sha256_pad_def push_zeros_eq)
qed

subsection \<open>The streaming state represents what it has absorbed\<close>

definition sha_rep :: "sha_state \<Rightarrow> bytes \<Rightarrow> bool" where
  "sha_rep s xs \<longleftrightarrow>
     (\<exists>full. 64 dvd length full \<and> xs = full @ take (st_buffered s) (st_buffer s)
        \<and> st_buffered s < 64 \<and> length (st_buffer s) = 64
        \<and> st_hash s = fold sha256_block (chunks_exact 64 full) H256
        \<and> st_byte_length s = length xs)"

lemma sha_blocks_fold:
  assumes "sha_blocks h bs = (h', rest)"
  shows "\<exists>pre. bs = pre @ rest \<and> 64 dvd length pre \<and> length rest < 64
    \<and> h' = fold sha256_block (chunks_exact 64 pre) h"
  using assms
proof (induction h bs rule: sha_blocks.induct)
  case (1 h bs)
  show ?case
  proof (cases "64 \<le> length bs")
    case True
    with "1.prems" have "sha_blocks (sha_compress (take 64 bs) h) (drop 64 bs) = (h', rest)"
      by (simp add: sha_blocks.simps [of h bs])
    from "1.IH" [OF True this] obtain pre where pre: "drop 64 bs = pre @ rest"
      "64 dvd length pre" "length rest < 64"
      "h' = fold sha256_block (chunks_exact 64 pre) (sha_compress (take 64 bs) h)" by blast
    have len: "length (take 64 bs) = 64" using True by simp
    have "chunks_exact 64 (take 64 bs @ pre) = take 64 bs # chunks_exact 64 pre"
      using chunks_exact_append [of 64 "take 64 bs" pre] chunks_exact_one [OF _ len] len by simp
    moreover have "bs = (take 64 bs @ pre) @ rest" using pre(1) by (simp flip: pre(1))
    moreover have "64 dvd length (take 64 bs @ pre)" using pre(2) len by simp
    ultimately show ?thesis using pre(3,4)
      by (intro exI [of _ "take 64 bs @ pre"]) (simp add: sha_compress_eq)
  next
    case False
    with "1.prems" show ?thesis
      by (intro exI [of _ "[]"]) (simp add: sha_blocks.simps [of h bs])
  qed
qed

lemma sha_tail_rep:
  assumes "64 dvd length full" and "length (st_buffer s) = 64"
    and "st_hash s = fold sha256_block (chunks_exact 64 full) H256"
    and "st_byte_length s = length (full @ bs)"
  shows "sha_rep (sha_tail s bs) (full @ bs)"
proof -
  obtain h rest where b: "sha_blocks (st_hash s) bs = (h, rest)"
    by (cases "sha_blocks (st_hash s) bs") simp
  from sha_blocks_fold [OF b] obtain pre where pre: "bs = pre @ rest" "64 dvd length pre"
    "length rest < 64" "h = fold sha256_block (chunks_exact 64 pre) (st_hash s)" by blast
  have "chunks_exact 64 (full @ pre) = chunks_exact 64 full @ chunks_exact 64 pre"
    by (rule chunks_exact_append) (simp_all add: assms)
  moreover have "sha_tail s bs = s\<lparr>st_hash := h, st_buffer := write_at 0 rest (st_buffer s),
      st_buffered := length rest\<rparr>"
    by (simp add: sha_tail_def b)
  ultimately show ?thesis unfolding sha_rep_def
    using assms pre by (intro exI [of _ "full @ pre"]) (simp add: write_at_def)
qed

lemma sha_new_rep: "sha_rep sha_new []"
  by (auto simp: sha_rep_def sha_new_def)

lemma sha_update_rep:
  assumes "sha_rep s xs"
  shows "sha_rep (sha_update s ys) (xs @ ys)"
proof -
  let ?n = "min (64 - st_buffered s) (length ys)"
  let ?buf = "write_at (st_buffered s) (take ?n ys) (st_buffer s)"
  from assms obtain full where full: "64 dvd length full"
    "xs = full @ take (st_buffered s) (st_buffer s)" "st_buffered s < 64" "length (st_buffer s) = 64"
    "st_hash s = fold sha256_block (chunks_exact 64 full) H256" "st_byte_length s = length xs"
    unfolding sha_rep_def by blast
  have split: "xs @ ys = (xs @ take ?n ys) @ drop ?n ys" by simp
  have len: "length ?buf = 64" using full by simp
  have buf: "take (st_buffered s + ?n) ?buf = take (st_buffered s) (st_buffer s) @ take ?n ys"
    using take_write_at [of "st_buffered s" "st_buffer s" "take ?n ys"] full by simp
  show ?thesis
  proof (cases "st_buffered s = 0")
    case True
    then have "xs = full" using full(2) by simp
    then show ?thesis
      using sha_tail_rep [of full "s\<lparr>st_byte_length := st_byte_length s + length ys\<rparr>" ys] full True
      by (simp add: sha_update_def)
  next
    case nonempty: False
    show ?thesis
    proof (cases "st_buffered s + ?n = 64")
      case True
      have block: "full @ ?buf = xs @ take ?n ys" using buf True len full(2) by simp
      have "chunks_exact 64 (full @ ?buf) = chunks_exact 64 full @ [?buf]"
        using chunks_exact_append [of 64 full ?buf] chunks_exact_one [OF _ len] full(1) by simp
      moreover have "st_byte_length s + length ys = length ((full @ ?buf) @ drop ?n ys)"
        unfolding block using full(6) by simp
      ultimately have rep: "sha_rep (sha_tail (s\<lparr>st_byte_length := st_byte_length s + length ys,
          st_buffer := ?buf, st_hash := sha_compress ?buf (st_hash s), st_buffered := 0\<rparr>)
          (drop ?n ys)) ((full @ ?buf) @ drop ?n ys)"
        using full len by (intro sha_tail_rep) (simp_all add: sha_compress_eq)
      have "sha_update s ys = sha_tail (s\<lparr>st_byte_length := st_byte_length s + length ys,
          st_buffer := ?buf, st_hash := sha_compress ?buf (st_hash s), st_buffered := 0\<rparr>)
          (drop ?n ys)"
        using nonempty True by (simp add: sha_update_def Let_def)
      moreover have "(full @ ?buf) @ drop ?n ys = xs @ ys" unfolding block by simp
      ultimately show ?thesis using rep by (simp only:)
    next
      case False
      then have "?n = length ys" using full(3) by auto
      then show ?thesis using full len buf nonempty False unfolding sha_rep_def
        by (intro exI [of _ full]) (auto simp: sha_update_def Let_def)
    qed
  qed
qed

lemma sha_finalize_rep:
  assumes "sha_rep s xs"
  shows "sha_finalize s = sha256 xs"
proof -
  let ?r = "st_buffered s"
  let ?tail = "take ?r (st_buffer s)"
  let ?len = "to_be_bytes 8 (of_nat (8 * length xs) :: u64)"
  from assms obtain full where full: "64 dvd length full" "xs = full @ ?tail" "?r < 64"
    "length (st_buffer s) = 64" "st_hash s = fold sha256_block (chunks_exact 64 full) H256"
    "st_byte_length s = length xs"
    unfolding sha_rep_def by blast
  let ?last = "?tail @ 0x80 # replicate (zeros_missing (Suc ?r)) 0 @ ?len"
  have pad: "sha256_pad xs = full @ ?last"
    using sha256_pad_split [OF full(1), of ?tail] full(2-4) by simp
  have chunks: "chunks_exact 64 (sha256_pad xs) = chunks_exact 64 full @ chunks_exact 64 ?last"
    unfolding pad by (rule chunks_exact_append) (simp_all add: full)
  show ?thesis
  proof (cases "56 < Suc ?r")
    case True
    let ?b1 = "?tail @ 0x80 # replicate (63 - ?r) 0"
    let ?b2 = "replicate 56 0 @ ?len"
    have mis: "zeros_missing (Suc ?r) = (63 - ?r) + 56"
      using True full(3) by (auto simp: zeros_missing_def mod_Suc)
    have last: "?last = ?b1 @ ?b2" by (simp add: mis replicate_add)
    have "length ?b1 = 64" "length ?b2 = 64" using full by simp_all
    then have "chunks_exact 64 ?last = [?b1, ?b2]"
      unfolding last by (intro chunks_exact_two) simp_all
    then show ?thesis
      using True full chunks
      by (simp add: sha_finalize_def sha256_def Let_def write_at_def sha_compress_eq)
  next
    case False
    have mis: "zeros_missing (Suc ?r) = 55 - ?r"
      using False by (simp add: zeros_missing_def mod_Suc)
    have "length ?last = 64" using False full by (simp add: mis)
    then have "chunks_exact 64 ?last = [?last]" by (simp add: chunks_exact_one)
    moreover have "write_at 56 ?len (write_at (Suc ?r) (replicate (55 - ?r) 0)
        (write_at ?r [0x80] (st_buffer s))) = ?last"
    proof -
      have "56 - ?r = Suc (55 - ?r)" using False by simp
      then show ?thesis using False full by (simp add: mis write_at_def)
    qed
    ultimately show ?thesis
      using False full chunks
      by (simp add: sha_finalize_def sha256_def Let_def sha_compress_eq)
  qed
qed

interpretation sha: incremental_hash sha_new sha_update sha_finalize sha256 sha_rep
  by unfold_locales (simp_all add: sha_new_rep sha_update_rep sha_finalize_rep)

text \<open>C3: However a message is cut into pieces, \<open>Sha256State\<close> (\<open>new\<close>, any number of \<open>update\<close>, \<open>finalize\<close>)
  returns the one-shot digest of the concatenation, and it panics on the total length exactly
  when the one-shot function does.\<close>

theorem sha256_streaming:
  "sha_finalize (fold (\<lambda>c s. sha_update s c) cs sha_new) = sha256 (concat cs)
   \<and> (sha_finalize_panics (fold (\<lambda>c s. sha_update s c) cs sha_new) \<longleftrightarrow> sha256_panics (concat cs))"
proof
  show "sha_finalize (fold (\<lambda>c s. sha_update s c) cs sha_new) = sha256 (concat cs)"
    by (rule sha.chunks_hash)
  have "sha_rep (fold (\<lambda>c s. sha_update s c) cs sha_new) (concat cs)"
    using sha.rep_fold [OF sha_new_rep, of cs] by simp
  then show "sha_finalize_panics (fold (\<lambda>c s. sha_update s c) cs sha_new) \<longleftrightarrow> sha256_panics (concat cs)"
    by (auto simp: sha_rep_def sha_finalize_panics_def sha256_panics_def)
qed

end
