(* ===== verification/Text_Forms.thy ===== *)
theory Text_Forms
  imports Rust_Bytes
begin

section \<open>Admitted text forms\<close>

text \<open>
  The forms of text the crates admit: relative and absolute paths (\<open>canonical_relative\<close>,
  \<open>canonical_absolute\<close> of \<open>native/crates/protocol/src/p2_schema.rs\<close>), the closed set of
  patterns of \<open>validate_text_pattern\<close>, and digests (\<open>parse_digest\<close> of the same file,
  \<open>valid_digest\<close> of \<open>patch_capture.rs\<close>). A canonical relative path is shown to stay below
  every directory it is resolved against, and a digest is shown to be exactly the hexadecimal
  form of 32 bytes that are not all zero.
\<close>

subsection \<open>Paths\<close>

definition path_byte :: "u8 \<Rightarrow> bool" where
  "path_byte b \<longleftrightarrow> is_ascii_alphanumeric b \<or> b \<in> set (str_bytes ''._+-'')"

definition canonical_relative :: "string \<Rightarrow> bool" where
  "canonical_relative path \<longleftrightarrow>
     path \<noteq> [] \<and> \<not> starts_with path ''/'' \<and> \<not> contains_sub ''//'' path
     \<and> list_all (\<lambda>part. part \<noteq> ''.'' \<and> part \<noteq> ''..'' \<and> part \<noteq> [] \<and> list_all path_byte (str_bytes part))
         (split_on CHR ''/'' path)"

definition canonical_absolute :: "string \<Rightarrow> bool" where
  "canonical_absolute path \<longleftrightarrow>
     starts_with path ''/'' \<and> length path \<le> 4096 \<and> \<not> contains_sub ''//'' path
     \<and> (case strip_prefix path ''/'' of None \<Rightarrow> False
        | Some tail \<Rightarrow> tail = [] \<or>
            list_all (\<lambda>part. part \<noteq> [] \<and> part \<noteq> ''.'' \<and> part \<noteq> ''..'') (split_on CHR ''/'' tail))
     \<and> list_all (\<lambda>b. b = byte_of_char CHR ''/'' \<or> is_ascii_alphanumeric b
          \<or> b \<in> set (str_bytes ''._@-'')) (str_bytes path)"

definition pattern_identifier :: string where
  "pattern_identifier = ''^[A-Za-z0-9][A-Za-z0-9._+@-]{0,4095}$''"

definition pattern_artifact :: string where
  "pattern_artifact = ''^(?:keep-artifact:|keep-source:|oci:)[A-Za-z0-9._:/+@-]+$''"

definition pattern_absolute :: string where
  "pattern_absolute =
     ''^(?!.*(?:^|'' @ [CHR 0x5c] @ ''/)'' @ [CHR 0x5c] @ ''.'' @ [CHR 0x5c] @ ''.?(?:'' @ [CHR 0x5c] @ ''/|$))''
     @ [CHR 0x5c] @ ''/(?:[A-Za-z0-9._+-]+(?:'' @ [CHR 0x5c] @ ''/[A-Za-z0-9._+-]+)*)?$''"

definition pattern_relative :: string where
  "pattern_relative =
     ''^(?!'' @ [CHR 0x5c] @ ''/)(?!.*(?:^|'' @ [CHR 0x5c] @ ''/)'' @ [CHR 0x5c] @ ''.'' @ [CHR 0x5c] @ ''.?(?:'' @ [CHR 0x5c] @ ''/|$))(?!.*''
     @ [CHR 0x5c] @ ''/'' @ [CHR 0x5c] @ ''/)[A-Za-z0-9._+-]+(?:'' @ [CHR 0x5c] @ ''/[A-Za-z0-9._+-]+)*$''"

definition validate_text_pattern :: "string \<Rightarrow> string \<Rightarrow> bool" where
  "validate_text_pattern t pattern =
     (if pattern = pattern_identifier then
        t \<noteq> [] \<and> length t \<le> 4096
        \<and> list_all (\<lambda>b. is_ascii_alphanumeric b \<or> b \<in> set (str_bytes ''._+@-'')) (str_bytes t)
      else if pattern = pattern_artifact then
        list_ex (\<lambda>prefix. case strip_prefix t prefix of None \<Rightarrow> False
          | Some tail \<Rightarrow> tail \<noteq> [] \<and> list_all (\<lambda>b. is_ascii_alphanumeric b
              \<or> b \<in> set (str_bytes ''._:/+@-'')) (str_bytes tail))
          [''keep-artifact:'', ''keep-source:'', ''oci:'']
      else if pattern = pattern_absolute then canonical_absolute t
      else if pattern = pattern_relative then canonical_relative t
      else False)"

subsection \<open>Digests\<close>

definition valid_digest :: "string \<Rightarrow> bool" where
  "valid_digest t \<longleftrightarrow>
     length t = 64 \<and> list_all lower_hex_byte (str_bytes t)
     \<and> list_ex (\<lambda>b. b \<noteq> byte_of_char CHR ''0'') (str_bytes t)"

definition hex_pair :: "string \<Rightarrow> nat \<Rightarrow> u8" where
  "hex_pair t i = of_nat (16 * hex_value (byte_of_char (t ! (2 * i))) + hex_value (byte_of_char (t ! (2 * i + 1))))"

definition parse_digest :: "string \<Rightarrow> (string, bytes) res" where
  "parse_digest t =
     (if length t \<noteq> 64 \<or> list_all (\<lambda>b. b = byte_of_char CHR ''0'') (str_bytes t)
         \<or> \<not> list_all lower_hex_byte (str_bytes t)
      then Inl ''P2 digest malformed''
      else Inr (map (hex_pair t) [0..<32]))"

subsection \<open>Paths stay below the directory they are resolved against\<close>

text \<open>
  Lexical resolution of path components against a directory: a dot keeps the directory, two
  dots leave it, an empty component is skipped.
\<close>

fun resolve :: "string list \<Rightarrow> string list \<Rightarrow> string list" where
  "resolve dir [] = dir"
| "resolve dir (part # parts) =
     (if part = '''' \<or> part = ''.'' then resolve dir parts
      else if part = ''..'' then resolve (butlast dir) parts
      else resolve (dir @ [part]) parts)"

lemma resolve_plain:
  "(\<And>p. p \<in> set parts \<Longrightarrow> p \<noteq> '''' \<and> p \<noteq> ''.'' \<and> p \<noteq> ''..'') \<Longrightarrow> resolve dir parts = dir @ parts"
proof (induction parts arbitrary: dir)
  case (Cons part parts)
  have "part \<noteq> ''''" "part \<noteq> ''.''" "part \<noteq> ''..''" using Cons.prems [of part] by auto
  moreover have "resolve (dir @ [part]) parts = (dir @ [part]) @ parts"
    using Cons.prems by (intro Cons.IH) auto
  ultimately show ?case by simp
qed simp

lemma canonical_relative_parts:
  "canonical_relative path \<Longrightarrow> p \<in> set (split_on CHR ''/'' path) \<Longrightarrow>
   p \<noteq> '''' \<and> p \<noteq> ''.'' \<and> p \<noteq> ''..''"
  by (auto simp: canonical_relative_def list_all_iff)

subsection \<open>Digests are the hexadecimal form of 32 bytes\<close>

lemma hex_value_less: "lower_hex_byte b \<Longrightarrow> hex_value b < 16"
  by (auto simp: lower_hex_byte_def hex_value_def is_ascii_digit_def word_le_nat_alt)

lemma hex_digit_hex_value:
  assumes "lower_hex_byte (byte_of_char c)"
  shows "hex_digit (hex_value (byte_of_char c)) = c"
proof -
  let ?n = "unat (byte_of_char c)"
  have c: "char_of ?n = c" by simp
  have "hex_digit (hex_value (byte_of_char c)) = char_of ?n"
    using assms
    by (auto simp: lower_hex_byte_def hex_value_def hex_digit_def is_ascii_digit_def word_le_nat_alt
        simp del: unat_byte_of_char)
  then show ?thesis using c by simp
qed

lemma div_mod_16: "y < 16 \<Longrightarrow> (16 * x + y) div 16 = x \<and> (16 * x + y) mod 16 = y" for x y :: nat
  by simp

lemma unat_pair:
  "x < 16 \<Longrightarrow> y < 16 \<Longrightarrow> unat (of_nat (16 * x + y) :: u8) = 16 * x + y"
proof -
  assume "x < 16" "y < 16"
  then have "16 * x + y < 2 ^ 8" by simp
  then have "take_bit 8 (16 * x + y) = 16 * x + y" by (rule take_bit_nat_eq_self)
  then show ?thesis by (simp add: unsigned_of_nat del: of_nat_add of_nat_mult)
qed

lemma hex_string_map:
  "hex_string bs = concat (map (\<lambda>i. [hex_digit (unat (bs ! i) div 16), hex_digit (unat (bs ! i) mod 16)]) [0..<length bs])"
proof -
  have "map f bs = map (\<lambda>i. f (bs ! i)) [0..<length bs]" for f :: "u8 \<Rightarrow> string"
    by (rule nth_equalityI) simp_all
  then show ?thesis by (simp only: hex_string_def)
qed

lemma concat_pairs_nth:
  "concat (map (\<lambda>i. [f i, g i]) [0..<n]) = map (\<lambda>j. if even j then f (j div 2) else g (j div 2)) [0..<2 * n]"
  by (induction n) simp_all

lemma nth_hex_string:
  "j < 2 * length bs \<Longrightarrow> hex_string bs ! j =
     (if even j then hex_digit (unat (bs ! (j div 2)) div 16) else hex_digit (unat (bs ! (j div 2)) mod 16))"
  by (simp add: hex_string_map concat_pairs_nth)

lemma hex_pair_hex_string:
  assumes "i < length bs"
  shows "hex_pair (hex_string bs) i = bs ! i"
proof -
  have b: "unat (bs ! i) < 256" using unsigned_less [of "bs ! i", where 'a = nat] by simp
  then have "unat (bs ! i) div 16 < 16" by simp
  then have "hex_pair (hex_string bs) i = of_nat (16 * (unat (bs ! i) div 16) + unat (bs ! i) mod 16)"
    using assms by (simp add: hex_pair_def nth_hex_string hex_value_hex_digit)
  then show ?thesis by simp
qed

lemma hex_string_hex_pairs:
  assumes len: "length t = 2 * n" and hex: "list_all lower_hex_byte (str_bytes t)"
  shows "hex_string (map (hex_pair t) [0..<n]) = t"
proof (rule nth_equalityI)
  show "length (hex_string (map (hex_pair t) [0..<n])) = length t" by (simp add: len)
  fix j assume "j < length (hex_string (map (hex_pair t) [0..<n]))"
  then have j: "j < 2 * n" by simp
  let ?i = "j div 2"
  have "?i < n" using j by simp
  then have i: "?i < n" "2 * ?i < length t" "2 * ?i + 1 < length t" using len by simp_all
  have low: "lower_hex_byte (byte_of_char (t ! k))" if "k < length t" for k
    using hex that by (simp add: str_bytes_def list_all_length)
  have "unat (hex_pair t ?i) = 16 * hex_value (byte_of_char (t ! (2 * ?i))) + hex_value (byte_of_char (t ! (2 * ?i + 1)))"
    unfolding hex_pair_def using i low by (intro unat_pair hex_value_less) auto
  then have d: "unat (hex_pair t ?i) div 16 = hex_value (byte_of_char (t ! (2 * ?i)))"
    "unat (hex_pair t ?i) mod 16 = hex_value (byte_of_char (t ! (2 * ?i + 1)))"
    using hex_value_less [OF low, of "2 * ?i + 1"] i by simp_all
  have "j = 2 * ?i \<or> j = 2 * ?i + 1" by auto
  then show "hex_string (map (hex_pair t) [0..<n]) ! j = t ! j"
  proof
    assume e: "j = 2 * ?i"
    then have "even j" by (metis dvd_triv_left)
    then show ?thesis
      using j i d hex_digit_hex_value [OF low, of "2 * ?i"] by (simp add: nth_hex_string flip: e)
  next
    assume e: "j = 2 * ?i + 1"
    then have "odd j" by presburger
    then show ?thesis
      using j i d hex_digit_hex_value [OF low, of "2 * ?i + 1"] by (simp add: nth_hex_string)
  qed
qed

lemma char_of_48: "char_of (48 :: nat) = CHR ''0''"
  by code_simp

lemma hex_string_zeros: "hex_string (replicate n 0) = replicate (2 * n) CHR ''0''"
  by (induction n) (simp_all add: hex_string_def hex_digit_def char_of_48)

lemma hex_pair_zeros: "t ! (2 * i) = CHR ''0'' \<Longrightarrow> t ! (2 * i + 1) = CHR ''0'' \<Longrightarrow> hex_pair t i = 0"
  by (simp add: hex_pair_def hex_value_def is_ascii_digit_def word_le_nat_alt)

lemma parse_digest_iff: "parse_digest t = Inr d \<longleftrightarrow> length d = 32 \<and> d \<noteq> replicate 32 0 \<and> t = hex_string d"
proof
  assume "parse_digest t = Inr d"
  then have t: "length t = 64" "\<not> list_all (\<lambda>b. b = byte_of_char CHR ''0'') (str_bytes t)"
    "list_all lower_hex_byte (str_bytes t)" and d: "d = map (hex_pair t) [0..<32]"
    by (auto simp: parse_digest_def split: if_splits)
  have eq: "hex_string d = t" unfolding d by (rule hex_string_hex_pairs) (simp_all add: t)
  have "d \<noteq> replicate 32 0"
  proof
    assume "d = replicate 32 0"
    with eq have "t = replicate (2 * 32) CHR ''0''" by (metis hex_string_zeros)
    then show False using t(2) by (simp add: str_bytes_def list_all_iff)
  qed
  then show "length d = 32 \<and> d \<noteq> replicate 32 0 \<and> t = hex_string d" using eq d by simp
next
  assume *: "length d = 32 \<and> d \<noteq> replicate 32 0 \<and> t = hex_string d"
  have lower: "list_all lower_hex_byte (str_bytes t)"
    using * hex_string_lower by (auto simp: list_all_iff str_bytes_def)
  have pairs: "map (hex_pair t) [0..<32] = d"
    using * by (intro nth_equalityI) (simp_all add: hex_pair_hex_string)
  have "\<not> list_all (\<lambda>b. b = byte_of_char CHR ''0'') (str_bytes t)"
  proof
    assume "list_all (\<lambda>b. b = byte_of_char CHR ''0'') (str_bytes t)"
    then have zero: "t ! k = CHR ''0''" if "k < length t" for k
      using that by (simp add: str_bytes_def list_all_length)
    have "d ! i = 0" if "i < 32" for i
    proof -
      have "hex_pair t i = 0"
        using * that by (intro hex_pair_zeros zero) simp_all
      then show ?thesis using * that by (simp add: hex_pair_hex_string)
    qed
    then have "d = replicate 32 0" using * by (intro nth_equalityI) simp_all
    then show False using * by simp
  qed
  then show "parse_digest t = Inr d" using * lower pairs by (simp add: parse_digest_def)
qed

lemma valid_digest_iff: "valid_digest t \<longleftrightarrow> is_ok (parse_digest t)"
  by (auto simp: valid_digest_def parse_digest_def list_ex_iff list_all_iff)

text \<open>C4: A canonical relative path resolves to the directory followed by its own components,
  whatever directory it is resolved against: it never leaves it and never drops a component.\<close>

theorem canonical_relative_contained:
  assumes "canonical_relative path"
  shows "resolve dir (split_on CHR ''/'' path) = dir @ split_on CHR ''/'' path
    \<and> join_with CHR ''/'' (split_on CHR ''/'' path) = path"
  using resolve_plain canonical_relative_parts [OF assms] by (auto simp: join_split_on)

lemma canonical_relative_contained_witness:
  "resolve [''srv''] (split_on CHR ''/'' ''src/lib.rs'') = [''srv''] @ split_on CHR ''/'' ''src/lib.rs''
    \<and> join_with CHR ''/'' (split_on CHR ''/'' ''src/lib.rs'') = ''src/lib.rs''"
  by (rule canonical_relative_contained) code_simp

text \<open>\<open>parse_digest\<close> accepts exactly the lowercase hexadecimal forms of 32 bytes that are not all
  zero, and returns those bytes; \<open>valid_digest\<close> admits the same texts.\<close>

theorem parse_digest_exact:
  "(parse_digest t = Inr d \<longleftrightarrow> length d = 32 \<and> d \<noteq> replicate 32 0 \<and> t = hex_string d)
   \<and> (valid_digest t \<longleftrightarrow> (\<exists>d. length d = 32 \<and> d \<noteq> replicate 32 0 \<and> t = hex_string d))"
  by (simp add: parse_digest_iff valid_digest_iff is_ok_iff)

end
