(* ===== verification/Source_Rows.thy ===== *)
theory Source_Rows
  imports Cbor_Roundtrip Sha256 Text_Forms
begin

section \<open>Captured source rows and capture requests\<close>

text \<open>
  The first half of \<open>native/crates/protocol/src/patch_capture.rs\<close>: the capture request
  (\<open>capture_input_request\<close>) and the \<open>SourceRowsBuilder\<close> that takes files one by one, keeps
  the namespace free of aliases and commits to the rows with a streamed digest. The allocator
  behind \<open>try_reserve\<close> is the argument \<open>reserve\<close> of \<open>rows_push\<close>.
\<close>

subsection \<open>Limits and errors\<close>

definition MAX_EXPANDED_BYTES :: nat where [limit_defs]: "MAX_EXPANDED_BYTES = 144 * 1024 * 1024"
definition MAX_SOURCE_BYTES :: nat where [limit_defs]: "MAX_SOURCE_BYTES = 128 * 1024 * 1024"
definition MAX_FILE_BYTES :: nat where [limit_defs]: "MAX_FILE_BYTES = 16 * 1024 * 1024"
definition MAX_SOURCE_FILES :: nat where [limit_defs]: "MAX_SOURCE_FILES = 4096"
definition MAX_DIRECTORIES :: nat where [limit_defs]: "MAX_DIRECTORIES = 8192"
definition MAX_CAPTURE_FRAME_BYTES :: nat where [limit_defs]: "MAX_CAPTURE_FRAME_BYTES = 65536"

definition CAPTURE_FRAME_LIMITS :: limits where [limit_defs]:
  "CAPTURE_FRAME_LIMITS = \<lparr>max_bytes = MAX_CAPTURE_FRAME_BYTES, max_depth = 16, max_items = 1024,
     max_collection_items = 32, max_text_bytes = 4096\<rparr>"

definition CAPTURE_ROWS_LIMITS :: limits where [limit_defs]:
  "CAPTURE_ROWS_LIMITS = \<lparr>max_bytes = 20 * 1024 * 1024, max_depth = 16, max_items = 65536,
     max_collection_items = MAX_SOURCE_FILES, max_text_bytes = 4096\<rparr>"

datatype capture_error =
  Malformed | Limit | Path | Type | Integrity | Race | Unsupported | Io | Cancelled

text \<open>The domain separators end with a zero byte.\<close>

definition CAPTURE_REQUEST_DOMAIN :: bytes where
  "CAPTURE_REQUEST_DOMAIN = str_bytes ''keep.patch-input-request/v1'' @ [0]"

definition ROW_DOMAIN :: bytes where
  "ROW_DOMAIN = str_bytes ''keep.patch-source-rows/v1'' @ [0]"

definition ROW_SCHEMA :: string where "ROW_SCHEMA = ''keep.patch-source-rows''"
definition PACKAGE :: string where "PACKAGE = ''curve25519-dalek@5.0.0''"

definition byte_digest :: "bytes \<Rightarrow> string" where
  "byte_digest bs = hex_string (sha_finalize (sha_update sha_new bs))"

lemma byte_digest_eq: "byte_digest bs = sha256_hex bs"
  by (simp add: byte_digest_def sha256_hex_def sha.single_hash)

subsection \<open>The capture request\<close>

datatype archive_format = Tar | TarGzip

datatype capture_source =
    Directory string string
  | Archive archive_format string

record capture_request =
  cr_root :: string
  cr_source_path :: string
  cr_overlay_path :: string
  cr_overlay_byte_digest :: string
  cr_carrier_path :: string
  cr_carrier_byte_digest :: string
  cr_source :: capture_source
  cr_digest :: string

fun source_kind :: "capture_source \<Rightarrow> string" where
  "source_kind (Directory _ _) = ''directory''"
| "source_kind (Archive Tar _) = ''tar''"
| "source_kind (Archive TarGzip _) = ''tar-gzip''"

fun overlay_base_digest :: "capture_source \<Rightarrow> string" where
  "overlay_base_digest (Directory _ declared) = declared"
| "overlay_base_digest (Archive _ stream) = stream"

definition request_text :: "val \<Rightarrow> string \<Rightarrow> (capture_error, string) res" where
  "request_text v key = ok_or Malformed (Option.bind (val_field v key) as_text)"

definition request_digest :: "val \<Rightarrow> string \<Rightarrow> (capture_error, string) res" where
  "request_digest v key =
     bnd (request_text v key) (\<lambda>t. if valid_digest t then Inr t else Inl Malformed)"

definition COMMON :: "string list" where
  "COMMON = [''schema'', ''version'', ''root'', ''sourcePath'', ''sourceKind'', ''overlayPath'',
             ''overlayByteDigest'', ''carrierPath'', ''carrierByteDigest'']"

definition specific_keys :: "string \<Rightarrow> (capture_error, string list) res" where
  "specific_keys kind =
     (if kind = ''directory'' then Inr [''expectedSourceRowDigest'', ''declaredBaseArchiveDigest'']
      else if kind = ''tar'' \<or> kind = ''tar-gzip'' then Inr [''sourceStreamDigest'']
      else Inl Malformed)"

text \<open>Two input locations collide when one is, or is below, the other up to ASCII case.\<close>

definition paths_collide :: "string \<Rightarrow> string \<Rightarrow> bool" where
  "paths_collide l r \<longleftrightarrow>
     (let a = to_ascii_lowercase l; b = to_ascii_lowercase r
      in a = b \<or> starts_with a (b @ ''/'') \<or> starts_with b (a @ ''/''))"

fun any_collision :: "string list \<Rightarrow> bool" where
  "any_collision [] \<longleftrightarrow> False"
| "any_collision (p # ps) \<longleftrightarrow> list_ex (paths_collide p) ps \<or> any_collision ps"

definition check_request_path :: "string \<Rightarrow> (capture_error, unit) res" where
  "check_request_path path =
     (if 4096 < length path \<or> \<not> canonical_relative path then Inl Path else Inr ())"

definition request_source :: "val \<Rightarrow> string \<Rightarrow> (capture_error, capture_source) res" where
  "request_source v kind =
     (if kind = ''directory'' then
        bnd (request_digest v ''expectedSourceRowDigest'') (\<lambda>e.
        bnd (request_digest v ''declaredBaseArchiveDigest'') (\<lambda>d. Inr (Directory e d)))
      else bnd (request_digest v ''sourceStreamDigest'') (\<lambda>d.
        Inr (Archive (if kind = ''tar'' then Tar else TarGzip) d)))"

definition capture_input_request :: "bytes \<Rightarrow> (capture_error, capture_request) res" where
  "capture_input_request bs =
     (if MAX_CAPTURE_FRAME_BYTES < length bs then Inl Limit
      else bnd (map_err (\<lambda>_. Malformed) (decode_canonical bs CAPTURE_FRAME_LIMITS)) (\<lambda>v.
        case v of
          Map entries \<Rightarrow>
            bnd (request_text v ''schema'') (\<lambda>schema.
            if schema \<noteq> ''keep.patch-input-capture''
               \<or> Option.bind (val_field v ''version'') as_u64 \<noteq> Some 1 then Inl Malformed
            else bnd (request_text v ''sourceKind'') (\<lambda>kind.
            bnd (specific_keys kind) (\<lambda>specific.
            if length entries \<noteq> length COMMON + length specific
               \<or> list_ex (\<lambda>kv. fst kv \<notin> set COMMON \<and> fst kv \<notin> set specific) entries
            then Inl Malformed
            else bnd (request_text v ''root'') (\<lambda>root.
            if 4096 < length root
               \<or> \<not> (case strip_prefix root ''/'' of None \<Rightarrow> False | Some tail \<Rightarrow> canonical_relative tail)
            then Inl Path
            else bnd (request_text v ''sourcePath'') (\<lambda>source_path.
            bnd (request_text v ''overlayPath'') (\<lambda>overlay_path.
            bnd (request_text v ''carrierPath'') (\<lambda>carrier_path.
            bnd (for_all check_request_path [source_path, overlay_path, carrier_path]) (\<lambda>_.
            if any_collision [source_path, overlay_path, carrier_path] then Inl Path
            else bnd (request_source v kind) (\<lambda>source.
            let hash = sha_update (sha_update sha_new CAPTURE_REQUEST_DOMAIN) bs
            in bnd (request_digest v ''overlayByteDigest'') (\<lambda>overlay_digest.
               bnd (request_digest v ''carrierByteDigest'') (\<lambda>carrier_digest.
                 Inr \<lparr>cr_root = root, cr_source_path = source_path, cr_overlay_path = overlay_path,
                      cr_overlay_byte_digest = overlay_digest, cr_carrier_path = carrier_path,
                      cr_carrier_byte_digest = carrier_digest, cr_source = source,
                      cr_digest = hex_string (sha_finalize hash)\<rparr>)))))))))))
        | _ \<Rightarrow> Inl Malformed))"

subsection \<open>Files and their metadata\<close>

definition validate_source_path :: "string \<Rightarrow> (capture_error, unit) res" where
  "validate_source_path path =
     (if 4096 < length path \<or> \<not> canonical_relative path \<or> path = ''.cargo-checksum.json'' then Inl Path
      else if 32 < length (split_on CHR ''/'' path)
              \<or> list_ex (\<lambda>part. 255 < length part) (split_on CHR ''/'' path) then Inl Limit
      else Inr ())"

definition validate_source_mode :: "u32 \<Rightarrow> (capture_error, unit) res" where
  "validate_source_mode mode = (if 0x1ff < mode then Inl Type else Inr ())"

record source_file =
  sf_path :: string
  sf_mode :: u32
  sf_bytes :: bytes
  sf_byte_digest :: string

definition metadata :: "source_file \<Rightarrow> val" where
  "metadata f = Map [(''path'', Text (sf_path f)), (''mode'', Unsigned (ucast (sf_mode f))),
     (''byteLength'', Unsigned (of_nat (length (sf_bytes f)))),
     (''byteDigest'', Text (sf_byte_digest f))]"

record source_rows =
  sr_files :: "source_file list"
  sr_byte_length :: nat
  sr_row_digest :: string

subsection \<open>The builder\<close>

text \<open>The namespace maps a case-folded path to the path as given and whether it is a file.\<close>

record rows_builder =
  rb_files :: "source_file list"
  rb_namespace :: "string \<Rightarrow> (string \<times> bool) option"
  rb_directories :: nat
  rb_total :: nat

definition rows_new :: rows_builder where
  "rows_new = \<lparr>rb_files = [], rb_namespace = (\<lambda>_. None), rb_directories = 0, rb_total = 0\<rparr>"

definition remaining_file_bytes :: "rows_builder \<Rightarrow> nat" where
  "remaining_file_bytes b = min MAX_FILE_BYTES (MAX_SOURCE_BYTES - rb_total b)"

type_synonym addition = "string \<times> string \<times> bool"

definition extend_prefix :: "string \<Rightarrow> string \<Rightarrow> string" where
  "extend_prefix prefix part = (if prefix = [] then part else prefix @ ''/'' @ part)"

fun plan_parts :: "rows_builder \<Rightarrow> string list \<Rightarrow> string \<Rightarrow> nat \<Rightarrow> (capture_error, addition list) res" where
  "plan_parts b [] prefix new_directories = Inr []"
| "plan_parts b (part # parts) prefix new_directories =
     (let prefix = extend_prefix prefix part;
          file = (parts = []);
          folded = to_ascii_lowercase prefix
      in case rb_namespace b folded of
           Some (prior, prior_file) \<Rightarrow>
             if prior \<noteq> prefix \<or> prior_file \<or> file then Inl Path
             else plan_parts b parts prefix new_directories
         | None \<Rightarrow>
             let new_directories = (if file then new_directories else new_directories + 1)
             in if MAX_DIRECTORIES < rb_directories b + new_directories then Inl Limit
                else bnd (plan_parts b parts prefix new_directories) (\<lambda>additions.
                  Inr ((folded, prefix, file) # additions)))"

definition rows_plan :: "rows_builder \<Rightarrow> string \<Rightarrow> u32 \<Rightarrow> nat \<Rightarrow> (capture_error, addition list) res" where
  "rows_plan b path mode len =
     bnd (validate_source_path path) (\<lambda>_.
     bnd (validate_source_mode mode) (\<lambda>_.
     if MAX_SOURCE_FILES \<le> length (rb_files b) \<or> remaining_file_bytes b < len then Inl Limit
     else plan_parts b (split_on CHR ''/'' path) [] 0))"

definition check_file :: "rows_builder \<Rightarrow> string \<Rightarrow> u32 \<Rightarrow> nat \<Rightarrow> (capture_error, unit) res" where
  "check_file b path mode len = bnd (rows_plan b path mode len) (\<lambda>_. Inr ())"

definition apply_addition :: "addition \<Rightarrow> rows_builder \<Rightarrow> rows_builder" where
  "apply_addition = (\<lambda>(folded, original, file) b.
     b\<lparr>rb_namespace := (rb_namespace b)(folded \<mapsto> (original, file)),
       rb_directories := (if file then rb_directories b else rb_directories b + 1)\<rparr>)"

definition rows_push ::
  "bool \<Rightarrow> rows_builder \<Rightarrow> string \<Rightarrow> u32 \<Rightarrow> bytes \<Rightarrow> (capture_error, rows_builder) res" where
  "rows_push reserve b path mode bs =
     bnd (rows_plan b path mode (length bs)) (\<lambda>additions.
     if \<not> reserve then Inl Limit
     else
       let b = fold apply_addition additions b
       in Inr (b\<lparr>rb_total := rb_total b + length bs,
                  rb_files := rb_files b @ [\<lparr>sf_path = path, sf_mode = mode, sf_bytes = bs,
                                            sf_byte_digest = byte_digest bs\<rparr>]\<rparr>))"

text \<open>
  \<open>finish\<close> sorts the files and feeds the canonical encoding of the rows to the hash without
  building it: a map head of four entries, the key \<open>files\<close>, an array head, the metadata of every
  file, and the other three entries.
\<close>

definition feed :: "capture_error \<Rightarrow> val \<Rightarrow> nat \<times> sha_state \<Rightarrow> (capture_error, nat \<times> sha_state) res" where
  "feed err v = (\<lambda>(len, hash).
     bnd (map_err (\<lambda>_. err) (encode_bounded v CAPTURE_ROWS_LIMITS)) (\<lambda>bs.
     bnd (ok_or Limit (checked_add len (length bs))) (\<lambda>len.
     if max_bytes CAPTURE_ROWS_LIMITS < len then Inl Limit
     else Inr (len, sha_update hash bs))))"

definition rows_trailer :: "val list" where
  "rows_trailer = [Text ''schema'', Text ROW_SCHEMA, Text ''version'', Unsigned 1,
                   Text ''packageId'', Text PACKAGE]"

definition rows_finish :: "rows_builder \<Rightarrow> (capture_error, source_rows) res" where
  "rows_finish b =
     (let files = sort_key sf_path (rb_files b);
          hash = sha_update sha_new ROW_DOMAIN
      in bnd (map_err (\<lambda>_. Malformed) (encode_bounded (Text ''files'') CAPTURE_ROWS_LIMITS)) (\<lambda>key.
         let prefix = head 5 4 @ key @ head 4 (of_nat (length files))
         in bnd (fold_res (\<lambda>f. feed Limit (metadata f)) files (length prefix, sha_update hash prefix)) (\<lambda>s.
            bnd (fold_res (feed Malformed) rows_trailer s) (\<lambda>(len, hash).
              Inr \<lparr>sr_files = files, sr_byte_length = rb_total b,
                   sr_row_digest = hex_string (sha_finalize hash)\<rparr>))))"

end
