(* ===== verification/Source_Rows_Props.thy ===== *)
theory Source_Rows_Props
  imports Source_Rows
begin

section \<open>The source-rows builder keeps its inventory free of aliases\<close>

text \<open>
  The invariant \<open>rows_inv\<close> of the builder and its preservation by \<open>rows_push\<close>; the theorems
  about every builder reachable from \<open>rows_new\<close>: bounds, no two files whose paths alias up to
  ASCII case, and the streamed row digest as the digest of one canonical value.
\<close>

subsection \<open>The prefixes of a path\<close>

fun tagged :: "string \<Rightarrow> string list \<Rightarrow> (string \<times> bool) list" where
  "tagged prefix [] = []"
| "tagged prefix (part # parts) =
     (extend_prefix prefix part, parts = []) # tagged (extend_prefix prefix part) parts"

definition new_prefixes :: "rows_builder \<Rightarrow> (string \<times> bool) list \<Rightarrow> addition list" where
  "new_prefixes b ps =
     map (\<lambda>(p, file). (to_ascii_lowercase p, p, file))
       (filter (\<lambda>(p, file). rb_namespace b (to_ascii_lowercase p) = None) ps)"

definition dir_count :: "addition list \<Rightarrow> nat" where
  "dir_count as = length (filter (\<lambda>(_, _, file). \<not> file) as)"

lemma plan_parts_ok:
  "plan_parts b parts prefix n = Inr additions \<Longrightarrow>
   additions = new_prefixes b (tagged prefix parts)
   \<and> (\<forall>(p, file)\<in>set (tagged prefix parts). rb_namespace b (to_ascii_lowercase p) \<in> {None, Some (p, False)}
        \<and> (file \<longrightarrow> rb_namespace b (to_ascii_lowercase p) = None))
   \<and> (rb_directories b + n \<le> MAX_DIRECTORIES \<longrightarrow>
        rb_directories b + n + dir_count additions \<le> MAX_DIRECTORIES)"
proof (induction parts arbitrary: prefix n additions)
  case Nil
  then show ?case by (simp add: new_prefixes_def dir_count_def)
next
  case (Cons part parts)
  let ?p = "extend_prefix prefix part"
  show ?case
  proof (cases "rb_namespace b (to_ascii_lowercase ?p)")
    case None
    let ?n = "if parts = [] then n else n + 1"
    from None Cons.prems obtain rest where rest: "plan_parts b parts ?p ?n = Inr rest"
      "additions = (to_ascii_lowercase ?p, ?p, parts = []) # rest"
      "rb_directories b + ?n \<le> MAX_DIRECTORIES"
      by (auto simp: Let_def bnd_eq_Inr split: if_splits)
    from Cons.IH [OF rest(1)] rest(2,3) None show ?thesis
      by (auto simp: new_prefixes_def dir_count_def)
  next
    case (Some pf)
    obtain prior prior_file where pf: "pf = (prior, prior_file)" by (cases pf)
    with Some Cons.prems have rest: "prior = ?p" "\<not> prior_file" "parts \<noteq> []"
      "plan_parts b parts ?p n = Inr additions"
      by (auto simp: Let_def split: if_splits)
    from Cons.IH [OF rest(4)] rest(1-3) Some pf show ?thesis
      by (auto simp: new_prefixes_def)
  qed
qed

lemma tagged_length:
  "(p, file) \<in> set (tagged prefix parts) \<Longrightarrow> prefix \<noteq> [] \<Longrightarrow> length prefix < length p"
proof (induction parts arbitrary: prefix)
  case (Cons part parts)
  have "length prefix < length (extend_prefix prefix part)" "extend_prefix prefix part \<noteq> []"
    using Cons.prems by (simp_all add: extend_prefix_def)
  then show ?case using Cons by (auto intro: less_trans)
qed simp

lemma tagged_distinct:
  "(\<And>part. part \<in> set parts \<Longrightarrow> part \<noteq> []) \<Longrightarrow>
   distinct (map (\<lambda>(p, file). to_ascii_lowercase p) (tagged prefix parts))"
proof (induction parts arbitrary: prefix)
  case (Cons part parts)
  let ?p = "extend_prefix prefix part"
  have "?p \<noteq> []" using Cons.prems [of part] by (simp add: extend_prefix_def)
  then have "length ?p < length q" if "(q, fl) \<in> set (tagged ?p parts)" for q fl
    using tagged_length [OF that] by simp
  then have "to_ascii_lowercase ?p \<noteq> to_ascii_lowercase q" if "(q, fl) \<in> set (tagged ?p parts)" for q fl
    using that by (metis length_to_ascii_lowercase nat_neq_iff)
  moreover have "distinct (map (\<lambda>(p, file). to_ascii_lowercase p) (tagged ?p parts))"
    using Cons by simp
  ultimately show ?case by auto
qed simp

lemma join_with_Cons: "parts \<noteq> [] \<Longrightarrow> join_with c (part # parts) = part @ c # join_with c parts"
  by (cases parts) simp_all

lemma extend_prefix_join:
  "part \<noteq> [] \<Longrightarrow> parts \<noteq> [] \<Longrightarrow>
   extend_prefix (extend_prefix prefix part) (join_with CHR ''/'' parts)
     = extend_prefix prefix (join_with CHR ''/'' (part # parts))"
  by (simp add: extend_prefix_def join_with_Cons)

lemma tagged_file:
  "parts \<noteq> [] \<Longrightarrow> (\<And>part. part \<in> set parts \<Longrightarrow> part \<noteq> []) \<Longrightarrow>
   (extend_prefix prefix (join_with CHR ''/'' parts), True) \<in> set (tagged prefix parts)"
proof (induction parts arbitrary: prefix)
  case (Cons part parts)
  then show ?case
    by (cases "parts = []") (auto simp: extend_prefix_join [symmetric] simp del: join_with.simps(3))
qed simp

lemma tagged_directory:
  assumes "parts \<noteq> []" and "\<And>part. part \<in> set parts \<Longrightarrow> part \<noteq> [] \<and> CHR ''/'' \<notin> set part"
    and "extend_prefix prefix (join_with CHR ''/'' parts) = d @ CHR ''/'' # rest"
    and "prefix = [] \<or> length prefix < length d"
  shows "(d, False) \<in> set (tagged prefix parts)"
  using assms
proof (induction parts arbitrary: prefix)
  case (Cons part parts)
  let ?p = "extend_prefix prefix part"
  have part: "part \<noteq> []" "CHR ''/'' \<notin> set part" using Cons.prems(2) by auto
  then have p: "?p \<noteq> []" by (simp add: extend_prefix_def)
  obtain tail where split: "?p @ tail = d @ CHR ''/'' # rest" "parts = [] \<longrightarrow> tail = []"
    "parts \<noteq> [] \<longrightarrow> tail = CHR ''/'' # join_with CHR ''/'' parts"
    using Cons.prems(3) by (cases "parts = []") (auto simp: extend_prefix_def join_with_Cons split: if_splits)
  have no_slash: "\<not> length d < length ?p"
  proof
    assume short: "length d < length ?p"
    have "(?p @ tail) ! length d = CHR ''/''" unfolding split(1) by simp
    with short have slash: "?p ! length d = CHR ''/''" by (simp add: nth_append)
    show False
    proof (cases "prefix = []")
      case True
      then show False using slash short part(2) by (auto simp: extend_prefix_def in_set_conv_nth)
    next
      case False
      then obtain k where k: "length d = Suc (length prefix) + k"
        using Cons.prems(4) by (metis less_iff_Suc_add add_Suc)
      then have "?p ! length d = part ! k" "k < length part"
        using False short by (simp_all add: extend_prefix_def nth_append)
      then show False using slash part(2) by (metis nth_mem)
    qed
  qed
  show ?case
  proof (cases "parts = []")
    case True
    then have "?p = d @ CHR ''/'' # rest" using split by simp
    then show ?thesis using no_slash by simp
  next
    case False
    show ?thesis
    proof (cases "length d = length ?p")
      case True
      then have "d = ?p" using split(1) by (metis append_eq_append_conv)
      then show ?thesis using False by simp
    next
      case longer: False
      have "extend_prefix ?p (join_with CHR ''/'' parts) = d @ CHR ''/'' # rest"
        using Cons.prems(3) part(1) False by (simp add: extend_prefix_join)
      then have "(d, False) \<in> set (tagged ?p parts)"
        using Cons.prems(2) False longer no_slash p by (intro Cons.IH) auto
      then show ?thesis by simp
    qed
  qed
qed simp

lemma split_on_no_sep: "part \<in> set (split_on c xs) \<Longrightarrow> c \<notin> set part"
  by (induction xs arbitrary: part) (auto split: list.splits if_splits)

subsection \<open>The invariant\<close>

definition dir_keys :: "rows_builder \<Rightarrow> string set" where
  "dir_keys b = {key. \<exists>p. rb_namespace b key = Some (p, False)}"

definition file_ok :: "rows_builder \<Rightarrow> source_file \<Rightarrow> bool" where
  "file_ok b f \<longleftrightarrow>
     validate_source_path (sf_path f) = Inr () \<and> sf_mode f \<le> 0x1ff
     \<and> length (sf_bytes f) \<le> MAX_FILE_BYTES \<and> sf_byte_digest f = sha256_hex (sf_bytes f)
     \<and> rb_namespace b (to_ascii_lowercase (sf_path f)) = Some (sf_path f, True)
     \<and> (\<forall>d rest. sf_path f = d @ CHR ''/'' # rest \<longrightarrow> rb_namespace b (to_ascii_lowercase d) = Some (d, False))"

definition rows_inv :: "rows_builder \<Rightarrow> bool" where
  "rows_inv b \<longleftrightarrow>
     rb_total b = sum_list (map (length \<circ> sf_bytes) (rb_files b)) \<and> rb_total b \<le> MAX_SOURCE_BYTES
     \<and> length (rb_files b) \<le> MAX_SOURCE_FILES \<and> rb_directories b \<le> MAX_DIRECTORIES
     \<and> distinct (map sf_path (rb_files b))
     \<and> (\<forall>f\<in>set (rb_files b). file_ok b f)
     \<and> finite (dir_keys b) \<and> card (dir_keys b) = rb_directories b"

lemma rows_new_inv: "rows_inv rows_new"
  by (simp add: rows_inv_def rows_new_def dir_keys_def)

lemma fold_apply_addition:
  "distinct (map fst additions) \<Longrightarrow>
   rb_namespace (fold apply_addition additions b) = rb_namespace b ++ map_of additions
   \<and> rb_directories (fold apply_addition additions b) = rb_directories b + dir_count additions
   \<and> rb_total (fold apply_addition additions b) = rb_total b
   \<and> rb_files (fold apply_addition additions b) = rb_files b"
proof (induction additions arbitrary: b)
  case (Cons a additions)
  obtain key p fl where a: "a = (key, p, fl)" by (cases a)
  have "key \<notin> fst ` set additions" using Cons.prems a by simp
  then have "map_of additions key = None" by (simp add: map_of_eq_None_iff)
  then have "(rb_namespace b)(key \<mapsto> (p, fl)) ++ map_of additions
      = rb_namespace b ++ map_of (a # additions)"
    by (auto simp: fun_eq_iff map_add_def a split: option.splits)
  moreover have "rb_namespace (apply_addition a b) = (rb_namespace b)(key \<mapsto> (p, fl))"
    "rb_directories (apply_addition a b) + dir_count additions = rb_directories b + dir_count (a # additions)"
    "rb_total (apply_addition a b) = rb_total b" "rb_files (apply_addition a b) = rb_files b"
    by (simp_all add: apply_addition_def a dir_count_def)
  moreover have "distinct (map fst additions)" using Cons.prems by simp
  ultimately show ?case using Cons.IH [of "apply_addition a b"]
    by (simp add: a fun_upd_def)
qed (simp add: dir_count_def)

text \<open>What a successful \<open>plan\<close> establishes for the namespace after the insertions.\<close>

lemma plan_namespace:
  assumes "rows_plan b path mode len = Inr additions" and "rb_directories b \<le> MAX_DIRECTORIES"
  defines "b' \<equiv> fold apply_addition additions b"
  shows "distinct (map fst additions)"
    and "\<And>key v. rb_namespace b key = Some v \<Longrightarrow> rb_namespace b' key = Some v"
    and "rb_namespace b (to_ascii_lowercase path) = None"
    and "rb_namespace b' (to_ascii_lowercase path) = Some (path, True)"
    and "\<And>d rest. path = d @ CHR ''/'' # rest \<Longrightarrow> rb_namespace b' (to_ascii_lowercase d) = Some (d, False)"
    and "rb_directories b' \<le> MAX_DIRECTORIES"
    and "\<And>key p file. (key, p, file) \<in> set additions \<Longrightarrow> rb_namespace b key = None"
proof -
  let ?ps = "tagged [] (split_on CHR ''/'' path)"
  from assms(1) have path: "validate_source_path path = Inr ()"
    and plan: "plan_parts b (split_on CHR ''/'' path) [] 0 = Inr additions"
    by (auto simp: rows_plan_def bnd_eq_Inr split: if_splits)
  from path have "canonical_relative path" by (simp add: validate_source_path_def split: if_splits)
  then have parts: "part \<noteq> [] \<and> CHR ''/'' \<notin> set part" if "part \<in> set (split_on CHR ''/'' path)" for part
    using canonical_relative_parts [OF _ that] split_on_no_sep [OF that] by blast
  note ok = plan_parts_ok [OF plan]
  have adds: "additions = new_prefixes b ?ps" using ok by blast
  have ns: "rb_namespace b (to_ascii_lowercase p) = None \<or>
      rb_namespace b (to_ascii_lowercase p) = Some (p, False) \<and> \<not> fl" if "(p, fl) \<in> set ?ps" for p fl
    using ok that by auto
  have dist: "distinct (map (\<lambda>(p, file). to_ascii_lowercase p) ?ps)"
    using parts by (intro tagged_distinct) blast
  have map_fst: "map fst (new_prefixes b qs) = map (\<lambda>(p, file). to_ascii_lowercase p)
      (filter (\<lambda>(p, file). rb_namespace b (to_ascii_lowercase p) = None) qs)" for qs
    by (induction qs) (auto simp: new_prefixes_def)
  show distinct: "distinct (map fst additions)"
    unfolding adds map_fst using dist by (rule distinct_map_filter)
  show new: "rb_namespace b key = None" if "(key, p, fl) \<in> set additions" for key p fl
    using that by (auto simp: adds new_prefixes_def)
  have b': "rb_namespace b' = rb_namespace b ++ map_of additions"
    "rb_directories b' = rb_directories b + dir_count additions"
    unfolding b'_def using fold_apply_addition [OF distinct] by auto
  from ok have "rb_directories b + 0 \<le> MAX_DIRECTORIES \<longrightarrow>
      rb_directories b + 0 + dir_count additions \<le> MAX_DIRECTORIES" by blast
  then show "rb_directories b' \<le> MAX_DIRECTORIES" using assms(2) by (simp add: b')
  show "rb_namespace b' key = Some v" if "rb_namespace b key = Some v" for key v
  proof -
    have "key \<notin> fst ` set additions" using new that by force
    then have "map_of additions key = None" by (simp add: map_of_eq_None_iff)
    then show ?thesis using that by (simp add: b' map_add_def)
  qed
  have in_b': "rb_namespace b' (to_ascii_lowercase p) = Some (p, fl)" if "(p, fl) \<in> set ?ps" for p fl
  proof (cases "rb_namespace b (to_ascii_lowercase p)")
    case None
    then have "(to_ascii_lowercase p, p, fl) \<in> set additions"
      using that by (force simp: adds new_prefixes_def)
    then have "map_of additions (to_ascii_lowercase p) = Some (p, fl)"
      using distinct by simp
    then show ?thesis by (simp add: b' map_add_def)
  next
    case (Some v)
    then have "map_of additions (to_ascii_lowercase p) = None"
      using new by (force simp: map_of_eq_None_iff)
    then show ?thesis using ns [OF that] Some by (auto simp: b' map_add_def)
  qed
  have "(extend_prefix [] (join_with CHR ''/'' (split_on CHR ''/'' path)), True) \<in> set ?ps"
    using parts by (intro tagged_file) auto
  then have last: "(path, True) \<in> set ?ps" by (simp add: join_split_on extend_prefix_def)
  then show "rb_namespace b' (to_ascii_lowercase path) = Some (path, True)" by (rule in_b')
  from ns [OF last] show "rb_namespace b (to_ascii_lowercase path) = None" by simp
  show "rb_namespace b' (to_ascii_lowercase d) = Some (d, False)" if "path = d @ CHR ''/'' # rest" for d rest
  proof (rule in_b', rule tagged_directory)
    show "extend_prefix [] (join_with CHR ''/'' (split_on CHR ''/'' path)) = d @ CHR ''/'' # rest"
      using that by (simp add: join_split_on extend_prefix_def)
  qed (use parts in auto)
qed

lemma dir_keys_fold:
  assumes distinct: "distinct (map fst additions)"
    and fresh: "\<And>key p fl. (key, p, fl) \<in> set additions \<Longrightarrow> rb_namespace b key = None"
    and fin: "finite (dir_keys b)" and card: "card (dir_keys b) = rb_directories b"
  defines "b' \<equiv> fold apply_addition additions b"
  shows "finite (dir_keys b') \<and> card (dir_keys b') = rb_directories b'"
proof -
  let ?new = "filter (\<lambda>(_, _, file). \<not> file) additions"
  have ns: "rb_namespace b' = rb_namespace b ++ map_of additions"
    and dirs: "rb_directories b' = rb_directories b + dir_count additions"
    unfolding b'_def using fold_apply_addition [OF distinct] by auto
  have keys: "dir_keys b' = dir_keys b \<union> fst ` set ?new"
  proof (rule set_eqI)
    fix key
    show "key \<in> dir_keys b' \<longleftrightarrow> key \<in> dir_keys b \<union> fst ` set ?new"
    proof (cases "map_of additions key")
      case None
      then have "key \<notin> fst ` set additions" by (simp add: map_of_eq_None_iff)
      then have "key \<notin> fst ` set ?new" by auto
      then show ?thesis using None by (auto simp: dir_keys_def ns map_add_def)
    next
      case (Some v)
      obtain p fl where v: "v = (p, fl)" by (cases v)
      then have entry: "(key, p, fl) \<in> set additions" using Some by (auto dest: map_of_SomeD)
      then have "key \<notin> dir_keys b" using fresh by (auto simp: dir_keys_def)
      moreover have "key \<in> fst ` set ?new \<longleftrightarrow> \<not> fl"
      proof
        assume "key \<in> fst ` set ?new"
        then obtain q where "(key, q, False) \<in> set additions" by auto
        then have "map_of additions key = Some (q, False)" using distinct by simp
        then show "\<not> fl" using Some v by simp
      qed (use entry in force)
      ultimately show ?thesis using Some v by (auto simp: dir_keys_def ns map_add_def)
    qed
  qed
  have "distinct (map fst ?new)" using distinct by (rule distinct_map_filter)
  then have "card (fst ` set ?new) = dir_count additions"
    using distinct_card [of "map fst ?new"] by (simp add: dir_count_def)
  moreover have "dir_keys b \<inter> fst ` set ?new = {}"
    using fresh by (fastforce simp: dir_keys_def)
  ultimately show ?thesis
    using fin card by (simp add: keys dirs card_Un_disjoint)
qed

lemma rows_push_inv:
  assumes inv: "rows_inv b" and push: "rows_push reserve b path mode bs = Inr b'"
  shows "rows_inv b'"
proof -
  from push obtain additions where plan: "rows_plan b path mode (length bs) = Inr additions"
    and b': "b' = (let c = fold apply_addition additions b in c\<lparr>rb_total := rb_total c + length bs,
        rb_files := rb_files c @ [\<lparr>sf_path = path, sf_mode = mode, sf_bytes = bs,
          sf_byte_digest = byte_digest bs\<rparr>]\<rparr>)"
    by (auto simp: rows_push_def bnd_eq_Inr Let_def split: if_splits)
  let ?c = "fold apply_addition additions b"
  let ?f = "\<lparr>sf_path = path, sf_mode = mode, sf_bytes = bs, sf_byte_digest = byte_digest bs\<rparr>"
  have dirs: "rb_directories b \<le> MAX_DIRECTORIES" using inv by (simp add: rows_inv_def)
  note ns = plan_namespace [OF plan dirs]
  note c = fold_apply_addition [OF ns(1), of b]
  have fields: "rb_namespace b' = rb_namespace ?c" "rb_directories b' = rb_directories ?c"
    "rb_total b' = rb_total b + length bs" "rb_files b' = rb_files b @ [?f]"
    using c by (simp_all add: b' Let_def)
  from plan have plan': "validate_source_path path = Inr ()" "mode \<le> 0x1ff"
    "length (rb_files b) < MAX_SOURCE_FILES" "length bs \<le> remaining_file_bytes b"
    by (auto simp: rows_plan_def bnd_eq_Inr validate_source_mode_def split: if_splits)
  have old: "file_ok b' f" if "f \<in> set (rb_files b)" for f
    using inv that ns(2) by (fastforce simp: rows_inv_def file_ok_def fields)
  have new: "file_ok b' ?f"
    using plan' ns(4,5) by (auto simp: file_ok_def fields byte_digest_eq remaining_file_bytes_def)
  have "path \<notin> set (map sf_path (rb_files b))"
    using inv ns(3) by (auto simp: rows_inv_def file_ok_def)
  moreover have "finite (dir_keys b') \<and> card (dir_keys b') = rb_directories b'"
    using dir_keys_fold [OF ns(1) ns(7)] inv by (simp add: rows_inv_def dir_keys_def fields)
  ultimately show ?thesis
    using inv plan' ns(6) old new by (auto simp: rows_inv_def fields remaining_file_bytes_def)
qed

subsection \<open>Reachable builders\<close>

inductive rows_reachable :: "rows_builder \<Rightarrow> bool" where
  new: "rows_reachable rows_new"
| push: "rows_reachable b \<Longrightarrow> rows_push reserve b path mode bs = Inr b' \<Longrightarrow> rows_reachable b'"

lemma rows_reachable_inv: "rows_reachable b \<Longrightarrow> rows_inv b"
  by (induction rule: rows_reachable.induct) (auto intro: rows_new_inv rows_push_inv)

lemma lowercase_slash: "to_ascii_lowercase_byte c = byte_of_char CHR ''/'' \<Longrightarrow> c = byte_of_char CHR ''/''"
  by (auto simp: to_ascii_lowercase_byte_def byte_of_char_def word_le_nat_alt word_unat_eq_iff
      unat_word_ariths split: if_splits)

text \<open>A path below another up to case has a prefix that folds to it.\<close>

lemma folded_below:
  assumes "starts_with (to_ascii_lowercase q) (to_ascii_lowercase p @ ''/'')"
  obtains d rest where "q = d @ CHR ''/'' # rest" and "to_ascii_lowercase d = to_ascii_lowercase p"
proof -
  let ?n = "length p"
  from assms obtain t where t: "to_ascii_lowercase q = to_ascii_lowercase p @ CHR ''/'' # t"
    by (auto simp: starts_with_iff)
  have "length q = length (to_ascii_lowercase p @ CHR ''/'' # t)"
    by (metis t length_to_ascii_lowercase)
  then have n: "?n < length q" by simp
  then have q: "q = take ?n q @ q ! ?n # drop (Suc ?n) q" by (rule id_take_nth_drop)
  have low: "to_ascii_lowercase xs = map (char_of_byte \<circ> to_ascii_lowercase_byte \<circ> byte_of_char) xs" for xs
    by (simp add: to_ascii_lowercase_def bytes_str_def str_bytes_def comp_def)
  have "take ?n (to_ascii_lowercase q) = to_ascii_lowercase p" by (simp add: t)
  then have 1: "to_ascii_lowercase (take ?n q) = to_ascii_lowercase p" by (simp add: low take_map)
  have "to_ascii_lowercase q ! ?n = CHR ''/''" by (simp add: t nth_append)
  then have "char_of_byte (to_ascii_lowercase_byte (byte_of_char (q ! ?n))) = CHR ''/''"
    using n by (simp add: low)
  then have "to_ascii_lowercase_byte (byte_of_char (q ! ?n)) = byte_of_char CHR ''/''"
    by (metis byte_of_char_of_byte)
  then have "q ! ?n = CHR ''/''" using lowercase_slash by (metis char_of_byte_of_char)
  then show thesis using q 1 that by metis
qed

lemma rows_no_nesting:
  assumes "file_ok b f" and "file_ok b g"
  shows "\<not> starts_with (to_ascii_lowercase (sf_path g)) (to_ascii_lowercase (sf_path f) @ ''/'')"
proof
  assume "starts_with (to_ascii_lowercase (sf_path g)) (to_ascii_lowercase (sf_path f) @ ''/'')"
  then obtain d rest where "sf_path g = d @ CHR ''/'' # rest"
    "to_ascii_lowercase d = to_ascii_lowercase (sf_path f)" by (rule folded_below)
  then show False using assms by (auto simp: file_ok_def)
qed

text \<open>C5: No two captured files alias: in every reachable builder the paths of two different files
  are neither equal up to ASCII case nor nested one below the other.\<close>

theorem rows_alias_free:
  assumes "rows_reachable b" and "i < length (rb_files b)" and "j < length (rb_files b)" and "i \<noteq> j"
  shows "\<not> paths_collide (sf_path (rb_files b ! i)) (sf_path (rb_files b ! j))"
proof -
  let ?f = "rb_files b ! i" and ?g = "rb_files b ! j"
  have inv: "rows_inv b" using assms(1) by (rule rows_reachable_inv)
  then have ok: "file_ok b ?f" "file_ok b ?g" using assms(2,3) by (simp_all add: rows_inv_def)
  have "map sf_path (rb_files b) ! i \<noteq> map sf_path (rb_files b) ! j"
    using inv assms(2-4) by (simp add: rows_inv_def nth_eq_iff_index_eq del: nth_map)
  then have "to_ascii_lowercase (sf_path ?f) \<noteq> to_ascii_lowercase (sf_path ?g)"
    using ok assms(2,3) by (auto simp: file_ok_def)
  then show ?thesis using rows_no_nesting ok by (simp add: paths_collide_def Let_def)
qed

text \<open>C6: The limits hold in every reachable builder: the files and directories are counted exactly and
  bounded, the total is the sum of the file sizes and at most 128 MiB (so \<open>remaining_file_bytes\<close>
  never underflows), each file is at most 16 MiB and carries the digest of its own bytes.\<close>

theorem rows_bounded:
  assumes "rows_reachable b"
  shows "length (rb_files b) \<le> MAX_SOURCE_FILES \<and> rb_directories b \<le> MAX_DIRECTORIES
    \<and> card (dir_keys b) = rb_directories b
    \<and> rb_total b = sum_list (map (length \<circ> sf_bytes) (rb_files b)) \<and> rb_total b \<le> MAX_SOURCE_BYTES
    \<and> list_all (\<lambda>f. length (sf_bytes f) \<le> MAX_FILE_BYTES \<and> sf_byte_digest f = sha256_hex (sf_bytes f)
        \<and> canonical_relative (sf_path f)) (rb_files b)"
  using rows_reachable_inv [OF assms]
  by (auto simp: rows_inv_def file_ok_def list_all_iff validate_source_path_def split: if_splits)

lemma check_file_predicts_push:
  "check_file b path mode (length bs) =
     (case rows_push True b path mode bs of Inl e \<Rightarrow> Inl e | Inr _ \<Rightarrow> Inr ())"
  by (cases "rows_plan b path mode (length bs)") (simp_all add: check_file_def rows_push_def Let_def)

subsection \<open>The streamed row digest\<close>

definition rows_value :: "source_file list \<Rightarrow> val" where
  "rows_value files =
     Map [(''files'', Array (map metadata files)), (''schema'', Text ROW_SCHEMA),
          (''version'', Unsigned 1), (''packageId'', Text PACKAGE)]"

lemma usize_rows: "usize_limits CAPTURE_ROWS_LIMITS"
  by (simp add: usize_limits_def limit_defs usize_max_def)

lemma feed_iff:
  "feed err v (n, h) = Inr (n', h') \<longleftrightarrow>
     encode_bounded v CAPTURE_ROWS_LIMITS = Inr (enc v) \<and> n' = n + length (enc v)
     \<and> n' \<le> max_bytes CAPTURE_ROWS_LIMITS \<and> h' = sha_update h (enc v)"
proof -
  have "max_bytes CAPTURE_ROWS_LIMITS \<le> usize_max" using usize_rows by (simp add: usize_limits_def)
  then show ?thesis
    by (auto simp: feed_def bnd_eq_Inr checked_add_def encode_bounded_iff [OF usize_rows] split: if_splits)
qed

lemma fold_feed_iff:
  "fold_res (\<lambda>x. feed err (g x)) xs (n, h) = Inr (n', h') \<longleftrightarrow>
     (\<forall>x\<in>set xs. encode_bounded (g x) CAPTURE_ROWS_LIMITS = Inr (enc (g x)))
     \<and> n' = n + length (concat (map (\<lambda>x. enc (g x)) xs))
     \<and> (xs \<noteq> [] \<longrightarrow> n' \<le> max_bytes CAPTURE_ROWS_LIMITS)
     \<and> h' = fold (\<lambda>c s. sha_update s c) (map (\<lambda>x. enc (g x)) xs) h"
proof (induction xs arbitrary: n h)
  case (Cons x xs)
  have "fold_res (\<lambda>x. feed err (g x)) (x # xs) (n, h) = Inr (n', h') \<longleftrightarrow>
      encode_bounded (g x) CAPTURE_ROWS_LIMITS = Inr (enc (g x))
      \<and> n + length (enc (g x)) \<le> max_bytes CAPTURE_ROWS_LIMITS
      \<and> fold_res (\<lambda>x. feed err (g x)) xs (n + length (enc (g x)), sha_update h (enc (g x))) = Inr (n', h')"
    by (simp add: bnd_eq_Inr) (auto simp: feed_iff)
  then show ?case unfolding Cons.IH by auto
qed auto

lemma encode_bounded_enc_iff:
  assumes lim: "usize_limits lim"
  shows "encode_bounded v lim = Inr b \<longleftrightarrow> fits lim 0 v \<and> encodable v \<and> vcount v \<le> max_items lim
    \<and> length (enc v) \<le> max_bytes lim \<and> b = enc v"
proof -
  have "length (enc v) \<le> max_bytes lim \<Longrightarrow> elen v = length (enc v)"
    using lim by (intro elen_enc) (simp add: usize_limits_def)
  then show ?thesis by (auto simp: encode_bounded_iff [OF lim])
qed

lemma encode_bounded_elen:
  "usize_limits lim \<Longrightarrow> fits lim 0 v \<Longrightarrow> encodable v \<Longrightarrow> vcount v \<le> max_items lim \<Longrightarrow> elen v \<le> max_bytes lim
   \<Longrightarrow> encode_bounded v lim = Inr (enc v)"
  by (simp add: encode_bounded_iff length_enc usize_limits_def)

lemma row_limits:
  "max_bytes CAPTURE_ROWS_LIMITS = 20971520" "max_depth CAPTURE_ROWS_LIMITS = 16"
  "max_items CAPTURE_ROWS_LIMITS = 65536" "max_collection_items CAPTURE_ROWS_LIMITS = 4096"
  "max_text_bytes CAPTURE_ROWS_LIMITS = 4096"
  by (simp_all add: limit_defs)

definition texts_ok :: "source_file \<Rightarrow> bool" where
  "texts_ok f \<longleftrightarrow> fits_text CAPTURE_ROWS_LIMITS (sf_path f) \<and> fits_text CAPTURE_ROWS_LIMITS (sf_byte_digest f)"

lemma fits_metadata: "d \<le> 15 \<Longrightarrow> fits CAPTURE_ROWS_LIMITS d (metadata f) \<and> encodable (metadata f) \<longleftrightarrow> texts_ok f"
  by (auto simp: metadata_def texts_ok_def codec_eval row_limits)

lemma encode_metadata_iff:
  "encode_bounded (metadata f) CAPTURE_ROWS_LIMITS = Inr (enc (metadata f)) \<longleftrightarrow>
     texts_ok f \<and> length (enc (metadata f)) \<le> max_bytes CAPTURE_ROWS_LIMITS"
  using fits_metadata [of 0 f]
  by (auto simp: encode_bounded_enc_iff [OF usize_rows]) (simp add: metadata_def row_limits)

lemma encode_trailer:
  "v \<in> set rows_trailer \<Longrightarrow> encode_bounded v CAPTURE_ROWS_LIMITS = Inr (enc v)"
  by (auto simp: rows_trailer_def encode_bounded_enc_iff [OF usize_rows] codec_eval row_limits ROW_SCHEMA_def PACKAGE_def)

lemma encode_files_key: "encode_bounded (Text ''files'') CAPTURE_ROWS_LIMITS = Inr (enck ''files'')"
  by (simp add: encode_bounded_enc_iff [OF usize_rows] codec_eval row_limits)

lemma sorted_row_keys:
  "sorted (map entry_key [(''files'', a), (''schema'', b), (''version'', c), (''packageId'', d)])"
  by (simp add: codec_eval)

lemma enc_rows_value:
  "enc (rows_value files) = (head 5 4 @ enck ''files'' @ head 4 (of_nat (length files)))
     @ concat (map (\<lambda>f. enc (metadata f)) files) @ concat (map enc rows_trailer)"
proof -
  have "sort_key entry_key [(''files'', Array (map metadata files)), (''schema'', Text ROW_SCHEMA),
          (''version'', Unsigned 1), (''packageId'', Text PACKAGE)]
      = [(''files'', Array (map metadata files)), (''schema'', Text ROW_SCHEMA),
          (''version'', Unsigned 1), (''packageId'', Text PACKAGE)]"
    by (rule sort_key_self) (rule sorted_row_keys)
  then show ?thesis
    by (simp add: rows_value_def rows_trailer_def comp_def del: sort_key_simps sorted_wrt.simps)
qed

lemma fits_rows_value:
  "length files \<le> MAX_SOURCE_FILES \<Longrightarrow>
   fits CAPTURE_ROWS_LIMITS 0 (rows_value files) \<and> encodable (rows_value files)
     \<longleftrightarrow> (\<forall>f\<in>set files. texts_ok f)"
  using fits_metadata [of "Suc (Suc 0)"]
  by (auto simp: rows_value_def row_limits MAX_SOURCE_FILES_def fits_text_def ascii_profile_def
      ROW_SCHEMA_def PACKAGE_def byte_of_char_Char)

lemma vcount_rows_value:
  "length files \<le> MAX_SOURCE_FILES \<Longrightarrow> vcount (rows_value files) \<le> max_items CAPTURE_ROWS_LIMITS"
proof -
  assume "length files \<le> MAX_SOURCE_FILES"
  moreover have "sum_list (map (\<lambda>f. vcount (metadata f)) files) = 9 * length files"
    by (induction files) (simp_all add: metadata_def)
  ultimately show ?thesis by (simp add: rows_value_def row_limits MAX_SOURCE_FILES_def comp_def)
qed

lemma rows_finish_iff:
  defines "prefix n \<equiv> head 5 4 @ enck ''files'' @ head 4 (of_nat n)"
  shows "rows_finish b = Inr r \<longleftrightarrow>
    (let files = sort_key sf_path (rb_files b) in
       (\<forall>f\<in>set files. texts_ok f) \<and> length (enc (rows_value files)) \<le> max_bytes CAPTURE_ROWS_LIMITS
       \<and> r = \<lparr>sr_files = files, sr_byte_length = rb_total b,
               sr_row_digest = sha256_hex (ROW_DOMAIN @ enc (rows_value files))\<rparr>)"
proof -
  let ?files = "sort_key sf_path (rb_files b)"
  let ?p = "prefix (length ?files)"
  let ?ms = "map (\<lambda>f. enc (metadata f)) ?files" and ?ts = "map (\<lambda>v. enc (id v)) rows_trailer"
  let ?h = "fold (\<lambda>c s. sha_update s c) ?ts (fold (\<lambda>c s. sha_update s c) ?ms
      (sha_update (sha_update sha_new ROW_DOMAIN) ?p))"
  have feed_id: "feed e = (\<lambda>v. feed e (id v))" for e by simp
  have hash: "sha_finalize ?h = sha256 (ROW_DOMAIN @ enc (rows_value ?files))"
    using sha.chunks_hash [of "[ROW_DOMAIN, ?p] @ ?ms @ ?ts"]
    by (simp add: enc_rows_value prefix_def)
  have nonempty: "rows_trailer \<noteq> []" by (simp add: rows_trailer_def)
  have total: "length (enc (rows_value ?files)) = length ?p + length (concat ?ms) + length (concat ?ts)"
    by (simp add: enc_rows_value prefix_def)
  have "rows_finish b = Inr r \<longleftrightarrow>
      (\<forall>f\<in>set ?files. encode_bounded (metadata f) CAPTURE_ROWS_LIMITS = Inr (enc (metadata f)))
      \<and> (?files \<noteq> [] \<longrightarrow> length ?p + length (concat ?ms) \<le> max_bytes CAPTURE_ROWS_LIMITS)
      \<and> (\<forall>v\<in>set rows_trailer. encode_bounded (id v) CAPTURE_ROWS_LIMITS = Inr (enc (id v)))
      \<and> length ?p + length (concat ?ms) + length (concat ?ts) \<le> max_bytes CAPTURE_ROWS_LIMITS
      \<and> r = \<lparr>sr_files = ?files, sr_byte_length = rb_total b, sr_row_digest = hex_string (sha_finalize ?h)\<rparr>"
    unfolding rows_finish_def Let_def encode_files_key
    by (subst feed_id [of Malformed])
      (auto simp: bnd_eq_Inr fold_feed_iff nonempty prefix_def simp del: id_apply)
  also have "\<dots> \<longleftrightarrow> (\<forall>f\<in>set ?files. texts_ok f)
      \<and> length (enc (rows_value ?files)) \<le> max_bytes CAPTURE_ROWS_LIMITS
      \<and> r = \<lparr>sr_files = ?files, sr_byte_length = rb_total b,
             sr_row_digest = sha256_hex (ROW_DOMAIN @ enc (rows_value ?files))\<rparr>"
  proof -
    have "length (enc (metadata f)) \<le> max_bytes CAPTURE_ROWS_LIMITS"
      if "f \<in> set ?files" "length ?p + length (concat ?ms) + length (concat ?ts) \<le> max_bytes CAPTURE_ROWS_LIMITS" for f
    proof -
      have "length (enc (metadata f)) \<le> length (concat ?ms)" using that(1) by (rule length_in_concat)
      then show ?thesis using that(2) by linarith
    qed
    then show ?thesis
      unfolding total hash sha256_hex_def using encode_trailer
      by (auto simp: encode_metadata_iff)
  qed
  finally show ?thesis by (simp add: Let_def)
qed

text \<open>C7: The streamed row digest is the digest of one canonical value: \<open>finish\<close> succeeds exactly when
  the canonical encoder accepts the whole row value under the rows limits, and its digest is then
  the hash of the domain and of those very bytes, the files in byte order of their paths.\<close>

theorem rows_finish_commits:
  assumes "rows_reachable b"
  shows "ok (rows_finish b) =
    map_option (\<lambda>bs. \<lparr>sr_files = sort_key sf_path (rb_files b), sr_byte_length = rb_total b,
                      sr_row_digest = sha256_hex (ROW_DOMAIN @ bs)\<rparr>)
      (ok (encode_bounded (rows_value (sort_key sf_path (rb_files b))) CAPTURE_ROWS_LIMITS))"
proof -
  let ?files = "sort_key sf_path (rb_files b)"
  have len: "length ?files \<le> MAX_SOURCE_FILES"
    using rows_reachable_inv [OF assms] by (simp add: rows_inv_def)
  have enc: "encode_bounded (rows_value ?files) CAPTURE_ROWS_LIMITS = Inr bs \<longleftrightarrow>
      (\<forall>f\<in>set ?files. texts_ok f) \<and> length (enc (rows_value ?files)) \<le> max_bytes CAPTURE_ROWS_LIMITS
      \<and> bs = enc (rows_value ?files)" for bs
    using fits_rows_value [OF len] vcount_rows_value [OF len]
    by (auto simp: encode_bounded_enc_iff [OF usize_rows])
  show ?thesis
  proof (cases "(\<forall>f\<in>set ?files. texts_ok f)
      \<and> length (enc (rows_value ?files)) \<le> max_bytes CAPTURE_ROWS_LIMITS")
    case True
    then have "encode_bounded (rows_value ?files) CAPTURE_ROWS_LIMITS = Inr (enc (rows_value ?files))"
      using enc by blast
    moreover have "rows_finish b = Inr \<lparr>sr_files = ?files, sr_byte_length = rb_total b,
        sr_row_digest = sha256_hex (ROW_DOMAIN @ enc (rows_value ?files))\<rparr>"
      using True by (subst rows_finish_iff) (simp add: Let_def)
    ultimately show ?thesis by simp
  next
    case False
    then have "ok (encode_bounded (rows_value ?files) CAPTURE_ROWS_LIMITS) = None"
      using enc by (cases "encode_bounded (rows_value ?files) CAPTURE_ROWS_LIMITS") auto
    moreover have "ok (rows_finish b) = None"
      using False rows_finish_iff [of b] by (cases "rows_finish b") (auto simp: Let_def)
    ultimately show ?thesis by simp
  qed
qed

subsection \<open>An admitted request is its canonical encoding\<close>

lemma if_split_Inr: "(if c then Inl e else r) = Inr v \<longleftrightarrow> \<not> c \<and> r = Inr v"
  by simp

lemma inj_key: "inj (\<lambda>k. canonical_key (enck k))"
  by (auto simp: inj_def canonical_key_def dest: enck_inj)

text \<open>A canonical map with as many entries as a closed key list has exactly those keys, in order.\<close>

lemma exact_key_list:
  assumes "canon (Map es) = Map es" and "encodable (Map es)" and "length es = length ks"
    and "fst ` set es \<subseteq> set ks" and sorted: "sorted_wrt (<) (map (\<lambda>k. canonical_key (enck k)) ks)"
  shows "map fst es = ks"
proof -
  let ?key = "\<lambda>k. canonical_key (enck k)"
  have es: "sorted_wrt (<) (map entry_key es)" and dist: "distinct (map fst es)"
    using assms(1,2) canon_Map_self [of es] by auto
  have "?key \<circ> fst = (entry_key :: string \<times> val \<Rightarrow> _)" by (auto simp: entry_key_def fun_eq_iff)
  then have es': "sorted_wrt (<) (map ?key (map fst es))" using es by simp
  have "card (fst ` set es) = length ks" using dist assms(3) by (metis distinct_card length_map set_map)
  moreover have "distinct ks" using sorted by (simp add: strict_sorted_iff distinct_map)
  ultimately have "fst ` set es = set ks"
    using assms(4) by (metis card_subset_eq distinct_card finite_set)
  then have "set (map ?key (map fst es)) = set (map ?key ks)" by (metis set_map)
  then have "map ?key (map fst es) = map ?key ks"
    using es' sorted by (intro strict_sorted_equal)
  then show ?thesis by (simp only: inj_map_eq_map [OF inj_key])
qed

text \<open>A map with distinct keys is the list of its keys with their values.\<close>

lemma map_from_keys: "distinct (map fst es) \<Longrightarrow> es = map (\<lambda>k. (k, the (map_of es k))) (map fst es)"
proof (rule nth_equalityI)
  fix i assume "distinct (map fst es)" "i < length es"
  moreover from this have "map_of es (fst (es ! i)) = Some (snd (es ! i))"
    by (intro map_of_is_SomeI) auto
  ultimately show "es ! i = map (\<lambda>k. (k, the (map_of es k))) (map fst es) ! i"
    by (cases "es ! i") simp
qed simp

lemma as_text_iff [simp]: "as_text v = Some t \<longleftrightarrow> v = Text t"
  by (cases v) auto

lemma as_u64_iff [simp]: "as_u64 v = Some n \<longleftrightarrow> v = Unsigned n"
  by (cases v) auto

lemma request_text_iff: "request_text v k = Inr t \<longleftrightarrow> val_field v k = Some (Text t)"
  by (auto simp: request_text_def bind_eq_Some_conv)

lemma request_digest_iff: "request_digest v k = Inr t \<longleftrightarrow> val_field v k = Some (Text t) \<and> valid_digest t"
  by (auto simp: request_digest_def bnd_eq_Inr request_text_iff split: if_splits)

definition request_value :: "capture_request \<Rightarrow> val" where
  "request_value r = Map (
     [(''root'', Text (cr_root r)), (''schema'', Text ''keep.patch-input-capture''), (''version'', Unsigned 1),
      (''sourceKind'', Text (source_kind (cr_source r))), (''sourcePath'', Text (cr_source_path r)),
      (''carrierPath'', Text (cr_carrier_path r)), (''overlayPath'', Text (cr_overlay_path r)),
      (''carrierByteDigest'', Text (cr_carrier_byte_digest r)),
      (''overlayByteDigest'', Text (cr_overlay_byte_digest r))]
     @ (case cr_source r of
          Directory rows base \<Rightarrow> [(''expectedSourceRowDigest'', Text rows), (''declaredBaseArchiveDigest'', Text base)]
        | Archive _ stream \<Rightarrow> [(''sourceStreamDigest'', Text stream)]))"

fun the_entries :: "val \<Rightarrow> (string \<times> val) list" where
  "the_entries (Map es) = es"
| "the_entries _ = []"

definition directory_keys :: "string list" where
  "directory_keys = [''root'', ''schema'', ''version'', ''sourceKind'', ''sourcePath'', ''carrierPath'',
     ''overlayPath'', ''carrierByteDigest'', ''overlayByteDigest'', ''expectedSourceRowDigest'',
     ''declaredBaseArchiveDigest'']"

definition archive_keys :: "string list" where
  "archive_keys = [''root'', ''schema'', ''version'', ''sourceKind'', ''sourcePath'', ''carrierPath'',
     ''overlayPath'', ''carrierByteDigest'', ''overlayByteDigest'', ''sourceStreamDigest'']"

lemma request_keys_sorted:
  "sorted_wrt (<) (map (\<lambda>k. canonical_key (enck k)) directory_keys)"
  "sorted_wrt (<) (map (\<lambda>k. canonical_key (enck k)) archive_keys)"
  by (simp_all add: directory_keys_def archive_keys_def codec_eval)

lemma usize_frame: "usize_limits CAPTURE_FRAME_LIMITS"
  by (simp add: usize_limits_def limit_defs usize_max_def)

text \<open>C8: An admitted capture request is its own canonical encoding: the parsed request, written back
  with the canonical encoder, gives exactly the bytes that were admitted, and its digest is the
  hash of the request domain followed by those bytes. So every field is bound by the digest.\<close>

theorem request_is_canonical:
  assumes "capture_input_request bs = Inr r"
  shows "encode_bounded (request_value r) CAPTURE_FRAME_LIMITS = Inr bs
    \<and> cr_digest r = sha256_hex (CAPTURE_REQUEST_DOMAIN @ bs)"
proof -
  from assms obtain v where dec: "decode_canonical bs CAPTURE_FRAME_LIMITS = Inr v"
    by (auto simp: capture_input_request_def bnd_eq_Inr split: if_splits)
  with assms obtain es where v: "v = Map es"
    by (auto simp: capture_input_request_def bnd_eq_Inr split: if_splits val.splits)
  from dec have canon: "canon v = v" "encode_bounded v CAPTURE_FRAME_LIMITS = Inr bs"
    by (simp_all add: decode_canonical_iff [OF usize_frame])
  then have enc: "encodable v" by (simp add: encode_bounded_iff [OF usize_frame])
  from assms dec v obtain kind specific source where
    kind: "val_field v ''sourceKind'' = Some (Text kind)" "specific_keys kind = Inr specific"
    and schema: "val_field v ''schema'' = Some (Text ''keep.patch-input-capture'')"
      "val_field v ''version'' = Some (Unsigned 1)"
    and len: "length es = length COMMON + length specific"
    and keys: "fst ` set es \<subseteq> set COMMON \<union> set specific"
    and src: "request_source v kind = Inr source"
    and flds: "val_field v ''root'' = Some (Text (cr_root r))"
      "val_field v ''sourcePath'' = Some (Text (cr_source_path r))"
      "val_field v ''overlayPath'' = Some (Text (cr_overlay_path r))"
      "val_field v ''carrierPath'' = Some (Text (cr_carrier_path r))"
      "val_field v ''overlayByteDigest'' = Some (Text (cr_overlay_byte_digest r))"
      "val_field v ''carrierByteDigest'' = Some (Text (cr_carrier_byte_digest r))"
    and r: "cr_source r = source"
      "cr_digest r = hex_string (sha_finalize (sha_update (sha_update sha_new CAPTURE_REQUEST_DOMAIN) bs))"
    by (simp add: capture_input_request_def bnd_eq_Inr request_text_iff request_digest_iff Let_def
        bind_eq_Some_conv list_ex_iff image_subset_iff if_split_Inr del: val_field.simps) (elim conjE exE, auto)
  have digest: "cr_digest r = sha256_hex (CAPTURE_REQUEST_DOMAIN @ bs)"
    by (simp add: r sha.two_hash sha256_hex_def)
  have es: "es = map (\<lambda>k. (k, the (map_of es k))) (map fst es)"
    using enc v by (intro map_from_keys) simp
  have vals: "map_of es ''root'' = Some (Text (cr_root r))"
      "map_of es ''sourcePath'' = Some (Text (cr_source_path r))"
      "map_of es ''overlayPath'' = Some (Text (cr_overlay_path r))"
      "map_of es ''carrierPath'' = Some (Text (cr_carrier_path r))"
      "map_of es ''overlayByteDigest'' = Some (Text (cr_overlay_byte_digest r))"
      "map_of es ''carrierByteDigest'' = Some (Text (cr_carrier_byte_digest r))"
      "map_of es ''sourceKind'' = Some (Text kind)"
      "map_of es ''schema'' = Some (Text ''keep.patch-input-capture'')"
      "map_of es ''version'' = Some (Unsigned 1)"
    using flds kind(1) schema by (simp_all add: v)
  have "request_value r = v"
  proof (cases "kind = ''directory''")
    case True
    then have "map fst es = directory_keys"
      using canon(1) enc len keys kind(2) unfolding v
      by (intro exact_key_list request_keys_sorted)
        (auto simp: specific_keys_def COMMON_def directory_keys_def)
    with es have "es = map (\<lambda>k. (k, the (map_of es k))) directory_keys" by simp
    moreover obtain e d where "source = Directory e d"
      "map_of es ''expectedSourceRowDigest'' = Some (Text e)"
      "map_of es ''declaredBaseArchiveDigest'' = Some (Text d)"
      using src True by (auto simp: request_source_def bnd_eq_Inr request_digest_iff v)
    ultimately have "es = the_entries (request_value r)" using vals r True
      by (simp add: request_value_def directory_keys_def)
    then show ?thesis by (simp add: v request_value_def)
  next
    case False
    then have "map fst es = archive_keys"
      using canon(1) enc len keys kind(2) unfolding v
      by (intro exact_key_list request_keys_sorted)
        (auto simp: specific_keys_def COMMON_def archive_keys_def split: if_splits)
    with es have "es = map (\<lambda>k. (k, the (map_of es k))) archive_keys" by simp
    moreover obtain f d where "source = Archive f d" "source_kind source = kind"
      "map_of es ''sourceStreamDigest'' = Some (Text d)"
      using src False kind(2)
      by (auto simp: request_source_def bnd_eq_Inr request_digest_iff specific_keys_def v split: if_splits)
    ultimately have "es = the_entries (request_value r)" using vals r
      by (simp add: request_value_def archive_keys_def)
    then show ?thesis by (simp add: v request_value_def)
  qed
  then show ?thesis using canon digest by simp
qed

subsection \<open>Concrete instances\<close>

definition demo_file :: "string \<Rightarrow> bytes \<Rightarrow> source_file" where
  "demo_file path bs = \<lparr>sf_path = path, sf_mode = 0x1a4, sf_bytes = bs, sf_byte_digest = byte_digest bs\<rparr>"

definition demo_rows :: rows_builder where
  "demo_rows = \<lparr>rb_files = [demo_file ''a/x'' [1], demo_file ''a/y'' [2, 3]],
     rb_namespace = (\<lambda>_. None)(''a'' \<mapsto> (''a'', False), ''a/x'' \<mapsto> (''a/x'', True), ''a/y'' \<mapsto> (''a/y'', True)),
     rb_directories = 1, rb_total = 3\<rparr>"

lemma lowercase_eval: "to_ascii_lowercase ''a'' = ''a''" "to_ascii_lowercase ''a/x'' = ''a/x''" "to_ascii_lowercase ''a/y'' = ''a/y''"
  by code_simp+

lemma demo_paths: "validate_source_path ''a/x'' = Inr ()" "validate_source_path ''a/y'' = Inr ()"
   by code_simp+

lemma demo_reachable: "rows_reachable demo_rows"
proof (rule rows_reachable.push, rule rows_reachable.push, rule rows_reachable.new)
  show "rows_push True rows_new ''a/x'' 0x1a4 [1] = Inr \<lparr>rb_files = [demo_file ''a/x'' [1]],
     rb_namespace = (\<lambda>_. None)(''a'' \<mapsto> (''a'', False), ''a/x'' \<mapsto> (''a/x'', True)), rb_directories = 1, rb_total = 1\<rparr>"
    by (simp add: rows_push_def rows_plan_def demo_paths validate_source_mode_def rows_new_def remaining_file_bytes_def
      limit_defs lowercase_eval extend_prefix_def apply_addition_def demo_file_def Let_def)
  show "rows_push True \<lparr>rb_files = [demo_file ''a/x'' [1]],
     rb_namespace = (\<lambda>_. None)(''a'' \<mapsto> (''a'', False), ''a/x'' \<mapsto> (''a/x'', True)), rb_directories = 1, rb_total = 1\<rparr>
     ''a/y'' 0x1a4 [2, 3] = Inr demo_rows"
    by (simp add: rows_push_def rows_plan_def demo_paths validate_source_mode_def rows_new_def remaining_file_bytes_def
      limit_defs lowercase_eval extend_prefix_def apply_addition_def demo_file_def demo_rows_def Let_def fun_eq_iff)
qed

lemma rows_alias_free_witness:
  "\<not> paths_collide (sf_path (rb_files demo_rows ! 0)) (sf_path (rb_files demo_rows ! 1))"
  by (rule rows_alias_free [OF demo_reachable]) (simp_all add: demo_rows_def)

lemma rows_bounded_witness:
  "length (rb_files demo_rows) \<le> MAX_SOURCE_FILES \<and> rb_directories demo_rows \<le> MAX_DIRECTORIES
    \<and> card (dir_keys demo_rows) = rb_directories demo_rows
    \<and> rb_total demo_rows = sum_list (map (length \<circ> sf_bytes) (rb_files demo_rows)) \<and> rb_total demo_rows \<le> MAX_SOURCE_BYTES
    \<and> list_all (\<lambda>f. length (sf_bytes f) \<le> MAX_FILE_BYTES \<and> sf_byte_digest f = sha256_hex (sf_bytes f)
        \<and> canonical_relative (sf_path f)) (rb_files demo_rows)"
  by (rule rows_bounded [OF demo_reachable])

lemma rows_finish_commits_witness:
  "ok (rows_finish demo_rows) =
    map_option (\<lambda>bs. \<lparr>sr_files = sort_key sf_path (rb_files demo_rows), sr_byte_length = rb_total demo_rows,
                      sr_row_digest = sha256_hex (ROW_DOMAIN @ bs)\<rparr>)
      (ok (encode_bounded (rows_value (sort_key sf_path (rb_files demo_rows))) CAPTURE_ROWS_LIMITS))"
  by (rule rows_finish_commits [OF demo_reachable])

definition demo_digest :: string where
  "demo_digest = replicate 64 CHR ''a''"

definition demo_request_value :: val where
  "demo_request_value = Map
     [(''root'', Text ''/srv''), (''schema'', Text ''keep.patch-input-capture''), (''version'', Unsigned 1),
      (''sourceKind'', Text ''tar''), (''sourcePath'', Text ''in.tar''),
      (''carrierPath'', Text ''c''), (''overlayPath'', Text ''o''),
      (''carrierByteDigest'', Text demo_digest), (''overlayByteDigest'', Text demo_digest),
      (''sourceStreamDigest'', Text demo_digest)]"

definition demo_request :: capture_request where
  "demo_request = \<lparr>cr_root = ''/srv'', cr_source_path = ''in.tar'', cr_overlay_path = ''o'',
     cr_overlay_byte_digest = demo_digest, cr_carrier_path = ''c'', cr_carrier_byte_digest = demo_digest,
     cr_source = Archive Tar demo_digest,
     cr_digest = sha256_hex (CAPTURE_REQUEST_DOMAIN @ enc demo_request_value)\<rparr>"

lemma demo_forms: "valid_digest demo_digest" "length demo_digest = 64" "ascii_profile (str_bytes demo_digest)"
  "canonical_relative ''srv''" "strip_prefix ''/srv'' ''/'' = Some ''srv''"
  "check_request_path ''in.tar'' = Inr ()" "check_request_path ''o'' = Inr ()" "check_request_path ''c'' = Inr ()"
  "\<not> paths_collide ''in.tar'' ''o''" "\<not> paths_collide ''in.tar'' ''c''" "\<not> paths_collide ''o'' ''c''"
  by code_simp+

lemma demo_encoding: "encode_bounded demo_request_value CAPTURE_FRAME_LIMITS = Inr (enc demo_request_value)"
  "canon demo_request_value = demo_request_value"
proof -
  show canon: "canon demo_request_value = demo_request_value"
    by (simp add: demo_request_value_def codec_eval)
  show "encode_bounded demo_request_value CAPTURE_FRAME_LIMITS = Inr (enc demo_request_value)"
    by (rule encode_bounded_elen [OF usize_frame])
      (simp_all add: demo_request_value_def demo_forms(2) demo_forms(3) [unfolded ascii_profile_def] limit_defs codec_eval)
qed

lemma demo_admitted: "capture_input_request (enc demo_request_value) = Inr demo_request"
proof -
  have "decode_canonical (enc demo_request_value) CAPTURE_FRAME_LIMITS = Inr demo_request_value"
    using demo_encoding by (simp add: decode_canonical_iff [OF usize_frame])
  moreover have "length (enc demo_request_value) \<le> MAX_CAPTURE_FRAME_BYTES"
    using demo_encoding(1) by (simp add: encode_bounded_iff [OF usize_frame]) (simp add: CAPTURE_FRAME_LIMITS_def)
  ultimately show ?thesis
    by (simp add: capture_input_request_def request_text_def request_digest_def demo_request_value_def
      specific_keys_def COMMON_def demo_forms request_source_def demo_request_def sha.two_hash sha256_hex_def Let_def
      del: enc.simps)
qed

lemma request_is_canonical_witness:
  "encode_bounded (request_value demo_request) CAPTURE_FRAME_LIMITS = Inr (enc demo_request_value)
    \<and> cr_digest demo_request = sha256_hex (CAPTURE_REQUEST_DOMAIN @ enc demo_request_value)"
  by (rule request_is_canonical [OF demo_admitted])

end
