(* ===== verification/Tar_Capture.thy ===== *)
theory Tar_Capture
  imports Source_Rows_Props
begin

section \<open>The streaming tar parser\<close>

text \<open>
  \<open>TarParser\<close>, \<open>tar_text\<close>, \<open>octal\<close> and \<open>tar_header\<close> of
  \<open>native/crates/protocol/src/patch_capture.rs\<close>. The allocator behind \<open>try_reserve\<close> and
  \<open>try_reserve_exact\<close> is the argument \<open>alloc\<close>: whether an allocation of that many elements
  succeeds. A file never holds more bytes than its header announced (\<open>tar_inv\<close>), so the
  subtraction that computes the missing bytes does not underflow.
\<close>

subsection \<open>Header fields\<close>

definition PREFIX :: string where "PREFIX = ''curve25519-dalek-5.0.0/''"

definition tar_text :: "bytes \<Rightarrow> (capture_error, string) res" where
  "tar_text bs =
     (let text = takeWhile (\<lambda>b. b \<noteq> 0) bs; rest = dropWhile (\<lambda>b. b \<noteq> 0) bs
      in if list_ex (\<lambda>b. b \<noteq> 0) rest \<or> list_ex (\<lambda>b. \<not> (0x20 \<le> b \<and> b \<le> 0x7e)) text
         then Inl Malformed
         else if \<not> valid_utf8 text then Inl Malformed
         else Inr (bytes_str text))"

text \<open>\<open>value.checked_mul(8).and_then(|n| n.checked_add(digit))\<close> on \<open>u64\<close>, until the first non-digit.\<close>

fun octal_digits :: "nat \<Rightarrow> bytes \<Rightarrow> (capture_error, nat \<times> bytes) res" where
  "octal_digits value [] = Inr (value, [])"
| "octal_digits value (b # bs) =
     (if 0x30 \<le> b \<and> b \<le> 0x37
      then bnd (ok_or Limit (Option.bind (checked_mul value 8) (\<lambda>n. checked_add n (unat (b - 0x30)))))
             (\<lambda>value. octal_digits value bs)
      else Inr (value, b # bs))"

definition octal :: "bytes \<Rightarrow> (capture_error, nat) res" where
  "octal bs =
     bnd (octal_digits 0 (dropWhile (\<lambda>b. b = 0x20) bs)) (\<lambda>(value, rest).
       if list_ex (\<lambda>b. b \<noteq> 0 \<and> b \<noteq> 0x20) rest then Inl Malformed else Inr value)"

definition slice :: "nat \<Rightarrow> nat \<Rightarrow> 'a list \<Rightarrow> 'a list" where
  "slice a b xs = take (b - a) (drop a xs)"

definition tar_checksum :: "bytes \<Rightarrow> nat" where
  "tar_checksum header =
     sum_list (map (\<lambda>(i, b). if 148 \<le> i \<and> i < 156 then 32 else unat b) (zip [0..<length header] header))"

definition tar_header :: "bytes \<Rightarrow> (capture_error, string \<times> u32 \<times> nat) res" where
  "tar_header header =
     bnd (octal (slice 148 156 header)) (\<lambda>checksum.
     if checksum \<noteq> tar_checksum header then Inl Integrity
     else if header ! 156 \<noteq> 0 \<and> header ! 156 \<noteq> byte_of_char CHR ''0'' then Inl Type
     else
       let gnu = slice 257 265 header = str_bytes ''ustar  '' @ [0];
           posix = slice 257 265 header = str_bytes ''ustar'' @ [0] @ str_bytes ''00''
       in if \<not> gnu \<and> \<not> posix then Inl Malformed
          else if gnu \<and> list_ex (\<lambda>b. b \<noteq> 0) (drop 345 header) \<or> list_ex (\<lambda>b. b \<noteq> 0) (drop 500 header)
          then Inl Type
          else
            bnd (tar_text (slice 157 257 header)) (\<lambda>link.
            bnd (if link \<noteq> [] then Inr True
                 else bnd (octal (slice 329 337 header)) (\<lambda>major.
                   if major \<noteq> 0 then Inr True
                   else bnd (octal (slice 337 345 header)) (\<lambda>minor. Inr (minor \<noteq> 0)))) (\<lambda>special.
            if special then Inl Type
            else
              bnd (tar_text (slice 265 297 header)) (\<lambda>_.
              bnd (tar_text (slice 297 329 header)) (\<lambda>_.
              bnd (octal (slice 108 116 header)) (\<lambda>_.
              bnd (octal (slice 116 124 header)) (\<lambda>_.
              bnd (octal (slice 136 148 header)) (\<lambda>_.
              bnd (octal (slice 100 108 header)) (\<lambda>mode.
              if 2 ^ 32 \<le> mode then Inl Type
              else bnd (validate_source_mode (of_nat mode)) (\<lambda>_.
              bnd (octal (slice 124 136 header)) (\<lambda>size'.
              if MAX_FILE_BYTES < size' then Inl Limit
              else
                bnd (map_err (\<lambda>_. Path) (tar_text (slice 0 100 header))) (\<lambda>name.
                bnd (if posix then map_err (\<lambda>_. Path) (tar_text (slice 345 500 header)) else Inr []) (\<lambda>prefix.
                let combined = (if prefix = [] then name else prefix @ ''/'' @ name)
                in bnd (ok_or Path (strip_prefix combined PREFIX)) (\<lambda>path.
                   bnd (validate_source_path path) (\<lambda>_.
                   Inr (path, of_nat mode, size'))))))))))))))))"

subsection \<open>The parser\<close>

record pending_file =
  pf_path :: string
  pf_mode :: u32
  pf_size :: nat
  pf_bytes :: bytes

record tar_parser =
  tp_rows :: rows_builder
  tp_header :: bytes
  tp_header_bytes :: nat
  tp_file :: "pending_file option"
  tp_padding :: nat
  tp_zero_blocks :: nat
  tp_expanded :: nat

definition tar_new :: tar_parser where
  "tar_new = \<lparr>tp_rows = rows_new, tp_header = replicate 512 0, tp_header_bytes = 0, tp_file = None,
     tp_padding = 0, tp_zero_blocks = 0, tp_expanded = 0\<rparr>"

text \<open>The bytes of a pending file: the last one inserts the file and sets the padding.\<close>

definition tar_file_bytes ::
  "(nat \<Rightarrow> bool) \<Rightarrow> tar_parser \<Rightarrow> pending_file \<Rightarrow> bytes \<Rightarrow> (capture_error, tar_parser) res" where
  "tar_file_bytes alloc p f bs =
     (let f = f\<lparr>pf_bytes := pf_bytes f @ bs\<rparr>
      in if length (pf_bytes f) = pf_size f then
           bnd (rows_push (alloc 1) (tp_rows p) (pf_path f) (pf_mode f) (pf_bytes f)) (\<lambda>rows.
             Inr (p\<lparr>tp_file := None, tp_padding := (512 - pf_size f mod 512) mod 512, tp_rows := rows\<rparr>))
         else Inr (p\<lparr>tp_file := Some f\<rparr>))"

text \<open>A complete header block.\<close>

definition tar_block :: "(nat \<Rightarrow> bool) \<Rightarrow> tar_parser \<Rightarrow> (capture_error, tar_parser) res" where
  "tar_block alloc p =
     (if list_all (\<lambda>b. b = 0) (tp_header p) then Inr (p\<lparr>tp_zero_blocks := tp_zero_blocks p + 1\<rparr>)
      else if tp_zero_blocks p \<noteq> 0 then Inl Malformed
      else
        bnd (tar_header (tp_header p)) (\<lambda>(path, mode, size').
        bnd (rows_plan (tp_rows p) path mode size') (\<lambda>_.
        if size' = 0 then
          bnd (rows_push (alloc 1) (tp_rows p) path mode []) (\<lambda>rows. Inr (p\<lparr>tp_rows := rows\<rparr>))
        else if \<not> alloc size' then Inl Limit
        else Inr (p\<lparr>tp_file := Some \<lparr>pf_path = path, pf_mode = mode, pf_size = size', pf_bytes = []\<rparr>\<rparr>))))"

definition tar_header_bytes ::
  "(nat \<Rightarrow> bool) \<Rightarrow> tar_parser \<Rightarrow> bytes \<Rightarrow> (capture_error, tar_parser) res" where
  "tar_header_bytes alloc p bs =
     (let p = p\<lparr>tp_header := write_at (tp_header_bytes p) bs (tp_header p),
                tp_header_bytes := tp_header_bytes p + length bs\<rparr>
      in if tp_header_bytes p = 512 then tar_block alloc (p\<lparr>tp_header_bytes := 0\<rparr>) else Inr p)"

text \<open>
  \<open>while !input.is_empty()\<close>. A pending file with more bytes than its size would underflow; the
  branch is unreachable (\<open>tar_inv\<close>).
\<close>

function tar_loop :: "(nat \<Rightarrow> bool) \<Rightarrow> tar_parser \<Rightarrow> bytes \<Rightarrow> (capture_error, tar_parser) res" where
  "tar_loop alloc p input =
     (if input = [] then Inr p
      else if tp_zero_blocks p = 2 then
        (if list_ex (\<lambda>b. b \<noteq> 0) input then Inl Malformed else Inr p)
      else (case tp_file p of
          Some f \<Rightarrow>
            if pf_size f < length (pf_bytes f) then Inl Malformed
            else
              let n = min (pf_size f - length (pf_bytes f)) (length input)
              in bnd (tar_file_bytes alloc p f (take n input)) (\<lambda>p. tar_loop alloc p (drop n input))
        | None \<Rightarrow>
            if tp_padding p \<noteq> 0 then
              let n = min (tp_padding p) (length input)
              in if list_ex (\<lambda>b. b \<noteq> 0) (take n input) then Inl Malformed
                 else tar_loop alloc (p\<lparr>tp_padding := tp_padding p - n\<rparr>) (drop n input)
            else if 512 \<le> tp_header_bytes p then Inl Malformed
            else
              let n = min (512 - tp_header_bytes p) (length input)
              in bnd (tar_header_bytes alloc p (take n input)) (\<lambda>p. tar_loop alloc p (drop n input))))"
  by pat_completeness auto
termination
  by (relation "measures [\<lambda>(alloc, p, input). length input,
        \<lambda>(alloc, p, input). if tp_file p = None then 0 else 1]")
    (auto simp: tar_file_bytes_def Let_def bnd_eq_Inr split: if_splits)

declare tar_loop.simps [simp del]

definition tar_write :: "(nat \<Rightarrow> bool) \<Rightarrow> tar_parser \<Rightarrow> bytes \<Rightarrow> (capture_error, tar_parser) res" where
  "tar_write alloc p input =
     bnd (ok_or Limit (Option.bind (checked_add (tp_expanded p) (length input)) (\<lambda>size'.
            if size' \<le> MAX_EXPANDED_BYTES then Some size' else None))) (\<lambda>expanded.
       tar_loop alloc (p\<lparr>tp_expanded := expanded\<rparr>) input)"

definition tar_finish :: "tar_parser \<Rightarrow> (capture_error, source_rows) res" where
  "tar_finish p =
     (if tp_zero_blocks p \<noteq> 2 \<or> tp_file p \<noteq> None \<or> tp_header_bytes p \<noteq> 0 \<or> tp_padding p \<noteq> 0
         \<or> tp_expanded p mod 512 \<noteq> 0
      then Inl Malformed
      else rows_finish (tp_rows p))"

end
