(* ===== verification/Sink_Interface.thy ===== *)
theory Sink_Interface
  imports Keep_Prelude
begin

section \<open>The contract of a chunk consumer\<close>

text \<open>
  The gzip decoder hands its output to a consumer in pieces whose borders it chooses
  (\<open>FnMut(&[u8]) -> Result<(), Error>\<close>). What it relies on is that the borders do not matter:
  writing two pieces one after the other succeeds exactly when writing their concatenation does,
  with the same state. Which error is returned may depend on the borders; that there is one
  does not.
\<close>

locale chunk_sink =
  fixes put :: "'s \<Rightarrow> bytes \<Rightarrow> ('e, 's) res"
    and inv :: "'s \<Rightarrow> bool"
  assumes put_nil: "inv s \<Longrightarrow> put s [] = Inr s"
    and put_append: "inv s \<Longrightarrow> ok (put s (xs @ ys)) = Option.bind (ok (put s xs)) (\<lambda>s. ok (put s ys))"
    and inv_put: "inv s \<Longrightarrow> put s xs = Inr s' \<Longrightarrow> inv s'"
begin

lemma put_chunks: "inv s \<Longrightarrow> ok (fold_res (\<lambda>c s. put s c) cs s) = ok (put s (concat cs))"
proof (induction cs arbitrary: s)
  case (Cons c cs)
  show ?case
  proof (cases "put s c")
    case (Inr s')
    then show ?thesis
      using Cons.IH [OF inv_put [OF Cons.prems Inr]] put_append [OF Cons.prems, of c "concat cs"] by simp
  qed (use put_append [OF Cons.prems, of c "concat cs"] in simp)
qed (simp add: put_nil)

lemma put_fails: "inv s \<Longrightarrow> \<not> is_ok (put s xs) \<Longrightarrow> \<not> is_ok (put s (xs @ ys))"
  using put_append [of s xs ys]
  by (cases "put s xs"; cases "put s (xs @ ys)") auto

end

end
