(* ===== verification/Tar_Props.thy ===== *)
theory Tar_Props
  imports Tar_Capture Sink_Interface
begin

section \<open>The tar parser as a chunk consumer, and the archives it accepts\<close>

text \<open>
  The invariant of the parser, its independence of how the input is cut (an interpretation of
  \<open>chunk_sink\<close>), and the grammar of the archives it accepts.
\<close>

subsection \<open>The invariant\<close>

definition tar_inv :: "tar_parser \<Rightarrow> bool" where
  "tar_inv p \<longleftrightarrow>
     length (tp_header p) = 512 \<and> tp_header_bytes p < 512 \<and> tp_padding p < 512 \<and> tp_zero_blocks p \<le> 2
     \<and> rows_reachable (tp_rows p)
     \<and> (\<forall>f. tp_file p = Some f \<longrightarrow> length (pf_bytes f) < pf_size f \<and> tp_padding p = 0
          \<and> tp_header_bytes p = 0 \<and> tp_zero_blocks p = 0)
     \<and> (tp_padding p \<noteq> 0 \<longrightarrow> tp_header_bytes p = 0 \<and> tp_zero_blocks p = 0)
     \<and> (tp_zero_blocks p = 2 \<longrightarrow> tp_header_bytes p = 0)"

lemma tar_new_inv: "tar_inv tar_new"
  by (simp add: tar_inv_def tar_new_def rows_reachable.new)

lemma tar_file_bytes_inv:
  assumes "tar_inv p" and "tp_file p = Some f" and "length (pf_bytes f @ bs) \<le> pf_size f"
    and "tar_file_bytes alloc p f bs = Inr p'"
  shows "tar_inv p'"
  using assms
  by (auto simp: tar_inv_def tar_file_bytes_def Let_def bnd_eq_Inr rows_reachable.push split: if_splits)

lemma tar_block_inv:
  assumes "tar_inv p" and "tp_file p = None" and "tp_padding p = 0" and "tp_zero_blocks p \<noteq> 2"
    and "tp_header_bytes p = 0" and "tar_block alloc p = Inr p'"
  shows "tar_inv p'"
  using assms
  by (auto simp: tar_inv_def tar_block_def Let_def bnd_eq_Inr rows_reachable.push split: if_splits)

lemma tar_header_bytes_inv:
  assumes "tar_inv p" and "tp_file p = None" and "tp_padding p = 0" and "tp_zero_blocks p \<noteq> 2"
    and "tp_header_bytes p + length bs \<le> 512" and "tar_header_bytes alloc p bs = Inr p'"
  shows "tar_inv p'"
proof (cases "tp_header_bytes p + length bs = 512")
  case True
  let ?q = "p\<lparr>tp_header := write_at (tp_header_bytes p) bs (tp_header p), tp_header_bytes := 0\<rparr>"
  have "tar_inv ?q" using assms(1-5) by (simp add: tar_inv_def)
  moreover have "tar_block alloc ?q = Inr p'"
    using assms(6) True by (simp add: tar_header_bytes_def Let_def)
  ultimately show ?thesis using assms(2-4) tar_block_inv [of ?q alloc p'] by simp
next
  case False
  then have "p' = p\<lparr>tp_header := write_at (tp_header_bytes p) bs (tp_header p),
      tp_header_bytes := tp_header_bytes p + length bs\<rparr>"
    using assms(6) by (simp add: tar_header_bytes_def Let_def)
  moreover have "tp_header_bytes p + length bs < 512" using False assms(5) by simp
  ultimately show ?thesis using assms(1-4) by (simp add: tar_inv_def)
qed

lemma tar_loop_inv: "tar_inv p \<Longrightarrow> tar_loop alloc p input = Inr p' \<Longrightarrow> tar_inv p'"
proof (induction alloc p input rule: tar_loop.induct)
  case (1 alloc p input)
  show ?case
  proof (cases "input = [] \<or> tp_zero_blocks p = 2")
    case True
    then show ?thesis using "1.prems" by (subst (asm) tar_loop.simps) (auto split: if_splits)
  next
    case False
    then have nz: "input \<noteq> []" "tp_zero_blocks p \<noteq> 2" by auto
    show ?thesis
    proof (cases "tp_file p")
      case (Some f)
      let ?n = "min (pf_size f - length (pf_bytes f)) (length input)"
      have len: "\<not> pf_size f < length (pf_bytes f)" using "1.prems"(1) Some by (auto simp: tar_inv_def)
      with "1.prems"(2) nz Some obtain q where q: "tar_file_bytes alloc p f (take ?n input) = Inr q"
        "tar_loop alloc q (drop ?n input) = Inr p'"
        by (subst (asm) tar_loop.simps) (auto simp: Let_def bnd_eq_Inr)
      have "tar_inv q"
        using "1.prems"(1) Some _ q(1) by (rule tar_file_bytes_inv) (use len in simp)
      then show ?thesis using "1.IH"(3) [OF nz Some len refl q(1)] q(2) by blast
    next
      case None
      show ?thesis
      proof (cases "tp_padding p = 0")
        case True
        let ?n = "min (512 - tp_header_bytes p) (length input)"
        have len: "\<not> 512 \<le> tp_header_bytes p" using "1.prems"(1) by (auto simp: tar_inv_def)
        with "1.prems"(2) nz None True obtain q where q: "tar_header_bytes alloc p (take ?n input) = Inr q"
          "tar_loop alloc q (drop ?n input) = Inr p'"
          by (subst (asm) tar_loop.simps) (auto simp: Let_def bnd_eq_Inr)
        have "tar_inv q"
          using "1.prems"(1) None True nz(2) _ q(1) by (rule tar_header_bytes_inv) (use len in simp)
        moreover have "\<not> tp_padding p \<noteq> 0" using True by simp
        ultimately show ?thesis using "1.IH"(2) [OF nz None _ len refl q(1)] q(2) by blast
      next
        case False
        let ?n = "min (tp_padding p) (length input)"
        from "1.prems"(2) nz None False have q: "\<not> list_ex (\<lambda>b. b \<noteq> 0) (take ?n input)"
          "tar_loop alloc (p\<lparr>tp_padding := tp_padding p - ?n\<rparr>) (drop ?n input) = Inr p'"
          by (subst (asm) tar_loop.simps, simp add: Let_def split: if_splits)+
        have "tar_inv (p\<lparr>tp_padding := tp_padding p - ?n\<rparr>)"
          using "1.prems"(1) None by (auto simp: tar_inv_def)
        then show ?thesis using "1.IH"(1) [OF nz None False refl q(1)] q(2) by blast
      qed
    qed
  qed
qed

subsection \<open>The borders of the input do not matter\<close>

lemma tar_loop_Nil [simp]: "tar_loop alloc p [] = Inr p"
  by (subst tar_loop.simps) simp

lemma tar_loop_done:
  "tp_zero_blocks p = 2 \<Longrightarrow> tar_loop alloc p xs = (if list_ex (\<lambda>b. b \<noteq> 0) xs then Inl Malformed else Inr p)"
  by (subst tar_loop.simps) simp

lemma tar_loop_file:
  "xs \<noteq> [] \<Longrightarrow> tp_zero_blocks p \<noteq> 2 \<Longrightarrow> tp_file p = Some f \<Longrightarrow> length (pf_bytes f) \<le> pf_size f \<Longrightarrow>
   n = min (pf_size f - length (pf_bytes f)) (length xs) \<Longrightarrow>
   tar_loop alloc p xs = bnd (tar_file_bytes alloc p f (take n xs)) (\<lambda>p. tar_loop alloc p (drop n xs))"
  by (subst tar_loop.simps) (simp add: Let_def)

lemma tar_loop_padding:
  "xs \<noteq> [] \<Longrightarrow> tp_zero_blocks p \<noteq> 2 \<Longrightarrow> tp_file p = None \<Longrightarrow> tp_padding p \<noteq> 0 \<Longrightarrow>
   n = min (tp_padding p) (length xs) \<Longrightarrow>
   tar_loop alloc p xs = (if list_ex (\<lambda>b. b \<noteq> 0) (take n xs) then Inl Malformed
     else tar_loop alloc (p\<lparr>tp_padding := tp_padding p - n\<rparr>) (drop n xs))"
  by (subst tar_loop.simps) (simp add: Let_def)

lemma tar_loop_header:
  "xs \<noteq> [] \<Longrightarrow> tp_zero_blocks p \<noteq> 2 \<Longrightarrow> tp_file p = None \<Longrightarrow> tp_padding p = 0 \<Longrightarrow>
   tp_header_bytes p < 512 \<Longrightarrow> n = min (512 - tp_header_bytes p) (length xs) \<Longrightarrow>
   tar_loop alloc p xs = bnd (tar_header_bytes alloc p (take n xs)) (\<lambda>p. tar_loop alloc p (drop n xs))"
  by (subst tar_loop.simps) (simp add: Let_def)

text \<open>A piece shorter than what the current state waits for is only remembered.\<close>

lemma tar_loop_file_part:
  assumes "tp_zero_blocks p \<noteq> 2" "tp_file p = Some f" "length (pf_bytes f @ xs) < pf_size f"
  shows "tar_loop alloc p (xs @ ys) = tar_loop alloc (p\<lparr>tp_file := Some (f\<lparr>pf_bytes := pf_bytes f @ xs\<rparr>)\<rparr>) ys"
proof (cases "ys = []")
  case True
  show ?thesis
  proof (cases "xs = []")
    case False
    then show ?thesis using assms True
      by (subst tar_loop_file [where f = f]) (auto simp: tar_file_bytes_def Let_def)
  qed (use assms True in simp)
next
  case ys: False
  let ?f = "f\<lparr>pf_bytes := pf_bytes f @ xs\<rparr>"
  let ?p = "p\<lparr>tp_file := Some ?f\<rparr>"
  define n where "n = min (pf_size f - length (pf_bytes f) - length xs) (length ys)"
  have "tar_file_bytes alloc ?p ?f zs = tar_file_bytes alloc p f (xs @ zs)" for zs
    by (simp add: tar_file_bytes_def Let_def)
  moreover have "tar_loop alloc (p) (xs @ ys)
      = bnd (tar_file_bytes alloc p f (xs @ take n ys)) (\<lambda>p. tar_loop alloc p (drop n ys))"
    using assms ys
    by (subst tar_loop_file [where f = f and n = "length xs + n"]) (auto simp: n_def)
  moreover have "tar_loop alloc ?p ys
      = bnd (tar_file_bytes alloc ?p ?f (take n ys)) (\<lambda>p. tar_loop alloc p (drop n ys))"
    using assms ys
    by (subst tar_loop_file [where f = ?f and n = n]) (auto simp: n_def)
  ultimately show ?thesis by simp
qed

lemma tar_loop_padding_part:
  assumes "tp_zero_blocks p \<noteq> 2" "tp_file p = None" "length xs < tp_padding p"
  shows "tar_loop alloc p (xs @ ys) = (if list_ex (\<lambda>b. b \<noteq> 0) xs then Inl Malformed
    else tar_loop alloc (p\<lparr>tp_padding := tp_padding p - length xs\<rparr>) ys)"
proof (cases "xs @ ys = []")
  case False
  define n where "n = min (tp_padding p - length xs) (length ys)"
  have 1: "tar_loop alloc p (xs @ ys) = (if list_ex (\<lambda>b. b \<noteq> 0) (xs @ take n ys) then Inl Malformed
      else tar_loop alloc (p\<lparr>tp_padding := tp_padding p - (length xs + n)\<rparr>) (drop n ys))"
    using assms False
    by (subst tar_loop_padding [where n = "length xs + n"]) (auto simp: n_def)
  show ?thesis
  proof (cases "ys = []")
    case True
    then show ?thesis using 1 by (simp add: n_def)
  next
    case ys: False
    have "tar_loop alloc (p\<lparr>tp_padding := tp_padding p - length xs\<rparr>) ys =
        (if list_ex (\<lambda>b. b \<noteq> 0) (take n ys) then Inl Malformed
         else tar_loop alloc (p\<lparr>tp_padding := tp_padding p - length xs - n\<rparr>) (drop n ys))"
      using assms ys
      by (subst tar_loop_padding [where n = n]) (auto simp: n_def)
    then show ?thesis using 1 by simp
  qed
qed (use assms in simp)

lemma tar_loop_header_part:
  assumes "tp_zero_blocks p \<noteq> 2" "tp_file p = None" "tp_padding p = 0" "length (tp_header p) = 512"
    "tp_header_bytes p + length xs < 512"
  shows "tar_loop alloc p (xs @ ys) = tar_loop alloc (p\<lparr>tp_header := write_at (tp_header_bytes p) xs (tp_header p),
      tp_header_bytes := tp_header_bytes p + length xs\<rparr>) ys"
proof (cases "ys = []")
  case True
  show ?thesis
  proof (cases "xs = []")
    case False
    then show ?thesis using assms True
      by (subst tar_loop_header) (auto simp: tar_header_bytes_def Let_def)
  qed (use assms True in \<open>simp add: write_at_def\<close>)
next
  case ys: False
  let ?p = "p\<lparr>tp_header := write_at (tp_header_bytes p) xs (tp_header p),
      tp_header_bytes := tp_header_bytes p + length xs\<rparr>"
  define n where "n = min (512 - (tp_header_bytes p + length xs)) (length ys)"
  have "tar_header_bytes alloc ?p (take n ys) = tar_header_bytes alloc p (xs @ take n ys)"
    using assms by (simp add: tar_header_bytes_def Let_def write_at_def n_def ac_simps)
  moreover have "tar_loop alloc p (xs @ ys)
      = bnd (tar_header_bytes alloc p (xs @ take n ys)) (\<lambda>p. tar_loop alloc p (drop n ys))"
    using assms ys
    by (subst tar_loop_header [where n = "length xs + n"]) (auto simp: n_def)
  moreover have "tar_loop alloc ?p ys
      = bnd (tar_header_bytes alloc ?p (take n ys)) (\<lambda>p. tar_loop alloc p (drop n ys))"
    using assms ys
    by (subst tar_loop_header [where n = n]) (auto simp: n_def)
  ultimately show ?thesis by simp
qed

lemma tar_loop_append:
  "tar_inv p \<Longrightarrow> ok (tar_loop alloc p (xs @ ys)) = Option.bind (ok (tar_loop alloc p xs)) (\<lambda>q. ok (tar_loop alloc q ys))"
proof (induction alloc p xs rule: tar_loop.induct)
  case (1 alloc p xs)
  show ?case
  proof (cases "xs = [] \<or> tp_zero_blocks p = 2")
    case True
    then show ?thesis by (auto simp: tar_loop_done)
  next
    case False
    then have nz: "xs \<noteq> []" "tp_zero_blocks p \<noteq> 2" by auto
    show ?thesis
    proof (cases "tp_file p")
      case (Some f)
      have less: "length (pf_bytes f) < pf_size f" using "1.prems" Some by (simp add: tar_inv_def)
      let ?m = "pf_size f - length (pf_bytes f)"
      show ?thesis
      proof (cases "length xs < ?m")
        case True
        then have "length (pf_bytes f @ xs) < pf_size f" using less by simp
        from tar_loop_file_part [OF nz(2) Some this] show ?thesis
          using tar_loop_file_part [OF nz(2) Some \<open>length (pf_bytes f @ xs) < pf_size f\<close>, of alloc "[]"] by simp
      next
        case False
        then have n: "min ?m (length xs) = ?m" "min ?m (length (xs @ ys)) = ?m" by auto
        have len: "\<not> pf_size f < length (pf_bytes f)" using less by simp
        show ?thesis
        proof (cases "tar_file_bytes alloc p f (take ?m xs)")
          case (Inl e)
          then show ?thesis using nz Some less n False
            by (simp add: tar_loop_file [where f = f])
        next
          case (Inr q)
          have "length (pf_bytes f @ take ?m xs) \<le> pf_size f" using False less by simp
          then have "tar_inv q" using tar_file_bytes_inv [OF "1.prems" Some _ Inr] by blast
          then have "ok (tar_loop alloc q (drop ?m xs @ ys)) =
              Option.bind (ok (tar_loop alloc q (drop ?m xs))) (\<lambda>q. ok (tar_loop alloc q ys))"
            using "1.IH"(3) [OF nz Some len refl] Inr n by simp
          then show ?thesis using nz Some less n False Inr
            by (simp add: tar_loop_file [where f = f])
        qed
      qed
    next
      case None
      show ?thesis
      proof (cases "tp_padding p = 0")
        case True
        have hb: "tp_header_bytes p < 512" "length (tp_header p) = 512"
          using "1.prems" by (simp_all add: tar_inv_def)
        let ?m = "512 - tp_header_bytes p"
        show ?thesis
        proof (cases "length xs < ?m")
          case part: True
          then have "tp_header_bytes p + length xs < 512" by simp
          note part = tar_loop_header_part [OF nz(2) None True hb(2) this]
          show ?thesis using part [of alloc ys] part [of alloc "[]"] by simp
        next
          case False
          then have n: "min ?m (length xs) = ?m" "min ?m (length (xs @ ys)) = ?m" by auto
          have hb': "\<not> 512 \<le> tp_header_bytes p" "\<not> tp_padding p \<noteq> 0" using hb True by auto
          show ?thesis
          proof (cases "tar_header_bytes alloc p (take ?m xs)")
            case (Inl e)
            then show ?thesis using nz None True hb n False by (simp add: tar_loop_header)
          next
            case (Inr q)
            have "tp_header_bytes p + length (take ?m xs) \<le> 512" using False hb by simp
            then have "tar_inv q" using tar_header_bytes_inv [OF "1.prems" None True nz(2) _ Inr] by blast
            then have "ok (tar_loop alloc q (drop ?m xs @ ys)) =
                Option.bind (ok (tar_loop alloc q (drop ?m xs))) (\<lambda>q. ok (tar_loop alloc q ys))"
              using "1.IH"(2) [OF nz None hb'(2,1) refl] Inr n by simp
            then show ?thesis using nz None True hb n False Inr by (simp add: tar_loop_header)
          qed
        qed
      next
        case pad: False
        let ?m = "tp_padding p"
        show ?thesis
        proof (cases "length xs < ?m")
          case True
          note part = tar_loop_padding_part [OF nz(2) None True]
          show ?thesis using part [of alloc ys] part [of alloc "[]"] by simp
        next
          case False
          then have n: "min ?m (length xs) = ?m" "min ?m (length (xs @ ys)) = ?m" by auto
          have "tar_inv (p\<lparr>tp_padding := tp_padding p - ?m\<rparr>)"
            using "1.prems" None by (simp add: tar_inv_def)
          then show ?thesis
            using "1.IH"(1) [OF nz None pad refl] nz None pad n False
            by (simp add: tar_loop_padding)
        qed
      qed
    qed
  qed
qed

lemma expanded_commute:
  "tp_header_update h (tp_expanded_update e p) = tp_expanded_update e (tp_header_update h p)"
  "tp_header_bytes_update n (tp_expanded_update e p) = tp_expanded_update e (tp_header_bytes_update n p)"
  "tp_padding_update n (tp_expanded_update e p) = tp_expanded_update e (tp_padding_update n p)"
  "tp_file_update f (tp_expanded_update e p) = tp_expanded_update e (tp_file_update f p)"
  "tp_rows_update r (tp_expanded_update e p) = tp_expanded_update e (tp_rows_update r p)"
  "tp_zero_blocks_update n (tp_expanded_update e p) = tp_expanded_update e (tp_zero_blocks_update n p)"
  by (cases p; simp)+

lemma tar_block_expanded:
  "tar_block alloc (p\<lparr>tp_expanded := e\<rparr>) = bnd (tar_block alloc p) (\<lambda>q. Inr (q\<lparr>tp_expanded := e\<rparr>))"
  by (cases p) (auto simp: tar_block_def bnd_assoc intro!: bnd_cong)

lemma tar_file_bytes_expanded:
  "tar_file_bytes alloc (p\<lparr>tp_expanded := e\<rparr>) f bs = bnd (tar_file_bytes alloc p f bs) (\<lambda>q. Inr (q\<lparr>tp_expanded := e\<rparr>))"
  by (cases p) (simp add: tar_file_bytes_def Let_def bnd_assoc)

lemma tar_header_bytes_expanded:
  "tar_header_bytes alloc (p\<lparr>tp_expanded := e\<rparr>) bs = bnd (tar_header_bytes alloc p bs) (\<lambda>q. Inr (q\<lparr>tp_expanded := e\<rparr>))"
  by (simp add: tar_header_bytes_def Let_def expanded_commute tar_block_expanded)

lemma tar_loop_expanded:
  "tar_loop alloc (p\<lparr>tp_expanded := e\<rparr>) xs = bnd (tar_loop alloc p xs) (\<lambda>q. Inr (q\<lparr>tp_expanded := e\<rparr>))"
proof (induction alloc p xs rule: tar_loop.induct)
  case (1 alloc p xs)
  show ?case
  proof (cases "xs = [] \<or> tp_zero_blocks p = 2")
    case True
    then show ?thesis by (auto simp: tar_loop_done)
  next
    case False
    then have nz: "xs \<noteq> []" "tp_zero_blocks p \<noteq> 2" by auto
    have unfold: "tar_loop alloc q xs = (case tp_file q of
          Some f \<Rightarrow> if pf_size f < length (pf_bytes f) then Inl Malformed else
            bnd (tar_file_bytes alloc q f (take (min (pf_size f - length (pf_bytes f)) (length xs)) xs))
              (\<lambda>p. tar_loop alloc p (drop (min (pf_size f - length (pf_bytes f)) (length xs)) xs))
        | None \<Rightarrow>
            if tp_padding q \<noteq> 0 then
              if list_ex (\<lambda>b. b \<noteq> 0) (take (min (tp_padding q) (length xs)) xs) then Inl Malformed
              else tar_loop alloc (q\<lparr>tp_padding := tp_padding q - min (tp_padding q) (length xs)\<rparr>)
                     (drop (min (tp_padding q) (length xs)) xs)
            else if 512 \<le> tp_header_bytes q then Inl Malformed
            else bnd (tar_header_bytes alloc q (take (min (512 - tp_header_bytes q) (length xs)) xs))
                   (\<lambda>p. tar_loop alloc p (drop (min (512 - tp_header_bytes q) (length xs)) xs)))"
      if "tp_zero_blocks q \<noteq> 2" for q
      unfolding tar_loop.simps [of alloc q xs] Let_def using that nz(1) by simp
    show ?thesis
    proof (cases "tp_file p")
      case (Some f)
      then show ?thesis
        using "1.IH"(3) [OF nz Some _ refl] nz
        by (simp add: unfold tar_file_bytes_expanded bnd_assoc cong: bnd_cong)
    next
      case None
      show ?thesis
      proof (cases "tp_padding p = 0")
        case True
        then show ?thesis
          using "1.IH"(2) [OF nz None _ _ refl] nz None
          by (simp add: unfold tar_header_bytes_expanded bnd_assoc cong: bnd_cong)
      next
        case False
        then show ?thesis
          using "1.IH"(1) [OF nz None False refl] nz None
          by (simp add: unfold expanded_commute)
      qed
    qed
  qed
qed

definition sink_inv :: "tar_parser \<Rightarrow> bool" where
  "sink_inv p \<longleftrightarrow> tar_inv p \<and> tp_expanded p \<le> MAX_EXPANDED_BYTES"

lemma tar_write_eq:
  "tar_write alloc p xs =
     (if MAX_EXPANDED_BYTES < tp_expanded p + length xs then Inl Limit
      else bnd (tar_loop alloc p xs) (\<lambda>q. Inr (q\<lparr>tp_expanded := tp_expanded p + length xs\<rparr>)))"
proof -
  have "MAX_EXPANDED_BYTES \<le> usize_max" by (simp add: limit_defs usize_max_def)
  then show ?thesis by (simp add: tar_write_def checked_add_def tar_loop_expanded)
qed

lemma tar_inv_expanded [simp]: "tar_inv (p\<lparr>tp_expanded := e\<rparr>) = tar_inv p"
  by (simp add: tar_inv_def)

interpretation tar_sink: chunk_sink "tar_write alloc" sink_inv for alloc
proof
  fix p xs ys p'
  assume inv: "sink_inv p"
  then show "tar_write alloc p [] = Inr p" by (simp add: tar_write_eq sink_inv_def)
  show "sink_inv p'" if "tar_write alloc p xs = Inr p'"
    using that inv by (auto simp: tar_write_eq sink_inv_def bnd_eq_Inr tar_loop_inv split: if_splits)
  show "ok (tar_write alloc p (xs @ ys)) = Option.bind (ok (tar_write alloc p xs)) (\<lambda>s. ok (tar_write alloc s ys))"
    using tar_loop_append [of p alloc xs ys] inv
    by (cases "tar_loop alloc p xs")
      (auto simp: tar_write_eq sink_inv_def ok_bnd tar_loop_expanded add.assoc bnd_assoc split: bind_splits)
qed

subsection \<open>The archives that are accepted\<close>

text \<open>
  The grammar: a header block that is not all zeros, the content, zeros up to the next block;
  then at least two blocks of zeros. \<open>archive_body alloc rows bs rows'\<close> says that the entries
  \<open>bs\<close> take the builder \<open>rows\<close> to \<open>rows'\<close>.
\<close>

definition pad_len :: "nat \<Rightarrow> nat" where
  "pad_len n = (512 - n mod 512) mod 512"

inductive archive_body :: "(nat \<Rightarrow> bool) \<Rightarrow> rows_builder \<Rightarrow> bytes \<Rightarrow> rows_builder \<Rightarrow> bool" for alloc where
  nil: "archive_body alloc rows [] rows"
| entry: "length hdr = 512 \<Longrightarrow> \<not> list_all (\<lambda>b. b = 0) hdr \<Longrightarrow>
    tar_header hdr = Inr (path, mode, length content) \<Longrightarrow>
    content = [] \<or> alloc (length content) \<Longrightarrow>
    rows_push (alloc 1) rows path mode content = Inr rows1 \<Longrightarrow>
    archive_body alloc rows1 rest rows' \<Longrightarrow>
    archive_body alloc rows (hdr @ content @ replicate (pad_len (length content)) 0 @ rest) rows'"

definition boundary :: "rows_builder \<Rightarrow> bytes \<Rightarrow> nat \<Rightarrow> tar_parser" where
  "boundary rows hdr z = \<lparr>tp_rows = rows, tp_header = hdr, tp_header_bytes = 0, tp_file = None,
     tp_padding = 0, tp_zero_blocks = z, tp_expanded = 0\<rparr>"

lemma boundary_block:
  assumes "length h = 512" "length hdr = 512" "z < 2"
  shows "tar_loop alloc (boundary rows h z) (hdr @ rest)
    = bnd (tar_block alloc (boundary rows hdr z)) (\<lambda>p. tar_loop alloc p rest)"
proof -
  have "hdr \<noteq> []" using assms(2) by auto
  then show ?thesis
    using assms by (subst tar_loop_header [where n = 512])
      (auto simp: boundary_def tar_header_bytes_def Let_def write_at_def)
qed

lemma pending_content:
  assumes "tp_zero_blocks p \<noteq> 2" "tp_file p = Some f" "pf_bytes f = []" "length content = pf_size f" "content \<noteq> []"
  shows "tar_loop alloc p (content @ rest) = bnd (tar_file_bytes alloc p f content) (\<lambda>p. tar_loop alloc p rest)"
  using assms by (subst tar_loop_file [where f = f and n = "length content"]) auto

lemma padding_zeros:
  assumes "tp_zero_blocks p \<noteq> 2" "tp_file p = None" "tp_padding p = length zs"
  shows "tar_loop alloc p (zs @ rest) = (if list_ex (\<lambda>b. b \<noteq> 0) zs then Inl Malformed
    else tar_loop alloc (p\<lparr>tp_padding := 0\<rparr>) rest)"
proof (cases "zs = []")
  case True
  then have "p\<lparr>tp_padding := 0\<rparr> = p" using assms(3) by (cases p) simp
  then show ?thesis using True by simp
next
  case False
  then show ?thesis using assms by (subst tar_loop_padding [where n = "length zs"]) auto
qed

text \<open>A nonzero header block followed by its content and padding.\<close>

lemma boundary_entry:
  assumes "length h = 512" "length hdr = 512" "\<not> list_all (\<lambda>b. b = 0) hdr"
    and "tar_header hdr = Inr (path, mode, length content)"
    and "rows_push (alloc 1) rows path mode content = Inr rows1"
    and "content = [] \<or> alloc (length content)"
    and "length zs = pad_len (length content)"
  shows "tar_loop alloc (boundary rows h 0) (hdr @ content @ zs @ rest)
    = (if list_ex (\<lambda>b. b \<noteq> 0) zs then Inl Malformed else tar_loop alloc (boundary rows1 hdr 0) rest)"
proof -
  from assms(5) obtain additions where plan: "rows_plan rows path mode (length content) = Inr additions"
    by (auto simp: rows_push_def bnd_eq_Inr)
  show ?thesis
  proof (cases "content = []")
    case True
    then have "zs = []" using assms(7) by (simp add: pad_len_def)
    then show ?thesis using True assms plan
      by (simp add: boundary_block tar_block_def) (simp add: boundary_def)
  next
    case False
    define f where "f = \<lparr>pf_path = path, pf_mode = mode, pf_size = length content, pf_bytes = []\<rparr>"
    define p where "p = boundary rows hdr 0\<lparr>tp_file := Some f\<rparr>"
    define q where "q = boundary rows1 hdr 0\<lparr>tp_padding := pad_len (length content)\<rparr>"
    have block: "tar_block alloc (boundary rows hdr 0) = Inr p"
      using False assms plan by (simp add: tar_block_def boundary_def p_def f_def)
    have bytes: "tar_file_bytes alloc p f content = Inr q"
      using assms by (simp add: tar_file_bytes_def p_def f_def boundary_def pad_len_def q_def)
    have p: "tp_zero_blocks p \<noteq> 2" "tp_file p = Some f" "pf_bytes f = []" "length content = pf_size f"
      by (simp_all add: p_def f_def boundary_def)
    have q: "tp_zero_blocks q \<noteq> 2" "tp_file q = None" "tp_padding q = length zs"
      "q\<lparr>tp_padding := 0\<rparr> = boundary rows1 hdr 0"
      using assms(7) by (simp_all add: q_def boundary_def)
    have "tar_loop alloc (boundary rows h 0) (hdr @ content @ zs @ rest) = tar_loop alloc p (content @ zs @ rest)"
      using assms(1,2) by (simp add: boundary_block block)
    also have "\<dots> = tar_loop alloc q (zs @ rest)"
      using pending_content [OF p False] by (simp add: bytes)
    also have "\<dots> = (if list_ex (\<lambda>b. b \<noteq> 0) zs then Inl Malformed else tar_loop alloc (boundary rows1 hdr 0) rest)"
      using padding_zeros [OF q(1-3)] by (simp add: q(4))
    finally show ?thesis .
  qed
qed

lemma list_ex_replicate [simp]: "list_ex P (replicate n x) \<longleftrightarrow> n \<noteq> 0 \<and> P x"
  by (induction n) auto

lemma archive_body_run:
  "archive_body alloc rows body rows' \<Longrightarrow> length h = 512 \<Longrightarrow>
   \<exists>h'. length h' = 512 \<and> tar_loop alloc (boundary rows h 0) (body @ tail) = tar_loop alloc (boundary rows' h' 0) tail"
proof (induction arbitrary: h rule: archive_body.induct)
  case (entry hdr path mode content rows rows1 rest rows')
  have "tar_loop alloc (boundary rows h 0) (hdr @ content @ replicate (pad_len (length content)) 0 @ (rest @ tail))
      = tar_loop alloc (boundary rows1 hdr 0) (rest @ tail)"
    using entry by (subst boundary_entry [OF entry.prems]) auto
  then show ?case using entry.IH [OF entry.hyps(1)] by simp
qed auto

definition at_end :: "tar_parser \<Rightarrow> bool" where
  "at_end p \<longleftrightarrow> tp_zero_blocks p = 2 \<and> tp_file p = None \<and> tp_header_bytes p = 0 \<and> tp_padding p = 0"

lemma zeros_run:
  assumes "length h = 512" "1024 \<le> k"
  shows "\<exists>h'. tar_loop alloc (boundary rows h 0) (replicate k 0) = Inr (boundary rows h' 2)"
proof -
  let ?z = "replicate 512 0 :: bytes"
  have k: "replicate k (0::u8) = ?z @ ?z @ replicate (k - 1024) 0"
    using assms(2) by (simp flip: replicate_add)
  have block: "tar_block alloc (boundary rows ?z z) = Inr (boundary rows ?z (Suc z))" for z
    by (simp add: tar_block_def boundary_def list_all_iff)
  have "tar_loop alloc (boundary rows h 0) (replicate k 0)
      = tar_loop alloc (boundary rows ?z 2) (replicate (k - 1024) 0)"
    unfolding k using assms(1) by (simp add: boundary_block block numeral_2_eq_2)
  moreover have "tar_loop alloc (boundary rows ?z 2) (replicate (k - 1024) 0) = Inr (boundary rows ?z 2)"
    by (simp add: tar_loop_done boundary_def)
  ultimately show ?thesis by auto
qed

lemma replicate_zeros: "\<not> list_ex (\<lambda>b. b \<noteq> 0) bs \<longleftrightarrow> bs = replicate (length bs) (0 :: u8)"
  by (induction bs) auto

lemma all_zeros: "list_all (\<lambda>b. b = 0) bs \<longleftrightarrow> bs = replicate (length bs) (0 :: u8)"
  by (induction bs) auto

text \<open>One header block that is not zero, seen from the result of the run.\<close>

lemma boundary_entry_inv:
  assumes run: "tar_loop alloc (boundary rows h 0) (hdr @ rest) = Inr p" and fin: "at_end p"
    and "length h = 512" "length hdr = 512" "\<not> list_all (\<lambda>b. b = 0) hdr"
  obtains path mode content rows1 rest' where "rest = content @ replicate (pad_len (length content)) 0 @ rest'"
    "tar_header hdr = Inr (path, mode, length content)" "content = [] \<or> alloc (length content)"
    "rows_push (alloc 1) rows path mode content = Inr rows1"
    "tar_loop alloc (boundary rows1 hdr 0) rest' = Inr p"
proof -
  from run assms(3,4) obtain q where q: "tar_block alloc (boundary rows hdr 0) = Inr q"
    "tar_loop alloc q rest = Inr p"
    by (auto simp: boundary_block bnd_eq_Inr)
  from q(1) assms(5) obtain path mode size' where hdr: "tar_header hdr = Inr (path, mode, size')"
    and cases: "if size' = 0 then \<exists>rows1. rows_push (alloc 1) rows path mode [] = Inr rows1 \<and> q = boundary rows1 hdr 0
      else alloc size' \<and> q = (boundary rows hdr 0)\<lparr>tp_file :=
        Some \<lparr>pf_path = path, pf_mode = mode, pf_size = size', pf_bytes = []\<rparr>\<rparr>"
    by (auto simp: tar_block_def boundary_def bnd_eq_Inr split: if_splits)
  show thesis
  proof (cases "size' = 0")
    case True
    then show thesis using that [of "[]"] cases hdr q(2) by (auto simp: pad_len_def)
  next
    case False
    define f where "f = \<lparr>pf_path = path, pf_mode = mode, pf_size = size', pf_bytes = []\<rparr>"
    have qf: "alloc size'" "q = (boundary rows hdr 0)\<lparr>tp_file := Some f\<rparr>" using cases False by (simp_all add: f_def)
    then have q': "tp_zero_blocks q \<noteq> 2" "tp_file q = Some f" by (simp_all add: boundary_def)
    have long: "size' \<le> length rest"
    proof (rule ccontr)
      assume "\<not> size' \<le> length rest"
      then have "tar_loop alloc q rest = Inr (q\<lparr>tp_file := Some (f\<lparr>pf_bytes := rest\<rparr>)\<rparr>)"
        using tar_loop_file_part [OF q', of rest alloc "[]"] by (simp add: f_def)
      then show False using q(2) fin by (auto simp: at_end_def)
    qed
    define content where "content = take size' rest"
    have content: "length content = size'" "content \<noteq> []" "rest = content @ drop size' rest"
      using long False by (auto simp: content_def)
    have "bnd (tar_file_bytes alloc q f content) (\<lambda>p. tar_loop alloc p (drop size' rest)) = Inr p"
      using pending_content [OF q', of content alloc "drop size' rest"] content q(2) by (simp add: f_def)
    then obtain r where r: "tar_file_bytes alloc q f content = Inr r" "tar_loop alloc r (drop size' rest) = Inr p"
      by (auto simp: bnd_eq_Inr)
    from r(1) content obtain rows1 where rows1: "rows_push (alloc 1) rows path mode content = Inr rows1"
      "r = (boundary rows1 hdr 0)\<lparr>tp_padding := pad_len size'\<rparr>"
      by (auto simp: tar_file_bytes_def f_def qf(2) boundary_def pad_len_def bnd_eq_Inr)
    then have r': "tp_zero_blocks r \<noteq> 2" "tp_file r = None" "tp_padding r = pad_len size'"
      by (simp_all add: boundary_def)
    have long: "pad_len size' \<le> length (drop size' rest)"
    proof (rule ccontr)
      assume short: "\<not> pad_len size' \<le> length (drop size' rest)"
      then have "tp_padding p = pad_len size' - length (drop size' rest)"
        using tar_loop_padding_part [OF r'(1,2), of "drop size' rest" alloc "[]"] r(2) r'(3)
        by (auto split: if_splits)
      then show False using fin short by (simp add: at_end_def)
    qed
    define zs where "zs = take (pad_len size') (drop size' rest)"
    define rest' where "rest' = drop (pad_len size') (drop size' rest)"
    have zs: "length zs = pad_len size'" "drop size' rest = zs @ rest'"
      unfolding zs_def rest'_def using long by (simp, simp only: append_take_drop_id)
    then have "\<not> list_ex (\<lambda>b. b \<noteq> 0) zs" "tar_loop alloc (r\<lparr>tp_padding := 0\<rparr>) rest' = Inr p"
      using padding_zeros [OF r'(1,2), of zs alloc rest'] r(2) r'(3) by (auto split: if_splits)
    moreover have "r\<lparr>tp_padding := 0\<rparr> = boundary rows1 hdr 0" by (simp add: rows1 boundary_def)
    moreover have "zs = replicate (pad_len size') 0" using calculation(1) zs(1) by (simp add: replicate_zeros)
    ultimately show thesis using that [of content rest'] content zs rows1 hdr qf(1) by simp
  qed
qed

lemma pad_len_dvd: "512 dvd n + pad_len n"
proof -
  have "(n + pad_len n) mod 512 = (n + (512 - n mod 512)) mod 512"
    unfolding pad_len_def by (rule mod_add_right_eq)
  also have "n + (512 - n mod 512) = 512 * (n div 512) + 512"
    using mult_div_mod_eq [of 512 n] mod_less_divisor [of 512 n] by linarith
  finally show ?thesis by (simp add: dvd_eq_mod_eq_0)
qed

lemma archive_body_sound:
  assumes "tar_loop alloc (boundary rows h 0) bs = Inr p" "at_end p" "length h = 512" "512 dvd length bs"
  shows "\<exists>body k. bs = body @ replicate k 0 \<and> 1024 \<le> k \<and> archive_body alloc rows body (tp_rows p)"
  using assms
proof (induction bs arbitrary: rows h rule: length_induct)
  case (1 bs)
  have nonempty: "bs \<noteq> []" using 1(2,3) by (auto simp: at_end_def boundary_def)
  then have long: "512 \<le> length bs" using 1(5) by (simp add: dvd_imp_le)
  define hdr where "hdr = take 512 bs"
  define rest where "rest = drop 512 bs"
  have bs: "bs = hdr @ rest" "length hdr = 512" "512 dvd length rest"
    using long 1(5) by (simp_all add: hdr_def rest_def dvd_diff_nat)
  show ?case
  proof (cases "list_all (\<lambda>b. b = 0) hdr")
    case True
    then have z: "tar_loop alloc (boundary rows hdr 1) rest = Inr p"
      using 1(2,4) bs by (simp add: boundary_block) (simp add: tar_block_def boundary_def)
    have "rest \<noteq> []" using z 1(3) by (auto simp: at_end_def boundary_def)
    then have "512 \<le> length rest" using bs(3) by (simp add: dvd_imp_le)
    define hdr2 where "hdr2 = take 512 rest"
    define rest2 where "rest2 = drop 512 rest"
    have r: "rest = hdr2 @ rest2" "length hdr2 = 512"
      using \<open>512 \<le> length rest\<close> by (simp_all add: hdr2_def rest2_def)
    have block: "bnd (tar_block alloc (boundary rows hdr2 1)) (\<lambda>p. tar_loop alloc p rest2) = Inr p"
      using boundary_block [of hdr hdr2 1 alloc rows rest2] z r bs(2) by simp
    then have zeros2: "list_all (\<lambda>b. b = 0) hdr2"
      by (auto simp: tar_block_def boundary_def split: if_splits)
    then have "tar_loop alloc (boundary rows hdr2 2) rest2 = Inr p"
      using block by (simp add: tar_block_def boundary_def numeral_2_eq_2)
    then have rest2: "\<not> list_ex (\<lambda>b. b \<noteq> 0) rest2" "p = boundary rows hdr2 2"
      by (auto simp: tar_loop_done boundary_def split: if_splits)
    then have "list_all (\<lambda>b. b = 0) rest2" by (simp add: list_all_iff list_ex_iff)
    then have "list_all (\<lambda>b. b = 0) bs" using True zeros2 bs(1) r(1) by simp
    then have "bs = replicate (length bs) 0" "tp_rows p = rows"
      using rest2(2) by (simp_all add: all_zeros boundary_def)
    moreover have "1024 \<le> length bs" using bs r by simp
    ultimately show ?thesis
      by (intro exI [of _ "[]"] exI [of _ "length bs"]) (simp add: archive_body.nil)
  next
    case False
    have "tar_loop alloc (boundary rows h 0) (hdr @ rest) = Inr p" using 1(2) bs(1) by simp
    then obtain path mode content rows1 rest' where
      e: "rest = content @ replicate (pad_len (length content)) 0 @ rest'"
      "tar_header hdr = Inr (path, mode, length content)" "content = [] \<or> alloc (length content)"
      "rows_push (alloc 1) rows path mode content = Inr rows1"
      "tar_loop alloc (boundary rows1 hdr 0) rest' = Inr p"
      using 1(3,4) bs(2) False by (rule boundary_entry_inv)
    have "512 dvd length content + pad_len (length content)"
      by (rule pad_len_dvd)
    moreover have "length rest = (length content + pad_len (length content)) + length rest'"
      by (simp add: e(1))
    ultimately have "512 dvd length rest'" using bs(3) by (simp add: dvd_add_right_iff)
    moreover have "length rest' < length bs" using bs e(1) by simp
    ultimately obtain body k where body: "rest' = body @ replicate k 0" "1024 \<le> k" "archive_body alloc rows1 body (tp_rows p)"
      using 1(1) [rule_format, of rest' rows1 hdr] e(5) 1(3) bs(2) by auto
    have "archive_body alloc rows (hdr @ content @ replicate (pad_len (length content)) 0 @ body) (tp_rows p)"
      using bs(2) False e(2-4) body(3) by (rule archive_body.entry)
    then show ?thesis using bs(1) e(1) body(1,2)
      by (intro exI [of _ "hdr @ content @ replicate (pad_len (length content)) 0 @ body"] exI [of _ k]) simp
  qed
qed

lemma tar_new_boundary: "tar_new = boundary rows_new (replicate 512 0) 0"
  by (simp add: tar_new_def boundary_def)

definition tar_archive :: "(nat \<Rightarrow> bool) \<Rightarrow> bytes \<Rightarrow> source_rows \<Rightarrow> bool" where
  "tar_archive alloc bs r \<longleftrightarrow>
     length bs \<le> MAX_EXPANDED_BYTES \<and> 512 dvd length bs
     \<and> (\<exists>body k rows. bs = body @ replicate k 0 \<and> 1024 \<le> k \<and> archive_body alloc rows_new body rows
          \<and> rows_finish rows = Inr r)"

lemma tar_run_iff:
  "(\<exists>p. tar_write alloc tar_new bs = Inr p \<and> tar_finish p = Inr r) \<longleftrightarrow> tar_archive alloc bs r" (is "?run \<longleftrightarrow> ?spec")
proof
  assume ?run
  then obtain p where p: "tar_write alloc tar_new bs = Inr p" "tar_finish p = Inr r" by blast
  then obtain q where q: "length bs \<le> MAX_EXPANDED_BYTES" "tar_loop alloc tar_new bs = Inr q"
    "p = q\<lparr>tp_expanded := length bs\<rparr>"
    by (auto simp: tar_write_eq bnd_eq_Inr tar_new_def split: if_splits)
  from p(2) q(3) have fin: "at_end q" "512 dvd length bs" "rows_finish (tp_rows q) = Inr r"
    by (auto simp: tar_finish_def at_end_def dvd_eq_mod_eq_0 split: if_splits)
  obtain body k where "bs = body @ replicate k 0" "1024 \<le> k" "archive_body alloc rows_new body (tp_rows q)"
    using archive_body_sound [OF q(2) [unfolded tar_new_boundary] fin(1) _ fin(2)] by auto
  then show ?spec using q(1) fin unfolding tar_archive_def by blast
next
  assume ?spec
  then obtain body k rows where s: "length bs \<le> MAX_EXPANDED_BYTES" "512 dvd length bs"
    "bs = body @ replicate k 0" "1024 \<le> k" "archive_body alloc rows_new body rows" "rows_finish rows = Inr r"
    unfolding tar_archive_def by blast
  obtain h' where h': "length h' = 512"
    "tar_loop alloc tar_new bs = tar_loop alloc (boundary rows h' 0) (replicate k 0)"
    using archive_body_run [OF s(5), of "replicate 512 0" "replicate k 0"]
    unfolding tar_new_boundary s(3) by auto
  obtain h2 where h2: "tar_loop alloc tar_new bs = Inr (boundary rows h2 2)"
    using zeros_run [OF h'(1) s(4), of alloc rows] h'(2) by auto
  have "tar_write alloc tar_new bs = Inr ((boundary rows h2 2)\<lparr>tp_expanded := length bs\<rparr>)"
    using s(1) h2 by (simp add: tar_write_eq) (simp add: tar_new_def)
  moreover have "tar_finish ((boundary rows h2 2)\<lparr>tp_expanded := length bs\<rparr>) = Inr r"
    using s(2,6) by (simp add: tar_finish_def boundary_def dvd_eq_mod_eq_0)
  ultimately show ?run by blast
qed

text \<open>C9: The streaming parser accepts exactly the archives of the grammar: a body of entries (a nonzero
  header block, as many content bytes as it announces, zero padding to the block) whose files the
  builder takes one after the other, then at least two zero blocks, in whole blocks and within the
  expansion limit; the rows it returns are those of that body.\<close>

theorem tar_accepts_exactly:
  "(\<exists>p. tar_write alloc tar_new bs = Inr p \<and> tar_finish p = Inr r) \<longleftrightarrow>
     length bs \<le> MAX_EXPANDED_BYTES \<and> 512 dvd length bs
     \<and> (\<exists>body k rows. bs = body @ replicate k 0 \<and> 1024 \<le> k \<and> archive_body alloc rows_new body rows
          \<and> rows_finish rows = Inr r)"
  using tar_run_iff unfolding tar_archive_def .

text \<open>C10: How the archive is cut into writes does not matter: any sequence of writes succeeds exactly when
  one write of the concatenation does, and ends in the same state.\<close>

theorem tar_write_chunks:
  "ok (fold_res (\<lambda>c p. tar_write alloc p c) cs tar_new) = ok (tar_write alloc tar_new (concat cs))"
  by (rule tar_sink.put_chunks) (simp add: sink_inv_def tar_new_inv, simp add: tar_new_def)

end
