(* ===== verification/Gzip.thy ===== *)
theory Gzip
  imports Source_Rows Sink_Interface
begin

section \<open>The bounded gzip decoder\<close>

text \<open>
  \<open>native/crates/protocol/src/gzip.rs\<close>. The consumer of the output is a function \<open>put\<close> on a
  state, threaded through the \<open>output\<close> record. The bit reader is the byte and bit position in
  the input; the \<open>u16\<close> arithmetic of the code tables is written out with \<open>wrap16\<close>. The pending
  chunk is the list of its first \<open>pending_len\<close> bytes. Two branches stand for arithmetic that
  would panic and are unreachable: a bit position of 8 or more, and a member count over the total.
\<close>

subsection \<open>CRC-32\<close>

definition crc_step :: "u32 \<Rightarrow> u32" where
  "crc_step value = drop_bit 1 value XOR (0xedb88320 AND (0 - (value AND 1)))"

definition crc_entry :: "nat \<Rightarrow> u32" where
  "crc_entry i = (crc_step ^^ 8) (of_nat i)"

definition CRC :: "u32 list" where
  "CRC = map crc_entry [0..<256]"

definition crc_byte :: "u32 \<Rightarrow> u8 \<Rightarrow> u32" where
  "crc_byte crc b = drop_bit 8 crc XOR CRC ! unat ((crc XOR ucast b) AND 255)"

definition crc32 :: "bytes \<Rightarrow> u32" where
  "crc32 bs = NOT (fold (\<lambda>b crc. crc_byte crc b) bs (- 1))"

subsection \<open>Bits\<close>

definition HISTORY :: nat where [limit_defs]: "HISTORY = 32768"
definition CHUNK :: nat where [limit_defs]: "CHUNK = 8192"
definition MAX_MEMBERS :: nat where [limit_defs]: "MAX_MEMBERS = 64"
definition MAX_HEADER :: nat where [limit_defs]: "MAX_HEADER = 128 * 1024"
definition MAX_HEADER_TEXT :: nat where [limit_defs]: "MAX_HEADER_TEXT = 4096"

record bit_pos =
  bp_byte :: nat
  bp_bit :: nat

definition bits_next :: "bytes \<Rightarrow> bit_pos \<Rightarrow> (capture_error, bool \<times> bit_pos) res" where
  "bits_next input st =
     (if length input \<le> bp_byte st \<or> 8 \<le> bp_bit st then Inl Malformed
      else Inr (bit (input ! bp_byte st) (bp_bit st),
                if bp_bit st + 1 = 8 then \<lparr>bp_byte = bp_byte st + 1, bp_bit = 0\<rparr>
                else st\<lparr>bp_bit := bp_bit st + 1\<rparr>))"

fun bits_loop :: "bytes \<Rightarrow> nat list \<Rightarrow> u32 \<Rightarrow> bit_pos \<Rightarrow> (capture_error, u32 \<times> bit_pos) res" where
  "bits_loop input [] value st = Inr (value, st)"
| "bits_loop input (shift # shifts) value st =
     bnd (bits_next input st) (\<lambda>(b, st).
       bits_loop input shifts (value OR push_bit shift (if b then 1 else 0)) st)"

definition bits_read :: "bytes \<Rightarrow> nat \<Rightarrow> bit_pos \<Rightarrow> (capture_error, nat \<times> bit_pos) res" where
  "bits_read input n st =
     bnd (bits_loop input [0..<n] 0 st) (\<lambda>(value, st). Inr (unat value, st))"

definition bits_align :: "bit_pos \<Rightarrow> bit_pos" where
  "bits_align st = (if bp_bit st \<noteq> 0 then \<lparr>bp_byte = bp_byte st + 1, bp_bit = 0\<rparr> else st)"

definition bits_take :: "bytes \<Rightarrow> nat \<Rightarrow> bit_pos \<Rightarrow> (capture_error, bytes \<times> bit_pos) res" where
  "bits_take input n st =
     (if bp_bit st \<noteq> 0 then Inl Malformed
      else bnd (ok_or Limit (checked_add (bp_byte st) n)) (\<lambda>end_at.
        if length input < end_at then Inl Malformed
        else Inr (take n (drop (bp_byte st) input), st\<lparr>bp_byte := end_at\<rparr>)))"

fun text_loop :: "bytes \<Rightarrow> nat \<Rightarrow> bit_pos \<Rightarrow> (capture_error, bit_pos) res" where
  "text_loop input 0 st = Inl Limit"
| "text_loop input (Suc n) st =
     bnd (bits_take input 1 st) (\<lambda>(bs, st).
       if hd bs = 0 then Inr st else text_loop input n st)"

definition bits_text :: "bytes \<Rightarrow> bit_pos \<Rightarrow> (capture_error, bit_pos) res" where
  "bits_text input st = text_loop input (MAX_HEADER_TEXT + 1) st"

subsection \<open>Canonical codes\<close>

datatype alphabet = Lengths | Literals | Distances

record huffman =
  hf_counts :: "nat list"
  hf_first_codes :: "nat list"
  hf_offsets :: "nat list"
  hf_symbols :: "nat list"
  hf_maximum :: nat

definition wrap16 :: "nat \<Rightarrow> nat" where "wrap16 n = n mod 65536"

definition count_length :: "u8 \<Rightarrow> huffman \<Rightarrow> (capture_error, huffman) res" where
  "count_length len tree =
     (if 15 < len then Inl Malformed
      else if len \<noteq> 0 then
        Inr (tree\<lparr>hf_counts := (hf_counts tree)[unat len := hf_counts tree ! unat len + 1],
                  hf_maximum := max (hf_maximum tree) (unat len)\<rparr>)
      else Inr tree)"

text \<open>\<open>for length in 1..=15\<close>: the state is the open slots, the next code, the next offset.\<close>

definition code_length_step ::
  "nat \<Rightarrow> int \<times> nat \<times> nat \<times> huffman \<Rightarrow> (capture_error, int \<times> nat \<times> nat \<times> huffman) res" where
  "code_length_step len = (\<lambda>(slots, code, offset, tree).
     let slots = 2 * slots - int (hf_counts tree ! len)
     in if slots < 0 then Inl Malformed
        else
          let code = wrap16 (2 * wrap16 (code + hf_counts tree ! (len - 1)))
          in Inr (slots, code, wrap16 (offset + hf_counts tree ! len),
               tree\<lparr>hf_first_codes := (hf_first_codes tree)[len := code],
                    hf_offsets := (hf_offsets tree)[len := offset]\<rparr>))"

definition place_symbol :: "nat \<times> u8 \<Rightarrow> nat list \<times> nat list \<Rightarrow> nat list \<times> nat list" where
  "place_symbol = (\<lambda>(symbol, len) (next_at, symbols).
     if len \<noteq> 0 then
       (next_at[unat len := wrap16 (next_at ! unat len + 1)], symbols[next_at ! unat len := symbol])
     else (next_at, symbols))"

definition huffman_new :: "u8 list \<Rightarrow> alphabet \<Rightarrow> (capture_error, huffman) res" where
  "huffman_new lengths alphabet =
     (if 288 < length lengths then Inl Malformed
      else
        bnd (fold_res count_length lengths
               \<lparr>hf_counts = replicate 16 0, hf_first_codes = replicate 16 0, hf_offsets = replicate 16 0,
                hf_symbols = replicate 288 0, hf_maximum = 0\<rparr>) (\<lambda>tree.
        if hf_maximum tree = 0 then (if alphabet = Distances then Inr tree else Inl Malformed)
        else
          bnd (fold_res code_length_step [1..<16] (1, 0, 0, tree)) (\<lambda>(slots, _, _, tree).
          if slots \<noteq> 0 \<and> (alphabet = Lengths \<or> hf_maximum tree \<noteq> 1) then Inl Malformed
          else
            let (_, symbols) = fold place_symbol (zip [0..<length lengths] lengths)
                                 (hf_offsets tree, hf_symbols tree)
            in Inr (tree\<lparr>hf_symbols := symbols\<rparr>))))"

text \<open>\<open>code << 1\<close> on \<open>u16\<close> drops the high bit; \<open>index\<close> is the distance to the first code.\<close>

fun huffman_loop ::
  "bytes \<Rightarrow> huffman \<Rightarrow> nat list \<Rightarrow> nat \<Rightarrow> bit_pos \<Rightarrow> (capture_error, nat \<times> bit_pos) res" where
  "huffman_loop input tree [] code st = Inl Malformed"
| "huffman_loop input tree (len # lens) code st =
     bnd (bits_read input 1 st) (\<lambda>(b, st).
       let code = wrap16 (2 * code) + b
       in if hf_first_codes tree ! len \<le> code \<and> code - hf_first_codes tree ! len < hf_counts tree ! len
          then Inr (hf_symbols tree ! wrap16 (hf_offsets tree ! len + (code - hf_first_codes tree ! len)), st)
          else huffman_loop input tree lens code st)"

definition huffman_decode :: "bytes \<Rightarrow> huffman \<Rightarrow> bit_pos \<Rightarrow> (capture_error, nat \<times> bit_pos) res" where
  "huffman_decode input tree st = huffman_loop input tree [1..<hf_maximum tree + 1] 0 st"

subsection \<open>Output\<close>

record 's gz_output =
  o_sink :: 's
  o_history :: bytes
  o_pending :: bytes
  o_total :: nat
  o_member_bytes :: nat
  o_maximum :: nat
  o_crc :: u32

type_synonym 's sink = "'s \<Rightarrow> bytes \<Rightarrow> (capture_error, 's) res"

definition out_flush :: "'s sink \<Rightarrow> 's gz_output \<Rightarrow> (capture_error, 's gz_output) res" where
  "out_flush put out =
     (if o_pending out \<noteq> [] then
        bnd (put (o_sink out) (o_pending out)) (\<lambda>s. Inr (out\<lparr>o_sink := s, o_pending := []\<rparr>))
      else Inr out)"

definition out_emit :: "'s sink \<Rightarrow> u8 \<Rightarrow> 's gz_output \<Rightarrow> (capture_error, 's gz_output) res" where
  "out_emit put b out =
     (if o_maximum out \<le> o_total out then Inl Limit
      else
        let out = out\<lparr>o_history := (o_history out)[o_member_bytes out mod HISTORY := b],
                      o_member_bytes := o_member_bytes out + 1, o_total := o_total out + 1,
                      o_crc := crc_byte (o_crc out) b, o_pending := o_pending out @ [b]\<rparr>
        in if length (o_pending out) = CHUNK then out_flush put out else Inr out)"

fun copy_loop :: "'s sink \<Rightarrow> nat \<Rightarrow> nat \<Rightarrow> 's gz_output \<Rightarrow> (capture_error, 's gz_output) res" where
  "copy_loop put distance 0 out = Inr out"
| "copy_loop put distance (Suc n) out =
     bnd (out_emit put (o_history out ! ((o_member_bytes out - distance) mod HISTORY)) out)
       (copy_loop put distance n)"

definition out_copy :: "'s sink \<Rightarrow> nat \<Rightarrow> nat \<Rightarrow> 's gz_output \<Rightarrow> (capture_error, 's gz_output) res" where
  "out_copy put distance len out =
     (if distance = 0 \<or> HISTORY < distance \<or> o_member_bytes out < distance then Inl Malformed
      else if o_maximum out - o_total out < len then Inl Limit
      else copy_loop put distance len out)"

subsection \<open>Dynamic code tables\<close>

definition ORDER :: "nat list" where
  "ORDER = [16, 17, 18, 0, 8, 7, 9, 6, 10, 5, 11, 4, 12, 3, 13, 2, 14, 1, 15]"

definition read_code_length :: "bytes \<Rightarrow> nat \<Rightarrow> u8 list \<times> bit_pos \<Rightarrow> (capture_error, u8 list \<times> bit_pos) res" where
  "read_code_length input index = (\<lambda>(lens, st).
     bnd (bits_read input 3 st) (\<lambda>(v, st). Inr (lens[index := of_nat v], st)))"

definition repeat_code ::
  "bytes \<Rightarrow> nat \<Rightarrow> u8 list \<Rightarrow> nat \<Rightarrow> bit_pos \<Rightarrow> (capture_error, u8 \<times> nat \<times> bit_pos) res" where
  "repeat_code input code lengths at st =
     (if code \<le> 15 then Inr (of_nat code, 1, st)
      else if code = 16 \<and> at \<noteq> 0 then
        bnd (bits_read input 2 st) (\<lambda>(v, st). Inr (lengths ! (at - 1), v + 3, st))
      else if code = 17 then bnd (bits_read input 3 st) (\<lambda>(v, st). Inr (0, v + 3, st))
      else if code = 18 then bnd (bits_read input 7 st) (\<lambda>(v, st). Inr (0, v + 11, st))
      else Inl Malformed)"

lemma repeat_code_pos: "repeat_code input code lengths at st = Inr (v, r, st') \<Longrightarrow> 0 < r"
  by (auto simp: repeat_code_def bnd_eq_Inr split: if_splits)

function lengths_loop ::
  "bytes \<Rightarrow> huffman \<Rightarrow> nat \<Rightarrow> nat \<Rightarrow> u8 list \<Rightarrow> bit_pos \<Rightarrow> (capture_error, u8 list \<times> bit_pos) res" where
  "lengths_loop input codes goal at lengths st =
     (if goal \<le> at then Inr (lengths, st)
      else
        bnd (huffman_decode input codes st) (\<lambda>(code, st).
        bnd (repeat_code input code lengths at st) (\<lambda>(v, r, st).
        if goal - at < r then Inl Malformed
        else lengths_loop input codes goal (at + r) (write_at at (replicate r v) lengths) st)))"
  by pat_completeness auto
termination
  by (relation "measure (\<lambda>(input, codes, goal, at, lengths, st). goal - at)")
    (auto dest: repeat_code_pos)

declare lengths_loop.simps [simp del]

definition dynamic_trees :: "bytes \<Rightarrow> bit_pos \<Rightarrow> (capture_error, (huffman \<times> huffman) \<times> bit_pos) res" where
  "dynamic_trees input st =
     bnd (bits_read input 5 st) (\<lambda>(v, st). let literals = v + 257 in
     bnd (bits_read input 5 st) (\<lambda>(v, st). let distances = v + 1 in
     bnd (bits_read input 4 st) (\<lambda>(v, st). let code_count = v + 4 in
     if 286 < literals then Inl Malformed
     else
       bnd (fold_res (read_code_length input) (take code_count ORDER) (replicate 19 0, st)) (\<lambda>(lens, st).
       bnd (huffman_new lens Lengths) (\<lambda>codes.
       bnd (lengths_loop input codes (literals + distances) 0 (replicate 318 0) st) (\<lambda>(lengths, st).
       if lengths ! 256 = 0 then Inl Malformed
       else
         bnd (huffman_new (take literals lengths) Literals) (\<lambda>l.
         bnd (huffman_new (take distances (drop literals lengths)) Distances) (\<lambda>d.
           Inr ((l, d), st)))))))))"

definition fixed_lengths :: "u8 list" where
  "fixed_lengths = write_at 256 (replicate 24 7) (write_at 144 (replicate 112 9) (replicate 288 8))"

definition fixed_trees :: "(capture_error, huffman \<times> huffman) res" where
  "fixed_trees =
     bnd (huffman_new fixed_lengths Literals) (\<lambda>l.
     bnd (huffman_new (replicate 32 5) Distances) (\<lambda>d. Inr (l, d)))"

subsection \<open>Blocks\<close>

definition LENGTH_BASE :: "nat list" where
  "LENGTH_BASE = [3, 4, 5, 6, 7, 8, 9, 10, 11, 13, 15, 17, 19, 23, 27, 31, 35, 43, 51, 59, 67, 83, 99,
     115, 131, 163, 195, 227, 258]"

definition LENGTH_EXTRA :: "nat list" where
  "LENGTH_EXTRA = [0, 0, 0, 0, 0, 0, 0, 0, 1, 1, 1, 1, 2, 2, 2, 2, 3, 3, 3, 3, 4, 4, 4, 4, 5, 5, 5, 5, 0]"

definition DISTANCE_BASE :: "nat list" where
  "DISTANCE_BASE = [1, 2, 3, 4, 5, 7, 9, 13, 17, 25, 33, 49, 65, 97, 129, 193, 257, 385, 513, 769, 1025,
     1537, 2049, 3073, 4097, 6145, 8193, 12289, 16385, 24577]"

definition DISTANCE_EXTRA :: "nat list" where
  "DISTANCE_EXTRA = [0, 0, 0, 0, 1, 1, 2, 2, 3, 3, 4, 4, 5, 5, 6, 6, 7, 7, 8, 8, 9, 9, 10, 10, 11, 11,
     12, 12, 13, 13]"

definition stored_block ::
  "'s sink \<Rightarrow> bytes \<Rightarrow> bit_pos \<Rightarrow> 's gz_output \<Rightarrow> (capture_error, bit_pos \<times> 's gz_output) res" where
  "stored_block put input st out =
     bnd (bits_read input 16 (bits_align st)) (\<lambda>(len, st).
     bnd (bits_read input 16 st) (\<lambda>(nlen, st).
     if nlen \<noteq> 65535 - len then Inl Malformed
     else if o_maximum out - o_total out < len then Inl Limit
     else
       bnd (bits_take input len st) (\<lambda>(bs, st).
       bnd (fold_res (out_emit put) bs out) (\<lambda>out. Inr (st, out)))))"

text \<open>
  One turn of the symbol loop: \<open>None\<close> ends the block. The result carries the reader and the
  output.
\<close>

definition symbol_step ::
  "'s sink \<Rightarrow> bytes \<Rightarrow> huffman \<Rightarrow> huffman \<Rightarrow> bit_pos \<Rightarrow> 's gz_output
   \<Rightarrow> (capture_error, bool \<times> bit_pos \<times> 's gz_output) res" where
  "symbol_step put input literals distances st out =
     bnd (huffman_decode input literals st) (\<lambda>(code, st).
     if code \<le> 255 then bnd (out_emit put (of_nat code) out) (\<lambda>out. Inr (False, st, out))
     else if code = 256 then Inr (True, st, out)
     else if code \<le> 285 then
       let index = code - 257
       in bnd (bits_read input (LENGTH_EXTRA ! index) st) (\<lambda>(extra, st).
          let len = LENGTH_BASE ! index + extra
          in bnd (huffman_decode input distances st) (\<lambda>(distance_code, st).
             if 30 \<le> distance_code then Inl Malformed
             else
               bnd (bits_read input (DISTANCE_EXTRA ! distance_code) st) (\<lambda>(extra, st).
               bnd (out_copy put (DISTANCE_BASE ! distance_code + extra) len out) (\<lambda>out.
                 Inr (False, st, out)))))
     else Inl Malformed)"

subsection \<open>The reader always moves forward\<close>

definition bits_left :: "bytes \<Rightarrow> bit_pos \<Rightarrow> nat" where
  "bits_left input st = 8 * length input - (8 * bp_byte st + min 8 (bp_bit st))"

lemma bits_next_left: "bits_next input st = Inr (b, st') \<Longrightarrow> bits_left input st' < bits_left input st"
  by (auto simp: bits_next_def bits_left_def split: if_splits)

lemma bits_loop_left: "bits_loop input shifts acc st = Inr (v, st') \<Longrightarrow>
    bits_left input st' \<le> bits_left input st \<and> (shifts \<noteq> [] \<longrightarrow> bits_left input st' < bits_left input st)"
proof (induction shifts arbitrary: acc st)
  case (Cons shift shifts)
  then obtain b st1 where "bits_next input st = Inr (b, st1)"
    "bits_loop input shifts (acc OR push_bit shift (if b then 1 else 0)) st1 = Inr (v, st')"
    by (auto simp: bnd_eq_Inr)
  with Cons.IH bits_next_left show ?case by fastforce
qed simp

lemma bits_read_left: "bits_read input n st = Inr (v, st') \<Longrightarrow>
    bits_left input st' \<le> bits_left input st \<and> (n \<noteq> 0 \<longrightarrow> bits_left input st' < bits_left input st)"
  unfolding bits_read_def by (auto simp: bnd_eq_Inr dest!: bits_loop_left)

lemma huffman_loop_left: "huffman_loop input tree lens code st = Inr (v, st') \<Longrightarrow> bits_left input st' < bits_left input st"
proof (induction lens arbitrary: code st)
  case (Cons len lens)
  then obtain b st1 where st1: "bits_read input 1 st = Inr (b, st1)"
    and "st' = st1 \<or> (\<exists>code. huffman_loop input tree lens code st1 = Inr (v, st'))"
    by (auto simp: bnd_eq_Inr Let_def split: if_splits)
  moreover have "bits_left input st1 < bits_left input st" using bits_read_left [OF st1] by simp
  ultimately show ?case using Cons.IH by fastforce
qed simp

lemma huffman_decode_left: "huffman_decode input tree st = Inr (v, st') \<Longrightarrow> bits_left input st' < bits_left input st"
  unfolding huffman_decode_def by (rule huffman_loop_left)

lemma bits_take_left: "bits_take input n st = Inr (bs, st') \<Longrightarrow> bits_left input st' \<le> bits_left input st"
  by (auto simp: bits_take_def bnd_eq_Inr checked_add_def bits_left_def split: if_splits)

lemma bits_align_left: "bits_left input (bits_align st) \<le> bits_left input st"
  by (auto simp: bits_align_def bits_left_def)

lemma symbol_step_left:
  "symbol_step put input l d st out = Inr (stop, st', out') \<Longrightarrow> bits_left input st' < bits_left input st"
  by (auto simp: symbol_step_def Let_def bnd_eq_Inr split: if_splits dest!: huffman_decode_left bits_read_left)

function symbols_loop ::
  "'s sink \<Rightarrow> bytes \<Rightarrow> huffman \<Rightarrow> huffman \<Rightarrow> bit_pos \<Rightarrow> 's gz_output
   \<Rightarrow> (capture_error, bit_pos \<times> 's gz_output) res" where
  "symbols_loop put input l d st out =
     bnd (symbol_step put input l d st out) (\<lambda>(stop, st, out).
       if stop then Inr (st, out) else symbols_loop put input l d st out)"
  by pat_completeness auto
termination
  by (relation "measure (\<lambda>(put, input, l, d, st, out). bits_left input st)")
    (auto dest: symbol_step_left)

declare symbols_loop.simps [simp del]

lemma symbols_loop_left:
  "symbols_loop put input l d st out = Inr (st', out') \<Longrightarrow> bits_left input st' < bits_left input st"
proof (induction put input l d st out rule: symbols_loop.induct)
  case (1 put input l d st out)
  from "1.prems" obtain stop st1 out1 where s: "symbol_step put input l d st out = Inr (stop, st1, out1)"
    "stop \<and> st' = st1 \<or> \<not> stop \<and> symbols_loop put input l d st1 out1 = Inr (st', out')"
    by (subst (asm) symbols_loop.simps) (auto simp: bnd_eq_Inr split: if_splits)
  then show ?case using "1.IH" [OF s(1) refl refl] symbol_step_left [OF s(1)] by auto
qed

definition inflate_block ::
  "'s sink \<Rightarrow> bytes \<Rightarrow> bit_pos \<Rightarrow> 's gz_output \<Rightarrow> (capture_error, bool \<times> bit_pos \<times> 's gz_output) res" where
  "inflate_block put input st out =
     bnd (bits_read input 1 st) (\<lambda>(last_bit, st).
     bnd (bits_read input 2 st) (\<lambda>(kind, st).
     bnd (if kind = 0 then stored_block put input st out
          else if kind = 1 then
            bnd fixed_trees (\<lambda>(l, d). symbols_loop put input l d st out)
          else if kind = 2 then
            bnd (dynamic_trees input st) (\<lambda>((l, d), st). symbols_loop put input l d st out)
          else Inl Malformed) (\<lambda>(st, out). Inr (last_bit \<noteq> 0, st, out))))"

lemma stored_block_left:
  "stored_block put input st out = Inr (st', out') \<Longrightarrow> bits_left input st' \<le> bits_left input st"
  by (auto simp: stored_block_def bnd_eq_Inr split: if_splits
      dest!: bits_read_left bits_take_left intro: order_trans [OF _ bits_align_left])

lemma repeat_code_left:
  "repeat_code input code lengths at st = Inr (v, r, st') \<Longrightarrow> bits_left input st' \<le> bits_left input st"
  by (auto simp: repeat_code_def bnd_eq_Inr split: if_splits dest!: bits_read_left)

lemma lengths_loop_left:
  "lengths_loop input codes goal at lengths st = Inr (r, st') \<Longrightarrow> bits_left input st' \<le> bits_left input st"
proof (induction input codes goal at lengths st rule: lengths_loop.induct)
  case (1 input codes goal at lengths st)
  show ?case
  proof (cases "goal \<le> at")
    case False
    with "1.prems" obtain c st1 v n st2 where s: "huffman_decode input codes st = Inr (c, st1)"
      "repeat_code input c lengths at st1 = Inr (v, n, st2)" "\<not> goal - at < n"
      "lengths_loop input codes goal (at + n) (write_at at (replicate n v) lengths) st2 = Inr (r, st')"
      by (subst (asm) lengths_loop.simps) (auto simp: bnd_eq_Inr split: if_splits)
    show ?thesis
      using "1.IH" [OF False s(1) refl s(2) refl refl s(3,4)] huffman_decode_left [OF s(1)]
        repeat_code_left [OF s(2)] by simp
  next
    case True
    then show ?thesis using "1.prems" by (simp add: lengths_loop.simps)
  qed
qed

lemma read_code_lengths_left:
  "fold_res (read_code_length input) is (lens, st) = Inr (lens', st') \<Longrightarrow> bits_left input st' \<le> bits_left input st"
proof (induction "is" arbitrary: lens st)
  case (Cons i "is")
  then obtain v st1 where s: "bits_read input 3 st = Inr (v, st1)"
    "fold_res (read_code_length input) is (lens[i := of_nat v], st1) = Inr (lens', st')"
    by (auto simp: read_code_length_def [of _ i] bnd_eq_Inr)
  show ?case using Cons.IH [OF s(2)] bits_read_left [OF s(1)] by simp
qed simp

lemma dynamic_trees_left:
  "dynamic_trees input st = Inr (t, st') \<Longrightarrow> bits_left input st' \<le> bits_left input st"
  by (auto simp: dynamic_trees_def Let_def bnd_eq_Inr split: if_splits
      dest!: bits_read_left lengths_loop_left read_code_lengths_left)

lemma inflate_block_left:
  "inflate_block put input st out = Inr (stop, st', out') \<Longrightarrow> bits_left input st' < bits_left input st"
proof -
  assume "inflate_block put input st out = Inr (stop, st', out')"
  then obtain v st1 k st2 where s: "bits_read input 1 st = Inr (v, st1)" "bits_read input 2 st1 = Inr (k, st2)"
    "stored_block put input st2 out = Inr (st', out')
     \<or> (\<exists>l d. symbols_loop put input l d st2 out = Inr (st', out'))
     \<or> (\<exists>t st3 l d. dynamic_trees input st2 = Inr (t, st3) \<and> symbols_loop put input l d st3 out = Inr (st', out'))"
    by (auto simp: inflate_block_def bnd_eq_Inr split: if_splits) blast+
  have "bits_left input st2 < bits_left input st"
    using bits_read_left [OF s(1)] bits_read_left [OF s(2)] by auto
  with s(3) show ?thesis
    by (elim disjE exE conjE) (fastforce dest: stored_block_left symbols_loop_left dynamic_trees_left)+
qed

function inflate_loop ::
  "'s sink \<Rightarrow> bytes \<Rightarrow> bit_pos \<Rightarrow> 's gz_output \<Rightarrow> (capture_error, bit_pos \<times> 's gz_output) res" where
  "inflate_loop put input st out =
     bnd (inflate_block put input st out) (\<lambda>(last_block, st, out).
       if last_block then Inr (bits_align st, out) else inflate_loop put input st out)"
  by pat_completeness auto
termination
  by (relation "measure (\<lambda>(put, input, st, out). bits_left input st)")
    (auto dest: inflate_block_left)

declare inflate_loop.simps [simp del]

lemma inflate_loop_left:
  "inflate_loop put input st out = Inr (st', out') \<Longrightarrow> bits_left input st' < bits_left input st"
proof (induction put input st out rule: inflate_loop.induct)
  case (1 put input st out)
  from "1.prems" obtain stop st1 out1 where s: "inflate_block put input st out = Inr (stop, st1, out1)"
    "stop \<and> st' = bits_align st1 \<or> \<not> stop \<and> inflate_loop put input st1 out1 = Inr (st', out')"
    by (subst (asm) inflate_loop.simps) (auto simp: bnd_eq_Inr split: if_splits)
  show ?case
    using s(2) "1.IH" [OF s(1) refl refl] inflate_block_left [OF s(1)] bits_align_left [of input st1] by auto
qed

subsection \<open>Members\<close>

definition le16 :: "bytes \<Rightarrow> nat" where
  "le16 bs = unat (bs ! 0) + 256 * unat (bs ! 1)"

definition le32 :: "bytes \<Rightarrow> u32" where
  "le32 bs = of_nat (le16 bs + 65536 * le16 (drop 2 bs))"

definition gz_extra :: "bytes \<Rightarrow> u8 \<Rightarrow> bit_pos \<Rightarrow> (capture_error, bit_pos) res" where
  "gz_extra input flags st =
     (if flags AND 4 \<noteq> 0 then
        bnd (bits_take input 2 st) (\<lambda>(len, st). bnd (bits_take input (le16 len) st) (\<lambda>(_, st). Inr st))
      else Inr st)"

definition gz_text :: "bytes \<Rightarrow> u8 \<Rightarrow> u8 \<Rightarrow> bit_pos \<Rightarrow> (capture_error, bit_pos) res" where
  "gz_text input flag flags st = (if flags AND flag \<noteq> 0 then bits_text input st else Inr st)"

definition gz_header_crc :: "bytes \<Rightarrow> u8 \<Rightarrow> nat \<Rightarrow> bit_pos \<Rightarrow> (capture_error, bit_pos) res" where
  "gz_header_crc input flags start st =
     (if flags AND 2 \<noteq> 0 then
        let checksum = unat (crc32 (take (bp_byte st - start) (drop start input))) mod 65536
        in bnd (bits_take input 2 st) (\<lambda>(expected, st).
           if checksum \<noteq> le16 expected then Inl Integrity else Inr st)
      else Inr st)"

definition gz_header :: "bytes \<Rightarrow> bit_pos \<Rightarrow> (capture_error, bit_pos) res" where
  "gz_header input start =
     bnd (bits_take input 10 start) (\<lambda>(header, st).
     if take 3 header \<noteq> [0x1f, 0x8b, 8] \<or> (header ! 3) AND 0xe0 \<noteq> 0 then Inl Malformed
     else
       bnd (gz_extra input (header ! 3) st) (\<lambda>st.
       bnd (gz_text input 8 (header ! 3) st) (\<lambda>st.
       bnd (gz_text input 16 (header ! 3) st) (\<lambda>st.
       bnd (gz_header_crc input (header ! 3) (bp_byte start) st) (\<lambda>st.
         if MAX_HEADER < bp_byte st - bp_byte start then Inl Limit else Inr st)))))"

definition gz_member ::
  "'s sink \<Rightarrow> bytes \<Rightarrow> bit_pos \<Rightarrow> 's gz_output \<Rightarrow> (capture_error, bit_pos \<times> 's gz_output) res" where
  "gz_member put input st out =
     bnd (gz_header input st) (\<lambda>st.
     bnd (inflate_loop put input st (out\<lparr>o_member_bytes := 0, o_crc := - 1\<rparr>)) (\<lambda>(st, out).
     bnd (bits_take input 8 st) (\<lambda>(trailer, st).
     if le32 (take 4 trailer) \<noteq> NOT (o_crc out) \<or> le32 (drop 4 trailer) \<noteq> of_nat (o_member_bytes out)
     then Inl Integrity
     else bnd (out_flush put out) (\<lambda>out. Inr (st, out)))))"

lemma text_loop_left: "text_loop input n st = Inr st' \<Longrightarrow> bits_left input st' \<le> bits_left input st"
proof (induction n arbitrary: st)
  case (Suc n)
  then obtain bs st1 where s: "bits_take input 1 st = Inr (bs, st1)"
    "st' = st1 \<or> text_loop input n st1 = Inr st'"
    by (auto simp: bnd_eq_Inr split: if_splits)
  then show ?case using Suc.IH bits_take_left [OF s(1)] by fastforce
qed simp

lemma bits_text_left: "bits_text input st = Inr st' \<Longrightarrow> bits_left input st' \<le> bits_left input st"
  unfolding bits_text_def by (rule text_loop_left)

lemma gz_extra_left: "gz_extra input flags st = Inr st' \<Longrightarrow> bits_left input st' \<le> bits_left input st"
  by (auto simp: gz_extra_def bnd_eq_Inr split: if_splits dest!: bits_take_left)

lemma gz_text_left: "gz_text input flag flags st = Inr st' \<Longrightarrow> bits_left input st' \<le> bits_left input st"
  by (auto simp: gz_text_def split: if_splits dest!: bits_text_left)

lemma gz_header_crc_left: "gz_header_crc input flags start st = Inr st' \<Longrightarrow> bits_left input st' \<le> bits_left input st"
  by (auto simp: gz_header_crc_def Let_def bnd_eq_Inr split: if_splits dest!: bits_take_left)

lemma gz_header_left:
  assumes "gz_header input st = Inr st'"
  shows "bits_left input st' \<le> bits_left input st"
proof -
  from assms obtain header st1 st2 st3 st4 where
    "bits_take input 10 st = Inr (header, st1)" "gz_extra input (header ! 3) st1 = Inr st2"
    "gz_text input 8 (header ! 3) st2 = Inr st3" "gz_text input 16 (header ! 3) st3 = Inr st4"
    "gz_header_crc input (header ! 3) (bp_byte st) st4 = Inr st'"
    by (auto simp: gz_header_def bnd_eq_Inr split: if_splits)
  from bits_take_left [OF this(1)] gz_extra_left [OF this(2)] gz_text_left [OF this(3)]
    gz_text_left [OF this(4)] gz_header_crc_left [OF this(5)]
  show ?thesis by linarith
qed

lemma gz_member_left:
  "gz_member put input st out = Inr (st', out') \<Longrightarrow> bits_left input st' < bits_left input st"
  by (auto simp: gz_member_def bnd_eq_Inr split: if_splits
      dest!: gz_header_left inflate_loop_left bits_take_left)

function gz_members ::
  "'s sink \<Rightarrow> bytes \<Rightarrow> nat \<Rightarrow> bit_pos \<Rightarrow> 's gz_output \<Rightarrow> (capture_error, 's gz_output) res" where
  "gz_members put input members st out =
     (if \<not> bp_byte st < length input then Inr out
      else if members = MAX_MEMBERS then Inl Limit
      else bnd (gz_member put input st out) (\<lambda>(st, out). gz_members put input (members + 1) st out))"
  by pat_completeness auto
termination
  by (relation "measure (\<lambda>(put, input, members, st, out). bits_left input st)")
    (auto dest: gz_member_left)

declare gz_members.simps [simp del]

definition gz_start :: "nat \<Rightarrow> 's \<Rightarrow> 's gz_output" where
  "gz_start maximum s = \<lparr>o_sink = s, o_history = replicate HISTORY 0, o_pending = [], o_total = 0,
     o_member_bytes = 0, o_maximum = maximum, o_crc = - 1\<rparr>"

definition gz_decode :: "bytes \<Rightarrow> nat \<Rightarrow> 's sink \<Rightarrow> 's \<Rightarrow> (capture_error, nat \<times> 's) res" where
  "gz_decode input maximum put s =
     (if input = [] then Inl Malformed
      else bnd (gz_members put input 0 \<lparr>bp_byte = 0, bp_bit = 0\<rparr> (gz_start maximum s)) (\<lambda>out.
        Inr (o_total out, o_sink out)))"

end
