(* ===== verification/Gzip_Props.thy ===== *)
theory Gzip_Props
  imports Gzip
begin

section \<open>What the gzip decoder accepts\<close>

text \<open>
  The format, stated without the decoder's machinery: a block is a sequence of tokens, a token
  extends the plain list of the bytes of its member, the checksum is the bitwise CRC. The decoder
  (ring buffer, table, chunked output, checks against the maximum) is then shown to accept exactly
  the streams of that format, over any consumer that satisfies \<open>chunk_sink\<close>.
\<close>

subsection \<open>The table-driven checksum\<close>

definition crc_bits :: "u32 \<Rightarrow> u8 \<Rightarrow> u32" where
  "crc_bits crc b = (crc_step ^^ 8) (crc XOR ucast b)"

definition crc_spec :: "bytes \<Rightarrow> u32" where
  "crc_spec bs = NOT (fold (\<lambda>b crc. crc_bits crc b) bs (- 1))"

lemma crc_step_if: "crc_step v = drop_bit 1 v XOR (if bit v 0 then 0xedb88320 else 0)"
proof -
  have "v AND 1 = (if bit v 0 then 1 else 0)"
    by (rule bit_word_eqI) (auto simp: bit_and_iff bit_1_iff intro!: Nat.gr0I)
  then show ?thesis by (simp add: crc_step_def)
qed

lemma crc_step_xor: "crc_step (x XOR y) = crc_step x XOR crc_step y"
  by (rule bit_word_eqI) (auto simp: crc_step_if bit_xor_iff bit_drop_bit_eq)

lemma crc_steps_xor: "(crc_step ^^ n) (x XOR y) = (crc_step ^^ n) x XOR (crc_step ^^ n) y"
  by (induction n) (simp_all add: crc_step_xor)

lemma crc_steps_high: "(\<And>i. i < n \<Longrightarrow> \<not> bit y i) \<Longrightarrow> (crc_step ^^ n) y = drop_bit n y"
proof (induction n)
  case (Suc n)
  then have "(crc_step ^^ n) y = drop_bit n y" by simp
  moreover have "\<not> bit (drop_bit n y) 0" using Suc.prems [of n] by (simp add: bit_drop_bit_eq)
  ultimately have "(crc_step ^^ Suc n) y = drop_bit 1 (drop_bit n y)"
    by (simp add: crc_step_if)
  then show ?case by (simp add: drop_bit_drop_bit)
qed simp

lemma crc_byte_bits: "crc_byte crc b = crc_bits crc b"
proof -
  define v where "v = crc XOR ucast b"
  define high where "high = v AND NOT (mask 8)"
  have split: "v = take_bit 8 v XOR high"
    unfolding high_def by (rule bit_word_eqI) (auto simp: bit_simps)
  have "(crc_step ^^ 8) high = drop_bit 8 high"
    by (rule crc_steps_high) (simp add: high_def bit_simps)
  also have "drop_bit 8 high = drop_bit 8 crc"
    by (rule bit_word_eqI) (auto simp: high_def v_def bit_simps dest: bit_imp_le_length)
  finally have high8: "(crc_step ^^ 8) high = drop_bit 8 crc" .
  have low: "v AND 255 = take_bit 8 v"
    by (simp add: take_bit_eq_mask mask_eq_exp_minus_1)
  have "unat (take_bit 8 v) < 256"
    using unsigned_take_bit_eq [of 8 v, where 'a = nat] take_bit_nat_less_exp [of 8 "unat v"] by simp
  then have "CRC ! unat (take_bit 8 v) = (crc_step ^^ 8) (take_bit 8 v)"
    by (simp add: CRC_def crc_entry_def)
  moreover have "(crc_step ^^ 8) v = (crc_step ^^ 8) (take_bit 8 v) XOR drop_bit 8 crc"
    using crc_steps_xor [of 8 "take_bit 8 v" high] high8 split by simp
  ultimately show ?thesis
    by (simp add: crc_byte_def crc_bits_def v_def [symmetric] low xor.commute)
qed

text \<open>The checksum computed with the 256-entry table is the bitwise CRC-32 (reflected polynomial
  0xedb88320, initial and final complement), for every input.\<close>

theorem crc32_table: "crc32 bs = crc_spec bs"
  by (simp add: crc32_def crc_spec_def crc_byte_bits)

subsection \<open>Tokens and their expansion\<close>

datatype token = Literal u8 | Copy nat nat

definition read_token ::
  "bytes \<Rightarrow> huffman \<Rightarrow> huffman \<Rightarrow> bit_pos \<Rightarrow> (capture_error, token option \<times> bit_pos) res" where
  "read_token input literals distances st =
     bnd (huffman_decode input literals st) (\<lambda>(code, st).
     if code \<le> 255 then Inr (Some (Literal (of_nat code)), st)
     else if code = 256 then Inr (None, st)
     else if code \<le> 285 then
       bnd (bits_read input (LENGTH_EXTRA ! (code - 257)) st) (\<lambda>(extra, st).
       bnd (huffman_decode input distances st) (\<lambda>(distance_code, st).
       if 30 \<le> distance_code then Inl Malformed
       else
         bnd (bits_read input (DISTANCE_EXTRA ! distance_code) st) (\<lambda>(extra', st).
           Inr (Some (Copy (DISTANCE_BASE ! distance_code + extra') (LENGTH_BASE ! (code - 257) + extra)), st))))
     else Inl Malformed)"

text \<open>An overlapping copy reads the bytes it has just written.\<close>

fun copy_bytes :: "nat \<Rightarrow> nat \<Rightarrow> bytes \<Rightarrow> bytes" where
  "copy_bytes distance 0 m = m"
| "copy_bytes distance (Suc n) m = copy_bytes distance n (m @ [m ! (length m - distance)])"

fun expand :: "token \<Rightarrow> bytes \<Rightarrow> bytes option" where
  "expand (Literal b) m = Some (m @ [b])"
| "expand (Copy distance n) m =
     (if 0 < distance \<and> distance \<le> HISTORY \<and> distance \<le> length m
      then Some (copy_bytes distance n m) else None)"

lemma copy_bytes_extends: "\<exists>e. copy_bytes distance n m = m @ e \<and> length e = n"
proof (induction n arbitrary: m)
  case (Suc n)
  from this [of "m @ [m ! (length m - distance)]"] obtain e where
    "copy_bytes distance (Suc n) m = m @ [m ! (length m - distance)] @ e" "length e = n" by auto
  then show ?case by (intro exI [of _ "[m ! (length m - distance)] @ e"]) simp
qed simp

lemma expand_extends: "expand t m = Some m' \<Longrightarrow> \<exists>e. m' = m @ e"
  using copy_bytes_extends by (cases t) (auto split: if_splits, blast)

fun put_token :: "'s sink \<Rightarrow> token \<Rightarrow> 's gz_output \<Rightarrow> (capture_error, 's gz_output) res" where
  "put_token put (Literal b) out = out_emit put b out"
| "put_token put (Copy distance n) out = out_copy put distance n out"

lemma symbol_step_token:
  "symbol_step put input l d st out =
     bnd (read_token input l d st) (\<lambda>(t, st). case t of
         None \<Rightarrow> Inr (True, st, out)
       | Some t \<Rightarrow> bnd (put_token put t out) (\<lambda>out. Inr (False, st, out)))"
  unfolding symbol_step_def read_token_def Let_def
  by (cases "huffman_decode input l st")
    (auto simp: bnd_assoc split_beta intro!: bnd_cong split: if_splits)

subsection \<open>The format\<close>

inductive token_stream :: "bytes \<Rightarrow> huffman \<Rightarrow> huffman \<Rightarrow> bit_pos \<Rightarrow> bytes \<Rightarrow> bit_pos \<Rightarrow> bytes \<Rightarrow> bool"
  for input l d where
  stop: "read_token input l d st = Inr (None, st') \<Longrightarrow> token_stream input l d st m st' m"
| token: "read_token input l d st = Inr (Some t, st1) \<Longrightarrow> expand t m = Some m1 \<Longrightarrow>
    token_stream input l d st1 m1 st' m' \<Longrightarrow> token_stream input l d st m st' m'"

definition block_trees :: "bytes \<Rightarrow> nat \<Rightarrow> bit_pos \<Rightarrow> (capture_error, (huffman \<times> huffman) \<times> bit_pos) res" where
  "block_trees input kind st =
     (if kind = 1 then bnd fixed_trees (\<lambda>t. Inr (t, st))
      else if kind = 2 then dynamic_trees input st
      else Inl Malformed)"

inductive deflate_block :: "bytes \<Rightarrow> nat \<Rightarrow> bit_pos \<Rightarrow> bytes \<Rightarrow> bit_pos \<Rightarrow> bytes \<Rightarrow> bool" for input where
  stored: "bits_read input 16 (bits_align st) = Inr (len, st1) \<Longrightarrow>
    bits_read input 16 st1 = Inr (65535 - len, st2) \<Longrightarrow> bits_take input len st2 = Inr (bs, st') \<Longrightarrow>
    deflate_block input 0 st m st' (m @ bs)"
| coded: "block_trees input kind st = Inr ((l, d), st1) \<Longrightarrow> token_stream input l d st1 m st' m' \<Longrightarrow>
    deflate_block input kind st m st' m'"

inductive deflate :: "bytes \<Rightarrow> bit_pos \<Rightarrow> bytes \<Rightarrow> bit_pos \<Rightarrow> bytes \<Rightarrow> bool" for input where
  last: "bits_read input 1 st = Inr (v, st1) \<Longrightarrow> v \<noteq> 0 \<Longrightarrow> bits_read input 2 st1 = Inr (kind, st2) \<Longrightarrow>
    deflate_block input kind st2 m st' m' \<Longrightarrow> deflate input st m (bits_align st') m'"
| more: "bits_read input 1 st = Inr (0, st1) \<Longrightarrow> bits_read input 2 st1 = Inr (kind, st2) \<Longrightarrow>
    deflate_block input kind st2 m st3 m1 \<Longrightarrow> deflate input st3 m1 st' m' \<Longrightarrow> deflate input st m st' m'"

definition gzip_member :: "bytes \<Rightarrow> bit_pos \<Rightarrow> bit_pos \<Rightarrow> bytes \<Rightarrow> bool" where
  "gzip_member input st st' m \<longleftrightarrow>
     (\<exists>st1 st2 trailer. gz_header input st = Inr st1 \<and> deflate input st1 [] st2 m
        \<and> bits_take input 8 st2 = Inr (trailer, st') \<and> le32 (take 4 trailer) = crc_spec m
        \<and> le32 (drop 4 trailer) = of_nat (length m))"

inductive gzip_stream :: "bytes \<Rightarrow> nat \<Rightarrow> bit_pos \<Rightarrow> bytes \<Rightarrow> bool" for input where
  finished: "length input \<le> bp_byte st \<Longrightarrow> gzip_stream input n st []"
| member: "bp_byte st < length input \<Longrightarrow> n \<noteq> MAX_MEMBERS \<Longrightarrow> gzip_member input st st' m \<Longrightarrow>
    gzip_stream input (n + 1) st' w \<Longrightarrow> gzip_stream input n st (m @ w)"

definition gunzip :: "bytes \<Rightarrow> bytes \<Rightarrow> bool" where
  "gunzip input w \<longleftrightarrow> input \<noteq> [] \<and> gzip_stream input 0 \<lparr>bp_byte = 0, bp_bit = 0\<rparr> w"

subsection \<open>The output state\<close>

text \<open>
  \<open>ring h m\<close>: the ring buffer holds the last bytes of the member. \<open>out_rel put s0 w m out\<close>: the
  decoder has emitted \<open>w\<close> since the consumer was in state \<open>s0\<close>, and \<open>m\<close> of it in this member.
\<close>

definition ring :: "bytes \<Rightarrow> bytes \<Rightarrow> bool" where
  "ring h m \<longleftrightarrow> length h = HISTORY
     \<and> (\<forall>i<length m. length m \<le> i + HISTORY \<longrightarrow> h ! (i mod HISTORY) = m ! i)"

lemma HISTORY_pos: "0 < HISTORY"
  by (simp add: HISTORY_def)

lemma mod_ring_neq: "i < n \<Longrightarrow> n < i + k \<Longrightarrow> (n :: nat) mod k \<noteq> i mod k"
proof
  assume "i < n" "n < i + k" "n mod k = i mod k"
  then have "k dvd n - i" using mod_eq_dvd_iff_nat [of i n k] by simp
  then show False using \<open>i < n\<close> \<open>n < i + k\<close> by (auto dest: dvd_imp_le)
qed

lemma ring_snoc: "ring h m \<Longrightarrow> ring (h[length m mod HISTORY := b]) (m @ [b])"
proof -
  assume r: "ring h m"
  have "(h[length m mod HISTORY := b]) ! (i mod HISTORY) = (m @ [b]) ! i"
    if "i < length m + 1" "length m + 1 \<le> i + HISTORY" for i
  proof (cases "i = length m")
    case True
    then show ?thesis using r HISTORY_pos by (simp add: ring_def)
  next
    case False
    then have "i < length m" using that by simp
    then have "length m mod HISTORY \<noteq> i mod HISTORY"
      using mod_ring_neq [of i "length m" HISTORY] that by simp
    then show ?thesis using r that \<open>i < length m\<close> by (simp add: ring_def nth_append)
  qed
  then show ?thesis using r by (simp add: ring_def)
qed

lemma ring_read: "ring h m \<Longrightarrow> 0 < d \<Longrightarrow> d \<le> HISTORY \<Longrightarrow> d \<le> length m \<Longrightarrow>
    h ! ((length m - d) mod HISTORY) = m ! (length m - d)"
  by (simp add: ring_def)

lemma ring_start: "length h = HISTORY \<Longrightarrow> ring h []"
  by (simp add: ring_def)

definition out_rel :: "'s sink \<Rightarrow> 's \<Rightarrow> bytes \<Rightarrow> bytes \<Rightarrow> 's gz_output \<Rightarrow> bool" where
  "out_rel put s0 w m out \<longleftrightarrow>
     (\<exists>f. w @ m = f @ o_pending out \<and> put s0 f = Inr (o_sink out))
     \<and> length (o_pending out) < CHUNK \<and> o_total out = length (w @ m) \<and> o_total out \<le> o_maximum out
     \<and> o_member_bytes out = length m \<and> ring (o_history out) m
     \<and> o_crc out = fold (\<lambda>b crc. crc_byte crc b) m (- 1)"

definition writable :: "'s sink \<Rightarrow> 's \<Rightarrow> nat \<Rightarrow> bytes \<Rightarrow> bool" where
  "writable put s0 maximum w \<longleftrightarrow> is_ok (put s0 w) \<and> length w \<le> maximum"

text \<open>
  \<open>emits put s0 w m out r\<close>: from \<open>out\<close>, the run \<open>r\<close> ends with the member's bytes equal to \<open>m\<close>
  when it succeeds, and it succeeds when they can be written.
\<close>

definition emits ::
  "'s sink \<Rightarrow> 's \<Rightarrow> bytes \<Rightarrow> bytes \<Rightarrow> 's gz_output \<Rightarrow> (capture_error, 's gz_output) res \<Rightarrow> bool" where
  "emits put s0 w m out r \<longleftrightarrow>
     (\<forall>out'. r = Inr out' \<longrightarrow> out_rel put s0 w m out' \<and> o_maximum out' = o_maximum out)
     \<and> (writable put s0 (o_maximum out) (w @ m) \<longrightarrow> is_ok r)"

lemma emits_sound: "emits put s0 w m out r \<Longrightarrow> r = Inr out' \<Longrightarrow>
    out_rel put s0 w m out' \<and> o_maximum out' = o_maximum out"
  by (simp add: emits_def)

lemma emits_complete: "emits put s0 w m out r \<Longrightarrow> writable put s0 (o_maximum out) (w @ m) \<Longrightarrow>
    \<exists>out'. r = Inr out' \<and> out_rel put s0 w m out' \<and> o_maximum out' = o_maximum out"
  by (auto simp: emits_def is_ok_iff)

text \<open>A consumer of the decoder: a chunk consumer whose errors are the capture's.\<close>

locale gz_sink = chunk_sink put inv for put :: "'s \<Rightarrow> bytes \<Rightarrow> (capture_error, 's) res" and inv
begin

lemma put_then:
  assumes "inv s" and "put s xs = Inr s'"
  shows "put s' ys = Inr t \<longleftrightarrow> put s (xs @ ys) = Inr t"
  using put_append [OF assms(1), of xs ys] assms(2) by (simp flip: ok_eq_Some)

lemma writable_prefix: "inv s0 \<Longrightarrow> writable put s0 maximum (w @ v) \<Longrightarrow> writable put s0 maximum w"
  using put_fails by (auto simp: writable_def)

lemma flush_emits:
  assumes "inv s0" and "out_rel put s0 w m out"
  shows "emits put s0 w m out (out_flush put out)"
    and "out_flush put out = Inr out' \<Longrightarrow> o_pending out' = []"
proof -
  from assms(2) obtain f where f: "w @ m = f @ o_pending out" "put s0 f = Inr (o_sink out)"
    by (auto simp: out_rel_def)
  show "emits put s0 w m out (out_flush put out)"
  proof (cases "o_pending out = []")
    case True
    then show ?thesis using assms(2) by (simp add: emits_def out_flush_def)
  next
    case False
    show ?thesis
    proof (cases "put (o_sink out) (o_pending out)")
      case (Inl e)
      then have "\<not> is_ok (put s0 (w @ m))"
        using put_then [OF assms(1) f(2), of "o_pending out"] f(1) Inl by (auto simp: is_ok_iff)
      then show ?thesis using False Inl by (simp add: emits_def out_flush_def writable_def)
    next
      case (Inr s)
      then have "put s0 (w @ m) = Inr s" using put_then [OF assms(1) f(2)] f(1) by simp
      then show ?thesis using False Inr assms(2) by (simp add: emits_def out_flush_def out_rel_def CHUNK_def)
    qed
  qed
  show "o_pending out' = []" if "out_flush put out = Inr out'"
    using that by (auto simp: out_flush_def bnd_eq_Inr split: if_splits)
qed

lemma emits_bnd:
  assumes "inv s0" and "emits put s0 w m out r"
    and "\<And>out1. out_rel put s0 w m out1 \<Longrightarrow> o_maximum out1 = o_maximum out \<Longrightarrow>
      emits put s0 w (m @ e) out1 (f out1)"
  shows "emits put s0 w (m @ e) out (bnd r f)"
proof -
  have "writable put s0 (o_maximum out) (w @ m)" if "writable put s0 (o_maximum out) (w @ m @ e)"
    using that writable_prefix [OF assms(1), of _ "w @ m" e] by simp
  then show ?thesis
    using assms(2,3) by (cases r) (auto simp: emits_def)
qed

lemma emit_emits:
  assumes "inv s0" and rel: "out_rel put s0 w m out"
  shows "emits put s0 w (m @ [b]) out (out_emit put b out)"
proof (cases "o_maximum out \<le> o_total out")
  case True
  then show ?thesis using rel by (simp add: emits_def writable_def out_emit_def out_rel_def)
next
  case False
  define out1 where "out1 = out\<lparr>o_history := (o_history out)[o_member_bytes out mod HISTORY := b],
    o_member_bytes := o_member_bytes out + 1, o_total := o_total out + 1,
    o_crc := crc_byte (o_crc out) b, o_pending := o_pending out @ [b]\<rparr>"
  have step: "out_emit put b out = (if length (o_pending out1) = CHUNK then out_flush put out1 else Inr out1)"
    using False by (simp add: out_emit_def out1_def Let_def)
  from rel obtain f where f: "w @ m = f @ o_pending out" "put s0 f = Inr (o_sink out)"
    by (auto simp: out_rel_def)
  have len: "length f + length (o_pending out) = length w + length m"
    using arg_cong [OF f(1), of length] by simp
  have parts: "o_total out1 = length (w @ m @ [b])" "o_total out1 \<le> o_maximum out1"
    "o_member_bytes out1 = length (m @ [b])" "ring (o_history out1) (m @ [b])"
    "o_crc out1 = fold (\<lambda>b crc. crc_byte crc b) (m @ [b]) (- 1)" "o_maximum out1 = o_maximum out"
    "w @ m @ [b] = f @ o_pending out1" "put s0 f = Inr (o_sink out1)" "length (o_pending out1) \<le> CHUNK"
    "o_pending out1 \<noteq> []"
    using rel f False len ring_snoc [of "o_history out" m b] by (simp_all add: out_rel_def out1_def)
  show ?thesis
  proof (cases "length (o_pending out1) = CHUNK")
    case False
    then have "out_rel put s0 w (m @ [b]) out1" using parts by (auto simp: out_rel_def)
    then show ?thesis using False parts(6) by (simp add: step emits_def)
  next
    case True
    then have ne: "o_pending out1 \<noteq> []" by (auto simp: CHUNK_def)
    show ?thesis
    proof (cases "put (o_sink out1) (o_pending out1)")
      case (Inl e)
      then have "\<not> is_ok (put s0 (w @ m @ [b]))"
        using put_then [OF assms(1) parts(8), of "o_pending out1"] parts(7) Inl by (auto simp: is_ok_iff)
      then show ?thesis using True Inl ne by (simp add: step emits_def out_flush_def writable_def)
    next
      case (Inr s)
      then have "put s0 (w @ m @ [b]) = Inr s" using put_then [OF assms(1) parts(8)] parts(7) by simp
      then have "out_rel put s0 w (m @ [b]) (out1\<lparr>o_sink := s, o_pending := []\<rparr>)"
        using parts by (simp add: out_rel_def CHUNK_def)
      then show ?thesis using True Inr ne parts(6) by (simp add: step emits_def out_flush_def)
    qed
  qed
qed

lemma emit_list:
  assumes "inv s0" and "out_rel put s0 w m out"
  shows "emits put s0 w (m @ bs) out (fold_res (out_emit put) bs out)"
  using assms(2)
proof (induction bs arbitrary: m out)
  case Nil
  then show ?case by (simp add: emits_def)
next
  case (Cons b bs)
  have "emits put s0 w ((m @ [b]) @ bs) out (bnd (out_emit put b out) (fold_res (out_emit put) bs))"
    using assms(1) emit_emits [OF assms(1) Cons.prems] Cons.IH by (rule emits_bnd)
  then show ?case by simp
qed

lemma copy_emits:
  assumes "inv s0" and "out_rel put s0 w m out" and "0 < d" "d \<le> HISTORY" "d \<le> length m"
  shows "emits put s0 w (copy_bytes d n m) out (copy_loop put d n out)"
  using assms(2,5)
proof (induction n arbitrary: m out)
  case 0
  then show ?case by (simp add: emits_def)
next
  case (Suc n)
  let ?b = "m ! (length m - d)"
  have "o_history out ! ((o_member_bytes out - d) mod HISTORY) = ?b"
    using Suc.prems assms(3,4) ring_read by (simp add: out_rel_def)
  moreover obtain e where e: "copy_bytes d n (m @ [?b]) = (m @ [?b]) @ e"
    using copy_bytes_extends by blast
  moreover have "emits put s0 w ((m @ [?b]) @ e) out (bnd (out_emit put ?b out) (copy_loop put d n))"
    using assms(1) emit_emits [OF assms(1) Suc.prems(1)]
  proof (rule emits_bnd)
    fix out1 assume "out_rel put s0 w (m @ [?b]) out1"
    then show "emits put s0 w ((m @ [?b]) @ e) out1 (copy_loop put d n out1)"
      using Suc.IH [of "m @ [?b]" out1] Suc.prems(2) e by simp
  qed
  ultimately show ?case by simp
qed

end

subsection \<open>The decoder accepts the format\<close>

lemma token_stream_extends: "token_stream input l d st m st' m' \<Longrightarrow> \<exists>e. m' = m @ e"
  by (induction rule: token_stream.induct) (auto dest: expand_extends)

lemma deflate_block_extends: "deflate_block input kind st m st' m' \<Longrightarrow> \<exists>e. m' = m @ e"
  by (induction rule: deflate_block.induct) (auto dest: token_stream_extends)

lemma deflate_extends: "deflate input st m st' m' \<Longrightarrow> \<exists>e. m' = m @ e"
  by (induction rule: deflate.induct) (auto dest!: deflate_block_extends)

text \<open>The format is unambiguous.\<close>

lemma token_stream_unique:
  "token_stream input l d st m st1 m1 \<Longrightarrow> token_stream input l d st m st2 m2 \<Longrightarrow> st2 = st1 \<and> m2 = m1"
  by (induction rule: token_stream.induct) (erule token_stream.cases; fastforce)+

lemma deflate_block_unique:
  "deflate_block input kind st m st1 m1 \<Longrightarrow> deflate_block input kind st m st2 m2 \<Longrightarrow> st2 = st1 \<and> m2 = m1"
proof (induction rule: deflate_block.induct)
  case (stored st len st1 st2 bs st' m)
  then show ?case by (auto elim!: deflate_block.cases simp: block_trees_def)
next
  case (coded kind st l d st1 m st' m')
  from coded(3,1,2) show ?case
    by cases (auto simp: block_trees_def dest: token_stream_unique)
qed

lemma deflate_unique: "deflate input st m st1 m1 \<Longrightarrow> deflate input st m st2 m2 \<Longrightarrow> st2 = st1 \<and> m2 = m1"
proof (induction arbitrary: st2 m2 rule: deflate.induct)
  case (last st v st1 kind st2 m st' m')
  from last(5,1-4) show ?case by cases (auto dest: deflate_block_unique)
next
  case (more st st1 kind stk m st3 m1 st' m')
  from more.prems more.hyps(1,2) obtain st4 m4 where
    m4: "deflate_block input kind stk m st4 m4" "deflate input st4 m4 st2 m2"
    by cases auto
  then have "st4 = st3" "m4 = m1" using deflate_block_unique [OF more.hyps(3) m4(1)] by simp_all
  then show ?case using more.IH m4(2) by simp
qed

lemma gzip_member_unique: "gzip_member input st st1 m1 \<Longrightarrow> gzip_member input st st2 m2 \<Longrightarrow> st2 = st1 \<and> m2 = m1"
  unfolding gzip_member_def using deflate_unique by fastforce

lemma gzip_stream_unique: "gzip_stream input n st w1 \<Longrightarrow> gzip_stream input n st w2 \<Longrightarrow> w2 = w1"
proof (induction arbitrary: w2 rule: gzip_stream.induct)
  case (finished st n)
  from finished(2,1) show ?case by cases auto
next
  case (member st n st' m w)
  from member.prems member.hyps(1) obtain st1 m1 v where
    v: "w2 = m1 @ v" "gzip_member input st st1 m1" "gzip_stream input (n + 1) st1 v"
    by cases auto
  then have "st1 = st'" "m1 = m" using gzip_member_unique [OF member.hyps(3) v(2)] by simp_all
  then show ?case using member.IH [of v] v by simp
qed

lemma gunzip_unique: "gunzip input w1 \<Longrightarrow> gunzip input w2 \<Longrightarrow> w1 = w2"
  using gzip_stream_unique by (auto simp: gunzip_def)

context gz_sink begin

lemma token_emits:
  assumes "inv s0" and "out_rel put s0 w m out"
  shows "expand t m = Some m' \<Longrightarrow> emits put s0 w m' out (put_token put t out)"
    and "expand t m = None \<Longrightarrow> \<not> is_ok (put_token put t out)"
proof -
  have len: "o_member_bytes out = length m" "o_total out = length (w @ m)"
    using assms(2) by (simp_all add: out_rel_def)
  show "emits put s0 w m' out (put_token put t out)" if "expand t m = Some m'"
  proof (cases t)
    case (Literal b)
    then show ?thesis using that emit_emits [OF assms] by auto
  next
    case (Copy d n)
    obtain e where e: "copy_bytes d n m = m @ e" "length e = n" using copy_bytes_extends by blast
    have d: "0 < d" "d \<le> HISTORY" "d \<le> length m" "m' = copy_bytes d n m"
      using that Copy by (auto split: if_splits)
    show ?thesis
    proof (cases "o_maximum out - o_total out < n")
      case True
      then have "put_token put t out = Inl Limit" using Copy d len by (simp add: out_copy_def)
      then show ?thesis using True len e d(4) by (auto simp: emits_def writable_def)
    next
      case False
      then have "put_token put t out = copy_loop put d n out" using Copy d len by (simp add: out_copy_def)
      then show ?thesis using copy_emits [OF assms d(1-3)] d(4) by simp
    qed
  qed
  show "\<not> is_ok (put_token put t out)" if "expand t m = None"
    using that len by (cases t) (auto simp: out_copy_def split: if_splits)
qed

lemma tokens_sound:
  assumes "inv s0"
  shows "symbols_loop put input l d st out = Inr (st', out') \<Longrightarrow> out_rel put s0 w m out \<Longrightarrow>
   \<exists>m'. token_stream input l d st m st' m' \<and> out_rel put s0 w m' out' \<and> o_maximum out' = o_maximum out"
proof (induction "bits_left input st" arbitrary: st m out rule: less_induct)
  case less
  from less.prems(1) obtain stop st1 out1 where step: "symbol_step put input l d st out = Inr (stop, st1, out1)"
    and rest: "if stop then Inr (st1, out1) = (Inr (st', out') :: (capture_error, _) res)
               else symbols_loop put input l d st1 out1 = Inr (st', out')"
    by (subst (asm) symbols_loop.simps) (auto simp: bnd_eq_Inr split: if_splits)
  from step obtain t where t: "read_token input l d st = Inr (t, st1)"
    and run: "case t of None \<Rightarrow> stop \<and> out1 = out | Some t \<Rightarrow> \<not> stop \<and> put_token put t out = Inr out1"
    by (auto simp: symbol_step_token bnd_eq_Inr split: option.splits)
  show ?case
  proof (cases t)
    case None
    then show ?thesis using t run rest less.prems(2) by (auto intro: token_stream.stop)
  next
    case (Some tok)
    then have put: "put_token put tok out = Inr out1" and more: "symbols_loop put input l d st1 out1 = Inr (st', out')"
      using run rest by auto
    then obtain m1 where m1: "expand tok m = Some m1"
      using token_emits(2) [OF assms less.prems(2), of tok] by (cases "expand tok m") auto
    have rel: "out_rel put s0 w m1 out1" "o_maximum out1 = o_maximum out"
      using emits_sound [OF token_emits(1) [OF assms less.prems(2) m1] put] by simp_all
    obtain m' where "token_stream input l d st1 m1 st' m'" "out_rel put s0 w m' out'" "o_maximum out' = o_maximum out1"
      using less.hyps [OF symbol_step_left [OF step] more rel(1)] by blast
    then show ?thesis using token_stream.token t Some m1 rel(2) by metis
  qed
qed

lemma tokens_complete:
  assumes "token_stream input l d st m st' m'" and "inv s0" and "out_rel put s0 w m out"
    and "writable put s0 (o_maximum out) (w @ m')"
  shows "\<exists>out'. symbols_loop put input l d st out = Inr (st', out') \<and> out_rel put s0 w m' out'
    \<and> o_maximum out' = o_maximum out"
  using assms(1,3,4)
proof (induction arbitrary: out)
  case (stop st st' m)
  then show ?case by (subst symbols_loop.simps) (simp add: symbol_step_token)
next
  case (token st t st1 m m1 st' m')
  obtain e where "m' = m1 @ e" using token_stream_extends [OF token.hyps(3)] by blast
  then have "writable put s0 (o_maximum out) (w @ m1)"
    using token.prems(2) writable_prefix [OF assms(2), of _ "w @ m1" e] by simp
  then obtain out1 where out1: "put_token put t out = Inr out1" "out_rel put s0 w m1 out1"
    "o_maximum out1 = o_maximum out"
    using emits_complete [OF token_emits(1) [OF assms(2) token.prems(1) token.hyps(2)]] by blast
  then obtain out' where "symbols_loop put input l d st1 out1 = Inr (st', out')" "out_rel put s0 w m' out'"
    "o_maximum out' = o_maximum out"
    using token.IH [of out1] token.prems(2) by auto
  then show ?case using token.hyps(1) out1(1) by (subst symbols_loop.simps) (simp add: symbol_step_token)
qed

lemma block_sound:
  assumes "inv s0" and "inflate_block put input st out = Inr (stop, st', out')" and "out_rel put s0 w m out"
  shows "\<exists>v st1 kind st2 m'. bits_read input 1 st = Inr (v, st1) \<and> stop = (v \<noteq> 0)
    \<and> bits_read input 2 st1 = Inr (kind, st2) \<and> deflate_block input kind st2 m st' m'
    \<and> out_rel put s0 w m' out' \<and> o_maximum out' = o_maximum out"
proof -
  from assms(2) obtain v st1 kind st2 where bits: "bits_read input 1 st = Inr (v, st1)" "stop = (v \<noteq> 0)"
    "bits_read input 2 st1 = Inr (kind, st2)"
    and body: "if kind = 0 then stored_block put input st2 out = Inr (st', out')
               else \<exists>l d st3. block_trees input kind st2 = Inr ((l, d), st3)
                 \<and> symbols_loop put input l d st3 out = Inr (st', out')"
    by (auto simp: inflate_block_def block_trees_def bnd_eq_Inr split: if_splits)
  have "\<exists>m'. deflate_block input kind st2 m st' m' \<and> out_rel put s0 w m' out' \<and> o_maximum out' = o_maximum out"
  proof (cases "kind = 0")
    case True
    with body obtain len st3 st4 bs where s: "bits_read input 16 (bits_align st2) = Inr (len, st3)"
      "bits_read input 16 st3 = Inr (65535 - len, st4)" "bits_take input len st4 = Inr (bs, st')"
      "fold_res (out_emit put) bs out = Inr out'"
      by (auto simp: stored_block_def bnd_eq_Inr split: if_splits)
    then show ?thesis
      using deflate_block.stored [OF s(1-3), of m] emits_sound [OF emit_list [OF assms(1,3)] s(4)] True by blast
  next
    case False
    with body show ?thesis using tokens_sound [OF assms(1) _ assms(3)] deflate_block.coded by metis
  qed
  then show ?thesis using bits by blast
qed

lemma block_complete:
  assumes "inv s0" and "out_rel put s0 w m out"
    and "bits_read input 1 st = Inr (v, st1)" "bits_read input 2 st1 = Inr (kind, st2)"
    and "deflate_block input kind st2 m st' m'" and "writable put s0 (o_maximum out) (w @ m')"
  shows "\<exists>out'. inflate_block put input st out = Inr (v \<noteq> 0, st', out') \<and> out_rel put s0 w m' out'
    \<and> o_maximum out' = o_maximum out"
  using assms(5)
proof cases
  case (stored len st3 st4 bs)
  have "out_rel put s0 w m out" by fact
  then have "\<not> o_maximum out - o_total out < len" if "length bs = len"
    using assms(6) stored(2) that by (auto simp: out_rel_def writable_def)
  moreover have "length bs = len" using stored(5) by (auto simp: bits_take_def bnd_eq_Inr checked_add_eq_Some split: if_splits)
  moreover obtain out' where "fold_res (out_emit put) bs out = Inr out'" "out_rel put s0 w m' out'"
    "o_maximum out' = o_maximum out"
    using emits_complete [OF emit_list [OF assms(1,2)], of bs] assms(6) stored(2) by auto
  ultimately show ?thesis using assms(3,4) stored by (simp add: inflate_block_def stored_block_def)
next
  case (coded l d st3)
  obtain out' where "symbols_loop put input l d st3 out = Inr (st', out')" "out_rel put s0 w m' out'"
    "o_maximum out' = o_maximum out"
    using tokens_complete [OF coded(2) assms(1,2,6)] by blast
  then show ?thesis using assms(3,4) coded(1)
    by (auto simp: inflate_block_def block_trees_def bnd_eq_Inr split: if_splits)
qed

lemma inflate_sound:
  assumes "inv s0"
  shows "inflate_loop put input st out = Inr (st', out') \<Longrightarrow> out_rel put s0 w m out \<Longrightarrow>
   \<exists>m'. deflate input st m st' m' \<and> out_rel put s0 w m' out' \<and> o_maximum out' = o_maximum out"
proof (induction "bits_left input st" arbitrary: st m out rule: less_induct)
  case less
  from less.prems(1) obtain stop st1 out1 where block: "inflate_block put input st out = Inr (stop, st1, out1)"
    and rest: "if stop then st' = bits_align st1 \<and> out' = out1 else inflate_loop put input st1 out1 = Inr (st', out')"
    by (subst (asm) inflate_loop.simps) (auto simp: bnd_eq_Inr split: if_splits)
  from block_sound [OF assms block less.prems(2)] obtain v st2 kind st3 m1 where
    b: "bits_read input 1 st = Inr (v, st2)" "stop = (v \<noteq> 0)" "bits_read input 2 st2 = Inr (kind, st3)"
      "deflate_block input kind st3 m st1 m1" "out_rel put s0 w m1 out1" "o_maximum out1 = o_maximum out"
    by blast
  show ?case
  proof (cases stop)
    case True
    then show ?thesis using rest b deflate.last [OF b(1) _ b(3,4)] by auto
  next
    case False
    then obtain m' where "deflate input st1 m1 st' m'" "out_rel put s0 w m' out'" "o_maximum out' = o_maximum out1"
      using less.hyps [OF inflate_block_left [OF block] _ b(5)] rest by auto
    then show ?thesis using deflate.more [OF _ b(3,4)] b(1,2,6) False by auto
  qed
qed

lemma inflate_complete:
  assumes "deflate input st m st' m'" and "inv s0" and "out_rel put s0 w m out"
    and "writable put s0 (o_maximum out) (w @ m')"
  shows "\<exists>out'. inflate_loop put input st out = Inr (st', out') \<and> out_rel put s0 w m' out'
    \<and> o_maximum out' = o_maximum out"
  using assms(1,3,4)
proof (induction arbitrary: out)
  case (last st v st1 kind st2 m st' m')
  then show ?case using block_complete [OF assms(2) last.prems(1) last.hyps(1,3,4) last.prems(2)]
    by (subst inflate_loop.simps) auto
next
  case (more st st1 kind st2 m st3 m1 st' m')
  obtain e where "m' = m1 @ e" using deflate_extends [OF more.hyps(4)] by blast
  then have "writable put s0 (o_maximum out) (w @ m1)"
    using more.prems(2) writable_prefix [OF assms(2), of _ "w @ m1" e] by simp
  then obtain out1 where out1: "inflate_block put input st out = Inr (False, st3, out1)" "out_rel put s0 w m1 out1"
    "o_maximum out1 = o_maximum out"
    using block_complete [OF assms(2) more.prems(1) more.hyps(1-3)] by auto
  then show ?case using more.IH [of out1] more.prems(2) by (subst inflate_loop.simps) simp
qed

lemma new_member_rel: "out_rel put s0 w m out \<Longrightarrow>
    out_rel put s0 (w @ m) [] (out\<lparr>o_member_bytes := 0, o_crc := - 1\<rparr>)"
  by (simp add: out_rel_def ring_def)

lemma member_sound:
  assumes "inv s0" and "gz_member put input st out = Inr (st', out')" and "out_rel put s0 w m out"
  shows "\<exists>m'. gzip_member input st st' m' \<and> out_rel put s0 (w @ m) m' out' \<and> o_pending out' = []
    \<and> o_maximum out' = o_maximum out"
proof -
  let ?out = "out\<lparr>o_member_bytes := 0, o_crc := - 1\<rparr>"
  from assms(2) obtain st1 st2 out1 trailer where s: "gz_header input st = Inr st1"
    "inflate_loop put input st1 ?out = Inr (st2, out1)" "bits_take input 8 st2 = Inr (trailer, st')"
    "le32 (take 4 trailer) = NOT (o_crc out1)" "le32 (drop 4 trailer) = of_nat (o_member_bytes out1)"
    "out_flush put out1 = Inr out'"
    by (auto simp: gz_member_def bnd_eq_Inr split: if_splits)
  obtain m' where m': "deflate input st1 [] st2 m'" "out_rel put s0 (w @ m) m' out1" "o_maximum out1 = o_maximum out"
    using inflate_sound [OF assms(1) s(2) new_member_rel [OF assms(3)]] by auto
  then have "gzip_member input st st' m'"
    using s(1,3-5) by (auto simp: gzip_member_def crc_spec_def crc_byte_bits out_rel_def)
  then show ?thesis
    using emits_sound [OF flush_emits(1) [OF assms(1) m'(2)] s(6)] flush_emits(2) [OF assms(1) m'(2) s(6)] m'(3)
    by auto
qed

lemma member_complete:
  assumes "inv s0" and "gzip_member input st st' m'" and "out_rel put s0 w m out"
    and "writable put s0 (o_maximum out) (w @ m @ m')"
  shows "\<exists>out'. gz_member put input st out = Inr (st', out') \<and> out_rel put s0 (w @ m) m' out'
    \<and> o_maximum out' = o_maximum out"
proof -
  let ?out = "out\<lparr>o_member_bytes := 0, o_crc := - 1\<rparr>"
  from assms(2) obtain st1 st2 trailer where s: "gz_header input st = Inr st1" "deflate input st1 [] st2 m'"
    "bits_take input 8 st2 = Inr (trailer, st')" "le32 (take 4 trailer) = crc_spec m'"
    "le32 (drop 4 trailer) = of_nat (length m')"
    by (auto simp: gzip_member_def)
  obtain out1 where out1: "inflate_loop put input st1 ?out = Inr (st2, out1)" "out_rel put s0 (w @ m) m' out1"
    "o_maximum out1 = o_maximum out"
    using inflate_complete [OF s(2) assms(1) new_member_rel [OF assms(3)]] assms(4) by auto
  moreover obtain out' where "out_flush put out1 = Inr out'" "out_rel put s0 (w @ m) m' out'"
    "o_maximum out' = o_maximum out1"
    using emits_complete [OF flush_emits(1) [OF assms(1) out1(2)]] assms(4) out1(3) by auto
  moreover have "le32 (take 4 trailer) = NOT (o_crc out1)" "le32 (drop 4 trailer) = of_nat (o_member_bytes out1)"
    using s(4,5) out1(2) by (simp_all add: out_rel_def crc_spec_def crc_byte_bits)
  ultimately show ?thesis using s(1,3) by (simp add: gz_member_def)
qed

lemma members_sound:
  assumes "inv s0"
  shows "gz_members put input n st out = Inr out' \<Longrightarrow> out_rel put s0 w m out \<Longrightarrow> o_pending out = [] \<Longrightarrow>
   \<exists>v. gzip_stream input n st v \<and> put s0 (w @ m @ v) = Inr (o_sink out')
     \<and> o_total out' = length (w @ m @ v) \<and> o_total out' \<le> o_maximum out"
proof (induction "bits_left input st" arbitrary: st n w m out rule: less_induct)
  case less
  show ?case
  proof (cases "bp_byte st < length input")
    case False
    then have "out' = out" using less.prems(1) by (subst (asm) gz_members.simps) simp
    then show ?thesis using gzip_stream.finished [of input st n] False less.prems(2,3)
      by (intro exI [of _ "[]"]) (auto simp: out_rel_def)
  next
    case True
    with less.prems(1) obtain st1 out1 where s: "n \<noteq> MAX_MEMBERS" "gz_member put input st out = Inr (st1, out1)"
      "gz_members put input (n + 1) st1 out1 = Inr out'"
      by (subst (asm) gz_members.simps) (auto simp: bnd_eq_Inr split: if_splits)
    from member_sound [OF assms s(2) less.prems(2)] obtain m1 where
      m1: "gzip_member input st st1 m1" "out_rel put s0 (w @ m) m1 out1" "o_pending out1 = []" "o_maximum out1 = o_maximum out"
      by blast
    obtain v where v: "gzip_stream input (n + 1) st1 v" "put s0 ((w @ m) @ m1 @ v) = Inr (o_sink out')"
      "o_total out' = length ((w @ m) @ m1 @ v)" "o_total out' \<le> o_maximum out1"
      using less.hyps [OF gz_member_left [OF s(2)] s(3) m1(2,3)] by blast
    then show ?thesis using gzip_stream.member [OF True s(1) m1(1) v(1)] m1(4)
      by (intro exI [of _ "m1 @ v"]) simp
  qed
qed

lemma members_complete:
  assumes "gzip_stream input n st v" and "inv s0" and "out_rel put s0 w m out"
    and "writable put s0 (o_maximum out) (w @ m @ v)"
  shows "is_ok (gz_members put input n st out)"
  using assms(1,3,4)
proof (induction arbitrary: w m out)
  case (finished st n)
  then show ?case by (subst gz_members.simps) simp
next
  case (member st n st' m1 v)
  have "writable put s0 (o_maximum out) (w @ m @ m1)"
    using member.prems(2) writable_prefix [OF assms(2), of _ "w @ m @ m1" v] by simp
  then obtain out1 where out1: "gz_member put input st out = Inr (st', out1)" "out_rel put s0 (w @ m) m1 out1"
    "o_maximum out1 = o_maximum out"
    using member_complete [OF assms(2) member.hyps(3) member.prems(1)] by blast
  then have "is_ok (gz_members put input (n + 1) st' out1)"
    using member.IH [of "w @ m" m1 out1] member.prems(2) by simp
  then show ?case using member.hyps(1,2) out1(1) by (subst gz_members.simps) simp
qed

lemma decode_iff:
  assumes "inv s0"
  shows "gz_decode input maximum put s0 = Inr (n, s) \<longleftrightarrow>
    (\<exists>w. gunzip input w \<and> length w \<le> maximum \<and> n = length w \<and> put s0 w = Inr s)"
proof -
  let ?out = "gz_start maximum s0" and ?st = "\<lparr>bp_byte = 0, bp_bit = 0\<rparr>"
  have rel: "out_rel put s0 [] [] ?out" "o_pending ?out = []" "o_maximum ?out = maximum"
    using put_nil [OF assms] by (simp_all add: out_rel_def gz_start_def CHUNK_def ring_def)
  have sound: "\<exists>w. gunzip input w \<and> length w \<le> maximum \<and> n = length w \<and> put s0 w = Inr s"
    if "gz_decode input maximum put s0 = Inr (n, s)" for n s
    using that members_sound [OF assms _ rel(1,2)] rel(3)
    by (fastforce simp: gz_decode_def gunzip_def bnd_eq_Inr split: if_splits)
  show ?thesis
  proof
    assume "\<exists>w. gunzip input w \<and> length w \<le> maximum \<and> n = length w \<and> put s0 w = Inr s"
    then obtain w where w: "gunzip input w" "length w \<le> maximum" "n = length w" "put s0 w = Inr s" by blast
    then have "is_ok (gz_members put input 0 ?st ?out)"
      using members_complete [OF _ assms rel(1), of input 0 ?st w] rel(3)
      by (simp add: gunzip_def writable_def)
    then obtain k t where kt: "gz_decode input maximum put s0 = Inr (k, t)"
      using w(1) by (auto simp: gz_decode_def gunzip_def is_ok_iff)
    from sound [OF this] obtain w' where w': "gunzip input w'" "k = length w'" "put s0 w' = Inr t" by blast
    have "w' = w" using gunzip_unique [OF w'(1) w(1)] .
    then show "gz_decode input maximum put s0 = Inr (n, s)" using w w' kt by simp
  qed (rule sound)
qed

end

subsection \<open>Collecting the output\<close>

definition collect :: "bytes \<Rightarrow> bytes \<Rightarrow> (capture_error, bytes) res" where
  "collect s bs = Inr (s @ bs)"

interpretation collected: gz_sink collect "\<lambda>_. True"
  by unfold_locales (simp_all add: collect_def)

text \<open>C11: The decoder accepts exactly the gzip streams: up to 64 members, each a header within its limits,
  a sequence of deflate blocks whose tokens expand over the plain bytes of the member, and a trailer
  with the bitwise CRC and the length of those bytes; and its output is that of the format, provided
  it fits the maximum. The 32 KiB ring, the 8 KiB output chunks, the checksum table and the checks
  made before each byte do not show.\<close>

theorem gzip_accepts_exactly:
  "gz_decode input maximum collect [] = Inr (n, w) \<longleftrightarrow>
     gunzip input w \<and> length w \<le> maximum \<and> n = length w"
proof -
  have c: "collect [] v = Inr w \<longleftrightarrow> v = w" for v
    by (simp add: collect_def)
  have d: "gz_decode input maximum collect [] = Inr (n, w) \<longleftrightarrow>
      (\<exists>v. gunzip input v \<and> length v \<le> maximum \<and> n = length v \<and> collect [] v = Inr w)"
    by (rule collected.decode_iff) (rule TrueI)
  show ?thesis unfolding d c by blast
qed

end
