(* ===== verification/Archive_Capture.thy ===== *)
theory Archive_Capture
  imports Tar_Props Gzip_Props
begin

section \<open>Capturing an archive\<close>

text \<open>
  \<open>capture_archive\<close> of \<open>native/crates/protocol/src/patch_capture.rs\<close>: the size and digest checks, then
  the parser fed directly or through the decoder, whose consumer is the parser's \<open>write\<close>. The
  contract between the two is \<open>gz_sink\<close>, interpreted here on the parser.
\<close>

definition MAX_INPUT_BYTES :: nat where [limit_defs]: "MAX_INPUT_BYTES = 144 * 1024 * 1024"

definition capture_archive ::
  "(nat \<Rightarrow> bool) \<Rightarrow> bytes \<Rightarrow> archive_format \<Rightarrow> string \<Rightarrow> (capture_error, source_rows) res" where
  "capture_archive alloc bs format expected =
     (if MAX_INPUT_BYTES < length bs then Inl Limit
      else if \<not> valid_digest expected then Inl Malformed
      else if byte_digest bs \<noteq> expected then Inl Integrity
      else
        bnd (case format of
            Tar \<Rightarrow> if take 2 bs = [0x1f, 0x8b] then Inl Malformed else tar_write alloc tar_new bs
          | TarGzip \<Rightarrow> bnd (gz_decode bs MAX_EXPANDED_BYTES (tar_write alloc) tar_new) (\<lambda>(_, p). Inr p))
          tar_finish)"

interpretation tar_gz: gz_sink "tar_write alloc" sink_inv for alloc
  by unfold_locales

lemma tar_new_sink: "sink_inv tar_new"
  by (simp add: sink_inv_def tar_new_inv) (simp add: tar_new_def)

lemma captured_gzip:
  "(\<exists>n p. gz_decode bs MAX_EXPANDED_BYTES (tar_write alloc) tar_new = Inr (n, p) \<and> tar_finish p = Inr r)
   \<longleftrightarrow> (\<exists>tar. gunzip bs tar \<and> tar_archive alloc tar r)"
proof -
  have "length tar \<le> MAX_EXPANDED_BYTES" if "tar_archive alloc tar r" for tar
    using that by (simp add: tar_archive_def)
  then show ?thesis
    unfolding tar_gz.decode_iff [OF tar_new_sink] tar_run_iff [symmetric] by blast
qed

text \<open>C12: An archive is captured exactly when it is within the input limit, its SHA-256 is the expected
  one, and the bytes (for a plain archive, which must not look like gzip) or the stream they
  decompress to form an archive of the grammar; the rows are those of the grammar. In particular
  the result does not depend on the chunks in which the decoder feeds the parser.\<close>

theorem capture_archive_exact:
  "capture_archive alloc bs format expected = Inr r \<longleftrightarrow>
     length bs \<le> MAX_INPUT_BYTES \<and> valid_digest expected \<and> sha256_hex bs = expected
     \<and> (case format of
          Tar \<Rightarrow> take 2 bs \<noteq> [0x1f, 0x8b] \<and> tar_archive alloc bs r
        | TarGzip \<Rightarrow> \<exists>tar. gunzip bs tar \<and> tar_archive alloc tar r)"
proof (cases format)
  case Tar
  then show ?thesis
    using tar_run_iff [of alloc bs r]
    by (auto simp: capture_archive_def byte_digest_eq bnd_eq_Inr)
next
  case TarGzip
  then show ?thesis
    using captured_gzip [of bs alloc r]
    by (auto simp: capture_archive_def byte_digest_eq bnd_eq_Inr)
qed

end
