(* ===== verification/P2_Spec.thy ===== *)
theory P2_Spec
  imports Cbor_Roundtrip Text_Forms
begin

section \<open>Recursive schemas\<close>

text \<open>
  \<open>RSpec\<close> and its interpreters in \<open>native/crates/protocol/src/p2_schema.rs\<close>: the description
  exported as metadata, the minimal value, and \<open>validate_recursive\<close>. A \<open>RFieldSpec\<close> and a
  \<open>VariantSpec\<close> are pairs of a name and a schema. A panic of \<open>minimal_recursive\<close> (no first
  variant) is its error value.
\<close>

named_theorems schema_defs \<open>the constant tables, as definitions to unfold\<close>

datatype rspec =
    RIdentifier "string list option"
  | RText "string list option" "string option"
  | RUint u64 u64
  | RBoolean
  | RDigest string
  | RBytes "nat option" "nat option"
  | RNullable rspec
  | ROneOf "rspec list"
  | RRecord "(string \<times> rspec) list"
  | RArray rspec nat nat bool "string list" "string list"
  | RTagged string "(string \<times> rspec) list"

definition u64_max :: u64 where "u64_max = 0xffffffffffffffff"

lemma rspec_size_OneOf [simp]: "s \<in> set ss \<Longrightarrow> size (s :: rspec) < Suc (size_list size ss)"
  by (induction ss) auto

lemma rspec_size_field [simp]:
  "f \<in> set fs \<Longrightarrow> size (snd f :: rspec) < Suc (size_list (size_prod (\<lambda>x. 0) size) fs)"
  by (induction fs) auto

subsection \<open>Accessors\<close>

definition p2_entries :: "val \<Rightarrow> (string \<times> val) list pres" where
  "p2_entries v = (case v of Map rows \<Rightarrow> Inr rows | _ \<Rightarrow> Inl ''P2 object is not a map'')"

definition p2_field :: "val \<Rightarrow> string \<Rightarrow> val pres" where
  "p2_field v name = ok_or ''P2 required field missing'' (val_field v name)"

definition p2_text :: "val \<Rightarrow> string pres" where
  "p2_text v = (case v of Text t \<Rightarrow> Inr t | _ \<Rightarrow> Inl ''P2 text malformed'')"

definition identifier_byte :: "nat \<Rightarrow> u8 \<Rightarrow> bool" where
  "identifier_byte i b \<longleftrightarrow> is_ascii_alphanumeric b \<or> (0 < i \<and> b \<in> set (str_bytes ''._:@/-''))"

definition p2_identifier :: "val \<Rightarrow> string pres" where
  "p2_identifier v =
     bnd (p2_text v) (\<lambda>t.
       if t = [] \<or> 128 < length t
          \<or> \<not> list_all (\<lambda>(i, b). identifier_byte i b) (zip [0..<length t] (str_bytes t))
       then Inl ''P2 identifier malformed'' else Inr t)"

text \<open>\<open>format!("{number:020}")\<close>: decimal, padded with zeros to twenty digits.\<close>

definition decimal20 :: "u64 \<Rightarrow> string" where
  "decimal20 n = (let d = dec_string (unat n) in replicate (20 - length d) CHR ''0'' @ d)"

definition key_part :: "val \<Rightarrow> string \<Rightarrow> string pres" where
  "key_part v key =
     bnd (p2_field v key) (\<lambda>f. case f of
         Text t \<Rightarrow> Inr t
       | Unsigned n \<Rightarrow> Inr (decimal20 n)
       | _ \<Rightarrow> Inl ''P2 array key is not scalar'')"

definition recursive_key :: "val \<Rightarrow> string list \<Rightarrow> string pres" where
  "recursive_key v keys = bnd (traverse (key_part v) keys) (\<lambda>parts. Inr (concat (map (\<lambda>p. p @ [CHR 0x00]) parts)))"

subsection \<open>Validation\<close>

text \<open>The loop over an array: the previous key, and the identities already seen.\<close>

definition array_step ::
  "(val \<Rightarrow> unit pres) \<Rightarrow> bool \<Rightarrow> string list \<Rightarrow> string list \<Rightarrow> val
   \<Rightarrow> string option \<times> string set \<Rightarrow> (string option \<times> string set) pres" where
  "array_step check sorted_scalar sort_by unique_by child = (\<lambda>(previous, seen).
     bnd (check child) (\<lambda>_.
     if sorted_scalar then
       bnd (p2_text child) (\<lambda>key.
         if (case previous of None \<Rightarrow> False | Some p \<Rightarrow> key \<le> p)
         then Inl ''P2 scalar array not sorted unique''
         else Inr (Some key, seen))
     else if sort_by \<noteq> [] \<or> unique_by \<noteq> [] then
       bnd (if sort_by = [] then Inr None
            else bnd (recursive_key child sort_by) (\<lambda>k. Inr (Some k))) (\<lambda>order.
       bnd (recursive_key child (if unique_by = [] then sort_by else unique_by)) (\<lambda>identity.
         if (case order of None \<Rightarrow> False
             | Some key \<Rightarrow> (case previous of None \<Rightarrow> False | Some p \<Rightarrow> key \<le> p))
            \<or> identity \<in> seen
         then Inl ''P2 record array order/uniqueness violated''
         else Inr (order, insert identity seen)))
     else Inr (previous, seen)))"

function validate_recursive :: "val \<Rightarrow> rspec \<Rightarrow> unit pres" where
  "validate_recursive v (RIdentifier vals) =
     bnd (p2_identifier v) (\<lambda>t.
       if (case vals of None \<Rightarrow> False | Some ts \<Rightarrow> t \<notin> set ts)
       then Inl ''P2 identifier outside enum'' else Inr ())"
| "validate_recursive v (RText vals pattern) =
     (case v of
        Text t \<Rightarrow>
          if 4096 < length t \<or> \<not> ascii_profile (str_bytes t)
             \<or> (case vals of None \<Rightarrow> False | Some ts \<Rightarrow> t \<notin> set ts)
             \<or> (case pattern of None \<Rightarrow> False | Some p \<Rightarrow> \<not> validate_text_pattern t p)
          then Inl ''P2 bounded text malformed'' else Inr ()
      | _ \<Rightarrow> Inl ''P2 text malformed'')"
| "validate_recursive v (RUint minimum maximum) =
     (case v of
        Unsigned n \<Rightarrow> if minimum \<le> n \<and> n \<le> maximum then Inr () else Inl ''P2 uint64 bound violated''
      | _ \<Rightarrow> Inl ''P2 uint64 bound violated'')"
| "validate_recursive v RBoolean =
     (case v of Bool _ \<Rightarrow> Inr () | _ \<Rightarrow> Inl ''P2 boolean malformed'')"
| "validate_recursive v (RDigest semantic) =
     bnd (p2_text v) (\<lambda>t. bnd (parse_digest t) (\<lambda>_. Inr ()))"
| "validate_recursive v (RBytes exact_len maximum) =
     (case v of
        Bytes bs \<Rightarrow>
          if (case exact_len of None \<Rightarrow> False | Some n \<Rightarrow> length bs \<noteq> n)
             \<or> (case maximum of None \<Rightarrow> 1024 * 1024 | Some n \<Rightarrow> n) < length bs
          then Inl ''P2 byte-string bound violated'' else Inr ()
      | _ \<Rightarrow> Inl ''P2 bytes malformed'')"
| "validate_recursive v (RNullable inner) =
     (if v = Null then Inr () else validate_recursive v inner)"
| "validate_recursive v (ROneOf variants) =
     (if list_ex (\<lambda>spec. is_ok (validate_recursive v spec)) variants then Inr ()
      else Inl ''P2 value matches no variant'')"
| "validate_recursive v (RRecord fs) =
     bnd (p2_entries v) (\<lambda>rows.
       if length rows \<noteq> length fs then Inl ''P2 record fields not exact''
       else for_all (\<lambda>f. bnd (p2_field v (fst f)) (\<lambda>child. validate_recursive child (snd f))) fs)"
| "validate_recursive v (RArray item minimum maximum sorted_scalar sort_by unique_by) =
     (case v of
        Array items \<Rightarrow>
          if length items < minimum \<or> maximum < length items then Inl ''P2 collection bound violated''
          else bnd (fold_res (array_step (\<lambda>child. validate_recursive child item) sorted_scalar sort_by unique_by)
                      items (None, {})) (\<lambda>_. Inr ())
      | _ \<Rightarrow> Inl ''P2 array malformed'')"
| "validate_recursive v (RTagged tag variants) =
     bnd (p2_field v tag) (\<lambda>f. bnd (p2_text f) (\<lambda>discriminator.
       case find (\<lambda>x. fst x = discriminator) variants of
         None \<Rightarrow> Inl ''P2 tagged variant unknown''
       | Some x \<Rightarrow> validate_recursive v (snd x)))"
  by pat_completeness auto
termination
  by (relation "measure (\<lambda>(v, spec). size spec)")
    (auto simp: find_Some_iff dest: nth_mem)

subsection \<open>Description and minimal value\<close>

definition optional_strings :: "string list option \<Rightarrow> val" where
  "optional_strings vals = (case vals of None \<Rightarrow> Null | Some ts \<Rightarrow> Array (map Text ts))"

definition optional_len :: "nat option \<Rightarrow> val" where
  "optional_len n = (case n of None \<Rightarrow> Null | Some n \<Rightarrow> Unsigned (of_nat n))"

function describe_recursive :: "rspec \<Rightarrow> val" where
  "describe_recursive (RIdentifier vals) =
     Map [(''kind'', Text ''identifier''), (''enum'', optional_strings vals)]"
| "describe_recursive (RText vals pattern) =
     Map [(''kind'', Text ''text''), (''enum'', optional_strings vals),
          (''pattern'', case pattern of None \<Rightarrow> Null | Some p \<Rightarrow> Text p)]"
| "describe_recursive (RUint minimum maximum) =
     Map [(''kind'', Text ''uint''), (''min'', Unsigned minimum), (''max'', Unsigned maximum)]"
| "describe_recursive RBoolean = Map [(''kind'', Text ''bool'')]"
| "describe_recursive (RDigest semantic) =
     Map [(''kind'', Text ''digest''), (''semantic'', Text semantic)]"
| "describe_recursive (RBytes exact_len maximum) =
     Map [(''kind'', Text ''bytes''), (''exact'', optional_len exact_len), (''max'', optional_len maximum)]"
| "describe_recursive (RNullable inner) =
     Map [(''kind'', Text ''nullable''), (''inner'', describe_recursive inner)]"
| "describe_recursive (ROneOf variants) =
     Map [(''kind'', Text ''one-of''), (''variants'', Array (map describe_recursive variants))]"
| "describe_recursive (RRecord fs) =
     Map [(''kind'', Text ''record''),
          (''fields'', Array (map (\<lambda>f. Map [(''name'', Text (fst f)), (''spec'', describe_recursive (snd f))]) fs))]"
| "describe_recursive (RArray item minimum maximum sorted_scalar sort_by unique_by) =
     Map [(''kind'', Text ''array''), (''item'', describe_recursive item),
          (''min'', Unsigned (of_nat minimum)), (''max'', Unsigned (of_nat maximum)),
          (''sortedScalar'', Bool sorted_scalar), (''sortBy'', optional_strings (Some sort_by)),
          (''uniqueBy'', optional_strings (Some unique_by))]"
| "describe_recursive (RTagged tag variants) =
     Map [(''kind'', Text ''tagged''), (''tag'', Text tag),
          (''variants'', Array (map (\<lambda>f. Map [(''name'', Text (fst f)), (''spec'', describe_recursive (snd f))]) variants))]"
  by pat_completeness auto
termination
  by (relation "measure size") auto

definition first_or_x :: "string list option \<Rightarrow> string" where
  "first_or_x vals = (case vals of Some (t # _) \<Rightarrow> t | _ \<Rightarrow> ''x'')"

function minimal_recursive :: "rspec \<Rightarrow> val pres" where
  "minimal_recursive (RIdentifier vals) = Inr (Text (first_or_x vals))"
| "minimal_recursive (RText vals pattern) = Inr (Text (first_or_x vals))"
| "minimal_recursive (RUint minimum maximum) = Inr (Unsigned minimum)"
| "minimal_recursive RBoolean = Inr (Bool False)"
| "minimal_recursive (RDigest semantic) = Inr (Text (replicate 64 CHR ''1''))"
| "minimal_recursive (RBytes exact_len maximum) =
     Inr (Bytes (replicate (case exact_len of None \<Rightarrow> 0 | Some n \<Rightarrow> n) 0))"
| "minimal_recursive (RNullable inner) = Inr Null"
| "minimal_recursive (ROneOf variants) =
     (case variants of [] \<Rightarrow> Inl ''index out of bounds'' | spec # _ \<Rightarrow> minimal_recursive spec)"
| "minimal_recursive (RRecord fs) =
     bnd (traverse (\<lambda>f. bnd (minimal_recursive (snd f)) (\<lambda>v. Inr (fst f, v))) fs) (\<lambda>rows. Inr (Map rows))"
| "minimal_recursive (RArray item minimum maximum sorted_scalar sort_by unique_by) =
     bnd (traverse (\<lambda>_. minimal_recursive item) [0..<minimum]) (\<lambda>vs. Inr (Array vs))"
| "minimal_recursive (RTagged tag variants) =
     (case variants of [] \<Rightarrow> Inl ''index out of bounds'' | f # _ \<Rightarrow> minimal_recursive (snd f))"
  by pat_completeness auto
termination
  by (relation "measure size") auto

end
