(* ===== verification/P2_Specs_A.thy ===== *)
theory P2_Specs_A
  imports P2_Spec
begin

section \<open>The schema tables, first part\<close>

text \<open>
  \<open>native/crates/protocol/src/p2_schema_specs.rs\<close>, from the compare-and-advance operation to the
  journal, one definition per constant; nested records of more than sixty lines have a definition
  of their own.
\<close>

definition B3_CAS_OPERATION_V1_SPEC_callerPurpose_root_update_authorization :: rspec where [schema_defs]:
  "B3_CAS_OPERATION_V1_SPEC_callerPurpose_root_update_authorization =
    RTagged ''kind''
    [(''root-update'', RRecord
       [(''kind'', RIdentifier (Some [''root-update''])),
        (''authorizationEnvelopeDigest'', RDigest ''RootEnvelopeDigest'')]),
     (''revocation'', RRecord
       [(''kind'', RIdentifier (Some [''revocation''])),
        (''authorizationEnvelopeDigest'', RDigest ''RevocationEnvelopeDigest'')]),
     (''rollback'', RRecord
       [(''kind'', RIdentifier (Some [''rollback''])),
        (''authorizationEnvelopeDigest'', RDigest ''RollbackAuthorizationEnvelopeDigest'')]),
     (''recovery'', RRecord
       [(''kind'', RIdentifier (Some [''recovery''])),
        (''authorizationEnvelopeDigest'', RDigest ''RevocationRecoveryEnvelopeDigest'')]),
     (''deployment'', RRecord
       [(''kind'', RIdentifier (Some [''deployment''])),
        (''authorizationEnvelopeDigest'', RDigest ''DeploymentEnvelopeDigest'')])]"

definition B3_CAS_OPERATION_V1_SPEC_callerPurpose_root_update :: rspec where [schema_defs]:
  "B3_CAS_OPERATION_V1_SPEC_callerPurpose_root_update =
    RRecord
    [(''purpose'', RIdentifier (Some [''root-update''])),
     (''authorization'', B3_CAS_OPERATION_V1_SPEC_callerPurpose_root_update_authorization)]"

definition B3_CAS_OPERATION_V1_SPEC_callerPurpose_revocation_advance_authorization :: rspec where [schema_defs]:
  "B3_CAS_OPERATION_V1_SPEC_callerPurpose_revocation_advance_authorization =
    RTagged ''kind''
    [(''root-update'', RRecord
       [(''kind'', RIdentifier (Some [''root-update''])),
        (''authorizationEnvelopeDigest'', RDigest ''RootEnvelopeDigest'')]),
     (''revocation'', RRecord
       [(''kind'', RIdentifier (Some [''revocation''])),
        (''authorizationEnvelopeDigest'', RDigest ''RevocationEnvelopeDigest'')]),
     (''rollback'', RRecord
       [(''kind'', RIdentifier (Some [''rollback''])),
        (''authorizationEnvelopeDigest'', RDigest ''RollbackAuthorizationEnvelopeDigest'')]),
     (''recovery'', RRecord
       [(''kind'', RIdentifier (Some [''recovery''])),
        (''authorizationEnvelopeDigest'', RDigest ''RevocationRecoveryEnvelopeDigest'')]),
     (''deployment'', RRecord
       [(''kind'', RIdentifier (Some [''deployment''])),
        (''authorizationEnvelopeDigest'', RDigest ''DeploymentEnvelopeDigest'')])]"

definition B3_CAS_OPERATION_V1_SPEC_callerPurpose_revocation_advance :: rspec where [schema_defs]:
  "B3_CAS_OPERATION_V1_SPEC_callerPurpose_revocation_advance =
    RRecord
    [(''purpose'', RIdentifier (Some [''revocation-advance''])),
     (''authorization'', B3_CAS_OPERATION_V1_SPEC_callerPurpose_revocation_advance_authorization)]"

definition B3_CAS_OPERATION_V1_SPEC_callerPurpose_rollback_authorization :: rspec where [schema_defs]:
  "B3_CAS_OPERATION_V1_SPEC_callerPurpose_rollback_authorization =
    RTagged ''kind''
    [(''root-update'', RRecord
       [(''kind'', RIdentifier (Some [''root-update''])),
        (''authorizationEnvelopeDigest'', RDigest ''RootEnvelopeDigest'')]),
     (''revocation'', RRecord
       [(''kind'', RIdentifier (Some [''revocation''])),
        (''authorizationEnvelopeDigest'', RDigest ''RevocationEnvelopeDigest'')]),
     (''rollback'', RRecord
       [(''kind'', RIdentifier (Some [''rollback''])),
        (''authorizationEnvelopeDigest'', RDigest ''RollbackAuthorizationEnvelopeDigest'')]),
     (''recovery'', RRecord
       [(''kind'', RIdentifier (Some [''recovery''])),
        (''authorizationEnvelopeDigest'', RDigest ''RevocationRecoveryEnvelopeDigest'')]),
     (''deployment'', RRecord
       [(''kind'', RIdentifier (Some [''deployment''])),
        (''authorizationEnvelopeDigest'', RDigest ''DeploymentEnvelopeDigest'')])]"

definition B3_CAS_OPERATION_V1_SPEC_callerPurpose_rollback :: rspec where [schema_defs]:
  "B3_CAS_OPERATION_V1_SPEC_callerPurpose_rollback =
    RRecord
    [(''purpose'', RIdentifier (Some [''rollback''])),
     (''authorization'', B3_CAS_OPERATION_V1_SPEC_callerPurpose_rollback_authorization)]"

definition B3_CAS_OPERATION_V1_SPEC_callerPurpose_recovery_authorization :: rspec where [schema_defs]:
  "B3_CAS_OPERATION_V1_SPEC_callerPurpose_recovery_authorization =
    RTagged ''kind''
    [(''root-update'', RRecord
       [(''kind'', RIdentifier (Some [''root-update''])),
        (''authorizationEnvelopeDigest'', RDigest ''RootEnvelopeDigest'')]),
     (''revocation'', RRecord
       [(''kind'', RIdentifier (Some [''revocation''])),
        (''authorizationEnvelopeDigest'', RDigest ''RevocationEnvelopeDigest'')]),
     (''rollback'', RRecord
       [(''kind'', RIdentifier (Some [''rollback''])),
        (''authorizationEnvelopeDigest'', RDigest ''RollbackAuthorizationEnvelopeDigest'')]),
     (''recovery'', RRecord
       [(''kind'', RIdentifier (Some [''recovery''])),
        (''authorizationEnvelopeDigest'', RDigest ''RevocationRecoveryEnvelopeDigest'')]),
     (''deployment'', RRecord
       [(''kind'', RIdentifier (Some [''deployment''])),
        (''authorizationEnvelopeDigest'', RDigest ''DeploymentEnvelopeDigest'')])]"

definition B3_CAS_OPERATION_V1_SPEC_callerPurpose_recovery :: rspec where [schema_defs]:
  "B3_CAS_OPERATION_V1_SPEC_callerPurpose_recovery =
    RRecord
    [(''purpose'', RIdentifier (Some [''recovery''])),
     (''authorization'', B3_CAS_OPERATION_V1_SPEC_callerPurpose_recovery_authorization)]"

definition B3_CAS_OPERATION_V1_SPEC_callerPurpose_deployment_advance_authorization :: rspec where [schema_defs]:
  "B3_CAS_OPERATION_V1_SPEC_callerPurpose_deployment_advance_authorization =
    RTagged ''kind''
    [(''root-update'', RRecord
       [(''kind'', RIdentifier (Some [''root-update''])),
        (''authorizationEnvelopeDigest'', RDigest ''RootEnvelopeDigest'')]),
     (''revocation'', RRecord
       [(''kind'', RIdentifier (Some [''revocation''])),
        (''authorizationEnvelopeDigest'', RDigest ''RevocationEnvelopeDigest'')]),
     (''rollback'', RRecord
       [(''kind'', RIdentifier (Some [''rollback''])),
        (''authorizationEnvelopeDigest'', RDigest ''RollbackAuthorizationEnvelopeDigest'')]),
     (''recovery'', RRecord
       [(''kind'', RIdentifier (Some [''recovery''])),
        (''authorizationEnvelopeDigest'', RDigest ''RevocationRecoveryEnvelopeDigest'')]),
     (''deployment'', RRecord
       [(''kind'', RIdentifier (Some [''deployment''])),
        (''authorizationEnvelopeDigest'', RDigest ''DeploymentEnvelopeDigest'')])]"

definition B3_CAS_OPERATION_V1_SPEC_callerPurpose_deployment_advance :: rspec where [schema_defs]:
  "B3_CAS_OPERATION_V1_SPEC_callerPurpose_deployment_advance =
    RRecord
    [(''purpose'', RIdentifier (Some [''deployment-advance''])),
     (''authorization'', B3_CAS_OPERATION_V1_SPEC_callerPurpose_deployment_advance_authorization)]"

definition B3_CAS_OPERATION_V1_SPEC_callerPurpose :: rspec where [schema_defs]:
  "B3_CAS_OPERATION_V1_SPEC_callerPurpose =
    RTagged ''purpose''
    [(''root-update'', B3_CAS_OPERATION_V1_SPEC_callerPurpose_root_update),
     (''revocation-advance'', B3_CAS_OPERATION_V1_SPEC_callerPurpose_revocation_advance),
     (''rollback'', B3_CAS_OPERATION_V1_SPEC_callerPurpose_rollback),
     (''recovery'', B3_CAS_OPERATION_V1_SPEC_callerPurpose_recovery),
     (''deployment-advance'', B3_CAS_OPERATION_V1_SPEC_callerPurpose_deployment_advance)]"

definition B3_CAS_OPERATION_V1_SPEC :: rspec where [schema_defs]:
  "B3_CAS_OPERATION_V1_SPEC =
    RRecord
    [(''schema'', RIdentifier (Some [''keep.native-b3-operation''])),
     (''version'', RUint 1 1),
     (''operationKind'', RIdentifier (Some [''compare-and-advance''])),
     (''scopeKey'', RRecord
       [(''authorityId'', RIdentifier None),
        (''namespace'', RIdentifier None),
        (''scope'', RIdentifier None),
        (''genesisRootDigest'', RDigest ''GenesisRootEnvelopeDigest'')]),
     (''expectedStateDigest'', RDigest ''B3StateDigest''),
     (''newStateDigest'', RDigest ''B3StateDigest''),
     (''callerPurpose'', B3_CAS_OPERATION_V1_SPEC_callerPurpose),
     (''requestNonce'', RBytes (Some 32) None)]"

definition B3_GENESIS_OPERATION_V1_SPEC :: rspec where [schema_defs]:
  "B3_GENESIS_OPERATION_V1_SPEC =
    RRecord
    [(''schema'', RIdentifier (Some [''keep.native-b3-operation''])),
     (''version'', RUint 1 1),
     (''operationKind'', RIdentifier (Some [''genesis''])),
     (''genesisBaseDigest'', RDigest ''GenesisBaseDigest''),
     (''b0RootEnvelopeDigest'', RDigest ''RootEnvelopeDigest''),
     (''b3ProfileEnvelopeDigest'', RDigest ''B3ProfileEnvelopeDigest''),
     (''derivedGenesisStateDigest'', RDigest ''B3StateDigest''),
     (''requestNonce'', RBytes (Some 32) None)]"

definition B3_INVALIDATION_ACK_V1_SPEC :: rspec where [schema_defs]:
  "B3_INVALIDATION_ACK_V1_SPEC =
    RRecord
    [(''schema'', RIdentifier (Some [''keep.native-b3-invalidation-ack''])),
     (''version'', RUint 1 1),
     (''sessionId'', RIdentifier None),
     (''sequence'', RUint 1 u64_max),
     (''frameEnvelopeDigest'', RDigest ''B3InvalidationFrameEnvelopeDigest''),
     (''requestNonce'', RBytes (Some 32) None)]"

definition B3_INVALIDATION_FRAME_V1_SPEC :: rspec where [schema_defs]:
  "B3_INVALIDATION_FRAME_V1_SPEC =
    RRecord
    [(''payload'', RRecord
       [(''schema'', RIdentifier (Some [''keep.native-b3-invalidation''])),
        (''version'', RUint 1 1),
        (''authorityId'', RIdentifier None),
        (''b3ProfileEnvelopeDigest'', RDigest ''B3ProfileEnvelopeDigest''),
        (''scopeKey'', RRecord
          [(''authorityId'', RIdentifier None),
           (''namespace'', RIdentifier None),
           (''scope'', RIdentifier None),
           (''genesisRootDigest'', RDigest ''GenesisRootEnvelopeDigest'')]),
        (''sessionId'', RIdentifier None),
        (''frameKind'', RIdentifier (Some [''heartbeat'', ''invalidated''])),
        (''sequence'', RUint 1 u64_max),
        (''priorGeneration'', RUint 0 u64_max),
        (''newGeneration'', RUint 0 u64_max),
        (''newStateDigest'', RDigest ''B3StateDigest''),
        (''counter'', RUint 0 u64_max),
        (''requestNonce'', RBytes (Some 32) None),
        (''priorAckDigest'', RNullable (RDigest ''B3InvalidationAckDigest''))]),
     (''payloadDigest'', RDigest ''PayloadDigest''),
     (''signatures'', RArray (RRecord
          [(''keyId'', RIdentifier None),
           (''algorithm'', RIdentifier (Some [''ed25519''])),
           (''keyEpoch'', RUint 0 u64_max),
           (''signature'', RBytes (Some 64) None)]) 1 64 False [''keyId''] [''keyId''])]"

definition B3_LEASE_OPERATION_V1_SPEC :: rspec where [schema_defs]:
  "B3_LEASE_OPERATION_V1_SPEC =
    RRecord
    [(''schema'', RIdentifier (Some [''keep.native-b3-operation''])),
     (''version'', RUint 1 1),
     (''operationKind'', RIdentifier (Some [''validate-lease''])),
     (''scopeKey'', RRecord
       [(''authorityId'', RIdentifier None),
        (''namespace'', RIdentifier None),
        (''scope'', RIdentifier None),
        (''genesisRootDigest'', RDigest ''GenesisRootEnvelopeDigest'')]),
     (''generation'', RUint 0 u64_max),
     (''headEnvelopeDigest'', RDigest ''RevocationEnvelopeDigest''),
     (''b3CounterCeiling'', RUint 0 u64_max),
     (''requestNonce'', RBytes (Some 32) None)]"

definition B3_READ_OPERATION_V1_SPEC :: rspec where [schema_defs]:
  "B3_READ_OPERATION_V1_SPEC =
    RRecord
    [(''schema'', RIdentifier (Some [''keep.native-b3-operation''])),
     (''version'', RUint 1 1),
     (''operationKind'', RIdentifier (Some [''read''])),
     (''scopeKey'', RRecord
       [(''authorityId'', RIdentifier None),
        (''namespace'', RIdentifier None),
        (''scope'', RIdentifier None),
        (''genesisRootDigest'', RDigest ''GenesisRootEnvelopeDigest'')]),
     (''requestNonce'', RBytes (Some 32) None)]"

definition B3_RECEIPT_V1_SPEC :: rspec where [schema_defs]:
  "B3_RECEIPT_V1_SPEC =
    RRecord
    [(''payload'', RRecord
       [(''schema'', RIdentifier (Some [''keep.native-b3-receipt''])),
        (''version'', RUint 1 1),
        (''operationKind'', RIdentifier (Some [''genesis'', ''read'', ''compare-and-advance'', ''validate-lease'', ''subscribe-invalidation''])),
        (''authorityId'', RIdentifier None),
        (''b3ProfileEnvelopeDigest'', RDigest ''B3ProfileEnvelopeDigest''),
        (''scopeKey'', RRecord
          [(''authorityId'', RIdentifier None),
           (''namespace'', RIdentifier None),
           (''scope'', RIdentifier None),
           (''genesisRootDigest'', RDigest ''GenesisRootEnvelopeDigest'')]),
        (''priorStateDigest'', RDigest ''B3StateDigest''),
        (''newStateDigest'', RDigest ''B3StateDigest''),
        (''operationDigest'', RDigest ''B3OperationDigest''),
        (''requestNonce'', RBytes (Some 32) None),
        (''generation'', RUint 0 u64_max),
        (''counter'', RUint 0 u64_max),
        (''committed'', RBoolean),
        (''keyId'', RIdentifier None),
        (''keyEpoch'', RUint 0 u64_max)]),
     (''payloadDigest'', RDigest ''PayloadDigest''),
     (''signatures'', RArray (RRecord
          [(''keyId'', RIdentifier None),
           (''algorithm'', RIdentifier (Some [''ed25519''])),
           (''keyEpoch'', RUint 0 u64_max),
           (''signature'', RBytes (Some 64) None)]) 1 64 False [''keyId''] [''keyId''])]"

definition B3_STATE_V1_SPEC :: rspec where [schema_defs]:
  "B3_STATE_V1_SPEC =
    RRecord
    [(''scopeKey'', RRecord
       [(''authorityId'', RIdentifier None),
        (''namespace'', RIdentifier None),
        (''scope'', RIdentifier None),
        (''genesisRootDigest'', RDigest ''GenesisRootEnvelopeDigest'')]),
     (''generation'', RUint 0 u64_max),
     (''rootEpoch'', RUint 0 u64_max),
     (''rootEnvelopeDigest'', RDigest ''RootEnvelopeDigest''),
     (''b3ProfileEnvelopeDigest'', RDigest ''B3ProfileEnvelopeDigest''),
     (''headSequence'', RUint 0 u64_max),
     (''headEnvelopeDigest'', RDigest ''RevocationEnvelopeDigest''),
     (''deploymentEpoch'', RUint 0 u64_max),
     (''artifactFloor'', RUint 0 u64_max),
     (''counter'', RUint 0 u64_max),
     (''quarantined'', RBoolean),
     (''quarantineDigest'', RDigest ''QuarantineDigest''),
     (''consumedAuthorization'', RNullable (RTagged ''kind''
                  [(''rollback'', RRecord
                     [(''kind'', RIdentifier (Some [''rollback''])),
                      (''authorizationEnvelopeDigest'', RDigest ''RollbackAuthorizationEnvelopeDigest'')]),
                   (''recovery'', RRecord
                     [(''kind'', RIdentifier (Some [''recovery''])),
                      (''authorizationEnvelopeDigest'', RDigest ''RevocationRecoveryEnvelopeDigest'')])]))]"

definition B3_SUBSCRIBE_OPERATION_V1_SPEC :: rspec where [schema_defs]:
  "B3_SUBSCRIBE_OPERATION_V1_SPEC =
    RRecord
    [(''schema'', RIdentifier (Some [''keep.native-b3-operation''])),
     (''version'', RUint 1 1),
     (''operationKind'', RIdentifier (Some [''subscribe-invalidation''])),
     (''scopeKey'', RRecord
       [(''authorityId'', RIdentifier None),
        (''namespace'', RIdentifier None),
        (''scope'', RIdentifier None),
        (''genesisRootDigest'', RDigest ''GenesisRootEnvelopeDigest'')]),
     (''generation'', RUint 0 u64_max),
     (''sessionId'', RIdentifier None),
     (''requestNonce'', RBytes (Some 32) None)]"

definition NATIVE_ARTIFACT_INVENTORY_V1_SPEC :: rspec where [schema_defs]:
  "NATIVE_ARTIFACT_INVENTORY_V1_SPEC =
    RRecord
    [(''schema'', RIdentifier (Some [''keep.native-artifact-inventory''])),
     (''version'', RUint 1 1),
     (''buildId'', RIdentifier None),
     (''targetTriple'', RIdentifier None),
     (''variant'', RIdentifier None),
     (''rows'', RArray (RRecord
          [(''artifactId'', RIdentifier None),
           (''kind'', RIdentifier (Some [''helper'', ''trampoline'', ''role'', ''prober'', ''provisioner'', ''policy'', ''evidence-schema''])),
           (''digest'', RDigest ''ArtifactFileDigest''),
           (''size'', RUint 0 u64_max),
           (''mode'', RIdentifier (Some [''0444'', ''0555''])),
           (''targetTriple'', RIdentifier None),
           (''variant'', RIdentifier None),
           (''releaseMember'', RBoolean)]) 0 256 False [''artifactId''] [''artifactId''])]"

definition NATIVE_B3_GENESIS_BASE_V1_SPEC :: rspec where [schema_defs]:
  "NATIVE_B3_GENESIS_BASE_V1_SPEC =
    RRecord
    [(''schema'', RIdentifier (Some [''keep.native-b3-genesis-base''])),
     (''version'', RUint 1 1),
     (''trustClass'', RIdentifier (Some [''production'', ''development''])),
     (''authorityId'', RIdentifier None),
     (''namespace'', RIdentifier None),
     (''scope'', RIdentifier None),
     (''headSequence'', RUint 0 u64_max),
     (''headEnvelopeDigest'', RDigest ''RevocationEnvelopeDigest''),
     (''deploymentEpoch'', RUint 0 u64_max),
     (''artifactFloor'', RUint 0 u64_max),
     (''counter'', RUint 0 u64_max)]"

definition NATIVE_B3_PROFILE_V1_SPEC :: rspec where [schema_defs]:
  "NATIVE_B3_PROFILE_V1_SPEC =
    RRecord
    [(''payload'', RRecord
       [(''schema'', RIdentifier (Some [''keep.native-b3-profile''])),
        (''version'', RUint 1 1),
        (''trustClass'', RIdentifier (Some [''production'', ''development''])),
        (''authorityId'', RIdentifier None),
        (''b0RootEnvelopeDigest'', RDigest ''RootEnvelopeDigest''),
        (''genesisBaseDigest'', RDigest ''GenesisBaseDigest''),
        (''predecessorProfileEnvelopeDigest'', RNullable (RDigest ''B3ProfileEnvelopeDigest'')),
        (''algorithm'', RIdentifier (Some [''ed25519''])),
        (''keyId'', RIdentifier None),
        (''keyEpoch'', RUint 0 u64_max),
        (''publicKey'', RBytes (Some 32) None),
        (''validFromCounter'', RUint 0 u64_max),
        (''validUntilCounter'', RUint 0 u64_max),
        (''transportIdentityDigest'', RDigest ''TransportIdentityDigest''),
        (''maxHeartbeatIntervalMs'', RUint 1 1000)]),
     (''payloadDigest'', RDigest ''PayloadDigest''),
     (''signatures'', RArray (RRecord
          [(''keyId'', RIdentifier None),
           (''algorithm'', RIdentifier (Some [''ed25519''])),
           (''keyEpoch'', RUint 0 u64_max),
           (''signature'', RBytes (Some 64) None)]) 1 64 False [''keyId''] [''keyId''])]"

definition NATIVE_BUILD_COMMAND_V1_SPEC :: rspec where [schema_defs]:
  "NATIVE_BUILD_COMMAND_V1_SPEC =
    RRecord
    [(''schema'', RIdentifier (Some [''keep.native-build-command''])),
     (''version'', RUint 1 1),
     (''executableDigest'', RDigest ''BuildToolDigest''),
     (''arguments'', RArray (RText None None) 0 256 False [] [])]"

definition NATIVE_BUILD_IDENTITY_V1_SPEC :: rspec where [schema_defs]:
  "NATIVE_BUILD_IDENTITY_V1_SPEC =
    RRecord
    [(''payload'', RRecord
       [(''schema'', RIdentifier (Some [''keep.native-build-identity''])),
        (''version'', RUint 1 1),
        (''trustClass'', RIdentifier (Some [''production'', ''development''])),
        (''identityKind'', RIdentifier (Some [''builder'', ''comparer''])),
        (''identityId'', RIdentifier None),
        (''administrativeDomain'', RIdentifier None),
        (''toolchainLineageDigest'', RDigest ''ToolchainLineageDigest''),
        (''keyId'', RIdentifier None),
        (''keyEpoch'', RUint 0 u64_max),
        (''publicKey'', RBytes (Some 32) None),
        (''validFromCounter'', RUint 0 u64_max),
        (''validUntilCounter'', RUint 0 u64_max)]),
     (''payloadDigest'', RDigest ''PayloadDigest''),
     (''signatures'', RArray (RRecord
          [(''keyId'', RIdentifier None),
           (''algorithm'', RIdentifier (Some [''ed25519''])),
           (''keyEpoch'', RUint 0 u64_max),
           (''signature'', RBytes (Some 64) None)]) 1 64 False [''keyId''] [''keyId''])]"

definition NATIVE_COMPARISON_V1_SPEC :: rspec where [schema_defs]:
  "NATIVE_COMPARISON_V1_SPEC =
    RRecord
    [(''schema'', RIdentifier (Some [''keep.native-comparison''])),
     (''version'', RUint 1 1),
     (''algorithm'', RIdentifier (Some [''sha256-byte-for-byte/v1''])),
     (''leftSubjectDigest'', RDigest ''SubjectDigest''),
     (''rightSubjectDigest'', RDigest ''SubjectDigest''),
     (''disagreementsDigest'', RDigest ''DisagreementsDigest'')]"

definition NATIVE_CONTROL_POLICY_V1_SPEC :: rspec where [schema_defs]:
  "NATIVE_CONTROL_POLICY_V1_SPEC =
    RRecord
    [(''schema'', RIdentifier (Some [''keep.native-control-policy''])),
     (''version'', RUint 1 1),
     (''controlId'', RIdentifier None),
     (''decisionClass'', RIdentifier (Some [''permit'', ''deny'', ''measure-only''])),
     (''requirements'', RArray (RIdentifier (Some [''signature-valid'', ''threshold-met'', ''content-address-match'', ''subject-match'', ''fresh'', ''not-revoked'', ''floor-satisfied'', ''lease-active'', ''isolation-measured''])) 0 256 True [] [])]"

definition NATIVE_CONTROL_V1_SPEC :: rspec where [schema_defs]:
  "NATIVE_CONTROL_V1_SPEC =
    RRecord
    [(''schema'', RIdentifier (Some [''keep.native-control''])),
     (''version'', RUint 1 1),
     (''controlId'', RIdentifier None),
     (''subjectDigest'', RDigest ''SubjectDigest''),
     (''policyDigest'', RDigest ''ControlPolicyDigest'')]"

definition NATIVE_ENVIRONMENT_POLICY_V1_SPEC :: rspec where [schema_defs]:
  "NATIVE_ENVIRONMENT_POLICY_V1_SPEC =
    RRecord
    [(''schema'', RIdentifier (Some [''keep.native-environment-policy''])),
     (''version'', RUint 1 1),
     (''allowedVariables'', RArray (RIdentifier None) 0 256 True [] []),
     (''workingDirectoryPolicy'', RIdentifier (Some [''empty'', ''fixed-source-root''])),
     (''networkPolicy'', RIdentifier (Some [''denied'', ''builder-isolated'']))]"

definition NATIVE_FD_FLAGS_V1_SPEC :: rspec where [schema_defs]:
  "NATIVE_FD_FLAGS_V1_SPEC =
    RRecord
    [(''schema'', RIdentifier (Some [''keep.native-fd-flags''])),
     (''version'', RUint 1 1),
     (''flags'', RArray (RIdentifier (Some [''O_RDONLY'', ''O_CLOEXEC'', ''O_NOFOLLOW'', ''O_PATH'', ''O_DIRECTORY''])) 0 5 True [] []),
     (''closeOnExec'', RBoolean),
     (''seals'', RArray (RIdentifier (Some [''F_SEAL_WRITE'', ''F_SEAL_SHRINK'', ''F_SEAL_GROW'', ''F_SEAL_EXEC'', ''F_SEAL_SEAL''])) 0 5 True [] [])]"

definition NATIVE_GENESIS_EPOCH_V1_SPEC :: rspec where [schema_defs]:
  "NATIVE_GENESIS_EPOCH_V1_SPEC =
    RRecord
    [(''schema'', RIdentifier (Some [''keep.native-genesis-epoch''])),
     (''version'', RUint 1 1),
     (''trustClass'', RIdentifier (Some [''production'', ''development''])),
     (''rootId'', RIdentifier None),
     (''rootKeys'', RArray (RRecord
          [(''keyId'', RIdentifier None),
           (''algorithm'', RIdentifier (Some [''ed25519''])),
           (''publicKey'', RBytes (Some 32) None),
           (''keyEpoch'', RUint 0 u64_max),
           (''validFromCounter'', RUint 0 u64_max),
           (''validUntilCounter'', RUint 0 u64_max)]) 1 32 False [''keyId''] [''keyId'']),
     (''rootThreshold'', RUint 1 32),
     (''participantIds'', RArray (RIdentifier None) 1 64 True [] []),
     (''minimumParticipants'', RUint 1 64),
     (''requiredOffline'', RBoolean),
     (''requiredWitnesses'', RUint 0 u64_max),
     (''issuedCounter'', RUint 0 u64_max),
     (''nonce'', RBytes (Some 32) None)]"

definition NATIVE_INVOCATION_V1_SPEC :: rspec where [schema_defs]:
  "NATIVE_INVOCATION_V1_SPEC =
    RRecord
    [(''schema'', RIdentifier (Some [''keep.native-invocation''])),
     (''version'', RUint 1 1),
     (''buildId'', RIdentifier None),
     (''commandDigest'', RDigest ''BuildCommandDigest''),
     (''environmentPolicyDigest'', RDigest ''EnvironmentPolicyDigest''),
     (''inputs'', RArray (RRecord
          [(''uri'', RText None (Some pattern_artifact)),
           (''artifactDigest'', RDigest ''InvocationInputArtifactDigest'')]) 0 4096 False [''uri''] [''uri''])]"

definition NATIVE_IO_MAX_V1_SPEC :: rspec where [schema_defs]:
  "NATIVE_IO_MAX_V1_SPEC =
    RRecord
    [(''schema'', RIdentifier (Some [''keep.native-io-max''])),
     (''version'', RUint 1 1),
     (''defaultPolicy'', RIdentifier (Some [''deny-unlisted''])),
     (''rows'', RArray (RRecord
          [(''deviceMajor'', RUint 0 u64_max),
           (''deviceMinor'', RUint 0 u64_max),
           (''readBytesPerSecond'', RNullable (RUint 0 u64_max)),
           (''writeBytesPerSecond'', RNullable (RUint 0 u64_max)),
           (''readIops'', RNullable (RUint 0 u64_max)),
           (''writeIops'', RNullable (RUint 0 u64_max))]) 0 128 False [''deviceMajor'', ''deviceMinor''] [''deviceMajor'', ''deviceMinor''])]"

definition NATIVE_JOURNAL_ENTRIES_V1_SPEC :: rspec where [schema_defs]:
  "NATIVE_JOURNAL_ENTRIES_V1_SPEC =
    RRecord
    [(''schema'', RIdentifier (Some [''keep.native-journal-entries''])),
     (''version'', RUint 1 1),
     (''entries'', RArray (RRecord
          [(''sequence'', RUint 0 u64_max),
           (''eventCode'', RIdentifier None),
           (''subjectDigest'', RDigest ''JournalSubjectDigest''),
           (''counter'', RUint 0 u64_max)]) 0 4096 False [''sequence''] [''sequence''])]"

definition NATIVE_JOURNAL_V1_SPEC :: rspec where [schema_defs]:
  "NATIVE_JOURNAL_V1_SPEC =
    RRecord
    [(''schema'', RIdentifier (Some [''keep.native-journal''])),
     (''version'', RUint 1 1),
     (''deploymentId'', RIdentifier None),
     (''bootId'', RIdentifier None),
     (''sequence'', RUint 0 u64_max),
     (''previousJournalDigest'', RDigest ''JournalDigest''),
     (''entriesDigest'', RDigest ''JournalEntriesDigest'')]"

end
