(* ===== verification/P2_Specs_B.thy ===== *)
theory P2_Specs_B
  imports P2_Spec
begin

section \<open>The schema tables, second part\<close>

text \<open>\<open>native/crates/protocol/src/p2_schema_specs.rs\<close>, from the Landlock policies to the end.\<close>

definition NATIVE_LANDLOCK_POLICY_V1_SPEC_rules_item :: rspec where [schema_defs]:
  "NATIVE_LANDLOCK_POLICY_V1_SPEC_rules_item =
    RTagged ''kind''
    [(''path-beneath'', RRecord
       [(''kind'', RIdentifier (Some [''path-beneath''])),
        (''path'', RText None (Some pattern_absolute)),
        (''accessRights'', RArray (RIdentifier (Some [''execute'', ''write-file'', ''read-file'', ''read-dir'', ''remove-dir'', ''remove-file'', ''make-char'', ''make-dir'', ''make-reg'', ''make-sock'', ''make-fifo'', ''make-block'', ''make-sym'', ''refer'', ''truncate'', ''ioctl-dev''])) 0 16 True [] [])]),
     (''tcp-port'', RRecord
       [(''kind'', RIdentifier (Some [''tcp-port''])),
        (''port'', RUint 1 65535),
        (''accessRights'', RArray (RIdentifier (Some [''bind-tcp'', ''connect-tcp''])) 0 2 True [] [])])]"

definition NATIVE_LANDLOCK_POLICY_V1_SPEC :: rspec where [schema_defs]:
  "NATIVE_LANDLOCK_POLICY_V1_SPEC =
    RRecord
    [(''schema'', RIdentifier (Some [''keep.native-landlock-policy''])),
     (''version'', RUint 1 1),
     (''minimumAbi'', RUint 1 255),
     (''handledFilesystemRights'', RArray (RIdentifier (Some [''execute'', ''write-file'', ''read-file'', ''read-dir'', ''remove-dir'', ''remove-file'', ''make-char'', ''make-dir'', ''make-reg'', ''make-sock'', ''make-fifo'', ''make-block'', ''make-sym'', ''refer'', ''truncate'', ''ioctl-dev''])) 0 16 True [] []),
     (''handledNetworkRights'', RArray (RIdentifier (Some [''bind-tcp'', ''connect-tcp''])) 0 2 True [] []),
     (''handledScopeRights'', RArray (RIdentifier (Some [''signal'', ''abstract-unix-socket''])) 0 2 True [] []),
     (''rules'', RArray (NATIVE_LANDLOCK_POLICY_V1_SPEC_rules_item) 0 256 False [] [])]"

definition NATIVE_LANDLOCK_POLICY_V2_SPEC_rules_item :: rspec where [schema_defs]:
  "NATIVE_LANDLOCK_POLICY_V2_SPEC_rules_item =
    RTagged ''kind''
    [(''path-beneath'', RRecord
       [(''kind'', RIdentifier (Some [''path-beneath''])),
        (''path'', RText None (Some pattern_absolute)),
        (''accessRights'', RArray (RIdentifier (Some [''execute'', ''write-file'', ''read-file'', ''read-dir'', ''remove-dir'', ''remove-file'', ''make-char'', ''make-dir'', ''make-reg'', ''make-sock'', ''make-fifo'', ''make-block'', ''make-sym'', ''refer'', ''truncate'', ''ioctl-dev'', ''resolve-unix''])) 0 17 True [] [])]),
     (''tcp-port'', RRecord
       [(''kind'', RIdentifier (Some [''tcp-port''])),
        (''port'', RUint 1 65535),
        (''accessRights'', RArray (RIdentifier (Some [''bind-tcp'', ''connect-tcp''])) 0 2 True [] [])]),
     (''udp-port'', RRecord
       [(''kind'', RIdentifier (Some [''udp-port''])),
        (''port'', RUint 0 65535),
        (''accessRights'', RArray (RIdentifier (Some [''bind-udp'', ''connect-send-udp''])) 0 2 True [] [])])]"

definition NATIVE_LANDLOCK_POLICY_V2_SPEC :: rspec where [schema_defs]:
  "NATIVE_LANDLOCK_POLICY_V2_SPEC =
    RRecord
    [(''schema'', RIdentifier (Some [''keep.native-landlock-policy''])),
     (''version'', RUint 2 2),
     (''minimumAbi'', RUint 4 10),
     (''effectiveAbi'', RUint 4 10),
     (''reviewedMaximumAbi'', RUint 10 10),
     (''handledFilesystemRights'', RArray (RIdentifier (Some [''execute'', ''write-file'', ''read-file'', ''read-dir'', ''remove-dir'', ''remove-file'', ''make-char'', ''make-dir'', ''make-reg'', ''make-sock'', ''make-fifo'', ''make-block'', ''make-sym'', ''refer'', ''truncate'', ''ioctl-dev'', ''resolve-unix''])) 0 17 True [] []),
     (''handledNetworkRights'', RArray (RIdentifier (Some [''bind-tcp'', ''connect-tcp'', ''bind-udp'', ''connect-send-udp''])) 0 4 True [] []),
     (''handledScopeRights'', RArray (RIdentifier (Some [''signal'', ''abstract-unix-socket''])) 0 2 True [] []),
     (''rules'', RArray (NATIVE_LANDLOCK_POLICY_V2_SPEC_rules_item) 0 256 False [] [])]"

definition NATIVE_OBSERVATION_RESULT_V1_SPEC :: rspec where [schema_defs]:
  "NATIVE_OBSERVATION_RESULT_V1_SPEC =
    RRecord
    [(''schema'', RIdentifier (Some [''keep.native-observation-result''])),
     (''version'', RUint 1 1),
     (''resultCode'', RIdentifier (Some [''pass'', ''fail'', ''inconclusive''])),
     (''facts'', RArray (RTagged ''valueType''
          [(''identifier'', RRecord
             [(''factId'', RIdentifier None),
              (''valueType'', RIdentifier (Some [''identifier''])),
              (''value'', RIdentifier None)]),
           (''uint64'', RRecord
             [(''factId'', RIdentifier None),
              (''valueType'', RIdentifier (Some [''uint64''])),
              (''value'', RUint 0 u64_max)]),
           (''boolean'', RRecord
             [(''factId'', RIdentifier None),
              (''valueType'', RIdentifier (Some [''boolean''])),
              (''value'', RBoolean)])]) 0 1024 False [''factId''] [''factId''])]"

definition NATIVE_PACKAGE_PAYLOAD_V1_SPEC :: rspec where [schema_defs]:
  "NATIVE_PACKAGE_PAYLOAD_V1_SPEC =
    RRecord
    [(''schema'', RIdentifier (Some [''keep.native-package-payload''])),
     (''version'', RUint 1 1),
     (''buildId'', RIdentifier None),
     (''targetTriple'', RIdentifier None),
     (''variant'', RIdentifier None),
     (''nativeArtifactInventoryDigest'', RDigest ''NativeArtifactInventoryDigest''),
     (''members'', RArray (RRecord
          [(''installRoot'', RIdentifier (Some [''artifacts'', ''policy'', ''evidence-schema'', ''inventory'', ''toolchain''])),
           (''relativePath'', RText None (Some pattern_relative)),
           (''digest'', RDigest ''PackageMemberDigest''),
           (''size'', RUint 0 u64_max),
           (''mode'', RIdentifier (Some [''0444'', ''0555''])),
           (''ownerUid'', RUint 0 u64_max),
           (''ownerGid'', RUint 0 u64_max),
           (''objectType'', RIdentifier (Some [''regular-executable'', ''regular-data'']))]) 0 4096 False [''installRoot'', ''relativePath''] [''installRoot'', ''relativePath''])]"

definition NATIVE_PEER_POLICY_V1_SPEC :: rspec where [schema_defs]:
  "NATIVE_PEER_POLICY_V1_SPEC =
    RRecord
    [(''schema'', RIdentifier (Some [''keep.native-peer-policy''])),
     (''version'', RUint 1 1),
     (''requiredUid'', RNullable (RUint 0 u64_max)),
     (''requiredGid'', RNullable (RUint 0 u64_max)),
     (''requiredSecurityLabel'', RNullable (RIdentifier None))]"

definition NATIVE_PROVENANCE_V1_SPEC_payload :: rspec where [schema_defs]:
  "NATIVE_PROVENANCE_V1_SPEC_payload =
    RRecord
    [(''schema'', RIdentifier (Some [''keep.native-provenance''])),
     (''version'', RUint 1 1),
     (''builderId'', RIdentifier None),
     (''builderIdentityEnvelopeDigest'', RDigest ''BuilderIdentityEnvelopeDigest''),
     (''buildType'', RIdentifier None),
     (''buildId'', RIdentifier None),
     (''targetTriple'', RIdentifier None),
     (''variant'', RIdentifier None),
     (''nativeArtifactInventoryDigest'', RDigest ''NativeArtifactInventoryDigest''),
     (''nativePackagePayloadDigest'', RDigest ''NativePackagePayloadDigest''),
     (''toolchainClosureEnvelopeDigest'', RDigest ''ToolchainClosureEnvelopeDigest''),
     (''invocationDigest'', RDigest ''InvocationDigest''),
     (''materials'', RArray (RRecord
          [(''uri'', RText None (Some pattern_artifact)),
           (''digestType'', RIdentifier (Some [''ArtifactDigest'', ''SourceDigest'', ''OciBlobDigest'', ''SubjectDigest''])),
           (''digest'', RDigest ''MaterialDigest'')]) 0 8192 False [''uri''] [''uri'']),
     (''subjects'', RArray (RRecord
          [(''uri'', RText None (Some pattern_artifact)),
           (''digestType'', RIdentifier (Some [''ArtifactDigest'', ''SourceDigest'', ''OciBlobDigest'', ''SubjectDigest''])),
           (''digest'', RDigest ''MaterialDigest'')]) 0 4096 False [''uri''] [''uri'']),
     (''startedCounter'', RUint 0 u64_max),
     (''finishedCounter'', RUint 0 u64_max)]"

definition NATIVE_PROVENANCE_V1_SPEC :: rspec where [schema_defs]:
  "NATIVE_PROVENANCE_V1_SPEC =
    RRecord
    [(''payload'', NATIVE_PROVENANCE_V1_SPEC_payload),
     (''payloadDigest'', RDigest ''PayloadDigest''),
     (''signatures'', RArray (RRecord
          [(''keyId'', RIdentifier None),
           (''algorithm'', RIdentifier (Some [''ed25519''])),
           (''keyEpoch'', RUint 0 u64_max),
           (''signature'', RBytes (Some 64) None)]) 1 64 False [''keyId''] [''keyId''])]"

definition NATIVE_REPRODUCIBILITY_RECORD_V1_SPEC :: rspec where [schema_defs]:
  "NATIVE_REPRODUCIBILITY_RECORD_V1_SPEC =
    RRecord
    [(''payload'', RRecord
       [(''schema'', RIdentifier (Some [''keep.native-repro''])),
        (''version'', RUint 1 1),
        (''comparerIdentityEnvelopeDigest'', RDigest ''ComparerIdentityEnvelopeDigest''),
        (''buildId'', RIdentifier None),
        (''targetTriple'', RIdentifier None),
        (''variant'', RIdentifier None),
        (''nativeArtifactInventoryDigest'', RDigest ''NativeArtifactInventoryDigest''),
        (''nativePackagePayloadDigest'', RDigest ''NativePackagePayloadDigest''),
        (''toolchainClosureEnvelopeDigest'', RDigest ''ToolchainClosureEnvelopeDigest''),
        (''builderProvenanceEnvelopeDigests'', RArray (RDigest ''ProvenanceEnvelopeDigest'') 2 8 True [] []),
        (''comparisonAlgorithm'', RIdentifier (Some [''sha256-byte-for-byte/v1''])),
        (''comparisonDigest'', RDigest ''ComparisonDigest''),
        (''disagreements'', RArray (RRecord
             [(''path'', RText None (Some pattern_relative)),
              (''leftBuilderId'', RIdentifier None),
              (''rightBuilderId'', RIdentifier None),
              (''leftDigest'', RDigest ''ComparedArtifactDigest''),
              (''rightDigest'', RDigest ''ComparedArtifactDigest''),
              (''reasonCode'', RIdentifier None)]) 0 1024 False [''path'', ''leftBuilderId'', ''rightBuilderId''] [''path'', ''leftBuilderId'', ''rightBuilderId''])]),
     (''payloadDigest'', RDigest ''PayloadDigest''),
     (''signatures'', RArray (RRecord
          [(''keyId'', RIdentifier None),
           (''algorithm'', RIdentifier (Some [''ed25519''])),
           (''keyEpoch'', RUint 0 u64_max),
           (''signature'', RBytes (Some 64) None)]) 1 64 False [''keyId''] [''keyId''])]"

definition NATIVE_REVOCATION_LOCATOR_V1_SPEC :: rspec where [schema_defs]:
  "NATIVE_REVOCATION_LOCATOR_V1_SPEC =
    RRecord
    [(''schema'', RIdentifier (Some [''keep.native-revocation-locator''])),
     (''version'', RUint 1 1),
     (''sequence'', RUint 0 u64_max),
     (''revocationEnvelopeDigest'', RDigest ''RevocationEnvelopeDigest'')]"

definition NATIVE_REVOCATION_RECOVERY_V1_SPEC_payload_expectedB3State :: rspec where [schema_defs]:
  "NATIVE_REVOCATION_RECOVERY_V1_SPEC_payload_expectedB3State =
    RRecord
    [(''scopeKey'', RRecord
       [(''authorityId'', RIdentifier None),
        (''namespace'', RIdentifier None),
        (''scope'', RIdentifier None),
        (''genesisRootDigest'', RDigest ''GenesisRootEnvelopeDigest'')]),
     (''generation'', RUint 0 u64_max),
     (''rootEpoch'', RUint 0 u64_max),
     (''rootEnvelopeDigest'', RDigest ''RootEnvelopeDigest''),
     (''b3ProfileEnvelopeDigest'', RDigest ''B3ProfileEnvelopeDigest''),
     (''headSequence'', RUint 0 u64_max),
     (''headEnvelopeDigest'', RDigest ''RevocationEnvelopeDigest''),
     (''deploymentEpoch'', RUint 0 u64_max),
     (''artifactFloor'', RUint 0 u64_max),
     (''counter'', RUint 0 u64_max),
     (''quarantined'', RBoolean),
     (''quarantineDigest'', RDigest ''QuarantineDigest''),
     (''consumedAuthorization'', RNullable (RTagged ''kind''
                  [(''rollback'', RRecord
                     [(''kind'', RIdentifier (Some [''rollback''])),
                      (''authorizationEnvelopeDigest'', RDigest ''RollbackAuthorizationEnvelopeDigest'')]),
                   (''recovery'', RRecord
                     [(''kind'', RIdentifier (Some [''recovery''])),
                      (''authorizationEnvelopeDigest'', RDigest ''RevocationRecoveryEnvelopeDigest'')])]))]"

definition NATIVE_REVOCATION_RECOVERY_V1_SPEC_payload_proposedB3StateProjection :: rspec where [schema_defs]:
  "NATIVE_REVOCATION_RECOVERY_V1_SPEC_payload_proposedB3StateProjection =
    RRecord
    [(''scopeKey'', RRecord
       [(''authorityId'', RIdentifier None),
        (''namespace'', RIdentifier None),
        (''scope'', RIdentifier None),
        (''genesisRootDigest'', RDigest ''GenesisRootEnvelopeDigest'')]),
     (''rootEpoch'', RUint 0 u64_max),
     (''rootEnvelopeDigest'', RDigest ''RootEnvelopeDigest''),
     (''b3ProfileEnvelopeDigest'', RDigest ''B3ProfileEnvelopeDigest''),
     (''headSequence'', RUint 0 u64_max),
     (''headEnvelopeDigest'', RDigest ''RevocationEnvelopeDigest''),
     (''deploymentEpoch'', RUint 0 u64_max),
     (''artifactFloor'', RUint 0 u64_max),
     (''counter'', RUint 0 u64_max),
     (''quarantined'', RBoolean),
     (''quarantineDigest'', RDigest ''QuarantineDigest'')]"

definition NATIVE_REVOCATION_RECOVERY_V1_SPEC_payload :: rspec where [schema_defs]:
  "NATIVE_REVOCATION_RECOVERY_V1_SPEC_payload =
    RRecord
    [(''schema'', RIdentifier (Some [''keep.native-revocation-recovery''])),
     (''version'', RUint 1 1),
     (''trustClass'', RIdentifier (Some [''production'', ''development''])),
     (''recoveryId'', RIdentifier None),
     (''authorityId'', RIdentifier None),
     (''namespace'', RIdentifier None),
     (''scope'', RIdentifier None),
     (''expectedB3State'', NATIVE_REVOCATION_RECOVERY_V1_SPEC_payload_expectedB3State),
     (''proposedB3StateProjection'', NATIVE_REVOCATION_RECOVERY_V1_SPEC_payload_proposedB3StateProjection),
     (''quarantinedHeadEnvelopeDigests'', RArray (RDigest ''RevocationEnvelopeDigest'') 1 4096 True [] []),
     (''selectedHeadEnvelopeDigest'', RDigest ''RevocationEnvelopeDigest''),
     (''selectedSequence'', RUint 0 u64_max),
     (''issuedCounter'', RUint 0 u64_max),
     (''expiresCounter'', RUint 0 u64_max),
     (''reasonCode'', RIdentifier None),
     (''transcriptDigest'', RDigest ''TranscriptDigest'')]"

definition NATIVE_REVOCATION_RECOVERY_V1_SPEC :: rspec where [schema_defs]:
  "NATIVE_REVOCATION_RECOVERY_V1_SPEC =
    RRecord
    [(''payload'', NATIVE_REVOCATION_RECOVERY_V1_SPEC_payload),
     (''payloadDigest'', RDigest ''PayloadDigest''),
     (''signatures'', RArray (RRecord
          [(''keyId'', RIdentifier None),
           (''algorithm'', RIdentifier (Some [''ed25519''])),
           (''keyEpoch'', RUint 0 u64_max),
           (''signature'', RBytes (Some 64) None)]) 1 64 False [''keyId''] [''keyId''])]"

definition NATIVE_ROLLBACK_AUTHORIZATION_V1_SPEC :: rspec where [schema_defs]:
  "NATIVE_ROLLBACK_AUTHORIZATION_V1_SPEC =
    RRecord
    [(''payload'', RRecord
       [(''schema'', RIdentifier (Some [''keep.native-rollback''])),
        (''version'', RUint 1 1),
        (''trustClass'', RIdentifier (Some [''production'', ''development''])),
        (''authorizationId'', RIdentifier None),
        (''fromDeploymentEnvelopeDigest'', RDigest ''DeploymentEnvelopeDigest''),
        (''fromDeploymentEpoch'', RUint 0 u64_max),
        (''fromArtifactVersion'', RUint 0 u64_max),
        (''toDeploymentBaseDigest'', RDigest ''DeploymentBaseDigest''),
        (''toDeploymentEpoch'', RUint 0 u64_max),
        (''toArtifactVersion'', RUint 0 u64_max),
        (''minimumArtifactVersion'', RUint 0 u64_max),
        (''predecessorDigest'', RDigest ''RollbackAuthorizationEnvelopeDigest''),
        (''issuedCounter'', RUint 0 u64_max),
        (''expiresCounter'', RUint 0 u64_max),
        (''nonce'', RBytes (Some 32) None)]),
     (''payloadDigest'', RDigest ''PayloadDigest''),
     (''signatures'', RArray (RRecord
          [(''keyId'', RIdentifier None),
           (''algorithm'', RIdentifier (Some [''ed25519''])),
           (''keyEpoch'', RUint 0 u64_max),
           (''signature'', RBytes (Some 64) None)]) 1 64 False [''keyId''] [''keyId''])]"

definition NATIVE_ROOT_CEREMONY_RECORD_V1_SPEC :: rspec where [schema_defs]:
  "NATIVE_ROOT_CEREMONY_RECORD_V1_SPEC =
    RRecord
    [(''payload'', RRecord
       [(''schema'', RIdentifier (Some [''keep.native-root-ceremony''])),
        (''version'', RUint 1 1),
        (''trustClass'', RIdentifier (Some [''production'', ''development''])),
        (''ceremonyId'', RIdentifier None),
        (''rootEnvelopeDigest'', RDigest ''RootEnvelopeDigest''),
        (''genesisCarrierDigest'', RDigest ''GenesisCarrierDigest''),
        (''participantKeyIds'', RArray (RIdentifier None) 1 64 True [] []),
        (''requestDigest'', RDigest ''CeremonyRequestDigest''),
        (''transcriptDigest'', RDigest ''TranscriptDigest''),
        (''issuedCounter'', RUint 0 u64_max)]),
     (''payloadDigest'', RDigest ''PayloadDigest''),
     (''signatures'', RArray (RRecord
          [(''keyId'', RIdentifier None),
           (''algorithm'', RIdentifier (Some [''ed25519''])),
           (''keyEpoch'', RUint 0 u64_max),
           (''signature'', RBytes (Some 64) None)]) 1 64 False [''keyId''] [''keyId''])]"

definition NATIVE_ROOT_LOCATOR_V1_SPEC :: rspec where [schema_defs]:
  "NATIVE_ROOT_LOCATOR_V1_SPEC =
    RRecord
    [(''schema'', RIdentifier (Some [''keep.native-root-locator''])),
     (''version'', RUint 1 1),
     (''rootEpoch'', RUint 0 u64_max),
     (''rootEnvelopeDigest'', RDigest ''RootEnvelopeDigest'')]"

definition NATIVE_ROOT_V1_SPEC_payload :: rspec where [schema_defs]:
  "NATIVE_ROOT_V1_SPEC_payload =
    RRecord
    [(''schema'', RIdentifier (Some [''keep.native-root''])),
     (''version'', RUint 1 1),
     (''trustClass'', RIdentifier (Some [''production'', ''development''])),
     (''rootId'', RIdentifier None),
     (''rootEpoch'', RUint 0 u64_max),
     (''genesisEpochDigest'', RDigest ''GenesisEpochDigest''),
     (''predecessorRootEnvelopeDigest'', RNullable (RDigest ''RootEnvelopeDigest'')),
     (''issuedCounter'', RUint 0 u64_max),
     (''threshold'', RRecord
       [(''root'', RUint 1 32),
        (''release'', RUint 1 32),
        (''timestamp'', RUint 1 32),
        (''revocation'', RUint 1 32),
        (''recovery'', RUint 1 32),
        (''b3'', RUint 1 32),
        (''builder'', RUint 1 32),
        (''comparer'', RUint 1 32)]),
     (''rootKeys'', RArray (RRecord
          [(''keyId'', RIdentifier None),
           (''algorithm'', RIdentifier (Some [''ed25519''])),
           (''publicKey'', RBytes (Some 32) None),
           (''keyEpoch'', RUint 0 u64_max),
           (''validFromCounter'', RUint 0 u64_max),
           (''validUntilCounter'', RUint 0 u64_max)]) 1 32 False [''keyId''] [''keyId'']),
     (''releaseKeys'', RArray (RRecord
          [(''keyId'', RIdentifier None),
           (''algorithm'', RIdentifier (Some [''ed25519''])),
           (''publicKey'', RBytes (Some 32) None),
           (''keyEpoch'', RUint 0 u64_max),
           (''validFromCounter'', RUint 0 u64_max),
           (''validUntilCounter'', RUint 0 u64_max)]) 1 32 False [''keyId''] [''keyId'']),
     (''timestampKeys'', RArray (RRecord
          [(''keyId'', RIdentifier None),
           (''algorithm'', RIdentifier (Some [''ed25519''])),
           (''publicKey'', RBytes (Some 32) None),
           (''keyEpoch'', RUint 0 u64_max),
           (''validFromCounter'', RUint 0 u64_max),
           (''validUntilCounter'', RUint 0 u64_max)]) 1 32 False [''keyId''] [''keyId'']),
     (''revocationKeys'', RArray (RRecord
          [(''keyId'', RIdentifier None),
           (''algorithm'', RIdentifier (Some [''ed25519''])),
           (''publicKey'', RBytes (Some 32) None),
           (''keyEpoch'', RUint 0 u64_max),
           (''validFromCounter'', RUint 0 u64_max),
           (''validUntilCounter'', RUint 0 u64_max)]) 1 32 False [''keyId''] [''keyId'']),
     (''recoveryKeys'', RArray (RRecord
          [(''keyId'', RIdentifier None),
           (''algorithm'', RIdentifier (Some [''ed25519''])),
           (''publicKey'', RBytes (Some 32) None),
           (''keyEpoch'', RUint 0 u64_max),
           (''validFromCounter'', RUint 0 u64_max),
           (''validUntilCounter'', RUint 0 u64_max)]) 1 32 False [''keyId''] [''keyId'']),
     (''b3Keys'', RArray (RRecord
          [(''keyId'', RIdentifier None),
           (''algorithm'', RIdentifier (Some [''ed25519''])),
           (''publicKey'', RBytes (Some 32) None),
           (''keyEpoch'', RUint 0 u64_max),
           (''validFromCounter'', RUint 0 u64_max),
           (''validUntilCounter'', RUint 0 u64_max)]) 1 32 False [''keyId''] [''keyId'']),
     (''builderKeys'', RArray (RRecord
          [(''keyId'', RIdentifier None),
           (''algorithm'', RIdentifier (Some [''ed25519''])),
           (''publicKey'', RBytes (Some 32) None),
           (''keyEpoch'', RUint 0 u64_max),
           (''validFromCounter'', RUint 0 u64_max),
           (''validUntilCounter'', RUint 0 u64_max)]) 1 32 False [''keyId''] [''keyId'']),
     (''comparerKeys'', RArray (RRecord
          [(''keyId'', RIdentifier None),
           (''algorithm'', RIdentifier (Some [''ed25519''])),
           (''publicKey'', RBytes (Some 32) None),
           (''keyEpoch'', RUint 0 u64_max),
           (''validFromCounter'', RUint 0 u64_max),
           (''validUntilCounter'', RUint 0 u64_max)]) 1 32 False [''keyId''] [''keyId'']),
     (''keyEpochs'', RArray (RRecord
          [(''role'', RIdentifier (Some [''root'', ''release'', ''timestamp'', ''revocation'', ''recovery'', ''b3'', ''builder'', ''comparer''])),
           (''minimumEpoch'', RUint 0 u64_max)]) 8 8 False [''role''] [''role''])]"

definition NATIVE_ROOT_V1_SPEC :: rspec where [schema_defs]:
  "NATIVE_ROOT_V1_SPEC =
    RRecord
    [(''payload'', NATIVE_ROOT_V1_SPEC_payload),
     (''payloadDigest'', RDigest ''PayloadDigest''),
     (''signatures'', RArray (ROneOf
          [RRecord
           [(''keyId'', RIdentifier None),
            (''algorithm'', RIdentifier (Some [''ed25519''])),
            (''keyEpoch'', RUint 0 u64_max),
            (''signature'', RBytes (Some 64) None)],
           RRecord
           [(''keyId'', RIdentifier None),
            (''algorithm'', RIdentifier (Some [''ed25519''])),
            (''keyEpoch'', RUint 0 u64_max),
            (''authorizationRole'', RIdentifier (Some [''root'', ''recovery''])),
            (''signature'', RBytes (Some 64) None)]]) 1 64 False [''keyId''] [''keyId''])]"

definition NATIVE_SBOM_V1_SPEC :: rspec where [schema_defs]:
  "NATIVE_SBOM_V1_SPEC =
    RRecord
    [(''payload'', RRecord
       [(''schema'', RIdentifier (Some [''keep.native-sbom''])),
        (''version'', RUint 1 1),
        (''buildId'', RIdentifier None),
        (''targetTriple'', RIdentifier None),
        (''variant'', RIdentifier None),
        (''nativeArtifactInventoryDigest'', RDigest ''NativeArtifactInventoryDigest''),
        (''packages'', RArray (RRecord
             [(''purl'', RText None None),
              (''name'', RIdentifier None),
              (''version'', RText None None),
              (''license'', RText None None),
              (''sourceDigest'', RDigest ''SourceDigest''),
              (''checksumAlgorithm'', RIdentifier (Some [''sha256''])),
              (''checksum'', RDigest ''SbomChecksumDigest'')]) 0 4096 False [''purl''] [''purl''])]),
     (''payloadDigest'', RDigest ''PayloadDigest''),
     (''signatures'', RArray (RRecord
          [(''keyId'', RIdentifier None),
           (''algorithm'', RIdentifier (Some [''ed25519''])),
           (''keyEpoch'', RUint 0 u64_max),
           (''signature'', RBytes (Some 64) None)]) 1 64 False [''keyId''] [''keyId''])]"

definition NATIVE_SECCOMP_POLICY_V1_SPEC :: rspec where [schema_defs]:
  "NATIVE_SECCOMP_POLICY_V1_SPEC =
    RRecord
    [(''schema'', RIdentifier (Some [''keep.native-seccomp-policy''])),
     (''version'', RUint 1 1),
     (''architecture'', RIdentifier (Some [''x86_64'', ''aarch64''])),
     (''defaultAction'', RIdentifier (Some [''kill-process''])),
     (''rules'', RArray (RRecord
          [(''syscall'', RIdentifier None),
           (''action'', RIdentifier (Some [''allow'', ''kill-process'', ''errno''])),
           (''errno'', RNullable (RUint 0 u64_max)),
           (''arguments'', RArray (RRecord
                [(''index'', RUint 0 5),
                 (''operator'', RIdentifier (Some [''eq'', ''ne'', ''lt'', ''le'', ''gt'', ''ge'', ''masked-eq''])),
                 (''value'', RUint 0 u64_max),
                 (''mask'', RNullable (RUint 0 u64_max))]) 0 6 False [''index''] [''index''])]) 0 512 False [''syscall''] [''syscall''])]"

definition NATIVE_TIMESTAMP_V1_SPEC :: rspec where [schema_defs]:
  "NATIVE_TIMESTAMP_V1_SPEC =
    RRecord
    [(''payload'', RRecord
       [(''schema'', RIdentifier (Some [''keep.native-timestamp''])),
        (''version'', RUint 1 1),
        (''trustClass'', RIdentifier (Some [''production'', ''development''])),
        (''nativeClosureBaseDigest'', RDigest ''ReleaseClosureBaseDigest''),
        (''artifactVersion'', RUint 0 u64_max),
        (''deploymentEpoch'', RUint 0 u64_max),
        (''releaseKeyEpoch'', RUint 0 u64_max),
        (''timestampKeyEpoch'', RUint 0 u64_max),
        (''issuedCounter'', RUint 0 u64_max),
        (''expiresCounter'', RUint 0 u64_max),
        (''revocationCheckpointEnvelopeDigest'', RDigest ''RevocationEnvelopeDigest''),
        (''revocationSequence'', RUint 0 u64_max)]),
     (''payloadDigest'', RDigest ''PayloadDigest''),
     (''signatures'', RArray (RRecord
          [(''keyId'', RIdentifier None),
           (''algorithm'', RIdentifier (Some [''ed25519''])),
           (''keyEpoch'', RUint 0 u64_max),
           (''signature'', RBytes (Some 64) None)]) 1 64 False [''keyId''] [''keyId''])]"

definition NATIVE_TOOLCHAIN_CLOSURE_V1_SPEC :: rspec where [schema_defs]:
  "NATIVE_TOOLCHAIN_CLOSURE_V1_SPEC =
    RRecord
    [(''payload'', RRecord
       [(''schema'', RIdentifier (Some [''keep.native-toolchain''])),
        (''version'', RUint 1 1),
        (''toolchainId'', RIdentifier None),
        (''targetTriple'', RIdentifier None),
        (''variant'', RIdentifier None),
        (''compilerDigest'', RDigest ''CompilerDigest''),
        (''sysrootDigest'', RDigest ''SysrootDigest''),
        (''linkerDigest'', RDigest ''LinkerDigest''),
        (''vendorDigest'', RDigest ''VendorDigest''),
        (''containerDigest'', RDigest ''ContainerDigest''),
        (''environmentPolicyDigest'', RDigest ''EnvironmentPolicyDigest''),
        (''entries'', RArray (RRecord
             [(''path'', RText None (Some pattern_relative)),
              (''size'', RUint 0 u64_max),
              (''digest'', RDigest ''ToolchainEntryDigest''),
              (''kind'', RIdentifier (Some [''compiler'', ''rustlib'', ''linker'', ''sysroot'', ''vendor-source'', ''container-manifest'', ''build-tool'']))]) 0 8192 False [''path''] [''path''])]),
     (''payloadDigest'', RDigest ''PayloadDigest''),
     (''signatures'', RArray (RRecord
          [(''keyId'', RIdentifier None),
           (''algorithm'', RIdentifier (Some [''ed25519''])),
           (''keyEpoch'', RUint 0 u64_max),
           (''signature'', RBytes (Some 64) None)]) 1 64 False [''keyId''] [''keyId''])]"

definition NATIVE_TRANSCRIPT_V1_SPEC :: rspec where [schema_defs]:
  "NATIVE_TRANSCRIPT_V1_SPEC =
    RRecord
    [(''schema'', RIdentifier (Some [''keep.native-transcript''])),
     (''version'', RUint 1 1),
     (''subjectDigest'', RDigest ''SubjectDigest''),
     (''mechanism'', RIdentifier None),
     (''mechanismVersion'', RIdentifier None),
     (''capturedCounter'', RUint 0 u64_max),
     (''resultDigest'', RDigest ''ObservationResultDigest'')]"

definition NATIVE_TRANSPORT_IDENTITY_V1_SPEC :: rspec where [schema_defs]:
  "NATIVE_TRANSPORT_IDENTITY_V1_SPEC =
    RRecord
    [(''schema'', RIdentifier (Some [''keep.native-transport-identity''])),
     (''version'', RUint 1 1),
     (''transportKind'', RIdentifier (Some [''unix-seqpacket'', ''vsock''])),
     (''endpointIdentity'', RText None (Some pattern_identifier)),
     (''peerPolicyDigest'', RDigest ''PeerPolicyDigest'')]"

end
