(* ===== verification/P2_Schemas.thy ===== *)
theory P2_Schemas
  imports P2_Specs_A P2_Specs_B
begin

section \<open>The schema registry\<close>

text \<open>
  \<open>recursive_schema_spec\<close>, the field lists and the schema table of
  \<open>native/crates/protocol/src/p2_schema.rs\<close>.
\<close>

subsection \<open>The registry of recursive schemas\<close>

definition recursive_schemas :: "(string \<times> rspec) list" where
  "recursive_schemas =
    [(''B3CasOperationV1'', B3_CAS_OPERATION_V1_SPEC),
     (''B3GenesisOperationV1'', B3_GENESIS_OPERATION_V1_SPEC),
     (''B3InvalidationAckV1'', B3_INVALIDATION_ACK_V1_SPEC),
     (''B3InvalidationFrameV1'', B3_INVALIDATION_FRAME_V1_SPEC),
     (''B3LeaseOperationV1'', B3_LEASE_OPERATION_V1_SPEC),
     (''B3ReadOperationV1'', B3_READ_OPERATION_V1_SPEC),
     (''B3ReceiptV1'', B3_RECEIPT_V1_SPEC),
     (''B3StateV1'', B3_STATE_V1_SPEC),
     (''B3SubscribeOperationV1'', B3_SUBSCRIBE_OPERATION_V1_SPEC),
     (''NativeArtifactInventoryV1'', NATIVE_ARTIFACT_INVENTORY_V1_SPEC),
     (''NativeB3GenesisBaseV1'', NATIVE_B3_GENESIS_BASE_V1_SPEC),
     (''NativeB3ProfileV1'', NATIVE_B3_PROFILE_V1_SPEC),
     (''NativeBuildCommandV1'', NATIVE_BUILD_COMMAND_V1_SPEC),
     (''NativeBuildIdentityV1'', NATIVE_BUILD_IDENTITY_V1_SPEC),
     (''NativeComparisonV1'', NATIVE_COMPARISON_V1_SPEC),
     (''NativeControlPolicyV1'', NATIVE_CONTROL_POLICY_V1_SPEC),
     (''NativeControlV1'', NATIVE_CONTROL_V1_SPEC),
     (''NativeEnvironmentPolicyV1'', NATIVE_ENVIRONMENT_POLICY_V1_SPEC),
     (''NativeFdFlagsV1'', NATIVE_FD_FLAGS_V1_SPEC),
     (''NativeGenesisEpochV1'', NATIVE_GENESIS_EPOCH_V1_SPEC),
     (''NativeInvocationV1'', NATIVE_INVOCATION_V1_SPEC),
     (''NativeIoMaxV1'', NATIVE_IO_MAX_V1_SPEC),
     (''NativeJournalEntriesV1'', NATIVE_JOURNAL_ENTRIES_V1_SPEC),
     (''NativeJournalV1'', NATIVE_JOURNAL_V1_SPEC),
     (''NativeLandlockPolicyV1'', NATIVE_LANDLOCK_POLICY_V1_SPEC),
     (''NativeLandlockPolicyV2'', NATIVE_LANDLOCK_POLICY_V2_SPEC),
     (''NativeObservationResultV1'', NATIVE_OBSERVATION_RESULT_V1_SPEC),
     (''NativePackagePayloadV1'', NATIVE_PACKAGE_PAYLOAD_V1_SPEC),
     (''NativePeerPolicyV1'', NATIVE_PEER_POLICY_V1_SPEC),
     (''NativeProvenanceV1'', NATIVE_PROVENANCE_V1_SPEC),
     (''NativeReproducibilityRecordV1'', NATIVE_REPRODUCIBILITY_RECORD_V1_SPEC),
     (''NativeRevocationLocatorV1'', NATIVE_REVOCATION_LOCATOR_V1_SPEC),
     (''NativeRevocationRecoveryV1'', NATIVE_REVOCATION_RECOVERY_V1_SPEC),
     (''NativeRollbackAuthorizationV1'', NATIVE_ROLLBACK_AUTHORIZATION_V1_SPEC),
     (''NativeRootCeremonyRecordV1'', NATIVE_ROOT_CEREMONY_RECORD_V1_SPEC),
     (''NativeRootLocatorV1'', NATIVE_ROOT_LOCATOR_V1_SPEC),
     (''NativeRootV1'', NATIVE_ROOT_V1_SPEC),
     (''NativeSbomV1'', NATIVE_SBOM_V1_SPEC),
     (''NativeSeccompPolicyV1'', NATIVE_SECCOMP_POLICY_V1_SPEC),
     (''NativeTimestampV1'', NATIVE_TIMESTAMP_V1_SPEC),
     (''NativeToolchainClosureV1'', NATIVE_TOOLCHAIN_CLOSURE_V1_SPEC),
     (''NativeTranscriptV1'', NATIVE_TRANSCRIPT_V1_SPEC),
     (''NativeTransportIdentityV1'', NATIVE_TRANSPORT_IDENTITY_V1_SPEC)]"

definition recursive_schema_spec :: "string \<Rightarrow> rspec option" where
  "recursive_schema_spec name = map_of recursive_schemas name"

subsection \<open>Field lists\<close>

text \<open>A \<open>FieldSpec\<close> keeps only the name of the field.\<close>

definition GENESIS_EPOCH :: "string list" where [schema_defs]:
  "GENESIS_EPOCH =
    [''schema'', ''version'', ''trustClass'', ''rootId'', ''rootKeys'', ''rootThreshold'',
     ''participantIds'', ''minimumParticipants'', ''requiredOffline'', ''requiredWitnesses'',
     ''issuedCounter'', ''nonce'']"

definition ROOT :: "string list" where [schema_defs]:
  "ROOT =
    [''schema'', ''version'', ''trustClass'', ''rootId'', ''rootEpoch'', ''genesisEpochDigest'',
     ''predecessorRootEnvelopeDigest'', ''issuedCounter'', ''threshold'', ''rootKeys'',
     ''releaseKeys'', ''timestampKeys'', ''revocationKeys'', ''recoveryKeys'', ''b3Keys'',
     ''builderKeys'', ''comparerKeys'', ''keyEpochs'']"

definition CEREMONY :: "string list" where [schema_defs]:
  "CEREMONY =
    [''schema'', ''version'', ''trustClass'', ''ceremonyId'', ''rootEnvelopeDigest'',
     ''genesisCarrierDigest'', ''participantKeyIds'', ''requestDigest'', ''transcriptDigest'',
     ''issuedCounter'']"

definition TIMESTAMP :: "string list" where [schema_defs]:
  "TIMESTAMP =
    [''schema'', ''version'', ''trustClass'', ''nativeClosureBaseDigest'', ''artifactVersion'',
     ''deploymentEpoch'', ''releaseKeyEpoch'', ''timestampKeyEpoch'', ''issuedCounter'',
     ''expiresCounter'', ''revocationCheckpointEnvelopeDigest'', ''revocationSequence'']"

definition ROLLBACK :: "string list" where [schema_defs]:
  "ROLLBACK =
    [''schema'', ''version'', ''trustClass'', ''authorizationId'',
     ''fromDeploymentEnvelopeDigest'', ''fromDeploymentEpoch'', ''fromArtifactVersion'',
     ''toDeploymentBaseDigest'', ''toDeploymentEpoch'', ''toArtifactVersion'',
     ''minimumArtifactVersion'', ''predecessorDigest'', ''issuedCounter'', ''expiresCounter'',
     ''nonce'']"

definition RECOVERY :: "string list" where [schema_defs]:
  "RECOVERY =
    [''schema'', ''version'', ''trustClass'', ''recoveryId'', ''authorityId'', ''namespace'',
     ''scope'', ''expectedB3State'', ''proposedB3StateProjection'',
     ''quarantinedHeadEnvelopeDigests'', ''selectedHeadEnvelopeDigest'', ''selectedSequence'',
     ''issuedCounter'', ''expiresCounter'', ''reasonCode'', ''transcriptDigest'']"

definition B3_GENESIS_BASE :: "string list" where [schema_defs]:
  "B3_GENESIS_BASE =
    [''schema'', ''version'', ''trustClass'', ''authorityId'', ''namespace'', ''scope'',
     ''headSequence'', ''headEnvelopeDigest'', ''deploymentEpoch'', ''artifactFloor'',
     ''counter'']"

definition B3_PROFILE :: "string list" where [schema_defs]:
  "B3_PROFILE =
    [''schema'', ''version'', ''trustClass'', ''authorityId'', ''b0RootEnvelopeDigest'',
     ''genesisBaseDigest'', ''predecessorProfileEnvelopeDigest'', ''algorithm'', ''keyId'',
     ''keyEpoch'', ''publicKey'', ''validFromCounter'', ''validUntilCounter'',
     ''transportIdentityDigest'', ''maxHeartbeatIntervalMs'']"

definition B3_STATE :: "string list" where [schema_defs]:
  "B3_STATE =
    [''scopeKey'', ''generation'', ''rootEpoch'', ''rootEnvelopeDigest'',
     ''b3ProfileEnvelopeDigest'', ''headSequence'', ''headEnvelopeDigest'', ''deploymentEpoch'',
     ''artifactFloor'', ''counter'', ''quarantined'', ''quarantineDigest'',
     ''consumedAuthorization'']"

definition B3_RECEIPT :: "string list" where [schema_defs]:
  "B3_RECEIPT =
    [''schema'', ''version'', ''operationKind'', ''authorityId'', ''b3ProfileEnvelopeDigest'',
     ''scopeKey'', ''priorStateDigest'', ''newStateDigest'', ''operationDigest'',
     ''requestNonce'', ''generation'', ''counter'', ''committed'', ''keyId'', ''keyEpoch'']"

definition B3_FRAME :: "string list" where [schema_defs]:
  "B3_FRAME =
    [''schema'', ''version'', ''authorityId'', ''b3ProfileEnvelopeDigest'', ''scopeKey'',
     ''sessionId'', ''frameKind'', ''sequence'', ''priorGeneration'', ''newGeneration'',
     ''newStateDigest'', ''counter'', ''requestNonce'', ''priorAckDigest'']"

definition B3_ACK :: "string list" where [schema_defs]:
  "B3_ACK =
    [''schema'', ''version'', ''sessionId'', ''sequence'', ''frameEnvelopeDigest'',
     ''requestNonce'']"

definition AUX_TRANSCRIPT :: "string list" where [schema_defs]:
  "AUX_TRANSCRIPT =
    [''schema'', ''version'', ''subjectDigest'', ''mechanism'', ''mechanismVersion'',
     ''capturedCounter'', ''resultDigest'']"

definition AUX_CONTROL :: "string list" where [schema_defs]:
  "AUX_CONTROL =
    [''schema'', ''version'', ''controlId'', ''subjectDigest'', ''policyDigest'']"

definition AUX_JOURNAL :: "string list" where [schema_defs]:
  "AUX_JOURNAL =
    [''schema'', ''version'', ''deploymentId'', ''bootId'', ''sequence'',
     ''previousJournalDigest'', ''entriesDigest'']"

definition AUX_FD_FLAGS :: "string list" where [schema_defs]:
  "AUX_FD_FLAGS =
    [''schema'', ''version'', ''flags'', ''closeOnExec'', ''seals'']"

definition AUX_TRANSPORT :: "string list" where [schema_defs]:
  "AUX_TRANSPORT =
    [''schema'', ''version'', ''transportKind'', ''endpointIdentity'', ''peerPolicyDigest'']"

definition AUX_INVOCATION :: "string list" where [schema_defs]:
  "AUX_INVOCATION =
    [''schema'', ''version'', ''buildId'', ''commandDigest'', ''environmentPolicyDigest'',
     ''inputs'']"

definition AUX_ENVIRONMENT :: "string list" where [schema_defs]:
  "AUX_ENVIRONMENT =
    [''schema'', ''version'', ''allowedVariables'', ''workingDirectoryPolicy'', ''networkPolicy'']"

definition AUX_COMPARISON :: "string list" where [schema_defs]:
  "AUX_COMPARISON =
    [''schema'', ''version'', ''algorithm'', ''leftSubjectDigest'', ''rightSubjectDigest'',
     ''disagreementsDigest'']"

definition OBSERVATION_RESULT :: "string list" where [schema_defs]:
  "OBSERVATION_RESULT =
    [''schema'', ''version'', ''resultCode'', ''facts'']"

definition CONTROL_POLICY :: "string list" where [schema_defs]:
  "CONTROL_POLICY =
    [''schema'', ''version'', ''controlId'', ''decisionClass'', ''requirements'']"

definition JOURNAL_ENTRIES :: "string list" where [schema_defs]:
  "JOURNAL_ENTRIES =
    [''schema'', ''version'', ''entries'']"

definition PEER_POLICY :: "string list" where [schema_defs]:
  "PEER_POLICY =
    [''schema'', ''version'', ''requiredUid'', ''requiredGid'', ''requiredSecurityLabel'']"

definition ARTIFACT_INVENTORY :: "string list" where [schema_defs]:
  "ARTIFACT_INVENTORY =
    [''schema'', ''version'', ''buildId'', ''targetTriple'', ''variant'', ''rows'']"

definition PACKAGE_PAYLOAD :: "string list" where [schema_defs]:
  "PACKAGE_PAYLOAD =
    [''schema'', ''version'', ''buildId'', ''targetTriple'', ''variant'',
     ''nativeArtifactInventoryDigest'', ''members'']"

definition TOOLCHAIN :: "string list" where [schema_defs]:
  "TOOLCHAIN =
    [''schema'', ''version'', ''toolchainId'', ''targetTriple'', ''variant'', ''compilerDigest'',
     ''sysrootDigest'', ''linkerDigest'', ''vendorDigest'', ''containerDigest'',
     ''environmentPolicyDigest'', ''entries'']"

definition SBOM :: "string list" where [schema_defs]:
  "SBOM =
    [''schema'', ''version'', ''buildId'', ''targetTriple'', ''variant'',
     ''nativeArtifactInventoryDigest'', ''packages'']"

definition PROVENANCE :: "string list" where [schema_defs]:
  "PROVENANCE =
    [''schema'', ''version'', ''builderId'', ''builderIdentityEnvelopeDigest'', ''buildType'',
     ''buildId'', ''targetTriple'', ''variant'', ''nativeArtifactInventoryDigest'',
     ''nativePackagePayloadDigest'', ''toolchainClosureEnvelopeDigest'', ''invocationDigest'',
     ''materials'', ''subjects'', ''startedCounter'', ''finishedCounter'']"

definition REPRO :: "string list" where [schema_defs]:
  "REPRO =
    [''schema'', ''version'', ''comparerIdentityEnvelopeDigest'', ''buildId'', ''targetTriple'',
     ''variant'', ''nativeArtifactInventoryDigest'', ''nativePackagePayloadDigest'',
     ''toolchainClosureEnvelopeDigest'', ''builderProvenanceEnvelopeDigests'',
     ''comparisonAlgorithm'', ''comparisonDigest'', ''disagreements'']"

definition BUILD_IDENTITY :: "string list" where [schema_defs]:
  "BUILD_IDENTITY =
    [''schema'', ''version'', ''trustClass'', ''identityKind'', ''identityId'',
     ''administrativeDomain'', ''toolchainLineageDigest'', ''keyId'', ''keyEpoch'',
     ''publicKey'', ''validFromCounter'', ''validUntilCounter'']"

definition ROOT_LOCATOR :: "string list" where [schema_defs]:
  "ROOT_LOCATOR =
    [''schema'', ''version'', ''rootEpoch'', ''rootEnvelopeDigest'']"

definition REVOCATION_LOCATOR :: "string list" where [schema_defs]:
  "REVOCATION_LOCATOR =
    [''schema'', ''version'', ''sequence'', ''revocationEnvelopeDigest'']"

definition BUILD_COMMAND :: "string list" where [schema_defs]:
  "BUILD_COMMAND =
    [''schema'', ''version'', ''executableDigest'', ''arguments'']"

definition IO_MAX :: "string list" where [schema_defs]:
  "IO_MAX =
    [''schema'', ''version'', ''defaultPolicy'', ''rows'']"

definition LANDLOCK :: "string list" where [schema_defs]:
  "LANDLOCK =
    [''schema'', ''version'', ''minimumAbi'', ''handledFilesystemRights'',
     ''handledNetworkRights'', ''handledScopeRights'', ''rules'']"

definition LANDLOCK_V2 :: "string list" where [schema_defs]:
  "LANDLOCK_V2 =
    [''schema'', ''version'', ''minimumAbi'', ''effectiveAbi'', ''reviewedMaximumAbi'',
     ''handledFilesystemRights'', ''handledNetworkRights'', ''handledScopeRights'', ''rules'']"

definition SECCOMP :: "string list" where [schema_defs]:
  "SECCOMP =
    [''schema'', ''version'', ''architecture'', ''defaultAction'', ''rules'']"

definition SCOPE_KEYS :: "string list" where
  "SCOPE_KEYS = [''authorityId'', ''namespace'', ''scope'', ''genesisRootDigest'']"

definition OP_COMMON :: "string list" where [schema_defs]:
  "OP_COMMON =
    [''schema'', ''version'', ''operationKind'']"

definition OP_GENESIS :: "string list" where [schema_defs]:
  "OP_GENESIS =
    [''schema'', ''version'', ''operationKind'', ''genesisBaseDigest'', ''b0RootEnvelopeDigest'',
     ''b3ProfileEnvelopeDigest'', ''derivedGenesisStateDigest'', ''requestNonce'']"

definition OP_READ :: "string list" where [schema_defs]:
  "OP_READ =
    [''schema'', ''version'', ''operationKind'', ''scopeKey'', ''requestNonce'']"

definition OP_CAS :: "string list" where [schema_defs]:
  "OP_CAS =
    [''schema'', ''version'', ''operationKind'', ''scopeKey'', ''expectedStateDigest'',
     ''newStateDigest'', ''callerPurpose'', ''requestNonce'']"

definition OP_LEASE :: "string list" where [schema_defs]:
  "OP_LEASE =
    [''schema'', ''version'', ''operationKind'', ''scopeKey'', ''generation'',
     ''headEnvelopeDigest'', ''b3CounterCeiling'', ''requestNonce'']"

definition OP_SUBSCRIBE :: "string list" where [schema_defs]:
  "OP_SUBSCRIBE =
    [''schema'', ''version'', ''operationKind'', ''scopeKey'', ''generation'', ''sessionId'',
     ''requestNonce'']"

subsection \<open>Schemas\<close>

datatype schema_shape = SUnsigned | SEnvelope | SRootEnvelope

record schema_spec =
  ss_name :: string
  ss_schema :: string
  ss_shape :: schema_shape
  ss_fields :: "string list"
  ss_signature_domain :: "bytes option"
  ss_maximum_bytes :: nat

definition MAX_ENVELOPE_BYTES :: nat where [limit_defs]: "MAX_ENVELOPE_BYTES = 4 * 1024 * 1024"
definition MAX_EVIDENCE_BYTES :: nat where [limit_defs]: "MAX_EVIDENCE_BYTES = 8 * 1024 * 1024"
definition MAX_SIGNATURES :: nat where [limit_defs]: "MAX_SIGNATURES = 64"

text \<open>The \<open>schema!\<close> macro; a signature domain ends with a zero byte.\<close>

definition schema_row ::
  "string \<Rightarrow> string \<Rightarrow> schema_shape \<Rightarrow> string list \<Rightarrow> string option \<Rightarrow> schema_spec" where
  "schema_row name schema shape fs domain =
     \<lparr>ss_name = name, ss_schema = schema, ss_shape = shape, ss_fields = fs,
      ss_signature_domain = map_option (\<lambda>d. str_bytes d @ [0]) domain,
      ss_maximum_bytes = MAX_ENVELOPE_BYTES\<rparr>"

definition P2_SCHEMAS_1 :: "schema_spec list" where
  "P2_SCHEMAS_1 =
    [schema_row ''NativeBuildIdentityV1'' ''keep.native-build-identity'' SEnvelope BUILD_IDENTITY (Some ''keep.native-build-identity/v1''),
     schema_row ''NativeArtifactInventoryV1'' ''keep.native-artifact-inventory'' SUnsigned ARTIFACT_INVENTORY None,
     schema_row ''NativePackagePayloadV1'' ''keep.native-package-payload'' SUnsigned PACKAGE_PAYLOAD None,
     schema_row ''NativeToolchainClosureV1'' ''keep.native-toolchain'' SEnvelope TOOLCHAIN (Some ''keep.native-toolchain/v1''),
     schema_row ''NativeSbomV1'' ''keep.native-sbom'' SEnvelope SBOM (Some ''keep.native-sbom/v1''),
     schema_row ''NativeProvenanceV1'' ''keep.native-provenance'' SEnvelope PROVENANCE (Some ''keep.native-provenance/v1''),
     schema_row ''NativeReproducibilityRecordV1'' ''keep.native-repro'' SEnvelope REPRO (Some ''keep.native-repro/v1''),
     schema_row ''NativeRootLocatorV1'' ''keep.native-root-locator'' SUnsigned ROOT_LOCATOR None,
     schema_row ''NativeRevocationLocatorV1'' ''keep.native-revocation-locator'' SUnsigned REVOCATION_LOCATOR None,
     schema_row ''NativeGenesisEpochV1'' ''keep.native-genesis-epoch'' SUnsigned GENESIS_EPOCH None,
     schema_row ''NativeRootV1'' ''keep.native-root'' SRootEnvelope ROOT None,
     schema_row ''NativeRootCeremonyRecordV1'' ''keep.native-root-ceremony'' SEnvelope CEREMONY (Some ''keep.native-root-ceremony/v1''),
     schema_row ''NativeTimestampV1'' ''keep.native-timestamp'' SEnvelope TIMESTAMP (Some ''keep.native-timestamp/v1''),
     schema_row ''NativeRollbackAuthorizationV1'' ''keep.native-rollback'' SEnvelope ROLLBACK (Some ''keep.native-rollback/v1''),
     schema_row ''NativeRevocationRecoveryV1'' ''keep.native-revocation-recovery'' SEnvelope RECOVERY (Some ''keep.native-revocation-recovery/v1''),
     schema_row ''NativeB3GenesisBaseV1'' ''keep.native-b3-genesis-base'' SUnsigned B3_GENESIS_BASE None,
     schema_row ''B3StateV1'' ''keep.native-b3-state'' SUnsigned B3_STATE None,
     schema_row ''NativeB3ProfileV1'' ''keep.native-b3-profile'' SEnvelope B3_PROFILE (Some ''keep.native-b3-profile/v1''),
     schema_row ''B3ReceiptV1'' ''keep.native-b3-receipt'' SEnvelope B3_RECEIPT (Some ''keep.native-b3-receipt/v1'')]"

definition P2_SCHEMAS_2 :: "schema_spec list" where
  "P2_SCHEMAS_2 =
    [schema_row ''B3InvalidationFrameV1'' ''keep.native-b3-invalidation'' SEnvelope B3_FRAME (Some ''keep.native-b3-invalidation/v1''),
     schema_row ''B3InvalidationAckV1'' ''keep.native-b3-invalidation-ack'' SUnsigned B3_ACK None,
     schema_row ''NativeTranscriptV1'' ''keep.native-transcript'' SUnsigned AUX_TRANSCRIPT None,
     schema_row ''NativeControlV1'' ''keep.native-control'' SUnsigned AUX_CONTROL None,
     schema_row ''NativeJournalV1'' ''keep.native-journal'' SUnsigned AUX_JOURNAL None,
     schema_row ''NativeFdFlagsV1'' ''keep.native-fd-flags'' SUnsigned AUX_FD_FLAGS None,
     schema_row ''NativeTransportIdentityV1'' ''keep.native-transport-identity'' SUnsigned AUX_TRANSPORT None,
     schema_row ''NativeInvocationV1'' ''keep.native-invocation'' SUnsigned AUX_INVOCATION None,
     schema_row ''NativeEnvironmentPolicyV1'' ''keep.native-environment-policy'' SUnsigned AUX_ENVIRONMENT None,
     schema_row ''NativeComparisonV1'' ''keep.native-comparison'' SUnsigned AUX_COMPARISON None,
     schema_row ''NativeObservationResultV1'' ''keep.native-observation-result'' SUnsigned OBSERVATION_RESULT None,
     schema_row ''NativeControlPolicyV1'' ''keep.native-control-policy'' SUnsigned CONTROL_POLICY None,
     schema_row ''NativeJournalEntriesV1'' ''keep.native-journal-entries'' SUnsigned JOURNAL_ENTRIES None,
     schema_row ''NativePeerPolicyV1'' ''keep.native-peer-policy'' SUnsigned PEER_POLICY None,
     schema_row ''NativeBuildCommandV1'' ''keep.native-build-command'' SUnsigned BUILD_COMMAND None,
     schema_row ''NativeIoMaxV1'' ''keep.native-io-max'' SUnsigned IO_MAX None,
     schema_row ''NativeLandlockPolicyV1'' ''keep.native-landlock-policy'' SUnsigned LANDLOCK None,
     schema_row ''NativeLandlockPolicyV2'' ''keep.native-landlock-policy'' SUnsigned LANDLOCK_V2 None,
     schema_row ''NativeSeccompPolicyV1'' ''keep.native-seccomp-policy'' SUnsigned SECCOMP None]"

definition P2_SCHEMAS :: "schema_spec list" where
  "P2_SCHEMAS = P2_SCHEMAS_1 @ P2_SCHEMAS_2"

definition B3_OPERATION_SCHEMAS :: "schema_spec list" where
  "B3_OPERATION_SCHEMAS =
    [schema_row ''B3GenesisOperationV1'' ''keep.native-b3-operation'' SUnsigned OP_GENESIS (Some ''keep.native-b3-genesis-operation/v1''),
     schema_row ''B3ReadOperationV1'' ''keep.native-b3-operation'' SUnsigned OP_READ (Some ''keep.native-b3-read/v1''),
     schema_row ''B3CasOperationV1'' ''keep.native-b3-operation'' SUnsigned OP_CAS (Some ''keep.native-b3-cas/v1''),
     schema_row ''B3LeaseOperationV1'' ''keep.native-b3-operation'' SUnsigned OP_LEASE (Some ''keep.native-b3-lease/v1''),
     schema_row ''B3SubscribeOperationV1'' ''keep.native-b3-operation'' SUnsigned OP_SUBSCRIBE (Some ''keep.native-b3-subscribe/v1'')]"

end
