(* ===== verification/P2_Spec_Props.thy ===== *)
theory P2_Spec_Props
  imports P2_Schemas
begin

section \<open>What the recursive schemas admit\<close>

text \<open>
  The well-formedness of the schema tables, the set of values a schema admits stated without the
  validator's loops (\<open>conforms\<close>), and the agreement of the two; the description of a schema
  determines it.
\<close>

subsection \<open>Well-formed schemas\<close>

definition known_pattern :: "string \<Rightarrow> bool" where
  "known_pattern p \<longleftrightarrow> p \<in> {pattern_identifier, pattern_artifact, pattern_absolute, pattern_relative}"

definition enum_ok :: "string list option \<Rightarrow> bool" where
  "enum_ok vals \<longleftrightarrow> (case vals of None \<Rightarrow> True | Some ts \<Rightarrow> ts \<noteq> [] \<and> distinct ts)"

fun scalar_spec :: "rspec \<Rightarrow> bool" where
  "scalar_spec (RIdentifier _) \<longleftrightarrow> True"
| "scalar_spec (RText _ _) \<longleftrightarrow> True"
| "scalar_spec (RDigest _) \<longleftrightarrow> True"
| "scalar_spec (RUint _ _) \<longleftrightarrow> True"
| "scalar_spec _ \<longleftrightarrow> False"

text \<open>The keys an array is ordered by are scalar fields of every form its items can take.\<close>

function key_field :: "string \<Rightarrow> rspec \<Rightarrow> bool" where
  "key_field k (RRecord fs) \<longleftrightarrow> (case map_of fs k of None \<Rightarrow> False | Some s \<Rightarrow> scalar_spec s)"
| "key_field k (ROneOf ss) \<longleftrightarrow> (\<forall>s\<in>set ss. key_field k s)"
| "key_field k (RTagged tag vs) \<longleftrightarrow> (\<forall>x\<in>set vs. key_field k (snd x))"
| "key_field k (RIdentifier _) \<longleftrightarrow> False"
| "key_field k (RText _ _) \<longleftrightarrow> False"
| "key_field k (RUint _ _) \<longleftrightarrow> False"
| "key_field k RBoolean \<longleftrightarrow> False"
| "key_field k (RDigest _) \<longleftrightarrow> False"
| "key_field k (RBytes _ _) \<longleftrightarrow> False"
| "key_field k (RNullable _) \<longleftrightarrow> False"
| "key_field k (RArray _ _ _ _ _ _) \<longleftrightarrow> False"
  by pat_completeness auto
termination by (relation "measure (\<lambda>(k, s). size s)") auto

definition tagged_ok :: "string \<Rightarrow> string \<times> rspec \<Rightarrow> bool" where
  "tagged_ok tag x \<longleftrightarrow> (case snd x of
       RRecord fs \<Rightarrow> map_of fs tag = Some (RIdentifier (Some [fst x]))
     | _ \<Rightarrow> False)"

function wf_spec :: "rspec \<Rightarrow> bool" where
  "wf_spec (RIdentifier vals) \<longleftrightarrow> enum_ok vals"
| "wf_spec (RText vals pattern) \<longleftrightarrow>
     enum_ok vals \<and> (case pattern of None \<Rightarrow> True | Some p \<Rightarrow> known_pattern p)"
| "wf_spec (RUint minimum maximum) \<longleftrightarrow> minimum \<le> maximum"
| "wf_spec RBoolean \<longleftrightarrow> True"
| "wf_spec (RDigest semantic) \<longleftrightarrow> semantic \<noteq> []"
| "wf_spec (RBytes exact_len maximum) \<longleftrightarrow>
     (case exact_len of None \<Rightarrow> True
      | Some n \<Rightarrow> n \<le> (case maximum of None \<Rightarrow> 1024 * 1024 | Some k \<Rightarrow> k))"
| "wf_spec (RNullable inner) \<longleftrightarrow> wf_spec inner"
| "wf_spec (ROneOf ss) \<longleftrightarrow> ss \<noteq> [] \<and> (\<forall>s\<in>set ss. wf_spec s)"
| "wf_spec (RRecord fs) \<longleftrightarrow> distinct (map fst fs) \<and> (\<forall>x\<in>set fs. wf_spec (snd x))"
| "wf_spec (RArray item minimum maximum sorted_scalar sort_by unique_by) \<longleftrightarrow>
     minimum \<le> maximum \<and> wf_spec item
     \<and> (if sorted_scalar then scalar_spec item \<and> sort_by = [] \<and> unique_by = []
        else \<forall>k\<in>set (sort_by @ unique_by). key_field k item)"
| "wf_spec (RTagged tag vs) \<longleftrightarrow>
     vs \<noteq> [] \<and> distinct (map fst vs) \<and> (\<forall>x\<in>set vs. tagged_ok tag x \<and> wf_spec (snd x))"
  by pat_completeness auto
termination by (relation "measure size") auto

subsection \<open>The values a schema admits\<close>

definition in_enum :: "string list option \<Rightarrow> string \<Rightarrow> bool" where
  "in_enum vals t \<longleftrightarrow> (case vals of None \<Rightarrow> True | Some ts \<Rightarrow> t \<in> set ts)"

definition identifier_form :: "string \<Rightarrow> bool" where
  "identifier_form t \<longleftrightarrow> t \<noteq> [] \<and> length t \<le> 128
     \<and> (\<forall>i<length t. identifier_byte i (byte_of_char (t ! i)))"

definition ordered_by :: "string list \<Rightarrow> val list \<Rightarrow> bool" where
  "ordered_by keys items \<longleftrightarrow>
     (\<exists>ks. traverse (\<lambda>c. recursive_key c keys) items = Inr ks \<and> sorted_wrt (<) ks)"

definition identified_by :: "string list \<Rightarrow> val list \<Rightarrow> bool" where
  "identified_by keys items \<longleftrightarrow>
     (\<exists>ks. traverse (\<lambda>c. recursive_key c keys) items = Inr ks \<and> distinct ks)"

function conforms :: "rspec \<Rightarrow> val \<Rightarrow> bool" where
  "conforms (RIdentifier vals) v \<longleftrightarrow> (\<exists>t. v = Text t \<and> identifier_form t \<and> in_enum vals t)"
| "conforms (RText vals pattern) v \<longleftrightarrow>
     (\<exists>t. v = Text t \<and> length t \<le> 4096 \<and> ascii_profile (str_bytes t) \<and> in_enum vals t
        \<and> (\<forall>p. pattern = Some p \<longrightarrow> validate_text_pattern t p))"
| "conforms (RUint minimum maximum) v \<longleftrightarrow> (\<exists>n. v = Unsigned n \<and> minimum \<le> n \<and> n \<le> maximum)"
| "conforms RBoolean v \<longleftrightarrow> (\<exists>b. v = Bool b)"
| "conforms (RDigest semantic) v \<longleftrightarrow> (\<exists>t. v = Text t \<and> is_ok (parse_digest t))"
| "conforms (RBytes exact_len maximum) v \<longleftrightarrow>
     (\<exists>bs. v = Bytes bs \<and> (\<forall>n. exact_len = Some n \<longrightarrow> length bs = n)
        \<and> length bs \<le> (case maximum of None \<Rightarrow> 1024 * 1024 | Some n \<Rightarrow> n))"
| "conforms (RNullable inner) v \<longleftrightarrow> v = Null \<or> conforms inner v"
| "conforms (ROneOf ss) v \<longleftrightarrow> (\<exists>s\<in>set ss. conforms s v)"
| "conforms (RRecord fs) v \<longleftrightarrow>
     (\<exists>rows. v = Map rows \<and> fst ` set rows = fst ` set fs
        \<and> (\<forall>x\<in>set fs. \<forall>child. (fst x, child) \<in> set rows \<longrightarrow> conforms (snd x) child))"
| "conforms (RArray item minimum maximum sorted_scalar sort_keys unique_keys) v \<longleftrightarrow>
     (\<exists>items. v = Array items \<and> minimum \<le> length items \<and> length items \<le> maximum
        \<and> (\<forall>child\<in>set items. conforms item child)
        \<and> (if sorted_scalar then \<exists>ts. items = map Text ts \<and> sorted_wrt (<) ts
           else (sort_keys \<noteq> [] \<longrightarrow> ordered_by sort_keys items)
              \<and> (unique_keys \<noteq> [] \<longrightarrow> identified_by unique_keys items)))"
| "conforms (RTagged tag vs) v \<longleftrightarrow>
     (\<exists>x\<in>set vs. val_field v tag = Some (Text (fst x)) \<and> conforms (snd x) v)"
  by pat_completeness auto
termination
  by (relation "measure (\<lambda>(s, v). size s)") auto

subsection \<open>The array loop\<close>

definition follows :: "string option \<Rightarrow> string list \<Rightarrow> bool" where
  "follows previous ks \<longleftrightarrow>
     sorted_wrt (<) ks \<and> (\<forall>p. previous = Some p \<longrightarrow> (\<forall>k\<in>set ks. p < k))"

lemma follows_simps [simp]:
  "follows previous []"
  "follows None (k # ks) \<longleftrightarrow> follows (Some k) ks"
  "follows (Some p) (k # ks) \<longleftrightarrow> p < k \<and> follows (Some k) ks"
  by (auto simp: follows_def)

lemma follows_None: "follows None ks \<longleftrightarrow> sorted_wrt (<) ks"
  by (simp add: follows_def)

lemma p2_text_iff: "p2_text v = Inr t \<longleftrightarrow> v = Text t"
  by (cases v) (simp_all add: p2_text_def)

lemma array_sorted:
  "is_ok (fold_res (array_step check True sb ub) items (previous, seen)) \<longleftrightarrow>
     (\<forall>c\<in>set items. is_ok (check c)) \<and> (\<exists>ts. items = map Text ts \<and> follows previous ts)"
proof (induction items arbitrary: previous seen)
  case (Cons c items)
  show ?case
  proof (cases "is_ok (check c)")
    case True
    then obtain u where u: "check c = Inr u" by (auto simp: is_ok_iff)
    show ?thesis
    proof (cases c)
      case (Text t)
      then show ?thesis using u Cons.IH [of "Some t" seen]
        by (cases previous) (auto simp: array_step_def p2_text_def Cons_eq_map_conv not_le)
    qed (use u in \<open>auto simp: array_step_def p2_text_def Cons_eq_map_conv\<close>)
  qed (auto simp: is_ok_iff array_step_def bnd_eq_Inr)
qed simp

lemma array_keyed:
  assumes "sb \<noteq> [] \<or> ub \<noteq> []"
  shows "is_ok (fold_res (array_step check False sb ub) items (previous, seen)) \<longleftrightarrow>
     (\<forall>c\<in>set items. is_ok (check c))
     \<and> (sb \<noteq> [] \<longrightarrow> (\<exists>ks. traverse (\<lambda>c. recursive_key c sb) items = Inr ks \<and> follows previous ks))
     \<and> (\<exists>ks. traverse (\<lambda>c. recursive_key c (if ub = [] then sb else ub)) items = Inr ks
          \<and> distinct ks \<and> set ks \<inter> seen = {})"
proof (induction items arbitrary: previous seen)
  case (Cons c items)
  let ?idk = "if ub = [] then sb else ub"
  consider "\<not> is_ok (check c)" | "is_ok (check c)" "\<not> is_ok (recursive_key c ?idk)"
    | "is_ok (check c)" "sb \<noteq> []" "\<not> is_ok (recursive_key c sb)"
    | "is_ok (check c)" "is_ok (recursive_key c ?idk)" "sb \<noteq> [] \<longrightarrow> is_ok (recursive_key c sb)"
    by blast
  then show ?case
  proof cases
    case 4
    then obtain u i where u: "check c = Inr u" "recursive_key c ?idk = Inr i" by (auto simp: is_ok_iff)
    show ?thesis
    proof (cases "sb = []")
      case True
      then show ?thesis using u assms Cons.IH [of None "insert i seen"]
        by (auto simp: array_step_def bnd_eq_Inr)
    next
      case False
      with 4 obtain k where k: "recursive_key c sb = Inr k" by (auto simp: is_ok_iff)
      show ?thesis using u k False Cons.IH [of "Some k" "insert i seen"]
        by (cases previous) (auto simp: array_step_def bnd_eq_Inr not_le)
    qed
  qed (use assms in \<open>auto simp: array_step_def is_ok_iff bnd_eq_Inr split: if_splits\<close>)
qed simp

lemma array_plain:
  "is_ok (fold_res (array_step check False [] []) items (previous, seen)) \<longleftrightarrow> (\<forall>c\<in>set items. is_ok (check c))"
  by (induction items arbitrary: previous seen) (auto simp: array_step_def is_ok_iff bnd_eq_Inr)

subsection \<open>The validator accepts exactly the values a schema admits\<close>

lemma unit_ok: "is_ok r \<longleftrightarrow> r = Inr ()" for r :: "('e, unit) res"
  by (auto simp: is_ok_iff)

lemma p2_identifier_iff: "p2_identifier v = Inr t \<longleftrightarrow> v = Text t \<and> identifier_form t"
  by (auto simp: p2_identifier_def identifier_form_def bnd_eq_Inr p2_text_iff list_all_length
      str_bytes_def split: if_splits)

lemma record_names:
  assumes "distinct (map fst rows)" and "distinct (map fst fs)"
  shows "length rows = length fs \<and> (\<forall>x\<in>set fs. fst x \<in> fst ` set rows) \<longleftrightarrow> fst ` set rows = fst ` set fs"
proof -
  have c: "card (fst ` set rows) = length rows" "card (fst ` set fs) = length fs"
    using distinct_card [OF assms(1)] distinct_card [OF assms(2)] by simp_all
  show ?thesis
  proof
    assume a: "length rows = length fs \<and> (\<forall>x\<in>set fs. fst x \<in> fst ` set rows)"
    then have "fst ` set fs \<subseteq> fst ` set rows" by auto
    then have "fst ` set fs = fst ` set rows" using a c by (intro card_subset_eq) auto
    then show "fst ` set rows = fst ` set fs" ..
  next
    assume "fst ` set rows = fst ` set fs"
    moreover from this have "length rows = length fs" using c by simp
    ultimately show "length rows = length fs \<and> (\<forall>x\<in>set fs. fst x \<in> fst ` set rows)"
      by (metis imageI)
  qed
qed

lemma p2_field_Map:
  assumes "distinct (map fst rows)"
  shows "p2_field (Map rows) name = Inr child \<longleftrightarrow> (name, child) \<in> set rows"
  using assms by (simp add: p2_field_def)

lemma find_variant:
  assumes "distinct (map fst vs)"
  shows "find (\<lambda>x. fst x = name) vs = Some x \<longleftrightarrow> x \<in> set vs \<and> fst x = name"
  using assms
proof (induction vs)
  case (Cons y vs)
  then show ?case by (auto simp: image_iff)
qed simp

lemma validate_record:
  assumes "distinct (map fst rows)" and "distinct (map fst fs)"
    and check: "\<And>x child. x \<in> set fs \<Longrightarrow> (fst x, child) \<in> set rows \<Longrightarrow>
      validate_recursive child (snd x) = Inr () \<longleftrightarrow> conforms (snd x) child"
  shows "validate_recursive (Map rows) (RRecord fs) = Inr () \<longleftrightarrow> conforms (RRecord fs) (Map rows)"
proof -
  have one: "is_ok (bnd (p2_field (Map rows) (fst x)) (\<lambda>child. validate_recursive child (snd x)))
      \<longleftrightarrow> fst x \<in> fst ` set rows \<and> (\<forall>child. (fst x, child) \<in> set rows \<longrightarrow> conforms (snd x) child)"
    if x: "x \<in> set fs" for x
  proof (cases "fst x \<in> fst ` set rows")
    case True
    then obtain c where c: "(fst x, c) \<in> set rows" by auto
    then have unique: "(fst x, child) \<in> set rows \<longleftrightarrow> child = c" for child
      using assms(1) by (auto dest: eq_key_imp_eq_value)
    have "p2_field (Map rows) (fst x) = Inr c" using c by (simp add: p2_field_Map [OF assms(1)])
    then show ?thesis using check [OF x c] True unique by (simp add: unit_ok)
  next
    case False
    then have "\<not> is_ok (p2_field (Map rows) (fst x))"
      by (force simp: is_ok_iff p2_field_Map [OF assms(1)] simp del: p2_field_def)
    then show ?thesis using False by (auto simp: is_ok_iff bnd_eq_Inr)
  qed
  have "validate_recursive (Map rows) (RRecord fs) = Inr () \<longleftrightarrow>
      length rows = length fs \<and> (\<forall>x\<in>set fs. fst x \<in> fst ` set rows)
      \<and> (\<forall>x\<in>set fs. \<forall>child. (fst x, child) \<in> set rows \<longrightarrow> conforms (snd x) child)"
    by (simp add: p2_entries_def for_all_ok one) blast
  then show ?thesis using record_names [OF assms(1,2)] by simp blast
qed

lemma validate_array:
  assumes check: "\<And>child. child \<in> set items \<Longrightarrow> is_ok (validate_recursive child item) \<longleftrightarrow> conforms item child"
    and "sorted_scalar \<Longrightarrow> sb = [] \<and> ub = []"
  shows "validate_recursive (Array items) (RArray item n k sorted_scalar sb ub) = Inr () \<longleftrightarrow>
    conforms (RArray item n k sorted_scalar sb ub) (Array items)"
proof -
  have all: "(\<forall>c\<in>set items. is_ok (validate_recursive c item)) \<longleftrightarrow> (\<forall>c\<in>set items. conforms item c)"
    using check by simp
  have run: "validate_recursive (Array items) (RArray item n k sorted_scalar sb ub) = Inr () \<longleftrightarrow>
      n \<le> length items \<and> length items \<le> k
      \<and> is_ok (fold_res (array_step (\<lambda>c. validate_recursive c item) sorted_scalar sb ub) items (None, {}))"
    by (auto simp: is_ok_iff bnd_eq_Inr)
  have sorted_distinct: "distinct ks" if "sorted_wrt (<) ks" for ks :: "string list"
    using that by (simp add: strict_sorted_iff)
  show ?thesis
  proof (cases sorted_scalar)
    case True
    then show ?thesis unfolding run by (simp add: array_sorted all follows_None)
  next
    case False
    show ?thesis
    proof (cases "sb = [] \<and> ub = []")
      case True
      then show ?thesis using False unfolding run by (simp add: array_plain all)
    next
      case ne: False
      have "is_ok (fold_res (array_step (\<lambda>c. validate_recursive c item) False sb ub) items (None, {})) \<longleftrightarrow>
          (\<forall>c\<in>set items. conforms item c) \<and> (sb \<noteq> [] \<longrightarrow> ordered_by sb items)
          \<and> identified_by (if ub = [] then sb else ub) items"
        using ne array_keyed [of sb ub "\<lambda>c. validate_recursive c item" items None "{}"]
        by (auto simp: all ordered_by_def identified_by_def follows_None)
      moreover have "ordered_by sb items \<Longrightarrow> identified_by sb items"
        by (auto simp: ordered_by_def identified_by_def dest: sorted_distinct)
      ultimately show ?thesis using False ne unfolding run by auto
    qed
  qed
qed

lemma validate_tagged:
  assumes "distinct (map fst vs)"
    and check: "\<And>x. x \<in> set vs \<Longrightarrow> validate_recursive v (snd x) = Inr () \<longleftrightarrow> conforms (snd x) v"
  shows "validate_recursive v (RTagged tag vs) = Inr () \<longleftrightarrow> conforms (RTagged tag vs) v"
proof -
  have "validate_recursive v (RTagged tag vs) = Inr () \<longleftrightarrow>
      (\<exists>t x. val_field v tag = Some (Text t) \<and> find (\<lambda>x. fst x = t) vs = Some x
         \<and> validate_recursive v (snd x) = Inr ())"
  proof (cases "\<exists>t. val_field v tag = Some (Text t)")
    case True
    then obtain t where t: "val_field v tag = Some (Text t)" by blast
    then show ?thesis
      by (cases "find (\<lambda>x. fst x = t) vs") (auto simp: p2_field_def p2_text_def)
  next
    case False
    then show ?thesis by (auto simp: bnd_eq_Inr p2_field_def p2_text_iff)
  qed
  also have "\<dots> \<longleftrightarrow> (\<exists>x\<in>set vs. val_field v tag = Some (Text (fst x)) \<and> validate_recursive v (snd x) = Inr ())"
    by (force simp: find_variant [OF assms(1)])
  finally show ?thesis using check by (simp cong: bex_cong)
qed

lemma encodable_rows: "encodable (Map rows) \<Longrightarrow> (k, child) \<in> set rows \<Longrightarrow> encodable child"
  by auto

lemma validate_recursive_iff:
  "encodable v \<Longrightarrow> wf_spec spec \<Longrightarrow> validate_recursive v spec = Inr () \<longleftrightarrow> conforms spec v"
proof (induction "size spec" arbitrary: spec v rule: less_induct)
  case less
  show ?case
  proof (cases spec)
    case (RRecord fs)
    show ?thesis
    proof (cases v)
      case (Map rows)
      show ?thesis
        unfolding RRecord Map
        by (intro validate_record less.hyps)
          (use less.prems RRecord in \<open>auto simp: Map dest: encodable_rows [OF less.prems(1) [unfolded Map]]\<close>)
    qed (use RRecord in \<open>simp_all add: p2_entries_def\<close>)
  next
    case (RArray item n k sorted_scalar sb ub)
    show ?thesis
    proof (cases v)
      case (Array items)
      have "is_ok (validate_recursive child item) \<longleftrightarrow> conforms item child" if "child \<in> set items" for child
        using less.hyps [of item child] less.prems that RArray Array by (simp add: unit_ok)
      then show ?thesis
        unfolding RArray Array
        by (intro validate_array) (use less.prems RArray in \<open>auto\<close>)
    qed (use RArray in simp_all)
  next
    case (RTagged tag vs)
    show ?thesis unfolding RTagged
      by (intro validate_tagged less.hyps) (use less.prems RTagged in auto)
  next
    case (ROneOf ss)
    have "is_ok (validate_recursive v s) \<longleftrightarrow> conforms s v" if "s \<in> set ss" for s
      using less.hyps [of s v] less.prems ROneOf that by (simp add: unit_ok)
    then show ?thesis using ROneOf by (simp add: list_ex_iff)
  next
    case (RNullable inner)
    then show ?thesis using less.hyps [of inner v] less.prems by simp
  qed (cases v; auto simp: p2_identifier_iff bnd_eq_Inr in_enum_def is_ok_iff p2_text_iff not_less
         split: option.splits if_splits)+
qed


text \<open>C13: A value is validated exactly when the schema admits it: a record has exactly the named fields, in
  any order, an array is within its bounds, strictly increasing by its order keys and without two
  items of the same identity, a tagged value conforms to the variant its tag names. This holds of
  every encodable value (one whose maps have distinct keys) and every well-formed schema.\<close>

theorem validate_recursive_exact:
  assumes "encodable v" and "wf_spec spec"
  shows "validate_recursive v spec = Inr () \<longleftrightarrow> conforms spec v"
  using assms by (rule validate_recursive_iff)

definition demo_entry :: "u64 \<Rightarrow> val" where
  "demo_entry n = Map [(''id'', Text ''a1''), (''n'', Unsigned n)]"

definition demo_schema :: rspec where
  "demo_schema = RArray (RRecord [(''n'', RUint 0 9), (''id'', RIdentifier None)]) 1 4 False [''n''] []"

lemma decimal20_digit: "n < 10 \<Longrightarrow> decimal20 n = replicate 19 CHR ''0'' @ [char_of (48 + unat n)]"
  by (simp add: decimal20_def Let_def dec_string.simps [of "unat n"] word_less_nat_alt)

lemma append_less_same [simp]: "xs @ ys < xs @ zs \<longleftrightarrow> ys < (zs :: 'a :: linorder list)"
  by (induction xs) simp_all

lemma demo_conforms: "conforms demo_schema (Array [demo_entry 2, demo_entry 5])"
  by (simp add: demo_schema_def demo_entry_def identifier_form_def identifier_byte_def in_enum_def
      ordered_by_def recursive_key_def key_part_def p2_field_def decimal20_digit nth_Cons
      byte_of_char_Char is_ascii_alphanumeric_def is_ascii_digit_def less_Suc_eq_0_disj insert_commute
      less_char_def split: nat.splits)

theorem validate_recursive_exact_witness:
  "validate_recursive (Array [demo_entry 2, demo_entry 5]) demo_schema = Inr ()
   \<and> conforms demo_schema (Array [demo_entry 2, demo_entry 5])"
proof -
  have "encodable (Array [demo_entry 2, demo_entry 5])" "wf_spec demo_schema"
    by (simp_all add: demo_entry_def demo_schema_def enum_ok_def ascii_profile_def byte_of_char_Char)
  from validate_recursive_exact [OF this]
  have e: "validate_recursive (Array [demo_entry 2, demo_entry 5]) demo_schema = Inr () \<longleftrightarrow>
      conforms demo_schema (Array [demo_entry 2, demo_entry 5])" .
  with demo_conforms show ?thesis by blast
qed

subsection \<open>The description determines the schema\<close>

text \<open>The lengths of a schema are machine words in the code.\<close>

function lengths_fit :: "rspec \<Rightarrow> bool" where
  "lengths_fit (RBytes exact_len maximum) \<longleftrightarrow>
     (\<forall>n. exact_len = Some n \<longrightarrow> n \<le> usize_max) \<and> (\<forall>n. maximum = Some n \<longrightarrow> n \<le> usize_max)"
| "lengths_fit (RNullable inner) \<longleftrightarrow> lengths_fit inner"
| "lengths_fit (ROneOf ss) \<longleftrightarrow> (\<forall>s\<in>set ss. lengths_fit s)"
| "lengths_fit (RRecord fs) \<longleftrightarrow> (\<forall>x\<in>set fs. lengths_fit (snd x))"
| "lengths_fit (RArray item minimum maximum sorted_scalar sort_by unique_by) \<longleftrightarrow>
     minimum \<le> usize_max \<and> maximum \<le> usize_max \<and> lengths_fit item"
| "lengths_fit (RTagged tag vs) \<longleftrightarrow> (\<forall>x\<in>set vs. lengths_fit (snd x))"
| "lengths_fit (RIdentifier vals) \<longleftrightarrow> True"
| "lengths_fit (RText vals pattern) \<longleftrightarrow> True"
| "lengths_fit (RUint minimum maximum) \<longleftrightarrow> True"
| "lengths_fit RBoolean \<longleftrightarrow> True"
| "lengths_fit (RDigest semantic) \<longleftrightarrow> True"
  by pat_completeness auto
termination by (relation "measure size") auto

lemma of_nat_u64_eq: "n \<le> usize_max \<Longrightarrow> m \<le> usize_max \<Longrightarrow> (of_nat n :: u64) = of_nat m \<longleftrightarrow> n = m"
  by (metis unat_of_nat_u64)

lemma map_Text_eq: "map Text xs = map Text ys \<longleftrightarrow> xs = ys"
  by (rule inj_map_eq_map) (simp add: inj_def)

lemma optional_strings_eq: "optional_strings a = optional_strings b \<longleftrightarrow> a = b"
  by (auto simp: optional_strings_def map_Text_eq split: option.splits)

lemma optional_len_eq:
  "(\<And>n. a = Some n \<Longrightarrow> n \<le> usize_max) \<Longrightarrow> (\<And>n. b = Some n \<Longrightarrow> n \<le> usize_max) \<Longrightarrow>
   optional_len a = optional_len b \<longleftrightarrow> a = b"
  by (auto simp: optional_len_def of_nat_u64_eq split: option.splits)

lemma pattern_eq: "(case a of None \<Rightarrow> Null | Some p \<Rightarrow> Text p) = (case b of None \<Rightarrow> Null | Some p \<Rightarrow> Text p) \<longleftrightarrow> a = b"
  by (auto split: option.splits)

lemma map_eq_inj_on:
  "map f xs = map f ys \<Longrightarrow> (\<And>x y. x \<in> set xs \<Longrightarrow> y \<in> set ys \<Longrightarrow> f x = f y \<Longrightarrow> x = y) \<Longrightarrow> xs = ys"
proof (induction xs arbitrary: ys)
  case (Cons x xs)
  then show ?case by (cases ys) auto
qed simp

lemma describe_injective:
  "describe_recursive s = describe_recursive t \<Longrightarrow> lengths_fit s \<Longrightarrow> lengths_fit t \<Longrightarrow> s = t"
proof (induction "size s" arbitrary: s t rule: less_induct)
  case less
  have pairs: "fs = gs"
    if "map (\<lambda>f. Map [(''name'', Text (fst f)), (''spec'', describe_recursive (snd f))]) fs
      = map (\<lambda>f. Map [(''name'', Text (fst f)), (''spec'', describe_recursive (snd f))]) gs"
      "\<And>x. x \<in> set fs \<Longrightarrow> size (snd x) < size s \<and> lengths_fit (snd x)" "\<And>x. x \<in> set gs \<Longrightarrow> lengths_fit (snd x)"
    for fs gs
    using that(1)
  proof (rule map_eq_inj_on)
    fix x y assume "x \<in> set fs" "y \<in> set gs"
      "Map [(''name'', Text (fst x)), (''spec'', describe_recursive (snd x))]
       = Map [(''name'', Text (fst y)), (''spec'', describe_recursive (snd y))]"
    then show "x = y" using less.hyps [of "snd x" "snd y"] that(2,3) by (simp add: prod_eq_iff)
  qed
  have specs: "ss = ts"
    if "map describe_recursive ss = map describe_recursive ts"
      "\<And>x. x \<in> set ss \<Longrightarrow> size x < size s \<and> lengths_fit x" "\<And>x. x \<in> set ts \<Longrightarrow> lengths_fit x"
    for ss ts
    using that(1) by (rule map_eq_inj_on) (use less.hyps that(2,3) in blast)
  show ?case
  proof (cases s)
    case (RRecord fs)
    then show ?thesis using less.prems pairs by (cases t) auto
  next
    case (RTagged tag vs)
    then show ?thesis using less.prems pairs by (cases t) auto
  next
    case (ROneOf ss)
    then show ?thesis using less.prems specs by (cases t) auto
  next
    case (RNullable inner)
    then show ?thesis using less.prems less.hyps [of inner] by (cases t) auto
  next
    case (RArray item n k sc sb ub)
    then show ?thesis using less.prems less.hyps [of item]
      by (cases t) (auto simp: of_nat_u64_eq optional_strings_eq)
  next
    case (RBytes a b)
    then show ?thesis using less.prems by (cases t) (auto simp: optional_len_eq)
  qed (use less.prems in \<open>cases t; auto simp: optional_strings_eq pattern_eq\<close>)+
qed

text \<open>C14: The metadata exported for a schema determine it: two schemas (with lengths in the 64-bit range)
  have the same description exactly when they are equal.\<close>

theorem description_determines_schema:
  assumes "lengths_fit s" and "lengths_fit t"
  shows "describe_recursive s = describe_recursive t \<longleftrightarrow> s = t"
  using describe_injective assms by blast

theorem description_determines_schema_witness:
  "describe_recursive (RNullable (RUint 0 1)) \<noteq> describe_recursive (RNullable (RUint 0 2))"
  using description_determines_schema [of "RNullable (RUint 0 1)" "RNullable (RUint 0 2)"] by simp

subsection \<open>The tables\<close>

lemmas wf_eval = enum_ok_def known_pattern_def tagged_ok_def u64_max_def

lemma wf_tables: "list_all (\<lambda>x. wf_spec (snd x)) recursive_schemas"
  by (simp add: recursive_schemas_def) (simp add: schema_defs wf_eval)

text \<open>C15: Every table of the schema registry is well-formed: the fields of a record, the variants of a
  tagged form and the values of an enumeration have distinct names, no bound is empty, every text
  pattern is one the validator knows, the keys an array is ordered by are scalar fields of all its
  item forms, and the tag of each variant is a field that can only hold the variant's own name. The
  registry names each schema once.\<close>

theorem schema_tables_well_formed:
  "list_all (\<lambda>x. wf_spec (snd x)) recursive_schemas \<and> distinct (map fst recursive_schemas)"
  using wf_tables by (simp add: recursive_schemas_def)

end
