(* ===== verification/P2_Validate.thy ===== *)
theory P2_Validate
  imports P2_Schemas Sha256 P2_Spec_Props
begin

section \<open>The semantic checks of the schemas\<close>

text \<open>
  The checks of \<open>native/crates/protocol/src/p2_schema.rs\<close> beyond the recursive schemas: field sets,
  signatures, and one check per schema, dispatched by \<open>validate_special\<close>. A panic
  (\<open>unreachable!()\<close>, \<open>unwrap()\<close>) is the error \<open>PANIC\<close>, which no check returns otherwise.
  \<open>usize\<close> is 64 bits wide, so the casts of counters to it change nothing.
\<close>

definition PANIC :: string where "PANIC = ''panic''"

subsection \<open>Shared checks\<close>

definition keys_exact :: "string \<Rightarrow> val \<Rightarrow> string list \<Rightarrow> unit pres" where
  "keys_exact message v keys =
     bnd (p2_entries v) (\<lambda>rows.
       if length rows \<noteq> length keys \<or> list_ex (\<lambda>k. val_field v k = None) keys then Inl message
       else Inr ())"

definition p2_exact :: "val \<Rightarrow> string list \<Rightarrow> unit pres" where
  "p2_exact v fs = keys_exact ''P2 schema fields are not exact'' v fs"

definition exact_keys :: "val \<Rightarrow> string list \<Rightarrow> unit pres" where
  "exact_keys v keys = keys_exact ''P2 nested row fields not exact'' v keys"

definition field_text :: "val \<Rightarrow> string \<Rightarrow> string pres" where
  "field_text v name = bnd (p2_field v name) p2_text"

definition field_identifier :: "val \<Rightarrow> string \<Rightarrow> string pres" where
  "field_identifier v name = bnd (p2_field v name) p2_identifier"

definition field_digest :: "val \<Rightarrow> string \<Rightarrow> unit pres" where
  "field_digest v name = bnd (field_text v name) (\<lambda>t. bnd (parse_digest t) (\<lambda>_. Inr ()))"

definition is_unsigned :: "val \<Rightarrow> bool" where
  "is_unsigned v \<longleftrightarrow> (case v of Unsigned _ \<Rightarrow> True | _ \<Rightarrow> False)"

definition is_bool :: "val \<Rightarrow> bool" where
  "is_bool v \<longleftrightarrow> (case v of Bool _ \<Rightarrow> True | _ \<Rightarrow> False)"

text \<open>\<open>matches!(field(v, name)?, p)\<close>, and the arms of a \<open>match\<close> on a field.\<close>

definition field_is :: "val \<Rightarrow> string \<Rightarrow> (val \<Rightarrow> bool) \<Rightarrow> bool pres" where
  "field_is v name p = bnd (p2_field v name) (\<lambda>f. Inr (p f))"

definition field_unsigned :: "string \<Rightarrow> val \<Rightarrow> string \<Rightarrow> u64 pres" where
  "field_unsigned message v name =
     bnd (p2_field v name) (\<lambda>f. case f of Unsigned n \<Rightarrow> Inr n | _ \<Rightarrow> Inl message)"

definition field_array :: "string \<Rightarrow> val \<Rightarrow> string \<Rightarrow> (val list \<Rightarrow> bool) \<Rightarrow> val list pres" where
  "field_array message v name p =
     bnd (p2_field v name) (\<lambda>f. case f of
         Array rows \<Rightarrow> if p rows then Inr rows else Inl message
       | _ \<Rightarrow> Inl message)"

definition p2_require :: "val \<Rightarrow> string \<Rightarrow> string \<Rightarrow> unit pres" where
  "p2_require v name expected =
     bnd (field_text v name) (\<lambda>t. if t = expected then Inr () else Inl ''P2 discriminator mismatch'')"

definition require_version :: "val \<Rightarrow> u64 \<Rightarrow> unit pres" where
  "require_version v expected =
     bnd (field_is v ''version'' (\<lambda>f. f = Unsigned expected)) (\<lambda>c.
       if c then Inr () else Inl ''P2 version mismatch'')"

definition uint_field :: "val \<Rightarrow> string \<Rightarrow> u64 pres" where
  "uint_field v name = field_unsigned ''P2 uint field malformed'' v name"

definition validate_interval :: "val \<Rightarrow> string \<Rightarrow> string \<Rightarrow> bool \<Rightarrow> unit pres" where
  "validate_interval v from_name until_name strict =
     bnd (uint_field v from_name) (\<lambda>a. bnd (uint_field v until_name) (\<lambda>b.
       if strict \<and> b \<le> a \<or> \<not> strict \<and> b < a then Inl ''P2 counter interval invalid'' else Inr ()))"

subsection \<open>Signatures\<close>

definition signature_keys :: "bool \<Rightarrow> string list" where
  "signature_keys role_tagged =
     (if role_tagged then [''keyId'', ''algorithm'', ''keyEpoch'', ''authorizationRole'', ''signature'']
      else [''keyId'', ''algorithm'', ''keyEpoch'', ''signature''])"

definition signature_step :: "bool \<Rightarrow> val \<Rightarrow> string option \<Rightarrow> string option pres" where
  "signature_step role_tagged row prior =
     bnd (keys_exact ''P2 signature fields not exact'' row (signature_keys role_tagged)) (\<lambda>_.
     bnd (field_identifier row ''keyId'') (\<lambda>key.
     if repeats prior key then Inl ''P2 signatures not sorted unique''
     else
       bnd (p2_require row ''algorithm'' ''ed25519'') (\<lambda>_.
       bnd (field_is row ''keyEpoch'' is_unsigned) (\<lambda>epoch.
       if \<not> epoch then Inl ''P2 signature epoch malformed''
       else
         bnd (if role_tagged then
                bnd (field_text row ''authorizationRole'') (\<lambda>role. Inr (role \<notin> {''root'', ''recovery''}))
              else Inr False) (\<lambda>bad_role.
         if bad_role then Inl ''P2 authorization role malformed''
         else
           bnd (field_is row ''signature'' (\<lambda>f. case f of Bytes bs \<Rightarrow> length bs = 64 | _ \<Rightarrow> False)) (\<lambda>c.
           if \<not> c then Inl ''P2 signature bytes malformed'' else Inr (Some key)))))))"

definition validate_signature_rows :: "val \<Rightarrow> bool \<Rightarrow> unit pres" where
  "validate_signature_rows v role_tagged =
     (case v of
        Array rows \<Rightarrow>
          if rows = [] \<or> MAX_SIGNATURES < length rows then Inl ''P2 signatures malformed''
          else bnd (fold_res (signature_step role_tagged) rows None) (\<lambda>_. Inr ())
      | _ \<Rightarrow> Inl ''P2 signatures malformed'')"

definition signer_step :: "bool \<Rightarrow> val \<Rightarrow> unit pres" where
  "signer_step development row =
     bnd (field_identifier row ''keyId'') (\<lambda>key_id.
       if development \<noteq> starts_with key_id ''development.''
       then Inl ''P2 signer key namespace does not match trust class'' else Inr ())"

definition validate_signer_namespace :: "val \<Rightarrow> val \<Rightarrow> unit pres" where
  "validate_signer_namespace payload signatures =
     bnd (field_text payload ''trustClass'') (\<lambda>trust.
       case signatures of
         Array rows \<Rightarrow> for_all (signer_step (trust = ''development'')) rows
       | _ \<Rightarrow> Inl ''P2 signatures malformed'')"

subsection \<open>Keys, roots and authority state\<close>

definition validate_scope :: "val \<Rightarrow> unit pres" where
  "validate_scope v =
     bnd (keys_exact ''P2 scope fields not exact'' v SCOPE_KEYS) (\<lambda>_.
     bnd (for_all (field_identifier v) [''authorityId'', ''namespace'', ''scope'']) (\<lambda>_.
       field_digest v ''genesisRootDigest''))"

definition key_row_step :: "val \<Rightarrow> string option \<times> string set \<Rightarrow> (string option \<times> string set) pres" where
  "key_row_step row = (\<lambda>(prior, global).
     bnd (exact_keys row [''keyId'', ''algorithm'', ''publicKey'', ''keyEpoch'', ''validFromCounter'',
            ''validUntilCounter'']) (\<lambda>_.
     bnd (field_identifier row ''keyId'') (\<lambda>key.
     if starts_with key ''development.'' \<or> repeats prior key \<or> key \<in> global
     then Inl ''P2 key identity duplicate/order''
     else
       bnd (p2_require row ''algorithm'' ''ed25519'') (\<lambda>_.
       bnd (field_is row ''publicKey'' (\<lambda>f. case f of Bytes bs \<Rightarrow> length bs = 32 | _ \<Rightarrow> False)) (\<lambda>c.
       if \<not> c then Inl ''P2 public key length''
       else
         bnd (validate_interval row ''validFromCounter'' ''validUntilCounter'' False) (\<lambda>_.
           Inr (Some key, insert key global)))))))"

definition validate_key_rows :: "val \<Rightarrow> string \<Rightarrow> string set \<Rightarrow> (nat \<times> string set) pres" where
  "validate_key_rows v name global =
     bnd (field_array ''P2 key cardinality'' v name (\<lambda>rows. rows \<noteq> [] \<and> length rows \<le> 32)) (\<lambda>rows.
     bnd (fold_res key_row_step rows (None, global)) (\<lambda>(_, global). Inr (length rows, global)))"

definition identifier_order :: "string \<Rightarrow> val \<Rightarrow> string option \<Rightarrow> string option pres" where
  "identifier_order message row prior =
     bnd (p2_identifier row) (\<lambda>key. if repeats prior key then Inl message else Inr (Some key))"

definition digest_order :: "string \<Rightarrow> val \<Rightarrow> string option \<Rightarrow> string option pres" where
  "digest_order message row prior =
     bnd (p2_text row) (\<lambda>digest. bnd (parse_digest digest) (\<lambda>_.
       if repeats prior digest then Inl message else Inr (Some digest)))"

definition validate_genesis_epoch :: "val \<Rightarrow> unit pres" where
  "validate_genesis_epoch v =
     bnd (p2_require v ''trustClass'' ''production'') (\<lambda>_.
     bnd (validate_key_rows v ''rootKeys'' {}) (\<lambda>(count, _).
     bnd (uint_field v ''rootThreshold'') (\<lambda>threshold.
     if threshold = 0 \<or> count < unat threshold then Inl ''P2 genesis root threshold''
     else
       bnd (field_array ''P2 genesis participants empty'' v ''participantIds'' (\<lambda>rows. rows \<noteq> [])) (\<lambda>participants.
       bnd (fold_res (identifier_order ''P2 participants not sorted unique'') participants None) (\<lambda>_.
       bnd (uint_field v ''minimumParticipants'') (\<lambda>minimum.
       bnd (if minimum = 0 \<or> length participants < unat minimum then Inr True
            else bnd (uint_field v ''requiredWitnesses'') (\<lambda>w. Inr (length participants < unat w))) (\<lambda>bad.
       if bad then Inl ''P2 participant policy invalid'' else Inr ())))))))"

definition ROOT_ROLES :: "string list" where
  "ROOT_ROLES = [''root'', ''release'', ''timestamp'', ''revocation'', ''recovery'', ''b3'', ''builder'', ''comparer'']"

definition SORTED_ROLES :: "string list" where
  "SORTED_ROLES = [''b3'', ''builder'', ''comparer'', ''recovery'', ''release'', ''revocation'', ''root'', ''timestamp'']"

definition root_role_step :: "val \<Rightarrow> val \<Rightarrow> string \<Rightarrow> string set \<Rightarrow> string set pres" where
  "root_role_step v threshold role global =
     bnd (validate_key_rows v (role @ ''Keys'') global) (\<lambda>(count, global).
     bnd (uint_field threshold role) (\<lambda>n.
       if n = 0 \<or> count < unat n then Inl ''P2 root threshold invalid'' else Inr global))"

definition key_epoch_row :: "nat \<times> val \<Rightarrow> unit pres" where
  "key_epoch_row = (\<lambda>(index, row).
     bnd (exact_keys row [''role'', ''minimumEpoch'']) (\<lambda>_.
     bnd (p2_require row ''role'' (SORTED_ROLES ! index)) (\<lambda>_.
     bnd (uint_field row ''minimumEpoch'') (\<lambda>_. Inr ()))))"

definition validate_root :: "val \<Rightarrow> unit pres" where
  "validate_root v =
     bnd (p2_require v ''trustClass'' ''production'') (\<lambda>_.
     bnd (uint_field v ''rootEpoch'') (\<lambda>epoch.
     bnd (field_is v ''predecessorRootEnvelopeDigest'' (\<lambda>f. f = Null)) (\<lambda>absent.
     if (epoch = 0) \<noteq> absent then Inl ''P2 root predecessor equation''
     else
       bnd (p2_field v ''threshold'') (\<lambda>threshold.
       bnd (exact_keys threshold ROOT_ROLES) (\<lambda>_.
       bnd (fold_res (root_role_step v threshold) ROOT_ROLES {}) (\<lambda>global.
       if 256 < card global then Inl ''P2 combined keys bound''
       else
         bnd (field_array ''P2 key epochs cardinality'' v ''keyEpochs'' (\<lambda>rows. length rows = 8)) (\<lambda>epochs.
           for_all key_epoch_row (zip [0..<length epochs] epochs))))))))"

definition validate_rollback :: "val \<Rightarrow> unit pres" where
  "validate_rollback v =
     bnd (validate_interval v ''issuedCounter'' ''expiresCounter'' True) (\<lambda>_.
     bnd (uint_field v ''toDeploymentEpoch'') (\<lambda>to_epoch.
     bnd (uint_field v ''fromDeploymentEpoch'') (\<lambda>from_epoch.
     bnd (if to_epoch \<le> from_epoch then Inr True
          else bnd (uint_field v ''toArtifactVersion'') (\<lambda>a. bnd (uint_field v ''minimumArtifactVersion'') (\<lambda>b.
            Inr (a < b)))) (\<lambda>bad.
       if bad then Inl ''P2 rollback equation'' else Inr ()))))"

definition STATE_PROJECTION_KEYS :: "string list" where
  "STATE_PROJECTION_KEYS = [''scopeKey'', ''rootEpoch'', ''rootEnvelopeDigest'', ''b3ProfileEnvelopeDigest'',
     ''headSequence'', ''headEnvelopeDigest'', ''deploymentEpoch'', ''artifactFloor'', ''counter'',
     ''quarantined'', ''quarantineDigest'']"

definition validate_state_projection :: "val \<Rightarrow> unit pres" where
  "validate_state_projection v =
     bnd (p2_field v ''scopeKey'') (\<lambda>scope. bnd (validate_scope scope) (\<lambda>_.
     bnd (for_all (uint_field v) [''rootEpoch'', ''headSequence'', ''deploymentEpoch'', ''artifactFloor'', ''counter'']) (\<lambda>_.
     bnd (for_all (field_digest v) [''rootEnvelopeDigest'', ''b3ProfileEnvelopeDigest'', ''headEnvelopeDigest'',
            ''quarantineDigest'']) (\<lambda>_.
     bnd (field_is v ''quarantined'' is_bool) (\<lambda>c.
       if \<not> c then Inl ''P2 projected quarantine flag malformed'' else Inr ())))))"

definition validate_consumed :: "val \<Rightarrow> unit pres" where
  "validate_consumed v =
     (if v = Null then Inr ()
      else
        bnd (exact_keys v [''kind'', ''authorizationEnvelopeDigest'']) (\<lambda>_.
        bnd (field_text v ''kind'') (\<lambda>kind.
        if kind \<notin> {''rollback'', ''recovery''} then Inl ''P2 consumed authorization kind''
        else field_digest v ''authorizationEnvelopeDigest'')))"

definition validate_b3_state :: "val \<Rightarrow> unit pres" where
  "validate_b3_state v =
     bnd (p2_exact v B3_STATE) (\<lambda>_.
     bnd (p2_field v ''scopeKey'') (\<lambda>scope. bnd (validate_scope scope) (\<lambda>_.
     bnd (p2_field v ''consumedAuthorization'') validate_consumed)))"

definition validate_recovery :: "val \<Rightarrow> unit pres" where
  "validate_recovery v =
     bnd (validate_interval v ''issuedCounter'' ''expiresCounter'' True) (\<lambda>_.
     bnd (p2_field v ''expectedB3State'') (\<lambda>expected. bnd (validate_b3_state expected) (\<lambda>_.
     bnd (p2_field v ''proposedB3StateProjection'') (\<lambda>proposed.
     bnd (exact_keys proposed STATE_PROJECTION_KEYS) (\<lambda>_.
     bnd (validate_state_projection proposed) (\<lambda>_.
     bnd (field_array ''P2 recovery heads empty'' v ''quarantinedHeadEnvelopeDigests'' (\<lambda>rows. rows \<noteq> [])) (\<lambda>heads.
     bnd (fold_res (digest_order ''P2 recovery heads order'') heads None) (\<lambda>_.
     bnd (uint_field v ''selectedSequence'') (\<lambda>selected.
     bnd (uint_field expected ''headSequence'') (\<lambda>head_sequence.
       if selected \<le> head_sequence then Inl ''P2 recovery sequence not advanced'' else Inr ()))))))))))"

definition validate_b3_profile :: "val \<Rightarrow> unit pres" where
  "validate_b3_profile v =
     bnd (p2_require v ''algorithm'' ''ed25519'') (\<lambda>_.
     bnd (validate_interval v ''validFromCounter'' ''validUntilCounter'' False) (\<lambda>_.
     bnd (uint_field v ''maxHeartbeatIntervalMs'') (\<lambda>heartbeat.
       if heartbeat = 0 \<or> 1000 < heartbeat then Inl ''P2 heartbeat interval bound'' else Inr ())))"

definition validate_b3_receipt :: "val \<Rightarrow> unit pres" where
  "validate_b3_receipt v =
     bnd (p2_field v ''scopeKey'') (\<lambda>scope. bnd (validate_scope scope) (\<lambda>_.
     bnd (field_text v ''operationKind'') (\<lambda>kind.
     if kind \<notin> {''genesis'', ''read'', ''compare-and-advance'', ''validate-lease'', ''subscribe-invalidation''}
     then Inl ''P2 receipt kind unknown''
     else
       bnd (field_is v ''committed'' (\<lambda>f. f = Bool True)) (\<lambda>committed.
       if committed \<noteq> (kind = ''compare-and-advance'') then Inl ''P2 receipt commit equation''
       else if committed then Inr ()
       else
         bnd (p2_field v ''priorStateDigest'') (\<lambda>a. bnd (p2_field v ''newStateDigest'') (\<lambda>b.
           if a \<noteq> b then Inl ''P2 readonly receipt mutated'' else Inr ()))))))"

definition validate_b3_ack :: "val \<Rightarrow> unit pres" where
  "validate_b3_ack v =
     bnd (uint_field v ''sequence'') (\<lambda>n. if n = 0 then Inl ''P2 invalidation ACK sequence zero'' else Inr ())"

definition validate_caller_purpose :: "val \<Rightarrow> unit pres" where
  "validate_caller_purpose v =
     bnd (keys_exact ''P2 caller purpose fields not exact'' v [''purpose'', ''authorization'']) (\<lambda>_.
     bnd (field_text v ''purpose'') (\<lambda>purpose.
     bnd (p2_field v ''authorization'') (\<lambda>authorization.
     bnd (keys_exact ''P2 caller authorization fields not exact'' authorization
            [''kind'', ''authorizationEnvelopeDigest'']) (\<lambda>_.
     bnd (field_text authorization ''kind'') (\<lambda>kind.
     bnd (ok_or ''P2 caller purpose unknown''
            (map_of [(''root-update'', ''root-update''), (''revocation-advance'', ''revocation''),
               (''rollback'', ''rollback''), (''recovery'', ''recovery''),
               (''deployment-advance'', ''deployment'')] purpose)) (\<lambda>expected.
     if kind \<noteq> expected then Inl ''P2 caller purpose/kind mismatch''
     else field_digest authorization ''authorizationEnvelopeDigest''))))))"

definition validate_frame :: "val \<Rightarrow> unit pres" where
  "validate_frame v =
     bnd (field_text v ''frameKind'') (\<lambda>kind.
     bnd (field_unsigned PANIC v ''priorGeneration'') (\<lambda>prior.
     bnd (field_unsigned PANIC v ''newGeneration'') (\<lambda>new.
     bnd (field_is v ''sequence'' (\<lambda>f. case f of Unsigned n \<Rightarrow> 1 \<le> n | _ \<Rightarrow> False)) (\<lambda>positive.
     if \<not> positive \<or> \<not> (kind = ''heartbeat'' \<and> prior = new \<or> kind = ''invalidated'' \<and> prior < new)
     then Inl ''P2 invalidation frame equation''
     else
       bnd (uint_field v ''sequence'') (\<lambda>sequence.
       bnd (field_is v ''priorAckDigest'' (\<lambda>f. f = Null)) (\<lambda>absent.
         if (sequence = 1) \<noteq> absent then Inl ''P2 invalidation ACK chain equation'' else Inr ()))))))"

end
