(* ===== verification/P2_Policies.thy ===== *)
theory P2_Policies
  imports P2_Validate
begin

section \<open>The semantic checks of artifacts and policies\<close>

text \<open>
  The checks of \<open>native/crates/protocol/src/p2_schema.rs\<close> on build records, inventories, evidence
  and confinement policies.
\<close>

subsection \<open>Build records\<close>

definition unwrap_unsigned :: "val \<Rightarrow> string \<Rightarrow> u64 pres" where
  "unwrap_unsigned v name = field_unsigned PANIC v name"

definition unwrap_array :: "val \<Rightarrow> string \<Rightarrow> val list pres" where
  "unwrap_array v name = field_array PANIC v name (\<lambda>_. True)"

definition validate_build_identity :: "val \<Rightarrow> unit pres" where
  "validate_build_identity v =
     bnd (field_text v ''identityKind'') (\<lambda>kind.
     if kind \<notin> {''builder'', ''comparer''} then Inl ''P2 build identity kind unknown''
     else
       bnd (unwrap_unsigned v ''validFromCounter'') (\<lambda>from_counter.
       bnd (unwrap_unsigned v ''validUntilCounter'') (\<lambda>until_counter.
         if until_counter < from_counter then Inl ''P2 build identity validity inverted'' else Inr ())))"

definition typed_uri :: "string \<Rightarrow> bool" where
  "typed_uri uri \<longleftrightarrow> (case split_once CHR '':'' uri of
       None \<Rightarrow> False
     | Some (scheme, suffix) \<Rightarrow> scheme \<in> {''keep-artifact'', ''keep-source'', ''oci''} \<and> suffix \<noteq> [])"

definition scheme_digest :: "string \<Rightarrow> string pres" where
  "scheme_digest uri =
     (let scheme = (case split_once CHR '':'' uri of None \<Rightarrow> [] | Some (scheme, _) \<Rightarrow> scheme)
      in ok_or PANIC (map_of [(''keep-artifact'', ''ArtifactDigest''), (''keep-source'', ''SourceDigest''),
           (''oci'', ''OciBlobDigest'')] scheme))"

definition typed_uri_step :: "bool \<Rightarrow> val \<Rightarrow> string option \<Rightarrow> string option pres" where
  "typed_uri_step subjects row prior =
     bnd (exact_keys row [''uri'', ''digestType'', ''digest'']) (\<lambda>_.
     bnd (field_text row ''uri'') (\<lambda>uri.
     if \<not> typed_uri uri then Inl ''P2 typed URI grammar''
     else if repeats prior uri then Inl ''P2 typed URI rows not sorted unique''
     else
       bnd (field_identifier row ''digestType'') (\<lambda>kind.
       if kind \<notin> {''ArtifactDigest'', ''SourceDigest'', ''OciBlobDigest'', ''SubjectDigest''}
       then Inl ''P2 digest type unknown''
       else
         bnd (if subjects then Inr ''SubjectDigest'' else scheme_digest uri) (\<lambda>expected.
         if kind \<noteq> expected then Inl ''P2 provenance URI/digest type mismatch''
         else bnd (field_digest row ''digest'') (\<lambda>_. Inr (Some uri))))))"

definition validate_typed_uri_rows :: "val \<Rightarrow> string \<Rightarrow> nat \<Rightarrow> bool \<Rightarrow> unit pres" where
  "validate_typed_uri_rows v name maximum subjects =
     bnd (field_array ''P2 typed URI bound'' v name (\<lambda>rows. length rows \<le> maximum)) (\<lambda>rows.
     bnd (fold_res (typed_uri_step subjects) rows None) (\<lambda>_. Inr ()))"

definition validate_provenance :: "val \<Rightarrow> unit pres" where
  "validate_provenance v =
     bnd (validate_typed_uri_rows v ''materials'' 8192 False) (\<lambda>_.
     bnd (validate_typed_uri_rows v ''subjects'' 4096 True) (\<lambda>_.
     bnd (unwrap_unsigned v ''startedCounter'') (\<lambda>started.
     bnd (unwrap_unsigned v ''finishedCounter'') (\<lambda>finished.
       if finished < started then Inl ''P2 provenance counters inverted'' else Inr ()))))"

definition validate_repro :: "val \<Rightarrow> unit pres" where
  "validate_repro v =
     bnd (p2_require v ''comparisonAlgorithm'' ''sha256-byte-for-byte/v1'') (\<lambda>_.
     bnd (field_array ''P2 repro requires two builders'' v ''builderProvenanceEnvelopeDigests''
            (\<lambda>rows. 2 \<le> length rows)) (\<lambda>builders.
     bnd (fold_res (digest_order ''P2 builder provenances not sorted unique'') builders None) (\<lambda>_.
     bnd (field_is v ''disagreements'' (\<lambda>f. f = Array [])) (\<lambda>c.
       if \<not> c then Inl ''P2 official disagreements nonempty'' else Inr ()))))"

subsection \<open>Inventories\<close>

definition inventory_step :: "val \<Rightarrow> string option \<Rightarrow> string option pres" where
  "inventory_step row prior =
     bnd (exact_keys row [''artifactId'', ''kind'', ''digest'', ''size'', ''mode'', ''targetTriple'', ''variant'',
            ''releaseMember'']) (\<lambda>_.
     bnd (field_identifier row ''artifactId'') (\<lambda>id'.
     if repeats prior id' then Inl ''P2 inventory rows not sorted unique''
     else
       bnd (field_text row ''kind'') (\<lambda>kind.
       bnd (if kind \<notin> {''helper'', ''trampoline'', ''prober'', ''provisioner'', ''role'', ''policy'', ''evidence-schema''}
            then Inr True
            else bnd (field_text row ''mode'') (\<lambda>mode. Inr (mode \<notin> {''0444'', ''0555''}))) (\<lambda>bad.
       if bad then Inl ''P2 inventory enum unknown''
       else
         bnd (field_digest row ''digest'') (\<lambda>_.
         bnd (field_is row ''size'' is_unsigned) (\<lambda>sized.
         bnd (if \<not> sized then Inr False else field_is row ''releaseMember'' is_bool) (\<lambda>c.
         if \<not> c then Inl ''P2 inventory row type mismatch''
         else
           bnd (field_identifier row ''targetTriple'') (\<lambda>_.
           bnd (field_identifier row ''variant'') (\<lambda>_. Inr (Some id'))))))))))"

definition validate_inventory :: "val \<Rightarrow> unit pres" where
  "validate_inventory v =
     bnd (unwrap_array v ''rows'') (\<lambda>rows. bnd (fold_res inventory_step rows None) (\<lambda>_. Inr ()))"

definition package_step :: "val \<Rightarrow> (string \<times> string) option \<Rightarrow> (string \<times> string) option pres" where
  "package_step row prior =
     bnd (exact_keys row [''installRoot'', ''relativePath'', ''digest'', ''size'', ''mode'', ''ownerUid'', ''ownerGid'',
            ''objectType'']) (\<lambda>_.
     bnd (field_text row ''installRoot'') (\<lambda>root.
     if root \<notin> {''artifacts'', ''policy'', ''evidence-schema'', ''inventory'', ''toolchain''}
     then Inl ''P2 package root unknown''
     else
       bnd (field_text row ''relativePath'') (\<lambda>path.
       if starts_with path ''/'' \<or> contains_sub ''//'' path
          \<or> list_ex (\<lambda>p. p \<in> {'''', ''.'', ''..''}) (split_on CHR ''/'' path)
       then Inl ''P2 package path malformed''
       else if repeats prior (root, path) then Inl ''P2 package rows not sorted unique''
       else
         bnd (field_digest row ''digest'') (\<lambda>_.
         bnd (field_text row ''objectType'') (\<lambda>object_type.
         bnd (if object_type \<notin> {''regular-executable'', ''regular-data''} then Inr False
              else bnd (field_is row ''size'' is_unsigned) (\<lambda>a. if \<not> a then Inr False
              else bnd (field_is row ''ownerUid'' is_unsigned) (\<lambda>b. if \<not> b then Inr False
              else field_is row ''ownerGid'' is_unsigned))) (\<lambda>c.
           if \<not> c then Inl ''P2 package row type mismatch'' else Inr (Some (root, path))))))))"

definition validate_package :: "val \<Rightarrow> unit pres" where
  "validate_package v =
     bnd (unwrap_array v ''members'') (\<lambda>rows. bnd (fold_res package_step rows None) (\<lambda>_. Inr ()))"

definition toolchain_step :: "val \<Rightarrow> string option \<Rightarrow> string option pres" where
  "toolchain_step row prior =
     bnd (exact_keys row [''path'', ''size'', ''digest'', ''kind'']) (\<lambda>_.
     bnd (field_text row ''path'') (\<lambda>path.
     if repeats prior path then Inl ''P2 toolchain rows not sorted unique''
     else
       bnd (field_digest row ''digest'') (\<lambda>_.
       bnd (field_text row ''kind'') (\<lambda>kind.
       bnd (if kind \<notin> {''compiler'', ''rustlib'', ''linker'', ''sysroot'', ''vendor-source'', ''container-manifest'',
                  ''build-tool''} then Inr False
            else field_is row ''size'' is_unsigned) (\<lambda>c.
         if \<not> c then Inl ''P2 toolchain row malformed'' else Inr (Some path))))))"

definition validate_toolchain :: "val \<Rightarrow> unit pres" where
  "validate_toolchain v =
     bnd (unwrap_array v ''entries'') (\<lambda>rows. bnd (fold_res toolchain_step rows None) (\<lambda>_. Inr ()))"

definition sbom_step :: "val \<Rightarrow> string option \<Rightarrow> string option pres" where
  "sbom_step row prior =
     bnd (exact_keys row [''purl'', ''name'', ''version'', ''license'', ''sourceDigest'', ''checksumAlgorithm'',
            ''checksum'']) (\<lambda>_.
     bnd (field_text row ''purl'') (\<lambda>purl.
     if repeats prior purl then Inl ''P2 SBOM rows not sorted unique''
     else
       bnd (p2_require row ''checksumAlgorithm'' ''sha256'') (\<lambda>_.
       bnd (field_digest row ''sourceDigest'') (\<lambda>_.
       bnd (field_digest row ''checksum'') (\<lambda>_. Inr (Some purl))))))"

definition validate_sbom :: "val \<Rightarrow> unit pres" where
  "validate_sbom v =
     bnd (unwrap_array v ''packages'') (\<lambda>rows. bnd (fold_res sbom_step rows None) (\<lambda>_. Inr ()))"

subsection \<open>Evidence\<close>

definition sorted_text_step :: "string list \<Rightarrow> val \<Rightarrow> string list \<Rightarrow> string list pres" where
  "sorted_text_step allowed row out =
     bnd (p2_text row) (\<lambda>t.
       if t \<notin> set allowed \<or> (out \<noteq> [] \<and> t \<le> last out)
       then Inl ''P2 array not sorted unique or enum unknown'' else Inr (out @ [t]))"

definition sorted_text_array :: "val \<Rightarrow> string list \<Rightarrow> string list pres" where
  "sorted_text_array v allowed =
     (case v of
        Array rows \<Rightarrow> fold_res (sorted_text_step allowed) rows []
      | _ \<Rightarrow> Inl ''P2 array malformed'')"

definition field_sorted :: "val \<Rightarrow> string \<Rightarrow> string list \<Rightarrow> string list pres" where
  "field_sorted v name allowed = bnd (p2_field v name) (\<lambda>f. sorted_text_array f allowed)"

definition validate_control_policy :: "val \<Rightarrow> unit pres" where
  "validate_control_policy v =
     bnd (field_text v ''decisionClass'') (\<lambda>decision.
     if decision \<notin> {''permit'', ''deny'', ''measure-only''} then Inl ''P2 control decision class unknown''
     else
       bnd (field_sorted v ''requirements'' [''signature-valid'', ''threshold-met'', ''content-address-match'',
              ''subject-match'', ''fresh'', ''not-revoked'', ''floor-satisfied'', ''lease-active'',
              ''isolation-measured'']) (\<lambda>_. Inr ()))"

text \<open>\<open>p + 1\<close> on \<open>u64\<close>.\<close>

definition journal_step :: "val \<Rightarrow> u64 option \<Rightarrow> u64 option pres" where
  "journal_step row prior =
     bnd (keys_exact ''P2 journal entry fields not exact'' row
            [''sequence'', ''eventCode'', ''subjectDigest'', ''counter'']) (\<lambda>_.
     bnd (field_unsigned ''P2 journal sequence malformed'' row ''sequence'') (\<lambda>sequence.
     if (case prior of None \<Rightarrow> False | Some p \<Rightarrow> sequence \<noteq> p + 1)
     then Inl ''P2 journal sequence not consecutive''
     else
       bnd (field_identifier row ''eventCode'') (\<lambda>_.
       bnd (field_digest row ''subjectDigest'') (\<lambda>_.
       bnd (field_is row ''counter'' is_unsigned) (\<lambda>c.
         if \<not> c then Inl ''P2 journal counter malformed'' else Inr (Some sequence))))))"

definition validate_journal_entries :: "val \<Rightarrow> unit pres" where
  "validate_journal_entries v =
     bnd (unwrap_array v ''entries'') (\<lambda>rows. bnd (fold_res journal_step rows None) (\<lambda>_. Inr ()))"

definition validate_transport :: "val \<Rightarrow> unit pres" where
  "validate_transport v =
     bnd (field_text v ''transportKind'') (\<lambda>kind.
       if kind \<notin> {''unix-seqpacket'', ''vsock''} then Inl ''P2 transport kind unknown'' else Inr ())"

definition invocation_step :: "val \<Rightarrow> string option \<Rightarrow> string option pres" where
  "invocation_step row prior =
     bnd (keys_exact ''P2 invocation input fields not exact'' row [''uri'', ''artifactDigest'']) (\<lambda>_.
     bnd (field_text row ''uri'') (\<lambda>uri.
     if \<not> typed_uri uri then Inl ''P2 invocation URI grammar''
     else if repeats prior uri then Inl ''P2 invocation inputs not sorted unique''
     else bnd (field_digest row ''artifactDigest'') (\<lambda>_. Inr (Some uri))))"

definition validate_invocation :: "val \<Rightarrow> unit pres" where
  "validate_invocation v =
     bnd (unwrap_array v ''inputs'') (\<lambda>rows. bnd (fold_res invocation_step rows None) (\<lambda>_. Inr ()))"

definition validate_comparison :: "val \<Rightarrow> unit pres" where
  "validate_comparison v =
     bnd (p2_require v ''algorithm'' ''sha256-byte-for-byte/v1'') (\<lambda>_.
     bnd (p2_field v ''leftSubjectDigest'') (\<lambda>l. bnd (p2_field v ''rightSubjectDigest'') (\<lambda>r.
       if l = r then Inl ''P2 comparison subjects identical'' else Inr ())))"

definition validate_peer_policy :: "val \<Rightarrow> unit pres" where
  "validate_peer_policy v =
     (if list_all (\<lambda>key. val_field v key = Some Null) [''requiredUid'', ''requiredGid'', ''requiredSecurityLabel'']
      then Inl ''P2 peer policy has no constraint'' else Inr ())"

definition fact_step :: "val \<Rightarrow> string option \<Rightarrow> string option pres" where
  "fact_step row prior =
     bnd (keys_exact ''P2 fact fields not exact'' row [''factId'', ''valueType'', ''value'']) (\<lambda>_.
     bnd (field_identifier row ''factId'') (\<lambda>id'.
     if repeats prior id' then Inl ''P2 facts not sorted unique''
     else
       bnd (field_text row ''valueType'') (\<lambda>kind.
       bnd (if kind = ''identifier'' then bnd (field_identifier row ''value'') (\<lambda>_. Inr True)
            else if kind = ''uint64'' then field_is row ''value'' is_unsigned
            else if kind = ''boolean'' then field_is row ''value'' is_bool
            else Inr False) (\<lambda>c.
         if \<not> c then Inl ''P2 fact tagged value mismatch'' else Inr (Some id')))))"

definition validate_observation :: "val \<Rightarrow> unit pres" where
  "validate_observation v =
     bnd (field_text v ''resultCode'') (\<lambda>code.
     if code \<notin> {''pass'', ''fail'', ''inconclusive''} then Inl ''P2 observation result unknown''
     else bnd (unwrap_array v ''facts'') (\<lambda>facts. bnd (fold_res fact_step facts None) (\<lambda>_. Inr ())))"

end
