(* ===== verification/P2_Confinement.thy ===== *)
theory P2_Confinement
  imports P2_Policies
begin

section \<open>The semantic checks of confinement policies\<close>

text \<open>
  Descriptor flags, environment, io.max, Landlock (both versions) and seccomp policies of
  \<open>native/crates/protocol/src/p2_schema.rs\<close>.
\<close>

subsection \<open>Descriptors, environment, io.max\<close>

definition validate_fd_flags :: "val \<Rightarrow> unit pres" where
  "validate_fd_flags v =
     bnd (field_sorted v ''flags'' [''O_RDONLY'', ''O_CLOEXEC'', ''O_NOFOLLOW'', ''O_PATH'', ''O_DIRECTORY'']) (\<lambda>flags.
     bnd (field_sorted v ''seals'' [''F_SEAL_WRITE'', ''F_SEAL_SHRINK'', ''F_SEAL_GROW'', ''F_SEAL_EXEC'',
            ''F_SEAL_SEAL'']) (\<lambda>_.
     bnd (field_is v ''closeOnExec'' (\<lambda>f. f = Bool True)) (\<lambda>close.
       if close \<noteq> (''O_CLOEXEC'' \<in> set flags) then Inl ''P2 close-on-exec contradiction'' else Inr ())))"

definition validate_environment :: "val \<Rightarrow> unit pres" where
  "validate_environment v =
     bnd (p2_field v ''allowedVariables'') (\<lambda>f.
     bnd (if is_ok (sorted_text_array f []) then Inr ()
          else case f of
              Array rows \<Rightarrow> bnd (fold_res (identifier_order ''P2 environment variables not sorted unique'') rows None)
                (\<lambda>_. Inr ())
            | _ \<Rightarrow> Inl ''P2 environment array malformed'') (\<lambda>_.
     bnd (field_text v ''workingDirectoryPolicy'') (\<lambda>directory.
     bnd (if directory \<notin> {''empty'', ''fixed-source-root''} then Inr True
          else bnd (field_text v ''networkPolicy'') (\<lambda>network. Inr (network \<notin> {''denied'', ''builder-isolated''}))) (\<lambda>bad.
       if bad then Inl ''P2 environment policy enum unknown'' else Inr ()))))"

definition io_limit_step :: "val \<Rightarrow> string \<Rightarrow> bool \<Rightarrow> bool pres" where
  "io_limit_step row key present =
     bnd (p2_field row key) (\<lambda>f. case f of
         Null \<Rightarrow> Inr present
       | Unsigned _ \<Rightarrow> Inr True
       | _ \<Rightarrow> Inl ''P2 io-max limit malformed'')"

definition IO_LIMITS :: "string list" where
  "IO_LIMITS = [''readBytesPerSecond'', ''writeBytesPerSecond'', ''readIops'', ''writeIops'']"

definition io_max_step :: "val \<Rightarrow> (u64 \<times> u64) option \<Rightarrow> (u64 \<times> u64) option pres" where
  "io_max_step row prior =
     bnd (keys_exact ''P2 io-max row fields not exact'' row ([''deviceMajor'', ''deviceMinor''] @ IO_LIMITS)) (\<lambda>_.
     bnd (field_unsigned ''P2 io-max device malformed'' row ''deviceMajor'') (\<lambda>major.
     bnd (field_unsigned ''P2 io-max device malformed'' row ''deviceMinor'') (\<lambda>minor.
     if repeats prior (major, minor) then Inl ''P2 io-max rows not sorted unique''
     else
       bnd (fold_res (io_limit_step row) IO_LIMITS False) (\<lambda>present.
         if \<not> present then Inl ''P2 io-max row has no limit'' else Inr (Some (major, minor))))))"

definition validate_io_max :: "val \<Rightarrow> unit pres" where
  "validate_io_max v =
     bnd (p2_require v ''defaultPolicy'' ''deny-unlisted'') (\<lambda>_.
     bnd (unwrap_array v ''rows'') (\<lambda>rows. bnd (fold_res io_max_step rows None) (\<lambda>_. Inr ())))"

subsection \<open>Landlock, version 1\<close>

definition LANDLOCK_FS :: "string list" where
  "LANDLOCK_FS = [''execute'', ''write-file'', ''read-file'', ''read-dir'', ''remove-dir'', ''remove-file'',
     ''make-char'', ''make-dir'', ''make-reg'', ''make-sock'', ''make-fifo'', ''make-block'', ''make-sym'', ''refer'',
     ''truncate'', ''ioctl-dev'']"

definition LANDLOCK_NET :: "string list" where
  "LANDLOCK_NET = [''bind-tcp'', ''connect-tcp'']"

definition LANDLOCK_SCOPE_V1 :: "string list" where
  "LANDLOCK_SCOPE_V1 = [''signal'', ''abstract-unix-socket'']"

text \<open>\<open>format!("{port:05}")\<close>.\<close>

definition decimal05 :: "u64 \<Rightarrow> string" where
  "decimal05 n = (let d = dec_string (unat n) in replicate (5 - length d) CHR ''0'' @ d)"

definition field_port :: "string \<Rightarrow> (u64 \<Rightarrow> bool) \<Rightarrow> val \<Rightarrow> u64 pres" where
  "field_port message p row =
     bnd (p2_field row ''port'') (\<lambda>f. case f of
         Unsigned n \<Rightarrow> if p n then Inr n else Inl message
       | _ \<Rightarrow> Inl message)"

text \<open>The rule's access rights: sorted, among the admitted ones, and each of them handled.\<close>

definition rule_rights :: "string \<Rightarrow> val \<Rightarrow> string list \<Rightarrow> string list \<Rightarrow> unit pres" where
  "rule_rights message row admitted handled =
     bnd (field_sorted row ''accessRights'' admitted) (\<lambda>rights.
       if list_ex (\<lambda>r. r \<notin> set handled) rights then Inl message else Inr ())"

definition landlock_sort :: "string list \<Rightarrow> string list \<Rightarrow> val \<Rightarrow> string pres" where
  "landlock_sort handled_fs handled_net row =
     bnd (field_text row ''kind'') (\<lambda>kind.
     if kind = ''path-beneath'' then
       bnd (keys_exact ''P2 landlock path rule fields not exact'' row [''kind'', ''path'', ''accessRights'']) (\<lambda>_.
       bnd (field_text row ''path'') (\<lambda>path.
       if \<not> canonical_absolute path then Inl ''P2 landlock path malformed''
       else
         bnd (rule_rights ''P2 landlock rule right not handled'' row LANDLOCK_FS handled_fs) (\<lambda>_.
           Inr (''0:'' @ path))))
     else if kind = ''tcp-port'' then
       bnd (keys_exact ''P2 landlock port rule fields not exact'' row [''kind'', ''port'', ''accessRights'']) (\<lambda>_.
       bnd (field_port ''P2 landlock port malformed'' (\<lambda>n. 1 \<le> n \<and> n \<le> 65535) row) (\<lambda>port.
       bnd (rule_rights ''P2 landlock rule right not handled'' row LANDLOCK_NET handled_net) (\<lambda>_.
         Inr (''1:'' @ decimal05 port))))
     else Inl ''P2 landlock rule kind unknown'')"

text \<open>The rules are ordered by a sort key; an empty previous key is no key.\<close>

definition rule_step :: "string \<Rightarrow> (val \<Rightarrow> string pres) \<Rightarrow> val \<Rightarrow> string \<Rightarrow> string pres" where
  "rule_step message sort_of row prior =
     bnd (sort_of row) (\<lambda>sort'. if prior \<noteq> [] \<and> sort' \<le> prior then Inl message else Inr sort')"

definition validate_landlock :: "val \<Rightarrow> unit pres" where
  "validate_landlock v =
     bnd (field_is v ''minimumAbi'' (\<lambda>f. case f of Unsigned n \<Rightarrow> 1 \<le> n \<and> n \<le> 255 | _ \<Rightarrow> False)) (\<lambda>c.
     if \<not> c then Inl ''P2 landlock ABI out of range''
     else
       bnd (field_sorted v ''handledFilesystemRights'' LANDLOCK_FS) (\<lambda>handled_fs.
       bnd (field_sorted v ''handledNetworkRights'' LANDLOCK_NET) (\<lambda>handled_net.
       bnd (field_sorted v ''handledScopeRights'' LANDLOCK_SCOPE_V1) (\<lambda>_.
       bnd (unwrap_array v ''rules'') (\<lambda>rules.
       bnd (fold_res (rule_step ''P2 landlock rules not sorted unique'' (landlock_sort handled_fs handled_net)) rules [])
         (\<lambda>_. Inr ()))))))"

subsection \<open>Landlock, version 2\<close>

definition LANDLOCK_V2_FS :: "string list" where
  "LANDLOCK_V2_FS = [''execute'', ''ioctl-dev'', ''make-block'', ''make-char'', ''make-dir'', ''make-fifo'', ''make-reg'',
     ''make-sock'', ''make-sym'', ''read-dir'', ''read-file'', ''refer'', ''remove-dir'', ''remove-file'',
     ''resolve-unix'', ''truncate'', ''write-file'']"

definition LANDLOCK_V2_NET :: "string list" where
  "LANDLOCK_V2_NET = [''bind-tcp'', ''bind-udp'', ''connect-send-udp'', ''connect-tcp'']"

definition LANDLOCK_V2_NET_ABI4_9 :: "string list" where
  "LANDLOCK_V2_NET_ABI4_9 = [''bind-tcp'', ''connect-tcp'']"

definition LANDLOCK_SCOPE :: "string list" where
  "LANDLOCK_SCOPE = [''abstract-unix-socket'', ''signal'']"

definition expected_fs :: "u64 \<Rightarrow> string list" where
  "expected_fs abi =
     filter (\<lambda>r. r \<noteq> ''resolve-unix'' \<and> (r \<noteq> ''ioctl-dev'' \<or> 5 \<le> abi) \<or> r = ''resolve-unix'' \<and> 9 \<le> abi) LANDLOCK_V2_FS"

definition expected_net :: "u64 \<Rightarrow> string list" where
  "expected_net abi = (if 10 \<le> abi then LANDLOCK_V2_NET else LANDLOCK_V2_NET_ABI4_9)"

definition expected_scope :: "u64 \<Rightarrow> string list" where
  "expected_scope abi = (if 6 \<le> abi then LANDLOCK_SCOPE else [])"

definition landlock_v2_sort :: "string list \<Rightarrow> string list \<Rightarrow> val \<Rightarrow> string pres" where
  "landlock_v2_sort handled_fs handled_net row =
     bnd (field_text row ''kind'') (\<lambda>kind.
     bnd (keys_exact ''P2 Landlock v2 rule fields not exact'' row
            [''kind'', if kind = ''path-beneath'' then ''path'' else ''port'', ''accessRights'']) (\<lambda>_.
     if kind = ''path-beneath'' then
       bnd (field_text row ''path'') (\<lambda>path.
       if \<not> canonical_absolute path then Inl ''P2 Landlock v2 path malformed''
       else
         bnd (rule_rights ''P2 Landlock v2 path right not handled'' row LANDLOCK_V2_FS handled_fs) (\<lambda>_.
           Inr (''path-beneath'' @ [CHR 0x00] @ path)))
     else if kind = ''tcp-port'' \<or> kind = ''udp-port'' then
       bnd (field_port ''P2 Landlock v2 port malformed''
              (\<lambda>n. (if kind = ''tcp-port'' then 1 \<le> n else True) \<and> n \<le> 65535) row) (\<lambda>port.
       bnd (rule_rights ''P2 Landlock v2 network right not handled'' row
              (if kind = ''tcp-port'' then [''bind-tcp'', ''connect-tcp''] else [''bind-udp'', ''connect-send-udp''])
              handled_net) (\<lambda>_.
         Inr (kind @ [CHR 0x00] @ decimal05 port)))
     else Inl ''P2 Landlock v2 rule kind unknown''))"

definition validate_landlock_v2 :: "val \<Rightarrow> unit pres" where
  "validate_landlock_v2 v =
     bnd (field_is v ''minimumAbi'' (\<lambda>f. case f of Unsigned n \<Rightarrow> 4 \<le> n \<and> n \<le> 10 | _ \<Rightarrow> False)) (\<lambda>c.
     bnd (if \<not> c then Inr True
          else bnd (p2_field v ''reviewedMaximumAbi'') (\<lambda>f. Inr (f \<noteq> Unsigned 10))) (\<lambda>bad.
     if bad then Inl ''P2 Landlock v2 ABI range is not reviewed''
     else
       bnd (p2_field v ''effectiveAbi'') (\<lambda>f.
       bnd (case f of
              Unsigned n \<Rightarrow> if 4 \<le> n \<and> n \<le> 10 then Inr n else Inl ''P2 Landlock v2 effective ABI is not reviewed''
            | _ \<Rightarrow> Inl ''P2 Landlock v2 effective ABI is not reviewed'') (\<lambda>effective.
       bnd (unwrap_unsigned v ''minimumAbi'') (\<lambda>minimum.
       if effective < minimum then Inl ''P2 Landlock v2 effective ABI is below minimum''
       else
         bnd (field_sorted v ''handledFilesystemRights'' LANDLOCK_V2_FS) (\<lambda>handled_fs.
         bnd (field_sorted v ''handledNetworkRights'' LANDLOCK_V2_NET) (\<lambda>handled_net.
         bnd (field_sorted v ''handledScopeRights'' LANDLOCK_SCOPE) (\<lambda>handled_scope.
         if handled_fs \<noteq> expected_fs effective \<or> handled_net \<noteq> expected_net effective
            \<or> handled_scope \<noteq> expected_scope effective
         then Inl ''P2 Landlock v2 handled-right closure is incomplete''
         else
           bnd (unwrap_array v ''rules'') (\<lambda>rules.
           bnd (fold_res (rule_step ''P2 Landlock v2 rules not sorted unique''
                   (landlock_v2_sort handled_fs handled_net)) rules []) (\<lambda>_. Inr ()))))))))))"

subsection \<open>Seccomp\<close>

definition seccomp_argument_step :: "val \<Rightarrow> u64 option \<Rightarrow> u64 option pres" where
  "seccomp_argument_step arg prior =
     bnd (keys_exact ''P2 seccomp argument fields not exact'' arg [''index'', ''operator'', ''value'', ''mask'']) (\<lambda>_.
     bnd (p2_field arg ''index'') (\<lambda>f.
     bnd (case f of Unsigned n \<Rightarrow> if n \<le> 5 then Inr n else Inl ''P2 seccomp argument index''
          | _ \<Rightarrow> Inl ''P2 seccomp argument index'') (\<lambda>idx.
     if repeats prior idx then Inl ''P2 seccomp arguments not sorted unique''
     else
       bnd (field_text arg ''operator'') (\<lambda>op'.
       bnd (if op' \<notin> {''eq'', ''ne'', ''lt'', ''le'', ''gt'', ''ge'', ''masked-eq''} then Inr False
            else bnd (field_is arg ''value'' is_unsigned) (\<lambda>c. if \<not> c then Inr False
            else bnd (field_is arg ''mask'' is_unsigned) (\<lambda>m. Inr ((op' = ''masked-eq'') = m)))) (\<lambda>c.
         if \<not> c then Inl ''P2 seccomp argument malformed'' else Inr (Some idx))))))"

definition seccomp_step :: "val \<Rightarrow> string option \<Rightarrow> string option pres" where
  "seccomp_step row prior =
     bnd (keys_exact ''P2 seccomp rule fields not exact'' row [''syscall'', ''action'', ''errno'', ''arguments'']) (\<lambda>_.
     bnd (field_identifier row ''syscall'') (\<lambda>syscall.
     if repeats prior syscall then Inl ''P2 seccomp rules not sorted unique''
     else
       bnd (field_text row ''action'') (\<lambda>action.
       if action \<notin> {''allow'', ''kill-process'', ''errno''} then Inl ''P2 seccomp action unknown''
       else
         bnd (field_is row ''errno'' is_unsigned) (\<lambda>has_errno.
         if (action = ''errno'') \<noteq> has_errno then Inl ''P2 seccomp errno contradiction''
         else
           bnd (field_array ''P2 seccomp arguments bound'' row ''arguments'' (\<lambda>a. length a \<le> 6)) (\<lambda>args.
           bnd (fold_res seccomp_argument_step args None) (\<lambda>_. Inr (Some syscall)))))))"

definition validate_seccomp :: "val \<Rightarrow> unit pres" where
  "validate_seccomp v =
     bnd (field_text v ''architecture'') (\<lambda>architecture.
     bnd (if architecture \<notin> {''x86_64'', ''aarch64''} then Inr True
          else bnd (field_text v ''defaultAction'') (\<lambda>action. Inr (action \<noteq> ''kill-process''))) (\<lambda>bad.
     if bad then Inl ''P2 seccomp header malformed''
     else bnd (unwrap_array v ''rules'') (\<lambda>rules. bnd (fold_res seccomp_step rules None) (\<lambda>_. Inr ()))))"

end
