(* ===== verification/Sha512.thy ===== *)
theory Sha512
  imports Sha256
begin

section \<open>SHA-512\<close>

text \<open>
  \<open>sha512\<close> of \<open>native/crates/protocol/src/p2_schema.rs\<close>. The length is a \<open>u128\<close>; the allocation of
  the padded message is the argument \<open>reserve\<close>. The round constants are in decimal;
  \<open>K512_hex\<close> and \<open>H512_hex\<close> give their halves in the notation of the source.
\<close>

definition K512 :: "u64 list" where
  "K512 =
    [4794697086780616226, 8158064640168781261, 13096744586834688815, 16840607885511220156,
     4131703408338449720, 6480981068601479193, 10538285296894168987, 12329834152419229976,
     15566598209576043074, 1334009975649890238, 2608012711638119052, 6128411473006802146,
     8268148722764581231, 9286055187155687089, 11230858885718282805, 13951009754708518548,
     16472876342353939154, 17275323862435702243, 1135362057144423861, 2597628984639134821,
     3308224258029322869, 5365058923640841347, 6679025012923562964, 8573033837759648693,
     10970295158949994411, 12119686244451234320, 12683024718118986047, 13788192230050041572,
     14330467153632333762, 15395433587784984357, 489312712824947311, 1452737877330783856,
     2861767655752347644, 3322285676063803686, 5560940570517711597, 5996557281743188959,
     7280758554555802590, 8532644243296465576, 9350256976987008742, 10552545826968843579,
     11727347734174303076, 12113106623233404929, 14000437183269869457, 14369950271660146224,
     15101387698204529176, 15463397548674623760, 17586052441742319658, 1182934255886127544,
     1847814050463011016, 2177327727835720531, 2830643537854262169, 3796741975233480872,
     4115178125766777443, 5681478168544905931, 6601373596472566643, 7507060721942968483,
     8399075790359081724, 8693463985226723168, 9568029438360202098, 10144078919501101548,
     10430055236837252648, 11840083180663258601, 13761210420658862357, 14299343276471374635,
     14566680578165727644, 15097957966210449927, 16922976911328602910, 17689382322260857208,
     500013540394364858, 748580250866718886, 1242879168328830382, 1977374033974150939,
     2944078676154940804, 3659926193048069267, 4368137639120453308, 4836135668995329356,
     5532061633213252278, 6448918945643986474, 6902733635092675308, 7801388544844847127]"

lemma K512_hex:
  "map (\<lambda>w. (drop_bit 32 w, take_bit 32 w)) K512 =
    [(0x428a2f98, 0xd728ae22), (0x71374491, 0x23ef65cd), (0xb5c0fbcf, 0xec4d3b2f),
     (0xe9b5dba5, 0x8189dbbc), (0x3956c25b, 0xf348b538), (0x59f111f1, 0xb605d019),
     (0x923f82a4, 0xaf194f9b), (0xab1c5ed5, 0xda6d8118), (0xd807aa98, 0xa3030242),
     (0x12835b01, 0x45706fbe), (0x243185be, 0x4ee4b28c), (0x550c7dc3, 0xd5ffb4e2),
     (0x72be5d74, 0xf27b896f), (0x80deb1fe, 0x3b1696b1), (0x9bdc06a7, 0x25c71235),
     (0xc19bf174, 0xcf692694), (0xe49b69c1, 0x9ef14ad2), (0xefbe4786, 0x384f25e3),
     (0x0fc19dc6, 0x8b8cd5b5), (0x240ca1cc, 0x77ac9c65), (0x2de92c6f, 0x592b0275),
     (0x4a7484aa, 0x6ea6e483), (0x5cb0a9dc, 0xbd41fbd4), (0x76f988da, 0x831153b5),
     (0x983e5152, 0xee66dfab), (0xa831c66d, 0x2db43210), (0xb00327c8, 0x98fb213f),
     (0xbf597fc7, 0xbeef0ee4), (0xc6e00bf3, 0x3da88fc2), (0xd5a79147, 0x930aa725),
     (0x06ca6351, 0xe003826f), (0x14292967, 0x0a0e6e70), (0x27b70a85, 0x46d22ffc),
     (0x2e1b2138, 0x5c26c926), (0x4d2c6dfc, 0x5ac42aed), (0x53380d13, 0x9d95b3df),
     (0x650a7354, 0x8baf63de), (0x766a0abb, 0x3c77b2a8), (0x81c2c92e, 0x47edaee6),
     (0x92722c85, 0x1482353b), (0xa2bfe8a1, 0x4cf10364), (0xa81a664b, 0xbc423001),
     (0xc24b8b70, 0xd0f89791), (0xc76c51a3, 0x0654be30), (0xd192e819, 0xd6ef5218),
     (0xd6990624, 0x5565a910), (0xf40e3585, 0x5771202a), (0x106aa070, 0x32bbd1b8),
     (0x19a4c116, 0xb8d2d0c8), (0x1e376c08, 0x5141ab53), (0x2748774c, 0xdf8eeb99),
     (0x34b0bcb5, 0xe19b48a8), (0x391c0cb3, 0xc5c95a63), (0x4ed8aa4a, 0xe3418acb),
     (0x5b9cca4f, 0x7763e373), (0x682e6ff3, 0xd6b2b8a3), (0x748f82ee, 0x5defb2fc),
     (0x78a5636f, 0x43172f60), (0x84c87814, 0xa1f0ab72), (0x8cc70208, 0x1a6439ec),
     (0x90befffa, 0x23631e28), (0xa4506ceb, 0xde82bde9), (0xbef9a3f7, 0xb2c67915),
     (0xc67178f2, 0xe372532b), (0xca273ece, 0xea26619c), (0xd186b8c7, 0x21c0c207),
     (0xeada7dd6, 0xcde0eb1e), (0xf57d4f7f, 0xee6ed178), (0x06f067aa, 0x72176fba),
     (0x0a637dc5, 0xa2c898a6), (0x113f9804, 0xbef90dae), (0x1b710b35, 0x131c471b),
     (0x28db77f5, 0x23047d84), (0x32caab7b, 0x40c72493), (0x3c9ebe0a, 0x15c9bebc),
     (0x431d67c4, 0x9c100d4c), (0x4cc5d4be, 0xcb3e42b6), (0x597f299c, 0xfc657e2a),
     (0x5fcb6fab, 0x3ad6faec), (0x6c44198c, 0x4a475817)]"
  by (simp add: K512_def)

definition H512 :: "u64 list" where
  "H512 =
    [7640891576956012808, 13503953896175478587, 4354685564936845355, 11912009170470909681,
     5840696475078001361, 11170449401992604703, 2270897969802886507, 6620516959819538809]"

lemma H512_hex:
  "map (\<lambda>w. (drop_bit 32 w, take_bit 32 w)) H512 =
    [(0x6a09e667, 0xf3bcc908), (0xbb67ae85, 0x84caa73b), (0x3c6ef372, 0xfe94f82b),
     (0xa54ff53a, 0x5f1d36f1), (0x510e527f, 0xade682d1), (0x9b05688c, 0x2b3e6c1f),
     (0x1f83d9ab, 0xfb41bd6b), (0x5be0cd19, 0x137e2179)]"
  by (simp add: H512_def)

type_synonym regs64 = "u64 \<times> u64 \<times> u64 \<times> u64 \<times> u64 \<times> u64 \<times> u64 \<times> u64"

definition sha512_expand :: "nat \<Rightarrow> u64 list \<Rightarrow> u64 list" where
  "sha512_expand i w =
     (let s0 = word_rotr 1 (w ! (i - 15)) XOR word_rotr 8 (w ! (i - 15)) XOR drop_bit 7 (w ! (i - 15));
          s1 = word_rotr 19 (w ! (i - 2)) XOR word_rotr 61 (w ! (i - 2)) XOR drop_bit 6 (w ! (i - 2))
      in w[i := w ! (i - 16) + s0 + w ! (i - 7) + s1])"

definition sha512_schedule :: "bytes \<Rightarrow> u64 list" where
  "sha512_schedule chunk =
     fold sha512_expand [16..<80] (map from_be_bytes (chunks_exact 8 chunk) @ replicate 64 0)"

definition sha512_round :: "u64 list \<Rightarrow> nat \<Rightarrow> regs64 \<Rightarrow> regs64" where
  "sha512_round w i = (\<lambda>(a, b, c, d, e, f, g, hh).
     let s1 = word_rotr 14 e XOR word_rotr 18 e XOR word_rotr 41 e;
         ch = (e AND f) XOR (NOT e AND g);
         t1 = hh + s1 + ch + K512 ! i + w ! i;
         s0 = word_rotr 28 a XOR word_rotr 34 a XOR word_rotr 39 a;
         maj = (a AND b) XOR (a AND c) XOR (b AND c);
         t2 = s0 + maj
     in (t1 + t2, a, b, c, d + t1, e, f, g))"

definition sha512_block :: "bytes \<Rightarrow> u64 list \<Rightarrow> u64 list" where
  "sha512_block chunk h =
     (let w = sha512_schedule chunk;
          (a, b, c, d, e, f, g, hh) =
            fold (sha512_round w) [0..<80] (h ! 0, h ! 1, h ! 2, h ! 3, h ! 4, h ! 5, h ! 6, h ! 7)
      in map2 (+) h [a, b, c, d, e, f, g, hh])"

definition padded_length :: "nat \<Rightarrow> nat option" where
  "padded_length n =
     Option.bind (checked_add n 1) (\<lambda>n.
     Option.bind (checked_add n 16) (\<lambda>n.
     map_option (\<lambda>n. n div 128 * 128) (checked_add n 127)))"

text \<open>\<open>Vec::resize\<close> truncates or fills.\<close>

definition vec_resize :: "nat \<Rightarrow> 'a \<Rightarrow> 'a list \<Rightarrow> 'a list" where
  "vec_resize n x xs = take n xs @ replicate (n - length xs) x"

definition sha512_pad :: "bytes \<Rightarrow> nat \<Rightarrow> bytes" where
  "sha512_pad bs padded =
     vec_resize (padded - 16) 0 (bs @ [0x80]) @ to_be_bytes 16 (of_nat (8 * length bs) :: 128 word)"

definition sha512 :: "(nat \<Rightarrow> bool) \<Rightarrow> bytes \<Rightarrow> (string, bytes) res" where
  "sha512 reserve bs =
     (if 2 ^ 128 \<le> length bs * 8 then Inl ''SHA-512 length overflow''
      else
        bnd (ok_or ''SHA-512 length overflow'' (padded_length (length bs))) (\<lambda>padded.
        if \<not> reserve padded then Inl ''SHA-512 allocation failed''
        else
          let h = fold sha512_block (chunks_exact 128 (sha512_pad bs padded)) H512
          in Inr (concat (map (to_be_bytes 8) h))))"

subsection \<open>The padding\<close>

lemma padded_length_iff:
  "padded_length n = Some p \<longleftrightarrow> n + 144 \<le> usize_max \<and> p = (n + 144) div 128 * 128"
  by (auto simp: padded_length_def checked_add_def split: bind_splits)

text \<open>The least multiple of the block size that holds the message, the marker and the length.\<close>

lemma padded_length_least:
  fixes n :: nat
  defines "p \<equiv> (n + 144) div 128 * 128"
  shows "128 dvd p" and "n + 17 \<le> p" and "128 dvd q \<Longrightarrow> n + 17 \<le> q \<Longrightarrow> p \<le> q"
proof -
  show "128 dvd p" by (simp add: p_def)
  have "n + 144 = p + (n + 144) mod 128" by (simp add: p_def)
  moreover have "(n + 144) mod 128 < 128" by simp
  ultimately show "n + 17 \<le> p" by linarith
  show "p \<le> q" if "128 dvd q" "n + 17 \<le> q"
  proof -
    from that(1) obtain k where k: "q = 128 * k" by (auto simp: dvd_def)
    with that(2) have "(n + 144) div 128 \<le> k" by simp
    then show ?thesis by (simp add: p_def k)
  qed
qed

text \<open>When SHA-512 returns a digest, it has hashed the padded message of the standard: the message, the
  bit 1, the fewest zeros that make whole 128-byte blocks, and the bit length in 16 bytes. Nothing of
  the message is cut off by the resize.\<close>

theorem sha512_standard_padding:
  assumes "sha512 reserve bs = Inr digest"
  shows "\<exists>k. let padded = bs @ [0x80] @ replicate k 0 @ to_be_bytes 16 (of_nat (8 * length bs) :: 128 word)
     in length padded mod 128 = 0 \<and> k < 128
        \<and> digest = concat (map (to_be_bytes 8) (fold sha512_block (chunks_exact 128 padded) H512))"
proof -
  define p where "p = (length bs + 144) div 128 * 128"
  have p: "128 dvd p" "length bs + 17 \<le> p" "p \<le> length bs + 144"
    using padded_length_least [of "length bs"] by (simp_all add: p_def)
  from assms have d: "digest = concat (map (to_be_bytes 8) (fold sha512_block (chunks_exact 128 (sha512_pad bs p)) H512))"
    by (auto simp: sha512_def padded_length_iff p_def Let_def bnd_eq_Inr split: if_splits)
  define k where "k = p - 17 - length bs"
  have "sha512_pad bs p = bs @ [0x80] @ replicate k 0 @ to_be_bytes 16 (of_nat (8 * length bs) :: 128 word)"
    using p by (simp add: sha512_pad_def vec_resize_def k_def)
  moreover have "length (bs @ [0x80] @ replicate k 0 @ to_be_bytes 16 (of_nat (8 * length bs) :: 128 word)) = p"
    using p by (simp add: k_def)
  moreover have "k < 128" using p by (simp add: k_def)
  ultimately show ?thesis
    using d p(1) by (intro exI [of _ k]) (simp add: Let_def)
qed

theorem sha512_standard_padding_witness:
  "\<exists>k. let padded = [0x61] @ [0x80] @ replicate k 0 @ to_be_bytes 16 (8 :: 128 word)
     in length padded mod 128 = 0 \<and> k < 128
        \<and> sha512 (\<lambda>_. True) [0x61] = Inr (concat (map (to_be_bytes 8) (fold sha512_block (chunks_exact 128 padded) H512)))"
proof -
  have "is_ok (sha512 (\<lambda>_. True) [0x61])"
    by (simp add: sha512_def padded_length_iff usize_max_def padded_length_def checked_add_def)
  then obtain digest where d: "sha512 (\<lambda>_. True) [0x61] = Inr digest" by (auto simp: is_ok_iff)
  from sha512_standard_padding [OF d] show ?thesis unfolding d by simp
qed

end
