(* ===== verification/P2_Capture.thy ===== *)
theory P2_Capture
  imports P2_Confinement Sha512
begin

section \<open>Capturing a P2 record\<close>

text \<open>
  \<open>validate_special\<close>, \<open>capture_p2\<close> and the digests and preimages of
  \<open>native/crates/protocol/src/p2_schema.rs\<close>: from bytes to a value of a known schema, with the
  payload bound by its digest. Signatures are not verified here, as in the code.
\<close>

subsection \<open>Dispatch\<close>

definition ALL_SCHEMAS :: "schema_spec list" where
  "ALL_SCHEMAS = P2_SCHEMAS @ B3_OPERATION_SCHEMAS"

definition operation_names :: "(string \<times> string) list" where
  "operation_names = [(''genesis'', ''B3GenesisOperationV1''), (''read'', ''B3ReadOperationV1''),
     (''compare-and-advance'', ''B3CasOperationV1''), (''validate-lease'', ''B3LeaseOperationV1''),
     (''subscribe-invalidation'', ''B3SubscribeOperationV1'')]"

definition operation_spec :: "val \<Rightarrow> schema_spec pres" where
  "operation_spec v =
     bnd (field_text v ''operationKind'') (\<lambda>kind.
     bnd (ok_or ''P2 B3 operation kind unknown'' (map_of operation_names kind)) (\<lambda>name.
       ok_or PANIC (find (\<lambda>s. ss_name s = name) B3_OPERATION_SCHEMAS)))"

definition expected_kinds :: "(string \<times> string) list" where
  "expected_kinds = [(''B3GenesisOperationV1'', ''genesis''), (''B3ReadOperationV1'', ''read''),
     (''B3CasOperationV1'', ''compare-and-advance''), (''B3LeaseOperationV1'', ''validate-lease''),
     (''B3SubscribeOperationV1'', ''subscribe-invalidation'')]"

definition validate_operation :: "schema_spec \<Rightarrow> val \<Rightarrow> unit pres" where
  "validate_operation spec v =
     bnd (p2_require v ''schema'' ''keep.native-b3-operation'') (\<lambda>_.
     bnd (require_version v 1) (\<lambda>_.
     bnd (ok_or ''P2 operation metadata unknown'' (map_of expected_kinds (ss_name spec))) (\<lambda>kind.
     bnd (p2_require v ''operationKind'' kind) (\<lambda>_.
     bnd (case val_field v ''scopeKey'' of None \<Rightarrow> Inr () | Some scope \<Rightarrow> validate_scope scope) (\<lambda>_.
       if ss_name spec = ''B3CasOperationV1''
       then bnd (p2_field v ''callerPurpose'') validate_caller_purpose else Inr ())))))"

definition special_checks :: "(string \<times> (val \<Rightarrow> unit pres)) list" where
  "special_checks =
     [(''NativeFdFlagsV1'', validate_fd_flags), (''NativeEnvironmentPolicyV1'', validate_environment),
      (''NativeIoMaxV1'', validate_io_max), (''NativeLandlockPolicyV1'', validate_landlock),
      (''NativeLandlockPolicyV2'', validate_landlock_v2), (''NativeSeccompPolicyV1'', validate_seccomp),
      (''NativeObservationResultV1'', validate_observation), (''NativePeerPolicyV1'', validate_peer_policy),
      (''NativeControlPolicyV1'', validate_control_policy), (''NativeJournalEntriesV1'', validate_journal_entries),
      (''NativeTransportIdentityV1'', validate_transport), (''NativeInvocationV1'', validate_invocation),
      (''NativeComparisonV1'', validate_comparison), (''NativeArtifactInventoryV1'', validate_inventory),
      (''NativePackagePayloadV1'', validate_package), (''NativeToolchainClosureV1'', validate_toolchain),
      (''NativeSbomV1'', validate_sbom), (''NativeBuildIdentityV1'', validate_build_identity),
      (''NativeProvenanceV1'', validate_provenance), (''NativeReproducibilityRecordV1'', validate_repro),
      (''NativeGenesisEpochV1'', validate_genesis_epoch), (''NativeRootV1'', validate_root),
      (''NativeTimestampV1'', \<lambda>v. validate_interval v ''issuedCounter'' ''expiresCounter'' True),
      (''NativeRollbackAuthorizationV1'', validate_rollback), (''NativeRevocationRecoveryV1'', validate_recovery),
      (''NativeB3ProfileV1'', validate_b3_profile), (''B3StateV1'', validate_b3_state),
      (''B3ReceiptV1'', validate_b3_receipt), (''B3InvalidationFrameV1'', validate_frame),
      (''B3InvalidationAckV1'', validate_b3_ack)]"

definition validate_special :: "schema_spec \<Rightarrow> val \<Rightarrow> unit pres" where
  "validate_special spec v =
     bnd (if ss_schema spec = ''keep.native-b3-operation'' then validate_operation spec v else Inr ()) (\<lambda>_.
       case map_of special_checks (ss_name spec) of None \<Rightarrow> Inr () | Some check \<Rightarrow> check v)"

subsection \<open>Digests and preimages\<close>

definition bare_digest :: "val \<Rightarrow> limits \<Rightarrow> string pres" where
  "bare_digest v lim = bnd (encode_bounded v lim) (\<lambda>bs. Inr (sha256_hex bs))"

definition envelope_digest :: "val \<Rightarrow> limits \<Rightarrow> string pres" where
  "envelope_digest envelope lim =
     bnd (p2_field envelope ''payload'') (\<lambda>payload.
     bnd (field_text envelope ''payloadDigest'') (\<lambda>digest.
     bnd (bare_digest payload lim) (\<lambda>expected.
       if digest \<noteq> expected then Inl ''P2 payload digest mismatch'' else bare_digest envelope lim)))"

definition domain_preimage :: "bytes \<Rightarrow> val \<Rightarrow> limits \<Rightarrow> bytes pres" where
  "domain_preimage domain v lim =
     (if \<not> ends_with domain (str_bytes ''/v1'' @ [0]) then Inl ''P2 domain malformed''
      else bnd (encode_bounded v lim) (\<lambda>canonical. Inr (domain @ canonical)))"

definition operation_digest :: "string \<Rightarrow> val \<Rightarrow> string pres" where
  "operation_digest name v =
     bnd (ok_or ''P2 operation schema unknown'' (find (\<lambda>s. ss_name s = name) B3_OPERATION_SCHEMAS)) (\<lambda>spec.
     bnd (p2_exact v (ss_fields spec)) (\<lambda>_.
     bnd (validate_special spec v) (\<lambda>_.
     bnd (ok_or PANIC (ss_signature_domain spec)) (\<lambda>domain.
     bnd (domain_preimage domain v MANIFEST) (\<lambda>preimage. Inr (sha256_hex preimage))))))"

definition root_domain :: "val \<Rightarrow> bytes" where
  "root_domain payload =
     (if val_field payload ''rootEpoch'' = Some (Unsigned 0) then str_bytes ''keep.native-root-genesis/v1'' @ [0]
      else str_bytes ''keep.native-root-update/v1'' @ [0])"

definition signature_preimage :: "(nat \<Rightarrow> bool) \<Rightarrow> string \<Rightarrow> val \<Rightarrow> bytes pres" where
  "signature_preimage reserve name payload =
     bnd (ok_or ''P2 signed schema unknown'' (find (\<lambda>s. ss_name s = name) P2_SCHEMAS)) (\<lambda>spec.
     bnd (if ss_name spec = ''NativeRootV1'' then Inr (root_domain payload)
          else ok_or ''P2 schema is unsigned'' (ss_signature_domain spec)) (\<lambda>domain.
     bnd (p2_exact payload (ss_fields spec)) (\<lambda>_.
     bnd (domain_preimage domain payload MANIFEST) (sha512 reserve))))"

subsection \<open>Capture\<close>

record p2_capture =
  pc_schema_name :: string
  pc_canonical :: bytes
  pc_value :: val

definition capture_limits :: "string option \<Rightarrow> limits" where
  "capture_limits expected_name = (if expected_name = Some ''NativeEvidenceV1'' then EVIDENCE else MANIFEST)"

definition select_spec :: "string option \<Rightarrow> val \<Rightarrow> schema_spec pres" where
  "select_spec expected_name candidate =
     (case Option.bind expected_name (\<lambda>name. find (\<lambda>s. ss_name s = name) ALL_SCHEMAS) of
        Some spec \<Rightarrow> Inr spec
      | None \<Rightarrow>
          bnd (field_text candidate ''schema'') (\<lambda>discriminator.
          if discriminator = ''keep.native-b3-operation'' then operation_spec candidate
          else ok_or ''P2 schema unknown'' (find (\<lambda>s. ss_schema s = discriminator) P2_SCHEMAS)))"

definition role_tagged :: "schema_spec \<Rightarrow> val \<Rightarrow> bool" where
  "role_tagged spec payload \<longleftrightarrow>
     ss_shape spec = SRootEnvelope \<and> val_field payload ''rootEpoch'' \<noteq> Some (Unsigned 0)"

definition open_envelope :: "schema_spec \<Rightarrow> limits \<Rightarrow> val \<Rightarrow> val pres" where
  "open_envelope spec lim v =
     bnd (keys_exact ''P2 envelope fields not exact'' v [''payload'', ''payloadDigest'', ''signatures'']) (\<lambda>_.
     bnd (p2_field v ''payload'') (\<lambda>payload.
     bnd (field_text v ''payloadDigest'') (\<lambda>digest.
     bnd (bare_digest payload lim) (\<lambda>expected.
     if digest \<noteq> expected then Inl ''P2 payload digest mismatch''
     else
       bnd (p2_field v ''signatures'') (\<lambda>signatures.
       bnd (validate_signature_rows signatures (role_tagged spec payload)) (\<lambda>_.
       bnd (if val_field payload ''trustClass'' \<noteq> None then validate_signer_namespace payload signatures
            else Inr ()) (\<lambda>_. Inr payload)))))))"

definition check_header :: "schema_spec \<Rightarrow> val \<Rightarrow> unit pres" where
  "check_header spec payload =
     bnd (p2_exact payload (ss_fields spec)) (\<lambda>_.
     bnd (if ''schema'' \<in> set (ss_fields spec) then p2_require payload ''schema'' (ss_schema spec) else Inr ()) (\<lambda>_.
     bnd (if ''version'' \<in> set (ss_fields spec)
          then require_version payload (if ss_name spec = ''NativeLandlockPolicyV2'' then 2 else 1)
          else Inr ()) (\<lambda>_.
       validate_special spec payload)))"

definition capture_p2 :: "bytes \<Rightarrow> string option \<Rightarrow> p2_capture pres" where
  "capture_p2 bs expected_name =
     (let lim = capture_limits expected_name
      in if max_bytes lim < length bs then Inl ''P2 encoded size exceeds bound''
         else
           bnd (decode_canonical bs lim) (\<lambda>v.
           bnd (select_spec expected_name (case val_field v ''payload'' of Some p \<Rightarrow> p | None \<Rightarrow> v)) (\<lambda>spec.
           if (case expected_name of None \<Rightarrow> False | Some name \<Rightarrow> name \<noteq> ss_name spec)
           then Inl ''P2 expected schema mismatch''
           else
             bnd (ok_or ''P2 recursive schema absent'' (recursive_schema_spec (ss_name spec))) (\<lambda>schema.
             bnd (validate_recursive v schema) (\<lambda>_.
             bnd (if ss_shape spec = SUnsigned then Inr v else open_envelope spec lim v) (\<lambda>payload.
             bnd (check_header spec payload) (\<lambda>_.
               Inr \<lparr>pc_schema_name = ss_name spec, pc_canonical = bs, pc_value = v\<rparr>)))))))"

subsection \<open>Closed metadata\<close>

definition metadata_step ::
  "schema_spec \<Rightarrow> string set \<times> bytes set \<Rightarrow> (string set \<times> bytes set) pres" where
  "metadata_step spec = (\<lambda>(names, domains).
     if ss_name spec \<in> names then Inl ''P2 schema name duplicate''
     else if \<not> distinct (ss_fields spec) then Inl ''P2 schema field duplicate''
     else (case ss_signature_domain spec of
         None \<Rightarrow> Inr (insert (ss_name spec) names, domains)
       | Some d \<Rightarrow>
           if d \<in> domains then Inl ''P2 domain duplicate''
           else Inr (insert (ss_name spec) names, insert d domains)))"

definition schema_metadata_is_closed :: "unit pres" where
  "schema_metadata_is_closed = bnd (fold_res metadata_step ALL_SCHEMAS ({}, {})) (\<lambda>_. Inr ())"

text \<open>\<open>rows.sort_by_key(schema_name)\<close>: the domain under which each schema is signed.\<close>

definition preimage_rows :: "schema_spec \<Rightarrow> (string \<times> bytes) list" where
  "preimage_rows spec =
     (if ss_name spec = ''NativeRootV1'' then
        [(''NativeRootV1.initial'', str_bytes ''keep.native-root-genesis/v1'' @ [0]),
         (''NativeRootV1.successor'', str_bytes ''keep.native-root-update/v1'' @ [0])]
      else (case ss_signature_domain spec of None \<Rightarrow> [] | Some d \<Rightarrow> [(ss_name spec, d)]))"

definition signature_preimage_registry :: "(string \<times> bytes \<times> nat) list" where
  "signature_preimage_registry =
     sort_key fst (map (\<lambda>(name, d). (name, d, 64)) (concat (map preimage_rows ALL_SCHEMAS)))"

end
