(* ===== verification/P2_Capture_Props.thy ===== *)
theory P2_Capture_Props
  imports P2_Capture
begin

section \<open>What a captured P2 record guarantees\<close>

text \<open>
  The two descriptions of each schema (field list and recursive schema) agree, and the stages of
  \<open>capture_p2\<close> hand a payload that satisfies its recursive schema to the semantic checks.
\<close>

subsection \<open>The two descriptions of a schema\<close>

definition payload_spec :: "schema_shape \<Rightarrow> rspec \<Rightarrow> rspec option" where
  "payload_spec shape r =
     (if shape = SUnsigned then Some r
      else case r of RRecord fs \<Rightarrow> map_of fs ''payload'' | _ \<Rightarrow> None)"

definition envelope_spec :: "rspec \<Rightarrow> bool" where
  "envelope_spec r \<longleftrightarrow>
     (case r of RRecord fs \<Rightarrow> map fst fs = [''payload'', ''payloadDigest'', ''signatures''] | _ \<Rightarrow> False)"

definition fields_agree :: "schema_spec \<Rightarrow> rspec \<Rightarrow> bool" where
  "fields_agree spec r \<longleftrightarrow>
     (case r of
        RRecord fs \<Rightarrow> map fst fs = ss_fields spec
          \<and> map_of fs ''schema'' \<in> {None, Some (RIdentifier (Some [ss_schema spec]))}
          \<and> map_of fs ''version'' \<in> {None, Some (RUint 1 1), Some (RUint 2 2)}
      | _ \<Rightarrow> False)"

definition tables_agree :: "schema_spec \<Rightarrow> bool" where
  "tables_agree spec \<longleftrightarrow>
     (case recursive_schema_spec (ss_name spec) of
        None \<Rightarrow> False
      | Some r \<Rightarrow> (ss_shape spec \<noteq> SUnsigned \<longrightarrow> envelope_spec r)
          \<and> (case payload_spec (ss_shape spec) r of None \<Rightarrow> False | Some p \<Rightarrow> fields_agree spec p))"

text \<open>Lookups of literal names in the registries, evaluated with few rules.\<close>

lemmas literal_eq = list.inject char.inject list.distinct simp_thms if_True if_False

lemmas lookup_eval = map_of_Cons_code map_of.simps(1) literal_eq fst_conv snd_conv option.case option.sel
  recursive_schema_spec_def recursive_schemas_def

lemmas registry_rows = ALL_SCHEMAS_def P2_SCHEMAS_def P2_SCHEMAS_1_def P2_SCHEMAS_2_def B3_OPERATION_SCHEMAS_def
  append.simps schema_row_def

lemma all_tables_agree: "list_all tables_agree ALL_SCHEMAS"
  apply (simp only: registry_rows list.pred_inject tables_agree_def lookup_eval schema_spec.select_convs)
  apply (simp add: payload_spec_def envelope_spec_def fields_agree_def schema_defs)
  done

subsection \<open>What the stages of a capture establish\<close>

lemma validate_record_field:
  "validate_recursive v (RRecord fs) = Inr () \<Longrightarrow> map_of fs name = Some s \<Longrightarrow>
     \<exists>child. val_field v name = Some child \<and> validate_recursive child s = Inr ()"
  by (fastforce simp: bnd_eq_Inr for_all_ok unit_ok p2_field_def split: if_splits dest: map_of_SomeD)

lemma open_envelope_payload:
  "open_envelope spec lim v = Inr payload \<Longrightarrow> val_field v ''payload'' = Some payload"
  by (auto simp: open_envelope_def bnd_eq_Inr p2_field_def split: if_splits)

lemma find_set: "find p xs = Some x \<Longrightarrow> x \<in> set xs"
  by (induction xs) (auto split: if_splits)

lemma select_spec_known: "select_spec expected_name v = Inr spec \<Longrightarrow> spec \<in> set ALL_SCHEMAS"
  by (auto simp: select_spec_def operation_spec_def bnd_eq_Inr ALL_SCHEMAS_def bind_eq_Some_conv
      dest!: find_set split: option.splits if_splits)

lemma payload_valid:
  assumes "validate_recursive v r = Inr ()" "payload_spec (ss_shape spec) r = Some p"
    and "(if ss_shape spec = SUnsigned then Inr v else open_envelope spec lim v) = Inr payload"
  shows "validate_recursive payload p = Inr ()"
  using assms by (auto simp: payload_spec_def simp del: validate_recursive.simps split: if_splits rspec.splits
      dest!: open_envelope_payload validate_record_field [where name = "''payload''"])

end
