(* ===== verification/P2_Panic_Free.thy ===== *)
theory P2_Panic_Free
  imports P2_Capture_Props
begin

section \<open>No capture panics\<close>

text \<open>
  The checks of \<open>p2_schema.rs\<close> contain \<open>unreachable!()\<close> and \<open>unwrap()\<close> where the recursive schema, or
  an earlier check, is meant to exclude the case. Here that is proved: each check is shown not to
  panic on the fields it relies on, and the recursive schema of every record is shown to provide
  those fields.
\<close>

definition panic_free :: "'a pres \<Rightarrow> bool" where
  "panic_free r \<longleftrightarrow> r \<noteq> Inl PANIC"

named_theorems pf \<open>introduction rules for \<open>panic_free\<close>\<close>

lemma panic_free_Inl: "panic_free (Inl m) \<longleftrightarrow> m \<noteq> PANIC"
  by (simp add: panic_free_def)

lemma panic_free_Inr [pf, simp]: "panic_free (Inr v)"
  by (simp add: panic_free_def)

lemma panic_free_bnd [pf]: "panic_free r \<Longrightarrow> (\<And>v. r = Inr v \<Longrightarrow> panic_free (f v)) \<Longrightarrow> panic_free (bnd r f)"
  by (cases r) (auto simp: panic_free_def)

lemma panic_free_if [pf]: "(c \<Longrightarrow> panic_free a) \<Longrightarrow> (\<not> c \<Longrightarrow> panic_free b) \<Longrightarrow> panic_free (if c then a else b)"
  by simp

lemma panic_free_prod [pf]: "(\<And>a b. p = (a, b) \<Longrightarrow> panic_free (f a b)) \<Longrightarrow> panic_free (case p of (a, b) \<Rightarrow> f a b)"
  by (cases p) simp

lemma panic_free_option [pf]: "(x = None \<Longrightarrow> panic_free a) \<Longrightarrow> (\<And>y. x = Some y \<Longrightarrow> panic_free (f y)) \<Longrightarrow>
    panic_free (case x of None \<Rightarrow> a | Some y \<Rightarrow> f y)"
  by (cases x) simp_all

lemma panic_free_val [pf]:
  "(v = Null \<Longrightarrow> panic_free a) \<Longrightarrow> (\<And>x. v = Bool x \<Longrightarrow> panic_free (b x)) \<Longrightarrow>
   (\<And>x. v = Unsigned x \<Longrightarrow> panic_free (c x)) \<Longrightarrow> (\<And>x. v = Bytes x \<Longrightarrow> panic_free (d x)) \<Longrightarrow>
   (\<And>x. v = Text x \<Longrightarrow> panic_free (e x)) \<Longrightarrow> (\<And>x. v = Array x \<Longrightarrow> panic_free (f x)) \<Longrightarrow>
   (\<And>x. v = Map x \<Longrightarrow> panic_free (g x)) \<Longrightarrow>
   panic_free (case v of Null \<Rightarrow> a | Bool x \<Rightarrow> b x | Unsigned x \<Rightarrow> c x | Bytes x \<Rightarrow> d x | Text x \<Rightarrow> e x
     | Array x \<Rightarrow> f x | Map x \<Rightarrow> g x)"
  by (cases v) simp_all

lemma panic_free_ok_or [pf]: "m \<noteq> PANIC \<Longrightarrow> panic_free (ok_or m x)"
  by (cases x) (simp_all add: panic_free_Inl)

lemma panic_free_for_all [pf]: "(\<And>x. x \<in> set xs \<Longrightarrow> panic_free (f x)) \<Longrightarrow> panic_free (for_all f xs)"
  by (induction xs) (auto intro!: panic_free_bnd)

lemma panic_free_fold [pf]: "(\<And>x s. x \<in> set xs \<Longrightarrow> panic_free (f x s)) \<Longrightarrow> panic_free (fold_res f xs s)"
  by (induction xs arbitrary: s) (auto intro!: panic_free_bnd)

lemma panic_free_traverse [pf]: "(\<And>x. x \<in> set xs \<Longrightarrow> panic_free (f x)) \<Longrightarrow> panic_free (traverse f xs)"
  by (induction xs) (auto intro!: panic_free_bnd)

lemmas pf_message = panic_free_Inl PANIC_def

subsection \<open>The codec\<close>

lemma pf_bounded_add [pf]: "panic_free (bounded_add l r lim)"
  unfolding bounded_add_def by (intro pf) (simp_all add: pf_message)

lemma pf_count_item [pf]: "panic_free (count_item lim depth items)"
  unfolding count_item_def by (intro pf) (simp_all add: pf_message)

lemma pf_text_bounds [pf]: "panic_free (text_bounds t lim)"
  unfolding text_bounds_def by (intro pf) (simp_all add: pf_message)

lemma pf_check_total [pf]: "panic_free (check_total lim r)"
  unfolding check_total_def by (intro pf) (simp_all add: pf_message)

lemma pf_key_bounds [pf]: "panic_free (key_bounds k depth items lim)"
  unfolding key_bounds_def by (intro pf)

lemma pf_value_bounds [pf]: "panic_free (validate_value_bounds v depth items lim)"
proof (induction v arbitrary: depth items rule: val_induct)
  case (Leaf v)
  show ?case
  proof (cases v)
    case (Array vs)
    with Leaf show ?thesis by blast
  next
    case (Map es)
    with Leaf show ?thesis by blast
  qed (subst validate_value_bounds.simps, simp, intro pf)+
next
  case (Array vs)
  show ?case
    by (subst validate_value_bounds.simps) (simp, intro pf Array; simp add: pf_message)
next
  case (Map es)
  show ?case
    by (subst validate_value_bounds.simps) (simp, intro pf Map; simp add: pf_message)
qed

lemma pf_encode_text [pf]: "panic_free (encode_text t)"
  unfolding encode_text_def by (intro pf) (simp_all add: pf_message)

lemma pf_encode_key [pf]: "panic_free (encode_key kv)"
  unfolding encode_key_def by (intro pf)

lemma pf_encode_into [pf]: "panic_free (encode_into v)"
proof (induction v rule: val_induct)
  case (Leaf v)
  show ?case
  proof (cases v)
    case (Array vs)
    with Leaf show ?thesis by blast
  next
    case (Map es)
    with Leaf show ?thesis by blast
  qed (simp_all add: pf)
next
  case (Array vs)
  then show ?case by simp (intro pf)
next
  case (Map es)
  have "panic_free (encode_into (snd kv))" if "traverse encode_key es = Inr keyed" "kv \<in> set keyed" for keyed kv
    using traverse_Inr_set [OF that] Map by (force simp: encode_key_def bnd_eq_Inr)
  then show ?case
    by (simp add: Let_def) (intro pf; simp add: pf_message)
qed

lemma pf_encode_bounded [pf]: "panic_free (encode_bounded v lim)"
  unfolding encode_bounded_def by (intro pf) (simp_all add: pf_message)

lemma pf_p_take [pf]: "panic_free (p_take b n st)"
  unfolding p_take_def by (intro pf) (simp_all add: pf_message)

lemma pf_p_argument [pf]: "panic_free (p_argument b a st)"
  unfolding p_argument_def Let_def by (intro pf) (simp_all add: pf_message)

lemma pf_p_text [pf]: "panic_free (p_text b lim n st)"
  unfolding p_text_def by (intro pf) (simp_all add: pf_message)

lemma pf_parse_seq [pf]: "(\<And>st. panic_free (f st)) \<Longrightarrow> panic_free (parse_seq n f st)"
  by (induction n arbitrary: st) (auto intro!: panic_free_bnd)

lemma pf_parse_entries [pf]: "(\<And>st. panic_free (f st)) \<Longrightarrow> panic_free (parse_entries b n f prior st)"
proof (induction n arbitrary: prior st)
  case (Suc n)
  then show ?case by (simp add: Let_def del: if_split) (intro pf Suc; simp add: pf_message)
qed simp

lemma pf_parse_value [pf]: "panic_free (parse_value b lim depth st)"
proof (induction "max_depth lim + 1 - depth" arbitrary: depth st rule: less_induct)
  case less
  show ?case
  proof (cases "max_depth lim < depth")
    case True
    then show ?thesis by (subst parse_value.simps) (simp add: pf_message)
  next
    case False
    then have sub: "panic_free (parse_value b lim (depth + 1) st)" for st
      by (intro less) simp
    show ?thesis
      by (subst parse_value.simps, unfold Let_def) (intro pf sub; simp add: pf_message)
  qed
qed

lemma pf_decode_canonical [pf]: "panic_free (decode_canonical b lim)"
  unfolding decode_canonical_def by (intro pf) (simp_all add: pf_message)

subsection \<open>Accessors and shared checks\<close>

lemma pf_accessors [pf]:
    "panic_free (p2_entries v)"
    "panic_free (p2_field v name)"
    "panic_free (p2_text v)"
    "panic_free (parse_digest t)"
  unfolding p2_entries_def p2_field_def p2_text_def parse_digest_def
  by (intro pf; simp add: pf_message)+

lemma pf_scalars [pf]:
    "panic_free (p2_identifier v)"
    "panic_free (key_part v key)"
    "panic_free (field_text v name)"
    "panic_free (field_is v name p)"
    "m \<noteq> PANIC \<Longrightarrow> panic_free (keys_exact m v ks)"
    "m \<noteq> PANIC \<Longrightarrow> panic_free (field_array m v name q)"
    "m \<noteq> PANIC \<Longrightarrow> panic_free (field_unsigned m v name)"
  unfolding p2_identifier_def key_part_def field_text_def field_is_def keys_exact_def field_array_def
    field_unsigned_def
  by (intro pf; simp add: pf_message)+

lemma pf_fields [pf]:
    "panic_free (recursive_key v keys)"
    "panic_free (field_identifier v name)"
    "panic_free (field_digest v name)"
    "panic_free (p2_exact v ks)"
    "panic_free (exact_keys v ks)"
    "panic_free (uint_field v name)"
    "panic_free (p2_require v name expected)"
    "panic_free (require_version v n)"
    "m \<noteq> PANIC \<Longrightarrow> panic_free (identifier_order m row prior)"
    "m \<noteq> PANIC \<Longrightarrow> panic_free (digest_order m row prior)"
  unfolding recursive_key_def field_identifier_def field_digest_def p2_exact_def exact_keys_def uint_field_def
    p2_require_def require_version_def identifier_order_def digest_order_def
  by (intro pf; simp add: pf_message)+

lemma pf_interval [pf]:
    "panic_free (validate_interval v a b strict)"
  unfolding validate_interval_def
  by (intro pf; simp add: pf_message)+

lemma pf_array_step [pf]:
  "(\<And>c. panic_free (check c)) \<Longrightarrow> panic_free (array_step check sorted_scalar sort_by unique_by c st)"
  unfolding array_step_def by (intro pf) (simp_all add: pf_message)

lemma pf_validate_recursive [pf]: "panic_free (validate_recursive v spec)"
proof (induction "size spec" arbitrary: spec v rule: less_induct)
  case less
  show ?case
  proof (cases spec)
    case (RRecord fs)
    then show ?thesis by simp (intro pf less; simp add: pf_message RRecord)
  next
    case (RArray item n k sorted_scalar sb ub)
    then show ?thesis by simp (intro pf less; simp add: pf_message RArray)
  next
    case (RTagged tag vs)
    then have "panic_free (validate_recursive v (snd x))" if "x \<in> set vs" for x
      using that by (intro less) simp
    then show ?thesis unfolding RTagged
      by (simp, intro pf) (simp_all add: pf_message find_set)
  next
    case (RNullable inner)
    then show ?thesis by (simp add: less)
  next
    case (ROneOf ss)
    then show ?thesis by (simp add: pf_message)
  qed (simp; intro pf; simp add: pf_message)+
qed

subsection \<open>The checks\<close>

lemma pf_signatures [pf]:
    "panic_free (signature_step role row prior)"
    "panic_free (signer_step d row)"
    "panic_free (validate_scope v)"
    "panic_free (key_row_step row st)"
    "panic_free (key_epoch_row indexed)"
  unfolding signature_step_def signer_step_def validate_scope_def key_row_step_def key_epoch_row_def
  by (intro pf; simp add: pf_message)+

lemma pf_rows [pf]:
    "panic_free (validate_signature_rows v tagged)"
    "panic_free (validate_signer_namespace p s)"
    "panic_free (validate_key_rows v name g)"
    "panic_free (validate_rollback v)"
    "panic_free (validate_state_projection v)"
    "panic_free (validate_consumed v)"
    "panic_free (validate_caller_purpose v)"
  unfolding validate_signature_rows_def validate_signer_namespace_def validate_key_rows_def
    validate_rollback_def validate_state_projection_def validate_consumed_def
    validate_caller_purpose_def
  by (intro pf; simp add: pf_message)+

lemma pf_authority [pf]:
    "panic_free (validate_genesis_epoch v)"
    "panic_free (root_role_step v t role seen)"
    "panic_free (validate_b3_state v)"
    "panic_free (validate_b3_profile v)"
    "panic_free (validate_b3_ack v)"
  unfolding validate_genesis_epoch_def root_role_step_def validate_b3_state_def validate_b3_profile_def
    validate_b3_ack_def
  by (intro pf; simp add: pf_message)+

lemma pf_root [pf]:
    "panic_free (validate_root v)"
    "panic_free (validate_recovery v)"
    "panic_free (validate_b3_receipt v)"
  unfolding validate_root_def validate_recovery_def validate_b3_receipt_def
  by (intro pf; simp add: pf_message)+

lemma pf_scheme_digest [intro]: "typed_uri uri \<Longrightarrow> panic_free (scheme_digest uri)"
  by (auto simp: typed_uri_def scheme_digest_def split: option.splits)

lemma pf_typed_uri_step [pf]: "panic_free (typed_uri_step subjects row prior)"
  unfolding typed_uri_step_def by (intro pf pf_scheme_digest; simp add: pf_message)

lemma pf_artifacts [pf]:
    "panic_free (validate_typed_uri_rows v name k subjects)"
    "panic_free (validate_repro v)"
    "panic_free (inventory_step row prior)"
    "panic_free (package_step row last_key)"
    "panic_free (toolchain_step row prior)"
    "panic_free (sbom_step row prior)"
  unfolding validate_typed_uri_rows_def validate_repro_def inventory_step_def package_step_def
    toolchain_step_def sbom_step_def
  by (intro pf; simp add: pf_message)+

lemma pf_evidence [pf]:
    "panic_free (sorted_text_step allowed row out)"
    "panic_free (sorted_text_array v allowed)"
    "panic_free (journal_step row last_sequence)"
    "panic_free (validate_transport v)"
    "panic_free (invocation_step row prior)"
    "panic_free (validate_comparison v)"
    "panic_free (validate_peer_policy v)"
    "panic_free (fact_step row prior)"
  unfolding sorted_text_step_def sorted_text_array_def journal_step_def validate_transport_def
    invocation_step_def validate_comparison_def validate_peer_policy_def fact_step_def
  by (intro pf; simp add: pf_message)+

lemma pf_sorted [pf]:
    "panic_free (field_sorted v name allowed)"
    "panic_free (validate_environment v)"
    "panic_free (io_limit_step row key present)"
    "m \<noteq> PANIC \<Longrightarrow> panic_free (field_port m q row)"
    "m \<noteq> PANIC \<Longrightarrow> (\<And>r. panic_free (f r)) \<Longrightarrow> panic_free (rule_step m f row last_sort)"
    "panic_free (seccomp_argument_step a last_index)"
  unfolding field_sorted_def validate_environment_def io_limit_step_def field_port_def rule_step_def
    seccomp_argument_step_def
  by (intro pf; simp add: pf_message)+

lemma pf_confinement [pf]:
    "panic_free (validate_control_policy v)"
    "panic_free (validate_fd_flags v)"
    "panic_free (io_max_step row last_device)"
    "m \<noteq> PANIC \<Longrightarrow> panic_free (rule_rights m row a h)"
    "panic_free (seccomp_step row prior)"
  unfolding validate_control_policy_def validate_fd_flags_def io_max_step_def rule_rights_def seccomp_step_def
  by (intro pf; simp add: pf_message)+

lemma pf_landlock [pf]:
    "panic_free (landlock_sort a b row)"
    "panic_free (landlock_v2_sort a b row)"
  unfolding landlock_sort_def landlock_v2_sort_def
  by (intro pf; simp add: pf_message)+

subsection \<open>The checks that rely on the recursive schema\<close>

definition has_unsigned :: "val \<Rightarrow> string \<Rightarrow> bool" where
  "has_unsigned v name \<longleftrightarrow> (case val_field v name of Some (Unsigned _) \<Rightarrow> True | _ \<Rightarrow> False)"

definition has_array :: "val \<Rightarrow> string \<Rightarrow> bool" where
  "has_array v name \<longleftrightarrow> (case val_field v name of Some (Array _) \<Rightarrow> True | _ \<Rightarrow> False)"

text \<open>The fields each check unwraps: as a counter, and as an array.\<close>

definition unwrapped_counters :: "(string \<times> string list) list" where
  "unwrapped_counters =
     [(''B3InvalidationFrameV1'', [''priorGeneration'', ''newGeneration'']),
      (''NativeBuildIdentityV1'', [''validFromCounter'', ''validUntilCounter'']),
      (''NativeProvenanceV1'', [''startedCounter'', ''finishedCounter'']),
      (''NativeLandlockPolicyV2'', [''minimumAbi''])]"

definition unwrapped_arrays :: "(string \<times> string) list" where
  "unwrapped_arrays =
     [(''NativeIoMaxV1'', ''rows''), (''NativeLandlockPolicyV1'', ''rules''), (''NativeLandlockPolicyV2'', ''rules''),
      (''NativeSeccompPolicyV1'', ''rules''), (''NativeObservationResultV1'', ''facts''),
      (''NativeJournalEntriesV1'', ''entries''), (''NativeInvocationV1'', ''inputs''),
      (''NativeArtifactInventoryV1'', ''rows''), (''NativePackagePayloadV1'', ''members''),
      (''NativeToolchainClosureV1'', ''entries''), (''NativeSbomV1'', ''packages'')]"

definition counters_of :: "string \<Rightarrow> string list" where
  "counters_of name = (case map_of unwrapped_counters name of None \<Rightarrow> [] | Some fs \<Rightarrow> fs)"

definition arrays_of :: "string \<Rightarrow> string list" where
  "arrays_of name = (case map_of unwrapped_arrays name of None \<Rightarrow> [] | Some f \<Rightarrow> [f])"

lemma pf_unwrap_unsigned: "has_unsigned v name \<Longrightarrow> panic_free (unwrap_unsigned v name)"
    "has_unsigned v name \<Longrightarrow> panic_free (field_unsigned PANIC v name)"
  by (auto simp: has_unsigned_def unwrap_unsigned_def field_unsigned_def p2_field_def split: option.splits val.splits)

lemma pf_unwrap_array: "has_array v name \<Longrightarrow> panic_free (unwrap_array v name)"
  by (auto simp: has_array_def unwrap_array_def field_array_def p2_field_def split: option.splits val.splits)

lemmas pf_unwrap = pf pf_unwrap_unsigned pf_unwrap_array

lemma pf_unwrapping:
    "has_unsigned v ''priorGeneration'' \<Longrightarrow> has_unsigned v ''newGeneration'' \<Longrightarrow> panic_free (validate_frame v)"
    "has_unsigned v ''validFromCounter'' \<Longrightarrow> has_unsigned v ''validUntilCounter'' \<Longrightarrow>
       panic_free (validate_build_identity v)"
    "has_unsigned v ''startedCounter'' \<Longrightarrow> has_unsigned v ''finishedCounter'' \<Longrightarrow> panic_free (validate_provenance v)"
    "has_array v ''rows'' \<Longrightarrow> panic_free (validate_inventory v)"
    "has_array v ''members'' \<Longrightarrow> panic_free (validate_package v)"
    "has_array v ''entries'' \<Longrightarrow> panic_free (validate_toolchain v)"
    "has_array v ''packages'' \<Longrightarrow> panic_free (validate_sbom v)"
    "has_array v ''entries'' \<Longrightarrow> panic_free (validate_journal_entries v)"
    "has_array v ''inputs'' \<Longrightarrow> panic_free (validate_invocation v)"
    "has_array v ''facts'' \<Longrightarrow> panic_free (validate_observation v)"
    "has_array v ''rows'' \<Longrightarrow> panic_free (validate_io_max v)"
    "has_array v ''rules'' \<Longrightarrow> panic_free (validate_landlock v)"
    "has_array v ''rules'' \<Longrightarrow> has_unsigned v ''minimumAbi'' \<Longrightarrow> panic_free (validate_landlock_v2 v)"
    "has_array v ''rules'' \<Longrightarrow> panic_free (validate_seccomp v)"
  unfolding validate_frame_def validate_build_identity_def validate_provenance_def validate_inventory_def
    validate_package_def validate_toolchain_def validate_sbom_def validate_journal_entries_def
    validate_invocation_def validate_observation_def validate_io_max_def validate_landlock_def
    validate_landlock_v2_def validate_seccomp_def
  by (intro pf_unwrap; simp add: pf_message)+

lemma pf_special_check:
  assumes "map_of special_checks name = Some check"
    and "list_all (has_unsigned v) (counters_of name)" "list_all (has_array v) (arrays_of name)"
  shows "panic_free (check v)"
proof -
  have "(name, check) \<in> set special_checks"
    using assms(1) by (rule map_of_SomeD)
  then show ?thesis
    using assms(2,3)
    apply (simp only: special_checks_def list.set insert_iff empty_iff prod.inject simp_thms)
    apply (elim disjE conjE)
    apply (simp_all only: counters_of_def arrays_of_def unwrapped_counters_def unwrapped_arrays_def
        map_of_Cons_code map_of.simps(1) literal_eq fst_conv snd_conv option.case list.pred_inject)
    apply (simp_all only: pf pf_unwrapping)
    done
qed

subsection \<open>The recursive schema provides them\<close>

definition needs_met :: "schema_spec \<Rightarrow> bool" where
  "needs_met spec \<longleftrightarrow>
     (case payload_spec (ss_shape spec) (the (recursive_schema_spec (ss_name spec))) of
        Some (RRecord fs) \<Rightarrow>
          list_all (\<lambda>n. case map_of fs n of Some (RUint _ _) \<Rightarrow> True | _ \<Rightarrow> False) (counters_of (ss_name spec))
          \<and> list_all (\<lambda>n. case map_of fs n of Some (RArray _ _ _ _ _ _) \<Rightarrow> True | _ \<Rightarrow> False) (arrays_of (ss_name spec))
      | _ \<Rightarrow> False)"

lemma all_needs_met: "list_all needs_met ALL_SCHEMAS"
  apply (simp only: registry_rows list.pred_inject needs_met_def lookup_eval schema_spec.select_convs
      counters_of_def arrays_of_def unwrapped_counters_def unwrapped_arrays_def)
  apply (simp add: payload_spec_def schema_defs)
  done

lemma validate_has:
  assumes "validate_recursive v (RRecord fs) = Inr ()"
  shows "(case map_of fs name of Some (RUint _ _) \<Rightarrow> True | _ \<Rightarrow> False) \<Longrightarrow> has_unsigned v name"
    and "(case map_of fs name of Some (RArray _ _ _ _ _ _) \<Rightarrow> True | _ \<Rightarrow> False) \<Longrightarrow> has_array v name"
  by (auto simp: has_unsigned_def has_array_def simp del: validate_recursive.simps(9)
      split: option.splits rspec.splits val.splits dest!: validate_record_field [OF assms])

lemma needs_provided:
  assumes "spec \<in> set ALL_SCHEMAS" "recursive_schema_spec (ss_name spec) = Some r"
    and "validate_recursive v r = Inr ()"
    and "(if ss_shape spec = SUnsigned then Inr v else open_envelope spec lim v) = Inr payload"
  shows "list_all (has_unsigned payload) (counters_of (ss_name spec))"
    and "list_all (has_array payload) (arrays_of (ss_name spec))"
proof -
  have "needs_met spec"
    using all_needs_met assms(1) by (simp add: list_all_iff)
  then obtain fs where fs: "payload_spec (ss_shape spec) r = Some (RRecord fs)"
    and needs: "list_all (\<lambda>n. case map_of fs n of Some (RUint _ _) \<Rightarrow> True | _ \<Rightarrow> False) (counters_of (ss_name spec))"
      "list_all (\<lambda>n. case map_of fs n of Some (RArray _ _ _ _ _ _) \<Rightarrow> True | _ \<Rightarrow> False) (arrays_of (ss_name spec))"
    using assms(2) by (auto simp: needs_met_def split: option.splits rspec.splits)
  have "validate_recursive payload (RRecord fs) = Inr ()"
    by (rule payload_valid [OF assms(3) fs assms(4)])
  then show "list_all (has_unsigned payload) (counters_of (ss_name spec))"
    "list_all (has_array payload) (arrays_of (ss_name spec))"
    using needs by (auto simp: list_all_iff intro: validate_has simp del: validate_recursive.simps)
qed

subsection \<open>Capture\<close>

lemma operation_rows: "list_all (\<lambda>row. find (\<lambda>s. ss_name s = snd row) B3_OPERATION_SCHEMAS \<noteq> None) operation_names"
  by (simp only: operation_names_def B3_OPERATION_SCHEMAS_def schema_row_def list.pred_inject find.simps
      schema_spec.select_convs literal_eq snd_conv option.distinct not_False_eq_True)

lemma operation_known:
  "map_of operation_names kind = Some name \<Longrightarrow> \<exists>s. find (\<lambda>s. ss_name s = name) B3_OPERATION_SCHEMAS = Some s"
  using operation_rows by (force simp: list_all_iff dest: map_of_SomeD)

lemma pf_operation_spec [pf]: "panic_free (operation_spec v)"
  unfolding operation_spec_def
  by (intro panic_free_bnd pf_scalars) (auto simp: panic_free_ok_or PANIC_def dest: operation_known)

lemma pf_stages [pf]:
    "panic_free (validate_operation spec v)"
    "panic_free (bare_digest v lim)"
    "panic_free (select_spec expected_name v)"
  unfolding validate_operation_def bare_digest_def select_spec_def
  by (intro pf; simp add: pf_message)+

lemma pf_open_envelope [pf]: "panic_free (open_envelope spec lim v)"
  unfolding open_envelope_def by (intro pf; simp add: pf_message)

lemma pf_check_header:
  assumes "list_all (has_unsigned v) (counters_of (ss_name spec))" "list_all (has_array v) (arrays_of (ss_name spec))"
  shows "panic_free (check_header spec v)"
proof -
  have "panic_free (case map_of special_checks (ss_name spec) of None \<Rightarrow> Inr () | Some check \<Rightarrow> check v)"
    using assms by (auto split: option.splits intro: pf_special_check)
  then show ?thesis
    unfolding check_header_def validate_special_def by (intro panic_free_bnd panic_free_if pf_stages pf_fields panic_free_Inr)
qed

text \<open>C17: \<open>capture_p2\<close> (native/crates/protocol/src/p2_schema.rs) never panics: whatever the bytes and
  the expected name, no \<open>unreachable!()\<close> and no \<open>unwrap()\<close> of the sixty schema checks is reached,
  because the recursive schema validated before guarantees the fields they rely on.\<close>

theorem capture_never_panics: "capture_p2 bs expected_name \<noteq> Inl PANIC"
proof -
  have "panic_free (capture_p2 bs expected_name)"
    unfolding capture_p2_def Let_def
    by (intro pf pf_check_header)
      (auto simp: pf_message simp del: validate_recursive.simps dest: select_spec_known needs_provided split del: if_split)
  then show ?thesis by (simp add: panic_free_def)
qed

end
