(* ===== verification/P2_Records.thy ===== *)
theory P2_Records
  imports P2_Panic_Free
begin

section \<open>What a captured P2 record guarantees\<close>

text \<open>
  The registry is closed; \<open>capture_p2\<close> accepts exactly the canonical encodings of records of the
  expected schema, and a record captured without a name recaptures under its own; the entries of a
  captured journal are consecutive; a captured Landlock policy handles all the rights of its ABI.
\<close>

subsection \<open>The registry is closed\<close>

definition domains :: "schema_spec list \<Rightarrow> bytes list" where
  "domains specs = concat (map (\<lambda>s. case ss_signature_domain s of None \<Rightarrow> [] | Some d \<Rightarrow> [d]) specs)"

lemma domain_eq: "str_bytes s @ [0] = str_bytes t @ [0] \<longleftrightarrow> s = t"
  by (simp add: str_bytes_def inj_map_eq_map inj_byte_of_char)

lemma schema_names_distinct: "distinct (map ss_name ALL_SCHEMAS)"
  by (simp only: registry_rows list.map schema_spec.select_convs distinct.simps list.set insert_iff empty_iff
      literal_eq)

lemma schema_fields_distinct: "list_all (\<lambda>s. distinct (ss_fields s)) ALL_SCHEMAS"
  apply (simp only: registry_rows list.pred_inject schema_spec.select_convs)
  apply (simp only: schema_defs distinct.simps list.set insert_iff empty_iff literal_eq append.simps)
  done

lemma schema_domains_distinct: "distinct (domains ALL_SCHEMAS)"
  by (simp only: domains_def registry_rows schema_spec.select_convs list.map concat.simps option.case option.map
      distinct.simps list.set insert_iff empty_iff domain_eq literal_eq)

lemma metadata_closed:
  assumes "distinct (map ss_name specs)" "list_all (\<lambda>s. distinct (ss_fields s)) specs" "distinct (domains specs)"
    and "names \<inter> ss_name ` set specs = {}" "ds \<inter> set (domains specs) = {}"
  shows "is_ok (fold_res metadata_step specs (names, ds))"
  using assms
proof (induction specs arbitrary: names ds)
  case (Cons s specs)
  have "is_ok (fold_res metadata_step specs (insert (ss_name s) names, ds'))"
    if "ds' \<inter> set (domains specs) = {}" for ds'
    using Cons.prems that by (intro Cons.IH) (auto simp: domains_def)
  then show ?case
    using Cons.prems by (cases "ss_signature_domain s") (auto simp: metadata_step_def [of s] domains_def)
qed (simp add: is_ok_iff)

text \<open>The schema registry is closed: \<open>schema_metadata_is_closed\<close> succeeds (no schema name, field or
  signature domain occurs twice), and the two descriptions the code keeps of each schema, its list
  of fields and its recursive schema, agree: same fields in the same order, the same discriminator,
  an envelope of payload, digest and signatures exactly for the signed shapes.\<close>

theorem schema_registry_closed:
  "schema_metadata_is_closed = Inr () \<and> list_all tables_agree ALL_SCHEMAS"
proof -
  have "is_ok (fold_res metadata_step ALL_SCHEMAS ({}, {}))"
    by (intro metadata_closed schema_names_distinct schema_fields_distinct schema_domains_distinct) simp_all
  then show ?thesis
    using all_tables_agree by (auto simp: schema_metadata_is_closed_def is_ok_iff)
qed

subsection \<open>Exactly the records of the schema\<close>

text \<open>The envelope of a signed record: its payload, bound by its digest, and the rows of its signatures.\<close>

definition enveloped :: "schema_spec \<Rightarrow> limits \<Rightarrow> val \<Rightarrow> val \<Rightarrow> bool" where
  "enveloped spec lim v payload \<longleftrightarrow>
     (\<exists>bs signatures. val_field v ''payload'' = Some payload \<and> encode_bounded payload lim = Inr bs
        \<and> val_field v ''payloadDigest'' = Some (Text (sha256_hex bs))
        \<and> val_field v ''signatures'' = Some signatures
        \<and> validate_signature_rows signatures (role_tagged spec payload) = Inr ()
        \<and> (val_field payload ''trustClass'' = None \<or> validate_signer_namespace payload signatures = Inr ()))"

definition p2_record :: "schema_spec \<Rightarrow> limits \<Rightarrow> bytes \<Rightarrow> val \<Rightarrow> bool" where
  "p2_record spec lim bs v \<longleftrightarrow>
     canon v = v \<and> encode_bounded v lim = Inr bs
     \<and> (\<exists>r. recursive_schema_spec (ss_name spec) = Some r \<and> conforms r v)
     \<and> (\<exists>payload. (if ss_shape spec = SUnsigned then payload = v else enveloped spec lim v payload)
          \<and> check_header spec payload = Inr ())"

lemma capture_limits_usize: "usize_limits (capture_limits expected_name)"
  by (simp add: capture_limits_def usize_limits_profiles)

lemma recursive_schema_wf: "recursive_schema_spec name = Some r \<Longrightarrow> wf_spec r"
  using wf_tables by (auto simp: recursive_schema_spec_def list_all_iff dest!: map_of_SomeD)

lemma envelope_keys:
  assumes "envelope_spec r" "validate_recursive v r = Inr ()"
  shows "keys_exact m v [''payload'', ''payloadDigest'', ''signatures''] = Inr ()"
proof -
  obtain fs where r: "r = RRecord fs" and fs: "map fst fs = [''payload'', ''payloadDigest'', ''signatures'']"
    using assms(1) by (auto simp: envelope_spec_def split: rspec.splits)
  have keys: "val_field v k \<noteq> None" if k: "k \<in> set (map fst fs)" for k
  proof -
    obtain s where "map_of fs k = Some s"
      using k by (metis list.set_map map_of_eq_None_iff not_Some_eq)
    then show ?thesis
      using validate_record_field assms(2) r by blast
  qed
  obtain rows where "p2_entries v = Inr rows" "length rows = length (map fst fs)"
    using assms(2) by (auto simp: r bnd_eq_Inr split: if_splits)
  then show ?thesis
    using keys unfolding fs by (simp add: keys_exact_def)
qed

lemma field_text_iff: "field_text v name = Inr t \<longleftrightarrow> val_field v name = Some (Text t)"
  by (simp add: field_text_def bnd_eq_Inr p2_field_def p2_text_iff)

lemma open_envelope_iff:
  assumes "envelope_spec r" "validate_recursive v r = Inr ()"
  shows "open_envelope spec lim v = Inr payload \<longleftrightarrow> enveloped spec lim v payload"
  using envelope_keys [OF assms]
  by (auto simp: open_envelope_def enveloped_def bnd_eq_Inr bare_digest_def p2_field_def field_text_iff
      split: if_splits)

lemma agree:
  assumes "spec \<in> set ALL_SCHEMAS"
  obtains r where "recursive_schema_spec (ss_name spec) = Some r" "wf_spec r"
    and "ss_shape spec = SUnsigned \<or> envelope_spec r"
  using all_tables_agree assms recursive_schema_wf
  by (fastforce simp: list_all_iff tables_agree_def split: option.splits)

definition candidate :: "val \<Rightarrow> val" where
  "candidate v = (case val_field v ''payload'' of Some p \<Rightarrow> p | None \<Rightarrow> v)"

definition opened :: "schema_spec \<Rightarrow> limits \<Rightarrow> val \<Rightarrow> val pres" where
  "opened spec lim v = (if ss_shape spec = SUnsigned then Inr v else open_envelope spec lim v)"

lemma if_Inl_eq_Inr: "(if b then Inl e else r) = Inr v \<longleftrightarrow> \<not> b \<and> r = Inr v"
  by simp

lemma capture_stages:
  "capture_p2 bs expected_name = Inr c \<longleftrightarrow>
     length bs \<le> max_bytes (capture_limits expected_name)
     \<and> decode_canonical bs (capture_limits expected_name) = Inr (pc_value c)
     \<and> (\<exists>spec r p. select_spec expected_name
           (candidate (pc_value c)) = Inr spec
        \<and> expected_name \<in> {None, Some (ss_name spec)} \<and> recursive_schema_spec (ss_name spec) = Some r
        \<and> validate_recursive (pc_value c) r = Inr () \<and> opened spec (capture_limits expected_name) (pc_value c) = Inr p
        \<and> check_header spec p = Inr ()
        \<and> c = \<lparr>pc_schema_name = ss_name spec, pc_canonical = bs, pc_value = pc_value c\<rparr>)"
  unfolding capture_p2_def Let_def candidate_def [symmetric] opened_def [symmetric] bnd_eq_Inr if_Inl_eq_Inr ok_or_eq_Inr sum.inject
    not_less unit_eq
  by (cases expected_name) (auto simp del: validate_recursive.simps)

lemma captured_iff:
  assumes spec: "spec \<in> set ALL_SCHEMAS"
    and chosen: "select_spec expected_name (candidate v) = Inr spec"
    and name: "expected_name \<in> {None, Some (ss_name spec)}"
  shows "capture_p2 bs expected_name = Inr c \<and> pc_value c = v \<longleftrightarrow>
    p2_record spec (capture_limits expected_name) bs v
    \<and> c = \<lparr>pc_schema_name = ss_name spec, pc_canonical = bs, pc_value = v\<rparr>"
proof -
  obtain r where r: "recursive_schema_spec (ss_name spec) = Some r" "wf_spec r"
      "ss_shape spec = SUnsigned \<or> envelope_spec r"
    using agree [OF spec] .
  let ?lim = "capture_limits expected_name"
  note lim = capture_limits_usize [of expected_name]
  have decode: "decode_canonical bs ?lim = Inr v \<longleftrightarrow> canon v = v \<and> encode_bounded v ?lim = Inr bs"
    by (rule decode_canonical_iff [OF lim])
  have fits: "length bs \<le> max_bytes ?lim" "encodable v" if "encode_bounded v ?lim = Inr bs"
    using that by (simp_all add: encode_bounded_iff [OF lim])
  have schema: "validate_recursive v r = Inr () \<longleftrightarrow> conforms r v" if "encodable v"
    using that r(2) by (rule validate_recursive_iff)
  have payload: "opened spec ?lim v = Inr p \<longleftrightarrow>
      (if ss_shape spec = SUnsigned then p = v else enveloped spec ?lim v p)"
    if "validate_recursive v r = Inr ()" for p
    using r(3) open_envelope_iff that by (auto simp: opened_def)
  have "capture_p2 bs expected_name = Inr c \<and> pc_value c = v \<longleftrightarrow>
      length bs \<le> max_bytes ?lim \<and> decode_canonical bs ?lim = Inr v \<and> validate_recursive v r = Inr ()
      \<and> (\<exists>p. opened spec ?lim v = Inr p \<and> check_header spec p = Inr ())
      \<and> c = \<lparr>pc_schema_name = ss_name spec, pc_canonical = bs, pc_value = v\<rparr>"
    unfolding capture_stages using chosen name r(1) by (auto simp del: validate_recursive.simps)
  also have "\<dots> \<longleftrightarrow> p2_record spec ?lim bs v
      \<and> c = \<lparr>pc_schema_name = ss_name spec, pc_canonical = bs, pc_value = v\<rparr>"
  proof (cases "canon v = v \<and> encode_bounded v ?lim = Inr bs \<and> validate_recursive v r = Inr ()")
    case True
    with fits schema payload show ?thesis by (simp add: p2_record_def r(1) decode)
  next
    case False
    with fits schema show ?thesis by (auto simp: p2_record_def r(1) decode)
  qed
  finally show ?thesis .
qed

lemma find_named:
  "distinct (map f xs) \<Longrightarrow> x \<in> set xs \<Longrightarrow> find (\<lambda>s. f s = f x) xs = Some x"
  by (induction xs) (auto simp: image_iff)

lemma select_named: "spec \<in> set ALL_SCHEMAS \<Longrightarrow> select_spec (Some (ss_name spec)) v = Inr spec"
  using find_named [OF schema_names_distinct] by (simp add: select_spec_def)

text \<open>C16: \<open>capture_p2\<close> with an expected name accepts exactly the canonical encodings, within the limits
  of that schema, of the values that satisfy the recursive schema of that name, whose envelope (for
  a signed schema) carries the SHA-256 digest of the encoding of the payload and well-formed
  signatures, and whose payload passes the discriminator, version and semantic checks; the value
  captured is that value, with the bytes unchanged.\<close>

theorem capture_named_exactly:
  "capture_p2 bs (Some name) = Inr c \<longleftrightarrow>
     (\<exists>spec\<in>set ALL_SCHEMAS. ss_name spec = name
        \<and> p2_record spec (capture_limits (Some name)) bs (pc_value c)
        \<and> c = \<lparr>pc_schema_name = name, pc_canonical = bs, pc_value = pc_value c\<rparr>)"
proof
  assume c: "capture_p2 bs (Some name) = Inr c"
  then obtain spec where spec: "select_spec (Some name) (candidate (pc_value c)) = Inr spec" "ss_name spec = name"
    by (auto simp: capture_stages simp del: validate_recursive.simps)
  from captured_iff [OF select_spec_known [OF spec(1)] spec(1), of bs c] c spec(2)
  show "\<exists>spec\<in>set ALL_SCHEMAS. ss_name spec = name \<and> p2_record spec (capture_limits (Some name)) bs (pc_value c)
      \<and> c = \<lparr>pc_schema_name = name, pc_canonical = bs, pc_value = pc_value c\<rparr>"
    using select_spec_known [OF spec(1)] by auto
next
  assume "\<exists>spec\<in>set ALL_SCHEMAS. ss_name spec = name \<and> p2_record spec (capture_limits (Some name)) bs (pc_value c)
      \<and> c = \<lparr>pc_schema_name = name, pc_canonical = bs, pc_value = pc_value c\<rparr>"
  then show "capture_p2 bs (Some name) = Inr c"
    using captured_iff select_named by (metis insertCI)
qed

lemma fits_mono:
  "fits lim d v \<Longrightarrow> max_depth lim \<le> max_depth lim' \<Longrightarrow> max_collection_items lim \<le> max_collection_items lim' \<Longrightarrow>
   max_text_bytes lim \<le> max_text_bytes lim' \<Longrightarrow> fits lim' d v"
proof (induction v arbitrary: d rule: val_induct)
  case (Leaf v)
  then show ?case by (cases v) (auto simp: fits_text_def)
qed (auto simp: fits_text_def)

lemma encode_limits_mono: "encode_bounded v MANIFEST = Inr bs \<Longrightarrow> encode_bounded v EVIDENCE = Inr bs"
  unfolding encode_bounded_iff [OF usize_limits_profiles(2)] encode_bounded_iff [OF usize_limits_profiles(3)]
  by (auto simp: limit_defs elim: fits_mono)

lemma p2_record_evidence: "p2_record spec MANIFEST bs v \<Longrightarrow> p2_record spec EVIDENCE bs v"
  by (auto simp: p2_record_def enveloped_def intro: encode_limits_mono split: if_splits)

lemma captured_record:
  assumes "capture_p2 bs expected_name = Inr c"
  obtains spec where "spec \<in> set ALL_SCHEMAS" "expected_name \<in> {None, Some (ss_name spec)}"
    and "p2_record spec (capture_limits expected_name) bs (pc_value c)"
    and "c = \<lparr>pc_schema_name = ss_name spec, pc_canonical = bs, pc_value = pc_value c\<rparr>"
proof -
  obtain spec where spec: "select_spec expected_name (candidate (pc_value c)) = Inr spec"
      "expected_name \<in> {None, Some (ss_name spec)}"
    using assms by (auto simp: capture_stages simp del: validate_recursive.simps)
  with captured_iff [OF select_spec_known [OF spec(1)] spec, of bs c] assms that [of spec] select_spec_known [OF spec(1)]
  show thesis by blast
qed

lemma recaptures:
  assumes "capture_p2 bs None = Inr c"
  shows "capture_p2 bs (Some (pc_schema_name c)) = Inr c"
proof -
  obtain spec where spec: "spec \<in> set ALL_SCHEMAS" "p2_record spec MANIFEST bs (pc_value c)"
      "c = \<lparr>pc_schema_name = ss_name spec, pc_canonical = bs, pc_value = pc_value c\<rparr>"
    using captured_record [OF assms] by (auto simp: capture_limits_def)
  have "p2_record spec (capture_limits (Some (ss_name spec))) bs (pc_value c)"
    using spec(2) p2_record_evidence by (simp add: capture_limits_def)
  then show ?thesis
    using captured_iff [OF spec(1) select_named [OF spec(1)], of bs c] spec(3)
    by (metis insertCI p2_capture.select_convs(1))
qed

text \<open>A record captured without an expected name is captured, with the same result, when its own
  schema name is expected: discovering the schema and naming it agree.\<close>

theorem discovered_recaptures:
  assumes "capture_p2 bs None = Inr c"
  shows "capture_p2 bs (Some (pc_schema_name c)) = Inr c"
  using assms by (rule recaptures)

subsection \<open>Journal entries\<close>

lemma captured_special:
  assumes "capture_p2 bs expected_name = Inr c" "map_of special_checks (pc_schema_name c) = Some check"
    and "recursive_schema_spec (pc_schema_name c) = Some r"
  obtains payload where "conforms r (pc_value c)" "check payload = Inr ()"
    and "\<And>spec. spec \<in> set ALL_SCHEMAS \<Longrightarrow> ss_name spec = pc_schema_name c \<Longrightarrow> ss_shape spec = SUnsigned \<Longrightarrow> payload = pc_value c"
proof -
  obtain spec where spec: "spec \<in> set ALL_SCHEMAS" "p2_record spec (capture_limits expected_name) bs (pc_value c)"
      "ss_name spec = pc_schema_name c"
    using captured_record [OF assms(1)] by (metis p2_capture.select_convs(1))
  then obtain payload where payload: "check_header spec payload = Inr ()" "conforms r (pc_value c)"
      "ss_shape spec = SUnsigned \<Longrightarrow> payload = pc_value c"
    using assms(3) by (auto simp: p2_record_def split: if_splits)
  have "check payload = Inr ()"
    using payload(1) assms(2) spec(3) by (auto simp: check_header_def validate_special_def bnd_eq_Inr)
  moreover have "payload = pc_value c"
    if "t \<in> set ALL_SCHEMAS" "ss_name t = pc_schema_name c" "ss_shape t = SUnsigned" for t
  proof -
    have "t = spec"
      using that spec schema_names_distinct by (auto simp: distinct_map inj_on_def)
    then show ?thesis using payload(3) that by blast
  qed
  ultimately show thesis using that payload(2) by blast
qed

definition sequence_of :: "val \<Rightarrow> u64" where
  "sequence_of row = (case val_field row ''sequence'' of Some (Unsigned n) \<Rightarrow> n | _ \<Rightarrow> 0)"

lemma field_unsigned_iff: "field_unsigned m v name = Inr n \<longleftrightarrow> val_field v name = Some (Unsigned n)"
  by (auto simp: field_unsigned_def bnd_eq_Inr p2_field_def split: val.splits) (metis val.exhaust)

lemma unwrap_array_iff: "unwrap_array v name = Inr rows \<longleftrightarrow> val_field v name = Some (Array rows)"
  by (auto simp: unwrap_array_def field_array_def bnd_eq_Inr p2_field_def split: val.splits) (metis val.exhaust)

lemma journal_step_next:
  "journal_step row prior = Inr next' \<Longrightarrow>
     next' = Some (sequence_of row) \<and> val_field row ''sequence'' = Some (Unsigned (sequence_of row))
     \<and> (\<forall>p. prior = Some p \<longrightarrow> sequence_of row = p + 1)"
  by (auto simp: journal_step_def bnd_eq_Inr field_unsigned_iff sequence_of_def split: if_splits option.splits)

definition sequence_key :: "u64 \<Rightarrow> string" where
  "sequence_key n = decimal20 n @ [CHR 0x00]"

lemma zeros_least:
  "(\<And>c. c \<in> set ds \<Longrightarrow> CHR ''0'' \<le> c) \<Longrightarrow> k \<le> length ds \<Longrightarrow> \<not> ds @ [CHR 0x00] < replicate k CHR ''0'' @ [CHR 0x00]"
proof (induction k arbitrary: ds)
  case 0
  have "CHR 0x00 < c" if "c \<in> set ds" for c
    using 0(1) [OF that] by (rule less_le_trans [rotated]) (simp add: less_char_def)
  then show ?case by (cases ds) (auto dest: less_asym)
next
  case (Suc k)
  then obtain c cs where ds: "ds = c # cs" by (cases ds) auto
  have "\<not> cs @ [CHR 0x00] < replicate k CHR ''0'' @ [CHR 0x00]"
    using Suc.prems ds by (intro Suc.IH) auto
  then show ?case using Suc.prems(1) [of c] ds by auto
qed

lemma decimal20_digits:
  assumes "c \<in> set (decimal20 n)"
  shows "CHR ''0'' \<le> c"
proof -
  have "\<not> c < CHR ''0''" if "c \<in> set (dec_string (unat n))"
    using dec_string_digits [OF that]
    by (simp add: is_ascii_digit_def byte_of_char_Char not_less flip: byte_of_char_less_iff)
  then show ?thesis using assms by (auto simp: decimal20_def Let_def)
qed

lemma sequence_key_wrap: "\<not> sequence_key p < sequence_key 0"
proof -
  have "CHR ''0'' = char_of (48 :: nat)"
    by (simp add: char_of_def bit_0)
  then have "decimal20 0 = replicate (Suc 19) CHR ''0''"
    by (simp add: decimal20_def dec_string.simps [of 0] replicate_append_same flip: replicate_Suc)
  moreover have "20 \<le> length (decimal20 p)"
    by (simp add: decimal20_def Let_def)
  ultimately show ?thesis
    using zeros_least [of "decimal20 p" 20, OF decimal20_digits] by (simp add: sequence_key_def)
qed

lemma journal_run:
  assumes "fold_res journal_step rows (Some p) = Inr s"
    and "sorted_wrt (<) (sequence_key p # map (\<lambda>row. sequence_key (sequence_of row)) rows)" "i < length rows"
  shows "unat (sequence_of (rows ! i)) = unat p + 1 + i \<and> val_field (rows ! i) ''sequence'' = Some (Unsigned (sequence_of (rows ! i)))"
  using assms
proof (induction rows arbitrary: p i)
  case (Cons row rows)
  then have row: "sequence_of row = p + 1" "val_field row ''sequence'' = Some (Unsigned (sequence_of row))"
    and rest: "fold_res journal_step rows (Some (sequence_of row)) = Inr s"
    by (auto simp: bnd_eq_Inr dest!: journal_step_next)
  have "p \<noteq> - 1"
    using Cons.prems(2) row(1) sequence_key_wrap by auto
  then have "unat (sequence_of row) = unat p + 1"
    unfolding row(1) by (metis Suc_eq_plus1 add.commute eq_neg_iff_add_eq_0 unatSuc)
  then show ?case
    using Cons.IH [OF rest] Cons.prems(2,3) row by (cases i) auto
qed simp

lemma unsigned_shape:
    "list_ex (\<lambda>s. ss_name s = ''NativeJournalEntriesV1'' \<and> ss_shape s = SUnsigned) ALL_SCHEMAS"
    "list_ex (\<lambda>s. ss_name s = ''NativeLandlockPolicyV2'' \<and> ss_shape s = SUnsigned) ALL_SCHEMAS"
  by (simp_all only: registry_rows list_ex_iff list.set bex_simps simp_thms schema_spec.select_convs literal_eq)

lemma special_rows:
    "map_of special_checks ''NativeJournalEntriesV1'' = Some validate_journal_entries"
    "map_of special_checks ''NativeLandlockPolicyV2'' = Some validate_landlock_v2"
    "recursive_schema_spec ''NativeJournalEntriesV1'' = Some NATIVE_JOURNAL_ENTRIES_V1_SPEC"
    "recursive_schema_spec ''NativeLandlockPolicyV2'' = Some NATIVE_LANDLOCK_POLICY_V2_SPEC"
  by (simp_all only: special_checks_def lookup_eval)

lemma captured_check:
  assumes "capture_p2 bs expected_name = Inr c" "pc_schema_name c = name"
    and "list_ex (\<lambda>s. ss_name s = name \<and> ss_shape s = SUnsigned) ALL_SCHEMAS"
    and "map_of special_checks name = Some check" "recursive_schema_spec name = Some r"
  shows "conforms r (pc_value c) \<and> check (pc_value c) = Inr ()"
proof -
  have "map_of special_checks (pc_schema_name c) = Some check" "recursive_schema_spec (pc_schema_name c) = Some r"
    using assms by simp_all
  from captured_special [OF assms(1) this] obtain payload
    where "conforms r (pc_value c)" "check payload = Inr ()"
      and "\<And>s. s \<in> set ALL_SCHEMAS \<Longrightarrow> ss_name s = name \<Longrightarrow> ss_shape s = SUnsigned \<Longrightarrow> payload = pc_value c"
    using assms(2) by metis
  then show ?thesis using assms(3) by (auto simp: list_ex_iff)
qed

lemma conforms_field:
  "conforms (RRecord fs) v \<Longrightarrow> map_of fs name = Some s \<Longrightarrow> val_field v name = Some child \<Longrightarrow> conforms s child"
  by (force dest: map_of_SomeD)

lemma journal_keys:
  assumes "ordered_by [''sequence''] rows"
    and "\<And>row. row \<in> set rows \<Longrightarrow> val_field row ''sequence'' = Some (Unsigned (sequence_of row))"
  shows "sorted_wrt (<) (map (\<lambda>row. sequence_key (sequence_of row)) rows)"
proof -
  have "recursive_key row [''sequence''] = Inr (sequence_key (sequence_of row))" if "row \<in> set rows" for row
    using assms(2) [OF that] by (simp add: recursive_key_def key_part_def p2_field_def sequence_key_def)
  then have "traverse (\<lambda>row. recursive_key row [''sequence'']) rows = Inr (map (\<lambda>row. sequence_key (sequence_of row)) rows)"
    by (rule traverse_map_Inr)
  then show ?thesis using assms(1) by (auto simp: ordered_by_def)
qed

lemma journal_fields:
  "fold_res journal_step rows prior = Inr s \<Longrightarrow> row \<in> set rows \<Longrightarrow>
     val_field row ''sequence'' = Some (Unsigned (sequence_of row))"
  by (induction rows arbitrary: prior) (auto simp: bnd_eq_Inr dest: journal_step_next)

text \<open>C18: The entries of a captured journal are numbered consecutively, as natural numbers: the sequence
  of entry \<open>i\<close> is that of the first entry plus \<open>i\<close>, which never passes the last 64-bit counter. The
  wrap-around that the loop of \<open>validate_journal_entries\<close> allows (\<open>p + 1\<close> at the maximum) is excluded
  by the order the recursive schema demands.\<close>

theorem journal_entries_consecutive:
  assumes "capture_p2 bs expected_name = Inr c" "pc_schema_name c = ''NativeJournalEntriesV1''"
    and "val_field (pc_value c) ''entries'' = Some (Array rows)" "i < length rows"
  shows "val_field (rows ! i) ''sequence'' = Some (Unsigned (sequence_of (rows ! i)))
    \<and> unat (sequence_of (rows ! i)) = unat (sequence_of (rows ! 0)) + i"
proof -
  note c = captured_check [OF assms(1,2) unsigned_shape(1) special_rows(1,3)]
  obtain s where fold: "fold_res journal_step rows None = Inr s"
    using c assms(3) by (auto simp: validate_journal_entries_def unwrap_array_iff bnd_eq_Inr)
  have "ordered_by [''sequence''] rows"
    using conforms_field [OF conjunct1 [OF c, unfolded NATIVE_JOURNAL_ENTRIES_V1_SPEC_def] _ assms(3)] by simp
  then have keys: "sorted_wrt (<) (map (\<lambda>row. sequence_key (sequence_of row)) rows)"
    using journal_fields [OF fold] by (rule journal_keys)
  obtain row rest where rows: "rows = row # rest"
    using assms(4) by (cases rows) auto
  have "fold_res journal_step rest (Some (sequence_of row)) = Inr s"
    using fold by (auto simp: rows bnd_eq_Inr dest!: journal_step_next)
  note run = journal_run [OF this]
  have first: "sorted_wrt (<) (sequence_key (sequence_of row) # map (\<lambda>row. sequence_key (sequence_of row)) rest)"
    using keys by (simp only: rows list.map)
  show ?thesis
  proof (cases i)
    case 0
    then show ?thesis using journal_fields [OF fold] assms(4) by simp
  next
    case (Suc j)
    then show ?thesis using run [OF first, of j] assms(4) by (simp add: rows)
  qed
qed

definition demo_journal_entry :: "u64 \<Rightarrow> val" where
  "demo_journal_entry n =
     Map [(''counter'', Unsigned 7), (''sequence'', Unsigned n), (''eventCode'', Text ''boot''),
          (''subjectDigest'', Text (replicate 64 CHR ''1''))]"

definition demo_journal :: val where
  "demo_journal =
     Map [(''schema'', Text ''keep.native-journal-entries''),
          (''entries'', Array [demo_journal_entry 5, demo_journal_entry 6]), (''version'', Unsigned 1)]"

lemmas demo_journal_defs = demo_journal_def demo_journal_entry_def

lemma demo_ones: "str_bytes (replicate 64 CHR ''1'') = replicate 64 49"
  by (simp add: str_bytes_def byte_of_char_Char)

lemma demo_journal_canon: "canon demo_journal = demo_journal"
  by (simp add: demo_journal_defs codec_eval)

lemma demo_journal_encodes: "encode_bounded demo_journal MANIFEST = Inr (enc demo_journal)"
  unfolding encode_bounded_iff [OF usize_limits_profiles(2)]
  by (simp add: demo_journal_defs codec_eval demo_ones list_all_iff)

lemma demo_digest: "is_ok (parse_digest (replicate 64 CHR ''1''))"
  by (simp add: demo_ones valid_digest_def lower_hex_byte_def is_ascii_digit_def byte_of_char_Char list_all_iff list_ex_iff flip: valid_digest_iff)

lemma demo_journal_conforms: "conforms NATIVE_JOURNAL_ENTRIES_V1_SPEC demo_journal"
  by (simp add: NATIVE_JOURNAL_ENTRIES_V1_SPEC_def demo_journal_defs identifier_form_def identifier_byte_def
      in_enum_def ordered_by_def identified_by_def recursive_key_def key_part_def p2_field_def decimal20_digit demo_digest
      nth_Cons byte_of_char_Char is_ascii_alphanumeric_def is_ascii_digit_def less_Suc_eq_0_disj insert_commute
      less_char_def u64_max_def split: nat.splits)

lemma demo_journal_checks: "validate_journal_entries demo_journal = Inr ()"
  using demo_digest
  by (auto simp: validate_journal_entries_def unwrap_array_def field_array_def demo_journal_defs journal_step_def
      keys_exact_def p2_entries_def p2_field_def field_unsigned_def field_identifier_def p2_identifier_def p2_text_def
      identifier_byte_def byte_of_char_Char is_ascii_alphanumeric_def is_ascii_digit_def field_digest_def field_text_def
      field_is_def is_unsigned_def is_ok_iff upt_rec)

lemma demo_journal_header:
  assumes "spec = schema_row ''NativeJournalEntriesV1'' ''keep.native-journal-entries'' SUnsigned JOURNAL_ENTRIES None"
  shows "check_header spec demo_journal = Inr ()"
  using special_rows(1) demo_journal_checks
  by (simp add: assms check_header_def validate_special_def schema_row_def JOURNAL_ENTRIES_def p2_exact_def keys_exact_def
      p2_entries_def p2_require_def field_text_def p2_field_def p2_text_def require_version_def field_is_def demo_journal_def)

lemma demo_journal_captured:
  defines "c \<equiv> \<lparr>pc_schema_name = ''NativeJournalEntriesV1'', pc_canonical = enc demo_journal, pc_value = demo_journal\<rparr>"
  shows "capture_p2 (enc demo_journal) None = Inr c"
proof -
  let ?spec = "schema_row ''NativeJournalEntriesV1'' ''keep.native-journal-entries'' SUnsigned JOURNAL_ENTRIES None"
  have known: "?spec \<in> set ALL_SCHEMAS"
    unfolding registry_rows by simp
  have chosen: "select_spec None (candidate demo_journal) = Inr ?spec"
  proof -
    have "find (\<lambda>s. ss_schema s = ''keep.native-journal-entries'') P2_SCHEMAS = Some ?spec"
      by (simp only: registry_rows find.simps schema_spec.select_convs literal_eq)
    then show ?thesis
      by (simp add: select_spec_def candidate_def demo_journal_def field_text_iff field_text_def p2_field_def p2_text_def)
  qed
  have "p2_record ?spec MANIFEST (enc demo_journal) demo_journal"
    using demo_journal_canon demo_journal_encodes demo_journal_conforms special_rows(3) demo_journal_header
    by (simp add: p2_record_def schema_row_def)
  then show ?thesis
    using captured_iff [OF known chosen, of "enc demo_journal" c]
    by (simp add: c_def capture_limits_def schema_row_def)
qed

theorem discovered_recaptures_witness:
  "capture_p2 (enc demo_journal) (Some ''NativeJournalEntriesV1'')
     = Inr \<lparr>pc_schema_name = ''NativeJournalEntriesV1'', pc_canonical = enc demo_journal, pc_value = demo_journal\<rparr>"
  using discovered_recaptures [OF demo_journal_captured] by simp

theorem journal_entries_consecutive_witness:
  "unat (sequence_of (demo_journal_entry 6)) = unat (sequence_of (demo_journal_entry 5)) + 1"
  using journal_entries_consecutive [OF demo_journal_captured, of "[demo_journal_entry 5, demo_journal_entry 6]" 1]
  by (simp add: demo_journal_def)

subsection \<open>Landlock policies\<close>

lemma sorted_snoc: "sorted_wrt (<) xs \<Longrightarrow> xs = [] \<or> last xs < t \<Longrightarrow> sorted_wrt (<) (xs @ [t])" for t :: "'a :: linorder"
  by (induction xs) (auto split: if_splits intro: less_trans)

lemma sorted_text_run:
  assumes "fold_res (sorted_text_step allowed) rows prior = Inr out" "sorted_wrt (<) prior"
  shows "\<exists>ts. rows = map Text ts \<and> out = prior @ ts \<and> set ts \<subseteq> set allowed \<and> sorted_wrt (<) out"
  using assms
proof (induction rows arbitrary: prior)
  case (Cons row rows)
  then obtain t where t: "row = Text t" "t \<in> set allowed" "prior = [] \<or> last prior < t"
    and rest: "fold_res (sorted_text_step allowed) rows (prior @ [t]) = Inr out"
    by (auto simp: bnd_eq_Inr sorted_text_step_def [of _ row] p2_text_iff not_le split: if_splits)
  from Cons.IH [OF rest sorted_snoc [OF Cons.prems(2) t(3)]] obtain ts
    where "rows = map Text ts" "out = (prior @ [t]) @ ts" "set ts \<subseteq> set allowed" "sorted_wrt (<) out"
    by blast
  then show ?case
    using t by (intro exI [of _ "t # ts"]) simp
qed simp

lemma case_Array_iff:
  "(case v of Null \<Rightarrow> Inl m | Bool _ \<Rightarrow> Inl m | Unsigned _ \<Rightarrow> Inl m | Bytes _ \<Rightarrow> Inl m | Text _ \<Rightarrow> Inl m
      | Array rows \<Rightarrow> f rows | Map _ \<Rightarrow> Inl m) = Inr x \<longleftrightarrow> (\<exists>rows. v = Array rows \<and> f rows = Inr x)"
  by (cases v) simp_all

lemma field_sorted_iff:
  assumes "field_sorted v name allowed = Inr out"
  shows "val_field v name = Some (Array (map Text out)) \<and> set out \<subseteq> set allowed \<and> sorted_wrt (<) out"
  using assms
  by (auto simp: field_sorted_def sorted_text_array_def bnd_eq_Inr p2_field_def case_Array_iff dest!: sorted_text_run)

lemma fold_res_each: "fold_res f xs s = Inr t \<Longrightarrow> x \<in> set xs \<Longrightarrow> \<exists>u w. f x u = Inr w"
  by (induction xs arbitrary: s) (auto simp: bnd_eq_Inr)

text \<open>The rights a rule of a policy grants are among those handled for its kind.\<close>

definition rule_closed :: "u64 \<Rightarrow> val \<Rightarrow> bool" where
  "rule_closed abi row \<longleftrightarrow>
     (\<exists>rights. val_field row ''accessRights'' = Some (Array (map Text rights))
        \<and> set rights \<subseteq> set (if val_field row ''kind'' = Some (Text ''path-beneath'') then expected_fs abi else expected_net abi))"

lemma rule_rights_closed:
  "rule_rights m row admitted handled = Inr () \<Longrightarrow>
     \<exists>rights. val_field row ''accessRights'' = Some (Array (map Text rights)) \<and> set rights \<subseteq> set handled"
  by (auto simp: rule_rights_def bnd_eq_Inr list_ex_iff split: if_splits dest!: field_sorted_iff)

lemma landlock_v2_sort_closed:
  "landlock_v2_sort (expected_fs abi) (expected_net abi) row = Inr k \<Longrightarrow> rule_closed abi row"
  by (auto simp: landlock_v2_sort_def rule_closed_def bnd_eq_Inr field_text_iff split: if_splits dest!: rule_rights_closed)

lemma landlock_v2_closed:
  assumes "validate_landlock_v2 v = Inr ()"
  shows "\<exists>abi rules. val_field v ''effectiveAbi'' = Some (Unsigned abi) \<and> 4 \<le> abi \<and> abi \<le> 10
    \<and> val_field v ''handledFilesystemRights'' = Some (Array (map Text (expected_fs abi)))
    \<and> val_field v ''handledNetworkRights'' = Some (Array (map Text (expected_net abi)))
    \<and> val_field v ''handledScopeRights'' = Some (Array (map Text (expected_scope abi)))
    \<and> val_field v ''rules'' = Some (Array rules) \<and> list_all (rule_closed abi) rules"
proof -
  obtain abi rules s where abi: "val_field v ''effectiveAbi'' = Some (Unsigned abi)" "4 \<le> abi" "abi \<le> 10"
    and handled: "field_sorted v ''handledFilesystemRights'' LANDLOCK_V2_FS = Inr (expected_fs abi)"
      "field_sorted v ''handledNetworkRights'' LANDLOCK_V2_NET = Inr (expected_net abi)"
      "field_sorted v ''handledScopeRights'' LANDLOCK_SCOPE = Inr (expected_scope abi)"
    and rules: "val_field v ''rules'' = Some (Array rules)"
      "fold_res (rule_step ''P2 Landlock v2 rules not sorted unique''
         (landlock_v2_sort (expected_fs abi) (expected_net abi))) rules [] = Inr s"
    using assms
    by (auto simp: validate_landlock_v2_def bnd_eq_Inr p2_field_def unwrap_array_iff split: if_splits val.split_asm)
  have "rule_closed abi row" if "row \<in> set rules" for row
    using fold_res_each [OF rules(2) that] by (auto simp: rule_step_def bnd_eq_Inr dest: landlock_v2_sort_closed)
  then show ?thesis
    using abi handled rules(1) by (auto simp: list_all_iff dest!: field_sorted_iff)
qed

text \<open>A captured \<open>NativeLandlockPolicyV2\<close> is closed for its effective ABI, one of the reviewed ones (4 to
  10): the filesystem, network and scope rights it handles are exactly those of that ABI, and every
  right any of its rules grants is one of the handled rights of the rule's kind.\<close>

theorem landlock_policy_closed:
  assumes "capture_p2 bs expected_name = Inr c" "pc_schema_name c = ''NativeLandlockPolicyV2''"
  shows "\<exists>abi rules. val_field (pc_value c) ''effectiveAbi'' = Some (Unsigned abi) \<and> 4 \<le> abi \<and> abi \<le> 10
    \<and> val_field (pc_value c) ''handledFilesystemRights'' = Some (Array (map Text (expected_fs abi)))
    \<and> val_field (pc_value c) ''handledNetworkRights'' = Some (Array (map Text (expected_net abi)))
    \<and> val_field (pc_value c) ''handledScopeRights'' = Some (Array (map Text (expected_scope abi)))
    \<and> val_field (pc_value c) ''rules'' = Some (Array rules) \<and> list_all (rule_closed abi) rules"
  using captured_check [OF assms unsigned_shape(2) special_rows(2,4)] by (intro landlock_v2_closed) simp

definition demo_landlock :: val where
  "demo_landlock =
     Map [(''rules'', Array [Map [(''kind'', Text ''tcp-port''), (''port'', Unsigned 443),
            (''accessRights'', Array [Text ''connect-tcp''])]]),
          (''schema'', Text ''keep.native-landlock-policy''), (''version'', Unsigned 2), (''minimumAbi'', Unsigned 4),
          (''effectiveAbi'', Unsigned 4), (''handledScopeRights'', Array []), (''reviewedMaximumAbi'', Unsigned 10),
          (''handledNetworkRights'', Array (map Text (expected_net 4))),
          (''handledFilesystemRights'', Array (map Text (expected_fs 4)))]"

lemma expected_4:
    "expected_net 4 = [''bind-tcp'', ''connect-tcp'']" "expected_scope 4 = []"
    "expected_fs 4 = [''execute'', ''make-block'', ''make-char'', ''make-dir'', ''make-fifo'', ''make-reg'',
       ''make-sock'', ''make-sym'', ''read-dir'', ''read-file'', ''refer'', ''remove-dir'', ''remove-file'', ''truncate'',
       ''write-file'']"
  by (simp_all add: expected_net_def expected_scope_def expected_fs_def LANDLOCK_V2_FS_def LANDLOCK_V2_NET_ABI4_9_def)

lemma demo_landlock_canon: "canon demo_landlock = demo_landlock"
  by (simp add: demo_landlock_def expected_4 codec_eval)

lemma demo_landlock_encodes: "encode_bounded demo_landlock MANIFEST = Inr (enc demo_landlock)"
  unfolding encode_bounded_iff [OF usize_limits_profiles(2)]
  by (simp add: demo_landlock_def expected_4 codec_eval list_all_iff)

lemmas identifier_eval = identifier_form_def identifier_byte_def in_enum_def nth_Cons byte_of_char_Char
  is_ascii_alphanumeric_def is_ascii_digit_def less_Suc_eq_0_disj

lemma right_names: "list_all identifier_form (expected_fs 4 @ expected_net 4)"
  unfolding expected_4 by (simp add: identifier_eval split: nat.splits)

lemma conforms_rights:
  "conforms (RArray (RIdentifier (Some allowed)) m n True [] []) (Array (map Text ts)) \<longleftrightarrow>
     m \<le> length ts \<and> length ts \<le> n \<and> list_all identifier_form ts \<and> set ts \<subseteq> set allowed \<and> sorted_wrt (<) ts"
  by (auto simp: in_enum_def list_all_iff map_Text_eq)

lemma demo_right: "[Text ''connect-tcp''] = map Text [''connect-tcp'']" "[] = map Text []"
  by simp_all

lemma demo_landlock_rule:
  "conforms NATIVE_LANDLOCK_POLICY_V2_SPEC_rules_item
     (Map [(''kind'', Text ''tcp-port''), (''port'', Unsigned 443), (''accessRights'', Array (map Text [''connect-tcp'']))])"
  unfolding NATIVE_LANDLOCK_POLICY_V2_SPEC_rules_item_def
  by (simp add: conforms_rights insert_commute del: list.map conforms.simps(10)) (simp add: identifier_eval split: nat.splits)

lemma conforms_recordI:
  assumes "distinct (map fst rows)" "fst ` set rows = fst ` set fs"
    and "list_all (\<lambda>f. conforms (snd f) (the (map_of rows (fst f)))) fs"
  shows "conforms (RRecord fs) (Map rows)"
  using assms by (auto simp: list_all_iff)

lemma demo_landlock_arrays:
    "conforms (RArray (RIdentifier (Some allowed)) 0 n True [] []) (Array [])"
    "conforms (RArray (RIdentifier (Some [''execute'', ''write-file'', ''read-file'', ''read-dir'', ''remove-dir'',
       ''remove-file'', ''make-char'', ''make-dir'', ''make-reg'', ''make-sock'', ''make-fifo'', ''make-block'',
       ''make-sym'', ''refer'', ''truncate'', ''ioctl-dev'', ''resolve-unix''])) 0 17 True [] [])
       (Array (map Text (expected_fs 4)))"
    "conforms (RArray (RIdentifier (Some [''bind-tcp'', ''connect-tcp'', ''bind-udp'', ''connect-send-udp''])) 0 4 True [] [])
       (Array (map Text (expected_net 4)))"
  using right_names unfolding conforms_rights expected_4 by (simp_all add: less_char_def)

lemma demo_landlock_rules:
  "conforms (RArray NATIVE_LANDLOCK_POLICY_V2_SPEC_rules_item 0 256 False [] [])
     (Array [Map [(''kind'', Text ''tcp-port''), (''port'', Unsigned 443), (''accessRights'', Array [Text ''connect-tcp''])]])"
  using demo_landlock_rule by simp

lemma demo_landlock_conforms: "conforms NATIVE_LANDLOCK_POLICY_V2_SPEC demo_landlock"
  unfolding NATIVE_LANDLOCK_POLICY_V2_SPEC_def demo_landlock_def
proof (rule conforms_recordI, goal_cases)
  case 3
  show ?case
    apply (simp only: list.pred_inject fst_conv snd_conv map_of_Cons_code literal_eq option.sel)
    apply (simp add: demo_landlock_rules identifier_eval del: conforms.simps(10) split: nat.splits)
    apply (intro conjI demo_landlock_arrays)
    done
qed (simp_all add: insert_commute)

lemma sorted_text_accepts:
  "set ts \<subseteq> set allowed \<Longrightarrow> sorted_wrt (<) (prior @ ts) \<Longrightarrow>
     fold_res (sorted_text_step allowed) (map Text ts) prior = Inr (prior @ ts)"
proof (induction ts arbitrary: prior)
  case (Cons t ts)
  then have "prior = [] \<or> last prior < t"
    by (cases prior rule: rev_cases) (auto simp: sorted_wrt_append)
  then show ?case using Cons by (auto simp: sorted_text_step_def [of _ "Text t"] p2_text_def)
qed simp

lemma field_sorted_accepts:
  "val_field v name = Some (Array (map Text ts)) \<Longrightarrow> set ts \<subseteq> set allowed \<Longrightarrow> sorted_wrt (<) ts \<Longrightarrow>
     field_sorted v name allowed = Inr ts"
  using sorted_text_accepts [of ts allowed "[]"] by (simp add: field_sorted_def p2_field_def sorted_text_array_def)

lemma demo_landlock_checks: "validate_landlock_v2 demo_landlock = Inr ()"
proof -
  let ?rule = "Map [(''kind'', Text ''tcp-port''), (''port'', Unsigned 443), (''accessRights'', Array [Text ''connect-tcp''])]"
  have handled: "field_sorted demo_landlock ''handledFilesystemRights'' LANDLOCK_V2_FS = Inr (expected_fs 4)"
      "field_sorted demo_landlock ''handledNetworkRights'' LANDLOCK_V2_NET = Inr (expected_net 4)"
      "field_sorted demo_landlock ''handledScopeRights'' LANDLOCK_SCOPE = Inr (expected_scope 4)"
    by (rule field_sorted_accepts, simp add: demo_landlock_def expected_4,
        simp add: expected_4 LANDLOCK_V2_FS_def LANDLOCK_V2_NET_def, simp add: expected_4 less_char_def)+
  have rights: "field_sorted ?rule ''accessRights'' [''bind-tcp'', ''connect-tcp''] = Inr [''connect-tcp'']"
    by (rule field_sorted_accepts) simp_all
  have "is_ok (landlock_v2_sort (expected_fs 4) (expected_net 4) ?rule)"
    using rights by (simp add: landlock_v2_sort_def field_text_def p2_field_def p2_text_def keys_exact_def p2_entries_def
        field_port_def rule_rights_def expected_4)
  then show ?thesis
    using handled by (auto simp: validate_landlock_v2_def field_is_def p2_field_def unwrap_unsigned_def field_unsigned_def
        unwrap_array_def field_array_def rule_step_def is_ok_iff demo_landlock_def)
qed

lemma demo_landlock_header:
  assumes "spec = schema_row ''NativeLandlockPolicyV2'' ''keep.native-landlock-policy'' SUnsigned LANDLOCK_V2 None"
  shows "check_header spec demo_landlock = Inr ()"
  using special_rows(2) demo_landlock_checks
  by (simp add: assms check_header_def validate_special_def schema_row_def LANDLOCK_V2_def p2_exact_def keys_exact_def
      p2_entries_def p2_require_def field_text_def p2_field_def p2_text_def require_version_def field_is_def demo_landlock_def)

lemma demo_landlock_captured:
  "capture_p2 (enc demo_landlock) (Some ''NativeLandlockPolicyV2'') =
     Inr \<lparr>pc_schema_name = ''NativeLandlockPolicyV2'', pc_canonical = enc demo_landlock, pc_value = demo_landlock\<rparr>"
proof -
  let ?spec = "schema_row ''NativeLandlockPolicyV2'' ''keep.native-landlock-policy'' SUnsigned LANDLOCK_V2 None"
  have known: "?spec \<in> set ALL_SCHEMAS"
    unfolding registry_rows by simp
  have "p2_record ?spec MANIFEST (enc demo_landlock) demo_landlock"
    using demo_landlock_canon demo_landlock_encodes demo_landlock_conforms special_rows(4) demo_landlock_header
    by (simp add: p2_record_def schema_row_def)
  then show ?thesis
    using captured_iff [OF known select_named [OF known], of "enc demo_landlock"
        "\<lparr>pc_schema_name = ''NativeLandlockPolicyV2'', pc_canonical = enc demo_landlock, pc_value = demo_landlock\<rparr>"
        demo_landlock]
    by (simp add: capture_limits_def schema_row_def)
qed

theorem landlock_policy_closed_witness:
  "\<exists>abi. val_field demo_landlock ''effectiveAbi'' = Some (Unsigned abi) \<and> 4 \<le> abi
     \<and> val_field demo_landlock ''handledNetworkRights'' = Some (Array (map Text (expected_net abi)))"
  using landlock_policy_closed [OF demo_landlock_captured] by auto

end
