(* ===== verification/Landlock_Ruleset.thy ===== *)
theory Landlock_Ruleset
  imports P2_Records
begin

section \<open>The Landlock ruleset of the isolation boundary\<close>

text \<open>
  \<open>reviewed_landlock_policy\<close> and \<open>LandlockRuleset\<close> of \<open>linux-abi/src/lib.rs\<close>: the access masks
  of the reviewed ABI range, the rules that may be added to a ruleset and the order of the
  calls that enforce it. A kernel call is its arguments in a trace and its result is an argument of
  the operation. The last part relates the masks to the Landlock policy documents of the P2
  schemas: both crates state which rights each ABI has, one as names and one as bits.
\<close>

subsection \<open>Which policy an unnamed capture selects\<close>

text \<open>
  The two versions of the policy share their schema name. Without an expected name the capture takes the
  first row with that name, so a document of version 2 is measured against version 1.
\<close>

lemma unnamed_landlock_is_v1:
  assumes "val_field v ''schema'' = Some (Text ''keep.native-landlock-policy'')" "select_spec None v = Inr s"
  shows "ss_name s = ''NativeLandlockPolicyV1''"
proof -
  have "find (\<lambda>s. ss_schema s = ''keep.native-landlock-policy'') P2_SCHEMAS =
      Some (schema_row ''NativeLandlockPolicyV1'' ''keep.native-landlock-policy'' SUnsigned LANDLOCK None)"
    by (simp only: P2_SCHEMAS_def find.simps registry_rows schema_row_def schema_spec.select_convs literal_eq)
  then show ?thesis using assms by (auto simp: select_spec_def field_text_def p2_field_def p2_text_def ok_or_def bnd_eq_Inr schema_row_def)
qed

subsection \<open>Access rights\<close>

definition MAXIMUM_SUPPORTED_LANDLOCK_ABI :: u32 where "MAXIMUM_SUPPORTED_LANDLOCK_ABI = 10"
definition LANDLOCK_ACCESS_FS_EXECUTE :: u64 where "LANDLOCK_ACCESS_FS_EXECUTE = push_bit 0 1"
definition LANDLOCK_ACCESS_FS_WRITE_FILE :: u64 where "LANDLOCK_ACCESS_FS_WRITE_FILE = push_bit 1 1"
definition LANDLOCK_ACCESS_FS_READ_FILE :: u64 where "LANDLOCK_ACCESS_FS_READ_FILE = push_bit 2 1"
definition LANDLOCK_ACCESS_FS_READ_DIR :: u64 where "LANDLOCK_ACCESS_FS_READ_DIR = push_bit 3 1"
definition LANDLOCK_ACCESS_FS_REMOVE_DIR :: u64 where "LANDLOCK_ACCESS_FS_REMOVE_DIR = push_bit 4 1"
definition LANDLOCK_ACCESS_FS_REMOVE_FILE :: u64 where "LANDLOCK_ACCESS_FS_REMOVE_FILE = push_bit 5 1"
definition LANDLOCK_ACCESS_FS_MAKE_CHAR :: u64 where "LANDLOCK_ACCESS_FS_MAKE_CHAR = push_bit 6 1"
definition LANDLOCK_ACCESS_FS_MAKE_DIR :: u64 where "LANDLOCK_ACCESS_FS_MAKE_DIR = push_bit 7 1"
definition LANDLOCK_ACCESS_FS_MAKE_REG :: u64 where "LANDLOCK_ACCESS_FS_MAKE_REG = push_bit 8 1"
definition LANDLOCK_ACCESS_FS_MAKE_SOCK :: u64 where "LANDLOCK_ACCESS_FS_MAKE_SOCK = push_bit 9 1"
definition LANDLOCK_ACCESS_FS_MAKE_FIFO :: u64 where "LANDLOCK_ACCESS_FS_MAKE_FIFO = push_bit 10 1"
definition LANDLOCK_ACCESS_FS_MAKE_BLOCK :: u64 where "LANDLOCK_ACCESS_FS_MAKE_BLOCK = push_bit 11 1"
definition LANDLOCK_ACCESS_FS_MAKE_SYM :: u64 where "LANDLOCK_ACCESS_FS_MAKE_SYM = push_bit 12 1"
definition LANDLOCK_ACCESS_FS_REFER :: u64 where "LANDLOCK_ACCESS_FS_REFER = push_bit 13 1"
definition LANDLOCK_ACCESS_FS_TRUNCATE :: u64 where "LANDLOCK_ACCESS_FS_TRUNCATE = push_bit 14 1"
definition LANDLOCK_ACCESS_FS_IOCTL_DEV :: u64 where "LANDLOCK_ACCESS_FS_IOCTL_DEV = push_bit 15 1"
definition LANDLOCK_ACCESS_FS_RESOLVE_UNIX :: u64 where "LANDLOCK_ACCESS_FS_RESOLVE_UNIX = push_bit 16 1"
definition LANDLOCK_ACCESS_NET_BIND_TCP :: u64 where "LANDLOCK_ACCESS_NET_BIND_TCP = push_bit 0 1"
definition LANDLOCK_ACCESS_NET_CONNECT_TCP :: u64 where "LANDLOCK_ACCESS_NET_CONNECT_TCP = push_bit 1 1"
definition LANDLOCK_ACCESS_NET_BIND_UDP :: u64 where "LANDLOCK_ACCESS_NET_BIND_UDP = push_bit 2 1"
definition LANDLOCK_ACCESS_NET_CONNECT_SEND_UDP :: u64 where "LANDLOCK_ACCESS_NET_CONNECT_SEND_UDP = push_bit 3 1"
definition LANDLOCK_SCOPE_ABSTRACT_UNIX_SOCKET :: u64 where "LANDLOCK_SCOPE_ABSTRACT_UNIX_SOCKET = push_bit 0 1"
definition LANDLOCK_SCOPE_SIGNAL :: u64 where "LANDLOCK_SCOPE_SIGNAL = push_bit 1 1"

lemmas landlock_bits =
  LANDLOCK_ACCESS_FS_EXECUTE_def LANDLOCK_ACCESS_FS_WRITE_FILE_def LANDLOCK_ACCESS_FS_READ_FILE_def
  LANDLOCK_ACCESS_FS_READ_DIR_def LANDLOCK_ACCESS_FS_REMOVE_DIR_def LANDLOCK_ACCESS_FS_REMOVE_FILE_def
  LANDLOCK_ACCESS_FS_MAKE_CHAR_def LANDLOCK_ACCESS_FS_MAKE_DIR_def LANDLOCK_ACCESS_FS_MAKE_REG_def
  LANDLOCK_ACCESS_FS_MAKE_SOCK_def LANDLOCK_ACCESS_FS_MAKE_FIFO_def LANDLOCK_ACCESS_FS_MAKE_BLOCK_def
  LANDLOCK_ACCESS_FS_MAKE_SYM_def LANDLOCK_ACCESS_FS_REFER_def LANDLOCK_ACCESS_FS_TRUNCATE_def
  LANDLOCK_ACCESS_FS_IOCTL_DEV_def LANDLOCK_ACCESS_FS_RESOLVE_UNIX_def LANDLOCK_ACCESS_NET_BIND_TCP_def
  LANDLOCK_ACCESS_NET_CONNECT_TCP_def LANDLOCK_ACCESS_NET_BIND_UDP_def LANDLOCK_ACCESS_NET_CONNECT_SEND_UDP_def
  LANDLOCK_SCOPE_ABSTRACT_UNIX_SOCKET_def LANDLOCK_SCOPE_SIGNAL_def

subsection \<open>The reviewed policy\<close>

record landlock_observation =
  lo_abi :: u32
  handled_filesystem :: u64
  handled_network :: u64
  lo_scoped :: u64

datatype landlock_error = Unsupported_Abi string | Unhandled_Right string | Kernel_Refused

definition base_filesystem :: u64 where
  "base_filesystem =
     LANDLOCK_ACCESS_FS_EXECUTE OR LANDLOCK_ACCESS_FS_WRITE_FILE OR LANDLOCK_ACCESS_FS_READ_FILE
     OR LANDLOCK_ACCESS_FS_READ_DIR OR LANDLOCK_ACCESS_FS_REMOVE_DIR OR LANDLOCK_ACCESS_FS_REMOVE_FILE
     OR LANDLOCK_ACCESS_FS_MAKE_CHAR OR LANDLOCK_ACCESS_FS_MAKE_DIR OR LANDLOCK_ACCESS_FS_MAKE_REG
     OR LANDLOCK_ACCESS_FS_MAKE_SOCK OR LANDLOCK_ACCESS_FS_MAKE_FIFO OR LANDLOCK_ACCESS_FS_MAKE_BLOCK
     OR LANDLOCK_ACCESS_FS_MAKE_SYM OR LANDLOCK_ACCESS_FS_REFER OR LANDLOCK_ACCESS_FS_TRUNCATE"

definition reviewed_landlock_policy :: "u32 \<Rightarrow> (landlock_error, landlock_observation) res" where
  "reviewed_landlock_policy abi =
     (if \<not> (3 \<le> abi \<and> abi \<le> MAXIMUM_SUPPORTED_LANDLOCK_ABI)
      then Inl (Unsupported_Abi ''Landlock ABI is outside Keep's reviewed range'')
      else
        let fs = base_filesystem;
            fs = (if 5 \<le> abi then fs OR LANDLOCK_ACCESS_FS_IOCTL_DEV else fs);
            fs = (if 9 \<le> abi then fs OR LANDLOCK_ACCESS_FS_RESOLVE_UNIX else fs);
            net = 0;
            net = (if 4 \<le> abi then net OR (LANDLOCK_ACCESS_NET_BIND_TCP OR LANDLOCK_ACCESS_NET_CONNECT_TCP) else net);
            net = (if 10 \<le> abi then net OR (LANDLOCK_ACCESS_NET_BIND_UDP OR LANDLOCK_ACCESS_NET_CONNECT_SEND_UDP)
                   else net);
            scoped = (if 6 \<le> abi then LANDLOCK_SCOPE_ABSTRACT_UNIX_SOCKET OR LANDLOCK_SCOPE_SIGNAL else 0)
        in Inr \<lparr>lo_abi = abi, handled_filesystem = fs, handled_network = net, lo_scoped = scoped\<rparr>)"

subsection \<open>Rulesets\<close>

text \<open>
  \<open>Create_Ruleset fs net scoped\<close>, \<open>Add_Path_Rule access\<close> and \<open>Restrict_Self\<close> are the three
  Landlock system calls with the arguments the code computes; \<open>No_New_Privileges\<close> is the
  \<open>prctl\<close> before the last.
\<close>

datatype landlock_call =
    Create_Ruleset u64 u64 u64
  | Add_Path_Rule u64
  | No_New_Privileges
  | Restrict_Self

definition ruleset_new ::
    "u32 \<Rightarrow> u32 \<Rightarrow> bool \<Rightarrow> landlock_call list \<times> (landlock_error, landlock_observation) res" where
  "ruleset_new kernel_abi minimum_abi created =
     (if kernel_abi < minimum_abi
      then ([], Inl (Unsupported_Abi ''Landlock ABI is below the required floor''))
      else case reviewed_landlock_policy kernel_abi of
          Inl e \<Rightarrow> ([], Inl e)
        | Inr p \<Rightarrow>
            ([Create_Ruleset (handled_filesystem p) (handled_network p) (lo_scoped p)],
             if created then Inr p else Inl Kernel_Refused))"

definition add_path ::
    "landlock_observation \<Rightarrow> u64 \<Rightarrow> bool \<Rightarrow> landlock_call list \<times> (landlock_error, unit) res" where
  "add_path p access added =
     (if access AND NOT (handled_filesystem p) \<noteq> 0
      then ([], Inl (Unhandled_Right ''Landlock rule grants an unhandled filesystem right''))
      else ([Add_Path_Rule access], if added then Inr () else Inl Kernel_Refused))"

definition read_only_access :: u64 where
  "read_only_access = LANDLOCK_ACCESS_FS_EXECUTE OR LANDLOCK_ACCESS_FS_READ_FILE OR LANDLOCK_ACCESS_FS_READ_DIR"

definition read_write_access :: "landlock_observation \<Rightarrow> u64" where
  "read_write_access p = handled_filesystem p AND NOT LANDLOCK_ACCESS_FS_IOCTL_DEV"

definition read_write_file_access :: u64 where
  "read_write_file_access =
     LANDLOCK_ACCESS_FS_READ_FILE OR LANDLOCK_ACCESS_FS_WRITE_FILE OR LANDLOCK_ACCESS_FS_TRUNCATE"

definition device_access :: "landlock_observation \<Rightarrow> u64" where
  "device_access p =
     LANDLOCK_ACCESS_FS_READ_FILE OR LANDLOCK_ACCESS_FS_WRITE_FILE
     OR (handled_filesystem p AND LANDLOCK_ACCESS_FS_IOCTL_DEV)"

definition restrict_self ::
    "landlock_observation \<Rightarrow> bool \<Rightarrow> bool \<Rightarrow> landlock_call list \<times> (landlock_error, u32) res" where
  "restrict_self p privileges_set restricted =
     (if \<not> privileges_set then ([No_New_Privileges], Inl Kernel_Refused)
      else ([No_New_Privileges, Restrict_Self], if restricted then Inr (lo_abi p) else Inl Kernel_Refused))"

text \<open>The four kinds of rule never ask for a right the ruleset does not handle.\<close>

lemma base_filesystem_eq: "base_filesystem = 0x7fff"
  by (simp add: base_filesystem_def landlock_bits)

lemma handled_values:
  assumes "reviewed_landlock_policy abi = Inr p"
  shows "handled_filesystem p \<in> {0x7fff, 0xffff, 0x1ffff}"
proof -
  have "5 \<le> abi" if "9 \<le> abi" using that by (rule order.trans [rotated]) simp
  then show ?thesis
    using assms by (auto simp: reviewed_landlock_policy_def Let_def base_filesystem_eq landlock_bits split: if_splits)
qed

lemma rule_kinds_handled:
  assumes "reviewed_landlock_policy abi = Inr p"
  shows "read_only_access AND NOT (handled_filesystem p) = 0"
    "read_write_access p AND NOT (handled_filesystem p) = 0"
    "read_write_file_access AND NOT (handled_filesystem p) = 0"
    "device_access p AND NOT (handled_filesystem p) = 0"
  using handled_values [OF assms]
  by (auto simp: read_only_access_def read_write_access_def read_write_file_access_def device_access_def landlock_bits)

subsection \<open>The rights of a policy document\<close>

text \<open>
  No code of the repository builds a ruleset from a policy document: the validator of the documents knows the
  rights of each ABI by name, the boundary crate by bit. The two are compared here by the identifiers of the
  boundary crate's constants: the right \<open>write-file\<close> is the constant whose identifier ends in \<open>WRITE_FILE\<close>.
\<close>

definition FS_CONSTANTS :: "(string \<times> u64) list" where
  "FS_CONSTANTS =
     [(''EXECUTE'', LANDLOCK_ACCESS_FS_EXECUTE),
      (''WRITE_FILE'', LANDLOCK_ACCESS_FS_WRITE_FILE),
      (''READ_FILE'', LANDLOCK_ACCESS_FS_READ_FILE),
      (''READ_DIR'', LANDLOCK_ACCESS_FS_READ_DIR),
      (''REMOVE_DIR'', LANDLOCK_ACCESS_FS_REMOVE_DIR),
      (''REMOVE_FILE'', LANDLOCK_ACCESS_FS_REMOVE_FILE),
      (''MAKE_CHAR'', LANDLOCK_ACCESS_FS_MAKE_CHAR),
      (''MAKE_DIR'', LANDLOCK_ACCESS_FS_MAKE_DIR),
      (''MAKE_REG'', LANDLOCK_ACCESS_FS_MAKE_REG),
      (''MAKE_SOCK'', LANDLOCK_ACCESS_FS_MAKE_SOCK),
      (''MAKE_FIFO'', LANDLOCK_ACCESS_FS_MAKE_FIFO),
      (''MAKE_BLOCK'', LANDLOCK_ACCESS_FS_MAKE_BLOCK),
      (''MAKE_SYM'', LANDLOCK_ACCESS_FS_MAKE_SYM),
      (''REFER'', LANDLOCK_ACCESS_FS_REFER),
      (''TRUNCATE'', LANDLOCK_ACCESS_FS_TRUNCATE),
      (''IOCTL_DEV'', LANDLOCK_ACCESS_FS_IOCTL_DEV),
      (''RESOLVE_UNIX'', LANDLOCK_ACCESS_FS_RESOLVE_UNIX)]"

definition NET_CONSTANTS :: "(string \<times> u64) list" where
  "NET_CONSTANTS =
     [(''BIND_TCP'', LANDLOCK_ACCESS_NET_BIND_TCP),
      (''CONNECT_TCP'', LANDLOCK_ACCESS_NET_CONNECT_TCP),
      (''BIND_UDP'', LANDLOCK_ACCESS_NET_BIND_UDP),
      (''CONNECT_SEND_UDP'', LANDLOCK_ACCESS_NET_CONNECT_SEND_UDP)]"

definition SCOPE_CONSTANTS :: "(string \<times> u64) list" where
  "SCOPE_CONSTANTS =
     [(''ABSTRACT_UNIX_SOCKET'', LANDLOCK_SCOPE_ABSTRACT_UNIX_SOCKET),
      (''SIGNAL'', LANDLOCK_SCOPE_SIGNAL)]"

definition right_identifier :: "string \<Rightarrow> string" where
  "right_identifier right = map (\<lambda>c. if c = CHR ''-'' then CHR ''_'' else char_of (of_char c - 32 :: nat)) right"

fun named_mask :: "(string \<times> u64) list \<Rightarrow> string list \<Rightarrow> u64 option" where
  "named_mask constants [] = Some 0"
| "named_mask constants (right # rights) =
     Option.bind (map_of constants (right_identifier right)) (\<lambda>b. map_option (\<lambda>m. b OR m) (named_mask constants rights))"

lemma right_constants:
  "map_of FS_CONSTANTS (right_identifier ''execute'') = Some LANDLOCK_ACCESS_FS_EXECUTE"
  "map_of FS_CONSTANTS (right_identifier ''write-file'') = Some LANDLOCK_ACCESS_FS_WRITE_FILE"
  "map_of FS_CONSTANTS (right_identifier ''read-file'') = Some LANDLOCK_ACCESS_FS_READ_FILE"
  "map_of FS_CONSTANTS (right_identifier ''read-dir'') = Some LANDLOCK_ACCESS_FS_READ_DIR"
  "map_of FS_CONSTANTS (right_identifier ''remove-dir'') = Some LANDLOCK_ACCESS_FS_REMOVE_DIR"
  "map_of FS_CONSTANTS (right_identifier ''remove-file'') = Some LANDLOCK_ACCESS_FS_REMOVE_FILE"
  "map_of FS_CONSTANTS (right_identifier ''make-char'') = Some LANDLOCK_ACCESS_FS_MAKE_CHAR"
  "map_of FS_CONSTANTS (right_identifier ''make-dir'') = Some LANDLOCK_ACCESS_FS_MAKE_DIR"
  "map_of FS_CONSTANTS (right_identifier ''make-reg'') = Some LANDLOCK_ACCESS_FS_MAKE_REG"
  "map_of FS_CONSTANTS (right_identifier ''make-sock'') = Some LANDLOCK_ACCESS_FS_MAKE_SOCK"
  "map_of FS_CONSTANTS (right_identifier ''make-fifo'') = Some LANDLOCK_ACCESS_FS_MAKE_FIFO"
  "map_of FS_CONSTANTS (right_identifier ''make-block'') = Some LANDLOCK_ACCESS_FS_MAKE_BLOCK"
  "map_of FS_CONSTANTS (right_identifier ''make-sym'') = Some LANDLOCK_ACCESS_FS_MAKE_SYM"
  "map_of FS_CONSTANTS (right_identifier ''refer'') = Some LANDLOCK_ACCESS_FS_REFER"
  "map_of FS_CONSTANTS (right_identifier ''truncate'') = Some LANDLOCK_ACCESS_FS_TRUNCATE"
  "map_of FS_CONSTANTS (right_identifier ''ioctl-dev'') = Some LANDLOCK_ACCESS_FS_IOCTL_DEV"
  "map_of FS_CONSTANTS (right_identifier ''resolve-unix'') = Some LANDLOCK_ACCESS_FS_RESOLVE_UNIX"
  "map_of NET_CONSTANTS (right_identifier ''bind-tcp'') = Some LANDLOCK_ACCESS_NET_BIND_TCP"
  "map_of NET_CONSTANTS (right_identifier ''connect-tcp'') = Some LANDLOCK_ACCESS_NET_CONNECT_TCP"
  "map_of NET_CONSTANTS (right_identifier ''bind-udp'') = Some LANDLOCK_ACCESS_NET_BIND_UDP"
  "map_of NET_CONSTANTS (right_identifier ''connect-send-udp'') = Some LANDLOCK_ACCESS_NET_CONNECT_SEND_UDP"
  "map_of SCOPE_CONSTANTS (right_identifier ''abstract-unix-socket'') = Some LANDLOCK_SCOPE_ABSTRACT_UNIX_SOCKET"
  "map_of SCOPE_CONSTANTS (right_identifier ''signal'') = Some LANDLOCK_SCOPE_SIGNAL"
  by (simp_all add: FS_CONSTANTS_def NET_CONSTANTS_def SCOPE_CONSTANTS_def right_identifier_def char_of_def bit_0)

lemma abi_cases:
  assumes "4 \<le> abi" "abi \<le> 10"
  shows "abi \<in> {4, 5, 6, 7, 8, 9, 10 :: u64}"
proof -
  have "unat abi \<in> {4..10}" using assms by (auto simp: word_le_nat_alt)
  then have "unat abi \<in> {unat (4::u64), unat (5::u64), unat (6::u64), unat (7::u64), unat (8::u64), unat (9::u64), unat (10::u64)}"
    by auto
  then show ?thesis by (auto simp: word_unat_eq_iff)
qed

definition same_rights :: "u64 \<Rightarrow> bool" where
  "same_rights abi \<longleftrightarrow>
     (case reviewed_landlock_policy (ucast abi) of
        Inl _ \<Rightarrow> False
      | Inr p \<Rightarrow> named_mask FS_CONSTANTS (expected_fs abi) = Some (handled_filesystem p)
          \<and> named_mask NET_CONSTANTS (expected_net abi) = Some (handled_network p)
          \<and> named_mask SCOPE_CONSTANTS (expected_scope abi) = Some (lo_scoped p))"

lemma same_rights_values:
  "same_rights 4" "same_rights 5" "same_rights 6" "same_rights 7" "same_rights 8" "same_rights 9" "same_rights 10"
  by (simp_all add: same_rights_def reviewed_landlock_policy_def MAXIMUM_SUPPORTED_LANDLOCK_ABI_def Let_def
      base_filesystem_def expected_fs_def expected_net_def expected_scope_def LANDLOCK_V2_FS_def LANDLOCK_V2_NET_def
      LANDLOCK_V2_NET_ABI4_9_def LANDLOCK_SCOPE_def right_constants landlock_bits)

lemma reviewed_rights:
  assumes "4 \<le> abi" "abi \<le> 10"
  shows "\<exists>p. reviewed_landlock_policy (ucast abi) = Inr p
    \<and> named_mask FS_CONSTANTS (expected_fs abi) = Some (handled_filesystem p)
    \<and> named_mask NET_CONSTANTS (expected_net abi) = Some (handled_network p)
    \<and> named_mask SCOPE_CONSTANTS (expected_scope abi) = Some (lo_scoped p)"
proof -
  have "same_rights abi" using abi_cases [OF assms] same_rights_values by auto
  then show ?thesis by (auto simp: same_rights_def split: sum.splits)
qed

text \<open>
  C27: the document validator and the boundary crate have the same rights for every effective ABI a captured
  \<open>NativeLandlockPolicyV2\<close> can state. The ABI is one the boundary crate has reviewed; the names of the filesystem,
  network and scope rights the document handles are all identifiers of its constants, and the union of
  these constants is exactly the mask the crate hands to the kernel for that ABI; the rules of
  the document grant only rights it handles, of the rule's kind.
\<close>

theorem landlock_rights_agree:
  assumes "capture_p2 bs expected_name = Inr c" "pc_schema_name c = ''NativeLandlockPolicyV2''"
  shows "\<exists>abi fs net scope rules p.
    val_field (pc_value c) ''effectiveAbi'' = Some (Unsigned abi)
    \<and> val_field (pc_value c) ''handledFilesystemRights'' = Some (Array (map Text fs))
    \<and> val_field (pc_value c) ''handledNetworkRights'' = Some (Array (map Text net))
    \<and> val_field (pc_value c) ''handledScopeRights'' = Some (Array (map Text scope))
    \<and> val_field (pc_value c) ''rules'' = Some (Array rules)
    \<and> reviewed_landlock_policy (ucast abi) = Inr p
    \<and> named_mask FS_CONSTANTS fs = Some (handled_filesystem p)
    \<and> named_mask NET_CONSTANTS net = Some (handled_network p)
    \<and> named_mask SCOPE_CONSTANTS scope = Some (lo_scoped p)
    \<and> list_all (rule_closed abi) rules"
proof -
  have "validate_landlock_v2 (pc_value c) = Inr ()"
    using captured_check [OF assms unsigned_shape(2) special_rows(2,4)] by simp
  from landlock_v2_closed [OF this] reviewed_rights show ?thesis by metis
qed

theorem landlock_rights_agree_witness:
  "\<exists>abi p. val_field demo_landlock ''effectiveAbi'' = Some (Unsigned abi) \<and> reviewed_landlock_policy (ucast abi) = Inr p
     \<and> (\<exists>fs. val_field demo_landlock ''handledFilesystemRights'' = Some (Array (map Text fs))
          \<and> named_mask FS_CONSTANTS fs = Some (handled_filesystem p))"
  using landlock_rights_agree [OF demo_landlock_captured] by auto

end
