(* ===== verification/Ordered_Map.thy ===== *)
theory Ordered_Map
  imports Keep_Prelude
begin

section \<open>Ordered maps\<close>

text \<open>
  \<open>BTreeMap\<close> of the standard library: an interface (insertion, removal, lookup, iteration in the
  order of the keys) with its laws, what follows for every client, and the association lists that
  implement it here.
\<close>

locale ordered_map =
  fixes put :: "'k :: linorder \<Rightarrow> 'v \<Rightarrow> 'm \<Rightarrow> 'm"
    and del :: "'k \<Rightarrow> 'm \<Rightarrow> 'm"
    and look :: "'m \<Rightarrow> 'k \<rightharpoonup> 'v"
    and rows :: "'m \<Rightarrow> ('k \<times> 'v) list"
    and good :: "'m \<Rightarrow> bool"
  assumes put_good: "good m \<Longrightarrow> good (put k v m)"
    and del_good: "good m \<Longrightarrow> good (del k m)"
    and look_put: "good m \<Longrightarrow> look (put k v m) = (look m)(k \<mapsto> v)"
    and look_del: "good m \<Longrightarrow> look (del k m) = (look m)(k := None)"
    and rows_look: "good m \<Longrightarrow> map_of (rows m) = look m"
    and rows_sorted: "good m \<Longrightarrow> sorted_wrt (<) (map fst (rows m))"
begin

lemma put_all:
  assumes "good m"
  shows "good (fold (\<lambda>(k, v). put k v) kvs m) \<and> look (fold (\<lambda>(k, v). put k v) kvs m) = look m ++ map_of (rev kvs)"
  using assms
proof (induction kvs arbitrary: m)
  case (Cons kv kvs)
  then show ?case
    using Cons.IH [OF put_good [OF Cons.prems, of "fst kv" "snd kv"]]
    by (cases kv) (simp add: look_put map_add_upd_left map_of_append fun_eq_iff map_add_def split: option.splits)
qed simp

lemma rows_determined:
  assumes "good m" "good m'" "look m = look m'"
  shows "rows m = rows m'"
proof -
  have keys: "distinct (map fst (rows m))" "distinct (map fst (rows m'))"
    using rows_sorted assms(1,2) by (simp_all add: strict_sorted_iff)
  have "set (rows m) = set (rows m')"
    using assms rows_look keys by (metis map_of_inject_set)
  moreover have "sorted (map fst (rows m))" "sorted (map fst (rows m'))"
    using rows_sorted assms(1,2) by (simp_all add: strict_sorted_iff)
  ultimately show ?thesis
    using keys by (intro map_sorted_distinct_set_unique [of fst]) (auto simp: distinct_map)
qed

lemma rows_keys: "good m \<Longrightarrow> fst ` set (rows m) = dom (look m)"
  by (simp add: rows_look [symmetric] dom_map_of_conv_image_fst)

end

subsection \<open>Association lists in key order\<close>

fun om_insert :: "'k :: linorder \<Rightarrow> 'v \<Rightarrow> ('k \<times> 'v) list \<Rightarrow> ('k \<times> 'v) list" where
  "om_insert k v [] = [(k, v)]"
| "om_insert k v ((a, b) # xs) =
     (if k < a then (k, v) # (a, b) # xs else if k = a then (k, v) # xs else (a, b) # om_insert k v xs)"

definition om_remove :: "'k \<Rightarrow> ('k \<times> 'v) list \<Rightarrow> ('k \<times> 'v) list" where
  "om_remove k xs = filter (\<lambda>kv. fst kv \<noteq> k) xs"

definition om_ok :: "('k :: linorder \<times> 'v) list \<Rightarrow> bool" where
  "om_ok xs \<longleftrightarrow> sorted_wrt (<) (map fst xs)"

lemma om_insert_keys: "fst ` set (om_insert k v xs) = insert k (fst ` set xs)"
proof (induction xs)
  case (Cons x xs)
  then show ?case by (cases x) (simp add: insert_commute)
qed simp

lemma om_insert_ok: "om_ok xs \<Longrightarrow> om_ok (om_insert k v xs)"
proof (induction xs)
  case (Cons x xs)
  then show ?case
    using om_insert_keys [of k v xs] by (cases x) (force simp: om_ok_def)
qed (simp add: om_ok_def)

lemma om_insert_lookup: "map_of (om_insert k v xs) = (map_of xs)(k \<mapsto> v)"
  by (induction xs) (auto simp: fun_eq_iff)

lemma om_remove_lookup: "map_of (om_remove k xs) = (map_of xs)(k := None)"
  by (induction xs) (auto simp: om_remove_def fun_eq_iff)

lemma om_remove_ok: "om_ok xs \<Longrightarrow> om_ok (om_remove k xs)"
  by (induction xs) (auto simp: om_ok_def om_remove_def)

interpretation om: ordered_map om_insert om_remove map_of "\<lambda>xs. xs" om_ok
  by unfold_locales (simp_all add: om_insert_ok om_remove_ok om_insert_lookup om_remove_lookup, simp add: om_ok_def)

end
