(* ===== verification/Overlay.thy ===== *)
theory Overlay
  imports Cbor_Roundtrip Sha256 Text_Forms Ordered_Map
begin

section \<open>Patch overlays\<close>

text \<open>
  \<open>native/crates/protocol/src/p2_d2.rs\<close>: the capture of a patch overlay and of the bytes it carries,
  and the derivation of the result tree from a captured archive. Everything is a function of owned
  bytes; an error is the message of an \<open>OverlayError\<close>. A \<open>BTreeMap\<close> is an association list in key
  order, a \<open>BTreeSet\<close> a set.
\<close>

subsection \<open>Constants and data\<close>

definition OVERLAY_SCHEMA :: string where "OVERLAY_SCHEMA = ''keep.p2-d2-patch-overlay''"
definition OVERLAY_PACKAGE_ID :: string where "OVERLAY_PACKAGE_ID = ''curve25519-dalek@5.0.0''"
definition OVERLAY_DOMAIN :: bytes where "OVERLAY_DOMAIN = str_bytes ''keep.p2-d2-patch-overlay/v1'' @ [0]"
definition MAX_OPERATIONS :: nat where "MAX_OPERATIONS = 256"
definition MAX_NEW_FILE_BYTES :: nat where "MAX_NEW_FILE_BYTES = 16 * 1024 * 1024"
definition MAX_AGGREGATE_NEW_BYTES :: nat where "MAX_AGGREGATE_NEW_BYTES = 128 * 1024 * 1024"
definition CARRIER_SET_SCHEMA :: string where "CARRIER_SET_SCHEMA = ''keep.p2-d2-patch-byte-carrier-set''"
definition CARRIER_SET_DOMAIN :: bytes where
  "CARRIER_SET_DOMAIN = str_bytes ''keep.p2-d2-patch-byte-carrier-set/v1'' @ [0]"
definition MAX_CARRIER_SET_ENCODED_BYTES :: nat where "MAX_CARRIER_SET_ENCODED_BYTES = 130 * 1024 * 1024"
definition RESULT_TREE_SCHEMA :: string where "RESULT_TREE_SCHEMA = ''keep.p2-d2-result-tree''"
definition RESULT_TREE_DOMAIN :: bytes where "RESULT_TREE_DOMAIN = str_bytes ''keep.p2-d2-result-tree/v1'' @ [0]"
definition MAX_ARCHIVE_FILES :: nat where "MAX_ARCHIVE_FILES = 4096"
definition EMPTY_SHA256 :: string where
  "EMPTY_SHA256 = ''e3b0c44298fc1c149afbf4c8996fb92427ae41e4649b934ca495991b7852b855''"
definition ZERO_SHA256 :: string where
  "ZERO_SHA256 = ''0000000000000000000000000000000000000000000000000000000000000000''"
definition OVERLAY_ROOT_KEYS :: "string list" where
  "OVERLAY_ROOT_KEYS = [''schema'', ''version'', ''packageId'', ''baseArchiveDigest'', ''operations'', ''rationale'',
     ''resultTreeDigest'', ''auditPlanDigest'']"
definition OPERATION_KEYS :: "string list" where
  "OPERATION_KEYS = [''operation'', ''path'', ''oldByteDigest'', ''newByteDigest'', ''newByteLength'']"
definition CARRIER_ROOT_KEYS :: "string list" where
  "CARRIER_ROOT_KEYS = [''schema'', ''version'', ''packageId'', ''entries'']"
definition CARRIER_ENTRY_KEYS :: "string list" where
  "CARRIER_ENTRY_KEYS = [''path'', ''operation'', ''bytes'']"
definition CHECKSUM_FILE :: string where "CHECKSUM_FILE = ''.cargo-checksum.json''"

datatype patch_kind = Add | Delete | Replace

record patch_operation =
  po_operation :: patch_kind
  po_path :: string
  po_old_digest :: "string option"
  po_new_digest :: "string option"
  po_new_length :: "u64 option"

record patch_overlay =
  ov_base_archive_digest :: string
  ov_operations :: "patch_operation list"
  ov_rationale :: string
  ov_result_tree_digest :: string
  ov_audit_plan_digest :: string

record overlay_plan =
  pl_overlay :: patch_overlay
  pl_canonical :: bytes
  pl_digest :: string

record byte_carrier =
  bc_path :: string
  bc_operation :: patch_kind
  bc_bytes :: bytes

record carrier_set =
  cs_entries :: "byte_carrier list"
  cs_canonical :: bytes
  cs_digest :: string

record archive_row =
  ar_path :: string
  ar_bytes :: bytes

record native_archive =
  na_package_id :: string
  na_base_archive_digest :: string
  na_files :: "archive_row list"

record result_file =
  rf_path :: string
  rf_digest :: string
  rf_length :: u64

record result_tree =
  rt_files :: "result_file list"
  rt_file_bytes :: "(string \<times> bytes) list"
  rt_canonical :: bytes
  rt_digest :: string

subsection \<open>Accessors\<close>

definition overlay_entries :: "val \<Rightarrow> (string \<times> val) list pres" where
  "overlay_entries v = (case v of Map rows \<Rightarrow> Inr rows | _ \<Rightarrow> Inl ''overlay value is not a record'')"

definition overlay_keys :: "val \<Rightarrow> string list \<Rightarrow> unit pres" where
  "overlay_keys v expected =
     bnd (overlay_entries v) (\<lambda>rows.
       if length rows \<noteq> length expected \<or> list_ex (\<lambda>key. \<not> list_ex (\<lambda>row. fst row = key) rows) expected
       then Inl ''overlay fields are not exact'' else Inr ())"

definition overlay_field :: "val \<Rightarrow> string \<Rightarrow> val pres" where
  "overlay_field v name = ok_or ''required field missing'' (val_field v name)"

definition overlay_text :: "val \<Rightarrow> string \<Rightarrow> string pres" where
  "overlay_text v name = bnd (overlay_field v name) (\<lambda>f. ok_or ''required text malformed'' (as_text f))"

definition overlay_digest :: "val \<Rightarrow> string pres" where
  "overlay_digest v =
     (case v of
        Text t \<Rightarrow>
          if length t \<noteq> 64 \<or> t = ZERO_SHA256 \<or> \<not> list_all lower_hex_byte (str_bytes t)
          then Inl ''digest is not nonzero lowercase SHA-256'' else Inr t
      | _ \<Rightarrow> Inl ''digest is not text'')"

definition digest_field :: "val \<Rightarrow> string \<Rightarrow> string pres" where
  "digest_field v name = bnd (overlay_field v name) overlay_digest"

definition nullable_digest :: "val \<Rightarrow> string option pres" where
  "nullable_digest v = (if v = Null then Inr None else bnd (overlay_digest v) (\<lambda>d. Inr (Some d)))"

definition nullable_length :: "val \<Rightarrow> u64 option pres" where
  "nullable_length v =
     (case v of
        Null \<Rightarrow> Inr None
      | Unsigned n \<Rightarrow> if unat n \<le> MAX_NEW_FILE_BYTES then Inr (Some n) else Inl ''new byte length violates the file bound''
      | _ \<Rightarrow> Inl ''new byte length violates the file bound'')"

definition validate_new_bytes :: "u64 \<Rightarrow> string \<Rightarrow> unit pres" where
  "validate_new_bytes n digest =
     (if (n = 0) \<noteq> (digest = EMPTY_SHA256) then Inl ''empty-file digest equation violated'' else Inr ())"

definition admitted_path :: "string \<Rightarrow> bool" where
  "admitted_path path \<longleftrightarrow> length path \<le> max_text_bytes WIRE \<and> canonical_relative path \<and> path \<noteq> CHECKSUM_FILE"

subsection \<open>Capturing the overlay\<close>

definition operation_kind :: "string \<Rightarrow> patch_kind pres" where
  "operation_kind t =
     ok_or ''operation tag is unknown'' (map_of [(''add'', Add), (''delete'', Delete), (''replace'', Replace)] t)"

definition unwrap_or :: "'a \<Rightarrow> 'a option \<Rightarrow> 'a" where
  "unwrap_or d x = (case x of None \<Rightarrow> d | Some v \<Rightarrow> v)"

definition operation_equation :: "patch_kind \<Rightarrow> string option \<Rightarrow> string option \<Rightarrow> u64 option \<Rightarrow> unit pres" where
  "operation_equation kind old_digest new_digest new_length =
     (case kind of
        Delete \<Rightarrow>
          if old_digest = None \<or> new_digest \<noteq> None \<or> new_length \<noteq> None then Inl ''delete equation violated'' else Inr ()
      | Add \<Rightarrow>
          if old_digest \<noteq> None \<or> new_digest = None \<or> new_length = None then Inl ''add equation violated''
          else validate_new_bytes (unwrap_or 0 new_length) (unwrap_or [] new_digest)
      | Replace \<Rightarrow>
          if old_digest = None \<or> new_digest = None \<or> new_length = None then Inl ''replace equation violated''
          else if old_digest = new_digest then Inl ''replace is a no-op''
          else validate_new_bytes (unwrap_or 0 new_length) (unwrap_or [] new_digest))"

definition capture_operation :: "val \<Rightarrow> patch_operation pres" where
  "capture_operation v =
     bnd (overlay_keys v OPERATION_KEYS) (\<lambda>_.
     bnd (overlay_text v ''operation'') (\<lambda>tag.
     bnd (operation_kind tag) (\<lambda>kind.
     bnd (overlay_text v ''path'') (\<lambda>path.
     if \<not> admitted_path path then Inl ''operation path is not admitted''
     else
       bnd (overlay_field v ''oldByteDigest'') (\<lambda>f. bnd (nullable_digest f) (\<lambda>old_digest.
       bnd (overlay_field v ''newByteDigest'') (\<lambda>f. bnd (nullable_digest f) (\<lambda>new_digest.
       bnd (overlay_field v ''newByteLength'') (\<lambda>f. bnd (nullable_length f) (\<lambda>new_length.
       bnd (operation_equation kind old_digest new_digest new_length) (\<lambda>_.
         Inr \<lparr>po_operation = kind, po_path = path, po_old_digest = old_digest, po_new_digest = new_digest,
              po_new_length = new_length\<rparr>)))))))))))"

text \<open>The loops over paths: strictly increasing, distinct under ASCII case folding, and bounded in sum.\<close>

type_synonym path_state = "string option \<times> string set \<times> nat"

definition follow_path :: "string \<Rightarrow> string \<Rightarrow> string \<Rightarrow> string option \<times> string set \<Rightarrow> (string option \<times> string set) pres" where
  "follow_path order collision path = (\<lambda>(prior, folded).
     if repeats prior path then Inl order
     else if to_ascii_lowercase path \<in> folded then Inl collision
     else Inr (Some path, insert (to_ascii_lowercase path) folded))"

definition add_bytes :: "string \<Rightarrow> string \<Rightarrow> nat \<Rightarrow> nat \<Rightarrow> nat pres" where
  "add_bytes overflow bound n aggregate =
     bnd (ok_or overflow (checked_add aggregate n)) (\<lambda>a. if MAX_AGGREGATE_NEW_BYTES < a then Inl bound else Inr a)"

definition operation_step :: "patch_operation \<Rightarrow> path_state \<Rightarrow> path_state pres" where
  "operation_step op = (\<lambda>(prior, folded, aggregate).
     bnd (follow_path ''operations are not strictly path-sorted'' ''operation paths collide under ASCII case folding''
            (po_path op) (prior, folded)) (\<lambda>(prior, folded).
     bnd (add_bytes ''aggregate new bytes overflow'' ''aggregate new bytes exceed the bound''
            (unat (unwrap_or 0 (po_new_length op))) aggregate) (\<lambda>aggregate.
       Inr (prior, folded, aggregate))))"

text \<open>\<open>schema\<close>, \<open>version\<close> and \<open>packageId\<close>, evaluated from the left.\<close>

definition frozen_identity :: "string \<Rightarrow> string \<Rightarrow> val \<Rightarrow> unit pres" where
  "frozen_identity message schema v =
     bnd (overlay_text v ''schema'') (\<lambda>s.
     bnd (if s \<noteq> schema then Inr True
          else bnd (overlay_field v ''version'') (\<lambda>f.
            if as_u64 f \<noteq> Some 1 then Inr True
            else bnd (overlay_text v ''packageId'') (\<lambda>p. Inr (p \<noteq> OVERLAY_PACKAGE_ID)))) (\<lambda>bad.
       if bad then Inl message else Inr ()))"

definition overlay_array :: "string \<Rightarrow> val \<Rightarrow> string \<Rightarrow> val list pres" where
  "overlay_array message v name =
     bnd (overlay_field v name) (\<lambda>f. case f of Array rows \<Rightarrow> Inr rows | _ \<Rightarrow> Inl message)"

text \<open>The bytes are re-encoded and compared; the digest is over the domain and the bytes.\<close>

definition same_encoding :: "string \<Rightarrow> string \<Rightarrow> limits \<Rightarrow> val \<Rightarrow> bytes \<Rightarrow> bytes pres" where
  "same_encoding refused changed lim v bs =
     bnd (map_err (\<lambda>_. refused) (encode_bounded v lim)) (\<lambda>canonical.
       if canonical \<noteq> bs then Inl changed else Inr canonical)"

definition capture_patch_overlay :: "bytes \<Rightarrow> overlay_plan pres" where
  "capture_patch_overlay bs =
     bnd (map_err (\<lambda>_. ''canonical decode refused'') (decode_canonical bs WIRE)) (\<lambda>v.
     bnd (overlay_keys v OVERLAY_ROOT_KEYS) (\<lambda>_.
     bnd (frozen_identity ''schema, version, or package identity is not frozen'' OVERLAY_SCHEMA v) (\<lambda>_.
     bnd (overlay_text v ''rationale'') (\<lambda>rationale.
     if rationale = [] \<or> max_text_bytes WIRE < length rationale then Inl ''rationale violates the bound''
     else
       bnd (overlay_array ''operations are not an array'' v ''operations'') (\<lambda>rows.
       if rows = [] \<or> MAX_OPERATIONS < length rows then Inl ''operation count violates the bound''
       else
         bnd (traverse capture_operation rows) (\<lambda>operations.
         bnd (fold_res operation_step operations (None, {}, 0)) (\<lambda>_.
         bnd (same_encoding ''canonical encode refused'' ''canonical byte identity changed'' WIRE v bs) (\<lambda>canonical.
         bnd (digest_field v ''baseArchiveDigest'') (\<lambda>base.
         bnd (digest_field v ''resultTreeDigest'') (\<lambda>result.
         bnd (digest_field v ''auditPlanDigest'') (\<lambda>audit.
           Inr \<lparr>pl_overlay = \<lparr>ov_base_archive_digest = base, ov_operations = operations, ov_rationale = rationale,
                  ov_result_tree_digest = result, ov_audit_plan_digest = audit\<rparr>,
                pl_canonical = canonical, pl_digest = sha256_hex (OVERLAY_DOMAIN @ canonical)\<rparr>)))))))))))"

subsection \<open>Capturing the carried bytes\<close>

definition CARRIER_LIMITS :: limits where
  "CARRIER_LIMITS = \<lparr>max_bytes = MAX_CARRIER_SET_ENCODED_BYTES, max_depth = 16, max_items = 65536,
     max_collection_items = MAX_OPERATIONS, max_text_bytes = 4096\<rparr>"

definition carrier_kind :: "string \<Rightarrow> patch_kind pres" where
  "carrier_kind t = ok_or ''carrier operation is not add/replace'' (map_of [(''add'', Add), (''replace'', Replace)] t)"

definition carrier_step :: "val \<Rightarrow> byte_carrier list \<times> path_state \<Rightarrow> (byte_carrier list \<times> path_state) pres" where
  "carrier_step row = (\<lambda>(out, prior, folded, aggregate).
     bnd (overlay_keys row CARRIER_ENTRY_KEYS) (\<lambda>_.
     bnd (overlay_text row ''operation'') (\<lambda>tag.
     bnd (carrier_kind tag) (\<lambda>kind.
     bnd (overlay_text row ''path'') (\<lambda>path.
     if \<not> admitted_path path then Inl ''carrier path is not admitted''
     else
       bnd (follow_path ''carrier entries are not strictly path-sorted'' ''carrier paths collide under ASCII case folding''
              path (prior, folded)) (\<lambda>(prior, folded).
       bnd (overlay_field row ''bytes'') (\<lambda>f.
       bnd (case f of Bytes bs \<Rightarrow> Inr bs | _ \<Rightarrow> Inl ''carrier bytes are not a byte string'') (\<lambda>bs.
       if MAX_NEW_FILE_BYTES < length bs then Inl ''carrier bytes exceed the file bound''
       else
         bnd (add_bytes ''aggregate carrier bytes overflow'' ''aggregate carrier bytes exceed the bound''
                (length bs) aggregate) (\<lambda>aggregate.
           Inr (out @ [\<lparr>bc_path = path, bc_operation = kind, bc_bytes = bs\<rparr>], prior, folded, aggregate))))))))))"

definition capture_patch_byte_carrier_set :: "bytes \<Rightarrow> carrier_set pres" where
  "capture_patch_byte_carrier_set bs =
     bnd (map_err (\<lambda>_. ''canonical carrier decode refused'') (decode_canonical bs CARRIER_LIMITS)) (\<lambda>v.
     bnd (overlay_keys v CARRIER_ROOT_KEYS) (\<lambda>_.
     bnd (frozen_identity ''carrier schema, version, or package identity is not frozen'' CARRIER_SET_SCHEMA v) (\<lambda>_.
     bnd (overlay_array ''carrier entries are not an array'' v ''entries'') (\<lambda>rows.
     if MAX_OPERATIONS < length rows then Inl ''carrier entry count exceeds the bound''
     else
       bnd (fold_res carrier_step rows ([], None, {}, 0)) (\<lambda>(entries, _).
       bnd (same_encoding ''canonical carrier encode refused'' ''canonical carrier byte identity changed''
              CARRIER_LIMITS v bs) (\<lambda>canonical.
         Inr \<lparr>cs_entries = entries, cs_canonical = canonical,
              cs_digest = sha256_hex (CARRIER_SET_DOMAIN @ canonical)\<rparr>))))))"

subsection \<open>Joining and applying\<close>

definition join_row :: "patch_operation \<times> byte_carrier \<Rightarrow> unit pres" where
  "join_row = (\<lambda>(op, carrier).
     if po_path op \<noteq> bc_path carrier \<or> po_operation op \<noteq> bc_operation carrier
     then Inl ''carrier/overlay path or operation mismatch''
     else if po_new_length op \<noteq> Some (of_nat (length (bc_bytes carrier)))
             \<or> po_new_digest op \<noteq> Some (sha256_hex (bc_bytes carrier))
     then Inl ''carrier bytes do not reproduce the overlay equation''
     else Inr ())"

definition join_patch_application_inputs :: "overlay_plan \<Rightarrow> carrier_set \<Rightarrow> unit pres" where
  "join_patch_application_inputs plan carriers =
     (let expected = filter (\<lambda>op. po_operation op \<noteq> Delete) (ov_operations (pl_overlay plan))
      in if length expected \<noteq> length (cs_entries carriers) then Inl ''carrier/overlay cardinality mismatch''
         else for_all join_row (zip expected (cs_entries carriers)))"

type_synonym tree = "(string \<times> bytes) list"

definition archive_step :: "archive_row \<Rightarrow> tree \<times> path_state \<Rightarrow> (tree \<times> path_state) pres" where
  "archive_step row = (\<lambda>(tree, prior, folded, aggregate).
     let malformed = ''captured archive row, ordering, or case identity is malformed''
     in if \<not> admitted_path (ar_path row) \<or> MAX_NEW_FILE_BYTES < length (ar_bytes row) then Inl malformed
        else
          bnd (follow_path malformed malformed (ar_path row) (prior, folded)) (\<lambda>(prior, folded).
          bnd (add_bytes ''captured archive aggregate overflow'' ''captured archive aggregate exceeds the bound''
                 (length (ar_bytes row)) aggregate) (\<lambda>aggregate.
            Inr (om_insert (ar_path row) (ar_bytes row) tree, prior, folded, aggregate))))"

definition capture_archive_tree :: "native_archive \<Rightarrow> tree pres" where
  "capture_archive_tree archive =
     (if na_package_id archive \<noteq> OVERLAY_PACKAGE_ID
         \<or> \<not> is_ok (overlay_digest (Text (na_base_archive_digest archive)))
         \<or> MAX_ARCHIVE_FILES < length (na_files archive)
      then Inl ''captured archive identity or file count is malformed''
      else bnd (fold_res archive_step (na_files archive) ([], None, {}, 0)) (\<lambda>(tree, _). Inr tree))"

text \<open>The carriers collected by path; a later row replaces an earlier one.\<close>

definition carrier_map :: "carrier_set \<Rightarrow> string \<rightharpoonup> bytes" where
  "carrier_map carriers = map_of (rev (map (\<lambda>row. (bc_path row, bc_bytes row)) (cs_entries carriers)))"

definition apply_operation :: "(string \<rightharpoonup> bytes) \<Rightarrow> patch_operation \<Rightarrow> tree \<Rightarrow> tree pres" where
  "apply_operation carried op tree =
     (if list_ex (\<lambda>row. fst row \<noteq> po_path op \<and> eq_ignore_ascii_case (fst row) (po_path op)) tree
      then Inl ''operation case-collides with a base member''
      else
        let existing = map_of tree (po_path op); carrier = carried (po_path op)
        in if po_operation op = Add then
             if existing \<noteq> None \<or> carrier = None then Inl ''add target exists or carrier is missing''
             else Inr (om_insert (po_path op) (unwrap_or [] carrier) tree)
           else (case existing of
               None \<Rightarrow> Inl ''old-byte equation or target existence failed''
             | Some old_bytes \<Rightarrow>
                 if po_old_digest op \<noteq> Some (sha256_hex old_bytes)
                 then Inl ''old-byte equation or target existence failed''
                 else if po_operation op = Delete then
                   if carrier \<noteq> None then Inl ''delete unexpectedly has carrier bytes''
                   else Inr (om_remove (po_path op) tree)
                 else (case carrier of
                     None \<Rightarrow> Inl ''replace carrier is missing''
                   | Some new_bytes \<Rightarrow> Inr (om_insert (po_path op) new_bytes tree))))"

definition result_step ::
  "string \<times> bytes \<Rightarrow> result_file list \<times> string set \<times> nat \<Rightarrow> (result_file list \<times> string set \<times> nat) pres" where
  "result_step = (\<lambda>(path, bs) (files, folded, aggregate).
     if to_ascii_lowercase path \<in> folded then Inl ''result tree collides under ASCII case folding''
     else
       bnd (add_bytes ''result tree aggregate overflow'' ''result tree aggregate exceeds the bound''
              (length bs) aggregate) (\<lambda>aggregate.
         Inr (files @ [\<lparr>rf_path = path, rf_digest = sha256_hex bs, rf_length = of_nat (length bs)\<rparr>],
              insert (to_ascii_lowercase path) folded, aggregate)))"

definition result_value :: "result_file list \<Rightarrow> val" where
  "result_value files =
     Map [(''schema'', Text RESULT_TREE_SCHEMA), (''version'', Unsigned 1), (''packageId'', Text OVERLAY_PACKAGE_ID),
          (''files'', Array (map (\<lambda>row. Map [(''path'', Text (rf_path row)), (''byteDigest'', Text (rf_digest row)),
             (''byteLength'', Unsigned (rf_length row))]) files))]"

definition derive_result_tree_candidate :: "overlay_plan \<Rightarrow> carrier_set \<Rightarrow> native_archive \<Rightarrow> result_tree pres" where
  "derive_result_tree_candidate plan carriers archive =
     bnd (join_patch_application_inputs plan carriers) (\<lambda>_.
     if na_base_archive_digest archive \<noteq> ov_base_archive_digest (pl_overlay plan)
     then Inl ''overlay is bound to a different base archive''
     else
       bnd (capture_archive_tree archive) (\<lambda>base.
       bnd (fold_res (apply_operation (carrier_map carriers)) (ov_operations (pl_overlay plan)) base) (\<lambda>tree.
       bnd (fold_res result_step tree ([], {}, 0)) (\<lambda>(files, _).
       bnd (map_err (\<lambda>_. ''result tree canonical encode refused'') (encode_bounded (result_value files) WIRE))
         (\<lambda>canonical.
         Inr \<lparr>rt_files = files, rt_file_bytes = tree, rt_canonical = canonical,
              rt_digest = sha256_hex (RESULT_TREE_DOMAIN @ canonical)\<rparr>)))))"

definition validate_result_tree_application ::
  "overlay_plan \<Rightarrow> carrier_set \<Rightarrow> native_archive \<Rightarrow> result_tree pres" where
  "validate_result_tree_application plan carriers archive =
     bnd (derive_result_tree_candidate plan carriers archive) (\<lambda>result.
       if rt_digest result \<noteq> ov_result_tree_digest (pl_overlay plan)
       then Inl ''derived result tree does not match overlay commitment'' else Inr result)"

end
