(* ===== verification/Overlay_Props.thy ===== *)
theory Overlay_Props
  imports Overlay
begin

section \<open>What a patch application guarantees\<close>

text \<open>
  A captured overlay is well-formed; applying it to an archive yields exactly the archive's files
  with the overlay's operations carried out, each of them on the bytes it names.
\<close>

subsection \<open>Captured overlays\<close>

definition alias_free :: "string list \<Rightarrow> bool" where
  "alias_free paths \<longleftrightarrow> distinct (map to_ascii_lowercase paths)"

text \<open>The equation of an operation: what it says of the bytes before and after, and their lengths.\<close>

definition operation_wf :: "patch_operation \<Rightarrow> bool" where
  "operation_wf op \<longleftrightarrow>
     admitted_path (po_path op)
     \<and> (po_old_digest op = None \<longleftrightarrow> po_operation op = Add)
     \<and> (po_new_digest op = None \<longleftrightarrow> po_operation op = Delete)
     \<and> (po_new_length op = None \<longleftrightarrow> po_operation op = Delete)
     \<and> (po_operation op = Replace \<longrightarrow> po_old_digest op \<noteq> po_new_digest op)
     \<and> (\<forall>n. po_new_length op = Some n \<longrightarrow> unat n \<le> MAX_NEW_FILE_BYTES
          \<and> (n = 0 \<longleftrightarrow> po_new_digest op = Some EMPTY_SHA256))"

definition overlay_wf :: "patch_overlay \<Rightarrow> bool" where
  "overlay_wf ov \<longleftrightarrow>
     ov_operations ov \<noteq> [] \<and> length (ov_operations ov) \<le> MAX_OPERATIONS
     \<and> list_all operation_wf (ov_operations ov)
     \<and> sorted_wrt (<) (map po_path (ov_operations ov)) \<and> alias_free (map po_path (ov_operations ov))
     \<and> (\<Sum>op\<leftarrow>ov_operations ov. unat (unwrap_or 0 (po_new_length op))) \<le> MAX_AGGREGATE_NEW_BYTES"

lemma capture_operation_wf: "capture_operation v = Inr op \<Longrightarrow> operation_wf op"
  by (auto simp: capture_operation_def bnd_eq_Inr operation_wf_def operation_equation_def validate_new_bytes_def
      nullable_length_def unwrap_or_def split: if_splits patch_kind.splits option.splits val.splits)

text \<open>The loop over paths, run from an accumulated state.\<close>

lemma add_bytes_iff [simp]:
  "add_bytes overflow bound n aggregate = Inr a \<longleftrightarrow> a = aggregate + n \<and> aggregate + n \<le> MAX_AGGREGATE_NEW_BYTES"
  by (auto simp: add_bytes_def bnd_eq_Inr checked_add_def MAX_AGGREGATE_NEW_BYTES_def usize_max_def)

lemma follow_path_iff [simp]:
  "follow_path order collision path (prior, folded) = Inr (prior', folded') \<longleftrightarrow>
     \<not> repeats prior path \<and> to_ascii_lowercase path \<notin> folded
     \<and> prior' = Some path \<and> folded' = insert (to_ascii_lowercase path) folded"
  by (auto simp: follow_path_def)

lemma operation_steps:
  assumes "fold_res operation_step ops (prior, folded, aggregate) = Inr s"
  shows "sorted_wrt (<) (map po_path ops) \<and> (\<forall>op\<in>set ops. \<not> repeats prior (po_path op))
    \<and> alias_free (map po_path ops) \<and> to_ascii_lowercase ` po_path ` set ops \<inter> folded = {}
    \<and> (ops \<noteq> [] \<longrightarrow> aggregate + (\<Sum>op\<leftarrow>ops. unat (unwrap_or 0 (po_new_length op))) \<le> MAX_AGGREGATE_NEW_BYTES)"
  using assms
proof (induction ops arbitrary: prior folded aggregate)
  case (Cons op ops)
  let ?n = "unat (unwrap_or 0 (po_new_length op))"
  have op: "\<not> repeats prior (po_path op)" "to_ascii_lowercase (po_path op) \<notin> folded"
      "aggregate + ?n \<le> MAX_AGGREGATE_NEW_BYTES"
    and rest: "fold_res operation_step ops (Some (po_path op), insert (to_ascii_lowercase (po_path op)) folded, aggregate + ?n) = Inr s"
    using Cons.prems by (auto simp: operation_step_def [of op] bnd_eq_Inr)
  from Cons.IH [OF rest] op show ?case
    by (cases ops) (auto simp: alias_free_def repeats_def split: option.splits)
qed (simp add: alias_free_def)

lemma captured_overlay:
  assumes "capture_patch_overlay bs = Inr plan"
  shows "overlay_wf (pl_overlay plan) \<and> pl_canonical plan = bs \<and> pl_digest plan = sha256_hex (OVERLAY_DOMAIN @ bs)"
proof -
  obtain rows ops s where rows: "rows \<noteq> []" "length rows \<le> MAX_OPERATIONS" "traverse capture_operation rows = Inr ops"
    and ops: "ov_operations (pl_overlay plan) = ops" "fold_res operation_step ops (None, {}, 0) = Inr s"
    and bytes: "pl_canonical plan = bs" "pl_digest plan = sha256_hex (OVERLAY_DOMAIN @ bs)"
    using assms
    by (auto simp: capture_patch_overlay_def bnd_eq_Inr same_encoding_def not_less split: if_splits)
  have "length ops = length rows" "list_all operation_wf ops"
    using traverse_length [OF rows(3)] traverse_Inr_set [OF rows(3)] capture_operation_wf by (auto simp: list_all_iff)
  moreover from this rows(1) have "ops \<noteq> []" by auto
  ultimately show ?thesis
    using operation_steps [OF ops(2)] rows(2) ops(1) bytes by (auto simp: overlay_wf_def)
qed

subsection \<open>The result tree\<close>

text \<open>The carriers of a joined pair are those of the operations that add or replace, in order.\<close>

lemma for_all_zip:
  "length xs = length ys \<Longrightarrow> for_all f (zip xs ys) = Inr u \<longleftrightarrow> list_all2 (\<lambda>x y. is_ok (f (x, y))) xs ys"
  by (auto simp: for_all_ok list_all2_iff)

definition carries :: "patch_operation \<Rightarrow> byte_carrier \<Rightarrow> bool" where
  "carries op carrier \<longleftrightarrow>
     bc_path carrier = po_path op \<and> bc_operation carrier = po_operation op
     \<and> po_new_length op = Some (of_nat (length (bc_bytes carrier)))
     \<and> po_new_digest op = Some (sha256_hex (bc_bytes carrier))"

lemma joined_iff:
  "join_patch_application_inputs plan carriers = Inr u \<longleftrightarrow>
     list_all2 carries (filter (\<lambda>op. po_operation op \<noteq> Delete) (ov_operations (pl_overlay plan))) (cs_entries carriers)"
proof -
  have "(\<lambda>x y. is_ok (join_row (x, y))) = carries"
    by (auto simp: fun_eq_iff join_row_def carries_def)
  then show ?thesis
    by (auto simp: join_patch_application_inputs_def Let_def for_all_zip dest: list_all2_lengthD)
qed

lemma carried_paths:
  assumes "list_all2 carries ops cs"
  shows "map bc_path cs = map po_path ops"
  using assms by (induction rule: list_all2_induct) (auto simp: carries_def)

lemma carrier_of:
  assumes "list_all2 carries ops cs" "distinct (map po_path ops)" "op \<in> set ops"
  shows "\<exists>bs. map_of (map (\<lambda>c. (bc_path c, bc_bytes c)) cs) (po_path op) = Some bs
    \<and> po_new_length op = Some (of_nat (length bs)) \<and> po_new_digest op = Some (sha256_hex bs)"
  using assms by (induction rule: list_all2_induct) (auto simp: carries_def image_iff)

lemma map_of_rev_eq: "distinct (map fst kvs) \<Longrightarrow> map_of (rev kvs) = map_of kvs"
  by (intro map_of_inject_set [THEN iffD2]) (simp_all flip: rev_map)

lemma carrier_map_eq:
  assumes "distinct (map bc_path (cs_entries carriers))"
  shows "carrier_map carriers = map_of (map (\<lambda>c. (bc_path c, bc_bytes c)) (cs_entries carriers))"
  unfolding carrier_map_def using assms by (intro map_of_rev_eq) (simp add: comp_def)

text \<open>What an operation does to the files.\<close>

definition patched :: "(string \<rightharpoonup> bytes) \<Rightarrow> (string \<rightharpoonup> bytes) \<Rightarrow> patch_operation list \<Rightarrow> string \<rightharpoonup> bytes" where
  "patched base carried ops path =
     (case find (\<lambda>op. po_path op = path) ops of
        None \<Rightarrow> base path
      | Some op \<Rightarrow> if po_operation op = Delete then None else carried path)"

text \<open>What it requires of the files before, and establishes after.\<close>

definition operation_holds :: "(string \<rightharpoonup> bytes) \<Rightarrow> (string \<rightharpoonup> bytes) \<Rightarrow> patch_operation \<Rightarrow> bool" where
  "operation_holds before after op \<longleftrightarrow>
     map_option sha256_hex (before (po_path op)) = po_old_digest op
     \<and> map_option sha256_hex (after (po_path op)) = po_new_digest op
     \<and> map_option (\<lambda>bs. of_nat (length bs)) (after (po_path op)) = po_new_length op"

lemma apply_operation_step:
  assumes "apply_operation carried op tree = Inr tree'" "om_ok tree"
  shows "om_ok tree' \<and> map_of tree' = (map_of tree)(po_path op := if po_operation op = Delete then None else carried (po_path op))
    \<and> (po_operation op = Add \<longrightarrow> map_of tree (po_path op) = None)
    \<and> (po_operation op \<noteq> Add \<longrightarrow> map_option sha256_hex (map_of tree (po_path op)) = po_old_digest op \<and> po_old_digest op \<noteq> None)
    \<and> (po_operation op \<noteq> Delete \<longrightarrow> carried (po_path op) \<noteq> None)
    \<and> (\<forall>p\<in>dom (map_of tree). p \<noteq> po_path op \<longrightarrow> \<not> eq_ignore_ascii_case p (po_path op))"
proof -
  have clash: "\<forall>p\<in>dom (map_of tree). p \<noteq> po_path op \<longrightarrow> \<not> eq_ignore_ascii_case p (po_path op)"
    using assms(1) by (force simp: apply_operation_def list_ex_iff dest: map_of_SomeD split: if_splits)
  show ?thesis
    using assms clash om.put_good om.del_good
    by (cases "po_operation op")
      (auto simp: apply_operation_def Let_def unwrap_or_def om.look_put om.look_del split: if_splits option.splits)
qed

lemma patched_Cons:
  "po_path op \<notin> po_path ` set ops \<Longrightarrow>
   patched (base(po_path op := if po_operation op = Delete then None else carried (po_path op))) carried ops
     = patched base carried (op # ops)"
proof (rule ext)
  fix path
  assume "po_path op \<notin> po_path ` set ops"
  then have "find (\<lambda>x. po_path x = po_path op) ops = None"
    by (auto simp: find_None_iff image_iff)
  then show "patched (base(po_path op := if po_operation op = Delete then None else carried (po_path op))) carried ops path
      = patched base carried (op # ops) path"
    by (cases "po_path op = path") (auto simp: patched_def split: option.split)
qed

lemma apply_operations:
  assumes "fold_res (apply_operation carried) ops tree = Inr tree'" "om_ok tree" "distinct (map po_path ops)"
  shows "om_ok tree' \<and> map_of tree' = patched (map_of tree) carried ops
    \<and> (\<forall>op\<in>set ops. (po_operation op = Add \<longrightarrow> map_of tree (po_path op) = None)
         \<and> (po_operation op \<noteq> Add \<longrightarrow> map_option sha256_hex (map_of tree (po_path op)) = po_old_digest op)
         \<and> (po_operation op \<noteq> Delete \<longrightarrow> carried (po_path op) \<noteq> None))"
  using assms
proof (induction ops arbitrary: tree)
  case Nil
  then show ?case by (simp add: patched_def fun_eq_iff)
next
  case (Cons op ops)
  then obtain next' where one: "apply_operation carried op tree = Inr next'"
    and rest: "fold_res (apply_operation carried) ops next' = Inr tree'"
    by (auto simp: bnd_eq_Inr)
  note step = apply_operation_step [OF one Cons.prems(2)]
  have fresh: "po_path op \<notin> po_path ` set ops" "distinct (map po_path ops)"
    using Cons.prems(3) by auto
  have same: "map_of next' (po_path x) = map_of tree (po_path x)" if "x \<in> set ops" for x
  proof -
    have "po_path x \<noteq> po_path op"
      using that fresh(1) by (metis imageI)
    then show ?thesis using step by simp
  qed
  have files: "patched (map_of next') carried ops = patched (map_of tree) carried (op # ops)"
    using step patched_Cons [OF fresh(1)] by (metis (no_types))
  have "om_ok next'"
    using step by blast
  note later = Cons.IH [OF rest this fresh(2)]
  have after: "om_ok tree' \<and> map_of tree' = patched (map_of tree) carried (op # ops)"
    using later files by metis
  have "(po_operation x = Add \<longrightarrow> map_of tree (po_path x) = None)
      \<and> (po_operation x \<noteq> Add \<longrightarrow> map_option sha256_hex (map_of tree (po_path x)) = po_old_digest x)
      \<and> (po_operation x \<noteq> Delete \<longrightarrow> carried (po_path x) \<noteq> None)" if "x \<in> set ops" for x
    using later that same [OF that] by metis
  then show ?case
    using after step by simp
qed

text \<open>The archive's own files, and the files of the result.\<close>

definition archive_files :: "native_archive \<Rightarrow> string \<rightharpoonup> bytes" where
  "archive_files archive = map_of (map (\<lambda>row. (ar_path row, ar_bytes row)) (na_files archive))"

lemma archive_steps:
  assumes "fold_res archive_step rows (tree, prior, folded, aggregate) = Inr (tree', s)" "om_ok tree"
  shows "om_ok tree' \<and> map_of tree' = map_of tree ++ map_of (rev (map (\<lambda>row. (ar_path row, ar_bytes row)) rows))
    \<and> sorted_wrt (<) (map ar_path rows) \<and> (\<forall>row\<in>set rows. \<not> repeats prior (ar_path row) \<and> admitted_path (ar_path row))"
  using assms
proof (induction rows arbitrary: tree prior folded aggregate)
  case Nil
  then show ?case by simp
next
  case (Cons row rows)
  let ?folded = "insert (to_ascii_lowercase (ar_path row)) folded"
  have row: "admitted_path (ar_path row)" "\<not> repeats prior (ar_path row)"
    and rest: "fold_res archive_step rows (om_insert (ar_path row) (ar_bytes row) tree, Some (ar_path row), ?folded,
        aggregate + length (ar_bytes row)) = Inr (tree', s)"
    using Cons.prems(1) by (auto simp: archive_step_def [of row] bnd_eq_Inr Let_def split: if_splits)
  from Cons.IH [OF rest om.put_good [OF Cons.prems(2)]] row show ?case
    by (auto simp: om.look_put [OF Cons.prems(2)] repeats_def map_add_upd_left map_of_append fun_eq_iff map_add_def
        split: option.splits)
qed

lemma captured_tree:
  assumes "capture_archive_tree archive = Inr tree"
  shows "om_ok tree \<and> map_of tree = archive_files archive \<and> (\<forall>p\<in>dom (archive_files archive). admitted_path p)"
proof -
  obtain s where s: "fold_res archive_step (na_files archive) ([], None, {}, 0) = Inr (tree, s)"
    using assms by (auto simp: capture_archive_tree_def bnd_eq_Inr split: if_splits)
  note steps = archive_steps [OF s]
  have "distinct (map ar_path (na_files archive))"
    using steps by (simp add: om_ok_def strict_sorted_iff)
  then have "archive_files archive = map_of (rev (map (\<lambda>row. (ar_path row, ar_bytes row)) (na_files archive)))"
    unfolding archive_files_def by (intro map_of_rev_eq [symmetric]) (simp add: comp_def)
  then show ?thesis
    using steps by (auto simp: om_ok_def archive_files_def dest!: map_of_SomeD)
qed

lemma result_steps:
  assumes "fold_res result_step rows (files, folded, aggregate) = Inr (files', s)"
  shows "files' = files @ map (\<lambda>(p, bs). \<lparr>rf_path = p, rf_digest = sha256_hex bs, rf_length = of_nat (length bs)\<rparr>) rows
    \<and> alias_free (map fst rows) \<and> to_ascii_lowercase ` fst ` set rows \<inter> folded = {}
    \<and> (rows \<noteq> [] \<longrightarrow> aggregate + (\<Sum>(p, bs)\<leftarrow>rows. length bs) \<le> MAX_AGGREGATE_NEW_BYTES)"
  using assms
proof (induction rows arbitrary: files folded aggregate)
  case Nil
  then show ?case by (simp add: alias_free_def)
next
  case (Cons row rows)
  obtain p bs where pb: "row = (p, bs)" by (cases row)
  have row: "to_ascii_lowercase p \<notin> folded" "aggregate + length bs \<le> MAX_AGGREGATE_NEW_BYTES"
    and rest: "fold_res result_step rows (files @ [\<lparr>rf_path = p, rf_digest = sha256_hex bs, rf_length = of_nat (length bs)\<rparr>],
        insert (to_ascii_lowercase p) folded, aggregate + length bs) = Inr (files', s)"
    using Cons.prems by (auto simp: pb result_step_def bnd_eq_Inr split: if_splits)
  from Cons.IH [OF rest] row show ?case
    by (cases rows) (auto simp: pb alias_free_def)
qed

text \<open>C19: A captured overlay is well-formed: between 1 and 256 operations on admitted paths, strictly
  increasing and distinct under ASCII case folding; an addition names new bytes only, a deletion
  old bytes only, a replacement both and different ones; a new length is within the bound of a file,
  and zero exactly for the digest of the empty file; the sum of the new lengths is within the
  aggregate bound. The plan keeps the captured bytes, and its digest is over the domain and them.\<close>

theorem captured_overlay_well_formed:
  assumes "capture_patch_overlay bs = Inr plan"
  shows "overlay_wf (pl_overlay plan) \<and> pl_canonical plan = bs \<and> pl_digest plan = sha256_hex (OVERLAY_DOMAIN @ bs)"
  using assms by (rule captured_overlay)

lemma derived_tree:
  assumes "derive_result_tree_candidate plan carriers archive = Inr r"
  obtains base where "join_patch_application_inputs plan carriers = Inr ()" "capture_archive_tree archive = Inr base"
    and "fold_res (apply_operation (carrier_map carriers)) (ov_operations (pl_overlay plan)) base = Inr (rt_file_bytes r)"
    and "\<exists>s. fold_res result_step (rt_file_bytes r) ([], {}, 0) = Inr (rt_files r, s)"
    and "encode_bounded (result_value (rt_files r)) WIRE = Inr (rt_canonical r)"
    and "rt_digest r = sha256_hex (RESULT_TREE_DOMAIN @ rt_canonical r)"
  using assms by (fastforce simp: derive_result_tree_candidate_def bnd_eq_Inr split: if_splits)

lemma derived_effect:
  assumes "overlay_wf (pl_overlay plan)" "derive_result_tree_candidate plan carriers archive = Inr r"
  defines "ops \<equiv> ov_operations (pl_overlay plan)"
  shows "om_ok (rt_file_bytes r) \<and> map_of (rt_file_bytes r) = patched (archive_files archive) (carrier_map carriers) ops
    \<and> list_all (operation_holds (archive_files archive) (map_of (rt_file_bytes r))) ops
    \<and> (\<forall>p\<in>dom (map_of (rt_file_bytes r)). admitted_path p)"
proof -
  obtain base where joined: "join_patch_application_inputs plan carriers = Inr ()"
    and base: "capture_archive_tree archive = Inr base"
    and run: "fold_res (apply_operation (carrier_map carriers)) ops base = Inr (rt_file_bytes r)"
    using derived_tree [OF assms(2)] unfolding ops_def .
  have wf: "list_all operation_wf ops" "distinct (map po_path ops)"
    using assms(1) by (simp_all add: overlay_wf_def ops_def strict_sorted_iff)
  have tree: "om_ok base" "map_of base = archive_files archive" "\<forall>p\<in>dom (archive_files archive). admitted_path p"
    using captured_tree [OF base] by blast+
  let ?carried = "filter (\<lambda>op. po_operation op \<noteq> Delete) ops"
  have carry: "list_all2 carries ?carried (cs_entries carriers)"
    using joined unfolding joined_iff ops_def .
  have distinct: "distinct (map po_path ?carried)"
    using wf(2) by (rule distinct_map_filter)
  then have cm: "carrier_map carriers = map_of (map (\<lambda>c. (bc_path c, bc_bytes c)) (cs_entries carriers))"
    using carried_paths [OF carry] by (intro carrier_map_eq) simp
  note effect = apply_operations [OF run tree(1) wf(2), unfolded tree(2)]
  have find: "find (\<lambda>x. po_path x = po_path op) ops = Some op" if "op \<in> set ops" for op
    using wf(2) that by (induction ops) (auto simp: image_iff)
  have "operation_holds (archive_files archive) (map_of (rt_file_bytes r)) op" if op: "op \<in> set ops" for op
  proof -
    have "operation_wf op" using wf(1) op by (simp add: list_all_iff)
    moreover have "patched (archive_files archive) (carrier_map carriers) ops (po_path op)
        = (if po_operation op = Delete then None else carrier_map carriers (po_path op))"
      by (simp add: patched_def find [OF op])
    moreover have "\<exists>bs. carrier_map carriers (po_path op) = Some bs \<and> po_new_length op = Some (of_nat (length bs))
        \<and> po_new_digest op = Some (sha256_hex bs)" if "po_operation op \<noteq> Delete"
      using carrier_of [OF carry distinct, of op] op that cm by simp
    ultimately show ?thesis
      using effect op by (cases "po_operation op") (auto simp: operation_holds_def operation_wf_def)
  qed
  moreover have "admitted_path p" if "p \<in> dom (map_of (rt_file_bytes r))" for p
  proof (cases "find (\<lambda>op. po_path op = p) ops")
    case None
    then show ?thesis using that effect tree(3) by (auto simp: patched_def dom_def)
  next
    case (Some op)
    then have "op \<in> set ops" "po_path op = p"
      by (auto simp: find_Some_iff)
    then show ?thesis using wf(1) by (auto simp: list_all_iff operation_wf_def)
  qed
  ultimately show ?thesis
    using effect by (simp add: list_all_iff)
qed

text \<open>C20: The result tree of a well-formed overlay is the archive with the overlay's operations carried out,
  and nothing else: a path the overlay does not name keeps the archive's bytes, a deleted path is
  absent, an added or replaced path holds the carried bytes. Every operation's equations hold between
  the archive and the result: the digest of the bytes before is the old digest, the digest and the
  length of the bytes after are the new ones, and an added path was absent before.\<close>

theorem result_tree_is_patch:
  assumes "overlay_wf (pl_overlay plan)" "derive_result_tree_candidate plan carriers archive = Inr r"
  shows "map_of (rt_file_bytes r) = patched (archive_files archive) (carrier_map carriers) (ov_operations (pl_overlay plan))
    \<and> list_all (operation_holds (archive_files archive) (map_of (rt_file_bytes r))) (ov_operations (pl_overlay plan))"
  using derived_effect [OF assms] by blast

text \<open>The result tree is fit to be written out: its paths are admitted (relative, without dot
  components, never the checksum file), strictly sorted and distinct under ASCII case folding, and
  its bytes are within the aggregate bound; its rows list each file with the digest and the length of
  its bytes, and its digest commits to exactly those rows.\<close>

theorem result_tree_fit:
  assumes "overlay_wf (pl_overlay plan)" "derive_result_tree_candidate plan carriers archive = Inr r"
  shows "list_all admitted_path (map fst (rt_file_bytes r)) \<and> sorted_wrt (<) (map fst (rt_file_bytes r))
    \<and> alias_free (map fst (rt_file_bytes r)) \<and> (\<Sum>(p, bs)\<leftarrow>rt_file_bytes r. length bs) \<le> MAX_AGGREGATE_NEW_BYTES
    \<and> rt_files r = map (\<lambda>(p, bs). \<lparr>rf_path = p, rf_digest = sha256_hex bs, rf_length = of_nat (length bs)\<rparr>) (rt_file_bytes r)
    \<and> encode_bounded (result_value (rt_files r)) WIRE = Inr (rt_canonical r)
    \<and> rt_digest r = sha256_hex (RESULT_TREE_DOMAIN @ rt_canonical r)"
proof -
  obtain s where s: "fold_res result_step (rt_file_bytes r) ([], {}, 0) = Inr (rt_files r, s)"
    and commit: "encode_bounded (result_value (rt_files r)) WIRE = Inr (rt_canonical r)"
      "rt_digest r = sha256_hex (RESULT_TREE_DOMAIN @ rt_canonical r)"
    using derived_tree [OF assms(2)] by metis
  have "(\<Sum>(p, bs)\<leftarrow>rt_file_bytes r. length bs) \<le> MAX_AGGREGATE_NEW_BYTES"
    using result_steps [OF s] by (cases "rt_file_bytes r = []") auto
  moreover have "list_all admitted_path (map fst (rt_file_bytes r))"
    using derived_effect [OF assms] by (auto simp: list_all_iff dom_map_of_conv_image_fst)
  ultimately show ?thesis
    using derived_effect [OF assms] result_steps [OF s] commit by (simp add: om_ok_def)
qed

subsection \<open>A concrete patch\<close>

definition demo_deletion :: patch_overlay where
  "demo_deletion = \<lparr>ov_base_archive_digest = replicate 64 CHR ''1'',
     ov_operations = [\<lparr>po_operation = Delete, po_path = ''src/a.rs'', po_old_digest = Some (sha256_hex [7]),
       po_new_digest = None, po_new_length = None\<rparr>],
     ov_rationale = ''unused'', ov_result_tree_digest = replicate 64 CHR ''2'', ov_audit_plan_digest = replicate 64 CHR ''3''\<rparr>"

definition demo_deletion_plan :: overlay_plan where
  "demo_deletion_plan = \<lparr>pl_overlay = demo_deletion, pl_canonical = [], pl_digest = []\<rparr>"

definition demo_no_carriers :: carrier_set where
  "demo_no_carriers = \<lparr>cs_entries = [], cs_canonical = [], cs_digest = []\<rparr>"

definition demo_base :: native_archive where
  "demo_base = \<lparr>na_package_id = OVERLAY_PACKAGE_ID, na_base_archive_digest = replicate 64 CHR ''1'',
     na_files = [\<lparr>ar_path = ''src/a.rs'', ar_bytes = [7]\<rparr>]\<rparr>"

lemma demo_overlay_admitted: "admitted_path ''src/a.rs''"
  by (simp add: admitted_path_def WIRE_def canonical_relative_def CHECKSUM_FILE_def starts_with_def
      path_byte_def is_ascii_alphanumeric_def is_ascii_digit_def byte_of_char_Char)

lemma demo_deletion_wf: "overlay_wf (pl_overlay demo_deletion_plan)"
  by (simp add: demo_deletion_plan_def demo_deletion_def overlay_wf_def operation_wf_def demo_overlay_admitted MAX_OPERATIONS_def
      alias_free_def unwrap_or_def)

lemma demo_not_zero:
    "replicate 64 CHR ''1'' \<noteq> ZERO_SHA256" "replicate 64 CHR ''2'' \<noteq> ZERO_SHA256"
    "replicate 64 CHR ''3'' \<noteq> ZERO_SHA256" "replicate 64 CHR ''4'' \<noteq> ZERO_SHA256"
  by (simp_all add: ZERO_SHA256_def numeral_eq_Suc)

lemma demo_base_tree: "capture_archive_tree demo_base = Inr [(''src/a.rs'', [7])]"
  by (simp add: capture_archive_tree_def demo_base_def overlay_digest_def archive_step_def demo_overlay_admitted Let_def
      follow_path_def add_bytes_def checked_add_def MAX_AGGREGATE_NEW_BYTES_def MAX_NEW_FILE_BYTES_def usize_max_def
      MAX_ARCHIVE_FILES_def repeats_def lower_hex_byte_def is_ascii_digit_def str_bytes_def byte_of_char_Char demo_not_zero
      list_all_iff)

lemma demo_derived:
  obtains r where "derive_result_tree_candidate demo_deletion_plan demo_no_carriers demo_base = Inr r" "rt_file_bytes r = []"
proof -
  have run: "fold_res (apply_operation (carrier_map demo_no_carriers)) (ov_operations demo_deletion) [(''src/a.rs'', [7])] = Inr []"
    by (simp add: demo_deletion_def apply_operation_def carrier_map_def demo_no_carriers_def om_remove_def)
  have encoded: "encode_bounded (result_value []) WIRE = Inr (enc (result_value []))"
    unfolding encode_bounded_iff [OF usize_limits_profiles(1)]
    by (simp add: result_value_def RESULT_TREE_SCHEMA_def OVERLAY_PACKAGE_ID_def codec_eval)
  have "derive_result_tree_candidate demo_deletion_plan demo_no_carriers demo_base =
      Inr \<lparr>rt_files = [], rt_file_bytes = [], rt_canonical = enc (result_value []),
           rt_digest = sha256_hex (RESULT_TREE_DOMAIN @ enc (result_value []))\<rparr>"
    using run encoded demo_base_tree
    by (simp add: derive_result_tree_candidate_def join_patch_application_inputs_def demo_deletion_plan_def
        demo_no_carriers_def demo_deletion_def demo_base_def)
  then show thesis by (rule that) simp
qed

theorem result_tree_is_patch_witness:
  "\<exists>r. derive_result_tree_candidate demo_deletion_plan demo_no_carriers demo_base = Inr r
     \<and> map_of (rt_file_bytes r) = patched (archive_files demo_base) (carrier_map demo_no_carriers) (ov_operations demo_deletion)"
proof -
  obtain r where r: "derive_result_tree_candidate demo_deletion_plan demo_no_carriers demo_base = Inr r"
    using demo_derived .
  from result_tree_is_patch [OF demo_deletion_wf r] r show ?thesis
    by (auto simp: demo_deletion_plan_def)
qed

theorem result_tree_fit_witness:
  "\<exists>r. derive_result_tree_candidate demo_deletion_plan demo_no_carriers demo_base = Inr r
     \<and> rt_digest r = sha256_hex (RESULT_TREE_DOMAIN @ rt_canonical r)"
proof -
  obtain r where r: "derive_result_tree_candidate demo_deletion_plan demo_no_carriers demo_base = Inr r"
    using demo_derived .
  from result_tree_fit [OF demo_deletion_wf r] r show ?thesis by blast
qed

definition demo_overlay_value :: val where
  "demo_overlay_value =
     Map [(''schema'', Text ''keep.p2-d2-patch-overlay''), (''version'', Unsigned 1), (''packageId'', Text ''curve25519-dalek@5.0.0''),
          (''rationale'', Text ''unused''),
          (''operations'', Array [Map [(''path'', Text ''src/a.rs''), (''operation'', Text ''delete''),
             (''newByteDigest'', Null), (''newByteLength'', Null), (''oldByteDigest'', Text (replicate 64 CHR ''4''))]]),
          (''auditPlanDigest'', Text (replicate 64 CHR ''3'')), (''resultTreeDigest'', Text (replicate 64 CHR ''2'')),
          (''baseArchiveDigest'', Text (replicate 64 CHR ''1''))]"

lemma demo_digests: "str_bytes (replicate 64 c) = replicate 64 (byte_of_char c)"
  by (simp add: str_bytes_def)

lemma demo_overlay_decodes: "decode_canonical (enc demo_overlay_value) WIRE = Inr demo_overlay_value"
  unfolding decode_canonical_iff [OF usize_limits_profiles(1)] encode_bounded_iff [OF usize_limits_profiles(1)]
  by (simp add: demo_overlay_value_def codec_eval demo_digests list_all_iff)

lemma demo_digest_texts: "c \<in> {CHR ''1'', CHR ''2'', CHR ''3'', CHR ''4''} \<Longrightarrow> overlay_digest (Text (replicate 64 c)) = Inr (replicate 64 c)"
  using demo_not_zero
  by (auto simp: overlay_digest_def demo_digests list_all_iff lower_hex_byte_def is_ascii_digit_def byte_of_char_Char)

lemma demo_overlay_captured: "is_ok (capture_patch_overlay (enc demo_overlay_value))"
proof -
  let ?op = "\<lparr>po_operation = Delete, po_path = ''src/a.rs'', po_old_digest = Some (replicate 64 CHR ''4''),
      po_new_digest = None, po_new_length = None\<rparr>"
  have op: "capture_operation (Map [(''path'', Text ''src/a.rs''), (''operation'', Text ''delete''), (''newByteDigest'', Null),
      (''newByteLength'', Null), (''oldByteDigest'', Text (replicate 64 CHR ''4''))]) = Inr ?op"
    by (simp add: capture_operation_def overlay_keys_def overlay_entries_def OPERATION_KEYS_def overlay_text_def
        overlay_field_def operation_kind_def demo_overlay_admitted nullable_digest_def demo_digest_texts nullable_length_def
        operation_equation_def)
  have same: "same_encoding m k WIRE demo_overlay_value (enc demo_overlay_value) = Inr (enc demo_overlay_value)" for m k
    using demo_overlay_decodes unfolding decode_canonical_iff [OF usize_limits_profiles(1)]
    by (simp add: same_encoding_def)
  have step: "operation_step ?op (None, {}, 0) = Inr (Some ''src/a.rs'', {to_ascii_lowercase ''src/a.rs''}, 0)"
    by (simp add: operation_step_def repeats_def follow_path_def add_bytes_def checked_add_def unwrap_or_def)
  show ?thesis
    unfolding capture_patch_overlay_def demo_overlay_decodes same map_err_simps bnd_simps
    using op step
    by (simp add: demo_overlay_value_def overlay_keys_def overlay_entries_def OVERLAY_ROOT_KEYS_def frozen_identity_def
        overlay_text_def overlay_field_def OVERLAY_SCHEMA_def OVERLAY_PACKAGE_ID_def overlay_array_def MAX_OPERATIONS_def
        digest_field_def demo_digest_texts WIRE_def)
qed

theorem captured_overlay_well_formed_witness:
  "\<exists>plan. capture_patch_overlay (enc demo_overlay_value) = Inr plan \<and> overlay_wf (pl_overlay plan)
     \<and> pl_canonical plan = enc demo_overlay_value"
proof -
  obtain plan where plan: "capture_patch_overlay (enc demo_overlay_value) = Inr plan"
    using demo_overlay_captured by (auto simp: is_ok_iff)
  from captured_overlay_well_formed [OF plan] plan show ?thesis by blast
qed

end
