(* ===== verification/Rust_Text.thy ===== *)
theory Rust_Text
  imports Rust_Bytes
begin

section \<open>Text functions of the standard library\<close>

text \<open>
  Lines, white space and numbers as \<open>str\<close> and the integer types read them. A text is the list of its UTF-8
  bytes, so the white space outside ASCII is a list of encodings.
\<close>

subsection \<open>Lines\<close>

text \<open>\<open>str::lines\<close>: a line ends with a newline, and with a carriage return before it.\<close>

definition strip_cr :: "string \<Rightarrow> string" where
  "strip_cr l = (if l \<noteq> [] \<and> last l = CHR 0x0D then butlast l else l)"

definition str_lines :: "string \<Rightarrow> string list" where
  "str_lines s =
     (let parts = split_on CHR 0x0A s
      in map strip_cr (butlast parts) @ (if last parts = [] then [] else [last parts]))"

lemma split_on_at: "split_on c (xs @ c # ys) = split_on c xs @ split_on c ys"
  by (induction xs) (auto split: list.splits)

lemma split_on_plain: "c \<notin> set xs \<Longrightarrow> split_on c xs = [xs]"
  by (induction xs) auto

lemma str_lines_Nil [simp]: "str_lines [] = []"
  by (simp add: str_lines_def)

text \<open>A text that starts with a whole line.\<close>

lemma str_lines_line:
  assumes "CHR 0x0A \<notin> set l"
  shows "str_lines (l @ CHR 0x0A # rest) = strip_cr l # str_lines rest"
  using assms by (simp add: str_lines_def split_on_at split_on_plain Let_def)

subsection \<open>White space\<close>

text \<open>The encodings of the characters with the Unicode property \<open>White_Space\<close>.\<close>

definition WHITE_SPACE :: "string list" where
  "WHITE_SPACE =
     map (\<lambda>n. [char_of (n :: nat)]) [0x09, 0x0A, 0x0B, 0x0C, 0x0D, 0x20]
     @ map (map (char_of :: nat \<Rightarrow> char)) ([[0xC2, 0x85], [0xC2, 0xA0], [0xE1, 0x9A, 0x80]]
         @ map (\<lambda>n. [0xE2, 0x80, n]) [0x80..<0x8B]
         @ [[0xE2, 0x80, 0xA8], [0xE2, 0x80, 0xA9], [0xE2, 0x80, 0xAF], [0xE2, 0x81, 0x9F], [0xE3, 0x80, 0x80]])"

text \<open>Strip members of \<open>ws\<close>, no one empty, from the front.\<close>

function strip_front :: "string list \<Rightarrow> string \<Rightarrow> string" where
  "strip_front ws s =
     (case find (\<lambda>w. w \<noteq> [] \<and> starts_with s w) ws of
        None \<Rightarrow> s
      | Some w \<Rightarrow> strip_front ws (drop (length w) s))"
  by pat_completeness auto
termination
proof (relation "measure (\<lambda>(ws, s). length s)")
  fix ws w and s :: string
  assume "find (\<lambda>w. w \<noteq> [] \<and> starts_with s w) ws = Some w"
  then have "w \<noteq> []" "starts_with s w" by (auto simp: find_Some_iff)
  then show "((ws, drop (length w) s), (ws, s)) \<in> measure (\<lambda>(ws, s). length s)"
    by (cases w; cases s) (auto simp: starts_with_def)
qed simp

declare strip_front.simps [simp del]

definition trim_start :: "string \<Rightarrow> string" where "trim_start = strip_front WHITE_SPACE"
definition trim_end :: "string \<Rightarrow> string" where "trim_end s = rev (strip_front (map rev WHITE_SPACE) (rev s))"
definition str_trim :: "string \<Rightarrow> string" where "str_trim s = trim_end (trim_start s)"

text \<open>\<open>split_ascii_whitespace\<close>: the non-empty parts between spaces, tabs, line feeds, form feeds and carriage
  returns.\<close>

definition ascii_whitespace :: "char \<Rightarrow> bool" where
  "ascii_whitespace c \<longleftrightarrow> c \<in> {CHR 0x20, CHR 0x09, CHR 0x0A, CHR 0x0C, CHR 0x0D}"

fun split_where :: "('a \<Rightarrow> bool) \<Rightarrow> 'a list \<Rightarrow> 'a list list" where
  "split_where p [] = [[]]"
| "split_where p (x # xs) =
     (if p x then [] # split_where p xs
      else (case split_where p xs of [] \<Rightarrow> [[x]] | y # ys \<Rightarrow> (x # y) # ys))"

definition split_ascii_whitespace :: "string \<Rightarrow> string list" where
  "split_ascii_whitespace s = filter (\<lambda>w. w \<noteq> []) (split_where ascii_whitespace s)"

lemma split_where_not_Nil [simp]: "split_where p xs \<noteq> []"
  by (induction xs) (auto split: list.splits)

lemma split_where_append: "p c \<Longrightarrow> split_where p (xs @ c # ys) = split_where p xs @ split_where p ys"
  by (induction xs) (auto split: list.splits)

lemma split_where_plain: "list_all (\<lambda>c. \<not> p c) xs \<Longrightarrow> split_where p xs = [xs]"
  by (induction xs) auto

lemma split_ascii_whitespace_word:
  assumes "list_all (\<lambda>c. \<not> ascii_whitespace c) w" "w \<noteq> []" "ascii_whitespace c"
  shows "split_ascii_whitespace (w @ c # rest) = w # split_ascii_whitespace rest"
  using assms by (simp add: split_ascii_whitespace_def split_where_append split_where_plain)

lemma split_ascii_whitespace_last:
  assumes "list_all (\<lambda>c. \<not> ascii_whitespace c) w" "w \<noteq> []"
  shows "split_ascii_whitespace w = [w]"
  using assms by (simp add: split_ascii_whitespace_def split_where_plain)

text \<open>\<open>split_whitespace\<close>: the words between runs of white space. No encoding starts inside another character.\<close>

fun take_word :: "string \<Rightarrow> string \<times> string" where
  "take_word [] = ([], [])"
| "take_word (c # cs) =
     (if list_ex (starts_with (c # cs)) WHITE_SPACE then ([], c # cs)
      else let (w, rest) = take_word cs in (c # w, rest))"

lemma take_word_length: "length (snd (take_word s)) \<le> length s"
  by (induction s) (auto split: prod.splits)

lemma strip_front_length: "length (strip_front ws s) \<le> length s"
proof (induction ws s rule: strip_front.induct)
  case (1 ws s)
  show ?case
  proof (cases "find (\<lambda>w. w \<noteq> [] \<and> starts_with s w) ws")
    case (Some w)
    then show ?thesis using "1.IH" [OF Some] by (simp add: strip_front.simps [of ws s])
  qed (simp add: strip_front.simps)
qed

lemma word_consumes: "take_word (trim_start s) = (c # cs, rest) \<Longrightarrow> length rest < length s"
proof -
  assume word: "take_word (trim_start s) = (c # cs, rest)"
  then obtain d ds where s: "trim_start s = d # ds" by (cases "trim_start s") auto
  then have "rest = snd (take_word ds)" using word by (auto split: if_splits prod.splits)
  then have "length rest \<le> length ds" using take_word_length by simp
  moreover have "length (trim_start s) \<le> length s" by (simp add: trim_start_def strip_front_length)
  ultimately show ?thesis using s by simp
qed

function split_whitespace :: "string \<Rightarrow> string list" where
  "split_whitespace s =
     (case take_word (trim_start s) of
        ([], _) \<Rightarrow> []
      | (c # cs, rest) \<Rightarrow> (c # cs) # split_whitespace rest)"
  by pat_completeness auto
termination by (relation "measure length") (auto dest: word_consumes [OF sym])

declare split_whitespace.simps [simp del]

subsection \<open>Numbers\<close>

definition all_digits :: "string \<Rightarrow> bool" where
  "all_digits s \<longleftrightarrow> list_all is_ascii_digit (str_bytes s)"

text \<open>\<open>from_str_radix\<close> admits one leading plus sign, but not alone.\<close>

definition strip_plus :: "string \<Rightarrow> string" where
  "strip_plus s = (case s of c # d # ds \<Rightarrow> if c = CHR ''+'' then d # ds else s | _ \<Rightarrow> s)"

definition parse_decimal :: "nat \<Rightarrow> string \<Rightarrow> nat option" where
  "parse_decimal maximum s =
     (let d = strip_plus s in
      if d = [] \<or> \<not> all_digits d \<or> maximum < dec_value d then None else Some (dec_value d))"

definition hex_char_value :: "char \<Rightarrow> nat option" where
  "hex_char_value c =
     (let n = of_char c :: nat in
      if 48 \<le> n \<and> n \<le> 57 then Some (n - 48)
      else if 65 \<le> n \<and> n \<le> 70 then Some (n - 55)
      else if 97 \<le> n \<and> n \<le> 102 then Some (n - 87) else None)"

definition hex_text_value :: "string \<Rightarrow> nat" where
  "hex_text_value s = fold (\<lambda>c n. 16 * n + (case hex_char_value c of None \<Rightarrow> 0 | Some v \<Rightarrow> v)) s 0"

definition parse_hex :: "nat \<Rightarrow> string \<Rightarrow> nat option" where
  "parse_hex maximum s =
     (let d = strip_plus s in
      if d = [] \<or> \<not> list_all (\<lambda>c. hex_char_value c \<noteq> None) d \<or> maximum < hex_text_value d then None
      else Some (hex_text_value d))"

text \<open>\<open>format!("{:x}")\<close>.\<close>

fun hex_nat :: "nat \<Rightarrow> string" where
  "hex_nat n = (if n < 16 then [hex_digit n] else hex_nat (n div 16) @ [hex_digit (n mod 16)])"

declare hex_nat.simps [simp del]

lemma hex_nat_not_Nil [simp]: "hex_nat n \<noteq> []"
  by (subst hex_nat.simps) simp

lemma hex_digit_value: "n < 16 \<Longrightarrow> hex_char_value (hex_digit n) = Some n"
  by (auto simp: hex_char_value_def hex_digit_def of_char_of Let_def)

lemma hex_nat_value: "hex_text_value (hex_nat n) = n"
proof (induction n rule: hex_nat.induct)
  case (1 n)
  then show ?case
    by (cases "n < 16") (auto simp: hex_nat.simps [of n] hex_text_value_def hex_digit_value)
qed

text \<open>The characters of a number printed in hexadecimal: lowercase digits, and no leading zero.\<close>

lemma hex_nat_chars: "list_all (\<lambda>c. c \<in> set (map hex_digit [0..<16])) (hex_nat n)"
proof (induction n rule: hex_nat.induct)
  case (1 n)
  have digit: "hex_digit k \<in> set (map hex_digit [0..<16])" if "k < 16" for k using that by simp
  show ?case
    by (cases "n < 16") (use 1 digit [of n] digit [of "n mod 16"] in \<open>simp_all add: hex_nat.simps [of n]\<close>)
qed

lemma hex_digits: "set (map hex_digit [0..<16]) = set ''0123456789abcdef''"
  by code_simp

lemma parse_hex_hex_nat [simp]: "n \<le> maximum \<Longrightarrow> parse_hex maximum (hex_nat n) = Some n"
proof -
  assume n: "n \<le> maximum"
  have hex: "hex_char_value c \<noteq> None \<and> c \<noteq> CHR ''+''" if "c \<in> set ''0123456789abcdef''" for c
    using that by (auto simp: hex_char_value_def)
  then have all: "list_all (\<lambda>c. hex_char_value c \<noteq> None \<and> c \<noteq> CHR ''+'') (hex_nat n)"
    using hex_nat_chars [of n] unfolding hex_digits by (auto simp: list_all_iff)
  then have "strip_plus (hex_nat n) = hex_nat n"
    by (auto simp: strip_plus_def split: list.splits)
  then show ?thesis using all n by (simp add: parse_hex_def hex_nat_value list_all_iff Let_def)
qed

lemma parse_decimal_dec_string [simp]: "n \<le> maximum \<Longrightarrow> parse_decimal maximum (dec_string n) = Some n"
proof -
  assume n: "n \<le> maximum"
  have digits: "all_digits (dec_string n)"
    by (auto simp: all_digits_def list_all_iff str_bytes_def dest: dec_string_digits)
  have "strip_plus (dec_string n) = dec_string n"
    using dec_string_digits [of "CHR ''+''" n]
    by (auto simp: strip_plus_def is_ascii_digit_def byte_of_char_def split: list.splits)
  then show ?thesis using digits n by (simp add: parse_decimal_def Let_def)
qed

end
