(* ===== verification/Prober_Launcher.thy ===== *)
theory Prober_Launcher
  imports Sha256 Rust_Text
begin

section \<open>The prober launcher\<close>

text \<open>
  \<open>native/crates/prober-launcher/src/lib.rs\<close>: the secrets of a fixture, the parser of the guest's
  authenticated result, the launch deadline, the cgroup observation, the fixed arguments and the
  lifecycle. The randomness of the kernel and the clock are arguments. The processes themselves are in
  \<open>Candidate_Process\<close>.
\<close>

subsection \<open>Constants and refusals\<close>

definition GUEST_VCPU_COUNT :: nat where "GUEST_VCPU_COUNT = 1"
definition GUEST_MEMORY_BYTES :: nat where "GUEST_MEMORY_BYTES = 256 * 1024 * 1024"
definition HOST_MEMORY_BYTES :: nat where "HOST_MEMORY_BYTES = GUEST_MEMORY_BYTES + 256 * 1024 * 1024"
definition MAXIMUM_PIDS :: nat where "MAXIMUM_PIDS = 128"
definition MAXIMUM_OUTPUT_BYTES :: nat where "MAXIMUM_OUTPUT_BYTES = 1024 * 1024"
definition MAXIMUM_LAUNCH_MILLISECONDS :: nat where "MAXIMUM_LAUNCH_MILLISECONDS = 120000"
definition MAXIMUM_FILE_BYTES :: nat where "MAXIMUM_FILE_BYTES = 16 * 1024 * 1024"
definition MAXIMUM_OPEN_FILES :: nat where "MAXIMUM_OPEN_FILES = 1024"
definition CGROUP_CPU_MAX :: string where "CGROUP_CPU_MAX = ''100000 100000''"
definition CGROUP_IO_WEIGHT :: string where "CGROUP_IO_WEIGHT = ''default 100''"
definition CGROUP_IO_WEIGHT_WRITE :: string where "CGROUP_IO_WEIGHT_WRITE = ''100''"

datatype candidate_refusal =
    InvalidAttemptId | DeadlineOutOfRange | DeadlineExpired | CgroupValueMalformed | CgroupLimitMismatch
  | CgroupStillPopulated | CgroupHasDescendants | OutputLimitExceeded | DirectProcessFailed
  | GuestResultMalformed | GuestResultHeaderInvalid | GuestResultTruncated | GuestResultDigestMismatch
  | GuestResultAmbiguous | GuestResultNonceInvalid | GuestResultEnvelopeTooLarge | GuestResultHeaderAbsent
  | GuestResultHeaderDuplicate | GuestResultPreambleTooLarge | GuestResultDecimalInvalid
  | GuestResultUtf8Invalid | GuestResultAuthenticationFailed

type_synonym 'a cres = "(candidate_refusal, 'a) res"

subsection \<open>Forms\<close>

definition lowercase_hex :: "string \<Rightarrow> nat \<Rightarrow> bool" where
  "lowercase_hex s n \<longleftrightarrow> length s = n \<and> list_all lower_hex_byte (str_bytes s)"

text \<open>\<open>str::parse::<u64>\<close> on a non-empty string of digits.\<close>

definition parse_u64 :: "string \<Rightarrow> nat option" where
  "parse_u64 s = (if dec_value s \<le> usize_max then Some (dec_value s) else None)"

definition exact_decimal :: "string \<Rightarrow> nat \<Rightarrow> nat cres" where
  "exact_decimal s maximum =
     (if s = [] \<or> (1 < length s \<and> starts_with s ''0'') \<or> 10 < length s \<or> \<not> all_digits s
      then Inl GuestResultDecimalInvalid
      else (case parse_u64 s of
          None \<Rightarrow> Inl GuestResultDecimalInvalid
        | Some n \<Rightarrow> if n \<le> maximum then Inr n else Inl GuestResultDecimalInvalid))"

definition decode_nibble :: "u8 \<Rightarrow> u8" where
  "decode_nibble b =
     (if 0x30 \<le> b \<and> b \<le> 0x39 then b - 0x30 else if 0x61 \<le> b \<and> b \<le> 0x66 then b - 0x61 + 10 else 0)"

definition decode_hex_32 :: "string \<Rightarrow> bytes cres" where
  "decode_hex_32 s =
     (if \<not> lowercase_hex s 64 then Inl GuestResultHeaderInvalid
      else Inr (map (\<lambda>pair. push_bit 4 (decode_nibble (pair ! 0)) OR decode_nibble (pair ! 1)) (chunks_exact 2 (str_bytes s))))"

text \<open>The first bytes of a pad are combined with the key.\<close>

definition xor_key :: "bytes \<Rightarrow> bytes \<Rightarrow> bytes" where
  "xor_key key pad = map2 (XOR) pad key @ drop (length key) pad"

definition hmac_sha256 :: "bytes \<Rightarrow> bytes list \<Rightarrow> bytes" where
  "hmac_sha256 key messages =
     sha256 (xor_key key (replicate 64 0x5c) @ sha256 (xor_key key (replicate 64 0x36) @ concat messages))"

definition constant_time_equal :: "bytes \<Rightarrow> bytes \<Rightarrow> bool" where
  "constant_time_equal l r \<longleftrightarrow> fold (\<lambda>(a, b) difference. difference OR (a XOR b)) (zip l r) 0 = (0 :: u8)"

subsection \<open>Attempt identity and secrets\<close>

definition from_nonce_hex :: "string \<Rightarrow> string cres" where
  "from_nonce_hex nonce = (if lowercase_hex nonce 32 then Inr (''keep-'' @ nonce) else Inl InvalidAttemptId)"

record fixture_secrets =
  fs_attempt_id :: string
  fs_result_nonce :: string
  fs_key :: bytes
  fs_ipad :: bytes
  fs_opad :: bytes

definition mint_candidate_fixture_secrets :: "(string, bytes) res \<Rightarrow> (string, fixture_secrets) res" where
  "mint_candidate_fixture_secrets random =
     bnd random (\<lambda>random.
     bnd (map_err (\<lambda>_. ''kernel random attempt identity was malformed'') (from_nonce_hex (hex_string (take 16 random))))
       (\<lambda>attempt.
       let key = drop 32 random
       in Inr \<lparr>fs_attempt_id = attempt, fs_result_nonce = hex_string (take 16 (drop 16 random)), fs_key = key,
               fs_ipad = xor_key key (replicate 64 0x36), fs_opad = xor_key key (replicate 64 0x5c)\<rparr>))"

subsection \<open>The guest result\<close>

record guest_result =
  gr_attempt_nonce :: string
  gr_exit_code :: u8
  gr_stdout :: string
  gr_stderr :: string
  gr_stdout_sha256 :: string
  gr_stderr_sha256 :: string

definition HEADER :: bytes where "HEADER = str_bytes ''KEEP_RESULT_V1 ''"
definition END_MARK :: bytes where "END_MARK = str_bytes ''KEEP_RESULT_END_V1''"
definition MAXIMUM_PREAMBLE :: nat where "MAXIMUM_PREAMBLE = 256 * 1024"
definition MAXIMUM_POSTAMBLE :: nat where "MAXIMUM_POSTAMBLE = 64 * 1024"
definition MAXIMUM_ENVELOPE :: nat where "MAXIMUM_ENVELOPE = 2 * 1024 * 1024 + 4096"

definition slice_windows :: "nat \<Rightarrow> 'a list \<Rightarrow> 'a list list" where
  "slice_windows n xs = map (\<lambda>i. take n (drop i xs)) [0..<length xs + 1 - n]"

definition slice :: "'a list \<Rightarrow> nat \<Rightarrow> nat \<Rightarrow> 'a list" where
  "slice xs a b = take (b - a) (drop a xs)"

definition match_starts :: "bytes \<Rightarrow> bytes \<Rightarrow> nat list" where
  "match_starts serial needle =
     map fst (filter (\<lambda>(i, w). w = needle) (enumerate 0 (slice_windows (length needle) serial)))"

fun position :: "('a \<Rightarrow> bool) \<Rightarrow> 'a list \<Rightarrow> nat option" where
  "position p [] = None"
| "position p (x # xs) = (if p x then Some 0 else map_option Suc (position p xs))"

definition find_header_line :: "bytes \<Rightarrow> nat \<Rightarrow> nat cres" where
  "find_header_line serial start =
     (case position (\<lambda>b. b = 0x0a) (drop start serial) of
        None \<Rightarrow> Inl GuestResultHeaderInvalid
      | Some offset \<Rightarrow> if offset \<le> 512 then Inr (start + offset) else Inl GuestResultHeaderInvalid)"

definition from_utf8 :: "bytes \<Rightarrow> string cres" where
  "from_utf8 bs = (if valid_utf8 bs then Inr (bytes_str bs) else Inl GuestResultUtf8Invalid)"

definition end_line :: "string \<Rightarrow> bytes" where
  "end_line nonce = str_bytes ([CHR 0x0A] @ bytes_str END_MARK @ '' '' @ nonce @ [CHR 0x0A])"

definition unsigned_header :: "string \<Rightarrow> nat \<Rightarrow> nat \<Rightarrow> nat \<Rightarrow> string \<Rightarrow> string \<Rightarrow> bytes" where
  "unsigned_header nonce code n m d e =
     str_bytes (''KEEP_RESULT_V1 '' @ nonce @ '' '' @ dec_string code @ '' '' @ dec_string n @ '' '' @ dec_string m
       @ '' '' @ d @ '' '' @ e @ [CHR 0x0A])"

definition AUTH_DOMAIN :: bytes where "AUTH_DOMAIN = str_bytes ''keep.microvm-result-auth/v1'' @ [0]"

definition ambiguous :: "bytes \<Rightarrow> bool" where
  "ambiguous postamble \<longleftrightarrow>
     MAXIMUM_POSTAMBLE < length postamble \<or> HEADER \<in> set (slice_windows (length HEADER) postamble)
     \<or> END_MARK \<in> set (slice_windows (length END_MARK) postamble)"

definition find_start :: "bytes \<Rightarrow> string \<Rightarrow> nat cres" where
  "find_start serial nonce =
     (let starts = match_starts serial (HEADER @ str_bytes nonce @ [0x20])
      in if starts = [] then Inl GuestResultHeaderAbsent
         else if length starts \<noteq> 1 then Inl GuestResultHeaderDuplicate
         else if MAXIMUM_PREAMBLE < starts ! 0 then Inl GuestResultPreambleTooLarge
         else Inr (starts ! 0))"

definition check_payload ::
  "bytes \<Rightarrow> string \<Rightarrow> bytes \<Rightarrow> nat \<Rightarrow> nat \<Rightarrow> nat \<Rightarrow> nat \<Rightarrow> nat \<Rightarrow> string \<Rightarrow> string \<Rightarrow> bytes \<Rightarrow> guest_result cres" where
  "check_payload serial nonce key start payload_start code n m out_hex err_hex supplied =
     bnd (ok_or GuestResultTruncated (Option.bind (checked_add payload_start n) (\<lambda>e. checked_add e m))) (\<lambda>payload_end.
     let end' = end_line nonce
     in if length serial < payload_end + length end' \<or> MAXIMUM_ENVELOPE < payload_end + length end' - start
           \<or> slice serial payload_end (payload_end + length end') \<noteq> end'
        then Inl GuestResultTruncated
        else
          let stdout = slice serial payload_start (payload_start + n);
              stderr = slice serial (payload_start + n) payload_end
          in if sha256_hex stdout \<noteq> out_hex \<or> sha256_hex stderr \<noteq> err_hex
             then Inl GuestResultDigestMismatch
             else if \<not> constant_time_equal supplied (hmac_sha256 key
                    [AUTH_DOMAIN, unsigned_header nonce code n m out_hex err_hex, stdout, stderr, end'])
             then Inl GuestResultAuthenticationFailed
             else if ambiguous (drop (payload_end + length end') serial) then Inl GuestResultAmbiguous
             else
               bnd (from_utf8 stdout) (\<lambda>out. bnd (from_utf8 stderr) (\<lambda>err.
                 Inr \<lparr>gr_attempt_nonce = nonce, gr_exit_code = of_nat code, gr_stdout = out, gr_stderr = err,
                      gr_stdout_sha256 = out_hex, gr_stderr_sha256 = err_hex\<rparr>)))"

definition parse_payload ::
  "bytes \<Rightarrow> string \<Rightarrow> bytes \<Rightarrow> nat \<Rightarrow> nat \<Rightarrow> string list \<Rightarrow> guest_result cres" where
  "parse_payload serial nonce key start line_end fs =
     bnd (exact_decimal (fs ! 2) 255) (\<lambda>code.
     bnd (exact_decimal (fs ! 3) MAXIMUM_OUTPUT_BYTES) (\<lambda>n.
     bnd (exact_decimal (fs ! 4) MAXIMUM_OUTPUT_BYTES) (\<lambda>m.
     if \<not> lowercase_hex (fs ! 5) 64 \<or> \<not> lowercase_hex (fs ! 6) 64 then Inl GuestResultHeaderInvalid
     else
       bnd (decode_hex_32 (fs ! 7)) (\<lambda>supplied.
         check_payload serial nonce key start (line_end + 1) code n m (fs ! 5) (fs ! 6) supplied))))"

definition parse_candidate_guest_result :: "bytes \<Rightarrow> string \<Rightarrow> bytes \<Rightarrow> guest_result cres" where
  "parse_candidate_guest_result serial nonce key =
     (if \<not> lowercase_hex nonce 32 then Inl GuestResultNonceInvalid
      else if MAXIMUM_PREAMBLE + MAXIMUM_ENVELOPE + MAXIMUM_POSTAMBLE < length serial
      then Inl GuestResultEnvelopeTooLarge
      else
        bnd (find_start serial nonce) (\<lambda>start.
        bnd (find_header_line serial start) (\<lambda>line_end.
        bnd (from_utf8 (slice serial start line_end)) (\<lambda>header.
        let fs = split_on CHR '' '' header
        in if length fs \<noteq> 8 \<or> fs ! 0 \<noteq> ''KEEP_RESULT_V1'' \<or> fs ! 1 \<noteq> nonce then Inl GuestResultHeaderInvalid
           else parse_payload serial nonce key start line_end fs))))"

subsection \<open>The deadline\<close>

text \<open>Instants and durations are nanoseconds of a monotonic clock; \<open>now\<close> is the clock's reading.\<close>

record candidate_deadline =
  dl_started :: nat
  dl_limit :: nat

definition deadline_start :: "nat \<Rightarrow> nat \<Rightarrow> candidate_deadline cres" where
  "deadline_start now milliseconds =
     (if milliseconds = 0 \<or> MAXIMUM_LAUNCH_MILLISECONDS < milliseconds then Inl DeadlineOutOfRange
      else Inr \<lparr>dl_started = now, dl_limit = milliseconds * 1000000\<rparr>)"

definition deadline_remaining :: "candidate_deadline \<Rightarrow> nat \<Rightarrow> nat cres" where
  "deadline_remaining d now =
     (let elapsed = now - dl_started d
      in if dl_limit d < elapsed \<or> dl_limit d - elapsed = 0 then Inl DeadlineExpired else Inr (dl_limit d - elapsed))"

subsection \<open>Cgroup limits\<close>

record cgroup_limits =
  cl_memory_max :: nat
  cl_memory_swap_max :: nat
  cl_pids_max :: nat
  cl_cpu_max :: string
  cl_io_weight :: string

record cgroup_observation =
  co_memory_max :: nat
  co_memory_swap_max :: nat
  co_pids_max :: nat
  co_cpu_max :: string
  co_io_weight :: string
  co_populated :: bool
  co_descendant_directories :: nat

definition fixed_limits :: cgroup_limits where
  "fixed_limits = \<lparr>cl_memory_max = HOST_MEMORY_BYTES, cl_memory_swap_max = 0, cl_pids_max = MAXIMUM_PIDS,
     cl_cpu_max = CGROUP_CPU_MAX, cl_io_weight = CGROUP_IO_WEIGHT\<rparr>"

definition verify_limits :: "cgroup_limits \<Rightarrow> cgroup_observation \<Rightarrow> unit cres" where
  "verify_limits l ob =
     (if co_memory_max ob \<noteq> cl_memory_max l \<or> co_memory_swap_max ob \<noteq> cl_memory_swap_max l
         \<or> co_pids_max ob \<noteq> cl_pids_max l \<or> co_cpu_max ob \<noteq> cl_cpu_max l \<or> co_io_weight ob \<noteq> cl_io_weight l
      then Inl CgroupLimitMismatch else Inr ())"

definition bounded_number :: "string \<Rightarrow> nat cres" where
  "bounded_number s =
     (if s = [] \<or> starts_with s ''+'' \<or> (1 < length s \<and> starts_with s ''0'') \<or> \<not> all_digits s
      then Inl CgroupValueMalformed
      else ok_or CgroupValueMalformed (parse_u64 s))"

definition events_step :: "string \<Rightarrow> bool option \<Rightarrow> bool option cres" where
  "events_step line populated =
     (case split_on CHR '' '' line of
        [k, v] \<Rightarrow>
          if k = ''populated'' \<and> v = ''0'' then Inr (Some False)
          else if k = ''populated'' \<and> v = ''1'' then Inr (Some True)
          else Inr populated
      | _ \<Rightarrow> Inl CgroupValueMalformed)"

definition parse_observation ::
  "string \<Rightarrow> string \<Rightarrow> string \<Rightarrow> string \<Rightarrow> string \<Rightarrow> string \<Rightarrow> nat \<Rightarrow> cgroup_observation cres" where
  "parse_observation memory swap pids cpu weight events descendants =
     bnd (fold_res events_step (str_lines events) None) (\<lambda>populated.
     bnd (bounded_number memory) (\<lambda>memory.
     bnd (bounded_number swap) (\<lambda>swap.
     bnd (bounded_number pids) (\<lambda>pids.
     bnd (ok_or CgroupValueMalformed populated) (\<lambda>populated.
       Inr \<lparr>co_memory_max = memory, co_memory_swap_max = swap, co_pids_max = pids, co_cpu_max = cpu,
            co_io_weight = weight, co_populated = populated, co_descendant_directories = descendants\<rparr>)))))"

definition verify_empty :: "cgroup_observation \<Rightarrow> unit cres" where
  "verify_empty ob =
     (if co_populated ob then Inl CgroupStillPopulated
      else if co_descendant_directories ob \<noteq> 0 then Inl CgroupHasDescendants else Inr ())"

subsection \<open>The fixed arguments\<close>

definition fixed_jailer_arguments :: "string \<Rightarrow> nat \<Rightarrow> string list" where
  "fixed_jailer_arguments attempt uid =
     [''--id'', attempt, ''--uid'', dec_string uid, ''--gid'', dec_string uid, ''--new-pid-ns'', ''--cgroup-version'', ''2'',
      ''--parent-cgroup'', ''keep'', ''--cgroup'', ''memory.max='' @ dec_string HOST_MEMORY_BYTES,
      ''--cgroup'', ''memory.swap.max=0'', ''--cgroup'', ''pids.max='' @ dec_string MAXIMUM_PIDS,
      ''--cgroup'', ''cpu.max='' @ CGROUP_CPU_MAX, ''--cgroup'', ''io.weight='' @ CGROUP_IO_WEIGHT_WRITE,
      ''--resource-limit'', ''fsize='' @ dec_string MAXIMUM_FILE_BYTES,
      ''--resource-limit'', ''no-file='' @ dec_string MAXIMUM_OPEN_FILES,
      ''--'', ''--no-api'', ''--config-file'', ''/config.json'', ''--seccomp-filter'', ''/seccomp.bpf'']"

definition QUOTE :: string where "QUOTE = [CHR 0x22]"

text \<open>A JSON member name or string: the text between quotes.\<close>

definition quoted :: "string \<Rightarrow> string" where
  "quoted s = QUOTE @ s @ QUOTE"

definition fixed_firecracker_config :: bytes where
  "fixed_firecracker_config =
     str_bytes (''{'' @ quoted ''boot-source'' @ '':{'' @ quoted ''kernel_image_path'' @ '':'' @ quoted ''/vmlinux'' @ '','' @
       quoted ''boot_args'' @ '':'' @ quoted (''init=/keep-init ro console=ttyS0 reboot=k panic=1 pci=off quiet 8250.nr_uarts=1 keep.max_output='' @
         dec_string MAXIMUM_OUTPUT_BYTES @ '' keep.fsize='' @ dec_string MAXIMUM_FILE_BYTES @
         '' keep.pids='' @ dec_string MAXIMUM_PIDS) @ ''},'' @
       quoted ''drives'' @ '':[{'' @ quoted ''drive_id'' @ '':'' @ quoted ''rootfs'' @ '','' @
         quoted ''path_on_host'' @ '':'' @ quoted ''/rootfs.ext4'' @ '','' @
         quoted ''is_root_device'' @ '':true,'' @ quoted ''is_read_only'' @ '':true},'' @
       ''{'' @ quoted ''drive_id'' @ '':'' @ quoted ''project'' @ '','' @
         quoted ''path_on_host'' @ '':'' @ quoted ''/project.ext4'' @ '','' @
         quoted ''is_root_device'' @ '':false,'' @ quoted ''is_read_only'' @ '':false}],'' @
       quoted ''machine-config'' @ '':{'' @ quoted ''vcpu_count'' @ '':'' @ dec_string GUEST_VCPU_COUNT @ '','' @
         quoted ''mem_size_mib'' @ '':'' @ dec_string (GUEST_MEMORY_BYTES div (1024 * 1024)) @ ''}}'' @ [CHR 0x0A])"

subsection \<open>The lifecycle\<close>

datatype candidate_phase =
    Prepared | Spawned | GuestResultCaptured | DirectProcessReaped | DescendantsEmpty | ResidueRemoved | Complete
  | Aborted

datatype candidate_event =
    EvSpawned | EvGuestResultCaptured | EvDirectProcessReaped | EvDescendantsEmpty | EvResidueRemoved | EvComplete
  | EvAbort

definition lifecycle_next :: "candidate_phase \<Rightarrow> candidate_event \<Rightarrow> candidate_phase option" where
  "lifecycle_next phase event =
     (if event = EvAbort \<and> phase \<notin> {Complete, Aborted} then Some Aborted
      else map_of [((Prepared, EvSpawned), Spawned), ((Spawned, EvGuestResultCaptured), GuestResultCaptured),
        ((GuestResultCaptured, EvDirectProcessReaped), DirectProcessReaped),
        ((DirectProcessReaped, EvDescendantsEmpty), DescendantsEmpty),
        ((DescendantsEmpty, EvResidueRemoved), ResidueRemoved), ((ResidueRemoved, EvComplete), Complete)] (phase, event))"

text \<open>\<open>advance\<close> changes the phase or reports the phase and the event; a refused event changes nothing.\<close>

definition advance :: "candidate_event \<Rightarrow> candidate_phase \<Rightarrow> (candidate_phase \<times> candidate_event, candidate_phase) res" where
  "advance event phase = ok_or (phase, event) (lifecycle_next phase event)"

end
