(* ===== verification/Prober_Props.thy ===== *)
theory Prober_Props
  imports Prober_Launcher Text_Forms
begin

section \<open>The lifecycle of a candidate\<close>

text \<open>
  The lifecycle goes through its stages in order and stops.
\<close>

subsection \<open>Runs\<close>

inductive lifecycle_run :: "candidate_phase \<Rightarrow> candidate_event list \<Rightarrow> candidate_phase \<Rightarrow> bool" where
  start: "lifecycle_run p [] p"
| advance: "lifecycle_run p es q \<Longrightarrow> advance e q = Inr r \<Longrightarrow> lifecycle_run p (es @ [e]) r"

inductive_cases lifecycle_runE: "lifecycle_run p es q"

definition STAGES :: "candidate_event list" where
  "STAGES = [EvSpawned, EvGuestResultCaptured, EvDirectProcessReaped, EvDescendantsEmpty, EvResidueRemoved, EvComplete]"

definition STAGE_PHASES :: "candidate_phase list" where
  "STAGE_PHASES = [Prepared, Spawned, GuestResultCaptured, DirectProcessReaped, DescendantsEmpty, ResidueRemoved, Complete]"

lemma below_six: "(\<exists>i<6. P i) \<longleftrightarrow> P 0 \<or> P 1 \<or> P 2 \<or> P 3 \<or> P 4 \<or> P (5::nat)"
  by (auto simp: numeral_eq_Suc less_Suc_eq)

lemma advance_iff:
  "advance e p = Inr q \<longleftrightarrow>
     (e = EvAbort \<and> q = Aborted \<and> p \<noteq> Complete \<and> p \<noteq> Aborted)
     \<or> (\<exists>i<6. p = STAGE_PHASES ! i \<and> e = STAGES ! i \<and> q = STAGE_PHASES ! Suc i)"
  unfolding below_six
  by (cases p; cases e; simp add: advance_def lifecycle_next_def STAGES_def STAGE_PHASES_def ok_or_def eq_commute)

lemma length_STAGES: "length STAGES = 6"
  by (simp add: STAGES_def)

lemma take_STAGES: "i < 6 \<Longrightarrow> take (Suc i) STAGES = take i STAGES @ [STAGES ! i]"
  by (simp add: take_Suc_conv_app_nth length_STAGES)

lemma stage_phase_inj: "i \<le> 6 \<Longrightarrow> j \<le> 6 \<Longrightarrow> STAGE_PHASES ! i = STAGE_PHASES ! j \<longleftrightarrow> i = j"
  by (rule nth_eq_iff_index_eq) (simp_all add: STAGE_PHASES_def)

lemma stage_not_aborted: "i \<le> 6 \<Longrightarrow> STAGE_PHASES ! i \<noteq> Aborted"
  using nth_mem [of i STAGE_PHASES] by (auto simp: STAGE_PHASES_def)

lemma stage_complete: "STAGE_PHASES ! 6 = Complete"
  by (simp add: STAGE_PHASES_def)

lemma stage_not_complete: "i < 6 \<Longrightarrow> STAGE_PHASES ! i \<noteq> Complete"
  using stage_phase_inj [of i 6] by (simp add: stage_complete)

lemma advance_stage: "i < 6 \<Longrightarrow> advance (STAGES ! i) (STAGE_PHASES ! i) = Inr (STAGE_PHASES ! Suc i)"
  by (auto simp: advance_iff)

lemma advance_from_stage:
  assumes "i \<le> 6" "advance e (STAGE_PHASES ! i) = Inr q"
  shows "i < 6 \<and> (e = STAGES ! i \<and> q = STAGE_PHASES ! Suc i \<or> e = EvAbort \<and> q = Aborted)"
proof -
  consider "e = EvAbort" "q = Aborted" "STAGE_PHASES ! i \<noteq> Complete"
    | j where "j < 6" "STAGE_PHASES ! i = STAGE_PHASES ! j" "e = STAGES ! j" "q = STAGE_PHASES ! Suc j"
    using assms(2) by (auto simp: advance_iff)
  then show ?thesis
  proof cases
    case 1
    then have "i \<noteq> 6" by (auto simp: stage_complete)
    with 1 assms(1) show ?thesis by simp
  next
    case 2
    then have "i = j" using stage_phase_inj [of i j] assms(1) by simp
    with 2 show ?thesis by simp
  qed
qed

lemma advance_aborted: "advance e Aborted \<noteq> Inr q"
  using stage_not_aborted by (metis (no_types, lifting) advance_iff less_imp_le)

lemma stage_run: "i \<le> 6 \<Longrightarrow> lifecycle_run Prepared (take i STAGES) (STAGE_PHASES ! i)"
proof (induction i)
  case 0
  then show ?case by (simp add: STAGE_PHASES_def lifecycle_run.start)
next
  case (Suc i)
  then show ?case
    using lifecycle_run.advance [OF _ advance_stage [of i]] by (simp add: take_STAGES)
qed

lemma run_stage:
  assumes "lifecycle_run p es q" "p = Prepared"
  shows "(\<exists>i\<le>6. es = take i STAGES \<and> q = STAGE_PHASES ! i) \<or> (\<exists>i<6. es = take i STAGES @ [EvAbort] \<and> q = Aborted)"
  using assms
proof induction
  case (start p)
  then have "[] = take 0 STAGES \<and> p = STAGE_PHASES ! 0" by (simp add: STAGE_PHASES_def)
  then show ?case by blast
next
  case (advance p es q e r)
  then obtain i where i: "i \<le> 6" "es = take i STAGES" "q = STAGE_PHASES ! i"
    using advance_aborted by blast
  then have "i < 6 \<and> (e = STAGES ! i \<and> r = STAGE_PHASES ! Suc i \<or> e = EvAbort \<and> r = Aborted)"
    using advance_from_stage [of i e r] advance.hyps(2) by simp
  then show ?case
    using i(2) take_STAGES [of i] Suc_leI [of i 6] by metis
qed

text \<open>C21: The lifecycle of a candidate accepts exactly the prefixes of the six stages in their order (spawned,
  result captured, process reaped, descendants empty, residue removed, complete), each reaching the
  phase of its last stage, and such a prefix that is not complete followed by one abort. So
  \<open>Complete\<close> is reached only after every stage, at most six events are ever accepted, and nothing is
  accepted after completion or abortion.\<close>

theorem lifecycle_runs_exactly:
  "lifecycle_run Prepared es p \<longleftrightarrow>
     (\<exists>i\<le>6. es = take i STAGES \<and> p = STAGE_PHASES ! i) \<or> (\<exists>i<6. es = take i STAGES @ [EvAbort] \<and> p = Aborted)"
proof
  assume "lifecycle_run Prepared es p"
  then show "(\<exists>i\<le>6. es = take i STAGES \<and> p = STAGE_PHASES ! i) \<or> (\<exists>i<6. es = take i STAGES @ [EvAbort] \<and> p = Aborted)"
    by (simp add: run_stage)
next
  have abort: "advance EvAbort (STAGE_PHASES ! i) = Inr Aborted" if "i < 6" for i
    using that stage_not_complete [of i] stage_not_aborted [of i] by (simp add: advance_iff)
  assume "(\<exists>i\<le>6. es = take i STAGES \<and> p = STAGE_PHASES ! i) \<or> (\<exists>i<6. es = take i STAGES @ [EvAbort] \<and> p = Aborted)"
  then show "lifecycle_run Prepared es p"
    using stage_run lifecycle_run.advance [OF stage_run abort] by (auto simp: less_imp_le)
qed

end
