(* ===== verification/Decimal_Forms.thy ===== *)
theory Decimal_Forms
  imports Text_Forms
begin

section \<open>Canonical decimal numbers and split text\<close>

text \<open>
  A non-empty string of digits without a leading zero is the decimal form of its value, so the crates'
  "exact decimal" checks admit exactly the texts \<open>to_string\<close> prints. Splitting at a separator undoes
  joining parts that do not contain it.
\<close>

definition plain_decimal :: "string \<Rightarrow> bool" where
  "plain_decimal s \<longleftrightarrow> s \<noteq> [] \<and> \<not> (1 < length s \<and> starts_with s ''0'') \<and> list_all is_ascii_digit (str_bytes s)"

lemma starts_with_zero: "starts_with s ''0'' \<longleftrightarrow> s \<noteq> [] \<and> hd s = CHR ''0''"
  by (cases s) (auto simp: starts_with_def)

lemma digit_char:
  assumes "is_ascii_digit (byte_of_char c)"
  shows "of_char c - 48 < (10 :: nat)" "char_of (48 + (of_char c - 48 :: nat)) = c"
    "(of_char c - 48 :: nat) = 0 \<longleftrightarrow> c = CHR ''0''"
proof -
  have b: "48 \<le> (of_char c :: nat) \<and> (of_char c :: nat) \<le> 57"
    using assms by (simp add: is_ascii_digit_def word_le_nat_alt)
  then show "of_char c - 48 < (10 :: nat)" by arith
  show "char_of (48 + (of_char c - 48 :: nat)) = c" using b by simp
  have "(of_char c - 48 :: nat) = 0 \<longleftrightarrow> (of_char c :: nat) = of_char CHR ''0''" using b by auto
  then show "(of_char c - 48 :: nat) = 0 \<longleftrightarrow> c = CHR ''0''" by (simp only: of_char_eq_iff)
qed

lemma dec_string_step: "0 < n \<Longrightarrow> d < 10 \<Longrightarrow> dec_string (10 * n + d) = dec_string n @ [char_of (48 + d)]"
  by (subst dec_string.simps) simp

lemma dec_string_digit: "d < 10 \<Longrightarrow> dec_string d = [char_of (48 + d)]"
  by (subst dec_string.simps) simp

lemma dec_value_canonical:
  "s \<noteq> [] \<Longrightarrow> hd s \<noteq> CHR ''0'' \<Longrightarrow> (\<And>c. c \<in> set s \<Longrightarrow> is_ascii_digit (byte_of_char c)) \<Longrightarrow>
     0 < dec_value s \<and> dec_string (dec_value s) = s"
proof (induction s rule: rev_induct)
  case (snoc c s)
  have c: "is_ascii_digit (byte_of_char c)" using snoc.prems(3) by simp
  show ?case
  proof (cases "s = []")
    case True
    with snoc.prems digit_char [OF c] show ?thesis
      by (simp add: dec_value_def dec_string_digit)
  next
    case False
    with snoc have "0 < dec_value s \<and> dec_string (dec_value s) = s" by (simp add: hd_append)
    with digit_char [OF c] show ?thesis by (simp add: dec_value_snoc dec_string_step)
  qed
qed simp

lemma plain_decimal_value: "plain_decimal s \<Longrightarrow> dec_string (dec_value s) = s"
proof (cases "hd s = CHR ''0''")
  case True
  moreover assume "plain_decimal s"
  ultimately have "s = ''0''" by (cases s) (auto simp: plain_decimal_def starts_with_zero)
  then show ?thesis by (simp add: dec_value_def dec_string_digit char_of_48)
next
  case False
  moreover assume "plain_decimal s"
  ultimately show ?thesis using dec_value_canonical [of s]
    by (auto simp: plain_decimal_def list_all_iff str_bytes_def)
qed

lemma dec_string_hd: "0 < n \<Longrightarrow> hd (dec_string n) \<noteq> CHR ''0''"
proof (induction n rule: dec_string.induct)
  case (1 n)
  show ?case
  proof (cases "n < 10")
    case True
    then have "(of_char (char_of (48 + n) :: char) :: nat) \<noteq> of_char CHR ''0''" using 1 by simp
    then show ?thesis using True by (metis dec_string_digit list.sel(1))
  next
    case False
    with 1 show ?thesis by (subst dec_string.simps) simp
  qed
qed

lemma plain_decimal_dec_string: "plain_decimal (dec_string n)"
proof -
  have "\<not> (1 < length (dec_string n) \<and> starts_with (dec_string n) ''0'')"
    using dec_string_hd [of n] by (cases "n = 0") (auto simp: starts_with_zero dec_string_digit)
  then show ?thesis
    using dec_string_digits [of _ n] by (auto simp: plain_decimal_def list_all_iff str_bytes_def)
qed

lemma plain_decimal_iff: "plain_decimal s \<longleftrightarrow> (\<exists>n. s = dec_string n)"
  using plain_decimal_value plain_decimal_dec_string by metis

lemma length_dec_string: "n < 10 ^ k \<Longrightarrow> 0 < k \<Longrightarrow> length (dec_string n) \<le> k"
proof (induction k arbitrary: n)
  case (Suc k)
  show ?case
  proof (cases "n < 10")
    case True
    then show ?thesis by (simp add: dec_string_digit)
  next
    case False
    then have "0 < k" using Suc.prems by (cases k) simp_all
    moreover have "n div 10 < 10 ^ k" using Suc.prems by (simp add: less_mult_imp_div_less mult.commute)
    ultimately show ?thesis using False Suc.IH [of "n div 10"] by (subst dec_string.simps) simp
  qed
qed simp

lemma split_on_append: "c \<notin> set xs \<Longrightarrow> split_on c (xs @ c # ys) = xs # split_on c ys"
  by (induction xs) auto

lemma split_on_single: "c \<notin> set xs \<Longrightarrow> split_on c xs = [xs]"
  by (induction xs) auto

lemma split_on_join: "xss \<noteq> [] \<Longrightarrow> (\<And>xs. xs \<in> set xss \<Longrightarrow> c \<notin> set xs) \<Longrightarrow> split_on c (join_with c xss) = xss"
  by (induction c xss rule: join_with.induct) (simp_all add: split_on_append split_on_single)

end
