(* ===== verification/Guest_Result.thy ===== *)
theory Guest_Result
  imports Prober_Launcher Decimal_Forms
begin

section \<open>The guest result is exactly the authenticated envelope\<close>

text \<open>
  The envelope a guest prints is written down as an encoding function; the parser of the serial log
  is shown to accept exactly the logs that hold one such envelope, made with the expected nonce and
  key, with the bounds it states.
\<close>

subsection \<open>The envelope\<close>

definition guest_mac :: "string \<Rightarrow> bytes \<Rightarrow> nat \<Rightarrow> bytes \<Rightarrow> bytes \<Rightarrow> bytes" where
  "guest_mac nonce key code out err =
     hmac_sha256 key [AUTH_DOMAIN, unsigned_header nonce code (length out) (length err) (sha256_hex out) (sha256_hex err),
       out, err, end_line nonce]"

definition guest_fields :: "string \<Rightarrow> bytes \<Rightarrow> nat \<Rightarrow> bytes \<Rightarrow> bytes \<Rightarrow> string list" where
  "guest_fields nonce key code out err =
     [''KEEP_RESULT_V1'', nonce, dec_string code, dec_string (length out), dec_string (length err),
      sha256_hex out, sha256_hex err, hex_string (guest_mac nonce key code out err)]"

definition guest_envelope :: "string \<Rightarrow> bytes \<Rightarrow> nat \<Rightarrow> bytes \<Rightarrow> bytes \<Rightarrow> bytes" where
  "guest_envelope nonce key code out err =
     str_bytes (join_with CHR '' '' (guest_fields nonce key code out err)) @ 0x0a # out @ err @ end_line nonce"

definition reported :: "string \<Rightarrow> nat \<Rightarrow> bytes \<Rightarrow> bytes \<Rightarrow> guest_result" where
  "reported nonce code out err =
     \<lparr>gr_attempt_nonce = nonce, gr_exit_code = of_nat code, gr_stdout = bytes_str out, gr_stderr = bytes_str err,
      gr_stdout_sha256 = sha256_hex out, gr_stderr_sha256 = sha256_hex err\<rparr>"

subsection \<open>The forms of the header's fields\<close>

lemma exact_decimal_iff:
  assumes "maximum < 10 ^ 10"
  shows "exact_decimal s maximum = Inr n \<longleftrightarrow> s = dec_string n \<and> n \<le> maximum"
proof
  assume *: "exact_decimal s maximum = Inr n"
  then have "plain_decimal s" "dec_value s = n" "n \<le> maximum"
    by (auto simp: exact_decimal_def plain_decimal_def all_digits_def parse_u64_def split: if_splits)
  then show "s = dec_string n \<and> n \<le> maximum" using plain_decimal_value by metis
next
  assume *: "s = dec_string n \<and> n \<le> maximum"
  then have "length s \<le> 10" using assms length_dec_string [of n 10] by simp
  moreover have "n \<le> usize_max" using * assms by (simp add: usize_max_def)
  moreover have "plain_decimal s" using * plain_decimal_dec_string by blast
  ultimately show "exact_decimal s maximum = Inr n"
    using * by (auto simp: exact_decimal_def plain_decimal_def all_digits_def parse_u64_def)
qed

lemma length_guest_mac [simp]: "length (guest_mac nonce key code out err) = 32"
  by (simp add: guest_mac_def hmac_sha256_def)

lemma lowercase_hex_string: "lowercase_hex (hex_string bs) (2 * length bs)"
  using hex_string_lower by (auto simp: lowercase_hex_def list_all_iff str_bytes_def)

lemma lowercase_sha256_hex: "lowercase_hex (sha256_hex bs) 64"
  using lowercase_hex_string [of "sha256 bs"] by (simp add: sha256_hex_def)

lemma nibble_pair:
  assumes "x < 16" "y < 16"
  shows "push_bit 4 (of_nat x :: u8) OR of_nat y = of_nat (16 * x + y)"
proof -
  have "list_all (\<lambda>x. list_all (\<lambda>y. push_bit 4 (of_nat x :: u8) OR of_nat y = of_nat (16 * x + y)) [0..<16]) [0..<16]"
    by code_simp
  with assms show ?thesis by (simp add: list_all_iff)
qed

lemma decode_nibble_hex: "lower_hex_byte b \<Longrightarrow> decode_nibble b = of_nat (hex_value b)"
  by (auto simp: decode_nibble_def lower_hex_byte_def hex_value_def is_ascii_digit_def word_le_nat_alt
      intro!: word_unat_eq_iff [THEN iffD2] simp: unat_sub unat_of_nat)

lemma chunks_exact_pairs:
  "length xs = 2 * n \<Longrightarrow> chunks_exact 2 xs = map (\<lambda>i. [xs ! (2 * i), xs ! (2 * i + 1)]) [0..<n]"
proof (induction n arbitrary: xs)
  case (Suc n)
  then obtain a b ys where xs: "xs = a # b # ys" "length ys = 2 * n"
    by (metis add_2_eq_Suc length_Suc_conv mult_Suc_right)
  have "map (\<lambda>i. [xs ! (2 * i), xs ! (2 * i + 1)]) [0..<Suc n] = [a, b] # map (\<lambda>i. [ys ! (2 * i), ys ! (2 * i + 1)]) [0..<n]"
    by (simp add: xs upt_conv_Cons map_Suc_upt [symmetric] del: upt_Suc)
  then show ?case using Suc.IH [OF xs(2)] by (subst chunks_exact.simps) (simp add: xs)
qed simp

lemma decode_hex_32_iff: "decode_hex_32 s = Inr bs \<longleftrightarrow> length bs = 32 \<and> s = hex_string bs"
proof -
  have pairs: "map (\<lambda>pair. push_bit 4 (decode_nibble (pair ! 0)) OR decode_nibble (pair ! 1)) (chunks_exact 2 (str_bytes s))
      = map (hex_pair s) [0..<32]" if "lowercase_hex s 64"
  proof -
    have s: "length s = 2 * 32" "list_all lower_hex_byte (str_bytes s)" using that by (simp_all add: lowercase_hex_def)
    have "push_bit 4 (decode_nibble (str_bytes s ! (2 * i))) OR decode_nibble (str_bytes s ! (2 * i + 1)) = hex_pair s i"
      if "i < 32" for i
    proof -
      have low: "lower_hex_byte (byte_of_char (s ! k))" if "k < 64" for k
        using s that by (simp add: list_all_length str_bytes_def)
      have "hex_value (byte_of_char (s ! k)) < 16" if "k < 64" for k using hex_value_less low that by blast
      with low \<open>i < 32\<close> s show ?thesis
        by (simp add: hex_pair_def decode_nibble_hex nibble_pair str_bytes_def del: of_nat_add of_nat_mult)
    qed
    then show ?thesis by (simp add: chunks_exact_pairs [of _ 32] s)
  qed
  show ?thesis
  proof
    assume *: "decode_hex_32 s = Inr bs"
    then have low: "lowercase_hex s 64" by (simp add: decode_hex_32_def split: if_splits)
    with * pairs have bs: "bs = map (hex_pair s) [0..<32]" by (simp add: decode_hex_32_def)
    with low hex_string_hex_pairs [of s 32] show "length bs = 32 \<and> s = hex_string bs"
      by (simp add: lowercase_hex_def)
  next
    assume *: "length bs = 32 \<and> s = hex_string bs"
    then have low: "lowercase_hex s 64" using lowercase_hex_string [of bs] by simp
    have "map (hex_pair s) [0..<32] = bs"
      using * by (intro nth_equalityI) (simp_all add: hex_pair_hex_string)
    with low pairs show "decode_hex_32 s = Inr bs" by (simp add: decode_hex_32_def)
  qed
qed

lemma xor_zero_iff: "a XOR b = 0 \<longleftrightarrow> a = b" for a b :: u8
  by (metis xor.assoc xor.left_neutral xor_self_eq)

lemma fold_difference:
  "fold (\<lambda>(a, b) d. d OR (a XOR b)) zs acc = (0 :: u8) \<longleftrightarrow> acc = 0 \<and> (\<forall>(a, b) \<in> set zs. a = b)"
  by (induction zs arbitrary: acc) (auto simp: or_eq_0_iff xor_zero_iff)

lemma zip_all_equal: "length l = length r \<Longrightarrow> (\<forall>(a, b) \<in> set (zip l r). a = b) \<longleftrightarrow> l = r"
proof
  assume len: "length l = length r" and all: "\<forall>(a, b) \<in> set (zip l r). a = b"
  have "map fst (zip l r) = map snd (zip l r)" using all by (intro map_cong) auto
  then show "l = r" using len by simp
qed (auto simp: in_set_zip)

lemma constant_time_equal_iff: "length l = length r \<Longrightarrow> constant_time_equal l r \<longleftrightarrow> l = r"
  unfolding constant_time_equal_def fold_difference by (simp add: zip_all_equal)

subsection \<open>Finding the parts\<close>

lemma position_append: "\<forall>y \<in> set a. \<not> p y \<Longrightarrow> p x \<Longrightarrow> position p (a @ x # rest) = Some (length a)"
  by (induction a) simp_all

lemma position_Some:
  "position p xs = Some i \<Longrightarrow> \<exists>a x rest. xs = a @ x # rest \<and> length a = i \<and> p x \<and> (\<forall>y \<in> set a. \<not> p y)"
proof (induction xs arbitrary: i)
  case (Cons z zs)
  show ?case
  proof (cases "p z")
    case True
    with Cons.prems show ?thesis by (intro exI [of _ "[]"]) simp
  next
    case False
    with Cons.prems obtain j where "position p zs = Some j" and i: "i = Suc j" by auto
    then obtain a x rest where "zs = a @ x # rest" "length a = j" "p x" "\<forall>y \<in> set a. \<not> p y"
      using Cons.IH by blast
    with False i show ?thesis by (intro exI [of _ "z # a"] exI [of _ x] exI [of _ rest]) simp
  qed
qed simp

lemma find_header_line_iff:
  "find_header_line serial start = Inr e \<longleftrightarrow>
     (\<exists>line rest. drop start serial = line @ 0x0a # rest \<and> 0x0a \<notin> set line \<and> length line \<le> 512 \<and> e = start + length line)"
proof
  assume "find_header_line serial start = Inr e"
  then obtain i where "position (\<lambda>b. b = 0x0a) (drop start serial) = Some i" "i \<le> 512" "e = start + i"
    by (auto simp: find_header_line_def split: option.splits if_splits)
  with position_Some [OF this(1)]
  show "\<exists>line rest. drop start serial = line @ 0x0a # rest \<and> 0x0a \<notin> set line \<and> length line \<le> 512 \<and> e = start + length line"
    by blast
next
  assume "\<exists>line rest. drop start serial = line @ 0x0a # rest \<and> 0x0a \<notin> set line \<and> length line \<le> 512 \<and> e = start + length line"
  then obtain line rest where *: "drop start serial = line @ 0x0a # rest" "0x0a \<notin> set line" "length line \<le> 512" "e = start + length line"
    by blast
  then have "position (\<lambda>b. b = 0x0a) (drop start serial) = Some (length line)"
    using position_append [of line "\<lambda>b. b = 0x0a"] by auto
  with * show "find_header_line serial start = Inr e" by (simp add: find_header_line_def)
qed

lemma slice_after: "slice (p @ xs) (length p + a) (length p + b) = take (b - a) (drop a xs)"
  by (simp add: slice_def)

lemma slice_between: "slice (p @ m @ xs) (length p) (length p + length m) = m"
  by (simp add: slice_def)

lemma take_parts:
  assumes "n + m + k \<le> length rest"
  obtains a b c d where "rest = a @ b @ c @ d" "length a = n" "length b = m" "length c = k"
proof
  show "rest = take n rest @ take m (drop n rest) @ take k (drop (n + m) rest) @ drop (n + m + k) rest"
    by (metis append_take_drop_id drop_drop add.commute)
qed (use assms in simp_all)

definition payload_ok :: "string \<Rightarrow> bytes \<Rightarrow> nat \<Rightarrow> string list \<Rightarrow> bytes \<Rightarrow> nat \<Rightarrow> bytes \<Rightarrow> bytes \<Rightarrow> bytes \<Rightarrow> bool" where
  "payload_ok nonce key l fs rest code out err post \<longleftrightarrow>
     rest = out @ err @ end_line nonce @ post \<and> drop 2 fs = drop 2 (guest_fields nonce key code out err)
     \<and> code \<le> 255 \<and> length out \<le> MAXIMUM_OUTPUT_BYTES \<and> length err \<le> MAXIMUM_OUTPUT_BYTES
     \<and> l + 1 + length out + length err + length (end_line nonce) \<le> MAXIMUM_ENVELOPE
     \<and> \<not> ambiguous post \<and> valid_utf8 out \<and> valid_utf8 err"

lemma payload_ok_fields:
  "length fs = 8 \<Longrightarrow> drop 2 fs = drop 2 (guest_fields nonce key code out err) \<longleftrightarrow>
     fs ! 2 = dec_string code \<and> fs ! 3 = dec_string (length out) \<and> fs ! 4 = dec_string (length err)
     \<and> fs ! 5 = sha256_hex out \<and> fs ! 6 = sha256_hex err \<and> fs ! 7 = hex_string (guest_mac nonce key code out err)"
proof -
  assume "length fs = 8"
  then obtain a b c d e f g h where "fs = [a, b, c, d, e, f, g, h]"
    by (auto simp: length_Suc_conv numeral_eq_Suc)
  then show ?thesis by (simp add: guest_fields_def)
qed

lemma MAXIMUM_OUTPUT_small: "MAXIMUM_OUTPUT_BYTES < 10 ^ 10" "(255 :: nat) < 10 ^ 10"
  by (simp_all add: MAXIMUM_OUTPUT_BYTES_def)

lemma check_payload_iff:
  assumes "length serial + n + m < usize_max" "length mac = 32" "serial = p @ rest"
  shows "check_payload serial nonce key start (length p) code n m d e mac = Inr r \<longleftrightarrow>
     (\<exists>out err post. rest = out @ err @ end_line nonce @ post \<and> length out = n \<and> length err = m
        \<and> length p + n + m + length (end_line nonce) - start \<le> MAXIMUM_ENVELOPE \<and> d = sha256_hex out \<and> e = sha256_hex err
        \<and> mac = guest_mac nonce key code out err \<and> \<not> ambiguous post \<and> valid_utf8 out \<and> valid_utf8 err
        \<and> r = reported nonce code out err)"
  (is "?l \<longleftrightarrow> ?r")
proof
  have sum: "Option.bind (checked_add (length p) n) (\<lambda>e. checked_add e m) = Some (length p + n + m)"
    using assms(1,3) by (simp add: checked_add_def)
  note check = check_payload_def sum ok_or_simps bnd_simps Let_def
  {
    assume l: ?l
    then have "length p + n + m + length (end_line nonce) \<le> length serial" by (auto simp: check split: if_splits)
    then have "n + m + length (end_line nonce) \<le> length rest" using assms(3) by simp
    then obtain out err x post where rest: "rest = out @ err @ x @ post" "length out = n" "length err = m"
      "length x = length (end_line nonce)" by (rule take_parts)
    have "slice serial (length p) (length p + n) = out" "slice serial (length p + n) (length p + n + m) = err"
      "slice serial (length p + n + m) (length p + n + m + length (end_line nonce)) = x"
      "drop (length p + n + m + length (end_line nonce)) serial = post"
      using rest assms(3) by (simp_all add: slice_def)
    with l assms(2) have "x = end_line nonce \<and> length p + n + m + length (end_line nonce) - start \<le> MAXIMUM_ENVELOPE
        \<and> d = sha256_hex out \<and> e = sha256_hex err \<and> mac = guest_mac nonce key code out err \<and> \<not> ambiguous post
        \<and> valid_utf8 out \<and> valid_utf8 err \<and> r = reported nonce code out err"
      by (simp add: check guest_mac_def constant_time_equal_iff hmac_sha256_def from_utf8_def reported_def rest split: if_splits)
    with rest show ?r by (intro exI [of _ out] exI [of _ err] exI [of _ post]) simp
  }
  {
    assume ?r
    then obtain out err post where r: "rest = out @ err @ end_line nonce @ post" "length out = n" "length err = m"
      "length p + n + m + length (end_line nonce) - start \<le> MAXIMUM_ENVELOPE" "d = sha256_hex out" "e = sha256_hex err"
      "mac = guest_mac nonce key code out err" "\<not> ambiguous post" "valid_utf8 out" "valid_utf8 err"
      "r = reported nonce code out err" by blast
    have "slice serial (length p) (length p + n) = out" "slice serial (length p + n) (length p + n + m) = err"
      "slice serial (length p + n + m) (length p + n + m + length (end_line nonce)) = end_line nonce"
      "drop (length p + n + m + length (end_line nonce)) serial = post"
      "length p + n + m + length (end_line nonce) \<le> length serial"
      using r(1-3) assms(3) by (simp_all add: slice_def)
    then show ?l
      using r by (simp add: check guest_mac_def constant_time_equal_iff hmac_sha256_def from_utf8_def reported_def)
  }
qed

lemma parse_payload_iff:
  assumes "length serial + 2 * MAXIMUM_OUTPUT_BYTES < usize_max" "length fs = 8" "serial = pre @ line @ 0x0a # rest"
  shows "parse_payload serial nonce key (length pre) (length pre + length line) fs = Inr r \<longleftrightarrow>
     (\<exists>code out err post. payload_ok nonce key (length line) fs rest code out err post \<and> r = reported nonce code out err)"
  (is "?l \<longleftrightarrow> ?r")
proof
  note nums = exact_decimal_iff [OF MAXIMUM_OUTPUT_small(1)] exact_decimal_iff [OF MAXIMUM_OUTPUT_small(2)] decode_hex_32_iff
  {
    assume ?l
    then obtain code n m mac where f: "fs ! 2 = dec_string code" "code \<le> 255" "fs ! 3 = dec_string n"
        "fs ! 4 = dec_string m" "fs ! 7 = hex_string mac" and b: "n \<le> MAXIMUM_OUTPUT_BYTES" "m \<le> MAXIMUM_OUTPUT_BYTES"
        "length mac = 32"
      and l: "check_payload serial nonce key (length pre) (length pre + length line + 1) code n m (fs ! 5) (fs ! 6) mac = Inr r"
      by (auto simp: parse_payload_def bnd_eq_Inr nums split: if_splits)
    have "length serial + n + m < usize_max" using assms(1) b by simp
    from check_payload_iff [OF this b(3), of "pre @ line @ [0x0a]" rest nonce key "length pre" code "fs ! 5" "fs ! 6" r] l assms(3)
    obtain out err post where "rest = out @ err @ end_line nonce @ post" "length out = n" "length err = m"
      "length line + 1 + n + m + length (end_line nonce) \<le> MAXIMUM_ENVELOPE" "fs ! 5 = sha256_hex out" "fs ! 6 = sha256_hex err"
      "mac = guest_mac nonce key code out err" "\<not> ambiguous post" "valid_utf8 out" "valid_utf8 err"
      "r = reported nonce code out err"
      by (auto simp: add.assoc)
    then show ?r using f b
      by (intro exI [of _ code] exI [of _ out] exI [of _ err] exI [of _ post]) (simp add: payload_ok_def payload_ok_fields assms(2))
  }
  {
    assume ?r
    then obtain code out err post where p: "payload_ok nonce key (length line) fs rest code out err post"
      and r: "r = reported nonce code out err" by blast
    then have f: "fs ! 2 = dec_string code" "fs ! 3 = dec_string (length out)" "fs ! 4 = dec_string (length err)"
      "fs ! 5 = sha256_hex out" "fs ! 6 = sha256_hex err" "fs ! 7 = hex_string (guest_mac nonce key code out err)"
      and b: "code \<le> 255" "length out \<le> MAXIMUM_OUTPUT_BYTES" "length err \<le> MAXIMUM_OUTPUT_BYTES"
      by (simp_all add: payload_ok_def payload_ok_fields assms(2))
    have "length serial + length out + length err < usize_max" using assms(1) b by simp
    then have "check_payload serial nonce key (length pre) (length (pre @ line @ [0x0a])) code (length out) (length err)
        (fs ! 5) (fs ! 6) (guest_mac nonce key code out err) = Inr r"
      using p r f assms(3) by (subst check_payload_iff) (auto simp: payload_ok_def)
    moreover have "exact_decimal (fs ! 2) 255 = Inr code" "exact_decimal (fs ! 3) MAXIMUM_OUTPUT_BYTES = Inr (length out)"
      "exact_decimal (fs ! 4) MAXIMUM_OUTPUT_BYTES = Inr (length err)"
      "decode_hex_32 (fs ! 7) = Inr (guest_mac nonce key code out err)"
      by (simp_all add: nums f b)
    ultimately show ?l using f by (simp add: parse_payload_def lowercase_sha256_hex)
  }
qed

subsection \<open>The whole log\<close>

lemma guest_fields_8: "length (guest_fields nonce key code out err) = 8"
  by (simp add: guest_fields_def)

lemma hex_chars: "c \<in> set (hex_string bs) \<Longrightarrow> is_ascii_digit (byte_of_char c) \<or> 0x61 \<le> byte_of_char c"
  using hex_string_lower [of c bs] by (auto simp: lower_hex_byte_def)

definition field_char :: "char \<Rightarrow> bool" where
  "field_char c \<longleftrightarrow> 0x30 \<le> byte_of_char c \<and> byte_of_char c \<le> 0x7a"

lemma lower_hex_field: "lower_hex_byte (byte_of_char c) \<Longrightarrow> field_char c"
  by (auto simp: lower_hex_byte_def is_ascii_digit_def field_char_def word_le_nat_alt)

lemma digit_field: "is_ascii_digit (byte_of_char c) \<Longrightarrow> field_char c"
  by (auto simp: is_ascii_digit_def field_char_def word_le_nat_alt)

lemma guest_fields_chars:
  assumes "lowercase_hex nonce 32" "f \<in> set (guest_fields nonce key code out err)" "c \<in> set f"
  shows "field_char c"
proof -
  have "list_all field_char ''KEEP_RESULT_V1''" by code_simp
  then have "c \<in> set ''KEEP_RESULT_V1'' \<Longrightarrow> field_char c" by (simp only: list_all_iff)
  moreover have "c \<in> set nonce \<Longrightarrow> field_char c"
    using assms(1) lower_hex_field by (auto simp: lowercase_hex_def list_all_iff str_bytes_def)
  moreover have "c \<in> set (dec_string k) \<Longrightarrow> field_char c" for k using dec_string_digits digit_field by blast
  moreover have "c \<in> set (hex_string bs) \<Longrightarrow> field_char c" for bs using hex_string_lower lower_hex_field by blast
  ultimately show ?thesis using assms(2,3) unfolding guest_fields_def sha256_hex_def by (elim set_ConsD [THEN disjE]) auto
qed

lemma set_join_with: "c \<in> set (join_with d xss) \<Longrightarrow> c = d \<or> (\<exists>xs \<in> set xss. c \<in> set xs)"
  by (induction d xss rule: join_with.induct) auto

lemma header_line_chars:
  assumes "lowercase_hex nonce 32"
  shows "c \<in> set (join_with CHR '' '' (guest_fields nonce key code out err)) \<Longrightarrow> c = CHR '' '' \<or> field_char c"
  using set_join_with [of c "CHR '' ''" "guest_fields nonce key code out err"] guest_fields_chars [OF assms, where key = key and code = code and out = out and err = err and c = c]
  by blast

lemma header_line_bytes:
  assumes "lowercase_hex nonce 32" "b \<in> set (str_bytes (join_with CHR '' '' (guest_fields nonce key code out err)))"
  shows "0x20 \<le> b \<and> b \<le> 0x7a"
proof -
  obtain c where c: "c \<in> set (join_with CHR '' '' (guest_fields nonce key code out err))" "b = byte_of_char c"
    using assms(2) by (auto simp: str_bytes_def)
  have "byte_of_char CHR '' '' = 0x20" by code_simp
  with header_line_chars [OF assms(1) c(1)] consider "b = 0x20" | "0x30 \<le> b" "b \<le> 0x7a"
    unfolding c(2) field_char_def by fastforce
  then show ?thesis by cases (simp_all add: word_le_nat_alt)
qed

lemma space_not_field: "\<not> field_char CHR '' ''"
  by code_simp

lemma split_guest_fields:
  assumes "lowercase_hex nonce 32"
  shows "split_on CHR '' '' (join_with CHR '' '' (guest_fields nonce key code out err)) = guest_fields nonce key code out err"
proof (rule split_on_join)
  show "guest_fields nonce key code out err \<noteq> []" by (simp add: guest_fields_def)
  show "CHR '' '' \<notin> set f" if "f \<in> set (guest_fields nonce key code out err)" for f
    using guest_fields_chars [OF assms that] space_not_field by blast
qed

lemma length_header_line:
  assumes "lowercase_hex nonce 32" "code \<le> 255" "length out \<le> MAXIMUM_OUTPUT_BYTES" "length err \<le> MAXIMUM_OUTPUT_BYTES"
  shows "length (join_with CHR '' '' (guest_fields nonce key code out err)) \<le> 512"
proof -
  have "length (dec_string code) \<le> 10" "length (dec_string (length out)) \<le> 10" "length (dec_string (length err)) \<le> 10"
    using assms by (simp_all add: length_dec_string MAXIMUM_OUTPUT_BYTES_def)
  then show ?thesis using assms(1) by (simp add: guest_fields_def lowercase_hex_def)
qed

lemma length_end_line: "length nonce = 32 \<Longrightarrow> length (end_line nonce) = 53"
  by (simp add: end_line_def END_MARK_def)

lemma HEADER_guest:
  "\<exists>t. str_bytes (join_with CHR '' '' (guest_fields nonce key code out err)) = HEADER @ str_bytes nonce @ [0x20] @ t"
  by (rule exI [of _ "str_bytes (join_with CHR '' '' (drop 2 (guest_fields nonce key code out err)))"])
    (simp add: guest_fields_def HEADER_def byte_of_char_def)

lemma match_starts_iff:
  "i \<in> set (match_starts serial needle) \<longleftrightarrow> (\<exists>a b. serial = a @ needle @ b \<and> length a = i)"
proof -
  let ?ws = "slice_windows (length needle) serial"
  have "i \<in> set (match_starts serial needle) \<longleftrightarrow> (i, needle) \<in> set (enumerate 0 ?ws)"
    unfolding match_starts_def by force
  also have "\<dots> \<longleftrightarrow> i < length ?ws \<and> ?ws ! i = needle"
    by (simp add: in_set_enumerate_eq)
  also have "\<dots> \<longleftrightarrow> i < length serial + 1 - length needle \<and> take (length needle) (drop i serial) = needle"
    by (auto simp: slice_windows_def)
  also have "\<dots> \<longleftrightarrow> (\<exists>a b. serial = a @ needle @ b \<and> length a = i)"
  proof
    assume *: "i < length serial + 1 - length needle \<and> take (length needle) (drop i serial) = needle"
    then have "serial = take i serial @ needle @ drop (length needle) (drop i serial)" "length (take i serial) = i"
      by (metis append_take_drop_id, auto simp: min_def)
    then show "\<exists>a b. serial = a @ needle @ b \<and> length a = i" by blast
  qed auto
  finally show ?thesis .
qed

lemma find_start_iff:
  "find_start serial nonce = Inr start \<longleftrightarrow>
     match_starts serial (HEADER @ str_bytes nonce @ [0x20]) = [start] \<and> start \<le> MAXIMUM_PREAMBLE"
  by (cases "match_starts serial (HEADER @ str_bytes nonce @ [0x20])") (auto simp: find_start_def Let_def)

lemma guest_fieldsI:
  assumes "length fs = 8" "fs ! 0 = ''KEEP_RESULT_V1''" "fs ! 1 = nonce"
    "drop 2 fs = drop 2 (guest_fields nonce key code out err)"
  shows "fs = guest_fields nonce key code out err"
proof -
  obtain a b ys where "fs = a # b # ys" using assms(1) by (auto simp: length_Suc_conv numeral_eq_Suc)
  then show ?thesis using assms(2-) by (simp add: guest_fields_def)
qed

lemma log_small:
  "length serial \<le> MAXIMUM_PREAMBLE + MAXIMUM_ENVELOPE + MAXIMUM_POSTAMBLE \<Longrightarrow> length serial + 2 * MAXIMUM_OUTPUT_BYTES < usize_max"
  by (simp add: MAXIMUM_PREAMBLE_def MAXIMUM_ENVELOPE_def MAXIMUM_POSTAMBLE_def MAXIMUM_OUTPUT_BYTES_def usize_max_def)

lemma guest_result_sound:
  assumes "parse_candidate_guest_result serial nonce key = Inr r"
  shows "lowercase_hex nonce 32 \<and>
     (\<exists>pre code out err post.
        serial = pre @ guest_envelope nonce key code out err @ post
        \<and> match_starts serial (HEADER @ str_bytes nonce @ [0x20]) = [length pre]
        \<and> length pre \<le> MAXIMUM_PREAMBLE \<and> code \<le> 255
        \<and> length out \<le> MAXIMUM_OUTPUT_BYTES \<and> length err \<le> MAXIMUM_OUTPUT_BYTES
        \<and> \<not> ambiguous post \<and> valid_utf8 out \<and> valid_utf8 err
        \<and> r = reported nonce code out err)"
  (is ?r)
proof -
  from assms obtain line_end start where nonce: "lowercase_hex nonce 32"
    and size: "length serial \<le> MAXIMUM_PREAMBLE + MAXIMUM_ENVELOPE + MAXIMUM_POSTAMBLE"
    and start: "find_start serial nonce = Inr start" and le: "find_header_line serial start = Inr line_end"
    and utf: "valid_utf8 (slice serial start line_end)"
    and fs: "length (split_on CHR '' '' (bytes_str (slice serial start line_end))) = 8"
      "split_on CHR '' '' (bytes_str (slice serial start line_end)) ! 0 = ''KEEP_RESULT_V1''"
      "split_on CHR '' '' (bytes_str (slice serial start line_end)) ! 1 = nonce"
    and p: "parse_payload serial nonce key start line_end (split_on CHR '' '' (bytes_str (slice serial start line_end))) = Inr r"
    by (auto simp: parse_candidate_guest_result_def bnd_eq_Inr Let_def from_utf8_def split: if_splits)
  let ?pre = "take start serial" and ?fs = "split_on CHR '' '' (bytes_str (slice serial start line_end))"
  have starts: "match_starts serial (HEADER @ str_bytes nonce @ [0x20]) = [start]" "start \<le> MAXIMUM_PREAMBLE"
    using start by (simp_all add: find_start_iff)
  then have "start \<in> set (match_starts serial (HEADER @ str_bytes nonce @ [0x20]))" by simp
  then have pre: "length ?pre = start" by (auto simp: match_starts_iff)
  obtain line rest where line: "drop start serial = line @ 0x0a # rest" "line_end = start + length line"
    using le by (auto simp: find_header_line_iff)
  then have serial: "serial = ?pre @ line @ 0x0a # rest" by (metis append_take_drop_id)
  have slice: "slice serial start line_end = line"
    using slice_between [of ?pre line "0x0a # rest"] by (simp only: line(2) pre serial [symmetric])
  have "parse_payload serial nonce key (length ?pre) (length ?pre + length line) ?fs = Inr r"
    using p by (simp only: pre line(2))
  then obtain code out err post where ok: "payload_ok nonce key (length line) ?fs rest code out err post"
    and r: "r = reported nonce code out err"
    using parse_payload_iff [OF log_small [OF size] fs(1) serial, where nonce = nonce and key = key and r = r] by blast
  have "?fs = guest_fields nonce key code out err"
    using guest_fieldsI [OF fs] ok by (simp add: payload_ok_def)
  then have "bytes_str line = join_with CHR '' '' (guest_fields nonce key code out err)"
    using join_split_on [of "CHR '' ''" "bytes_str line"] by (simp add: slice)
  then have "line = str_bytes (join_with CHR '' '' (guest_fields nonce key code out err))"
    by (metis str_bytes_str)
  then have "serial = ?pre @ guest_envelope nonce key code out err @ post"
    using ok serial by (simp add: guest_envelope_def payload_ok_def)
  with nonce starts pre ok r show ?r by (fastforce simp: payload_ok_def)
qed

lemma guest_result_complete:
  assumes "lowercase_hex nonce 32 \<and>
     (\<exists>pre code out err post.
        serial = pre @ guest_envelope nonce key code out err @ post
        \<and> match_starts serial (HEADER @ str_bytes nonce @ [0x20]) = [length pre]
        \<and> length pre \<le> MAXIMUM_PREAMBLE \<and> code \<le> 255
        \<and> length out \<le> MAXIMUM_OUTPUT_BYTES \<and> length err \<le> MAXIMUM_OUTPUT_BYTES
        \<and> \<not> ambiguous post \<and> valid_utf8 out \<and> valid_utf8 err
        \<and> r = reported nonce code out err)"
  shows "parse_candidate_guest_result serial nonce key = Inr r"
proof -
  from assms obtain pre code out err post where nonce: "lowercase_hex nonce 32"
    and serial: "serial = pre @ guest_envelope nonce key code out err @ post"
    and starts: "match_starts serial (HEADER @ str_bytes nonce @ [0x20]) = [length pre]" "length pre \<le> MAXIMUM_PREAMBLE"
    and b: "code \<le> 255" "length out \<le> MAXIMUM_OUTPUT_BYTES" "length err \<le> MAXIMUM_OUTPUT_BYTES"
    and e: "\<not> ambiguous post" "valid_utf8 out" "valid_utf8 err" and r: "r = reported nonce code out err" by blast
  let ?fs = "guest_fields nonce key code out err"
  let ?line = "str_bytes (join_with CHR '' '' ?fs)" and ?rest = "out @ err @ end_line nonce @ post"
  have s: "serial = pre @ ?line @ 0x0a # ?rest" using serial by (simp add: guest_envelope_def)
  have len: "length ?line \<le> 512" "length (end_line nonce) = 53"
    using length_header_line [OF nonce b] length_end_line nonce by (simp_all add: lowercase_hex_def)
  have envelope: "length ?line + 1 + length out + length err + length (end_line nonce) \<le> MAXIMUM_ENVELOPE"
    using len b by (simp add: MAXIMUM_ENVELOPE_def MAXIMUM_OUTPUT_BYTES_def)
  have "length post \<le> MAXIMUM_POSTAMBLE" using e(1) by (simp add: ambiguous_def)
  then have size: "length serial \<le> MAXIMUM_PREAMBLE + MAXIMUM_ENVELOPE + MAXIMUM_POSTAMBLE"
    using starts(2) envelope by (simp add: s)
  have "0x0a \<notin> set ?line" using header_line_bytes [OF nonce] by fastforce
  then have le: "find_header_line serial (length pre) = Inr (length pre + length ?line)"
    using len(1) by (auto simp: find_header_line_iff s)
  have slice: "slice serial (length pre) (length pre + length ?line) = ?line" unfolding s by (rule slice_between)
  have utf: "valid_utf8 ?line"
    using header_line_bytes [OF nonce] by (intro valid_utf8_ascii) (fastforce simp: word_less_nat_alt word_le_nat_alt)
  have ok: "payload_ok nonce key (length ?line) ?fs ?rest code out err post"
    using b e envelope by (simp add: payload_ok_def)
  have "parse_payload serial nonce key (length pre) (length pre + length ?line) ?fs = Inr r"
    using parse_payload_iff [OF log_small [OF size] guest_fields_8 s, where nonce = nonce and key = key and r = r] ok r by blast
  with nonce size starts le slice utf show ?thesis
    by (simp add: parse_candidate_guest_result_def find_start_iff [THEN iffD2] from_utf8_def split_guest_fields [OF nonce] guest_fields_8)
      (simp add: guest_fields_def)
qed

text \<open>C24: The parser of the serial log accepts exactly the logs that hold one envelope with the expected nonce,
  authenticated under the key. An accepted log is a preamble, one envelope (the header with the nonce, the exit code, the
  lengths, the digests of the two outputs and the authentication code over all of them, then the outputs and the
  end line), and a postamble; the header with this nonce starts nowhere else, the parts are within their
  bounds, the postamble holds no second header or end mark, the outputs are UTF-8; and the result
  reports the outputs and the exit code of that envelope. Every such log is accepted with that result.\<close>

theorem guest_result_exact:
  "parse_candidate_guest_result serial nonce key = Inr r \<longleftrightarrow>
     lowercase_hex nonce 32 \<and>
     (\<exists>pre code out err post.
        serial = pre @ guest_envelope nonce key code out err @ post
        \<and> match_starts serial (HEADER @ str_bytes nonce @ [0x20]) = [length pre]
        \<and> length pre \<le> MAXIMUM_PREAMBLE \<and> code \<le> 255
        \<and> length out \<le> MAXIMUM_OUTPUT_BYTES \<and> length err \<le> MAXIMUM_OUTPUT_BYTES
        \<and> \<not> ambiguous post \<and> valid_utf8 out \<and> valid_utf8 err
        \<and> r = reported nonce code out err)"
  using guest_result_sound guest_result_complete by blast

end
