(* ===== verification/Digest_Registry.thy ===== *)
theory Digest_Registry
  imports Cbor "HOL-Library.Multiset"
begin

section \<open>The digest registry\<close>

text \<open>
  \<open>DigestRegistryEntry\<close>, \<open>NATIVE_V2_DIGEST_REGISTRY\<close> and \<open>validate_digest_registry\<close> of
  \<open>native/crates/protocol/src/lib.rs\<close>: which digest of a document is computed over which others. A rank
  per path must strictly grow along every dependency; the relation of the dependencies is shown to be
  well-founded, so no digest is computed, through any chain, over itself.
\<close>

subsection \<open>The tables\<close>

definition DEPLOYMENT_BASE_INPUTS :: "string list" where
  "DEPLOYMENT_BASE_INPUTS =
     [''deployment.payload.predecessorDigest'', ''deployment.payload.artifacts[].digest'',
      ''deployment.payload.roles[].artifactDigest'', ''deployment.payload.roles[].cgroup.ioMaxDigest'',
      ''deployment.payload.roles[].launchSeccompDigest'', ''deployment.payload.roles[].steadySeccompDigest'',
      ''deployment.payload.roles[].landlockDigest'', ''deployment.payload.b3.genesisBaseDigest'',
      ''deployment.payload.b3.b3ProfileEnvelopeDigest'',
      ''deployment.payload.revocation.genesisCheckpointEnvelopeDigest'',
      ''deployment.payload.rollback.predecessorDigest'']"

definition CLOSURE_BASE_INPUTS :: "string list" where
  "CLOSURE_BASE_INPUTS =
     [''closure.payload.a4ReleaseBaseDigest'', ''closure.payload.a4ArtifactInventoryDigest'',
      ''closure.payload.nativeArtifactInventoryDigest'', ''closure.payload.nativeDeploymentPayloadDigest'',
      ''closure.payload.nativeDeploymentEnvelopeDigest'', ''closure.payload.nativePackagePayloadDigest'',
      ''closure.payload.helperArtifactDigest'', ''closure.payload.trampolineArtifactDigest'',
      ''closure.payload.proberArtifactDigest'', ''closure.payload.provisionerArtifactDigests[]'',
      ''closure.payload.protocolDigest'', ''closure.payload.evidenceSchemaDigest'',
      ''closure.payload.sbomEnvelopeDigest'', ''closure.payload.provenanceEnvelopeDigests[]'',
      ''closure.payload.reproducibilityRecordEnvelopeDigest'', ''closure.payload.toolchainClosureEnvelopeDigest'',
      ''closure.payload.releaseTimeRevocationCheckpointEnvelopeDigest'', ''closure.payload.predecessorDigest'',
      ''closure.payload.authorizedRollbackEnvelopeDigest'', ''closure.payload.b0RootEnvelopeDigest'',
      ''closure.payload.b3ProfileEnvelopeDigest'']"

definition DEPLOYMENT_PAYLOAD_INPUTS :: "string list" where
  "DEPLOYMENT_PAYLOAD_INPUTS =
     [''deployment.payload.predecessorDigest'', ''deployment.payload.artifacts[].digest'',
      ''deployment.payload.roles[].artifactDigest'', ''deployment.payload.roles[].cgroup.ioMaxDigest'',
      ''deployment.payload.roles[].launchSeccompDigest'', ''deployment.payload.roles[].steadySeccompDigest'',
      ''deployment.payload.roles[].landlockDigest'', ''deployment.payload.b3.genesisBaseDigest'',
      ''deployment.payload.b3.b3ProfileEnvelopeDigest'',
      ''deployment.payload.revocation.genesisCheckpointEnvelopeDigest'',
      ''deployment.payload.rollback.predecessorDigest'', ''deployment.payload.deploymentBaseDigest'',
      ''deployment.payload.rollback.authorizedRollbackEnvelopeDigest'']"

definition CLOSURE_PAYLOAD_INPUTS :: "string list" where
  "CLOSURE_PAYLOAD_INPUTS =
     [''closure.payload.a4ReleaseBaseDigest'', ''closure.payload.a4ArtifactInventoryDigest'',
      ''closure.payload.nativeArtifactInventoryDigest'', ''closure.payload.nativeDeploymentPayloadDigest'',
      ''closure.payload.nativeDeploymentEnvelopeDigest'', ''closure.payload.nativePackagePayloadDigest'',
      ''closure.payload.helperArtifactDigest'', ''closure.payload.trampolineArtifactDigest'',
      ''closure.payload.proberArtifactDigest'', ''closure.payload.provisionerArtifactDigests[]'',
      ''closure.payload.protocolDigest'', ''closure.payload.evidenceSchemaDigest'',
      ''closure.payload.sbomEnvelopeDigest'', ''closure.payload.provenanceEnvelopeDigests[]'',
      ''closure.payload.reproducibilityRecordEnvelopeDigest'', ''closure.payload.toolchainClosureEnvelopeDigest'',
      ''closure.payload.releaseTimeRevocationCheckpointEnvelopeDigest'', ''closure.payload.predecessorDigest'',
      ''closure.payload.authorizedRollbackEnvelopeDigest'', ''closure.payload.b0RootEnvelopeDigest'',
      ''closure.payload.b3ProfileEnvelopeDigest'', ''closure.payload.nativeClosureBaseDigest'',
      ''closure.payload.timestampRecordEnvelopeDigest'']"

definition INDEX_PAYLOAD_INPUTS :: "string list" where
  "INDEX_PAYLOAD_INPUTS =
     [''index.payload.a4ReleaseBaseDigest'', ''index.payload.deploymentEnvelopeDigest'',
      ''index.payload.nativeClosureEnvelopeDigest'', ''index.payload.b0RootEnvelopeDigest'']"

definition OTHER_DIGEST_PATHS :: "string list" where
  "OTHER_DIGEST_PATHS =
     [''request.manifestDigest'', ''request.roles[].artifactDigest'', ''response.requestDigest'',
      ''response.helperArtifactDigest'', ''response.roleHandles[].incarnationDigest'',
      ''response.roleHandles[].artifactDigest'', ''response.measurements[].transcriptDigest'',
      ''response.evidenceBundleDigest'', ''deployment.payloadDigest'', ''closure.payloadDigest'',
      ''index.payloadDigest'', ''index.payload.a4ReleaseBaseDigest'', ''index.payload.deploymentEnvelopeDigest'',
      ''index.payload.nativeClosureEnvelopeDigest'', ''index.payload.b0RootEnvelopeDigest'',
      ''revocation.payloadDigest'', ''revocation.payload.previousEnvelopeDigest'', ''evidence.manifestDigest'',
      ''evidence.nativeClosureEnvelopeDigest'', ''evidence.helperArtifactDigest'', ''evidence.helperIncarnation'',
      ''evidence.protocolDigest'', ''evidence.requestDigest'', ''evidence.b3ProfileEnvelopeDigest'',
      ''evidence.b3LeaseReceiptEnvelopeDigest'', ''evidence.proberArtifactDigest'', ''evidence.proberIncarnation'',
      ''evidence.revocationEnvelopeDigest'', ''evidence.roles[].artifactDigest'',
      ''evidence.roles[].incarnationDigest'', ''evidence.measurements[].value.ioMaxDigest'',
      ''evidence.measurements[].value.filterDigest'', ''evidence.measurements[].value.rulesetDigest'',
      ''evidence.measurements[].value.entries[].sourceDigest'',
      ''evidence.measurements[].value.entries[].flagsDigest'', ''evidence.measurements[].value.pidfdDigest'',
      ''evidence.measurements[].value.value'', ''evidence.measurements[].value.values[]'',
      ''evidence.measurements[].transcriptDigest'', ''evidence.negativeProbes[].controlDigest'',
      ''evidence.inheritedFdInventory[].flagsDigest'', ''evidence.cleanup.journalDigest'',
      ''evidence.previousEvidenceDigest'', ''revocation.payload.revokedArtifacts[]'']"

definition EVIDENCE_BUNDLE_INPUTS :: "string list" where
  "EVIDENCE_BUNDLE_INPUTS =
     [''evidence.manifestDigest'', ''evidence.nativeClosureEnvelopeDigest'', ''evidence.helperArtifactDigest'',
      ''evidence.helperIncarnation'', ''evidence.protocolDigest'', ''evidence.requestDigest'',
      ''evidence.b3ProfileEnvelopeDigest'', ''evidence.b3LeaseReceiptEnvelopeDigest'',
      ''evidence.proberArtifactDigest'', ''evidence.proberIncarnation'', ''evidence.revocationEnvelopeDigest'',
      ''evidence.roles[].artifactDigest'', ''evidence.roles[].incarnationDigest'',
      ''evidence.measurements[].value.ioMaxDigest'', ''evidence.measurements[].value.filterDigest'',
      ''evidence.measurements[].value.rulesetDigest'', ''evidence.measurements[].value.entries[].sourceDigest'',
      ''evidence.measurements[].value.entries[].flagsDigest'', ''evidence.measurements[].value.pidfdDigest'',
      ''evidence.measurements[].value.value'', ''evidence.measurements[].value.values[]'',
      ''evidence.measurements[].transcriptDigest'', ''evidence.negativeProbes[].controlDigest'',
      ''evidence.inheritedFdInventory[].flagsDigest'', ''evidence.cleanup.journalDigest'',
      ''evidence.previousEvidenceDigest'']"

definition REVOCATION_PAYLOAD_INPUTS :: "string list" where
  "REVOCATION_PAYLOAD_INPUTS =
     [''revocation.payload.previousEnvelopeDigest'', ''revocation.payload.revokedArtifacts[]'']"

definition REQUIRED_DAG_EDGES :: "(string \<times> string list) list" where
  "REQUIRED_DAG_EDGES =
     [(''deployment.payload.deploymentBaseDigest'', DEPLOYMENT_BASE_INPUTS),
      (''deployment.payload.rollback.authorizedRollbackEnvelopeDigest'', [''deployment.payload.deploymentBaseDigest'']),
      (''deployment.payloadDigest'', DEPLOYMENT_PAYLOAD_INPUTS),
      (''request.manifestDigest'', [''deployment.payloadDigest'']),
      (''evidence.manifestDigest'', [''deployment.payloadDigest'']),
      (''closure.payload.nativeDeploymentEnvelopeDigest'', [''deployment.payloadDigest'']),
      (''index.payload.deploymentEnvelopeDigest'', [''deployment.payloadDigest'']),
      (''closure.payload.nativeClosureBaseDigest'', CLOSURE_BASE_INPUTS),
      (''closure.payload.timestampRecordEnvelopeDigest'', [''closure.payload.nativeClosureBaseDigest'']),
      (''closure.payloadDigest'', CLOSURE_PAYLOAD_INPUTS),
      (''index.payload.nativeClosureEnvelopeDigest'', [''closure.payloadDigest'']),
      (''evidence.nativeClosureEnvelopeDigest'', [''closure.payloadDigest'']),
      (''index.payloadDigest'', INDEX_PAYLOAD_INPUTS),
      (''revocation.payloadDigest'', REVOCATION_PAYLOAD_INPUTS),
      (''response.evidenceBundleDigest'', EVIDENCE_BUNDLE_INPUTS)]"

subsection \<open>The entries\<close>

record registry_entry =
  re_path :: string
  re_field :: string
  re_semantic_type :: string
  re_rank :: u8
  re_depends_on :: "string list"

definition deployment_envelope_path :: "string \<Rightarrow> bool" where
  "deployment_envelope_path path \<longleftrightarrow>
     path = ''request.manifestDigest'' \<or> path = ''evidence.manifestDigest'' \<or> ends_with path ''deploymentEnvelopeDigest''
     \<or> ends_with path ''nativeDeploymentEnvelopeDigest''"

definition leaf_rank :: "string \<Rightarrow> u8 \<times> string list" where
  "leaf_rank path =
     (if path = ''revocation.payloadDigest'' then (1, [''revocation.payload.previousEnvelopeDigest''])
      else if ends_with path ''authorizedRollbackEnvelopeDigest'' then (4, [''deployment.payload.deploymentBaseDigest''])
      else if deployment_envelope_path path then (6, [''deployment.payloadDigest''])
      else if ends_with path ''timestampRecordEnvelopeDigest'' then (8, [''closure.payload.nativeClosureBaseDigest''])
      else if ends_with path ''nativeClosureEnvelopeDigest'' then (10, [''closure.payloadDigest''])
      else (0, []))"

text \<open>\<open>rsplit('.').next()\<close> and \<open>strip_suffix("[]")\<close>\<close>

definition leaf_field :: "string \<Rightarrow> string" where
  "leaf_field path =
     (let tail = last (split_on CHR ''.'' path)
      in if ends_with tail ''[]'' then take (length tail - 2) tail else tail)"

definition leaf_semantic_type :: "string \<Rightarrow> string" where
  "leaf_semantic_type path =
     (if deployment_envelope_path path then ''native-deployment-envelope-v1''
      else if ends_with path ''nativeClosureEnvelopeDigest'' then ''native-release-closure-envelope-v1''
      else path)"

definition digest_registry_leaf :: "string \<Rightarrow> string option \<Rightarrow> registry_entry" where
  "digest_registry_leaf path semantic_type =
     \<lparr>re_path = path, re_field = leaf_field path,
      re_semantic_type = (case semantic_type of None \<Rightarrow> leaf_semantic_type path | Some t \<Rightarrow> t),
      re_rank = fst (leaf_rank path), re_depends_on = snd (leaf_rank path)\<rparr>"

definition composite :: "string \<Rightarrow> string \<Rightarrow> string \<Rightarrow> u8 \<Rightarrow> string list \<Rightarrow> registry_entry" where
  "composite path field semantic_type rank inputs =
     \<lparr>re_path = path, re_field = field, re_semantic_type = semantic_type, re_rank = rank, re_depends_on = inputs\<rparr>"

definition COMPOSITES :: "(string \<times> registry_entry) list" where
  "COMPOSITES = map (\<lambda>row. (re_path row, row))
     [composite ''deployment.payloadDigest'' ''payloadDigest'' ''native-deployment-payload-v1'' 5 DEPLOYMENT_PAYLOAD_INPUTS,
      composite ''closure.payloadDigest'' ''payloadDigest'' ''native-release-closure-payload-v1'' 9 CLOSURE_PAYLOAD_INPUTS,
      composite ''index.payloadDigest'' ''payloadDigest'' ''native-release-index-payload-v1'' 11 INDEX_PAYLOAD_INPUTS,
      composite ''revocation.payloadDigest'' ''payloadDigest'' ''native-revocation-payload-v1'' 1 REVOCATION_PAYLOAD_INPUTS,
      composite ''response.evidenceBundleDigest'' ''evidenceBundleDigest'' ''native-evidence-bundle-v1'' 12 EVIDENCE_BUNDLE_INPUTS]"

definition other_entry :: "string \<Rightarrow> registry_entry" where
  "other_entry path = (case map_of COMPOSITES path of Some row \<Rightarrow> row | None \<Rightarrow> digest_registry_leaf path None)"

definition NATIVE_V2_DIGEST_REGISTRY :: "registry_entry list" where
  "NATIVE_V2_DIGEST_REGISTRY =
     map (\<lambda>path. digest_registry_leaf path None) DEPLOYMENT_BASE_INPUTS
     @ [digest_registry_leaf ''deployment.payload.rollback.authorizedRollbackEnvelopeDigest'' None,
        composite ''deployment.payload.deploymentBaseDigest'' ''deploymentBaseDigest'' ''native-deployment-base-v1'' 3
          DEPLOYMENT_BASE_INPUTS]
     @ map (\<lambda>path. digest_registry_leaf path None) CLOSURE_BASE_INPUTS
     @ [digest_registry_leaf ''closure.payload.timestampRecordEnvelopeDigest'' None,
        composite ''closure.payload.nativeClosureBaseDigest'' ''nativeClosureBaseDigest'' ''native-release-closure-base-v1'' 7
          CLOSURE_BASE_INPUTS]
     @ map other_entry OTHER_DIGEST_PATHS"

subsection \<open>Validation\<close>

definition path_step :: "registry_entry \<Rightarrow> (string \<rightharpoonup> u8) \<Rightarrow> (string \<rightharpoonup> u8) pres" where
  "path_step entry by_path =
     (if re_path entry = [] \<or> re_field entry = [] \<or> re_semantic_type entry = [] then Inl ''digest registry identity empty''
      else if by_path (re_path entry) \<noteq> None then Inl ''digest registry path duplicate''
      else Inr (by_path(re_path entry \<mapsto> re_rank entry)))"

definition dependency_check :: "(string \<rightharpoonup> u8) \<Rightarrow> registry_entry \<Rightarrow> string \<Rightarrow> unit pres" where
  "dependency_check by_path entry dependency =
     bnd (ok_or ''digest registry dependency absent'' (by_path dependency)) (\<lambda>rank.
       if re_rank entry \<le> rank then Inl ''digest registry dependency rank invalid'' else Inr ())"

definition required_edges :: "registry_entry \<Rightarrow> unit pres" where
  "required_edges entry =
     (case map_of REQUIRED_DAG_EDGES (re_path entry) of
        None \<Rightarrow> Inr ()
      | Some required \<Rightarrow>
          if sort (re_depends_on entry) \<noteq> sort required then Inl ''digest registry required edges incomplete'' else Inr ())"

definition entry_check :: "(string \<rightharpoonup> u8) \<Rightarrow> registry_entry \<Rightarrow> unit pres" where
  "entry_check by_path entry =
     bnd (for_all (dependency_check by_path entry) (re_depends_on entry)) (\<lambda>_. required_edges entry)"

definition required_node :: "(string \<rightharpoonup> u8) \<Rightarrow> string \<Rightarrow> unit pres" where
  "required_node by_path path =
     (if by_path path = None then Inl ''digest registry required node absent'' else Inr ())"

definition validate_digest_registry :: "registry_entry list \<Rightarrow> unit pres" where
  "validate_digest_registry entries =
     bnd (fold_res path_step entries Map.empty) (\<lambda>by_path.
     bnd (for_all (entry_check by_path) entries) (\<lambda>_.
       for_all (required_node by_path) (map fst REQUIRED_DAG_EDGES)))"

subsection \<open>Acyclicity\<close>

text \<open>The edges from a digest to the digests it is computed over.\<close>

definition computed_over :: "registry_entry list \<Rightarrow> (string \<times> string) set" where
  "computed_over entries = {(dependency, path). \<exists>entry\<in>set entries. path = re_path entry \<and> dependency \<in> set (re_depends_on entry)}"

lemma path_step_Inr:
  "path_step entry by_path = Inr by_path' \<longleftrightarrow>
     re_path entry \<noteq> [] \<and> re_field entry \<noteq> [] \<and> re_semantic_type entry \<noteq> [] \<and> by_path (re_path entry) = None
     \<and> by_path' = by_path(re_path entry \<mapsto> re_rank entry)"
  by (auto simp: path_step_def)

lemma paths_collected:
  assumes "fold_res path_step entries by_path = Inr final"
  shows "distinct (map re_path entries) \<and> (\<forall>entry\<in>set entries. by_path (re_path entry) = None)
    \<and> final = by_path ++ map_of (map (\<lambda>entry. (re_path entry, re_rank entry)) entries)"
  using assms
proof (induction entries arbitrary: by_path)
  case (Cons entry entries)
  then have step: "by_path (re_path entry) = None"
      "fold_res path_step entries (by_path(re_path entry \<mapsto> re_rank entry)) = Inr final"
    by (auto simp: bnd_eq_Inr path_step_Inr)
  from Cons.IH [OF step(2)] have rest: "distinct (map re_path entries)"
    "\<forall>row\<in>set entries. (by_path(re_path entry \<mapsto> re_rank entry)) (re_path row) = None"
    "final = by_path(re_path entry \<mapsto> re_rank entry) ++ map_of (map (\<lambda>row. (re_path row, re_rank row)) entries)" by blast+
  then have new: "re_path entry \<notin> re_path ` set entries" by (force split: if_splits)
  then have "map_of (map (\<lambda>row. (re_path row, re_rank row)) entries) (re_path entry) = None"
    by (auto simp: map_of_eq_None_iff)
  then have final: "final = by_path ++ map_of (map (\<lambda>row. (re_path row, re_rank row)) (entry # entries))"
    unfolding rest(3) by (auto simp: fun_eq_iff map_add_def split: option.splits)
  have "distinct (map re_path (entry # entries))" "\<forall>row\<in>set (entry # entries). by_path (re_path row) = None"
    using step(1) rest(1,2) new by (auto split: if_splits)
  with final show ?case by blast
qed simp

lemma fold_path_step:
  "distinct (map re_path entries) \<Longrightarrow> (\<forall>entry\<in>set entries. by_path (re_path entry) = None) \<Longrightarrow>
   (\<forall>entry\<in>set entries. re_path entry \<noteq> [] \<and> re_field entry \<noteq> [] \<and> re_semantic_type entry \<noteq> []) \<Longrightarrow>
   \<exists>final. fold_res path_step entries by_path = Inr final"
proof (induction entries arbitrary: by_path)
  case (Cons entry entries)
  then have "path_step entry by_path = Inr (by_path(re_path entry \<mapsto> re_rank entry))" by (simp add: path_step_Inr)
  moreover have "\<exists>final. fold_res path_step entries (by_path(re_path entry \<mapsto> re_rank entry)) = Inr final"
    using Cons.prems by (intro Cons.IH) (auto simp: image_iff)
  ultimately show ?case by simp
qed simp

lemma fold_path_step_named:
  "fold_res path_step entries by_path = Inr final \<Longrightarrow>
   \<forall>entry\<in>set entries. re_path entry \<noteq> [] \<and> re_field entry \<noteq> [] \<and> re_semantic_type entry \<noteq> []"
  by (induction entries arbitrary: by_path) (fastforce simp: bnd_eq_Inr path_step_Inr)+

lemma ranked:
  "distinct (map re_path entries) \<Longrightarrow>
   map_of (map (\<lambda>entry. (re_path entry, re_rank entry)) entries) path = Some rank \<longleftrightarrow>
     (\<exists>entry\<in>set entries. re_path entry = path \<and> re_rank entry = rank)"
  by (subst map_of_eq_Some_iff) (auto simp: comp_def)

lemma validate_digest_registry_iff:
  "validate_digest_registry entries = Inr () \<longleftrightarrow>
     distinct (map re_path entries)
     \<and> (\<forall>entry\<in>set entries. re_path entry \<noteq> [] \<and> re_field entry \<noteq> [] \<and> re_semantic_type entry \<noteq> [])
     \<and> (\<forall>entry\<in>set entries. \<forall>path\<in>set (re_depends_on entry).
          \<exists>dependency\<in>set entries. re_path dependency = path \<and> re_rank dependency < re_rank entry)
     \<and> (\<forall>entry\<in>set entries. required_edges entry = Inr ())
     \<and> fst ` set REQUIRED_DAG_EDGES \<subseteq> re_path ` set entries"
  (is "?l \<longleftrightarrow> ?distinct \<and> ?named \<and> ?deps \<and> ?edges \<and> ?nodes")
proof -
  let ?ranks = "map_of (map (\<lambda>entry. (re_path entry, re_rank entry)) entries)"
  have fold: "(\<exists>final. fold_res path_step entries Map.empty = Inr final) \<longleftrightarrow> ?distinct \<and> ?named"
  proof
    assume "\<exists>final. fold_res path_step entries Map.empty = Inr final"
    then obtain final where "fold_res path_step entries Map.empty = Inr final" by blast
    then show "?distinct \<and> ?named" using paths_collected fold_path_step_named by blast
  next
    assume "?distinct \<and> ?named"
    then show "\<exists>final. fold_res path_step entries Map.empty = Inr final" by (intro fold_path_step) simp_all
  qed
  have final: "fold_res path_step entries Map.empty = Inr final \<longleftrightarrow> final = ?ranks \<and> ?distinct \<and> ?named" for final
  proof
    assume f: "fold_res path_step entries Map.empty = Inr final"
    have "final = ?ranks" using paths_collected [OF f] by simp
    then show "final = ?ranks \<and> ?distinct \<and> ?named" using f fold by blast
  next
    assume r: "final = ?ranks \<and> ?distinct \<and> ?named"
    then obtain other where "fold_res path_step entries Map.empty = Inr other" using fold by blast
    moreover from paths_collected [OF this] have "other = ?ranks" by simp
    ultimately show "fold_res path_step entries Map.empty = Inr final" using r by simp
  qed
  have l: "?l \<longleftrightarrow> ?distinct \<and> ?named \<and> for_all (entry_check ?ranks) entries = Inr ()
      \<and> for_all (required_node ?ranks) (map fst REQUIRED_DAG_EDGES) = Inr ()"
    unfolding validate_digest_registry_def bnd_eq_Inr final by auto
  have dep: "is_ok (dependency_check ?ranks entry path) \<longleftrightarrow>
      (\<exists>dependency\<in>set entries. re_path dependency = path \<and> re_rank dependency < re_rank entry)"
    if ?distinct for entry path
  proof -
    have "is_ok (dependency_check ?ranks entry path) \<longleftrightarrow> (\<exists>rank. ?ranks path = Some rank \<and> rank < re_rank entry)"
      by (cases "?ranks path") (auto simp: dependency_check_def is_ok_iff not_le split: if_splits)
    then show ?thesis unfolding ranked [OF that] by blast
  qed
  have entry: "is_ok (entry_check ?ranks entry) \<longleftrightarrow>
      (\<forall>path\<in>set (re_depends_on entry). \<exists>dependency\<in>set entries. re_path dependency = path \<and> re_rank dependency < re_rank entry)
      \<and> required_edges entry = Inr ()" if ?distinct for entry
    using dep [OF that, of entry] by (simp add: entry_check_def is_ok_iff bnd_eq_Inr for_all_ok)
  have nodes: "for_all (required_node ?ranks) (map fst REQUIRED_DAG_EDGES) = Inr () \<longleftrightarrow> ?nodes" if ?distinct
  proof -
    have "is_ok (required_node ?ranks path) \<longleftrightarrow> (\<exists>rank. ?ranks path = Some rank)" for path
      by (cases "?ranks path") (simp_all add: required_node_def)
    then have "is_ok (required_node ?ranks path) \<longleftrightarrow> path \<in> re_path ` set entries" for path
      unfolding ranked [OF that] by auto
    then show ?thesis by (auto simp: for_all_ok)
  qed
  show ?thesis
  proof (cases ?distinct)
    case True
    have "for_all (entry_check ?ranks) entries = Inr () \<longleftrightarrow> ?deps \<and> ?edges"
      unfolding for_all_ok entry [OF True] by blast
    then show ?thesis unfolding l nodes [OF True] by simp
  qed (simp add: l)
qed

lemma computed_over_wf:
  assumes "validate_digest_registry entries = Inr ()"
  shows "wf (computed_over entries)"
proof -
  have distinct: "distinct (map re_path entries)"
    and deps: "\<forall>entry\<in>set entries. \<forall>path\<in>set (re_depends_on entry).
      \<exists>dependency\<in>set entries. re_path dependency = path \<and> re_rank dependency < re_rank entry"
    using assms by (auto simp: validate_digest_registry_iff)
  let ?rank = "\<lambda>path. unat (the (map_of (map (\<lambda>entry. (re_path entry, re_rank entry)) entries) path))"
  have rank: "?rank (re_path entry) = unat (re_rank entry)" if "entry \<in> set entries" for entry
    using ranked [OF distinct, of "re_path entry" "re_rank entry"] that by auto
  have "computed_over entries \<subseteq> measure ?rank"
    using deps rank unfolding computed_over_def by (fastforce simp: word_less_nat_alt)
  then show ?thesis using wf_measure wf_subset by blast
qed

subsection \<open>The shipped registry is valid\<close>

lemma leaf_member:
  "path \<in> set DEPLOYMENT_BASE_INPUTS \<or> path \<in> set CLOSURE_BASE_INPUTS \<Longrightarrow> digest_registry_leaf path None \<in> set NATIVE_V2_DIGEST_REGISTRY"
  "path \<in> set OTHER_DIGEST_PATHS \<Longrightarrow> other_entry path \<in> set NATIVE_V2_DIGEST_REGISTRY"
  by (auto simp: NATIVE_V2_DIGEST_REGISTRY_def)

lemma shipped_paths:
  "map re_path NATIVE_V2_DIGEST_REGISTRY =
     DEPLOYMENT_BASE_INPUTS @ [''deployment.payload.rollback.authorizedRollbackEnvelopeDigest'', ''deployment.payload.deploymentBaseDigest'']
     @ CLOSURE_BASE_INPUTS @ [''closure.payload.timestampRecordEnvelopeDigest'', ''closure.payload.nativeClosureBaseDigest'']
     @ OTHER_DIGEST_PATHS"
proof -
  have "re_path (other_entry path) = path" for path
    by (auto simp: other_entry_def COMPOSITES_def digest_registry_leaf_def composite_def)
  then show ?thesis
    by (simp add: NATIVE_V2_DIGEST_REGISTRY_def digest_registry_leaf_def composite_def comp_def)
qed

definition DEPLOYMENT_PATHS :: "string list" where
  "DEPLOYMENT_PATHS = DEPLOYMENT_BASE_INPUTS
     @ [''deployment.payload.rollback.authorizedRollbackEnvelopeDigest'', ''deployment.payload.deploymentBaseDigest'']"

definition CLOSURE_PATHS :: "string list" where
  "CLOSURE_PATHS = CLOSURE_BASE_INPUTS
     @ [''closure.payload.timestampRecordEnvelopeDigest'', ''closure.payload.nativeClosureBaseDigest'']"

lemma path_prefixes:
  "list_all (\<lambda>path. starts_with path ''deployment.payload.'') DEPLOYMENT_PATHS"
  "list_all (\<lambda>path. starts_with path ''closure.payload.'') CLOSURE_PATHS"
  "list_all (\<lambda>path. \<not> starts_with path ''deployment.payload.'' \<and> \<not> starts_with path ''closure.payload.'') OTHER_DIGEST_PATHS"
  "list_all (\<lambda>path. \<not> starts_with path ''deployment.payload.'') CLOSURE_PATHS"
  by code_simp+

lemma paths_distinct: "distinct DEPLOYMENT_PATHS" "distinct CLOSURE_PATHS" "distinct OTHER_DIGEST_PATHS"
  by code_simp+

lemma shipped_distinct: "distinct (map re_path NATIVE_V2_DIGEST_REGISTRY)"
proof -
  have "distinct (DEPLOYMENT_PATHS @ CLOSURE_PATHS @ OTHER_DIGEST_PATHS)"
    using paths_distinct path_prefixes by (auto simp: list_all_iff)
  then show ?thesis by (simp add: shipped_paths DEPLOYMENT_PATHS_def CLOSURE_PATHS_def)
qed

lemma shipped_named:
  "entry \<in> set NATIVE_V2_DIGEST_REGISTRY \<Longrightarrow> re_path entry \<noteq> [] \<and> re_field entry \<noteq> [] \<and> re_semantic_type entry \<noteq> []"
proof -
  have "list_all (\<lambda>entry. re_path entry \<noteq> [] \<and> re_field entry \<noteq> [] \<and> re_semantic_type entry \<noteq> []) NATIVE_V2_DIGEST_REGISTRY"
    by code_simp
  then show "entry \<in> set NATIVE_V2_DIGEST_REGISTRY \<Longrightarrow> ?thesis" by (simp add: list_all_iff)
qed

text \<open>The entries at the paths of the required DAG.\<close>

definition REQUIRED_ENTRIES :: "registry_entry list" where
  "REQUIRED_ENTRIES =
     [composite ''deployment.payload.deploymentBaseDigest'' ''deploymentBaseDigest'' ''native-deployment-base-v1'' 3
        DEPLOYMENT_BASE_INPUTS,
      digest_registry_leaf ''deployment.payload.rollback.authorizedRollbackEnvelopeDigest'' None]
     @ map other_entry [''deployment.payloadDigest'', ''request.manifestDigest'', ''evidence.manifestDigest'']
     @ [digest_registry_leaf ''closure.payload.nativeDeploymentEnvelopeDigest'' None]
     @ map other_entry [''index.payload.deploymentEnvelopeDigest'']
     @ [composite ''closure.payload.nativeClosureBaseDigest'' ''nativeClosureBaseDigest'' ''native-release-closure-base-v1'' 7
          CLOSURE_BASE_INPUTS,
        digest_registry_leaf ''closure.payload.timestampRecordEnvelopeDigest'' None]
     @ map other_entry [''closure.payloadDigest'', ''index.payload.nativeClosureEnvelopeDigest'',
          ''evidence.nativeClosureEnvelopeDigest'', ''index.payloadDigest'', ''revocation.payloadDigest'',
          ''response.evidenceBundleDigest'']"

lemma required_entries: "map (\<lambda>entry. (re_path entry, re_depends_on entry)) REQUIRED_ENTRIES = REQUIRED_DAG_EDGES"
  by code_simp

lemma required_entries_shipped: "set REQUIRED_ENTRIES \<subseteq> set NATIVE_V2_DIGEST_REGISTRY"
proof -
  have "''closure.payload.nativeDeploymentEnvelopeDigest'' \<in> set CLOSURE_BASE_INPUTS" by code_simp
  moreover have "list_all (\<lambda>path. path \<in> set OTHER_DIGEST_PATHS)
      [''deployment.payloadDigest'', ''request.manifestDigest'', ''evidence.manifestDigest'',
       ''index.payload.deploymentEnvelopeDigest'', ''closure.payloadDigest'', ''index.payload.nativeClosureEnvelopeDigest'',
       ''evidence.nativeClosureEnvelopeDigest'', ''index.payloadDigest'', ''revocation.payloadDigest'',
       ''response.evidenceBundleDigest'']" by code_simp
  ultimately show ?thesis by (simp add: REQUIRED_ENTRIES_def NATIVE_V2_DIGEST_REGISTRY_def)
qed

lemma shipped_nodes: "fst ` set REQUIRED_DAG_EDGES \<subseteq> re_path ` set NATIVE_V2_DIGEST_REGISTRY"
  using required_entries_shipped by (auto simp flip: required_entries)

lemma shipped_edges: "entry \<in> set NATIVE_V2_DIGEST_REGISTRY \<Longrightarrow> required_edges entry = Inr ()"
proof (cases "map_of REQUIRED_DAG_EDGES (re_path entry)")
  case (Some required)
  then have "(re_path entry, required) \<in> set (map (\<lambda>entry. (re_path entry, re_depends_on entry)) REQUIRED_ENTRIES)"
    unfolding required_entries by (rule map_of_SomeD)
  then obtain e where e: "e \<in> set NATIVE_V2_DIGEST_REGISTRY" "re_path e = re_path entry" "re_depends_on e = required"
    using required_entries_shipped by auto
  moreover assume "entry \<in> set NATIVE_V2_DIGEST_REGISTRY"
  ultimately have "e = entry" using shipped_distinct by (auto simp: distinct_map dest: inj_onD)
  with e Some show ?thesis by (simp add: required_edges_def)
qed (simp add: required_edges_def)

definition supported :: "string list \<Rightarrow> u8 \<Rightarrow> bool" where
  "supported paths rank \<longleftrightarrow>
     (\<forall>path\<in>set paths. \<exists>dependency\<in>set NATIVE_V2_DIGEST_REGISTRY. re_path dependency = path \<and> re_rank dependency < rank)"

lemma supported_leaves:
  assumes "set paths \<subseteq> set DEPLOYMENT_BASE_INPUTS \<or> set paths \<subseteq> set CLOSURE_BASE_INPUTS"
    "list_all (\<lambda>path. fst (leaf_rank path) < rank) paths"
  shows "supported paths rank"
  unfolding supported_def
proof
  fix path assume p: "path \<in> set paths"
  then have "digest_registry_leaf path None \<in> set NATIVE_V2_DIGEST_REGISTRY" using assms(1) by (intro leaf_member(1)) auto
  then show "\<exists>dependency\<in>set NATIVE_V2_DIGEST_REGISTRY. re_path dependency = path \<and> re_rank dependency < rank"
    using p assms(2) by (intro bexI [of _ "digest_registry_leaf path None"]) (auto simp: digest_registry_leaf_def list_all_iff)
qed

lemma supported_others:
  assumes "list_all (\<lambda>path. path \<in> set OTHER_DIGEST_PATHS \<and> re_path (other_entry path) = path \<and> re_rank (other_entry path) < rank) paths"
  shows "supported paths rank"
  using assms leaf_member(2) unfolding supported_def list_all_iff by blast

lemma supported_append: "supported (xs @ ys) rank \<longleftrightarrow> supported xs rank \<and> supported ys rank"
  by (auto simp: supported_def)

lemma supported_Nil: "supported [] rank"
  by (simp add: supported_def)

lemma supported_entry: "entry \<in> set NATIVE_V2_DIGEST_REGISTRY \<Longrightarrow> re_rank entry < rank \<Longrightarrow> supported [re_path entry] rank"
  by (auto simp: supported_def)

lemma supported_inputs:
  "supported DEPLOYMENT_BASE_INPUTS 3" "supported CLOSURE_BASE_INPUTS 7"
  by (rule supported_leaves; code_simp)+

lemma supported_others_inputs:
  "supported INDEX_PAYLOAD_INPUTS 11" "supported EVIDENCE_BUNDLE_INPUTS 12" "supported REVOCATION_PAYLOAD_INPUTS 1"
  "supported [''deployment.payloadDigest''] 6" "supported [''closure.payloadDigest''] 10"
  "supported [''revocation.payload.previousEnvelopeDigest''] 1"
  by (rule supported_others, code_simp)+

lemma payload_inputs:
  "DEPLOYMENT_PAYLOAD_INPUTS = DEPLOYMENT_BASE_INPUTS
     @ [''deployment.payload.deploymentBaseDigest'', ''deployment.payload.rollback.authorizedRollbackEnvelopeDigest'']"
  "CLOSURE_PAYLOAD_INPUTS = CLOSURE_BASE_INPUTS
     @ [''closure.payload.nativeClosureBaseDigest'', ''closure.payload.timestampRecordEnvelopeDigest'']"
  by (simp_all add: DEPLOYMENT_PAYLOAD_INPUTS_def DEPLOYMENT_BASE_INPUTS_def CLOSURE_PAYLOAD_INPUTS_def CLOSURE_BASE_INPUTS_def)

definition ROLLBACK_ENTRY :: registry_entry where
  "ROLLBACK_ENTRY = digest_registry_leaf ''deployment.payload.rollback.authorizedRollbackEnvelopeDigest'' None"

definition DEPLOYMENT_BASE_ENTRY :: registry_entry where
  "DEPLOYMENT_BASE_ENTRY = composite ''deployment.payload.deploymentBaseDigest'' ''deploymentBaseDigest''
     ''native-deployment-base-v1'' 3 DEPLOYMENT_BASE_INPUTS"

definition TIMESTAMP_ENTRY :: registry_entry where
  "TIMESTAMP_ENTRY = digest_registry_leaf ''closure.payload.timestampRecordEnvelopeDigest'' None"

definition CLOSURE_BASE_ENTRY :: registry_entry where
  "CLOSURE_BASE_ENTRY = composite ''closure.payload.nativeClosureBaseDigest'' ''nativeClosureBaseDigest''
     ''native-release-closure-base-v1'' 7 CLOSURE_BASE_INPUTS"

lemma base_entries_shipped:
  "ROLLBACK_ENTRY \<in> set NATIVE_V2_DIGEST_REGISTRY" "DEPLOYMENT_BASE_ENTRY \<in> set NATIVE_V2_DIGEST_REGISTRY"
  "TIMESTAMP_ENTRY \<in> set NATIVE_V2_DIGEST_REGISTRY" "CLOSURE_BASE_ENTRY \<in> set NATIVE_V2_DIGEST_REGISTRY"
  unfolding NATIVE_V2_DIGEST_REGISTRY_def ROLLBACK_ENTRY_def [symmetric] DEPLOYMENT_BASE_ENTRY_def [symmetric]
    TIMESTAMP_ENTRY_def [symmetric] CLOSURE_BASE_ENTRY_def [symmetric]
  by simp_all

lemma base_ranks:
  "re_path ROLLBACK_ENTRY = ''deployment.payload.rollback.authorizedRollbackEnvelopeDigest''" "re_rank ROLLBACK_ENTRY = 4"
  "re_path DEPLOYMENT_BASE_ENTRY = ''deployment.payload.deploymentBaseDigest''" "re_rank DEPLOYMENT_BASE_ENTRY = 3"
  "re_path TIMESTAMP_ENTRY = ''closure.payload.timestampRecordEnvelopeDigest''" "re_rank TIMESTAMP_ENTRY = 8"
  "re_path CLOSURE_BASE_ENTRY = ''closure.payload.nativeClosureBaseDigest''" "re_rank CLOSURE_BASE_ENTRY = 7"
  by code_simp+

lemma supported_Cons: "supported (path # paths) rank \<longleftrightarrow> supported [path] rank \<and> supported paths rank"
  by (simp add: supported_def)

lemma supported_base:
  "4 < rank \<Longrightarrow> supported [''deployment.payload.rollback.authorizedRollbackEnvelopeDigest''] rank"
  "3 < rank \<Longrightarrow> supported [''deployment.payload.deploymentBaseDigest''] rank"
  "8 < rank \<Longrightarrow> supported [''closure.payload.timestampRecordEnvelopeDigest''] rank"
  "7 < rank \<Longrightarrow> supported [''closure.payload.nativeClosureBaseDigest''] rank"
  using supported_entry [OF base_entries_shipped(1)] supported_entry [OF base_entries_shipped(2)]
    supported_entry [OF base_entries_shipped(3)] supported_entry [OF base_entries_shipped(4)]
  by (simp_all only: base_ranks)

lemma supported_payloads: "supported DEPLOYMENT_PAYLOAD_INPUTS 5" "supported CLOSURE_PAYLOAD_INPUTS 9"
proof -
  have weaker: "supported paths rank \<Longrightarrow> rank \<le> rank' \<Longrightarrow> supported paths rank'" for paths rank rank'
    by (force simp: supported_def)
  show "supported DEPLOYMENT_PAYLOAD_INPUTS 5" "supported CLOSURE_PAYLOAD_INPUTS 9"
    unfolding payload_inputs supported_append
    using weaker [OF supported_inputs(1), of 5] weaker [OF supported_inputs(2), of 9]
    by (simp_all add: supported_Cons [of _ "[_]"] supported_base)
qed

lemma supported_leaf: "supported (snd (leaf_rank path)) (fst (leaf_rank path))"
  unfolding leaf_rank_def by (simp add: supported_Nil supported_others_inputs supported_base)

lemma supported_composites: "(path, entry) \<in> set COMPOSITES \<Longrightarrow> supported (re_depends_on entry) (re_rank entry)"
  by (auto simp: COMPOSITES_def composite_def supported_payloads supported_others_inputs)

lemma shipped_supported:
  assumes "entry \<in> set NATIVE_V2_DIGEST_REGISTRY"
  shows "supported (re_depends_on entry) (re_rank entry)"
proof -
  have leaf: "supported (re_depends_on (digest_registry_leaf path t)) (re_rank (digest_registry_leaf path t))" for path t
    by (simp add: digest_registry_leaf_def supported_leaf)
  have other: "supported (re_depends_on (other_entry path)) (re_rank (other_entry path))" for path
    using leaf supported_composites [OF map_of_SomeD, of path] by (simp add: other_entry_def split: option.splits)
  show ?thesis using assms leaf other supported_inputs by (auto simp: NATIVE_V2_DIGEST_REGISTRY_def composite_def)
qed

lemma shipped_registry_valid: "validate_digest_registry NATIVE_V2_DIGEST_REGISTRY = Inr ()"
  unfolding validate_digest_registry_iff
  using shipped_distinct shipped_named shipped_edges shipped_nodes shipped_supported by (simp add: supported_def)

subsection \<open>Dependencies end\<close>

lemma required_dependencies:
  assumes "validate_digest_registry entries = Inr ()" "(path, required) \<in> set REQUIRED_DAG_EDGES"
  shows "\<exists>entry\<in>set entries. re_path entry = path \<and> mset (re_depends_on entry) = mset required"
proof -
  have "distinct (map fst REQUIRED_DAG_EDGES)" by code_simp
  with assms(2) have required: "map_of REQUIRED_DAG_EDGES path = Some required" by simp
  obtain entry where entry: "entry \<in> set entries" "re_path entry = path" "required_edges entry = Inr ()"
    using assms by (force simp: validate_digest_registry_iff)
  with required have "sort (re_depends_on entry) = sort required" by (simp add: required_edges_def split: if_splits)
  then have "mset (re_depends_on entry) = mset required" by (metis mset_sort)
  with entry show ?thesis by blast
qed

text \<open>C25: Following what a digest is computed over always ends. In a registry that passes
  \<open>validate_digest_registry\<close> the relation of the dependencies is well-founded, so no digest commits to itself
  through any chain; every dependency is an entry; and each path of the required DAG is an entry whose
  dependencies are, as a multiset, exactly the required ones.\<close>

theorem digest_dependencies_end:
  "validate_digest_registry entries = Inr () \<Longrightarrow>
     wf (computed_over entries) \<and> Domain (computed_over entries) \<subseteq> re_path ` set entries
     \<and> (\<forall>(path, required)\<in>set REQUIRED_DAG_EDGES. \<exists>entry\<in>set entries. re_path entry = path \<and> mset (re_depends_on entry) = mset required)"
proof (intro conjI)
  assume valid: "validate_digest_registry entries = Inr ()"
  then show "wf (computed_over entries)" by (rule computed_over_wf)
  show "Domain (computed_over entries) \<subseteq> re_path ` set entries"
  proof
    fix path assume "path \<in> Domain (computed_over entries)"
    then obtain entry where "entry \<in> set entries" "path \<in> set (re_depends_on entry)"
      by (auto simp: computed_over_def)
    moreover have "\<forall>entry\<in>set entries. \<forall>path\<in>set (re_depends_on entry).
        \<exists>dependency\<in>set entries. re_path dependency = path \<and> re_rank dependency < re_rank entry"
      using valid by (simp add: validate_digest_registry_iff)
    ultimately obtain dependency where "dependency \<in> set entries" "re_path dependency = path" by blast
    then show "path \<in> re_path ` set entries" by blast
  qed
  show "\<forall>(path, required)\<in>set REQUIRED_DAG_EDGES. \<exists>entry\<in>set entries. re_path entry = path \<and> mset (re_depends_on entry) = mset required"
    by (rule ballI, simp only: split_paired_all prod.case, rule required_dependencies [OF valid])
qed

theorem digest_dependencies_end_witness: "wf (computed_over NATIVE_V2_DIGEST_REGISTRY)"
  using digest_dependencies_end [OF shipped_registry_valid] by blast

end
