(* ===== verification/Kernel_Io.thy ===== *)
theory Kernel_Io
  imports Rust_Bytes
begin

section \<open>Operations on kernel objects\<close>

text \<open>
  The vocabulary of \<open>linux-abi/src/lib.rs\<close>: identities of files and filesystems, the machine-readable
  capture failures, and the operations the code calls. The kernel is not code of the
  repository: it is the record argument \<open>kernel\<close>, whose fields are the system calls (and the
  \<open>std::fs\<close> methods that are one system call each), each a function of the kernel's state. An
  operation of the code is a function from a kernel state to a result and the next state. The loops
  of \<open>std::io\<close> that the code relies on (\<open>read_exact\<close>, \<open>read_to_end\<close> on a \<open>Take\<close>) are written
  out over single reads. Descriptors are closed on drop; that has no effect in the model.
\<close>

subsection \<open>Identities and failures\<close>

record file_identity =
  device :: u64
  inode :: u64
  fi_mode :: u32
  links :: u64
  uid :: u32
  gid :: u32
  fi_size :: u64
  modified_seconds :: "64 word"
  modified_nanoseconds :: "64 word"
  changed_seconds :: "64 word"
  changed_nanoseconds :: "64 word"

record filesystem_identity =
  mount_id :: u64
  filesystem_type :: u64
  read_only :: bool

definition S_IFMT :: u32 where "S_IFMT = 0xF000"
definition is_dir :: "file_identity \<Rightarrow> bool" where "is_dir i \<longleftrightarrow> fi_mode i AND S_IFMT = 0x4000"
definition is_file :: "file_identity \<Rightarrow> bool" where "is_file i \<longleftrightarrow> fi_mode i AND S_IFMT = 0x8000"

datatype capture_failure = Path_Refused | Type_Refused | Limit_Reached | Race_Seen | Unsupported_Here

datatype errno =
    ENOSYS | EOPNOTSUPP | EINVAL | ELOOP | EXDEV | ENAMETOOLONG | ENOTDIR | EISDIR | EFBIG | ENOMEM
  | EMFILE | ENFILE | ESTALE | EAGAIN | EINTR | Other_Errno nat

text \<open>\<open>Os\<close>: an error of the kernel; \<open>Unexpected_Eof\<close>: of \<open>read_exact\<close>; \<open>Invalid_Data\<close> and
  \<open>Capture\<close>: made by \<open>invalid\<close> and \<open>capture_error\<close>; \<open>Unsupported_Kind\<close>: \<open>io::Error::new\<close> with the
  kind \<open>Unsupported\<close> and a message.\<close>

datatype io_error =
    Os errno | Unexpected_Eof | Invalid_Data string | Unsupported_Kind string | Capture capture_failure

definition capture_failure_from_io :: "io_error \<Rightarrow> capture_failure option" where
  "capture_failure_from_io e =
     (case e of
        Capture f \<Rightarrow> Some f
      | Os c \<Rightarrow>
          (if c \<in> {ENOSYS, EOPNOTSUPP, EINVAL} then Some Unsupported_Here
           else if c \<in> {ELOOP, EXDEV, ENAMETOOLONG, ENOTDIR} then Some Path_Refused
           else if c = EISDIR then Some Type_Refused
           else if c \<in> {EFBIG, ENOMEM, EMFILE, ENFILE} then Some Limit_Reached
           else if c \<in> {ESTALE, EAGAIN} then Some Race_Seen
           else None)
      | _ \<Rightarrow> None)"

subsection \<open>Sequencing\<close>

type_synonym ('s, 'e, 'a) action = "'s \<Rightarrow> ('e, 'a) res \<times> 's"
type_synonym ('s, 'a) io = "('s, io_error, 'a) action"

definition io_ret :: "'a \<Rightarrow> ('s, 'e, 'a) action" where "io_ret x = (\<lambda>s. (Inr x, s))"
definition io_fail :: "'e \<Rightarrow> ('s, 'e, 'a) action" where "io_fail e = (\<lambda>s. (Inl e, s))"

definition io_bind :: "('s, 'e, 'a) action \<Rightarrow> ('a \<Rightarrow> ('s, 'e, 'b) action) \<Rightarrow> ('s, 'e, 'b) action" where
  "io_bind m f = (\<lambda>s. case m s of (Inl e, t) \<Rightarrow> (Inl e, t) | (Inr x, t) \<Rightarrow> f x t)"

definition io_map_err :: "('e \<Rightarrow> 'f) \<Rightarrow> ('s, 'e, 'a) action \<Rightarrow> ('s, 'f, 'a) action" where
  "io_map_err g m = (\<lambda>s. case m s of (Inl e, t) \<Rightarrow> (Inl (g e), t) | (Inr x, t) \<Rightarrow> (Inr x, t))"

definition io_lift :: "('e, 'a) res \<Rightarrow> ('s, 'e, 'a) action" where "io_lift r = (\<lambda>s. (r, s))"

abbreviation io_invalid :: "string \<Rightarrow> ('s, 'a) io" where "io_invalid m \<equiv> io_fail (Invalid_Data m)"
abbreviation io_capture :: "capture_failure \<Rightarrow> ('s, 'a) io" where "io_capture f \<equiv> io_fail (Capture f)"

named_theorems io_simps \<open>inverting actions that succeed\<close>

lemma io_ret_Inr [io_simps]: "io_ret x s = (Inr y, t) \<longleftrightarrow> y = x \<and> t = s"
  by (auto simp: io_ret_def)

lemma io_fail_Inr [io_simps]: "io_fail e s = (Inr y, t) \<longleftrightarrow> False"
  by (simp add: io_fail_def)

lemma io_lift_Inr [io_simps]: "io_lift r s = (Inr y, t) \<longleftrightarrow> r = Inr y \<and> t = s"
  by (auto simp: io_lift_def)

lemma io_bind_Inr [io_simps]: "io_bind m f s = (Inr y, u) \<longleftrightarrow> (\<exists>x t. m s = (Inr x, t) \<and> f x t = (Inr y, u))"
  by (auto simp: io_bind_def split: prod.splits sum.splits)

lemma io_map_err_Inr [io_simps]: "io_map_err g m s = (Inr y, t) \<longleftrightarrow> m s = (Inr y, t)"
  by (auto simp: io_map_err_def split: prod.splits sum.splits)

lemma io_if_Inr [io_simps]:
  "(if c then m else n) s = (Inr y, t) \<longleftrightarrow> (if c then m s = (Inr y, t) else n s = (Inr y, t))"
  by simp

lemma io_run [simp]:
  "io_ret x s = (Inr x, s)"
  "io_fail e s = (Inl e, s)"
  "m s = (Inr x, t) \<Longrightarrow> io_bind m f s = f x t"
  "m s = (Inl e, t) \<Longrightarrow> io_bind m f s = (Inl e, t)"
  "m s = (Inr x, t) \<Longrightarrow> io_map_err g m s = (Inr x, t)"
  "m s = (Inl e, t) \<Longrightarrow> io_map_err g m s = (Inl (g e), t)"
  by (simp_all add: io_ret_def io_fail_def io_bind_def io_map_err_def)

lemma io_bind_cong [fundef_cong]:
  "m s = m' s' \<Longrightarrow> (\<And>x t. m' s' = (Inr x, t) \<Longrightarrow> f x t = g x t) \<Longrightarrow> io_bind m f s = io_bind m' g s'"
  by (auto simp: io_bind_def split: prod.splits sum.splits)

text \<open>A loop over a list, stopping at the first error.\<close>

fun io_fold :: "('a \<Rightarrow> 'b \<Rightarrow> ('s, 'e, 'b) action) \<Rightarrow> 'a list \<Rightarrow> 'b \<Rightarrow> ('s, 'e, 'b) action" where
  "io_fold f [] b = io_ret b"
| "io_fold f (x # xs) b = io_bind (f x b) (io_fold f xs)"

subsection \<open>The kernel\<close>

datatype open_flag =
    O_RDONLY | O_WRONLY | O_RDWR | O_DIRECTORY | O_CLOEXEC | O_PATH | O_NONBLOCK | O_NOCTTY | O_CREAT
  | O_EXCL | O_NOFOLLOW

datatype resolve_flag = RESOLVE_BENEATH | RESOLVE_NO_SYMLINKS | RESOLVE_NO_MAGICLINKS | RESOLVE_NO_XDEV

record open_how =
  how_flags :: "open_flag set"
  how_mode :: u32
  how_resolve :: "resolve_flag set"

datatype seal = F_SEAL_WRITE | F_SEAL_SHRINK | F_SEAL_GROW | F_SEAL_SEAL | F_SEAL_EXEC
datatype memfd_flag = MFD_CLOEXEC | MFD_ALLOW_SEALING | MFD_EXEC | MFD_NOEXEC_SEAL

text \<open>\<open>sys_statx\<close> returns whether the kernel filled the unique mount identity and that identity;
  \<open>sys_fstatfs\<close> the filesystem's magic number; \<open>sys_fstatvfs\<close> whether \<open>ST_RDONLY\<close> is set;
  \<open>sys_readdir\<close> the \<open>d_name\<close> array of the next entry, if there is one;
  \<open>may_reserve\<close> whether the allocator grants a reservation. The loops of \<open>std::io\<close> repeat a read that a
  signal interrupts: \<open>sys_read\<close> is the read with these repetitions, so in \<open>read_exact\<close> and
  \<open>read_to_limit\<close> it answers with bytes or with an error that ends the loop.\<close>

record ('s, 'f) kernel =
  sys_root :: "('s, 'f) io"
  sys_openat2 :: "'f \<Rightarrow> string \<Rightarrow> open_how \<Rightarrow> ('s, 'f) io"
  sys_fstat :: "'f \<Rightarrow> ('s, file_identity) io"
  sys_fstatfs :: "'f \<Rightarrow> ('s, u64) io"
  sys_fstatvfs :: "'f \<Rightarrow> ('s, bool) io"
  sys_statx :: "'f \<Rightarrow> ('s, bool \<times> u64) io"
  sys_dup :: "'f \<Rightarrow> ('s, 'f) io"
  sys_seek :: "'f \<Rightarrow> nat \<Rightarrow> ('s, unit) io"
  sys_read :: "'f \<Rightarrow> nat \<Rightarrow> ('s, bytes) io"
  sys_write_all :: "'f \<Rightarrow> bytes \<Rightarrow> ('s, unit) io"
  sys_flush :: "'f \<Rightarrow> ('s, unit) io"
  sys_fsync :: "'f \<Rightarrow> ('s, unit) io"
  sys_fchmod :: "'f \<Rightarrow> u32 \<Rightarrow> ('s, unit) io"
  sys_mkdirat :: "'f \<Rightarrow> string \<Rightarrow> u32 \<Rightarrow> ('s, unit) io"
  sys_rmdirat :: "'f \<Rightarrow> string \<Rightarrow> ('s, unit) io"
  sys_memfd_create :: "string \<Rightarrow> memfd_flag set \<Rightarrow> ('s, 'f) io"
  sys_add_seals :: "'f \<Rightarrow> seal set \<Rightarrow> ('s, unit) io"
  sys_get_seals :: "'f \<Rightarrow> ('s, seal set) io"
  sys_fdopendir :: "'f \<Rightarrow> ('s, 'f) io"
  sys_rewinddir :: "'f \<Rightarrow> ('s, unit) io"
  sys_readdir :: "'f \<Rightarrow> ('s, bytes option) io"
  sys_geteuid :: "'s \<Rightarrow> u32"
  sys_getpid :: "'s \<Rightarrow> nat"
  may_reserve :: "nat \<Rightarrow> 's \<Rightarrow> bool"
  PROC_SUPER_MAGIC :: u64
  raw_fd :: "'f \<Rightarrow> nat"

subsection \<open>Loops of the standard library\<close>

text \<open>A read returns at most the bytes asked for; none is the end of the file.\<close>

definition read_chunk :: "('s, 'f) kernel \<Rightarrow> 'f \<Rightarrow> nat \<Rightarrow> ('s, bytes) io" where
  "read_chunk K f n = io_bind (sys_read K f n) (\<lambda>bs. io_ret (take n bs))"

lemma read_chunk_length [io_simps]: "read_chunk K f n s = (Inr bs, t) \<Longrightarrow> length bs \<le> n"
  by (auto simp: read_chunk_def io_bind_Inr io_ret_Inr)

function read_exact :: "('s, 'f) kernel \<Rightarrow> 'f \<Rightarrow> nat \<Rightarrow> ('s, bytes) io" where
  "read_exact K f n s =
     (if n = 0 then (Inr [], s)
      else case read_chunk K f n s of
          (Inl e, t) \<Rightarrow> (Inl e, t)
        | (Inr chunk, t) \<Rightarrow>
            if chunk = [] then (Inl Unexpected_Eof, t)
            else (case read_exact K f (n - length chunk) t of
                (Inl e, u) \<Rightarrow> (Inl e, u)
              | (Inr rest, u) \<Rightarrow> (Inr (chunk @ rest), u)))"
  by pat_completeness auto
termination by (relation "measure (\<lambda>(K, f, n, s). n)") auto

function read_to_limit :: "('s, 'f) kernel \<Rightarrow> 'f \<Rightarrow> nat \<Rightarrow> ('s, bytes) io" where
  "read_to_limit K f n s =
     (if n = 0 then (Inr [], s)
      else case read_chunk K f n s of
          (Inl e, t) \<Rightarrow> (Inl e, t)
        | (Inr chunk, t) \<Rightarrow>
            if chunk = [] then (Inr [], t)
            else (case read_to_limit K f (n - length chunk) t of
                (Inl e, u) \<Rightarrow> (Inl e, u)
              | (Inr rest, u) \<Rightarrow> (Inr (chunk @ rest), u)))"
  by pat_completeness auto
termination by (relation "measure (\<lambda>(K, f, n, s). n)") auto

declare read_exact.simps [simp del] read_to_limit.simps [simp del]

lemma read_exact_length: "read_exact K f n s = (Inr bs, t) \<Longrightarrow> length bs = n"
proof (induction K f n s arbitrary: bs t rule: read_exact.induct)
  case (1 K f n s)
  show ?case
  proof (cases "n = 0")
    case False
    then obtain chunk u rest where c: "read_chunk K f n s = (Inr chunk, u)" "chunk \<noteq> []"
        "read_exact K f (n - length chunk) u = (Inr rest, t)" "bs = chunk @ rest"
      using 1 (2) by (auto simp: read_exact.simps [of K f n s] split: prod.splits sum.splits if_splits)
    then have "length rest = n - length chunk" using 1 (1) [OF False c(1) [symmetric] refl c(2,3)] by simp
    then show ?thesis using c read_chunk_length [OF c(1)] by simp
  qed (use 1 (2) in \<open>simp add: read_exact.simps\<close>)
qed

lemma read_to_limit_length: "read_to_limit K f n s = (Inr bs, t) \<Longrightarrow> length bs \<le> n"
proof (induction K f n s arbitrary: bs t rule: read_to_limit.induct)
  case (1 K f n s)
  show ?case
  proof (cases "n = 0")
    case False
    then consider "bs = []" | chunk u rest where "read_chunk K f n s = (Inr chunk, u)" "chunk \<noteq> []"
        "read_to_limit K f (n - length chunk) u = (Inr rest, t)" "bs = chunk @ rest"
      using 1 (2) by (auto simp: read_to_limit.simps [of K f n s] split: prod.splits sum.splits if_splits)
    then show ?thesis
    proof cases
      case c: 2
      then have "length rest \<le> n - length chunk" using 1 (1) [OF False c(1) [symmetric] refl c(2,3)] by simp
      then show ?thesis using c read_chunk_length [OF c(1)] by simp
    qed simp
  qed (use 1 (2) in \<open>simp add: read_to_limit.simps\<close>)
qed

end
