(* ===== verification/Pinned_Files.thy ===== *)
theory Pinned_Files
  imports Kernel_Io
begin

section \<open>Pinned directories, captured files, sealed files\<close>

text \<open>
  \<open>PinnedDirectory\<close>, \<open>PinnedRegularFile\<close>, \<open>CapturedRegularFile\<close> and \<open>SealedFile\<close> of
  \<open>linux-abi/src/lib.rs\<close>: how a directory is pinned below the root of the filesystem, how
  a regular file is captured without following links, and how bytes are sealed in a memfd. Every
  operation is written over the \<open>kernel\<close> record, call by call, with the checks between
  the calls. Shown here: what a caller knows of a capture or a sealed file whatever the kernel did.
\<close>

subsection \<open>Paths and resolution\<close>

definition RESOLUTION_FLAGS :: "resolve_flag set" where
  "RESOLUTION_FLAGS = {RESOLVE_BENEATH, RESOLVE_NO_SYMLINKS, RESOLVE_NO_MAGICLINKS, RESOLVE_NO_XDEV}"

definition ROOT_RESOLUTION_FLAGS :: "resolve_flag set" where
  "ROOT_RESOLUTION_FLAGS = {RESOLVE_BENEATH, RESOLVE_NO_SYMLINKS, RESOLVE_NO_MAGICLINKS}"

definition abi_canonical_relative :: "string \<Rightarrow> bool" where
  "abi_canonical_relative path \<longleftrightarrow>
     path \<noteq> [] \<and> length path \<le> 4096 \<and> list_all (\<lambda>b. b < 0x80) (str_bytes path)
     \<and> list_all (\<lambda>b. 0x20 \<le> b \<and> b \<le> 0x7e) (str_bytes path)
     \<and> \<not> starts_with path ''/'' \<and> \<not> ends_with path ''/'' \<and> \<not> contains_sub ''//'' path
     \<and> list_all (\<lambda>c. c \<noteq> [] \<and> c \<noteq> ''.'' \<and> c \<noteq> ''..'') (split_on CHR ''/'' path)"

definition one_component :: "string \<Rightarrow> bool" where
  "one_component name \<longleftrightarrow> \<not> (CHR ''/'' \<in> set name) \<and> abi_canonical_relative name"

text \<open>\<open>CString::new\<close> refuses an interior NUL.\<close>

definition c_string :: "io_error \<Rightarrow> string \<Rightarrow> (io_error, string) res" where
  "c_string e s = (if CHR 0x00 \<in> set s then Inl e else Inr s)"

definition rsplit_once :: "char \<Rightarrow> string \<Rightarrow> (string \<times> string) option" where
  "rsplit_once c s =
     (if c \<in> set s
      then Some (rev (tl (dropWhile (\<lambda>d. d \<noteq> c) (rev s))), rev (takeWhile (\<lambda>d. d \<noteq> c) (rev s)))
      else None)"

definition directory_how :: "resolve_flag set \<Rightarrow> open_how" where
  "directory_how resolution =
     \<lparr>how_flags = {O_RDONLY, O_DIRECTORY, O_CLOEXEC}, how_mode = 0, how_resolve = resolution\<rparr>"

subsection \<open>Pinned directories\<close>

record 'f pinned_directory =
  pd_directory :: 'f
  pd_identity :: file_identity

record 'f pinned_regular_file =
  pr_file :: 'f
  pr_identity :: file_identity

record 'f captured_regular_file =
  cr_file :: 'f
  cr_bytes :: bytes
  cr_identity :: file_identity

record 'f sealed_file =
  sl_file :: 'f
  sl_byte_length :: nat

definition open_directory_at :: "('s, 'f) kernel \<Rightarrow> 'f \<Rightarrow> string \<Rightarrow> resolve_flag set \<Rightarrow> ('s, 'f) io" where
  "open_directory_at K root relative resolution =
     (if \<not> abi_canonical_relative relative then io_invalid ''directory path is not canonical''
      else io_bind (io_lift (c_string (Invalid_Data ''directory path contains NUL'') relative)) (\<lambda>path.
        sys_openat2 K root path (directory_how resolution)))"

text \<open>The descriptor of an opened directory with its identity, if it is one.\<close>

definition pin_directory :: "('s, 'f) kernel \<Rightarrow> string \<Rightarrow> 'f \<Rightarrow> ('s, 'f pinned_directory) io" where
  "pin_directory K message directory =
     io_bind (sys_fstat K directory) (\<lambda>metadata.
       if \<not> is_dir metadata then io_invalid message
       else io_ret \<lparr>pd_directory = directory, pd_identity = metadata\<rparr>)"

definition open_with_policy ::
    "('s, 'f) kernel \<Rightarrow> string \<Rightarrow> bool \<Rightarrow> bool \<Rightarrow> ('s, 'f pinned_directory) io" where
  "open_with_policy K root admit_final_mount allow_fixed_mount_crossings =
     (if \<not> valid_utf8 (str_bytes root) then io_invalid ''pinned root is not UTF-8''
      else if \<not> starts_with root ''/'' \<or> ends_with root ''/'' \<or> contains_sub ''//'' root
      then io_invalid ''pinned root is not a canonical absolute path''
      else case strip_prefix root ''/'' of
          None \<Rightarrow> io_invalid ''pinned root is not absolute''
        | Some relative \<Rightarrow>
            if \<not> abi_canonical_relative relative then io_invalid ''pinned root components are not canonical''
            else
              io_bind (sys_root K) (\<lambda>filesystem_root.
              let (parent, leaf) = (case rsplit_once CHR ''/'' relative of None \<Rightarrow> ([], relative) | Some p \<Rightarrow> p) in
              io_bind
                (if allow_fixed_mount_crossings then io_ret (filesystem_root, relative, ROOT_RESOLUTION_FLAGS)
                 else if admit_final_mount then
                   io_bind (if parent = [] then io_ret filesystem_root
                            else open_directory_at K filesystem_root parent RESOLUTION_FLAGS)
                     (\<lambda>parent_directory. io_ret (parent_directory, leaf, ROOT_RESOLUTION_FLAGS))
                 else io_ret (filesystem_root, relative, RESOLUTION_FLAGS))
                (\<lambda>(directory, path, resolution).
              io_bind (io_lift (c_string (Invalid_Data ''pinned root contains NUL'') path)) (\<lambda>path.
              io_bind (sys_openat2 K directory path (directory_how resolution))
                (pin_directory K ''pinned root is not a directory'')))))"

definition pinned_open :: "('s, 'f) kernel \<Rightarrow> string \<Rightarrow> ('s, 'f pinned_directory) io" where
  "pinned_open K root = open_with_policy K root False False"

definition open_mount_root :: "('s, 'f) kernel \<Rightarrow> string \<Rightarrow> ('s, 'f pinned_directory) io" where
  "open_mount_root K root = open_with_policy K root True False"

definition open_fixed_kernel_mount :: "('s, 'f) kernel \<Rightarrow> string \<Rightarrow> ('s, 'f pinned_directory) io" where
  "open_fixed_kernel_mount K root = open_with_policy K root False True"

definition get_filesystem_identity ::
    "('s, 'f) kernel \<Rightarrow> 'f pinned_directory \<Rightarrow> ('s, filesystem_identity) io" where
  "get_filesystem_identity K d =
     io_bind (sys_fstatfs K (pd_directory d)) (\<lambda>magic.
     io_bind (sys_fstatvfs K (pd_directory d)) (\<lambda>rdonly.
     io_bind (sys_statx K (pd_directory d)) (\<lambda>(filled, unique).
       if \<not> filled \<or> unique = 0 then io_invalid ''kernel did not report a unique mount identity''
       else io_ret \<lparr>mount_id = unique, filesystem_type = magic, read_only = rdonly\<rparr>)))"

definition create_private_directory ::
    "('s, 'f) kernel \<Rightarrow> 'f pinned_directory \<Rightarrow> string \<Rightarrow> ('s, 'f pinned_directory) io" where
  "create_private_directory K d name =
     (if \<not> one_component name then io_invalid ''private directory name is not one closed component''
      else
        io_bind (io_lift (c_string (Invalid_Data ''private directory name contains NUL'') name)) (\<lambda>name.
        io_bind (sys_mkdirat K (pd_directory d) name 0x1C0) (\<lambda>_.
        io_bind (if \<not> valid_utf8 (str_bytes name) then io_invalid ''private directory name is not UTF-8''
                 else open_directory_at K (pd_directory d) name RESOLUTION_FLAGS) (\<lambda>directory.
        io_bind (sys_fstat K directory) (\<lambda>metadata.
          if \<not> is_dir metadata \<or> uid metadata \<noteq> 0 \<or> gid metadata \<noteq> 0 \<or> fi_mode metadata AND 0x1FF \<noteq> 0x1C0
          then io_invalid ''private directory identity or mode changed''
          else io_ret \<lparr>pd_directory = directory, pd_identity = metadata\<rparr>)))))"

definition open_child_directory ::
    "('s, 'f) kernel \<Rightarrow> 'f pinned_directory \<Rightarrow> string \<Rightarrow> ('s, 'f pinned_directory) io" where
  "open_child_directory K d name =
     (if \<not> one_component name then io_invalid ''child directory name is not one closed component''
      else io_bind (open_directory_at K (pd_directory d) name RESOLUTION_FLAGS)
             (pin_directory K ''child directory is not a directory''))"

definition remove_private_directory ::
    "('s, 'f) kernel \<Rightarrow> 'f pinned_directory \<Rightarrow> string \<Rightarrow> file_identity \<Rightarrow> ('s, unit) io" where
  "remove_private_directory K d name expected =
     (if \<not> one_component name then io_invalid ''private directory removal name is not one component''
      else
        io_bind (open_directory_at K (pd_directory d) name RESOLUTION_FLAGS) (\<lambda>observed.
        io_bind (sys_fstat K observed) (\<lambda>identity.
          if identity \<noteq> expected then io_invalid ''private directory removal identity changed''
          else
            io_bind (io_lift (c_string (Invalid_Data ''private directory removal name contains NUL'') name)) (\<lambda>name.
              sys_rmdirat K (pd_directory d) name))))"

subsection \<open>Capture of a regular file\<close>

definition pin_entry_at :: "('s, 'f) kernel \<Rightarrow> 'f \<Rightarrow> string \<Rightarrow> ('s, 'f) io" where
  "pin_entry_at K root relative =
     (if \<not> abi_canonical_relative relative then io_capture Path_Refused
      else
        io_bind (io_lift (c_string (Capture Path_Refused) relative)) (\<lambda>path.
          sys_openat2 K root path
            \<lparr>how_flags = {O_PATH, O_CLOEXEC}, how_mode = 0, how_resolve = RESOLUTION_FLAGS\<rparr>))"

definition upgrade_regular_inode ::
    "('s, 'f) kernel \<Rightarrow> 'f \<Rightarrow> file_identity \<Rightarrow> ('s, 'f pinned_regular_file) io" where
  "upgrade_regular_inode K pinned identity = (\<lambda>s.
     io_bind (io_map_err (\<lambda>_. Capture Unsupported_Here) (open_fixed_kernel_mount K ''/proc'')) (\<lambda>proc.
     io_bind (io_map_err (\<lambda>_. Capture Unsupported_Here) (get_filesystem_identity K proc)) (\<lambda>filesystem.
       if filesystem_type filesystem \<noteq> PROC_SUPER_MAGIC K then io_capture Unsupported_Here
       else
         io_bind (io_map_err (\<lambda>_. Capture Unsupported_Here)
             (open_directory_at K (pd_directory proc) (dec_string (sys_getpid K s) @ ''/fd'') RESOLUTION_FLAGS))
           (\<lambda>fd_directory.
         io_bind (sys_fstat K fd_directory) (\<lambda>metadata.
           if device metadata \<noteq> device (pd_identity proc) \<or> uid metadata \<noteq> sys_geteuid K s \<or> \<not> is_dir metadata
           then io_capture Unsupported_Here
           else
             io_bind (io_lift (c_string (Capture Unsupported_Here) (dec_string (raw_fd K pinned)))) (\<lambda>descriptor.
             io_bind (io_map_err (\<lambda>_. Capture Unsupported_Here)
                 (sys_openat2 K fd_directory descriptor
                    \<lparr>how_flags = {O_RDONLY, O_CLOEXEC, O_NONBLOCK, O_NOCTTY}, how_mode = 0, how_resolve = {}\<rparr>))
               (\<lambda>opened.
             io_bind (sys_fstat K opened) (\<lambda>after.
               if after \<noteq> identity then io_capture Race_Seen
               else
                 io_bind (sys_fstat K pinned) (\<lambda>before.
                   if before \<noteq> identity then io_capture Race_Seen
                   else io_ret \<lparr>pr_file = opened, pr_identity = identity\<rparr>)))))))) s)"

definition open_regular_file ::
    "('s, 'f) kernel \<Rightarrow> 'f pinned_directory \<Rightarrow> string \<Rightarrow> nat \<Rightarrow> ('s, 'f pinned_regular_file) io" where
  "open_regular_file K d relative maximum_bytes =
     io_bind (pin_entry_at K (pd_directory d) relative) (\<lambda>pinned.
     io_bind (sys_fstat K pinned) (\<lambda>metadata.
       if \<not> is_file metadata \<or> links metadata \<noteq> 1 then io_capture Type_Refused
       else if maximum_bytes < unat (fi_size metadata) then io_capture Limit_Reached
       else upgrade_regular_inode K pinned metadata))"

definition reserve :: "('s, 'f) kernel \<Rightarrow> nat \<Rightarrow> ('s, unit) io" where
  "reserve K n = (\<lambda>s. if may_reserve K n s then (Inr (), s) else (Inl (Capture Limit_Reached), s))"

definition eof_is_race :: "io_error \<Rightarrow> io_error" where
  "eof_is_race e = (if e = Unexpected_Eof then Capture Race_Seen else e)"

definition capture_regular_file ::
    "('s, 'f) kernel \<Rightarrow> 'f pinned_directory \<Rightarrow> string \<Rightarrow> nat \<Rightarrow> ('s, 'f captured_regular_file) io" where
  "capture_regular_file K d relative maximum_bytes =
     io_bind (open_regular_file K d relative maximum_bytes) (\<lambda>p.
     io_bind (reserve K (unat (fi_size (pr_identity p)))) (\<lambda>_.
     io_bind (io_map_err eof_is_race (read_exact K (pr_file p) (unat (fi_size (pr_identity p))))) (\<lambda>bs.
     io_bind (read_chunk K (pr_file p) 1) (\<lambda>probe.
       if probe \<noteq> [] then io_capture Race_Seen
       else
         io_bind (sys_fstat K (pr_file p)) (\<lambda>after.
           if after \<noteq> pr_identity p then io_capture Race_Seen
           else io_ret \<lparr>cr_file = pr_file p, cr_bytes = bs, cr_identity = pr_identity p\<rparr>)))))"

text \<open>
  What a capture is, whatever the kernel answered: the identity is that of a singly linked regular
  file within the bound, the bytes are as many as its size, and the last look at the descriptor saw
  the same identity.
\<close>

lemma upgrade_identity: "upgrade_regular_inode K pinned i s = (Inr p, t) \<Longrightarrow> pr_identity p = i"
  by (auto simp: upgrade_regular_inode_def io_simps split: if_splits)

lemma opened_regular:
  assumes "open_regular_file K d relative maximum_bytes s = (Inr p, t)"
  shows "is_file (pr_identity p) \<and> links (pr_identity p) = 1 \<and> unat (fi_size (pr_identity p)) \<le> maximum_bytes
    \<and> abi_canonical_relative relative"
  using assms
  by (auto simp: open_regular_file_def pin_entry_at_def io_simps not_less split: if_splits dest!: upgrade_identity)

lemma captured_regular:
  assumes "capture_regular_file K d relative maximum_bytes s = (Inr c, t)"
  shows "is_file (cr_identity c) \<and> links (cr_identity c) = 1 \<and> length (cr_bytes c) = unat (fi_size (cr_identity c))
    \<and> length (cr_bytes c) \<le> maximum_bytes \<and> abi_canonical_relative relative
    \<and> (\<exists>u. sys_fstat K (cr_file c) u = (Inr (cr_identity c), t))"
proof -
  obtain p s1 s2 s3 s4 bs where "open_regular_file K d relative maximum_bytes s = (Inr p, s1)"
    and "read_exact K (pr_file p) (unat (fi_size (pr_identity p))) s2 = (Inr bs, s3)"
    and "sys_fstat K (pr_file p) s4 = (Inr (pr_identity p), t)"
    and "c = \<lparr>cr_file = pr_file p, cr_bytes = bs, cr_identity = pr_identity p\<rparr>"
    using assms by (auto simp: capture_regular_file_def io_simps split: if_splits)
  then show ?thesis using opened_regular read_exact_length by fastforce
qed

end
