(* ===== verification/Root_Identity.thy ===== *)
theory Root_Identity
  imports Decimal_Forms Pinned_Files
begin

section \<open>The identity of a configured release root\<close>

text \<open>
  \<open>ConfiguredRootIdentity\<close>, \<open>ConfiguredRoot\<close> and \<open>ResolverConfiguration\<close> of
  \<open>production-resolver/src/lib.rs\<close>: the declared identity of a release root, its decimal form, and the
  checks that bind a pinned directory to it.
\<close>

subsection \<open>Errors and identities\<close>

datatype resolver_error =
    RequestShape | RootOpen | RootPolicy | RootIdentity | ObjectOpen | ObjectMetadata | ContentAddress
  | CanonicalProductionSchema | DeploymentIdentity

type_synonym 'a rres = "(resolver_error, 'a) res"

record root_identity =
  ri_device :: u64
  ri_inode :: u64
  ri_uid :: u32
  ri_gid :: u32
  ri_permissions :: u32
  ri_mount_id :: u64
  ri_filesystem_type :: u64
  ri_read_only :: bool

definition DIRECTORY_TYPE :: u32 where "DIRECTORY_TYPE = 0x4000"
definition PERMISSION_BITS :: u32 where "PERMISSION_BITS = 0xFFF"
definition REGULAR_TYPE :: u32 where "REGULAR_TYPE = 0x8000"
definition mode_type_mask :: u32 where "mode_type_mask = 0xF000"

definition from_observed :: "file_identity \<Rightarrow> filesystem_identity \<Rightarrow> root_identity" where
  "from_observed i fs =
     \<lparr>ri_device = device i, ri_inode = inode i, ri_uid = uid i, ri_gid = gid i,
      ri_permissions = fi_mode i AND PERMISSION_BITS, ri_mount_id = mount_id fs,
      ri_filesystem_type = filesystem_type fs, ri_read_only = read_only fs\<rparr>"

definition spec_fields :: "root_identity \<Rightarrow> nat list" where
  "spec_fields i =
     [unat (ri_device i), unat (ri_inode i), unat (ri_uid i), unat (ri_gid i), unat (ri_permissions i),
      unat (ri_mount_id i), unat (ri_filesystem_type i), if ri_read_only i then 1 else 0]"

definition decimal_spec :: "root_identity \<Rightarrow> string" where
  "decimal_spec i = join_with CHR '':'' (map dec_string (spec_fields i))"

definition validate_declared_root_identity :: "root_identity \<Rightarrow> unit rres" where
  "validate_declared_root_identity i =
     (if ri_uid i \<noteq> 0 \<or> ri_gid i \<noteq> 0 \<or> ri_mount_id i = 0 \<or> ri_filesystem_type i = 0 \<or> \<not> ri_read_only i
      then Inl RootPolicy
      else if ri_permissions i AND 0x92 \<noteq> 0 \<or> ri_permissions i AND NOT PERMISSION_BITS \<noteq> 0 then Inl RootPolicy
      else Inr ())"

subsection \<open>The decimal form\<close>

text \<open>\<open>str::parse::<u64>\<close>: an optional plus sign, then digits, whose value must fit.\<close>

definition parse_u64_text :: "string \<Rightarrow> u64 option" where
  "parse_u64_text s =
     (let d = (case strip_prefix s ''+'' of None \<Rightarrow> s | Some rest \<Rightarrow> rest)
      in if d = [] \<or> \<not> list_all is_ascii_digit (str_bytes d) \<or> 2 ^ 64 \<le> dec_value d then None
         else Some (of_nat (dec_value d)))"

definition u32_try_from :: "u64 \<Rightarrow> u32 rres" where
  "u32_try_from n = (if 0xffffffff < n then Inl RootPolicy else Inr (ucast n))"

definition parse_decimal_spec :: "string \<Rightarrow> root_identity rres" where
  "parse_decimal_spec value =
     (case those (map parse_u64_text (split_on CHR '':'' value)) of
        None \<Rightarrow> Inl RootPolicy
      | Some fs \<Rightarrow>
          if length fs \<noteq> 8 \<or> 1 < fs ! 7 then Inl RootPolicy
          else
            bnd (u32_try_from (fs ! 2)) (\<lambda>u.
            bnd (u32_try_from (fs ! 3)) (\<lambda>g.
            bnd (u32_try_from (fs ! 4)) (\<lambda>p.
            let i = \<lparr>ri_device = fs ! 0, ri_inode = fs ! 1, ri_uid = u, ri_gid = g, ri_permissions = p,
                     ri_mount_id = fs ! 5, ri_filesystem_type = fs ! 6, ri_read_only = (fs ! 7 = 1)\<rparr> in
            bnd (validate_declared_root_identity i) (\<lambda>_.
              if decimal_spec i \<noteq> value then Inl RootPolicy else Inr i)))))"

lemma parse_u64_text_dec: "n < 2 ^ 64 \<Longrightarrow> parse_u64_text (dec_string n) = Some (of_nat n)"
proof -
  assume n: "n < 2 ^ 64"
  have digits: "\<forall>c \<in> set (dec_string n). is_ascii_digit (byte_of_char c)" using dec_string_digits by blast
  have "dec_string n \<noteq> []" using plain_decimal_dec_string [of n] by (simp add: plain_decimal_def)
  moreover from this digits have "strip_prefix (dec_string n) ''+'' = None"
    by (cases "dec_string n") (auto simp: strip_prefix_def starts_with_def is_ascii_digit_def byte_of_char_def)
  moreover have "list_all is_ascii_digit (str_bytes (dec_string n))"
    using digits by (simp add: list_all_iff str_bytes_def)
  ultimately show ?thesis using n by (simp add: parse_u64_text_def)
qed

lemma those_map_Some: "(\<And>x. x \<in> set xs \<Longrightarrow> f x = Some (g x)) \<Longrightarrow> those (map f xs) = Some (map g xs)"
  by (induction xs) auto

lemma decimal_spec_parts:
  "those (map parse_u64_text (split_on CHR '':'' (decimal_spec i))) = Some (map of_nat (spec_fields i))"
proof -
  have "CHR '':'' \<notin> set (dec_string n)" for n
    using dec_string_digits [of "CHR '':''" n] by (auto simp: is_ascii_digit_def byte_of_char_def)
  then have "split_on CHR '':'' (decimal_spec i) = map dec_string (spec_fields i)"
    unfolding decimal_spec_def by (intro split_on_join) (auto simp: spec_fields_def)
  moreover have "n < 2 ^ 64" if "n \<in> set (spec_fields i)" for n
  proof -
    have "unat w < 2 ^ 64" for w :: u64 using unsigned_less [of w, where 'a = nat] by simp
    moreover have "unat w < 2 ^ 64" for w :: u32 using unsigned_less [of w, where 'a = nat] by simp
    ultimately show ?thesis using that by (auto simp: spec_fields_def split: if_splits)
  qed
  ultimately show ?thesis
    using those_map_Some [of "spec_fields i" "\<lambda>n. parse_u64_text (dec_string n)" of_nat]
    by (simp add: parse_u64_text_dec comp_def)
qed

lemma u32_round: "u32_try_from (ucast w) = Inr w" for w :: u32
proof -
  have "unat w < 2 ^ 32" using unsigned_less [of w, where 'a = nat] by simp
  moreover from this have "unat (ucast w :: u64) = unat w" by (simp add: unsigned_ucast_eq take_bit_nat_eq_self_iff)
  ultimately have "\<not> (0xffffffff :: u64) < ucast w" by (simp add: word_less_nat_alt)
  moreover have "(ucast (ucast w :: u64) :: u32) = w" by (rule bit_word_eqI) (simp add: bit_simps)
  ultimately show ?thesis by (simp add: u32_try_from_def)
qed

text \<open>A text is accepted exactly when it is the decimal form of an admitted identity.\<close>

lemma decimal_spec_exact:
  "parse_decimal_spec s = Inr i \<longleftrightarrow> validate_declared_root_identity i = Inr () \<and> s = decimal_spec i"
proof
  assume "parse_decimal_spec s = Inr i"
  then show "validate_declared_root_identity i = Inr () \<and> s = decimal_spec i"
    by (auto simp: parse_decimal_spec_def bnd_eq_Inr Let_def split: option.splits if_splits)
next
  assume *: "validate_declared_root_identity i = Inr () \<and> s = decimal_spec i"
  have ro: "ri_read_only i" using * by (simp add: validate_declared_root_identity_def split: if_splits)
  have "map of_nat (spec_fields i) =
      [ri_device i, ri_inode i, ucast (ri_uid i), ucast (ri_gid i), ucast (ri_permissions i), ri_mount_id i,
       ri_filesystem_type i, 1 :: u64]"
    using ro by (simp add: spec_fields_def)
  moreover have "i = \<lparr>ri_device = ri_device i, ri_inode = ri_inode i, ri_uid = ri_uid i, ri_gid = ri_gid i,
      ri_permissions = ri_permissions i, ri_mount_id = ri_mount_id i, ri_filesystem_type = ri_filesystem_type i,
      ri_read_only = True\<rparr>"
    using ro by simp
  ultimately show "parse_decimal_spec s = Inr i"
    using * by (simp add: parse_decimal_spec_def decimal_spec_parts u32_round Let_def)
qed

subsection \<open>Opening a root\<close>

definition validate_root_policy :: "file_identity \<Rightarrow> filesystem_identity \<Rightarrow> unit rres" where
  "validate_root_policy actual fs =
     (if fi_mode actual AND mode_type_mask \<noteq> DIRECTORY_TYPE \<or> uid actual \<noteq> 0 \<or> gid actual \<noteq> 0
         \<or> fi_mode actual AND 0x92 \<noteq> 0 \<or> \<not> read_only fs
      then Inl RootPolicy else Inr ())"

definition validate_root_identity :: "file_identity \<Rightarrow> filesystem_identity \<Rightarrow> root_identity \<Rightarrow> unit rres" where
  "validate_root_identity actual fs expected =
     (if device actual \<noteq> ri_device expected \<or> inode actual \<noteq> ri_inode expected \<or> uid actual \<noteq> ri_uid expected
         \<or> gid actual \<noteq> ri_gid expected \<or> fi_mode actual AND PERMISSION_BITS \<noteq> ri_permissions expected
         \<or> mount_id fs \<noteq> ri_mount_id expected \<or> filesystem_type fs \<noteq> ri_filesystem_type expected
         \<or> read_only fs \<noteq> ri_read_only expected
      then Inl RootIdentity else Inr ())"

record 'f configured_root =
  cf_pinned :: "'f pinned_directory"
  cf_identity :: root_identity

definition configured_root_open ::
    "('s, 'f) kernel \<Rightarrow> string \<Rightarrow> root_identity \<Rightarrow> ('s, resolver_error, 'f configured_root) action" where
  "configured_root_open K root expected =
     io_bind (io_lift (validate_declared_root_identity expected)) (\<lambda>_.
     io_bind (io_map_err (\<lambda>_. RootOpen) (open_mount_root K root)) (\<lambda>pinned.
     io_bind (io_map_err (\<lambda>_. RootOpen) (get_filesystem_identity K pinned)) (\<lambda>fs.
     io_bind (io_lift (validate_root_policy (pd_identity pinned) fs)) (\<lambda>_.
     io_bind (io_lift (validate_root_identity (pd_identity pinned) fs expected)) (\<lambda>_.
       io_ret \<lparr>cf_pinned = pinned, cf_identity = expected\<rparr>)))))"

definition enroll_configured_root_for_probe ::
    "('s, 'f) kernel \<Rightarrow> string \<Rightarrow> ('s, resolver_error, 'f configured_root) action" where
  "enroll_configured_root_for_probe K path =
     io_bind (io_map_err (\<lambda>_. RootOpen) (open_mount_root K path)) (\<lambda>root.
     io_bind (io_map_err (\<lambda>_. RootOpen) (get_filesystem_identity K root)) (\<lambda>fs.
     let i = from_observed (pd_identity root) fs in
     io_bind (io_lift (validate_root_policy (pd_identity root) fs)) (\<lambda>_.
       io_ret \<lparr>cf_pinned = root, cf_identity = i\<rparr>)))"

record 'f resolver_configuration =
  rc_authority :: "'f configured_root"
  rc_payload :: "'f configured_root"

definition configuration_new :: "'f configured_root \<Rightarrow> 'f configured_root \<Rightarrow> 'f resolver_configuration rres" where
  "configuration_new authority payload =
     (if ri_device (cf_identity authority) = ri_device (cf_identity payload)
         \<and> ri_inode (cf_identity authority) = ri_inode (cf_identity payload)
      then Inl RootPolicy
      else Inr \<lparr>rc_authority = authority, rc_payload = payload\<rparr>)"

text \<open>
  A root is opened only under its declared identity, and what enrollment observes is what a later
  opening under the enrolled identity checks.
\<close>

lemma opened_root:
  assumes "configured_root_open K root expected s = (Inr c, t)"
  shows "cf_identity c = expected \<and> validate_declared_root_identity expected = Inr ()
    \<and> (\<exists>fs. from_observed (pd_identity (cf_pinned c)) fs = expected \<and> validate_root_policy (pd_identity (cf_pinned c)) fs = Inr ())"
proof -
  obtain fs where "validate_root_policy (pd_identity (cf_pinned c)) fs = Inr ()"
      "validate_root_identity (pd_identity (cf_pinned c)) fs expected = Inr ()"
    and rest: "cf_identity c = expected" "validate_declared_root_identity expected = Inr ()"
    using assms by (auto simp: configured_root_open_def io_simps)
  then have "from_observed (pd_identity (cf_pinned c)) fs = expected"
    by (auto simp: validate_root_identity_def from_observed_def split: if_splits)
  then show ?thesis using rest \<open>validate_root_policy _ fs = _\<close> by blast
qed

lemma observed_identity_matches: "validate_root_identity i fs (from_observed i fs) = Inr ()"
  by (simp add: validate_root_identity_def from_observed_def)

end
