(* ===== verification/Sealed_Files.thy ===== *)
theory Sealed_Files
  imports Pinned_Files
begin

section \<open>Streaming reads, staging, control files and sealing\<close>

text \<open>
  The operations of \<open>linux-abi/src/lib.rs\<close> that write or stream: bounded streaming of a pinned file,
  private staging, control files of a kernel mount, sealing of bytes in a memfd, the random source and the
  inventory of a directory. Loops that end only when the kernel lets them (the inventory, which
  skips the dot entries, and the random source, which retries after a signal) take fuel, one unit
  per call to the kernel; running out of it is \<open>None\<close>.
\<close>

subsection \<open>Streaming\<close>

definition CHUNK_BYTES :: nat where "CHUNK_BYTES = 64 * 1024"

function stream_loop ::
    "('s, 'f) kernel \<Rightarrow> 'f \<Rightarrow> nat \<Rightarrow> ('c \<Rightarrow> bytes \<Rightarrow> (io_error, 'c) res) \<Rightarrow> 'c \<Rightarrow> nat \<Rightarrow> ('s, nat \<times> 'c) io" where
  "stream_loop K f maximum consume c seen s =
     (case read_chunk K f CHUNK_BYTES s of
        (Inl e, t) \<Rightarrow> (Inl e, t)
      | (Inr chunk, t) \<Rightarrow>
          if chunk = [] then (Inr (seen, c), t)
          else if maximum < seen + length chunk then (Inl (Invalid_Data ''pinned streaming read exceeds bound''), t)
          else (case consume c chunk of
              Inl e \<Rightarrow> (Inl e, t)
            | Inr c' \<Rightarrow> stream_loop K f maximum consume c' (seen + length chunk) t))"
  by pat_completeness auto
termination
  by (relation "measure (\<lambda>(K, f, maximum, consume, c, seen, s). maximum - seen)")
    (auto intro: diff_less_mono2 simp: not_less, metis One_nat_def Suc_leI diff_less_mono2 length_greater_0_conv less_add_same_cancel1 order_less_le_trans)

declare stream_loop.simps [simp del]

definition read_bounded_chunks ::
    "('s, 'f) kernel \<Rightarrow> 'f pinned_regular_file \<Rightarrow> nat \<Rightarrow> ('c \<Rightarrow> bytes \<Rightarrow> (io_error, 'c) res) \<Rightarrow> 'c
      \<Rightarrow> ('s, nat \<times> 'c) io" where
  "read_bounded_chunks K p maximum consume c =
     (if maximum = 0 \<or> maximum < unat (fi_size (pr_identity p))
      then io_invalid ''pinned file exceeds streaming read bound''
      else
        io_bind (sys_dup K (pr_file p)) (\<lambda>f.
        io_bind (sys_seek K f 0) (\<lambda>_.
        io_bind (sys_fstat K f) (\<lambda>before.
          if before \<noteq> pr_identity p then io_invalid ''pinned file identity changed before streaming read''
          else
            io_bind (stream_loop K f maximum consume c 0) (\<lambda>(seen, c').
              if seen \<noteq> unat (fi_size (pr_identity p))
              then io_invalid ''pinned file identity or length changed during streaming read''
              else
                io_bind (sys_fstat K f) (\<lambda>after.
                  if after \<noteq> before then io_invalid ''pinned file identity or length changed during streaming read''
                  else io_ret (seen, c')))))))"

subsection \<open>Private staging and control files\<close>

definition saturating_successor :: "u64 \<Rightarrow> nat" where
  "saturating_successor m = (if m = -1 then unat m else unat m + 1)"

definition create_how :: open_how where
  "create_how =
     \<lparr>how_flags = {O_CREAT, O_EXCL, O_RDWR, O_CLOEXEC, O_NOFOLLOW}, how_mode = 0x180, how_resolve = RESOLUTION_FLAGS\<rparr>"

definition STAGED_MODES :: "u32 set" where "STAGED_MODES = {0x100, 0x140, 0x180}"

definition stage_private_file ::
    "('s, 'f) kernel \<Rightarrow> 'f pinned_directory \<Rightarrow> string \<Rightarrow> bytes \<Rightarrow> u64 \<Rightarrow> u32 \<Rightarrow> ('s, 'f captured_regular_file) io" where
  "stage_private_file K d name bs maximum_bytes final_mode =
     (if \<not> one_component name \<or> unat maximum_bytes < length bs \<or> final_mode \<notin> STAGED_MODES
      then io_invalid ''private staged file parameters are not admitted''
      else
        io_bind (io_lift (c_string (Invalid_Data ''private staged file name contains NUL'') name)) (\<lambda>name.
        io_bind (sys_openat2 K (pd_directory d) name create_how) (\<lambda>f.
        io_bind (sys_write_all K f bs) (\<lambda>_.
        io_bind (sys_flush K f) (\<lambda>_.
        io_bind (sys_fsync K f) (\<lambda>_.
        io_bind (sys_fchmod K f final_mode) (\<lambda>_.
        io_bind (sys_seek K f 0) (\<lambda>_.
        io_bind (read_to_limit K f (saturating_successor maximum_bytes)) (\<lambda>recaptured.
        io_bind (sys_fstat K f) (\<lambda>metadata.
          if recaptured \<noteq> bs \<or> \<not> is_file metadata \<or> links metadata \<noteq> 1 \<or> uid metadata \<noteq> 0 \<or> gid metadata \<noteq> 0
             \<or> fi_mode metadata AND 0x1FF \<noteq> final_mode \<or> unat (fi_size metadata) \<noteq> length bs
          then io_invalid ''private staged file recapture or identity differs''
          else io_ret \<lparr>cr_file = f, cr_bytes = recaptured, cr_identity = metadata\<rparr>))))))))))"

definition write_control :: "('s, 'f) kernel \<Rightarrow> 'f pinned_directory \<Rightarrow> string \<Rightarrow> bytes \<Rightarrow> ('s, unit) io" where
  "write_control K d name bs =
     (if \<not> one_component name \<or> bs = [] \<or> 4096 < length bs
      then io_invalid ''control write parameters are not admitted''
      else
        io_bind (io_lift (c_string (Invalid_Data ''control file name contains NUL'') name)) (\<lambda>name.
        io_bind (sys_openat2 K (pd_directory d) name
            \<lparr>how_flags = {O_WRONLY, O_CLOEXEC, O_NOFOLLOW}, how_mode = 0, how_resolve = RESOLUTION_FLAGS\<rparr>) (\<lambda>f.
        io_bind (sys_write_all K f bs) (\<lambda>_. sys_flush K f))))"

definition read_control :: "('s, 'f) kernel \<Rightarrow> 'f pinned_directory \<Rightarrow> string \<Rightarrow> u64 \<Rightarrow> ('s, string) io" where
  "read_control K d name maximum_bytes =
     (if \<not> one_component name \<or> maximum_bytes = 0 then io_invalid ''control read parameters are not admitted''
      else
        io_bind (io_lift (c_string (Invalid_Data ''control file name contains NUL'') name)) (\<lambda>name.
        io_bind (sys_openat2 K (pd_directory d) name
            \<lparr>how_flags = {O_RDONLY, O_CLOEXEC, O_NOFOLLOW}, how_mode = 0, how_resolve = RESOLUTION_FLAGS\<rparr>) (\<lambda>f.
        io_bind (sys_fstat K f) (\<lambda>metadata.
          if \<not> is_file metadata \<or> uid metadata \<noteq> 0 \<or> gid metadata \<noteq> 0
          then io_invalid ''control file identity is not root-owned regular data''
          else
            io_bind (read_to_limit K f (saturating_successor maximum_bytes)) (\<lambda>bs.
              if unat maximum_bytes < length bs then io_invalid ''control file exceeds its read bound''
              else if \<not> valid_utf8 bs then io_invalid ''control file is not UTF-8''
              else io_ret (bytes_str bs))))))"

subsection \<open>Sealing\<close>

definition REQUIRED_MEMFD_SEALS :: "seal set" where
  "REQUIRED_MEMFD_SEALS = {F_SEAL_WRITE, F_SEAL_SHRINK, F_SEAL_GROW, F_SEAL_SEAL}"

definition REQUIRED_DATA_MEMFD_SEALS :: "seal set" where
  "REQUIRED_DATA_MEMFD_SEALS = REQUIRED_MEMFD_SEALS \<union> {F_SEAL_EXEC}"

definition memfd_name :: "string \<Rightarrow> bool" where
  "memfd_name name \<longleftrightarrow>
     name \<noteq> [] \<and> length name \<le> 249 \<and> list_all (\<lambda>b. b < 0x80) (str_bytes name)
     \<and> list_all (\<lambda>b. is_ascii_alphanumeric b \<or> b \<in> set (str_bytes ''._-'')) (str_bytes name)"

definition seal_executable_bytes :: "('s, 'f) kernel \<Rightarrow> string \<Rightarrow> bytes \<Rightarrow> u64 \<Rightarrow> ('s, 'f sealed_file) io" where
  "seal_executable_bytes K name bs maximum_bytes =
     (if \<not> memfd_name name \<or> unat maximum_bytes < length bs
      then io_invalid ''memfd name or byte length is not admitted''
      else
        io_bind (io_lift (c_string (Invalid_Data ''memfd name contains NUL'') name)) (\<lambda>name.
        io_bind (sys_memfd_create K name {MFD_CLOEXEC, MFD_ALLOW_SEALING, MFD_EXEC}) (\<lambda>f.
        io_bind (sys_write_all K f bs) (\<lambda>_.
        io_bind (sys_flush K f) (\<lambda>_.
        io_bind (sys_seek K f 0) (\<lambda>_.
        io_bind (read_to_limit K f (saturating_successor maximum_bytes)) (\<lambda>recaptured.
          if recaptured \<noteq> bs then io_invalid ''memfd independent byte recapture disagreed''
          else
            io_bind (sys_seek K f 0) (\<lambda>_.
            io_bind (sys_add_seals K f REQUIRED_MEMFD_SEALS) (\<lambda>_.
            io_bind (sys_get_seals K f) (\<lambda>seals.
              if seals \<noteq> REQUIRED_MEMFD_SEALS then io_invalid ''memfd required seals did not read back exactly''
              else io_ret \<lparr>sl_file = f, sl_byte_length = length bs\<rparr>))))))))))"

definition seal_file_bytes_with_policy ::
    "('s, 'f) kernel \<Rightarrow> string \<Rightarrow> bytes \<Rightarrow> u64 \<Rightarrow> u32 \<Rightarrow> bool \<Rightarrow> ('s, 'f sealed_file) io" where
  "seal_file_bytes_with_policy K name bs maximum_bytes mode no_execute =
     (if \<not> memfd_name name \<or> unat maximum_bytes < length bs \<or> mode \<notin> {0x100, 0x140}
      then io_invalid ''sealed-file name, length, or mode is not admitted''
      else
        io_bind (io_lift (c_string (Invalid_Data ''memfd name contains NUL'') name)) (\<lambda>name.
        io_bind (sys_memfd_create K name
            ({MFD_CLOEXEC, MFD_ALLOW_SEALING} \<union> (if no_execute then {MFD_NOEXEC_SEAL} else {}))) (\<lambda>f.
        io_bind (sys_fchmod K f mode) (\<lambda>_.
        io_bind (sys_write_all K f bs) (\<lambda>_.
        io_bind (sys_flush K f) (\<lambda>_.
        io_bind (sys_seek K f 0) (\<lambda>_.
        io_bind (read_to_limit K f (saturating_successor maximum_bytes)) (\<lambda>recaptured.
          if recaptured \<noteq> bs then io_invalid ''sealed-file independent byte recapture disagreed''
          else
            io_bind (sys_seek K f 0) (\<lambda>_.
            io_bind (sys_add_seals K f REQUIRED_MEMFD_SEALS) (\<lambda>_.
            io_bind (sys_get_seals K f) (\<lambda>seals.
              if seals \<noteq> (if no_execute then REQUIRED_DATA_MEMFD_SEALS else REQUIRED_MEMFD_SEALS)
              then io_invalid ''sealed-file required seals did not read back exactly''
              else io_ret \<lparr>sl_file = f, sl_byte_length = length bs\<rparr>)))))))))))"

definition seal_file_bytes :: "('s, 'f) kernel \<Rightarrow> string \<Rightarrow> bytes \<Rightarrow> u64 \<Rightarrow> u32 \<Rightarrow> ('s, 'f sealed_file) io" where
  "seal_file_bytes K name bs maximum_bytes mode = seal_file_bytes_with_policy K name bs maximum_bytes mode False"

definition seal_data_file_bytes :: "('s, 'f) kernel \<Rightarrow> string \<Rightarrow> bytes \<Rightarrow> u64 \<Rightarrow> u32 \<Rightarrow> ('s, 'f sealed_file) io" where
  "seal_data_file_bytes K name bs maximum_bytes mode =
     (if mode \<noteq> 0x100 then io_invalid ''sealed data file must be non-executable''
      else seal_file_bytes_with_policy K name bs maximum_bytes mode True)"

text \<open>What a caller knows of a sealed data file: its bytes were read back, then it was sealed, and the
  last answer of the kernel was the exact set of seals.\<close>

lemma sealed_data:
  assumes "seal_data_file_bytes K name bs maximum_bytes mode s = (Inr f, t)"
  shows "mode = 0x100 \<and> memfd_name name \<and> sl_byte_length f = length bs \<and> length bs \<le> unat maximum_bytes
    \<and> (\<exists>u v. read_to_limit K (sl_file f) (saturating_successor maximum_bytes) u = (Inr bs, v))
    \<and> (\<exists>u. sys_get_seals K (sl_file f) u = (Inr REQUIRED_DATA_MEMFD_SEALS, t))"
  using assms
  by (auto simp: seal_data_file_bytes_def seal_file_bytes_with_policy_def io_simps not_less split: if_splits) blast+

subsection \<open>Random bytes\<close>

text \<open>\<open>answers\<close> are the results of successive \<open>getrandom\<close> calls: an error, or the bytes stored, never more
  than the space left.\<close>

primrec fill_random_loop :: "(io_error, bytes) res list \<Rightarrow> nat \<Rightarrow> bytes \<Rightarrow> (io_error, bytes) res option" where
  "fill_random_loop [] n filled = (if n \<le> length filled then Some (Inr filled) else None)"
| "fill_random_loop (a # rest) n filled =
     (if n \<le> length filled then Some (Inr filled)
      else case a of
          Inl e \<Rightarrow> if e = Os EINTR then fill_random_loop rest n filled else Some (Inl e)
        | Inr bs \<Rightarrow>
            if bs = [] then Some (Inl (Invalid_Data ''kernel random source returned zero bytes''))
            else fill_random_loop rest n (filled @ take (n - length filled) bs))"

definition fill_random :: "(io_error, bytes) res list \<Rightarrow> nat \<Rightarrow> (io_error, bytes) res option" where
  "fill_random answers n =
     (if n = 0 \<or> 4096 < n then Some (Inl (Invalid_Data ''kernel random request is outside 1..4096 bytes''))
      else fill_random_loop answers n [])"

lemma fill_random_loop_exact:
  "fill_random_loop answers n filled = Some (Inr bs) \<Longrightarrow> length filled \<le> n \<Longrightarrow> length bs = n"
  by (induction answers arbitrary: filled) (auto split: if_splits sum.splits)

lemma fill_random_exact: "fill_random answers n = Some (Inr bs) \<Longrightarrow> length bs = n \<and> 1 \<le> n \<and> n \<le> 4096"
  by (auto simp: fill_random_def dest: fill_random_loop_exact split: if_splits)

subsection \<open>The inventory of a directory\<close>

record directory_entry_identity =
  de_name :: string
  de_identity :: file_identity

definition inventory_entry ::
    "('s, 'f) kernel \<Rightarrow> 'f pinned_directory \<Rightarrow> nat \<Rightarrow> nat \<Rightarrow> bytes \<Rightarrow> directory_entry_identity list \<times> nat
      \<Rightarrow> ('s, directory_entry_identity list \<times> nat) io" where
  "inventory_entry K d maximum_entries maximum_name_bytes raw st =
     (let (entries, name_bytes) = st in
      if maximum_entries \<le> length entries then io_capture Limit_Reached
      else if usize_max < name_bytes + length raw \<or> maximum_name_bytes < name_bytes + length raw
      then io_capture Limit_Reached
      else if \<not> valid_utf8 raw then io_capture Path_Refused
      else if \<not> one_component (bytes_str raw) then io_capture Path_Refused
      else
        io_bind (pin_entry_at K (pd_directory d) (bytes_str raw)) (\<lambda>held.
        io_bind (sys_fstat K held) (\<lambda>identity s.
          if may_reserve K 1 s
          then (Inr (entries @ [\<lparr>de_name = bytes_str raw, de_identity = identity\<rparr>], name_bytes + length raw), s)
          else (Inl (Capture Limit_Reached), s))))"

primrec inventory_loop ::
    "nat \<Rightarrow> ('s, 'f) kernel \<Rightarrow> 'f pinned_directory \<Rightarrow> 'f \<Rightarrow> nat \<Rightarrow> nat \<Rightarrow> directory_entry_identity list \<times> nat \<Rightarrow> 's
      \<Rightarrow> ((io_error, directory_entry_identity list) res \<times> 's) option" where
  "inventory_loop 0 K d stream me mn st s = None"
| "inventory_loop (Suc fuel) K d stream me mn st s =
     (case sys_readdir K stream s of
        (Inl e, t) \<Rightarrow> Some (Inl e, t)
      | (Inr None, t) \<Rightarrow> Some (Inr (fst st), t)
      | (Inr (Some d_name), t) \<Rightarrow>
          if 0 \<notin> set d_name then Some (Inl (Capture Path_Refused), t)
          else let raw = takeWhile (\<lambda>b. b \<noteq> 0) d_name in
            if raw \<in> {str_bytes ''.'', str_bytes ''..''} then inventory_loop fuel K d stream me mn st t
            else (case inventory_entry K d me mn raw st t of
                (Inl e, u) \<Rightarrow> Some (Inl e, u)
              | (Inr st', u) \<Rightarrow> inventory_loop fuel K d stream me mn st' u))"

definition inventory_check ::
    "('s, 'f) kernel \<Rightarrow> 'f pinned_directory \<Rightarrow> file_identity \<Rightarrow> directory_entry_identity list
      \<Rightarrow> ('s, directory_entry_identity list) io" where
  "inventory_check K d before entries =
     (if \<not> distinct_adj (map de_name entries) then io_capture Race_Seen
      else
        io_bind (sys_fstat K (pd_directory d)) (\<lambda>after.
          if after \<noteq> before then io_capture Race_Seen else io_ret entries))"

definition inventory ::
    "nat \<Rightarrow> ('s, 'f) kernel \<Rightarrow> 'f pinned_directory \<Rightarrow> nat \<Rightarrow> nat \<Rightarrow> 's
      \<Rightarrow> ((io_error, directory_entry_identity list) res \<times> 's) option" where
  "inventory fuel K d maximum_entries maximum_name_bytes s =
     (case io_bind (sys_fstat K (pd_directory d)) (\<lambda>before.
             if before \<noteq> pd_identity d then io_capture Race_Seen
             else
               io_bind (sys_dup K (pd_directory d)) (\<lambda>duplicate.
               io_bind (sys_fdopendir K duplicate) (\<lambda>stream.
               io_bind (sys_rewinddir K stream) (\<lambda>_. io_ret (before, stream))))) s of
        (Inl e, t) \<Rightarrow> Some (Inl e, t)
      | (Inr (before, stream), t) \<Rightarrow>
          (case inventory_loop fuel K d stream maximum_entries maximum_name_bytes ([], 0) t of
             None \<Rightarrow> None
           | Some (Inl e, u) \<Rightarrow> Some (Inl e, u)
           | Some (Inr entries, u) \<Rightarrow> Some (inventory_check K d before (sort_key de_name entries) u)))"

lemma sorted_adjacent: "sorted xs \<Longrightarrow> distinct_adj xs \<Longrightarrow> sorted_wrt (<) xs" for xs :: "'a :: linorder list"
proof (induction xs rule: induct_list012)
  case (3 x y zs)
  then have "x < y" "sorted_wrt (<) (y # zs)" by auto
  then show ?case by auto
qed simp_all

lemma inventory_loop_bounded:
  "inventory_loop fuel K d stream me mn st s = Some (Inr out, t) \<Longrightarrow>
     length (fst st) \<le> me \<Longrightarrow> list_all (\<lambda>e. one_component (de_name e)) (fst st) \<Longrightarrow>
     length out \<le> me \<and> list_all (\<lambda>e. one_component (de_name e)) out"
proof (induction fuel arbitrary: st s)
  case (Suc fuel)
  have step: "length (fst st') \<le> me \<and> list_all (\<lambda>e. one_component (de_name e)) (fst st')"
    if "inventory_entry K d me mn raw st u = (Inr st', v)" for raw st' u v
    using that Suc.prems(2,3) by (auto simp: inventory_entry_def io_simps Let_def split: if_splits prod.splits)
  consider "fst st = out" | u where "inventory_loop fuel K d stream me mn st u = Some (Inr out, t)"
    | raw st' u v where "inventory_entry K d me mn raw st u = (Inr st', v)"
        "inventory_loop fuel K d stream me mn st' v = Some (Inr out, t)"
    using Suc.prems(1) by (auto simp: Let_def split: prod.splits sum.splits option.splits if_splits)
  then show ?case
  proof cases
    case 1
    then show ?thesis using Suc.prems(2,3) by simp
  next
    case 2
    then show ?thesis by (rule Suc.IH) (use Suc.prems(2,3) in simp_all)
  next
    case 3
    from Suc.IH [OF 3(2)] step [OF 3(1)] show ?thesis by simp
  qed
qed simp

text \<open>An inventory lists, in strict order, at most the admitted number of single path components.\<close>

lemma inventory_sorted:
  assumes "inventory fuel K d maximum_entries maximum_name_bytes s = Some (Inr entries, t)"
  shows "length entries \<le> maximum_entries \<and> list_all (\<lambda>e. one_component (de_name e)) entries
    \<and> sorted_wrt (<) (map de_name entries)"
proof -
  obtain raw stream u v before where raw: "inventory_loop fuel K d stream maximum_entries maximum_name_bytes ([], 0) u = Some (Inr raw, v)"
    and "inventory_check K d before (sort_key de_name raw) v = (Inr entries, t)"
    using assms by (auto simp: inventory_def split: prod.splits sum.splits option.splits)
  then have entries: "entries = sort_key de_name raw" and "distinct_adj (map de_name entries)"
    by (auto simp: inventory_check_def io_simps split: if_splits)
  moreover have "sorted (map de_name entries)" unfolding entries by simp
  ultimately have "sorted_wrt (<) (map de_name entries)" using sorted_adjacent by blast
  then show ?thesis using inventory_loop_bounded [OF raw] by (simp add: entries list_all_iff)
qed

end
