(* ===== verification/Native_Fields.thy ===== *)
theory Native_Fields
  imports Cbor_Roundtrip Sha256 Text_Forms Ordered_Map
begin

section \<open>Fields of the native-boundary documents\<close>

text \<open>
  The accessors of \<open>native/crates/protocol/src/lib.rs\<close> from \<open>exact_keys\<close> to
  \<open>validate_measurement_value\<close>, the digests of the projections, and the signed envelope. Names that
  another component also has carry the prefix \<open>nb\<close>. Three combinators write out sequences of
  checks: \<open>all_ok\<close> runs them in order, \<open>refuse_any\<close> is an \<open>||\<close> chain whose operands may themselves
  fail, \<open>skip\<close> drops a value.
\<close>

subsection \<open>Sequences of checks\<close>

definition skip :: "'a pres \<Rightarrow> unit pres" where
  "skip r = bnd r (\<lambda>_. Inr ())"

definition refuse_if :: "bool \<Rightarrow> string \<Rightarrow> unit pres" where
  "refuse_if c message = (if c then Inl message else Inr ())"

fun all_ok :: "unit pres list \<Rightarrow> unit pres" where
  "all_ok [] = Inr ()"
| "all_ok (c # cs) = bnd c (\<lambda>_. all_ok cs)"

definition holds :: "'a pres \<Rightarrow> ('a \<Rightarrow> bool) \<Rightarrow> bool pres" where
  "holds r p = bnd r (\<lambda>v. Inr (p v))"

fun refuse_any :: "string \<Rightarrow> bool pres list \<Rightarrow> unit pres" where
  "refuse_any message [] = Inr ()"
| "refuse_any message (c # cs) = bnd c (\<lambda>b. if b then Inl message else refuse_any message cs)"

named_theorems checks \<open>what an accepted check says\<close>

lemma skip_ok [checks]: "skip r = Inr u \<longleftrightarrow> (\<exists>v. r = Inr v)"
  by (cases r) (simp_all add: skip_def)

lemma refuse_if_ok [checks]: "refuse_if c m = Inr u \<longleftrightarrow> \<not> c"
  by (simp add: refuse_if_def)

lemma all_ok_Nil [checks]: "all_ok [] = Inr u"
  by simp

lemma all_ok_Cons [checks]: "all_ok (c # cs) = Inr u \<longleftrightarrow> c = Inr () \<and> all_ok cs = Inr ()"
  by (cases c) simp_all

lemma holds_ok [checks]: "holds r p = Inr b \<longleftrightarrow> (\<exists>v. r = Inr v \<and> b = p v)"
  by (cases r) (auto simp: holds_def)

lemma refuse_any_Nil [checks]: "refuse_any m [] = Inr u"
  by simp

lemma refuse_any_Cons [checks]: "refuse_any m (c # cs) = Inr u \<longleftrightarrow> c = Inr False \<and> refuse_any m cs = Inr ()"
  by (cases c) (simp_all split: if_splits)

lemma for_all_unit [checks]: "for_all f xs = Inr u \<longleftrightarrow> (\<forall>x\<in>set xs. \<exists>v. f x = Inr v)"
  by (simp add: for_all_ok is_ok_iff)

declare bnd_eq_Inr [checks]

subsection \<open>Schemas, trust, accessors\<close>

datatype schema = Request | Response | Deployment | NativeClosure | NativeIndex | Evidence | Revocation

datatype trust_class = Production | Development

definition nb_exact_keys :: "val \<Rightarrow> string list \<Rightarrow> unit pres" where
  "nb_exact_keys v expected =
     (case v of
        Map entries \<Rightarrow>
          if length entries \<noteq> length expected \<or> list_ex (\<lambda>key. \<not> list_ex (\<lambda>row. fst row = key) entries) expected
          then Inl ''schema fields are not exact'' else Inr ()
      | _ \<Rightarrow> Inl ''schema root is not a map'')"

definition nb_field :: "val \<Rightarrow> string \<Rightarrow> val pres" where
  "nb_field v key = ok_or ''required field missing'' (val_field v key)"

definition require_text :: "val \<Rightarrow> string \<Rightarrow> string \<Rightarrow> unit pres" where
  "require_text v key expected =
     (if Option.bind (val_field v key) as_text = Some expected then Inr () else Inl ''schema discriminator mismatch'')"

definition nb_require_version :: "val \<Rightarrow> u64 \<Rightarrow> unit pres" where
  "nb_require_version v version =
     (if Option.bind (val_field v ''version'') as_u64 = Some version then Inr () else Inl ''schema version mismatch'')"

definition identifier_text :: "string \<Rightarrow> bool" where
  "identifier_text t \<longleftrightarrow>
     t \<noteq> [] \<and> length t \<le> 128 \<and> is_ascii_alphanumeric (byte_of_char (hd t))
     \<and> list_all (\<lambda>b. is_ascii_alphanumeric b \<or> b \<in> set (str_bytes ''._:@/-'')) (str_bytes (tl t))"

definition nb_identifier :: "val \<Rightarrow> string pres" where
  "nb_identifier v =
     bnd (ok_or ''identifier is not text'' (as_text v)) (\<lambda>t.
       if identifier_text t then Inr t else Inl ''identifier is malformed'')"

definition nb_digest :: "val \<Rightarrow> string pres" where
  "nb_digest v =
     bnd (ok_or ''digest is not text'' (as_text v)) (\<lambda>t.
       if length t \<noteq> 64 \<or> \<not> list_all lower_hex_byte (str_bytes t)
          \<or> list_all (\<lambda>b. b = byte_of_char CHR ''0'') (str_bytes t)
       then Inl ''digest is malformed'' else Inr t)"

definition signature_bytes :: "val \<Rightarrow> unit pres" where
  "signature_bytes v =
     (case v of
        Bytes bs \<Rightarrow> if length bs = 64 \<and> \<not> list_all (\<lambda>b. b = 0) bs then Inr () else Inl ''Ed25519 signature bytes malformed''
      | _ \<Rightarrow> Inl ''Ed25519 signature bytes malformed'')"

definition nb_array :: "val \<Rightarrow> nat \<Rightarrow> val list pres" where
  "nb_array v maximum =
     (case v of
        Array vs \<Rightarrow> if length vs \<le> maximum then Inr vs else Inl ''array is malformed or oversized''
      | _ \<Rightarrow> Inl ''array is malformed or oversized'')"

definition unique_step :: "val \<Rightarrow> string set \<Rightarrow> string set pres" where
  "unique_step v seen =
     bnd (nb_identifier v) (\<lambda>t. if t \<in> seen then Inl ''identifier array contains duplicates'' else Inr (insert t seen))"

definition unique_text :: "val list \<Rightarrow> unit pres" where
  "unique_text vs = skip (fold_res unique_step vs {})"

definition require_trust :: "val \<Rightarrow> trust_class \<Rightarrow> unit pres" where
  "require_trust v trust =
     (let expected = (case trust of Production \<Rightarrow> ''production'' | Development \<Rightarrow> ''development'')
      in if Option.bind (val_field v ''trustClass'') as_text = Some expected then Inr () else Inl ''trust class refused'')"

definition nb_uint :: "val \<Rightarrow> string \<Rightarrow> u64 pres" where
  "nb_uint v key = bnd (nb_field v key) (\<lambda>f. ok_or ''uint64 field malformed'' (as_u64 f))"

definition nb_id :: "val \<Rightarrow> string \<Rightarrow> string pres" where
  "nb_id v key = bnd (nb_field v key) nb_identifier"

definition nb_digest_field :: "val \<Rightarrow> string \<Rightarrow> string pres" where
  "nb_digest_field v key = bnd (nb_field v key) nb_digest"

definition nb_bool :: "val \<Rightarrow> string \<Rightarrow> bool pres" where
  "nb_bool v key = bnd (nb_field v key) (\<lambda>f. case f of Bool b \<Rightarrow> Inr b | _ \<Rightarrow> Inl ''boolean field malformed'')"

definition enum_field :: "val \<Rightarrow> string \<Rightarrow> string list \<Rightarrow> string pres" where
  "enum_field v key allowed =
     bnd (nb_id v key) (\<lambda>found. if found \<in> set allowed then Inr found else Inl ''enum field unsupported'')"

definition nb_array_field :: "val \<Rightarrow> string \<Rightarrow> nat \<Rightarrow> val list pres" where
  "nb_array_field v key maximum = bnd (nb_field v key) (\<lambda>f. nb_array f maximum)"

definition sorted_list :: "(val \<Rightarrow> string pres) \<Rightarrow> string \<Rightarrow> val \<Rightarrow> nat \<Rightarrow> string list pres" where
  "sorted_list item message v maximum =
     bnd (nb_array v maximum) (\<lambda>vs. bnd (traverse item vs) (\<lambda>out.
       if strictly_sorted out then Inr out else Inl message))"

definition sorted_ids :: "val \<Rightarrow> nat \<Rightarrow> string list pres" where
  "sorted_ids = sorted_list nb_identifier ''identifier list is not sorted unique''"

definition sorted_digests :: "val \<Rightarrow> nat \<Rightarrow> string list pres" where
  "sorted_digests = sorted_list nb_digest ''digest list is not sorted unique''"

definition ids_field :: "val \<Rightarrow> string \<Rightarrow> nat \<Rightarrow> string list pres" where
  "ids_field v key maximum = bnd (nb_field v key) (\<lambda>f. sorted_ids f maximum)"

definition digests_field :: "val \<Rightarrow> string \<Rightarrow> nat \<Rightarrow> string list pres" where
  "digests_field v key maximum = bnd (nb_field v key) (\<lambda>f. sorted_digests f maximum)"

definition exact_bool_map :: "val \<Rightarrow> string list \<Rightarrow> unit pres" where
  "exact_bool_map v keys = bnd (nb_exact_keys v keys) (\<lambda>_. for_all (nb_bool v) keys)"

definition exact_uint_map :: "val \<Rightarrow> string list \<Rightarrow> unit pres" where
  "exact_uint_map v keys = bnd (nb_exact_keys v keys) (\<lambda>_. for_all (nb_uint v) keys)"

subsection \<open>Projections\<close>

definition projection_without :: "val \<Rightarrow> string list \<Rightarrow> val pres" where
  "projection_without v excluded =
     (case v of
        Map entries \<Rightarrow> Inr (Map (filter (\<lambda>(key, _). key \<notin> set excluded) entries))
      | _ \<Rightarrow> Inl ''projection source is not a map'')"

definition projection_digest :: "bytes \<Rightarrow> val \<Rightarrow> string pres" where
  "projection_digest domain projection =
     bnd (encode_bounded projection MANIFEST) (\<lambda>canonical. Inr (sha256_hex (domain @ canonical)))"

text \<open>\<open>iter_mut().find(..)\<close> and the assignment to the entry it finds.\<close>

fun replace_entry :: "string \<Rightarrow> val \<Rightarrow> (string \<times> val) list \<Rightarrow> (string \<times> val) list option" where
  "replace_entry key v [] = None"
| "replace_entry key v (row # rows) =
     (if fst row = key then Some ((key, v) # rows) else map_option ((#) row) (replace_entry key v rows))"

subsection \<open>The signed envelope\<close>

definition SIGNATURE_KEYS :: "string list" where
  "SIGNATURE_KEYS = [''keyId'', ''algorithm'', ''keyEpoch'', ''signature'']"

definition require_key_namespace :: "string \<Rightarrow> trust_class \<Rightarrow> unit pres" where
  "require_key_namespace key trust =
     (case trust of
        Production \<Rightarrow> refuse_if (starts_with key ''development.'') ''development signature key refused''
      | Development \<Rightarrow>
          refuse_if (\<not> starts_with key ''development.'') ''development signature key namespace required'')"

definition envelope_signature :: "trust_class option \<Rightarrow> val \<Rightarrow> unit pres" where
  "envelope_signature trust row =
     bnd (nb_exact_keys row SIGNATURE_KEYS) (\<lambda>_.
     bnd (bnd (ok_or ''signature key missing'' (val_field row ''keyId'')) nb_identifier) (\<lambda>key.
       all_ok
         [case trust of None \<Rightarrow> Inr () | Some t \<Rightarrow> require_key_namespace key t,
          require_text row ''algorithm'' ''ed25519'',
          refuse_if (Option.bind (val_field row ''keyEpoch'') as_u64 = None) ''signature epoch malformed'',
          bnd (ok_or ''signature bytes missing'' (val_field row ''signature'')) signature_bytes]))"

definition envelope_payload :: "val \<Rightarrow> string list \<Rightarrow> string \<Rightarrow> trust_class option \<Rightarrow> val pres" where
  "envelope_payload v keys schema trust =
     bnd (nb_exact_keys v [''payload'', ''payloadDigest'', ''signatures'']) (\<lambda>_.
     bnd (ok_or ''payload missing'' (val_field v ''payload'')) (\<lambda>payload.
     bnd (all_ok
            [nb_exact_keys payload keys, require_text payload ''schema'' schema, nb_require_version payload 1,
             case trust of None \<Rightarrow> Inr () | Some t \<Rightarrow> require_trust payload t]) (\<lambda>_.
     bnd (ok_or ''payload digest missing'' (Option.bind (val_field v ''payloadDigest'') as_text)) (\<lambda>expected.
     bnd (encode_bounded payload MANIFEST) (\<lambda>encoded.
     if expected \<noteq> sha256_hex encoded then Inl ''payload digest mismatch''
     else
       bnd (case val_field v ''signatures'' of
              Some (Array rows) \<Rightarrow> if rows \<noteq> [] \<and> length rows \<le> 32 then Inr rows else Inl ''signatures malformed''
            | _ \<Rightarrow> Inl ''signatures malformed'') (\<lambda>rows.
       bnd (for_all (envelope_signature trust) rows) (\<lambda>_. Inr payload)))))))"

definition validate_envelope_key_namespaces :: "val \<Rightarrow> trust_class \<Rightarrow> unit pres" where
  "validate_envelope_key_namespaces v trust =
     bnd (nb_array_field v ''signatures'' 32) (\<lambda>rows.
       for_all (\<lambda>row. bnd (nb_id row ''keyId'') (\<lambda>key. require_key_namespace key trust)) rows)"

definition require_envelope_epoch :: "val \<Rightarrow> u64 \<Rightarrow> unit pres" where
  "require_envelope_epoch v epoch =
     bnd (nb_array_field v ''signatures'' 32) (\<lambda>rows.
       for_all (\<lambda>row. bnd (nb_uint row ''keyEpoch'') (\<lambda>e. refuse_if (e \<noteq> epoch) ''signature key epoch mismatch'')) rows)"

end
