(* ===== verification/Measurements.thy ===== *)
theory Measurements
  imports Native_Fields
begin

section \<open>Measurement values\<close>

text \<open>
  \<open>MEASUREMENT_FIELDS\<close>, \<open>measurement_field\<close>, \<open>uint_values\<close> and \<open>validate_measurement_value\<close> of
  \<open>native/crates/protocol/src/lib.rs\<close>: the closed registry of measured fields and the shape of the value
  each of them has.
\<close>

definition MEASUREMENT_FIELDS :: "string list" where
  "MEASUREMENT_FIELDS =
     [''capture.window'', ''cgroup.limits'', ''credential.state'', ''fd.inventory'', ''identity.gid.effective'',
      ''identity.gid.real'', ''identity.gid.saved'', ''identity.groups'', ''identity.uid.effective'', ''identity.uid.real'',
      ''identity.uid.saved'', ''incarnation'', ''landlock.policy'', ''loader.executable'', ''loader.shared-libraries'',
      ''mount.topology'', ''namespaces.inodes'', ''network.topology'', ''seccomp.launch'', ''seccomp.steady'',
      ''security.capabilities.ambient'', ''security.capabilities.bounding'', ''security.capabilities.effective'',
      ''security.capabilities.inheritable'', ''security.capabilities.permitted'', ''security.dumpable'',
      ''security.no-new-privileges'']"

definition measurement_field :: "val \<Rightarrow> string \<Rightarrow> string pres" where
  "measurement_field v key =
     bnd (nb_id v key) (\<lambda>f. if f \<in> set MEASUREMENT_FIELDS then Inr f else Inl ''measurement field outside registry'')"

definition uint_step :: "val \<Rightarrow> u64 option \<Rightarrow> u64 option pres" where
  "uint_step v prior =
     bnd (ok_or ''uint64 set malformed'' (as_u64 v)) (\<lambda>current.
       if repeats prior current then Inl ''uint64 set not sorted unique'' else Inr (Some current))"

definition uint_values :: "val \<Rightarrow> nat \<Rightarrow> unit pres" where
  "uint_values v maximum = bnd (nb_array v maximum) (\<lambda>vs. skip (fold_res uint_step vs None))"

definition NAMESPACES :: "string list" where
  "NAMESPACES = [''user'', ''pid'', ''mount'', ''network'', ''ipc'', ''cgroup'']"

definition MOUNT_FLAGS :: "string list" where
  "MOUNT_FLAGS = [''readOnly'', ''nodev'', ''nosuid'', ''noexec'']"

definition mount_target :: "string \<Rightarrow> bool" where
  "mount_target t \<longleftrightarrow>
     \<not> length t < 2 \<and> starts_with t ''/'' \<and> \<not> contains_sub ''//'' t
     \<and> list_all (\<lambda>part. part \<notin> {''.'', ''..''}) (split_on CHR ''/'' t)
     \<and> list_all (\<lambda>b. b = byte_of_char CHR ''/'' \<or> is_ascii_alphanumeric b \<or> b \<in> set (str_bytes ''._@-'')) (str_bytes t)"

text \<open>The members of a typed value are its \<open>type\<close> and the given keys.\<close>

definition typed_value :: "val \<Rightarrow> string \<Rightarrow> string list \<Rightarrow> unit pres list \<Rightarrow> unit pres" where
  "typed_value v type keys cs = all_ok (nb_exact_keys v (''type'' # keys) # require_text v ''type'' type # cs)"

definition measured_mount :: "val \<Rightarrow> unit pres" where
  "measured_mount mount =
     bnd (nb_exact_keys mount [''target'', ''sourceDigest'', ''readOnly'', ''nodev'', ''nosuid'', ''noexec'']) (\<lambda>_.
     bnd (nb_field mount ''target'') (\<lambda>f.
     bnd (ok_or ''mount target malformed'' (as_text f)) (\<lambda>target.
       all_ok
         [refuse_if (\<not> mount_target target) ''mount target malformed'',
          skip (nb_digest_field mount ''sourceDigest''),
          for_all (nb_bool mount) MOUNT_FLAGS])))"

definition measured_descriptor :: "val \<Rightarrow> unit pres" where
  "measured_descriptor fd =
     all_ok
       [nb_exact_keys fd [''slot'', ''purpose'', ''flagsDigest'', ''seals'', ''credentialDomain''],
        skip (nb_uint fd ''slot''), skip (nb_id fd ''purpose''), skip (nb_digest_field fd ''flagsDigest''),
        skip (ids_field fd ''seals'' 32),
        bnd (nb_field fd ''credentialDomain'') (\<lambda>domain.
          if domain = Null then Inr () else skip (nb_id fd ''credentialDomain''))]"

definition ordered_counters :: "val \<Rightarrow> string \<Rightarrow> string \<Rightarrow> string \<Rightarrow> unit pres" where
  "ordered_counters v later earlier message =
     bnd (nb_uint v later) (\<lambda>l. bnd (nb_uint v earlier) (\<lambda>e. refuse_if (l < e) message))"

definition seccomp_value :: "val \<Rightarrow> unit pres" where
  "seccomp_value v =
     typed_value v ''seccomp-policy'' [''architecture'', ''defaultAction'', ''allowedActions'', ''filterDigest'', ''noNewPrivileges'']
       [skip (nb_id v ''architecture''), skip (nb_id v ''defaultAction''), skip (ids_field v ''allowedActions'' 256),
        skip (nb_digest_field v ''filterDigest''),
        bnd (nb_bool v ''noNewPrivileges'') (\<lambda>b. refuse_if (\<not> b) ''seccomp lacks no-new-privileges'')]"

definition landlock_value :: "val \<Rightarrow> unit pres" where
  "landlock_value v =
     typed_value v ''landlock-policy'' [''abi'', ''handledRights'', ''scopedRights'', ''rulesetDigest'']
       [skip (nb_uint v ''abi''), skip (ids_field v ''handledRights'' 256), skip (ids_field v ''scopedRights'' 256),
        skip (nb_digest_field v ''rulesetDigest'')]"

definition validate_measurement_value :: "string \<Rightarrow> val \<Rightarrow> unit pres" where
  "validate_measurement_value name v =
     (if starts_with name ''identity.uid.'' \<or> starts_with name ''identity.gid.'' then
        typed_value v ''uint64'' [''value''] [skip (nb_uint v ''value'')]
      else if name = ''identity.groups'' then
        typed_value v ''uint64-set'' [''values''] [bnd (nb_field v ''values'') (\<lambda>f. uint_values f 64)]
      else if starts_with name ''security.capabilities.'' then
        typed_value v ''identifier-set'' [''values''] [skip (ids_field v ''values'' 128)]
      else if name \<in> {''security.dumpable'', ''security.no-new-privileges''} then
        typed_value v ''boolean'' [''value''] [skip (nb_bool v ''value'')]
      else if name = ''loader.executable'' then
        typed_value v ''digest'' [''value''] [skip (nb_digest_field v ''value'')]
      else if name = ''loader.shared-libraries'' then
        typed_value v ''digest-set'' [''values''] [skip (digests_field v ''values'' 256)]
      else if name = ''namespaces.inodes'' then
        typed_value v ''namespace-inodes'' NAMESPACES [for_all (nb_uint v) NAMESPACES]
      else if name = ''cgroup.limits'' then
        typed_value v ''cgroup-limits'' [''memoryMax'', ''pidsMax'', ''cpuMaxMicros'', ''ioMaxDigest'']
          [for_all (nb_uint v) [''memoryMax'', ''pidsMax'', ''cpuMaxMicros''], skip (nb_digest_field v ''ioMaxDigest'')]
      else if name \<in> {''seccomp.launch'', ''seccomp.steady''} then seccomp_value v
      else if name = ''landlock.policy'' then landlock_value v
      else if name = ''mount.topology'' then
        typed_value v ''mount-topology'' [''entries'']
          [bnd (nb_array_field v ''entries'' 128) (\<lambda>rows. for_all measured_mount rows)]
      else if name = ''network.topology'' then
        typed_value v ''network-topology'' [''interfaces'', ''routes'', ''addressFamilies'']
          [skip (ids_field v ''interfaces'' 128), skip (ids_field v ''routes'' 256), skip (ids_field v ''addressFamilies'' 32)]
      else if name = ''fd.inventory'' then
        typed_value v ''descriptor-inventory'' [''entries'']
          [bnd (nb_array_field v ''entries'' 256) (\<lambda>rows. for_all measured_descriptor rows)]
      else if name = ''credential.state'' then
        typed_value v ''credential-state'' [''domains'', ''deliveredAfterAttestation'', ''descriptorCount'']
          [skip (ids_field v ''domains'' 32),
           bnd (nb_bool v ''deliveredAfterAttestation'') (\<lambda>b. refuse_if (\<not> b) ''credential delivered before attestation''),
           skip (nb_uint v ''descriptorCount'')]
      else if name = ''incarnation'' then
        typed_value v ''incarnation'' [''pidfdDigest'', ''startCounter'', ''expiresCounter'']
          [skip (nb_digest_field v ''pidfdDigest''),
           ordered_counters v ''expiresCounter'' ''startCounter'' ''incarnation counter order invalid'']
      else if name = ''capture.window'' then
        typed_value v ''counter-window'' [''capturedCounter'', ''expiresCounter'']
          [ordered_counters v ''expiresCounter'' ''capturedCounter'' ''capture counter order invalid'']
      else Inl ''measurement field outside registry'')"

end
