(* ===== verification/Deployment.thy ===== *)
theory Deployment
  imports Measurements
begin

section \<open>Deployments\<close>

text \<open>
  \<open>deployment_base_digest\<close> and \<open>validate_deployment\<close> of \<open>native/crates/protocol/src/lib.rs\<close>. The function
  is one sequence of blocks; each block is a definition here, over the tables the blocks before it have
  filled. A \<open>BTreeMap\<close> is an association list in key order, a \<open>BTreeSet\<close> a set.
\<close>

subsection \<open>Key lists and the base digest\<close>

definition PROTOCOL_NAME :: string where "PROTOCOL_NAME = ''keep.native-boundary''"
definition PROTOCOL_VERSION :: u64 where "PROTOCOL_VERSION = 2"

definition DEPLOYMENT_PAYLOAD_KEYS :: "string list" where
  "DEPLOYMENT_PAYLOAD_KEYS =
     [''schema'', ''version'', ''trustClass'', ''deploymentId'', ''deploymentEpoch'', ''deploymentBaseDigest'',
      ''predecessorDigest'', ''bootPolicy'', ''protocol'', ''artifacts'', ''roles'', ''channels'', ''probers'',
      ''provisioners'', ''b3'', ''release'', ''revocation'', ''rollback'', ''evidence'']"

definition DEPLOYMENT_B3_KEYS :: "string list" where
  "DEPLOYMENT_B3_KEYS =
     [''authorityId'', ''genesisBaseDigest'', ''b3ProfileEnvelopeDigest'', ''keyEpoch'', ''assurance'',
      ''channelId'']"

definition DEPLOYMENT_REVOCATION_KEYS :: "string list" where
  "DEPLOYMENT_REVOCATION_KEYS =
     [''authorityId'', ''keyEpoch'', ''namespace'', ''scope'', ''genesisCheckpointEnvelopeDigest'',
      ''minimumSequence'', ''maxStalenessCounters'', ''compromiseSemantics'']"

definition DEPLOYMENT_ROLLBACK_KEYS :: "string list" where
  "DEPLOYMENT_ROLLBACK_KEYS =
     [''deploymentEpoch'', ''minimumArtifactVersion'', ''predecessorDigest'', ''authorizedRollbackEnvelopeDigest'']"

definition BASE_DOMAIN :: bytes where "BASE_DOMAIN = str_bytes ''keep.native-deployment-base/v1'' @ [0]"

text \<open>\<open>projection_without\<close> returns a map, so the \<open>unreachable!()\<close> is the error \<open>unreachable\<close>.\<close>

definition deployment_base_digest :: "val \<Rightarrow> string pres" where
  "deployment_base_digest v =
     bnd (nb_exact_keys v DEPLOYMENT_PAYLOAD_KEYS) (\<lambda>_.
     bnd (nb_field v ''rollback'') (\<lambda>rollback.
     bnd (nb_exact_keys rollback DEPLOYMENT_ROLLBACK_KEYS) (\<lambda>_.
     bnd (projection_without rollback [''authorizedRollbackEnvelopeDigest'']) (\<lambda>rollback_projection.
     bnd (projection_without v [''deploymentBaseDigest'']) (\<lambda>projection.
       case projection of
         Map entries \<Rightarrow>
           bnd (ok_or ''rollback missing from deployment projection'' (replace_entry ''rollback'' rollback_projection entries))
             (\<lambda>entries. projection_digest BASE_DOMAIN (Map entries))
       | _ \<Rightarrow> Inl ''unreachable'')))))"

subsection \<open>Boot policy and protocol limits\<close>

definition kernel_cell :: "val \<Rightarrow> string pres" where
  "kernel_cell cell =
     bnd (nb_exact_keys cell [''cellId'', ''minimumKernel'', ''maximumKernel'', ''requiredFeatures'']) (\<lambda>_.
     bnd (nb_id cell ''cellId'') (\<lambda>id.
     bnd (all_ok [skip (nb_id cell ''minimumKernel''), skip (nb_id cell ''maximumKernel''),
                  skip (ids_field cell ''requiredFeatures'' 64)]) (\<lambda>_. Inr id)))"

definition boot_policy :: "val \<Rightarrow> unit pres" where
  "boot_policy v =
     bnd (nb_field v ''bootPolicy'') (\<lambda>boot.
     bnd (all_ok
            [nb_exact_keys boot [''maxLaunchMs'', ''maxResponseMs'', ''maxAttestationAge'', ''maxCleanupMs'',
               ''maxConcurrentTransactions'', ''kernelCells''],
             for_all (nb_uint boot) [''maxLaunchMs'', ''maxResponseMs'', ''maxAttestationAge'', ''maxCleanupMs''],
             bnd (nb_uint boot ''maxConcurrentTransactions'') (\<lambda>n. refuse_if (n \<noteq> 1) ''v1 concurrency must equal one'')]) (\<lambda>_.
     bnd (nb_array_field boot ''kernelCells'' 32) (\<lambda>cells.
     if cells = [] then Inl ''kernel cells empty''
     else bnd (traverse kernel_cell cells) (\<lambda>ids.
       refuse_if (\<not> strictly_sorted ids) ''kernel cells not sorted unique''))))"

definition PROTOCOL_LIMITS :: "(string \<times> u64) list" where
  "PROTOCOL_LIMITS =
     [(''maxFrameBytes'', 1048576), (''maxRoles'', 32), (''maxChannels'', 128), (''maxMeasurements'', 1024),
      (''maxDepth'', 16), (''maxItems'', 65536), (''maxTextBytes'', 4096)]"

definition protocol_limits :: "val \<Rightarrow> unit pres" where
  "protocol_limits v =
     bnd (nb_field v ''protocol'') (\<lambda>protocol.
       all_ok
         [nb_exact_keys protocol [''name'', ''version'', ''maxFrameBytes'', ''maxRoles'', ''maxChannels'',
            ''maxMeasurements'', ''maxDepth'', ''maxItems'', ''maxTextBytes''],
          require_text protocol ''name'' PROTOCOL_NAME, nb_require_version protocol 2,
          for_all (\<lambda>(key, expected). bnd (nb_uint protocol key) (\<lambda>n. refuse_if (n \<noteq> expected) ''protocol limit mismatch''))
            PROTOCOL_LIMITS])"

subsection \<open>Artifacts\<close>

record artifact_table =
  af_prior :: "string option"
  af_ids :: "string set"
  af_digests :: "(string \<times> string) list"
  af_kinds :: "(string \<times> string) list"

definition ARTIFACT_KINDS :: "string list" where
  "ARTIFACT_KINDS = [''helper'', ''trampoline'', ''prober'', ''provisioner'', ''role'']"

definition artifact_step :: "val \<Rightarrow> artifact_table \<Rightarrow> artifact_table pres" where
  "artifact_step artifact t =
     bnd (nb_exact_keys artifact [''artifactId'', ''digest'', ''kind'', ''targetTriple'', ''variant'', ''executableMode'',
            ''releaseMember'']) (\<lambda>_.
     bnd (nb_id artifact ''artifactId'') (\<lambda>id.
     if repeats (af_prior t) id \<or> id \<in> af_ids t then Inl ''artifacts not sorted unique''
     else
       bnd (nb_digest_field artifact ''digest'') (\<lambda>digest.
       bnd (enum_field artifact ''kind'' ARTIFACT_KINDS) (\<lambda>kind.
       bnd (all_ok
              [skip (nb_id artifact ''targetTriple''), skip (nb_id artifact ''variant''),
               refuse_any ''artifact is not executable release member''
                 [holds (nb_uint artifact ''executableMode'') (\<lambda>m. m \<noteq> 365), holds (nb_bool artifact ''releaseMember'') Not]]) (\<lambda>_.
         Inr \<lparr>af_prior = Some id, af_ids = insert id (af_ids t), af_digests = om_insert id digest (af_digests t),
              af_kinds = om_insert id kind (af_kinds t)\<rparr>)))))"

definition no_artifacts :: artifact_table where
  "no_artifacts = \<lparr>af_prior = None, af_ids = {}, af_digests = [], af_kinds = []\<rparr>"

definition artifact_rows :: "val \<Rightarrow> (val list \<times> artifact_table) pres" where
  "artifact_rows v =
     bnd (nb_array_field v ''artifacts'' 128) (\<lambda>artifacts.
     if artifacts = [] then Inl ''artifacts empty''
     else
       bnd (fold_res artifact_step artifacts no_artifacts) (\<lambda>t.
       bnd (for_all (\<lambda>kind. refuse_if (length (filter (\<lambda>found. found = kind) (map snd (af_kinds t))) \<noteq> 1)
              ''native artifact cardinality invalid'') [''helper'', ''trampoline'', ''prober'']) (\<lambda>_.
         Inr (artifacts, t))))"

subsection \<open>Roles\<close>

record role_table =
  ro_prior :: "string option"
  ro_ids :: "string set"
  ro_classes :: "(string \<times> string) list"
  ro_credentials :: "(string \<times> string list) list"
  ro_principals :: "string set"

definition ROLE_KEYS :: "string list" where
  "ROLE_KEYS =
     [''roleId'', ''roleClass'', ''principalId'', ''artifactId'', ''artifactDigest'', ''credentialDomains'',
      ''allowedChannelIds'', ''uid'', ''gid'', ''supplementaryGroups'', ''namespaces'', ''mounts'', ''cgroup'', ''rlimits'',
      ''capabilitiesEmpty'', ''dumpable'', ''launchSeccompDigest'', ''steadySeccompDigest'', ''landlockDigest'',
      ''environmentAllowlist'', ''inheritedFdSlots'', ''requiredMeasurementFields'']"

definition ROLE_CLASSES :: "string list" where
  "ROLE_CLASSES = [''D1'', ''D2'', ''D3'', ''PROBER'']"

definition unsigned_rows :: "val \<Rightarrow> string \<Rightarrow> nat \<Rightarrow> string \<Rightarrow> unit pres" where
  "unsigned_rows v key maximum message =
     bnd (nb_array_field v key maximum) (\<lambda>rows. for_all (\<lambda>row. refuse_if (as_u64 row = None) message) rows)"

definition role_mount :: "string set \<Rightarrow> val \<Rightarrow> unit pres" where
  "role_mount artifact_ids mount =
     bnd (nb_exact_keys mount [''sourceArtifactId'', ''target'', ''readOnly'', ''nodev'', ''nosuid'', ''noexec'']) (\<lambda>_.
     bnd (nb_id mount ''sourceArtifactId'') (\<lambda>source.
     if source \<notin> artifact_ids then Inl ''mount artifact absent''
     else
       bnd (nb_field mount ''target'') (\<lambda>f.
       bnd (ok_or ''mount path malformed'' (as_text f)) (\<lambda>target.
         all_ok [refuse_if (4096 < length target \<or> \<not> mount_target target) ''mount path malformed'',
                 for_all (nb_bool mount) MOUNT_FLAGS]))))"

definition role_cgroup :: "val \<Rightarrow> unit pres" where
  "role_cgroup role =
     bnd (nb_field role ''cgroup'') (\<lambda>cgroup.
       all_ok
         [nb_exact_keys cgroup [''pathId'', ''memoryMax'', ''pidsMax'', ''cpuMaxMicros'', ''ioMaxDigest''],
          skip (nb_id cgroup ''pathId''), for_all (nb_uint cgroup) [''memoryMax'', ''pidsMax'', ''cpuMaxMicros''],
          skip (nb_digest_field cgroup ''ioMaxDigest'')])"

text \<open>The rest of a role, after its identity, artifact and credentials.\<close>

definition role_confinement :: "artifact_table \<Rightarrow> val \<Rightarrow> unit pres" where
  "role_confinement t role =
     all_ok
       [skip (ids_field role ''allowedChannelIds'' 128), skip (nb_uint role ''uid''), skip (nb_uint role ''gid''),
        unsigned_rows role ''supplementaryGroups'' 32 ''group malformed'',
        bnd (nb_field role ''namespaces'') (\<lambda>f. exact_bool_map f NAMESPACES),
        bnd (nb_array_field role ''mounts'' 128) (\<lambda>mounts. for_all (role_mount (af_ids t)) mounts),
        role_cgroup role,
        bnd (nb_field role ''rlimits'') (\<lambda>f. exact_uint_map f [''nofile'', ''nproc'', ''core'', ''fsize'', ''addressSpace'']),
        refuse_any ''role privilege booleans refuse''
          [holds (nb_bool role ''capabilitiesEmpty'') Not, holds (nb_bool role ''dumpable'') (\<lambda>b. b)],
        for_all (nb_digest_field role) [''launchSeccompDigest'', ''steadySeccompDigest'', ''landlockDigest''],
        skip (ids_field role ''environmentAllowlist'' 64),
        unsigned_rows role ''inheritedFdSlots'' 64 ''fd slot malformed'',
        bnd (ids_field role ''requiredMeasurementFields'' 128) (\<lambda>fs.
          refuse_if (fs \<noteq> MEASUREMENT_FIELDS) ''required measurements empty'')]"

definition role_step :: "artifact_table \<Rightarrow> val \<Rightarrow> role_table \<Rightarrow> role_table pres" where
  "role_step t role r =
     bnd (nb_exact_keys role ROLE_KEYS) (\<lambda>_.
     bnd (nb_id role ''roleId'') (\<lambda>id.
     if repeats (ro_prior r) id \<or> id \<in> ro_ids r then Inl ''roles not sorted unique''
     else
       bnd (enum_field role ''roleClass'' ROLE_CLASSES) (\<lambda>class.
       bnd (nb_id role ''principalId'') (\<lambda>principal.
       if principal \<in> ro_principals r then Inl ''role principals duplicate''
       else
         bnd (nb_id role ''artifactId'') (\<lambda>artifact.
         if map_of (af_kinds t) artifact \<noteq> Some ''role'' then Inl ''role artifact absent or wrong kind''
         else
           bnd (nb_digest_field role ''artifactDigest'') (\<lambda>digest.
           if map_of (af_digests t) artifact \<noteq> Some digest then Inl ''role artifact digest mismatch''
           else
             bnd (ids_field role ''credentialDomains'' 1) (\<lambda>credentials.
             if class \<noteq> ''D3'' \<and> credentials \<noteq> [] then Inl ''credentials outside D3''
             else
               bnd (role_confinement t role) (\<lambda>_.
                 Inr \<lparr>ro_prior = Some id, ro_ids = insert id (ro_ids r), ro_classes = om_insert id class (ro_classes r),
                      ro_credentials = om_insert id credentials (ro_credentials r),
                      ro_principals = insert principal (ro_principals r)\<rparr>))))))))"

definition no_roles :: role_table where
  "no_roles = \<lparr>ro_prior = None, ro_ids = {}, ro_classes = [], ro_credentials = [], ro_principals = {}\<rparr>"

definition role_rows :: "val \<Rightarrow> artifact_table \<Rightarrow> (val list \<times> role_table) pres" where
  "role_rows v t =
     bnd (nb_array_field v ''roles'' 32) (\<lambda>roles.
     if roles = [] then Inl ''deployment roles empty''
     else bnd (fold_res (role_step t) roles no_roles) (\<lambda>r. Inr (roles, r)))"

end
