(* ===== verification/Topology.thy ===== *)
theory Topology
  imports Deployment
begin

section \<open>The topology of a deployment\<close>

text \<open>
  The rest of \<open>validate_deployment\<close>: channels, the prober, provisioners, B3, the endpoints of every channel,
  the use of every artifact, release, revocation, rollback and evidence policy.
\<close>

subsection \<open>Channels\<close>

record channel_table =
  cn_prior :: "string option"
  cn_ids :: "string set"
  cn_endpoints :: "(string \<times> string \<times> string) list"
  cn_by_id :: "(string \<times> val) list"

definition CHANNEL_KEYS :: "string list" where
  "CHANNEL_KEYS =
     [''channelId'', ''fromEndpoint'', ''toEndpoint'', ''socketType'', ''direction'', ''maxFrameBytes'', ''maxDescriptors'',
      ''peerCredentialPolicy'', ''oneShot'']"

definition channel_step :: "val \<Rightarrow> channel_table \<Rightarrow> channel_table pres" where
  "channel_step channel t =
     bnd (nb_exact_keys channel CHANNEL_KEYS) (\<lambda>_.
     bnd (nb_id channel ''channelId'') (\<lambda>id.
     if repeats (cn_prior t) id \<or> id \<in> cn_ids t then Inl ''channels not sorted unique''
     else
       bnd (nb_id channel ''fromEndpoint'') (\<lambda>from_end.
       bnd (nb_id channel ''toEndpoint'') (\<lambda>to_end.
       if from_end = to_end then Inl ''channel self-loop refused''
       else
         bnd (all_ok [skip (enum_field channel ''socketType'' [''seqpacket'']),
                      skip (enum_field channel ''direction'' [''one-way'', ''request-response''])]) (\<lambda>_.
         bnd (nb_uint channel ''maxFrameBytes'') (\<lambda>frame.
         bnd (nb_uint channel ''maxDescriptors'') (\<lambda>descriptors.
         bnd (all_ok [refuse_if (frame = 0 \<or> 1048576 < frame \<or> 64 < descriptors) ''channel operational bounds invalid'',
                      skip (enum_field channel ''peerCredentialPolicy'' [''exact-principal'']),
                      skip (nb_bool channel ''oneShot'')]) (\<lambda>_.
           Inr \<lparr>cn_prior = Some id, cn_ids = insert id (cn_ids t),
                cn_endpoints = om_insert id (from_end, to_end) (cn_endpoints t),
                cn_by_id = om_insert id channel (cn_by_id t)\<rparr>))))))))"

definition no_channels :: channel_table where
  "no_channels = \<lparr>cn_prior = None, cn_ids = {}, cn_endpoints = [], cn_by_id = []\<rparr>"

definition channel_rows :: "val \<Rightarrow> (val list \<times> channel_table) pres" where
  "channel_rows v =
     bnd (nb_array_field v ''channels'' 128) (\<lambda>channels.
     bnd (fold_res channel_step channels no_channels) (\<lambda>t. Inr (channels, t)))"

definition role_endpoint :: "string \<Rightarrow> string" where
  "role_endpoint role_id = ''role:'' @ role_id"

text \<open>Every channel a role allows exists and has the role at one end.\<close>

definition allowed_channel :: "channel_table \<Rightarrow> val \<Rightarrow> string \<Rightarrow> unit pres" where
  "allowed_channel t role channel =
     bnd (nb_id role ''roleId'') (\<lambda>id.
       refuse_if (channel \<notin> cn_ids t \<or>
           \<not> (case map_of (cn_endpoints t) channel of
                None \<Rightarrow> False
              | Some (from_end, to_end) \<Rightarrow> from_end = role_endpoint id \<or> to_end = role_endpoint id))
         ''role channel absent'')"

definition allowed_channels :: "channel_table \<Rightarrow> val \<Rightarrow> unit pres" where
  "allowed_channels t role = bnd (ids_field role ''allowedChannelIds'' 128) (\<lambda>ids. for_all (allowed_channel t role) ids)"

subsection \<open>The prober and the provisioners\<close>

definition prober_row :: "val \<Rightarrow> artifact_table \<Rightarrow> role_table \<Rightarrow> (val \<times> string) pres" where
  "prober_row v t r =
     bnd (nb_array_field v ''probers'' 1) (\<lambda>probers.
     if length probers \<noteq> 1 then Inl ''exactly one prober required''
     else
       let prober = probers ! 0
       in bnd (nb_exact_keys prober [''proberId'', ''artifactId'', ''principalId'', ''signingKeyId'', ''keyEpoch'',
                 ''channelId'', ''observationGrants'', ''requiredNegativeProbes'']) (\<lambda>_.
          bnd (nb_id prober ''proberId'') (\<lambda>_.
          bnd (nb_id prober ''artifactId'') (\<lambda>artifact.
          if map_of (af_kinds t) artifact \<noteq> Some ''prober'' then Inl ''prober artifact absent or wrong kind''
          else
            bnd (nb_id prober ''principalId'') (\<lambda>principal.
            if principal \<in> ro_principals r then Inl ''prober principal aliases role''
            else
              bnd (all_ok
                     [skip (nb_id prober ''signingKeyId''), skip (nb_uint prober ''keyEpoch''), skip (nb_id prober ''channelId''),
                      skip (ids_field prober ''observationGrants'' 128), skip (ids_field prober ''requiredNegativeProbes'' 128)])
                (\<lambda>_. Inr (prober, principal)))))))"

record provisioner_table =
  pv_prior :: "string option"
  pv_ids :: "string set"
  pv_domains :: "string set"
  pv_principals :: "string set"

definition PROVISIONER_KEYS :: "string list" where
  "PROVISIONER_KEYS =
     [''provisionerId'', ''domain'', ''principalId'', ''artifactId'', ''targetRoleId'', ''channelId'', ''descriptorType'',
      ''requiredSeals'', ''descriptorCount'', ''destructionDeadlineMs'']"

definition provisioner_endpoint :: "string \<Rightarrow> string" where
  "provisioner_endpoint provisioner_id = ''provisioner:'' @ provisioner_id"

text \<open>\<open>enum_field(channel, "direction", &[d]).is_err()\<close> and the other tests of a channel's shape.\<close>

definition channel_shape :: "string \<Rightarrow> u64 \<Rightarrow> bool \<Rightarrow> val \<Rightarrow> bool pres list" where
  "channel_shape direction descriptors one_shot channel =
     [Inr (\<not> is_ok (enum_field channel ''direction'' [direction])),
      holds (nb_uint channel ''maxDescriptors'') (\<lambda>n. n \<noteq> descriptors),
      holds (nb_bool channel ''oneShot'') (\<lambda>b. b \<noteq> one_shot)]"

definition provisioner_references ::
  "artifact_table \<Rightarrow> role_table \<Rightarrow> channel_table \<Rightarrow> val \<Rightarrow> string \<Rightarrow> unit pres" where
  "provisioner_references t r c provisioner provisioner_id =
     bnd (nb_id provisioner ''targetRoleId'') (\<lambda>target.
     bnd (nb_id provisioner ''domain'') (\<lambda>domain.
     bnd (nb_id provisioner ''channelId'') (\<lambda>channel.
     bnd (refuse_any ''provisioner reference absent''
            [holds (nb_id provisioner ''artifactId'') (\<lambda>artifact. map_of (af_kinds t) artifact \<noteq> Some ''provisioner''),
             Inr (map_of (ro_classes r) target \<noteq> Some ''D3''),
             Inr (map_of (cn_endpoints c) channel \<noteq> Some (provisioner_endpoint provisioner_id, role_endpoint target))]) (\<lambda>_.
       all_ok
         [refuse_if (map_of (ro_credentials r) target \<noteq> Some [domain]) ''provisioner domain mismatch'',
          skip (nb_id provisioner ''descriptorType''), skip (ids_field provisioner ''requiredSeals'' 16),
          bnd (nb_uint provisioner ''descriptorCount'') (\<lambda>n. refuse_if (n \<noteq> 1) ''descriptor count must equal one''),
          bnd (ok_or ''provision channel absent'' (map_of (cn_by_id c) channel)) (\<lambda>row.
            refuse_any ''provision channel topology mismatch''
              (channel_shape ''one-way'' 1 True row)),
          skip (nb_uint provisioner ''destructionDeadlineMs'')]))))"

definition provisioner_step ::
  "artifact_table \<Rightarrow> role_table \<Rightarrow> channel_table \<Rightarrow> string \<Rightarrow> val \<Rightarrow> provisioner_table \<Rightarrow> provisioner_table pres" where
  "provisioner_step t r c prober_principal provisioner p =
     bnd (nb_exact_keys provisioner PROVISIONER_KEYS) (\<lambda>_.
     bnd (nb_id provisioner ''provisionerId'') (\<lambda>id.
     if repeats (pv_prior p) id \<or> id \<in> pv_ids p then Inl ''provisioners not sorted unique''
     else
       bnd (nb_id provisioner ''domain'') (\<lambda>domain.
       if domain \<in> pv_domains p then Inl ''provisioner domain duplicate''
       else
         bnd (nb_id provisioner ''principalId'') (\<lambda>principal.
         if principal \<in> ro_principals r \<or> principal = prober_principal \<or> principal \<in> pv_principals p
         then Inl ''provisioner principal aliases''
         else
           bnd (provisioner_references t r c provisioner id) (\<lambda>_.
             Inr \<lparr>pv_prior = Some id, pv_ids = insert id (pv_ids p), pv_domains = insert domain (pv_domains p),
                  pv_principals = insert principal (pv_principals p)\<rparr>)))))"

definition no_provisioners :: provisioner_table where
  "no_provisioners = \<lparr>pv_prior = None, pv_ids = {}, pv_domains = {}, pv_principals = {}\<rparr>"

definition provisioner_rows ::
  "val \<Rightarrow> artifact_table \<Rightarrow> role_table \<Rightarrow> channel_table \<Rightarrow> string \<Rightarrow> val list pres" where
  "provisioner_rows v t r c prober_principal =
     bnd (nb_array_field v ''provisioners'' 32) (\<lambda>provisioners.
     bnd (fold_res (provisioner_step t r c prober_principal) provisioners no_provisioners) (\<lambda>_. Inr provisioners))"

subsection \<open>B3 and the endpoints of the channels\<close>

definition b3_row :: "val \<Rightarrow> val pres" where
  "b3_row v =
     bnd (nb_field v ''b3'') (\<lambda>b3.
     bnd (all_ok
            [nb_exact_keys b3 DEPLOYMENT_B3_KEYS, skip (nb_id b3 ''authorityId''), skip (nb_digest_field b3 ''genesisBaseDigest''),
             skip (nb_digest_field b3 ''b3ProfileEnvelopeDigest''), skip (nb_uint b3 ''keyEpoch''),
             skip (enum_field b3 ''assurance'' [''load-bearing'']), skip (nb_id b3 ''channelId'')]) (\<lambda>_. Inr b3))"

definition SUPERVISOR :: string where "SUPERVISOR = ''supervisor:keep''"

definition endpoint_set :: "val list \<Rightarrow> val \<Rightarrow> val \<Rightarrow> val list \<Rightarrow> string set pres" where
  "endpoint_set roles prober b3 provisioners =
     bnd (traverse (\<lambda>role. nb_id role ''roleId'') roles) (\<lambda>role_ids.
     bnd (nb_id prober ''proberId'') (\<lambda>prober_id.
     bnd (nb_id b3 ''authorityId'') (\<lambda>authority.
     bnd (traverse (\<lambda>row. nb_id row ''provisionerId'') provisioners) (\<lambda>provisioner_ids.
       Inr (set (SUPERVISOR # map role_endpoint role_ids @ [''prober:'' @ prober_id, ''b3:'' @ authority]
              @ map provisioner_endpoint provisioner_ids))))))"

definition declared_endpoints :: "string set \<Rightarrow> channel_table \<Rightarrow> unit pres" where
  "declared_endpoints endpoints c =
     for_all (\<lambda>(id, from_end, to_end).
       refuse_if (from_end \<notin> endpoints \<or> to_end \<notin> endpoints) ''channel endpoint outside typed topology'') (cn_endpoints c)"

definition prober_channel :: "channel_table \<Rightarrow> val \<Rightarrow> unit pres" where
  "prober_channel c prober =
     bnd (nb_id prober ''channelId'') (\<lambda>id.
     bnd (ok_or ''prober channel absent'' (map_of (cn_by_id c) id)) (\<lambda>row.
       refuse_any ''prober channel topology mismatch''
         ([bnd (nb_id row ''fromEndpoint'') (\<lambda>from_end. holds (nb_id prober ''proberId'') (\<lambda>p. from_end \<noteq> ''prober:'' @ p)),
           holds (nb_id row ''toEndpoint'') (\<lambda>to_end. to_end \<noteq> SUPERVISOR)]
          @ channel_shape ''request-response'' 0 False row)))"

definition b3_channel :: "channel_table \<Rightarrow> val \<Rightarrow> unit pres" where
  "b3_channel c b3 =
     bnd (nb_id b3 ''channelId'') (\<lambda>id.
     bnd (ok_or ''B3 channel absent'' (map_of (cn_by_id c) id)) (\<lambda>row.
       refuse_any ''B3 channel topology mismatch''
         ([holds (nb_id row ''fromEndpoint'') (\<lambda>from_end. from_end \<noteq> SUPERVISOR),
           bnd (nb_id row ''toEndpoint'') (\<lambda>to_end. holds (nb_id b3 ''authorityId'') (\<lambda>a. to_end \<noteq> ''b3:'' @ a))]
          @ channel_shape ''request-response'' 0 False row)))"

text \<open>\<open>id_field(row, key).unwrap_or("")\<close>\<close>

definition id_or_empty :: "val \<Rightarrow> string \<Rightarrow> string" where
  "id_or_empty v key = (case nb_id v key of Inl _ \<Rightarrow> '''' | Inr t \<Rightarrow> t)"

definition authority_channels :: "val \<Rightarrow> val \<Rightarrow> val list \<Rightarrow> string set pres" where
  "authority_channels prober b3 provisioners =
     bnd (nb_id prober ''channelId'') (\<lambda>p. bnd (nb_id b3 ''channelId'') (\<lambda>b.
       Inr (set (p # b # map (\<lambda>row. id_or_empty row ''channelId'') provisioners))))"

text \<open>Every role at an end of a channel allows it, and a channel without a role serves an authority.\<close>

definition participant :: "string \<Rightarrow> val \<Rightarrow> unit pres" where
  "participant channel_id role =
     bnd (ids_field role ''allowedChannelIds'' 128) (\<lambda>ids.
       refuse_if (channel_id \<notin> set ids) ''channel grants an undeclared role participant'')"

definition channel_owner :: "val list \<Rightarrow> string set \<Rightarrow> val \<Rightarrow> unit pres" where
  "channel_owner roles authority channel =
     bnd (nb_id channel ''channelId'') (\<lambda>channel_id.
     bnd (nb_id channel ''fromEndpoint'') (\<lambda>from_end.
     bnd (nb_id channel ''toEndpoint'') (\<lambda>to_end.
       let participants = filter (\<lambda>role. from_end = role_endpoint (id_or_empty role ''roleId'')
             \<or> to_end = role_endpoint (id_or_empty role ''roleId'')) roles
       in if channel_id \<notin> authority \<and> participants = [] then Inl ''channel has no declared owner or authority purpose''
          else for_all (participant channel_id) participants)))"

subsection \<open>Use of the artifacts\<close>

definition is_helper :: "val \<Rightarrow> bool" where
  "is_helper row \<longleftrightarrow> (case nb_id row ''kind'' of Inl _ \<Rightarrow> False | Inr k \<Rightarrow> k \<in> {''helper'', ''trampoline''})"

definition used_artifacts :: "val list \<Rightarrow> val \<Rightarrow> val list \<Rightarrow> val list \<Rightarrow> string set pres" where
  "used_artifacts artifacts prober roles provisioners =
     bnd (traverse (\<lambda>row. nb_id row ''artifactId'') (filter is_helper artifacts @ prober # roles @ provisioners))
       (\<lambda>ids. Inr (set ids))"

definition artifact_use :: "val list \<Rightarrow> artifact_table \<Rightarrow> val \<Rightarrow> val list \<Rightarrow> val list \<Rightarrow> unit pres" where
  "artifact_use artifacts t prober roles provisioners =
     bnd (used_artifacts artifacts prober roles provisioners) (\<lambda>used.
       refuse_if (card used \<noteq> length artifacts \<or> \<not> af_ids t \<subseteq> used) ''orphan or multiply-purposed artifact refused'')"

subsection \<open>Release, revocation, rollback, evidence policy\<close>

definition release_row :: "val \<Rightarrow> val list \<Rightarrow> u64 pres" where
  "release_row v artifacts =
     bnd (nb_field v ''release'') (\<lambda>release.
     bnd (nb_exact_keys release [''buildId'', ''artifactVersion'', ''targetTriple'', ''variant'', ''releaseKeyEpoch'',
            ''timestampKeyEpoch'']) (\<lambda>_.
     bnd (nb_id release ''buildId'') (\<lambda>_.
     bnd (nb_uint release ''artifactVersion'') (\<lambda>version.
     bnd (nb_id release ''targetTriple'') (\<lambda>target.
     bnd (nb_id release ''variant'') (\<lambda>variant.
     bnd (all_ok
            [for_all (\<lambda>artifact. refuse_any ''release target or variant mismatch''
               [holds (nb_id artifact ''targetTriple'') (\<lambda>t. t \<noteq> target),
                holds (nb_id artifact ''variant'') (\<lambda>x. x \<noteq> variant)]) artifacts,
             skip (nb_uint release ''releaseKeyEpoch''), skip (nb_uint release ''timestampKeyEpoch'')]) (\<lambda>_.
       Inr version)))))))"

definition revocation_row :: "val \<Rightarrow> unit pres" where
  "revocation_row v =
     bnd (nb_field v ''revocation'') (\<lambda>revocation.
       all_ok
         [nb_exact_keys revocation DEPLOYMENT_REVOCATION_KEYS,
          for_all (nb_id revocation) [''authorityId'', ''namespace'', ''scope'', ''compromiseSemantics''],
          skip (nb_uint revocation ''keyEpoch''), skip (nb_digest_field revocation ''genesisCheckpointEnvelopeDigest''),
          skip (nb_uint revocation ''minimumSequence''), skip (nb_uint revocation ''maxStalenessCounters'')])"

definition rollback_row :: "val \<Rightarrow> u64 \<Rightarrow> unit pres" where
  "rollback_row v artifact_version =
     bnd (nb_field v ''rollback'') (\<lambda>rollback.
       all_ok
         [nb_exact_keys rollback DEPLOYMENT_ROLLBACK_KEYS,
          refuse_any ''rollback epoch or version mismatch''
            [bnd (nb_uint rollback ''deploymentEpoch'') (\<lambda>e. holds (nb_uint v ''deploymentEpoch'') (\<lambda>d. e \<noteq> d)),
             holds (nb_uint rollback ''minimumArtifactVersion'') (\<lambda>m. artifact_version < m)],
          skip (nb_digest_field rollback ''predecessorDigest''),
          skip (nb_digest_field rollback ''authorizedRollbackEnvelopeDigest'')])"

definition evidence_policy :: "val \<Rightarrow> val \<Rightarrow> unit pres" where
  "evidence_policy v prober =
     bnd (nb_field v ''evidence'') (\<lambda>evidence.
       all_ok
         [nb_exact_keys evidence [''schema'', ''sinkId'', ''maxBundleBytes'', ''algorithm'', ''keyId'', ''keyEpoch'',
            ''appendPolicy'', ''witnessPolicy''],
          require_text evidence ''schema'' ''keep.native-evidence'', skip (nb_id evidence ''sinkId''),
          bnd (nb_uint evidence ''maxBundleBytes'') (\<lambda>n. refuse_if (n \<noteq> 8 * 1024 * 1024) ''evidence bundle bound mismatch''),
          require_text evidence ''algorithm'' ''ed25519'',
          refuse_any ''evidence key/prober mismatch''
            [bnd (nb_id evidence ''keyId'') (\<lambda>k. holds (nb_id prober ''signingKeyId'') (\<lambda>s. k \<noteq> s)),
             bnd (nb_uint evidence ''keyEpoch'') (\<lambda>k. holds (nb_uint prober ''keyEpoch'') (\<lambda>s. k \<noteq> s))],
          require_text evidence ''appendPolicy'' ''create-exclusive-fsync'',
          require_text evidence ''witnessPolicy'' ''external-prober''])"

subsection \<open>The whole check\<close>

definition deployment_identity :: "val \<Rightarrow> unit pres" where
  "deployment_identity v =
     all_ok
       [skip (nb_id v ''deploymentId''), skip (nb_uint v ''deploymentEpoch''), skip (nb_digest_field v ''deploymentBaseDigest''),
        bnd (nb_digest_field v ''deploymentBaseDigest'') (\<lambda>declared. bnd (deployment_base_digest v) (\<lambda>computed.
          refuse_if (declared \<noteq> computed) ''deployment base digest mismatch'')),
        skip (nb_digest_field v ''predecessorDigest'')]"

definition validate_deployment :: "val \<Rightarrow> unit pres" where
  "validate_deployment v =
     bnd (all_ok [deployment_identity v, boot_policy v, protocol_limits v]) (\<lambda>_.
     bnd (artifact_rows v) (\<lambda>(artifacts, t).
     bnd (role_rows v t) (\<lambda>(roles, r).
     bnd (channel_rows v) (\<lambda>(channels, c).
     bnd (for_all (allowed_channels c) roles) (\<lambda>_.
     bnd (prober_row v t r) (\<lambda>(prober, prober_principal).
     bnd (provisioner_rows v t r c prober_principal) (\<lambda>provisioners.
     bnd (b3_row v) (\<lambda>b3.
     bnd (endpoint_set roles prober b3 provisioners) (\<lambda>endpoints.
     bnd (all_ok [declared_endpoints endpoints c, prober_channel c prober, b3_channel c b3]) (\<lambda>_.
     bnd (authority_channels prober b3 provisioners) (\<lambda>authority.
     bnd (all_ok [for_all (channel_owner roles authority) channels, artifact_use artifacts t prober roles provisioners]) (\<lambda>_.
     bnd (release_row v artifacts) (\<lambda>version.
       all_ok [revocation_row v, rollback_row v version, evidence_policy v prober])))))))))))))"

end
