(* ===== verification/Native_Evidence.thy ===== *)
theory Native_Evidence
  imports Topology
begin

section \<open>Closures, indexes, revocations and evidence\<close>

text \<open>
  \<open>native_closure_base_digest\<close>, \<open>validate_closure\<close>, \<open>validate_index\<close>, \<open>validate_revocation\<close> and
  \<open>validate_evidence\<close> of \<open>native/crates/protocol/src/lib.rs\<close>.
\<close>

subsection \<open>Closures, indexes, revocations\<close>

definition NATIVE_CLOSURE_PAYLOAD_KEYS :: "string list" where
  "NATIVE_CLOSURE_PAYLOAD_KEYS =
     [''schema'', ''version'', ''trustClass'', ''a4ReleaseBaseDigest'', ''a4ArtifactInventoryDigest'',
      ''nativeArtifactInventoryDigest'', ''nativeDeploymentPayloadDigest'', ''nativeDeploymentEnvelopeDigest'',
      ''nativePackagePayloadDigest'', ''nativeClosureBaseDigest'', ''helperArtifactDigest'',
      ''trampolineArtifactDigest'', ''proberArtifactDigest'', ''provisionerArtifactDigests'', ''protocolDigest'',
      ''evidenceSchemaDigest'', ''targetTriple'', ''variant'', ''artifactVersion'', ''buildId'',
      ''releaseKeyEpoch'', ''timestampKeyEpoch'', ''timestampRecordEnvelopeDigest'', ''sbomEnvelopeDigest'',
      ''provenanceEnvelopeDigests'', ''reproducibilityRecordEnvelopeDigest'', ''toolchainClosureEnvelopeDigest'',
      ''releaseTimeRevocationCheckpointEnvelopeDigest'', ''releaseTimeRevocationSequence'', ''deploymentEpoch'',
      ''minimumArtifactVersion'', ''predecessorDigest'', ''authorizedRollbackEnvelopeDigest'',
      ''b0RootEnvelopeDigest'', ''b3ProfileEnvelopeDigest'']"

definition NATIVE_INDEX_PAYLOAD_KEYS :: "string list" where
  "NATIVE_INDEX_PAYLOAD_KEYS =
     [''schema'', ''version'', ''a4ReleaseBaseDigest'', ''deploymentEnvelopeDigest'',
      ''nativeClosureEnvelopeDigest'', ''b0RootEnvelopeDigest'', ''releaseKeyEpoch'', ''trustClass'']"

definition EVIDENCE_KEYS :: "string list" where
  "EVIDENCE_KEYS =
     [''schema'', ''version'', ''deploymentId'', ''deploymentEpoch'', ''bootId'', ''kernelBootId'',
      ''manifestDigest'', ''nativeClosureEnvelopeDigest'', ''helperArtifactDigest'', ''helperBuildId'',
      ''helperIncarnation'', ''protocolDigest'', ''requestId'', ''requestDigest'', ''requestNonce'',
      ''requestSequence'', ''challengeNonce'', ''b3ProfileEnvelopeDigest'', ''b3LeaseReceiptEnvelopeDigest'',
      ''b3Counter'', ''capturedCounter'', ''expiresCounter'', ''proberId'', ''proberPrincipal'',
      ''proberArtifactDigest'', ''proberIncarnation'', ''proberKeyEpoch'', ''revocationEnvelopeDigest'', ''roles'',
      ''measurements'', ''negativeProbes'', ''inheritedFdInventory'', ''cleanup'', ''previousEvidenceDigest'',
      ''signature'']"

definition CLOSURE_DOMAIN :: bytes where "CLOSURE_DOMAIN = str_bytes ''keep.native-release-closure-base/v1'' @ [0]"

definition native_closure_base_digest :: "val \<Rightarrow> string pres" where
  "native_closure_base_digest v =
     bnd (nb_exact_keys v NATIVE_CLOSURE_PAYLOAD_KEYS) (\<lambda>_.
     bnd (projection_without v [''nativeClosureBaseDigest'', ''timestampRecordEnvelopeDigest'']) (\<lambda>projection.
       projection_digest CLOSURE_DOMAIN projection))"

definition CLOSURE_DIGESTS :: "string list" where
  "CLOSURE_DIGESTS =
     [''a4ReleaseBaseDigest'', ''a4ArtifactInventoryDigest'', ''nativeArtifactInventoryDigest'',
      ''nativeDeploymentPayloadDigest'', ''nativeDeploymentEnvelopeDigest'', ''nativePackagePayloadDigest'',
      ''nativeClosureBaseDigest'', ''helperArtifactDigest'', ''trampolineArtifactDigest'', ''proberArtifactDigest'',
      ''protocolDigest'', ''evidenceSchemaDigest'', ''timestampRecordEnvelopeDigest'', ''sbomEnvelopeDigest'',
      ''reproducibilityRecordEnvelopeDigest'', ''toolchainClosureEnvelopeDigest'',
      ''releaseTimeRevocationCheckpointEnvelopeDigest'', ''predecessorDigest'', ''authorizedRollbackEnvelopeDigest'',
      ''b0RootEnvelopeDigest'', ''b3ProfileEnvelopeDigest'']"

definition validate_closure :: "val \<Rightarrow> unit pres" where
  "validate_closure v =
     all_ok
       [for_all (nb_digest_field v) CLOSURE_DIGESTS,
        skip (digests_field v ''provisionerArtifactDigests'' 32), skip (digests_field v ''provenanceEnvelopeDigests'' 32),
        bnd (nb_digest_field v ''nativeClosureBaseDigest'') (\<lambda>declared. bnd (native_closure_base_digest v) (\<lambda>computed.
          refuse_if (declared \<noteq> computed) ''native closure base digest mismatch'')),
        for_all (nb_id v) [''targetTriple'', ''variant'', ''buildId''],
        for_all (nb_uint v) [''artifactVersion'', ''releaseKeyEpoch'', ''timestampKeyEpoch'',
          ''releaseTimeRevocationSequence'', ''deploymentEpoch'', ''minimumArtifactVersion'']]"

definition validate_index :: "val \<Rightarrow> unit pres" where
  "validate_index v =
     all_ok
       [for_all (nb_digest_field v) [''a4ReleaseBaseDigest'', ''deploymentEnvelopeDigest'', ''nativeClosureEnvelopeDigest'',
          ''b0RootEnvelopeDigest''],
        skip (nb_uint v ''releaseKeyEpoch'')]"

definition cutoff_step :: "val \<Rightarrow> string option \<Rightarrow> string option pres" where
  "cutoff_step cutoff prior =
     bnd (nb_exact_keys cutoff [''keyId'', ''minimumEpoch'']) (\<lambda>_.
     bnd (nb_id cutoff ''keyId'') (\<lambda>key.
     if repeats prior key then Inl ''rotation cutoffs not sorted unique''
     else bnd (nb_uint cutoff ''minimumEpoch'') (\<lambda>_. Inr (Some key))))"

definition validate_revocation :: "val \<Rightarrow> unit pres" where
  "validate_revocation v =
     all_ok
       [for_all (nb_id v) [''authorityId'', ''namespace'', ''scope'', ''compromiseSemantics''],
        for_all (nb_uint v) [''keyEpoch'', ''sequence'', ''issuedCounter'', ''expiresCounter''],
        bnd (nb_uint v ''expiresCounter'') (\<lambda>e. bnd (nb_uint v ''issuedCounter'') (\<lambda>i.
          refuse_if (e \<le> i) ''revocation counter order invalid'')),
        skip (nb_digest_field v ''previousEnvelopeDigest''), skip (ids_field v ''revokedKeys'' 256),
        skip (digests_field v ''revokedArtifacts'' 256),
        bnd (nb_array_field v ''rotationCutoffs'' 256) (\<lambda>cutoffs. skip (fold_res cutoff_step cutoffs None))]"

subsection \<open>The roles and measurements of an evidence bundle\<close>

definition EVIDENCE_ROLE_KEYS :: "string list" where
  "EVIDENCE_ROLE_KEYS =
     [''roleId'', ''roleClass'', ''principalId'', ''artifactDigest'', ''incarnationDigest'', ''uid'', ''gid'', ''groups'',
      ''namespaceInodes'', ''cgroupId'']"

definition evidence_role_step :: "val \<Rightarrow> string option \<times> string set \<Rightarrow> (string option \<times> string set) pres" where
  "evidence_role_step role = (\<lambda>(prior, ids).
     bnd (nb_exact_keys role EVIDENCE_ROLE_KEYS) (\<lambda>_.
     bnd (nb_id role ''roleId'') (\<lambda>id.
     if repeats prior id \<or> id \<in> ids then Inl ''evidence roles not sorted unique''
     else
       bnd (all_ok
              [skip (enum_field role ''roleClass'' ROLE_CLASSES), skip (nb_id role ''principalId''),
               skip (nb_digest_field role ''artifactDigest''), skip (nb_digest_field role ''incarnationDigest''),
               skip (nb_uint role ''uid''), skip (nb_uint role ''gid''), unsigned_rows role ''groups'' 32 ''group malformed'',
               bnd (nb_field role ''namespaceInodes'') (\<lambda>f. exact_uint_map f NAMESPACES), skip (nb_id role ''cgroupId'')]) (\<lambda>_.
         Inr (Some id, insert id ids)))))"

definition MEASUREMENT_KEYS :: "string list" where
  "MEASUREMENT_KEYS =
     [''measurementId'', ''roleId'', ''field'', ''value'', ''mechanism'', ''mechanismVersion'', ''abi'', ''source'',
      ''transcriptDigest'', ''state'', ''reasonCode'']"

definition MEASUREMENT_STATES :: "string list" where
  "MEASUREMENT_STATES = [''active'', ''inactive'', ''unsupported'', ''inconclusive'']"

definition measurement_step ::
  "string set \<Rightarrow> val \<Rightarrow> string option \<times> (string \<times> string) set \<Rightarrow> (string option \<times> (string \<times> string) set) pres" where
  "measurement_step role_ids measurement = (\<lambda>(prior, pairs).
     bnd (nb_exact_keys measurement MEASUREMENT_KEYS) (\<lambda>_.
     bnd (nb_id measurement ''measurementId'') (\<lambda>id.
     if repeats prior id then Inl ''measurements not sorted unique''
     else
       bnd (nb_id measurement ''roleId'') (\<lambda>role.
       if role \<notin> role_ids then Inl ''measurement role absent''
       else
         bnd (measurement_field measurement ''field'') (\<lambda>name.
         if (role, name) \<in> pairs then Inl ''measurement subject/field duplicate''
         else
           bnd (all_ok
                  [for_all (nb_id measurement) [''mechanism'', ''mechanismVersion'', ''abi'', ''source'', ''reasonCode''],
                   bnd (nb_field measurement ''value'') (validate_measurement_value name),
                   skip (nb_digest_field measurement ''transcriptDigest''),
                   skip (enum_field measurement ''state'' MEASUREMENT_STATES)]) (\<lambda>_.
             Inr (Some id, insert (role, name) pairs)))))))"

definition coverage :: "val list \<Rightarrow> (string \<times> string) set \<Rightarrow> bool" where
  "coverage roles pairs \<longleftrightarrow>
     roles \<noteq> [] \<and> list_all (\<lambda>role. list_all (\<lambda>name. (id_or_empty role ''roleId'', name) \<in> pairs) MEASUREMENT_FIELDS) roles"

text \<open>The measured values by role and field; collected into a map, a later row would replace an earlier one.\<close>

definition measured_row :: "val \<Rightarrow> ((string \<times> string) \<times> val) pres" where
  "measured_row row =
     bnd (nb_id row ''roleId'') (\<lambda>role. bnd (measurement_field row ''field'') (\<lambda>name.
     bnd (nb_field row ''value'') (\<lambda>v. Inr ((role, name), v))))"

definition measured_map :: "((string \<times> string) \<times> val) list \<Rightarrow> string \<times> string \<rightharpoonup> val" where
  "measured_map rows = map_of (rev rows)"

definition same :: "'a pres \<Rightarrow> 'a pres \<Rightarrow> string \<Rightarrow> unit pres" where
  "same l r message = bnd l (\<lambda>a. bnd r (\<lambda>b. refuse_if (a \<noteq> b) message))"

definition role_agrees :: "(string \<times> string \<rightharpoonup> val) \<Rightarrow> val \<Rightarrow> unit pres" where
  "role_agrees measured role =
     bnd (nb_id role ''roleId'') (\<lambda>id.
       let value_of = (\<lambda>name. ok_or ''measurement missing'' (measured (id, name)))
       in all_ok
         [for_all (\<lambda>name. same (bnd (value_of name) (\<lambda>m. nb_uint m ''value'')) (nb_uint role ''uid'') ''UID evidence contradiction'')
            [''identity.uid.real'', ''identity.uid.effective'', ''identity.uid.saved''],
          for_all (\<lambda>name. same (bnd (value_of name) (\<lambda>m. nb_uint m ''value'')) (nb_uint role ''gid'') ''GID evidence contradiction'')
            [''identity.gid.real'', ''identity.gid.effective'', ''identity.gid.saved''],
          same (bnd (value_of ''identity.groups'') (\<lambda>m. nb_field m ''values'')) (nb_field role ''groups'') ''group evidence contradiction'',
          bnd (value_of ''namespaces.inodes'') (\<lambda>inodes. bnd (nb_field role ''namespaceInodes'') (\<lambda>declared.
            for_all (\<lambda>key. same (nb_field inodes key) (nb_field declared key) ''namespace evidence contradiction'') NAMESPACES)),
          same (bnd (value_of ''incarnation'') (\<lambda>m. nb_digest_field m ''pidfdDigest'')) (nb_digest_field role ''incarnationDigest'')
            ''incarnation evidence contradiction'',
          same (bnd (value_of ''loader.executable'') (\<lambda>m. nb_digest_field m ''value'')) (nb_digest_field role ''artifactDigest'')
            ''executable evidence contradiction''])"

definition evidence_measurements :: "val \<Rightarrow> string set \<Rightarrow> val list \<Rightarrow> unit pres" where
  "evidence_measurements v role_ids roles =
     bnd (nb_array_field v ''measurements'' 1024) (\<lambda>measurements.
     bnd (fold_res (measurement_step role_ids) measurements (None, {})) (\<lambda>(_, pairs).
     if \<not> coverage roles pairs then Inl ''measurement registry coverage incomplete''
     else
       bnd (traverse measured_row measurements) (\<lambda>rows. for_all (role_agrees (measured_map rows)) roles)))"

subsection \<open>Probes, descriptors, cleanup, signature\<close>

definition PROBE_KEYS :: "string list" where
  "PROBE_KEYS =
     [''probeId'', ''roleId'', ''target'', ''action'', ''expectedField'', ''observedDenial'', ''errno'', ''signal'', ''controlDigest'']"

definition probe_step :: "string set \<Rightarrow> val \<Rightarrow> string option \<Rightarrow> string option pres" where
  "probe_step role_ids probe prior =
     bnd (nb_exact_keys probe PROBE_KEYS) (\<lambda>_.
     bnd (nb_id probe ''probeId'') (\<lambda>id.
     if repeats prior id then Inl ''negative probes not sorted unique''
     else
       bnd (nb_id probe ''roleId'') (\<lambda>role.
       if role \<notin> role_ids then Inl ''probe role absent''
       else
         bnd (all_ok
                [for_all (nb_id probe) [''target'', ''action'', ''errno'', ''signal''],
                 skip (measurement_field probe ''expectedField''), skip (nb_bool probe ''observedDenial''),
                 skip (nb_digest_field probe ''controlDigest'')]) (\<lambda>_. Inr (Some id)))))"

definition descriptor_step :: "string set \<Rightarrow> val \<Rightarrow> (string \<times> u64) set \<Rightarrow> (string \<times> u64) set pres" where
  "descriptor_step role_ids fd keys =
     bnd (nb_exact_keys fd [''roleId'', ''slot'', ''purpose'', ''flagsDigest'', ''peerPrincipalId'']) (\<lambda>_.
     bnd (nb_id fd ''roleId'') (\<lambda>role.
     if role \<notin> role_ids then Inl ''fd inventory invalid or duplicate''
     else
       bnd (nb_uint fd ''slot'') (\<lambda>slot.
       if (role, slot) \<in> keys then Inl ''fd inventory invalid or duplicate''
       else
         bnd (all_ok [skip (nb_id fd ''purpose''), skip (nb_digest_field fd ''flagsDigest''), skip (nb_id fd ''peerPrincipalId'')])
           (\<lambda>_. Inr (insert (role, slot) keys)))))"

definition cleanup_row :: "val \<Rightarrow> unit pres" where
  "cleanup_row v =
     bnd (nb_field v ''cleanup'') (\<lambda>cleanup.
       all_ok
         [nb_exact_keys cleanup [''state'', ''killedRoleIds'', ''reapedRoleIds'', ''closedFdCount'',
            ''revokedCredentialDomains'', ''journalDigest'', ''recoveryRequired''],
          skip (enum_field cleanup ''state'' [''not-required'', ''complete'', ''failed'']),
          skip (ids_field cleanup ''killedRoleIds'' 32), skip (ids_field cleanup ''reapedRoleIds'' 32),
          skip (nb_uint cleanup ''closedFdCount''), skip (ids_field cleanup ''revokedCredentialDomains'' 32),
          skip (nb_digest_field cleanup ''journalDigest''), skip (nb_bool cleanup ''recoveryRequired'')])"

definition evidence_signature :: "val \<Rightarrow> trust_class \<Rightarrow> unit pres" where
  "evidence_signature v trust =
     bnd (nb_field v ''signature'') (\<lambda>signature.
       all_ok
         [nb_exact_keys signature SIGNATURE_KEYS,
          bnd (nb_id signature ''keyId'') (\<lambda>key. require_key_namespace key trust),
          require_text signature ''algorithm'' ''ed25519'',
          bnd (nb_uint signature ''keyEpoch'') (\<lambda>epoch. bnd (nb_uint v ''proberKeyEpoch'') (\<lambda>prober_epoch.
            refuse_if (epoch \<noteq> prober_epoch) ''evidence signature/prober epoch mismatch'')),
          bnd (nb_field signature ''signature'') signature_bytes])"

definition EVIDENCE_DIGESTS :: "string list" where
  "EVIDENCE_DIGESTS =
     [''manifestDigest'', ''nativeClosureEnvelopeDigest'', ''helperArtifactDigest'', ''helperIncarnation'', ''protocolDigest'',
      ''requestDigest'', ''b3ProfileEnvelopeDigest'', ''b3LeaseReceiptEnvelopeDigest'', ''proberArtifactDigest'',
      ''proberIncarnation'', ''revocationEnvelopeDigest'', ''previousEvidenceDigest'']"

definition evidence_header :: "val \<Rightarrow> unit pres" where
  "evidence_header v =
     all_ok
       [for_all (nb_id v) [''deploymentId'', ''bootId'', ''kernelBootId'', ''helperBuildId'', ''requestId'', ''requestNonce'',
          ''challengeNonce'', ''proberId'', ''proberPrincipal''],
        for_all (nb_uint v) [''deploymentEpoch'', ''requestSequence'', ''b3Counter'', ''capturedCounter'', ''expiresCounter'',
          ''proberKeyEpoch''],
        refuse_any ''evidence counter order invalid''
          [bnd (nb_uint v ''expiresCounter'') (\<lambda>e. holds (nb_uint v ''capturedCounter'') (\<lambda>c. e < c)),
           bnd (nb_uint v ''capturedCounter'') (\<lambda>c. holds (nb_uint v ''b3Counter'') (\<lambda>b. c < b))],
        for_all (nb_digest_field v) EVIDENCE_DIGESTS]"

definition validate_evidence :: "val \<Rightarrow> trust_class \<Rightarrow> unit pres" where
  "validate_evidence v trust =
     bnd (evidence_header v) (\<lambda>_.
     bnd (nb_array_field v ''roles'' 32) (\<lambda>roles.
     bnd (fold_res evidence_role_step roles (None, {})) (\<lambda>(_, role_ids).
       all_ok
         [evidence_measurements v role_ids roles,
          bnd (nb_array_field v ''negativeProbes'' 256) (\<lambda>probes. skip (fold_res (probe_step role_ids) probes None)),
          bnd (nb_array_field v ''inheritedFdInventory'' 256) (\<lambda>fds. skip (fold_res (descriptor_step role_ids) fds {})),
          cleanup_row v, evidence_signature v trust])))"

end
