(* ===== verification/Wire_Protocol.thy ===== *)
theory Wire_Protocol
  imports Native_Evidence
begin

section \<open>Requests, responses and the capture of a document\<close>

text \<open>
  \<open>classify\<close>, \<open>validate_for\<close>, \<open>validate\<close>, \<open>capture_canonical\<close> and \<open>native_boundary_request_digest\<close> of
  \<open>native/crates/protocol/src/lib.rs\<close>.
\<close>

subsection \<open>Classification\<close>

definition text_of :: "val \<Rightarrow> string \<Rightarrow> string option" where
  "text_of v key = Option.bind (val_field v key) as_text"

definition SCHEMA_NAMES :: "(string \<times> schema) list" where
  "SCHEMA_NAMES =
     [(''keep.native-deployment'', Deployment), (''keep.native-release-closure'', NativeClosure),
      (''keep.native-release-index'', NativeIndex), (''keep.native-evidence'', Evidence),
      (''keep.native-revocation'', Revocation)]"

definition discriminator :: "val \<Rightarrow> string option" where
  "discriminator v =
     (case text_of v ''schema'' of
        Some t \<Rightarrow> Some t
      | None \<Rightarrow> Option.bind (val_field v ''payload'') (\<lambda>payload. text_of payload ''schema''))"

definition classify :: "val \<Rightarrow> schema pres" where
  "classify v =
     (if text_of v ''protocol'' = Some PROTOCOL_NAME then
        bnd (nb_require_version v PROTOCOL_VERSION) (\<lambda>_.
          if val_field v ''kind'' \<noteq> None then Inr Request
          else if val_field v ''status'' \<noteq> None then Inr Response
          else Inl ''wire kind is missing'')
      else ok_or ''unknown schema'' (Option.bind (discriminator v) (map_of SCHEMA_NAMES)))"

text \<open>\<open>value.field(key).ok_or(..)?\<close> followed by a check of the field.\<close>

definition checked_field :: "string \<Rightarrow> (val \<Rightarrow> 'a pres) \<Rightarrow> val \<Rightarrow> string \<Rightarrow> 'a pres" where
  "checked_field message check v key = bnd (ok_or message (val_field v key)) check"

definition integer_present :: "val \<Rightarrow> string \<Rightarrow> bool" where
  "integer_present v key \<longleftrightarrow> Option.bind (val_field v key) as_u64 \<noteq> None"

subsection \<open>Requests\<close>

definition REQUEST_KEYS :: "string list" where
  "REQUEST_KEYS =
     [''protocol'', ''version'', ''kind'', ''requestId'', ''deploymentId'', ''bootId'', ''manifestDigest'', ''nonce'', ''sequence'',
      ''deadlineMs'']"

definition launch_role_step :: "val \<Rightarrow> string set \<times> string set \<Rightarrow> (string set \<times> string set) pres" where
  "launch_role_step role = (\<lambda>(ids, principals).
     bnd (nb_exact_keys role [''roleId'', ''roleClass'', ''principalId'', ''artifactDigest'', ''credentialDomains'',
            ''allowedChannelIds'']) (\<lambda>_.
     bnd (checked_field ''roleId missing'' nb_identifier role ''roleId'') (\<lambda>id.
     if id \<in> ids then Inl ''roles duplicated''
     else
       bnd (checked_field ''principal missing'' nb_identifier role ''principalId'') (\<lambda>principal.
       if principal \<in> principals then Inl ''roles duplicated''
       else
         bnd (ok_or ''role class missing'' (text_of role ''roleClass'')) (\<lambda>class.
         if class \<notin> set ROLE_CLASSES then Inl ''role class unsupported''
         else
           bnd (checked_field ''artifact digest missing'' nb_digest role ''artifactDigest'') (\<lambda>_.
           bnd (checked_field ''credentials missing'' (\<lambda>f. nb_array f 1) role ''credentialDomains'') (\<lambda>credentials.
           bnd (unique_text credentials) (\<lambda>_.
           if class \<noteq> ''D3'' \<and> credentials \<noteq> [] then Inl ''credentials outside D3''
           else
             bnd (checked_field ''channels missing'' (\<lambda>f. nb_array f 128) role ''allowedChannelIds'') (\<lambda>channels.
             bnd (unique_text channels) (\<lambda>_.
               Inr (insert id ids, insert principal principals)))))))))))"

definition launch_request :: "val \<Rightarrow> unit pres" where
  "launch_request v =
     bnd (nb_exact_keys v (REQUEST_KEYS @ [''roles''])) (\<lambda>_.
     bnd (checked_field ''roles missing'' (\<lambda>f. nb_array f 32) v ''roles'') (\<lambda>roles.
     if roles = [] then Inl ''roles empty'' else skip (fold_res launch_role_step roles ({}, {}))))"

definition probe_request :: "val \<Rightarrow> unit pres" where
  "probe_request v =
     bnd (nb_exact_keys v (REQUEST_KEYS @ [''roleHandleIds'', ''challengeNonce''])) (\<lambda>_.
     bnd (checked_field ''handles missing'' (\<lambda>f. nb_array f 32) v ''roleHandleIds'') (\<lambda>handles.
     if handles = [] then Inl ''probe handles empty''
     else all_ok [unique_text handles, skip (checked_field ''challenge missing'' nb_identifier v ''challengeNonce'')]))"

definition cancel_request :: "val \<Rightarrow> unit pres" where
  "cancel_request v =
     all_ok [nb_exact_keys v (REQUEST_KEYS @ [''targetRequestId'']),
             skip (checked_field ''cancel target missing'' nb_identifier v ''targetRequestId'')]"

definition request_body :: "val \<Rightarrow> unit pres" where
  "request_body v =
     (case text_of v ''kind'' of
        Some kind \<Rightarrow>
          if kind = ''launch'' then launch_request v
          else if kind = ''probe'' then probe_request v
          else if kind = ''cancel'' then cancel_request v
          else Inl ''request kind is unsupported''
      | None \<Rightarrow> Inl ''request kind is unsupported'')"

definition validate_request :: "val \<Rightarrow> unit pres" where
  "validate_request v =
     all_ok
       [request_body v,
        for_all (checked_field ''request identity missing'' nb_identifier v) [''requestId'', ''deploymentId'', ''bootId'', ''nonce''],
        skip (checked_field ''manifest digest missing'' nb_digest v ''manifestDigest''),
        refuse_if (\<not> integer_present v ''sequence'' \<or> \<not> integer_present v ''deadlineMs'') ''request integer missing'']"

subsection \<open>Responses\<close>

definition RESPONSE_KEYS :: "string list" where
  "RESPONSE_KEYS =
     [''protocol'', ''version'', ''requestId'', ''requestDigest'', ''deploymentId'', ''bootId'', ''nonce'', ''sequence'',
      ''helperArtifactDigest'', ''helperBuildId'', ''kernelBootId'', ''status'', ''roleHandles'', ''measurements'',
      ''failureCode'', ''evidenceBundleDigest'']"

definition handle_step :: "val \<Rightarrow> string set \<times> string set \<Rightarrow> (string set \<times> string set) pres" where
  "handle_step handle = (\<lambda>(handle_ids, role_ids).
     bnd (nb_exact_keys handle [''roleId'', ''roleClass'', ''handleId'', ''incarnationDigest'', ''artifactDigest'',
            ''principalId'']) (\<lambda>_.
     bnd (checked_field ''handle id missing'' nb_identifier handle ''handleId'') (\<lambda>id.
     if id \<in> handle_ids then Inl ''response handles duplicated''
     else
       bnd (checked_field ''role id missing'' nb_identifier handle ''roleId'') (\<lambda>role.
       if role \<in> role_ids then Inl ''response handles duplicated''
       else
         bnd (all_ok
                [skip (checked_field ''principal missing'' nb_identifier handle ''principalId''),
                 skip (checked_field ''incarnation digest missing'' nb_digest handle ''incarnationDigest''),
                 skip (checked_field ''artifact digest missing'' nb_digest handle ''artifactDigest''),
                 refuse_if (text_of handle ''roleClass'' \<notin> set (map Some ROLE_CLASSES)) ''role class unsupported'']) (\<lambda>_.
           Inr (insert id handle_ids, insert role role_ids))))))"

definition response_measurement_step ::
  "val \<Rightarrow> string set \<times> (string \<times> string) set \<Rightarrow> (string set \<times> (string \<times> string) set) pres" where
  "response_measurement_step measurement = (\<lambda>(ids, pairs).
     bnd (nb_exact_keys measurement [''measurementId'', ''roleHandleId'', ''field'', ''state'', ''transcriptDigest'']) (\<lambda>_.
     bnd (checked_field ''measurement id missing'' nb_identifier measurement ''measurementId'') (\<lambda>id.
     if id \<in> ids then Inl ''measurements duplicated''
     else
       bnd (checked_field ''measurement handle missing'' nb_identifier measurement ''roleHandleId'') (\<lambda>handle.
       bnd (measurement_field measurement ''field'') (\<lambda>name.
       if (handle, name) \<in> pairs then Inl ''response measurement subject/field duplicate''
       else
         bnd (all_ok
                [skip (checked_field ''transcript digest missing'' nb_digest measurement ''transcriptDigest''),
                 refuse_if (text_of measurement ''state'' \<notin> set (map Some MEASUREMENT_STATES)) ''measurement state unsupported'']) (\<lambda>_.
           Inr (insert id ids, insert (handle, name) pairs)))))))"

definition response_outcome :: "val \<Rightarrow> string \<Rightarrow> val list \<Rightarrow> val list \<Rightarrow> unit pres" where
  "response_outcome v status handles measurements =
     (if status = ''ok'' \<and> text_of v ''evidenceBundleDigest'' \<noteq> None \<and> text_of v ''failureCode'' = Some ''''
      then Inr ()
      else if status \<in> {''refused'', ''failed''} \<and> handles = [] \<and> measurements = [] then
        bnd (checked_field ''failure code missing'' nb_identifier v ''failureCode'') (\<lambda>code.
          refuse_if ((val_field v ''evidenceBundleDigest'' = Some Null) \<noteq> starts_with code ''evidence.unavailable.'')
            ''failure evidence/code biconditional mismatch'')
      else Inl ''response status/evidence mismatch'')"

definition validate_response :: "val \<Rightarrow> unit pres" where
  "validate_response v =
     bnd (nb_exact_keys v RESPONSE_KEYS) (\<lambda>_.
     bnd (ok_or ''response status malformed'' (text_of v ''status'')) (\<lambda>status.
     bnd (checked_field ''response handles missing'' (\<lambda>f. nb_array f 32) v ''roleHandles'') (\<lambda>handles.
     bnd (checked_field ''response measurements missing'' (\<lambda>f. nb_array f 1024) v ''measurements'') (\<lambda>measurements.
       all_ok
         [skip (fold_res handle_step handles ({}, {})),
          skip (fold_res response_measurement_step measurements ({}, {})),
          for_all (checked_field ''response identity missing'' nb_identifier v)
            [''requestId'', ''deploymentId'', ''bootId'', ''nonce'', ''helperBuildId'', ''kernelBootId''],
          for_all (checked_field ''response digest missing'' nb_digest v) [''requestDigest'', ''helperArtifactDigest''],
          refuse_if (\<not> integer_present v ''sequence'') ''response sequence missing'',
          (case val_field v ''evidenceBundleDigest'' of
             None \<Rightarrow> Inr ()
           | Some bundle \<Rightarrow> if bundle = Null then Inr () else skip (nb_digest bundle)),
          response_outcome v status handles measurements]))))"

subsection \<open>Every schema\<close>

definition REVOCATION_PAYLOAD_KEYS :: "string list" where
  "REVOCATION_PAYLOAD_KEYS =
     [''schema'', ''version'', ''authorityId'', ''namespace'', ''scope'', ''keyEpoch'', ''sequence'', ''previousEnvelopeDigest'',
      ''issuedCounter'', ''expiresCounter'', ''revokedKeys'', ''revokedArtifacts'', ''rotationCutoffs'', ''compromiseSemantics'']"

definition validate_schema :: "schema \<Rightarrow> val \<Rightarrow> trust_class \<Rightarrow> unit pres" where
  "validate_schema schema v trust =
     (case schema of
        Request \<Rightarrow> validate_request v
      | Response \<Rightarrow> validate_response v
      | Deployment \<Rightarrow>
          bnd (envelope_payload v DEPLOYMENT_PAYLOAD_KEYS ''keep.native-deployment'' (Some trust)) (\<lambda>captured.
          bnd (validate_deployment captured) (\<lambda>_.
          bnd (bnd (nb_field captured ''release'') (\<lambda>release. nb_uint release ''releaseKeyEpoch'')) (require_envelope_epoch v)))
      | NativeClosure \<Rightarrow>
          bnd (envelope_payload v NATIVE_CLOSURE_PAYLOAD_KEYS ''keep.native-release-closure'' (Some trust)) (\<lambda>captured.
          bnd (validate_closure captured) (\<lambda>_.
          bnd (nb_uint captured ''releaseKeyEpoch'') (require_envelope_epoch v)))
      | NativeIndex \<Rightarrow>
          bnd (envelope_payload v NATIVE_INDEX_PAYLOAD_KEYS ''keep.native-release-index'' (Some trust)) (\<lambda>captured.
          bnd (validate_index captured) (\<lambda>_.
          bnd (nb_uint captured ''releaseKeyEpoch'') (require_envelope_epoch v)))
      | Evidence \<Rightarrow>
          all_ok [nb_exact_keys v EVIDENCE_KEYS, nb_require_version v 1, require_text v ''schema'' ''keep.native-evidence'',
                  validate_evidence v trust]
      | Revocation \<Rightarrow>
          bnd (envelope_payload v REVOCATION_PAYLOAD_KEYS ''keep.native-revocation'' None) (\<lambda>captured.
          bnd (validate_envelope_key_namespaces v trust) (\<lambda>_.
          bnd (validate_revocation captured) (\<lambda>_.
          bnd (nb_uint captured ''keyEpoch'') (require_envelope_epoch v)))))"

definition validate_for :: "val \<Rightarrow> trust_class \<Rightarrow> schema pres" where
  "validate_for v trust = bnd (classify v) (\<lambda>schema. bnd (validate_schema schema v trust) (\<lambda>_. Inr schema))"

definition validate :: "val \<Rightarrow> schema pres" where
  "validate v = validate_for v Development"

subsection \<open>Capture\<close>

record captured_document =
  cd_schema :: schema
  cd_trust :: trust_class
  cd_canonical :: bytes

definition capture_canonical :: "bytes \<Rightarrow> limits \<Rightarrow> trust_class \<Rightarrow> captured_document pres" where
  "capture_canonical bs lim trust =
     bnd (decode_canonical bs lim) (\<lambda>v.
     bnd (validate_for v trust) (\<lambda>schema.
     bnd (encode_bounded v lim) (\<lambda>canonical.
       Inr \<lparr>cd_schema = schema, cd_trust = trust, cd_canonical = canonical\<rparr>)))"

definition REQUEST_DOMAIN :: bytes where
  "REQUEST_DOMAIN = str_bytes ''keep.eir.v1.keep.native-boundary-request/v2'' @ [0]"

definition native_boundary_request_digest :: "val \<Rightarrow> string pres" where
  "native_boundary_request_digest v =
     bnd (validate_for v Development) (\<lambda>schema.
     if schema \<noteq> Request then Inl ''native request digest received non-request''
     else bnd (encode_bounded v WIRE) (\<lambda>canonical. Inr (sha256_hex (REQUEST_DOMAIN @ canonical))))"

end
