(* ===== verification/Production_Resolver.thy ===== *)
theory Production_Resolver
  imports Root_Identity Sealed_Files Wire_Protocol
begin

section \<open>Observation of a production deployment\<close>

text \<open>
  \<open>ProductionResolver::observe_deployment\<close> of \<open>production-resolver/src/lib.rs\<close> with everything it calls:
  the metadata checks of a leaf, the capture of the deployment below the authority root, its admission
  by the protocol crate, the capture and sealing of every artifact below the payload root, and the
  transcript digest. Capture and sealing are those of \<open>Pinned_Files\<close> and \<open>Sealed_Files\<close> over the
  same kernel.
\<close>

subsection \<open>Bounds and leaves\<close>

definition MAXIMUM_DEPLOYMENT_BYTES :: u64 where "MAXIMUM_DEPLOYMENT_BYTES = 1048576"
definition MAXIMUM_EXECUTABLE_BYTES :: u64 where "MAXIMUM_EXECUTABLE_BYTES = 64 * 1024 * 1024"
definition MAXIMUM_TOTAL_ARTIFACT_BYTES :: u64 where "MAXIMUM_TOTAL_ARTIFACT_BYTES = 512 * 1024 * 1024"

definition leaf_with_mode :: "u32 \<Rightarrow> file_identity \<Rightarrow> unit rres" where
  "leaf_with_mode mode i =
     (if fi_mode i AND mode_type_mask \<noteq> REGULAR_TYPE \<or> uid i \<noteq> 0 \<or> gid i \<noteq> 0
         \<or> fi_mode i AND PERMISSION_BITS \<noteq> mode \<or> links i \<noteq> 1
      then Inl ObjectMetadata else Inr ())"

definition validate_leaf :: "file_identity \<Rightarrow> unit rres" where "validate_leaf = leaf_with_mode 0x124"

definition validate_executable_leaf :: "file_identity \<Rightarrow> unit rres" where
  "validate_executable_leaf = leaf_with_mode 0x16D"

definition resolver_identifier :: "string \<Rightarrow> bool" where
  "resolver_identifier value \<longleftrightarrow>
     value \<noteq> [] \<and> length value \<le> 128 \<and> list_all (\<lambda>b. b < 0x80) (str_bytes value)
     \<and> list_all (\<lambda>b. is_ascii_alphanumeric b \<or> b \<in> set (str_bytes ''._-'')) (str_bytes value)"

definition resolver_digest :: "string \<Rightarrow> bool" where
  "resolver_digest value \<longleftrightarrow> length value = 64 \<and> list_all lower_hex_byte (str_bytes value)"

text \<open>\<open>checked_add\<close> on \<open>u64\<close>, then the bound.\<close>

definition admit_total_artifact_bytes :: "u64 \<Rightarrow> u64 \<Rightarrow> u64 rres" where
  "admit_total_artifact_bytes seen extra =
     (if 2 ^ 64 \<le> unat seen + unat extra then Inl ObjectOpen
      else if seen + extra \<le> MAXIMUM_TOTAL_ARTIFACT_BYTES then Inr (seen + extra)
      else Inl ObjectOpen)"

subsection \<open>Artifacts\<close>

record 'f observed_artifact =
  oa_artifact_id :: string
  oa_kind :: string
  oa_digest :: string
  oa_identity :: file_identity
  oa_sealed :: "'f sealed_file"

definition REQUIRED_KINDS :: "string set" where
  "REQUIRED_KINDS = {''helper'', ''trampoline'', ''prober'', ''provisioner'', ''role''}"

definition text_field :: "val \<Rightarrow> string \<Rightarrow> string rres" where
  "text_field row key =
     (case Option.bind (val_field row key) as_text of None \<Rightarrow> Inl CanonicalProductionSchema | Some t \<Rightarrow> Inr t)"

definition artifact_capture ::
    "('s, 'f) kernel \<Rightarrow> 'f pinned_directory \<Rightarrow> val \<Rightarrow> 'f observed_artifact list \<times> u64
      \<Rightarrow> ('s, resolver_error, 'f observed_artifact list \<times> u64) action" where
  "artifact_capture K root row st =
     (let (artifacts, total_bytes) = st in
      io_bind (io_lift (text_field row ''kind'')) (\<lambda>required_kind.
      if required_kind \<notin> REQUIRED_KINDS then io_fail CanonicalProductionSchema
      else
        io_bind (io_lift (text_field row ''artifactId'')) (\<lambda>artifact_id.
        io_bind (io_lift (text_field row ''digest'')) (\<lambda>artifact_digest.
        io_bind (io_map_err (\<lambda>_. ObjectOpen)
            (capture_regular_file K root (''artifacts/sha256/'' @ artifact_digest) (unat MAXIMUM_EXECUTABLE_BYTES)))
          (\<lambda>capture.
        io_bind (io_lift (validate_executable_leaf (cr_identity capture))) (\<lambda>_.
        if sha256_hex (cr_bytes capture) \<noteq> artifact_digest then io_fail ContentAddress
        else
          io_bind (io_lift (admit_total_artifact_bytes total_bytes (fi_size (cr_identity capture)))) (\<lambda>total.
          io_bind (io_map_err (\<lambda>_. ObjectOpen)
              (seal_data_file_bytes K (''keep-production-'' @ required_kind) (cr_bytes capture)
                 MAXIMUM_EXECUTABLE_BYTES 0x100)) (\<lambda>sealed.
            io_ret (artifacts @ [\<lparr>oa_artifact_id = artifact_id, oa_kind = required_kind, oa_digest = artifact_digest,
                       oa_identity = cr_identity capture, oa_sealed = sealed\<rparr>], total)))))))))"

definition capture_required_artifacts ::
    "('s, 'f) kernel \<Rightarrow> 'f pinned_directory \<Rightarrow> val \<Rightarrow> ('s, resolver_error, 'f observed_artifact list) action" where
  "capture_required_artifacts K root payload =
     (case val_field payload ''artifacts'' of
        Some (Array rows) \<Rightarrow>
          io_bind (io_fold (artifact_capture K root) rows ([], 0)) (\<lambda>(artifacts, bytes_seen). io_ret artifacts)
      | _ \<Rightarrow> io_fail CanonicalProductionSchema)"

subsection \<open>The transcript\<close>

definition be64 :: "u64 \<Rightarrow> bytes" where "be64 n = to_be_bytes 8 n"

definition TRANSCRIPT_DOMAIN :: bytes where
  "TRANSCRIPT_DOMAIN = str_bytes ''keep.native-production-resolution-observation/v2'' @ [0]"

definition root_words :: "root_identity \<Rightarrow> u64 list" where
  "root_words r =
     [ri_device r, ri_inode r, ri_mount_id r, ri_filesystem_type r, ucast (ri_uid r), ucast (ri_gid r),
      ucast (ri_permissions r), if ri_read_only r then 1 else 0]"

definition leaf_words :: "file_identity \<Rightarrow> u64 list" where
  "leaf_words i = [device i, inode i, ucast (uid i), ucast (gid i), ucast (fi_mode i), fi_size i]"

definition artifact_words :: "file_identity \<Rightarrow> u64 list" where
  "artifact_words i =
     [device i, inode i, ucast (uid i), ucast (gid i), ucast (fi_mode i), links i, fi_size i]"

definition sized_text :: "string \<Rightarrow> bytes" where
  "sized_text t = be64 (of_nat (length t)) @ str_bytes t"

definition artifact_transcript :: "'f observed_artifact \<Rightarrow> bytes" where
  "artifact_transcript a =
     sized_text (oa_artifact_id a) @ sized_text (oa_kind a) @ sized_text (oa_digest a)
     @ concat (map be64 (artifact_words (oa_identity a))) @ be64 (of_nat (sl_byte_length (oa_sealed a)))"

definition transcript_bytes ::
    "root_identity \<Rightarrow> root_identity \<Rightarrow> file_identity \<Rightarrow> string \<Rightarrow> string \<Rightarrow> 'f observed_artifact list \<Rightarrow> bytes" where
  "transcript_bytes authority payload leaf deployment_id manifest_digest artifacts =
     TRANSCRIPT_DOMAIN @ concat (map be64 (root_words authority @ root_words payload @ leaf_words leaf))
     @ sized_text deployment_id @ str_bytes manifest_digest @ concat (map artifact_transcript artifacts)"

definition compute_transcript_digest ::
    "root_identity \<Rightarrow> root_identity \<Rightarrow> file_identity \<Rightarrow> string \<Rightarrow> string \<Rightarrow> 'f observed_artifact list \<Rightarrow> string" where
  "compute_transcript_digest authority payload leaf deployment_id manifest_digest artifacts =
     sha256_hex (transcript_bytes authority payload leaf deployment_id manifest_digest artifacts)"

subsection \<open>The resolver\<close>

record 'f production_resolver =
  rs_authority_root :: "'f pinned_directory"
  rs_authority_identity :: root_identity
  rs_payload_root :: "'f pinned_directory"
  rs_payload_identity :: root_identity

record 'f observed_deployment =
  od_sealed :: "'f sealed_file"
  od_canonical_bytes :: bytes
  od_deployment_id :: string
  od_manifest_digest :: string
  od_transcript_digest :: string
  od_artifacts :: "'f observed_artifact list"

definition resolver_open :: "'f resolver_configuration \<Rightarrow> 'f production_resolver" where
  "resolver_open c =
     \<lparr>rs_authority_root = cf_pinned (rc_authority c), rs_authority_identity = cf_identity (rc_authority c),
      rs_payload_root = cf_pinned (rc_payload c), rs_payload_identity = cf_identity (rc_payload c)\<rparr>"

text \<open>The admission of the captured bytes, up to the payload the request named.\<close>

definition admitted_payload :: "bytes \<Rightarrow> string \<Rightarrow> string \<Rightarrow> val rres" where
  "admitted_payload bs deployment_id manifest_digest =
     (if sha256_hex bs \<noteq> manifest_digest then Inl ContentAddress
      else case capture_canonical bs MANIFEST Production of
          Inl _ \<Rightarrow> Inl CanonicalProductionSchema
        | Inr document \<Rightarrow>
            if cd_schema document \<noteq> Deployment then Inl CanonicalProductionSchema
            else (case decode_canonical (cd_canonical document) MANIFEST of
                Inl _ \<Rightarrow> Inl CanonicalProductionSchema
              | Inr v \<Rightarrow>
                  (case val_field v ''payload'' of
                     None \<Rightarrow> Inl CanonicalProductionSchema
                   | Some payload \<Rightarrow>
                       if Option.bind (val_field payload ''deploymentId'') as_text \<noteq> Some deployment_id
                       then Inl DeploymentIdentity else Inr payload)))"

definition observe_deployment ::
    "('s, 'f) kernel \<Rightarrow> 'f production_resolver \<Rightarrow> string \<Rightarrow> string
      \<Rightarrow> ('s, resolver_error, 'f observed_deployment) action" where
  "observe_deployment K r deployment_id manifest_digest =
     (if \<not> resolver_identifier deployment_id \<or> \<not> resolver_digest manifest_digest then io_fail RequestShape
      else
        io_bind (io_map_err (\<lambda>_. ObjectOpen)
            (capture_regular_file K (rs_authority_root r) (''deployments/sha256/'' @ manifest_digest @ ''.cbor'')
               (unat MAXIMUM_DEPLOYMENT_BYTES))) (\<lambda>capture.
        io_bind (io_lift (validate_leaf (cr_identity capture))) (\<lambda>_.
        io_bind (io_lift (admitted_payload (cr_bytes capture) deployment_id manifest_digest)) (\<lambda>payload.
        io_bind (capture_required_artifacts K (rs_payload_root r) payload) (\<lambda>artifacts.
        io_bind (io_map_err (\<lambda>_. ObjectOpen)
            (seal_data_file_bytes K ''keep-production-deployment'' (cr_bytes capture) MAXIMUM_DEPLOYMENT_BYTES 0x100))
          (\<lambda>sealed.
          io_ret
            \<lparr>od_sealed = sealed, od_canonical_bytes = cr_bytes capture, od_deployment_id = deployment_id,
             od_manifest_digest = manifest_digest,
             od_transcript_digest =
               compute_transcript_digest (rs_authority_identity r) (rs_payload_identity r) (cr_identity capture)
                 deployment_id manifest_digest artifacts,
             od_artifacts = artifacts\<rparr>))))))"

subsection \<open>What is observed\<close>

lemma io_fold_invariant:
  assumes "io_fold f xs st s = (Inr st', t)" "P [] st"
    and step: "\<And>before x u v s t. P before u \<Longrightarrow> f x u s = (Inr v, t) \<Longrightarrow> P (before @ [x]) v"
  shows "P xs st'"
proof -
  have "P (before @ xs) st'" if "P before st" "io_fold f xs st s = (Inr st', t)" for before
    using that
  proof (induction xs arbitrary: before st s)
    case (Cons x xs)
    then obtain u v where "f x st s = (Inr u, v)" "io_fold f xs u v = (Inr st', t)"
      by (auto simp: io_bind_Inr)
    then show ?case using Cons.IH [of "before @ [x]" u v] step [OF Cons.prems(1)] by simp
  qed (simp add: io_ret_Inr)
  then show ?thesis using assms(1,2) by (metis append_Nil)
qed

text \<open>
  An artifact is observed as \<open>bs\<close>: the row names it, \<open>bs\<close> has the digest the row declares and was
  captured from a root-owned, singly linked, immutable executable of that size, and \<open>bs\<close> is what was
  read back from the sealed file before the kernel reported the exact seals of a data file.
\<close>

definition observed_as :: "('s, 'f) kernel \<Rightarrow> val \<Rightarrow> 'f observed_artifact \<Rightarrow> bytes \<Rightarrow> bool" where
  "observed_as K row a bs \<longleftrightarrow>
     text_field row ''artifactId'' = Inr (oa_artifact_id a) \<and> text_field row ''kind'' = Inr (oa_kind a)
     \<and> text_field row ''digest'' = Inr (oa_digest a) \<and> oa_kind a \<in> REQUIRED_KINDS
     \<and> sha256_hex bs = oa_digest a \<and> length bs = unat (fi_size (oa_identity a))
     \<and> is_file (oa_identity a) \<and> uid (oa_identity a) = 0 \<and> gid (oa_identity a) = 0 \<and> links (oa_identity a) = 1
     \<and> fi_mode (oa_identity a) AND PERMISSION_BITS = 0x16D
     \<and> sl_byte_length (oa_sealed a) = length bs
     \<and> (\<exists>u v. read_to_limit K (sl_file (oa_sealed a)) (saturating_successor MAXIMUM_EXECUTABLE_BYTES) u = (Inr bs, v))
     \<and> (\<exists>u v. sys_get_seals K (sl_file (oa_sealed a)) u = (Inr REQUIRED_DATA_MEMFD_SEALS, v))"

lemma admitted_total:
  "admit_total_artifact_bytes seen extra = Inr n \<longleftrightarrow>
     unat n = unat seen + unat extra \<and> unat n \<le> unat MAXIMUM_TOTAL_ARTIFACT_BYTES"
proof -
  have "unat (seen + extra) = unat seen + unat extra" if "\<not> 2 ^ 64 \<le> unat seen + unat extra"
    using that by (simp add: unat_word_ariths not_le)
  moreover have "unat n < 2 ^ 64" using unsigned_less [of n, where 'a = nat] by simp
  ultimately show ?thesis
    by (auto simp: admit_total_artifact_bytes_def word_le_nat_alt word_unat_eq_iff)
qed

lemma artifact_captured:
  assumes "artifact_capture K root row (artifacts, bytes_seen) s = (Inr (artifacts', seen'), t)"
  shows "\<exists>a bs. artifacts' = artifacts @ [a] \<and> observed_as K row a bs \<and> unat seen' = unat bytes_seen + length bs
    \<and> unat seen' \<le> unat MAXIMUM_TOTAL_ARTIFACT_BYTES"
proof -
  obtain kind id digest c sealed s1 s2 s3 where row: "text_field row ''kind'' = Inr kind" "kind \<in> REQUIRED_KINDS"
      "text_field row ''artifactId'' = Inr id" "text_field row ''digest'' = Inr digest"
    and c: "capture_regular_file K root (''artifacts/sha256/'' @ digest) (unat MAXIMUM_EXECUTABLE_BYTES) s = (Inr c, s1)"
      "validate_executable_leaf (cr_identity c) = Inr ()" "sha256_hex (cr_bytes c) = digest"
    and total: "admit_total_artifact_bytes bytes_seen (fi_size (cr_identity c)) = Inr seen'"
    and sealed: "seal_data_file_bytes K (''keep-production-'' @ kind) (cr_bytes c) MAXIMUM_EXECUTABLE_BYTES 0x100 s2 = (Inr sealed, s3)"
    and out: "artifacts' = artifacts @ [\<lparr>oa_artifact_id = id, oa_kind = kind, oa_digest = digest,
        oa_identity = cr_identity c, oa_sealed = sealed\<rparr>]"
    using assms by (auto simp: artifact_capture_def io_simps split: if_splits)
  have "observed_as K row \<lparr>oa_artifact_id = id, oa_kind = kind, oa_digest = digest,
        oa_identity = cr_identity c, oa_sealed = sealed\<rparr> (cr_bytes c)"
    using row c captured_regular [OF c(1)] sealed_data [OF sealed]
    by (auto simp: observed_as_def validate_executable_leaf_def leaf_with_mode_def split: if_splits)
  then show ?thesis
    using out total captured_regular [OF c(1)] by (auto simp: admitted_total)
qed

text \<open>
  C28: the artifacts the resolver returns for a payload are the artifacts of its rows, in order, each
  captured and sealed as declared: the digest of the row is the digest of the bytes that were read from
  an immutable root-owned executable, and those same bytes are in a memfd sealed as data. Together they
  are at most 512 MiB. The kernel is arbitrary.
\<close>

theorem observed_artifacts:
  fixes K :: "('s, 'f) kernel"
  assumes "capture_required_artifacts K root payload s = (Inr artifacts, t)"
  shows "\<exists>rows contents. val_field payload ''artifacts'' = Some (Array rows) \<and> length contents = length artifacts
    \<and> list_all2 (\<lambda>row (a, bs). observed_as K row a bs) rows (zip artifacts contents)
    \<and> sum_list (map length contents) \<le> 512 * 1024 * 1024"
proof -
  obtain rows bytes_seen where rows: "val_field payload ''artifacts'' = Some (Array rows)"
      "io_fold (artifact_capture K root) rows ([], 0) s = (Inr (artifacts, bytes_seen), t)"
    using assms by (auto simp: capture_required_artifacts_def io_simps split: option.splits val.splits)
  define P where "P before st \<longleftrightarrow> (\<exists>contents. length contents = length (fst st)
      \<and> list_all2 (\<lambda>row (a, bs). observed_as K row a bs) before (zip (fst st) contents)
      \<and> sum_list (map length contents) = unat (snd st) \<and> unat (snd st) \<le> unat MAXIMUM_TOTAL_ARTIFACT_BYTES)"
    for before :: "val list" and st :: "'f observed_artifact list \<times> u64"
  have "P rows (artifacts, bytes_seen)"
    using rows(2)
  proof (rule io_fold_invariant)
    show "P [] ([], 0)" by (simp add: P_def)
  next
    fix before row u v s t
    assume "P before u" and step: "artifact_capture K root row u s = (Inr v, t)"
    then obtain contents where contents: "length contents = length (fst u)"
        "list_all2 (\<lambda>row (a, bs). observed_as K row a bs) before (zip (fst u) contents)"
        "sum_list (map length contents) = unat (snd u)"
      by (auto simp: P_def)
    obtain a bs where a: "fst v = fst u @ [a]" "observed_as K row a bs" "unat (snd v) = unat (snd u) + length bs"
        "unat (snd v) \<le> unat MAXIMUM_TOTAL_ARTIFACT_BYTES"
      using artifact_captured [of K root row "fst u" "snd u" s "fst v" "snd v" t] step by auto
    have "list_all2 (\<lambda>row (a, bs). observed_as K row a bs) (before @ [row]) (zip (fst v) (contents @ [bs]))"
      using contents a by (simp add: list_all2_appendI)
    then show "P (before @ [row]) v"
      using contents a by (auto simp: P_def intro!: exI [of _ "contents @ [bs]"])
  qed
  then show ?thesis using rows(1) by (auto simp: P_def MAXIMUM_TOTAL_ARTIFACT_BYTES_def)
qed

subsection \<open>A kernel with one artifact\<close>

text \<open>
  Descriptor 5 names the artifact, 2 is any directory, 3 the opened artifact and 4 the memfd. The state is what is left to
  read of 3 and of 4.
\<close>

definition demo_contents :: bytes where "demo_contents = str_bytes ''ELF''"

definition demo_file :: file_identity where
  "demo_file =
     \<lparr>device = 7, inode = 9, fi_mode = 0x816D, links = 1, uid = 0, gid = 0, fi_size = 3, modified_seconds = 0,
      modified_nanoseconds = 0, changed_seconds = 0, changed_nanoseconds = 0\<rparr>"

definition demo_directory :: file_identity where "demo_directory = demo_file\<lparr>fi_mode := 0x416D, links := 2\<rparr>"

definition demo_kernel :: "(bytes \<times> bytes, nat) kernel" where
  "demo_kernel =
     \<lparr>sys_root = io_ret 2,
      sys_openat2 = (\<lambda>f path how. io_ret (if O_PATH \<in> how_flags how then 5 else if O_DIRECTORY \<in> how_flags how then 2 else 3)),
      sys_fstat = (\<lambda>f. io_ret (if f = 2 then demo_directory else demo_file)),
      sys_fstatfs = (\<lambda>f. io_ret 0x9fa0), sys_fstatvfs = (\<lambda>f. io_ret True), sys_statx = (\<lambda>f. io_ret (True, 1)),
      sys_dup = io_ret, sys_seek = (\<lambda>f n. io_ret ()),
      sys_read = (\<lambda>f n (a, m). if f = 3 then (Inr (take n a), (drop n a, m)) else (Inr (take n m), (a, drop n m))),
      sys_write_all = (\<lambda>f bs (a, m). (Inr (), (a, bs))), sys_flush = (\<lambda>f. io_ret ()), sys_fsync = (\<lambda>f. io_ret ()),
      sys_fchmod = (\<lambda>f mode. io_ret ()), sys_mkdirat = (\<lambda>f name mode. io_ret ()), sys_rmdirat = (\<lambda>f name. io_ret ()),
      sys_memfd_create = (\<lambda>name flags. io_ret 4), sys_add_seals = (\<lambda>f seals. io_ret ()),
      sys_get_seals = (\<lambda>f. io_ret REQUIRED_DATA_MEMFD_SEALS), sys_fdopendir = io_ret,
      sys_rewinddir = (\<lambda>f. io_ret ()), sys_readdir = (\<lambda>f. io_ret None), sys_geteuid = (\<lambda>s. 0),
      sys_getpid = (\<lambda>s. 7), may_reserve = (\<lambda>n s. True), PROC_SUPER_MAGIC = 0x9fa0, raw_fd = (\<lambda>f. f)\<rparr>"

definition demo_root :: "nat pinned_directory" where
  "demo_root = \<lparr>pd_directory = 2, pd_identity = demo_directory\<rparr>"

definition demo_payload :: val where
  "demo_payload =
     Map [(''artifacts'', Array [Map [(''kind'', Text ''helper''), (''digest'', Text (sha256_hex demo_contents)),
            (''artifactId'', Text ''keep.helper'')]])]"

lemma sha256_hex_digest: "resolver_digest (sha256_hex bs)"
  using hex_string_lower by (auto simp: resolver_digest_def list_all_iff str_bytes_def sha256_hex_def)

lemma digest_char: "resolver_digest h \<Longrightarrow> c \<in> set h \<Longrightarrow> lower_hex_byte (byte_of_char c)"
  by (simp add: resolver_digest_def list_all_iff str_bytes_def)

lemma hex_byte_range: "lower_hex_byte b \<Longrightarrow> 0x30 \<le> b \<and> b \<le> 0x66"
  by (auto simp: lower_hex_byte_def is_ascii_digit_def word_le_nat_alt)

lemma no_double_slash: "CHR ''/'' \<notin> set h \<Longrightarrow> \<not> contains_sub ''//'' h"
  by (induction h) (auto simp: starts_with_def)

lemma admitted_path:
  assumes "resolver_digest h"
  shows "abi_canonical_relative (''artifacts/sha256/'' @ h)"
proof -
  have range: "0x30 \<le> byte_of_char c \<and> byte_of_char c \<le> 0x66" if "c \<in> set h" for c
    using hex_byte_range digest_char [OF assms that] by blast
  have slash: "CHR ''/'' \<notin> set h" and dot: "CHR ''.'' \<notin> set h"
    using range [of "CHR ''/''"] range [of "CHR ''.''"] by (auto simp: byte_of_char_def)
  have len: "length h = 64" using assms by (simp add: resolver_digest_def)
  then obtain c cs where h: "h = c # cs" by (cases h) simp_all
  have "split_on CHR ''/'' (join_with CHR ''/'' [''artifacts'', ''sha256'', h]) = [''artifacts'', ''sha256'', h]"
    using slash by (intro split_on_join) auto
  then have parts: "split_on CHR ''/'' (''artifacts/sha256/'' @ h) = [''artifacts'', ''sha256'', h]" by simp
  have bounds: "byte_of_char c < 0x80 \<and> 0x20 \<le> byte_of_char c \<and> byte_of_char c \<le> 0x7e" if "c \<in> set h" for c
    using range [OF that] by (auto simp: word_le_nat_alt word_less_nat_alt)
  have "\<not> ends_with (''artifacts/sha256/'' @ h) ''/''"
    using slash h in_set_dropD [of "CHR ''/''" "length cs" "c # cs"] by (auto simp: ends_with_def)
  moreover have "\<not> contains_sub ''//'' (''artifacts/sha256/'' @ h)"
    using no_double_slash [OF slash] slash h by (auto simp: starts_with_def)
  ultimately show ?thesis
    unfolding abi_canonical_relative_def parts
    using len bounds dot h by (auto simp: list_all_iff str_bytes_def starts_with_def byte_of_char_def)
qed

lemma demo_decimal: "dec_string 5 = ''5''" "dec_string 7 = ''7''"
  by code_simp+

lemma demo_eval:
    "open_fixed_kernel_mount demo_kernel ''/proc'' s = (Inr demo_root, s)"
    "get_filesystem_identity demo_kernel demo_root s = (Inr \<lparr>mount_id = 1, filesystem_type = 0x9fa0, read_only = True\<rparr>, s)"
    "open_directory_at demo_kernel 2 ''7/fd'' RESOLUTION_FLAGS s = (Inr 2, s)"
  by (simp_all add: open_fixed_kernel_mount_def open_with_policy_def demo_root_def demo_kernel_def open_directory_at_def
      abi_canonical_relative_def str_bytes_def byte_of_char_def starts_with_def ends_with_def strip_prefix_def
      rsplit_once_def c_string_def io_lift_def directory_how_def pin_directory_def is_dir_def demo_directory_def
      demo_file_def S_IFMT_def get_filesystem_identity_def)

lemma demo_calls:
    "sys_fstat demo_kernel 5 = io_ret demo_file" "sys_fstat demo_kernel 2 = io_ret demo_directory"
    "sys_fstat demo_kernel 3 = io_ret demo_file" "sys_getpid demo_kernel s = 7" "sys_geteuid demo_kernel s = 0"
    "raw_fd demo_kernel f = f" "PROC_SUPER_MAGIC demo_kernel = 0x9fa0" "may_reserve demo_kernel n s"
    "sys_openat2 demo_kernel f path how =
       io_ret (if O_PATH \<in> how_flags how then 5 else if O_DIRECTORY \<in> how_flags how then 2 else 3)"
    "sys_read demo_kernel 3 n (a, m) = (Inr (take n a), (drop n a, m))"
    "sys_read demo_kernel 4 n (a, m) = (Inr (take n m), (a, drop n m))"
  by (simp_all add: demo_kernel_def)

lemma demo_upgrade: "upgrade_regular_inode demo_kernel 5 demo_file s = (Inr \<lparr>pr_file = 3, pr_identity = demo_file\<rparr>, s)"
proof -
  have facts: "device demo_directory = 7" "device demo_file = 7" "uid demo_directory = 0" "is_dir demo_directory"
      "pd_identity demo_root = demo_directory" "pd_directory demo_root = 2"
    by (simp_all add: demo_directory_def demo_file_def is_dir_def S_IFMT_def demo_root_def)
  show ?thesis
    by (simp add: upgrade_regular_inode_def demo_eval demo_calls demo_decimal facts io_lift_def c_string_def)
qed

lemma demo_read:
  "read_exact demo_kernel 3 3 (demo_contents, m) = (Inr demo_contents, ([], m))"
  "read_chunk demo_kernel 3 (Suc 0) ([], m) = (Inr [], ([], m))"
  by (simp_all add: read_exact.simps read_chunk_def demo_calls demo_contents_def str_bytes_def)

lemma demo_file_captured:
  assumes "abi_canonical_relative path" "CHR 0x00 \<notin> set path"
  shows "capture_regular_file demo_kernel demo_root path (unat MAXIMUM_EXECUTABLE_BYTES) (demo_contents, m) =
    (Inr \<lparr>cr_file = 3, cr_bytes = demo_contents, cr_identity = demo_file\<rparr>, ([], m))"
proof -
  have facts: "is_file demo_file" "links demo_file = 1" "fi_size demo_file = 3" "pd_directory demo_root = 2"
    by (simp_all add: demo_file_def is_file_def S_IFMT_def demo_root_def)
  show ?thesis
    using assms
    by (simp add: capture_regular_file_def open_regular_file_def pin_entry_at_def io_lift_def c_string_def demo_calls
        demo_upgrade demo_read facts reserve_def MAXIMUM_EXECUTABLE_BYTES_def)
qed

lemma demo_read_back:
  assumes "4 \<le> n"
  shows "read_to_limit demo_kernel 4 n (a, demo_contents) = (Inr demo_contents, (a, []))"
proof -
  have "read_to_limit demo_kernel 4 k (a, []) = (Inr [], (a, []))" for k
    by (simp add: read_to_limit.simps [of _ _ k] read_chunk_def demo_calls)
  then show ?thesis
    using assms
    by (simp add: read_to_limit.simps [of _ _ n] read_chunk_def demo_calls demo_contents_def str_bytes_def)
qed

lemma demo_sealed:
  "seal_data_file_bytes demo_kernel ''keep-production-helper'' demo_contents MAXIMUM_EXECUTABLE_BYTES 0x100 (a, m) =
     (Inr \<lparr>sl_file = 4, sl_byte_length = 3\<rparr>, (a, []))"
proof -
  have name: "memfd_name ''keep-production-helper''"
    by (simp add: memfd_name_def str_bytes_def byte_of_char_def is_ascii_alphanumeric_def is_ascii_digit_def)
  have calls: "sys_memfd_create demo_kernel x flags = io_ret 4" "sys_fchmod demo_kernel f md = io_ret ()"
      "sys_flush demo_kernel f = io_ret ()" "sys_seek demo_kernel f n = io_ret ()"
      "sys_write_all demo_kernel f bs (a, m) = (Inr (), (a, bs))" "sys_add_seals demo_kernel f seals = io_ret ()"
      "sys_get_seals demo_kernel f = io_ret REQUIRED_DATA_MEMFD_SEALS"
    for x flags f md n bs a m seals by (simp_all add: demo_kernel_def)
  have "length demo_contents = 3" by (simp add: demo_contents_def)
  moreover have "unat MAXIMUM_EXECUTABLE_BYTES = 67108864" "saturating_successor MAXIMUM_EXECUTABLE_BYTES = 67108865"
    by (simp_all add: MAXIMUM_EXECUTABLE_BYTES_def saturating_successor_def)
  ultimately show ?thesis
    by (simp add: seal_data_file_bytes_def seal_file_bytes_with_policy_def name calls io_lift_def c_string_def demo_read_back)
qed

theorem observed_artifacts_witness:
  "\<exists>artifacts contents. fst (capture_required_artifacts demo_kernel demo_root demo_payload (demo_contents, [])) = Inr artifacts
     \<and> length artifacts = 1 \<and> list_all2 (\<lambda>row (a, bs). observed_as demo_kernel row a bs)
          [Map [(''kind'', Text ''helper''), (''digest'', Text (sha256_hex demo_contents)), (''artifactId'', Text ''keep.helper'')]]
          (zip artifacts contents)"
proof -
  have "CHR 0x00 \<notin> set (sha256_hex demo_contents)"
    using hex_byte_range digest_char [OF sha256_hex_digest, of "CHR 0x00" demo_contents]
    by (auto simp: byte_of_char_def lower_hex_byte_def is_ascii_digit_def)
  then have c: "capture_regular_file demo_kernel demo_root (''artifacts/sha256/'' @ sha256_hex demo_contents)
      (unat MAXIMUM_EXECUTABLE_BYTES) (demo_contents, []) =
      (Inr \<lparr>cr_file = 3, cr_bytes = demo_contents, cr_identity = demo_file\<rparr>, ([], []))"
    by (intro demo_file_captured admitted_path sha256_hex_digest) simp
  have leaf: "validate_executable_leaf demo_file = Inr ()" "fi_size demo_file = 3"
    by (simp_all add: validate_executable_leaf_def leaf_with_mode_def demo_file_def mode_type_mask_def REGULAR_TYPE_def
        PERMISSION_BITS_def)
  have run: "capture_required_artifacts demo_kernel demo_root demo_payload (demo_contents, []) =
      (Inr [\<lparr>oa_artifact_id = ''keep.helper'', oa_kind = ''helper'', oa_digest = sha256_hex demo_contents,
         oa_identity = demo_file, oa_sealed = \<lparr>sl_file = 4, sl_byte_length = 3\<rparr>\<rparr>], ([], []))"
    using c
    by (simp add: capture_required_artifacts_def demo_payload_def artifact_capture_def text_field_def io_lift_def
        REQUIRED_KINDS_def leaf admit_total_artifact_bytes_def MAXIMUM_TOTAL_ARTIFACT_BYTES_def demo_sealed)
  from observed_artifacts [OF run] show ?thesis
    unfolding run by (auto simp: demo_payload_def)
qed

end
