(* ===== verification/Seccomp_Filter.thy ===== *)
theory Seccomp_Filter
  imports Rust_Bytes
begin

section \<open>The seccomp filter of the isolation boundary\<close>

text \<open>
  \<open>install_objective3_seccomp_filter\<close> of \<open>linux-abi/src/lib.rs\<close>: the classic BPF program
  it assembles, the order in which it hands it to the kernel, and the decision the program
  computes. The constants of \<open>libc\<close> (the syscall numbers, the return actions, the clone flags)
  are not code of the repository and are the record argument \<open>libc_constants\<close>. The four BPF
  instructions the program uses have their documented semantics in \<open>bpf_exec\<close>: a load of
  a 32-bit word of \<open>seccomp_data\<close>, two conditional forward jumps and a return.
\<close>

subsection \<open>Constants\<close>

datatype syscall =
    SYS_mount | SYS_umount2 | SYS_pivot_root | SYS_move_mount | SYS_fsopen | SYS_fsconfig | SYS_fsmount
  | SYS_open_tree | SYS_mount_setattr | SYS_unshare | SYS_setns | SYS_ptrace | SYS_process_vm_writev
  | SYS_bpf | SYS_perf_event_open | SYS_keyctl | SYS_add_key | SYS_request_key | SYS_kexec_load
  | SYS_kexec_file_load | SYS_reboot | SYS_swapon | SYS_swapoff | SYS_init_module | SYS_finit_module
  | SYS_delete_module | SYS_open_by_handle_at | SYS_userfaultfd | SYS_io_uring_setup
  | SYS_io_uring_enter | SYS_io_uring_register | SYS_acct | SYS_quotactl | SYS_settimeofday
  | SYS_clock_settime | SYS_adjtimex | SYS_iopl | SYS_ioperm | SYS_vhangup | SYS_fanotify_init
  | SYS_clone | SYS_clone3

datatype clone_flag =
    CLONE_NEWNS | CLONE_NEWCGROUP | CLONE_NEWUTS | CLONE_NEWIPC | CLONE_NEWUSER | CLONE_NEWPID
  | CLONE_NEWNET | CLONE_NEWTIME

record libc_constants =
  sys_number :: "syscall \<Rightarrow> u64"
  clone_bits :: "clone_flag \<Rightarrow> u32"
  ret_kill_process :: u32
  ret_errno :: u32
  ret_allow :: u32
  EPERM :: u32
  ENOSYS :: u32

definition AUDIT_ARCH_X86_64 :: u32 where "AUDIT_ARCH_X86_64 = 0xc000003e"
definition SECCOMP_DATA_NR_OFFSET :: u32 where "SECCOMP_DATA_NR_OFFSET = 0"
definition SECCOMP_DATA_ARCH_OFFSET :: u32 where "SECCOMP_DATA_ARCH_OFFSET = 4"
definition SECCOMP_DATA_ARGUMENT_ZERO_OFFSET :: u32 where "SECCOMP_DATA_ARGUMENT_ZERO_OFFSET = 16"
definition BPF_LD_W_ABS :: u16 where "BPF_LD_W_ABS = 0x20"
definition BPF_JMP_JEQ_K :: u16 where "BPF_JMP_JEQ_K = 0x15"
definition BPF_JMP_JSET_K :: u16 where "BPF_JMP_JSET_K = 0x45"
definition BPF_RET_K :: u16 where "BPF_RET_K = 0x06"

lemmas seccomp_constants =
  SECCOMP_DATA_NR_OFFSET_def SECCOMP_DATA_ARCH_OFFSET_def SECCOMP_DATA_ARGUMENT_ZERO_OFFSET_def
  BPF_LD_W_ABS_def BPF_JMP_JEQ_K_def BPF_JMP_JSET_K_def BPF_RET_K_def

subsection \<open>The program\<close>

record sock_filter =
  bpf_code :: u16
  bpf_jt :: u8
  bpf_jf :: u8
  bpf_k :: u32

definition bpf_statement :: "u16 \<Rightarrow> u32 \<Rightarrow> sock_filter" where
  "bpf_statement code k = \<lparr>bpf_code = code, bpf_jt = 0, bpf_jf = 0, bpf_k = k\<rparr>"

definition jump_equal :: "u32 \<Rightarrow> u8 \<Rightarrow> u8 \<Rightarrow> sock_filter" where
  "jump_equal k jt jf = \<lparr>bpf_code = BPF_JMP_JEQ_K, bpf_jt = jt, bpf_jf = jf, bpf_k = k\<rparr>"

definition jump_bits_set :: "u32 \<Rightarrow> u8 \<Rightarrow> u8 \<Rightarrow> sock_filter" where
  "jump_bits_set k jt jf = \<lparr>bpf_code = BPF_JMP_JSET_K, bpf_jt = jt, bpf_jf = jf, bpf_k = k\<rparr>"

definition denied_syscalls :: "syscall list" where
  "denied_syscalls =
     [SYS_mount, SYS_umount2, SYS_pivot_root, SYS_move_mount, SYS_fsopen, SYS_fsconfig, SYS_fsmount,
      SYS_open_tree, SYS_mount_setattr, SYS_unshare, SYS_setns, SYS_ptrace, SYS_process_vm_writev,
      SYS_bpf, SYS_perf_event_open, SYS_keyctl, SYS_add_key, SYS_request_key, SYS_kexec_load,
      SYS_kexec_file_load, SYS_reboot, SYS_swapon, SYS_swapoff, SYS_init_module, SYS_finit_module,
      SYS_delete_module, SYS_open_by_handle_at, SYS_userfaultfd, SYS_io_uring_setup,
      SYS_io_uring_enter, SYS_io_uring_register, SYS_acct, SYS_quotactl, SYS_settimeofday,
      SYS_clock_settime, SYS_adjtimex, SYS_iopl, SYS_ioperm, SYS_vhangup, SYS_fanotify_init]"

text \<open>\<open>syscall as u32\<close> and the union of the namespace flags.\<close>

definition number32 :: "libc_constants \<Rightarrow> syscall \<Rightarrow> u32" where
  "number32 L s = ucast (sys_number L s)"

definition namespace_clone_flags :: "libc_constants \<Rightarrow> u32" where
  "namespace_clone_flags L =
     clone_bits L CLONE_NEWNS OR clone_bits L CLONE_NEWCGROUP OR clone_bits L CLONE_NEWUTS
       OR clone_bits L CLONE_NEWIPC OR clone_bits L CLONE_NEWUSER OR clone_bits L CLONE_NEWPID
       OR clone_bits L CLONE_NEWNET OR clone_bits L CLONE_NEWTIME"

definition deny_row :: "libc_constants \<Rightarrow> syscall \<Rightarrow> sock_filter list" where
  "deny_row L s =
     [jump_equal (number32 L s) 0 1, bpf_statement BPF_RET_K (ret_errno L OR EPERM L)]"

definition objective3_program :: "libc_constants \<Rightarrow> sock_filter list" where
  "objective3_program L =
     [bpf_statement BPF_LD_W_ABS SECCOMP_DATA_ARCH_OFFSET,
      jump_equal AUDIT_ARCH_X86_64 1 0,
      bpf_statement BPF_RET_K (ret_kill_process L),
      bpf_statement BPF_LD_W_ABS SECCOMP_DATA_NR_OFFSET,
      jump_equal (number32 L SYS_clone) 0 4,
      bpf_statement BPF_LD_W_ABS SECCOMP_DATA_ARGUMENT_ZERO_OFFSET,
      jump_bits_set (namespace_clone_flags L) 0 1,
      bpf_statement BPF_RET_K (ret_errno L OR EPERM L),
      bpf_statement BPF_LD_W_ABS SECCOMP_DATA_NR_OFFSET,
      jump_equal (number32 L SYS_clone3) 0 1,
      bpf_statement BPF_RET_K (ret_errno L OR ENOSYS L)]
     @ concat (map (deny_row L) denied_syscalls)
     @ [bpf_statement BPF_RET_K (ret_allow L)]"

subsection \<open>Installation\<close>

text \<open>
  The kernel calls the installation makes, in order: the irreversible \<open>no_new_privs\<close> before the
  filter. The results of the two \<open>prctl\<close> calls are arguments; \<open>Inl\<close> holds the error.
\<close>

datatype kernel_call = Set_No_New_Privs | Set_Seccomp_Filter "sock_filter list"

datatype install_error = Architecture_Not_Frozen | Program_Exceeds_U16 | Last_Os_Error

definition install_objective3_seccomp_filter ::
    "bool \<Rightarrow> libc_constants \<Rightarrow> bool \<Rightarrow> bool \<Rightarrow> kernel_call list \<times> (install_error, unit) res" where
  "install_objective3_seccomp_filter x86_64 L privileges_set filter_set =
     (if \<not> x86_64 then ([], Inl Architecture_Not_Frozen)
      else let program = objective3_program L in
        if 2 ^ 16 \<le> length program then ([], Inl Program_Exceeds_U16)
        else if \<not> privileges_set then ([Set_No_New_Privs], Inl Last_Os_Error)
        else ([Set_No_New_Privs, Set_Seccomp_Filter program],
              if filter_set then Inr () else Inl Last_Os_Error))"

lemma length_objective3_program: "length (objective3_program L) = 92"
  by (simp add: objective3_program_def denied_syscalls_def deny_row_def)

lemma install_never_too_long:
  "snd (install_objective3_seccomp_filter x L p f) \<noteq> Inl Program_Exceeds_U16"
  by (simp add: install_objective3_seccomp_filter_def length_objective3_program Let_def)

subsection \<open>What the program computes\<close>

text \<open>
  The word of \<open>struct seccomp_data\<close> at an offset, on a little-endian machine: the syscall
  number, the architecture, the low half of the first argument. The interpreter returns
  \<open>None\<close> where the kernel would refuse the program: an unknown instruction, a load outside
  these words, or a jump past the end.
\<close>

record seccomp_data =
  data_nr :: u32
  data_arch :: u32
  data_argument_zero :: u64

definition seccomp_word :: "seccomp_data \<Rightarrow> u32 \<Rightarrow> u32 option" where
  "seccomp_word d k =
     (if k = 0 then Some (data_nr d) else if k = 4 then Some (data_arch d)
      else if k = 16 then Some (ucast (data_argument_zero d)) else None)"

function bpf_exec :: "seccomp_data \<Rightarrow> u32 \<Rightarrow> sock_filter list \<Rightarrow> u32 option" where
  "bpf_exec d a [] = None"
| "bpf_exec d a (i # rest) =
     (if bpf_code i = 0x20 then (case seccomp_word d (bpf_k i) of None \<Rightarrow> None | Some w \<Rightarrow> bpf_exec d w rest)
      else if bpf_code i = 0x15 then
        bpf_exec d a (drop (unat (if a = bpf_k i then bpf_jt i else bpf_jf i)) rest)
      else if bpf_code i = 0x45 then
        bpf_exec d a (drop (unat (if a AND bpf_k i \<noteq> 0 then bpf_jt i else bpf_jf i)) rest)
      else if bpf_code i = 0x06 then Some (bpf_k i)
      else None)"
  by pat_completeness auto
termination by (relation "measure (\<lambda>(d, a, p). length p)") auto

text \<open>The decision the filter is meant to make.\<close>

definition seccomp_decision :: "libc_constants \<Rightarrow> seccomp_data \<Rightarrow> u32" where
  "seccomp_decision L d =
     (if data_arch d \<noteq> AUDIT_ARCH_X86_64 then ret_kill_process L
      else if data_nr d = number32 L SYS_clone
              \<and> ucast (data_argument_zero d) AND namespace_clone_flags L \<noteq> 0
        then ret_errno L OR EPERM L
      else if data_nr d = number32 L SYS_clone3 then ret_errno L OR ENOSYS L
      else if data_nr d \<in> set (map (number32 L) denied_syscalls) then ret_errno L OR EPERM L
      else ret_allow L)"

lemma bpf_deny_rows:
  "bpf_exec d a (concat (map (deny_row L) ss) @ rest) =
     (if a \<in> set (map (number32 L) ss) then Some (ret_errno L OR EPERM L) else bpf_exec d a rest)"
  by (induction ss)
    (auto simp: deny_row_def jump_equal_def bpf_statement_def BPF_JMP_JEQ_K_def BPF_RET_K_def)

text \<open>
  C26: the assembled filter always returns, and decides as specified: any other architecture is
  killed before a syscall number is read, a clone that asks for a namespace and every
  syscall of the deny list get EPERM, clone3 gets ENOSYS, and the rest are allowed; whatever
  the numbering, and whatever the accumulator starts with.
\<close>

theorem filter_decides: "bpf_exec d a (objective3_program L) = Some (seccomp_decision L d)"
proof -
  have tail: "bpf_exec d a (concat (map (deny_row L) denied_syscalls) @ [bpf_statement BPF_RET_K (ret_allow L)]) =
      Some (if a \<in> set (map (number32 L) denied_syscalls) then ret_errno L OR EPERM L else ret_allow L)" for a
    unfolding bpf_deny_rows by (simp add: bpf_statement_def BPF_RET_K_def)
  define rows where
    "rows = concat (map (deny_row L) denied_syscalls) @ [bpf_statement BPF_RET_K (ret_allow L)]"
  show ?thesis
    unfolding objective3_program_def rows_def [symmetric] seccomp_decision_def
    by (simp add: bpf_statement_def jump_equal_def jump_bits_set_def seccomp_constants seccomp_word_def
        tail [folded rows_def])
qed

subsection \<open>The x32 numbering\<close>

text \<open>
  On x86-64 the architecture word of an x32 call is also \<open>AUDIT_ARCH_X86_64\<close>; only bit 30 of
  the number tells it apart. The program does not test this bit, so with the numbers of
  the x86-64 table the x32 form of a denied call is allowed.
\<close>

definition x32_form :: "seccomp_data \<Rightarrow> seccomp_data" where
  "x32_form d = d\<lparr>data_nr := data_nr d OR 0x40000000\<rparr>"

lemma x32_form_allowed:
  assumes "data_arch d = AUDIT_ARCH_X86_64" "\<And>s. number32 L s < 0x40000000"
  shows "seccomp_decision L (x32_form d) = ret_allow L"
proof -
  have bit: "bit (data_nr d OR 0x40000000 :: u32) 30" by (simp add: bit_simps)
  have "\<not> bit w 30" if "w < 0x40000000" for w :: u32
    using that by (simp add: bit_iff_odd div_word_less)
  then have "data_nr d OR 0x40000000 \<noteq> number32 L s" for s using bit assms(2) by metis
  then show ?thesis using assms(1) by (auto simp: seccomp_decision_def x32_form_def)
qed

end
