(* ===== verification/Deployment_Props.thy ===== *)
theory Deployment_Props
  imports Topology
begin

section \<open>Channels need the consent of both sides\<close>

text \<open>
  What an accepted deployment says of its roles and channels. The blocks of \<open>validate_deployment\<close> are
  inverted one by one; the table of the channels is related to the channel rows it was filled from.
\<close>

subsection \<open>The tables\<close>

text \<open>The table knows every channel row seen so far by its id.\<close>

definition channel_known :: "channel_table \<Rightarrow> val \<Rightarrow> bool" where
  "channel_known t channel \<longleftrightarrow>
     (\<exists>id from_end to_end. nb_id channel ''channelId'' = Inr id \<and> nb_id channel ''fromEndpoint'' = Inr from_end
        \<and> nb_id channel ''toEndpoint'' = Inr to_end \<and> from_end \<noteq> to_end
        \<and> id \<in> cn_ids t \<and> map_of (cn_endpoints t) id = Some (from_end, to_end))"

lemma channel_step_known:
  assumes "channel_step channel t = Inr u"
  shows "channel_known u channel" "channel_known t old \<Longrightarrow> channel_known u old"
proof -
  obtain id from_end to_end where new: "nb_id channel ''channelId'' = Inr id" "nb_id channel ''fromEndpoint'' = Inr from_end"
      "nb_id channel ''toEndpoint'' = Inr to_end" "from_end \<noteq> to_end" "id \<notin> cn_ids t"
    and u: "cn_ids u = insert id (cn_ids t)" "cn_endpoints u = om_insert id (from_end, to_end) (cn_endpoints t)"
    using assms by (auto simp: channel_step_def bnd_eq_Inr split: if_splits)
  show "channel_known u channel" using new u by (simp add: channel_known_def om_insert_lookup)
  show "channel_known u old" if known: "channel_known t old"
  proof -
    obtain i f e where old: "nb_id old ''channelId'' = Inr i" "nb_id old ''fromEndpoint'' = Inr f"
        "nb_id old ''toEndpoint'' = Inr e" "f \<noteq> e" "i \<in> cn_ids t" "map_of (cn_endpoints t) i = Some (f, e)"
      using known unfolding channel_known_def by blast
    have "i \<noteq> id" using old(5) new(5) by metis
    then have "i \<in> cn_ids u" "map_of (cn_endpoints u) i = Some (f, e)"
      using old(5,6) by (simp_all add: u om_insert_lookup)
    then show ?thesis using old(1-4) unfolding channel_known_def by blast
  qed
qed

lemma channels_known:
  assumes "fold_res channel_step channels t = Inr c"
  shows "channel \<in> set channels \<or> channel_known t channel \<Longrightarrow> channel_known c channel"
  using assms
proof (induction channels arbitrary: t)
  case (Cons x xs)
  then obtain u where u: "channel_step x t = Inr u" "fold_res channel_step xs u = Inr c" by (auto simp: bnd_eq_Inr)
  show ?case using Cons.IH [OF _ u(2)] Cons.prems(1) channel_step_known [OF u(1)] by auto
qed simp

lemma role_step_facts:
  assumes "role_step t role r = Inr u"
  shows "\<exists>id class credentials. nb_id role ''roleId'' = Inr id \<and> enum_field role ''roleClass'' ROLE_CLASSES = Inr class
    \<and> ids_field role ''credentialDomains'' 1 = Inr credentials \<and> (class = ''D3'' \<or> credentials = [])"
  using assms by (auto simp: role_step_def bnd_eq_Inr split: if_splits)

lemma roles_each:
  "fold_res (role_step t) roles r = Inr u \<Longrightarrow> role \<in> set roles \<Longrightarrow> \<exists>a b. role_step t role a = Inr b"
  by (induction roles arbitrary: r) (auto simp: bnd_eq_Inr)

subsection \<open>Mutual consent\<close>

definition consents :: "val \<Rightarrow> val \<Rightarrow> bool" where
  "consents role channel \<longleftrightarrow>
     (\<exists>role_id allowed channel_id from_end to_end.
        nb_id role ''roleId'' = Inr role_id \<and> ids_field role ''allowedChannelIds'' 128 = Inr allowed
        \<and> nb_id channel ''channelId'' = Inr channel_id \<and> nb_id channel ''fromEndpoint'' = Inr from_end
        \<and> nb_id channel ''toEndpoint'' = Inr to_end
        \<and> (channel_id \<in> set allowed \<longleftrightarrow> from_end = role_endpoint role_id \<or> to_end = role_endpoint role_id))"

lemma allowed_channel_end:
  "allowed_channel c role channel = Inr u \<Longrightarrow> nb_id role ''roleId'' = Inr role_id \<Longrightarrow>
     \<exists>from_end to_end. map_of (cn_endpoints c) channel = Some (from_end, to_end)
       \<and> (from_end = role_endpoint role_id \<or> to_end = role_endpoint role_id)"
  by (auto simp: allowed_channel_def checks split: option.splits prod.splits)

lemma blocks_consent:
  assumes role: "nb_id role ''roleId'' = Inr role_id" "role \<in> set roles"
    and channel: "channel_known c channel" "channel \<in> set channels"
    and allowed: "for_all (allowed_channels c) roles = Inr ()"
    and owners: "for_all (channel_owner roles authority) channels = Inr ()"
  shows "consents role channel"
proof -
  obtain channel_id from_end to_end where ch: "nb_id channel ''channelId'' = Inr channel_id"
      "nb_id channel ''fromEndpoint'' = Inr from_end" "nb_id channel ''toEndpoint'' = Inr to_end"
      "map_of (cn_endpoints c) channel_id = Some (from_end, to_end)"
    using channel(1) by (auto simp: channel_known_def)
  obtain ids where ids: "ids_field role ''allowedChannelIds'' 128 = Inr ids"
      "\<And>x. x \<in> set ids \<Longrightarrow> \<exists>u. allowed_channel c role x = Inr u"
    using allowed role(2) by (auto simp: for_all_unit allowed_channels_def bnd_eq_Inr)
  have "from_end = role_endpoint role_id \<or> to_end = role_endpoint role_id" if "channel_id \<in> set ids"
    using ids(2) [OF that] allowed_channel_end [OF _ role(1), of c channel_id] ch(4) by auto
  moreover have "channel_id \<in> set ids" if "from_end = role_endpoint role_id \<or> to_end = role_endpoint role_id"
  proof -
    have "channel_owner roles authority channel = Inr ()" using owners channel(2) by (auto simp: for_all_unit)
    then have "for_all (participant channel_id) (filter (\<lambda>role. from_end = role_endpoint (id_or_empty role ''roleId'')
             \<or> to_end = role_endpoint (id_or_empty role ''roleId'')) roles) = Inr ()"
      by (auto simp: channel_owner_def ch Let_def split: if_splits)
    moreover have "id_or_empty role ''roleId'' = role_id" using role(1) by (simp add: id_or_empty_def)
    ultimately have "participant channel_id role = Inr ()" using role(2) that by (auto simp: for_all_unit)
    then show ?thesis using ids(1) by (auto simp: participant_def checks)
  qed
  ultimately show ?thesis using role(1) ch ids(1) by (auto simp: consents_def)
qed

text \<open>An accepted deployment passes the blocks the property below is about.\<close>

lemma deployment_blocks:
  assumes "validate_deployment v = Inr ()"
  shows "\<exists>artifacts t roles r channels c authority. artifact_rows v = Inr (artifacts, t) \<and> role_rows v t = Inr (roles, r)
    \<and> channel_rows v = Inr (channels, c) \<and> for_all (allowed_channels c) roles = Inr ()
    \<and> for_all (channel_owner roles authority) channels = Inr ()"
  using assms unfolding validate_deployment_def
  by (auto simp: bnd_eq_Inr all_ok_Cons split: prod.splits)

text \<open>
  C29: when the role, channel, permission and ownership checks of a deployment accept, consent to a channel is
  mutual: a role lists a channel among its allowed channels exactly when its endpoint is one of the
  channel's two ends. And only a role of class D3 may hold a credential domain.
\<close>

theorem channel_consent_is_mutual:
  assumes roles: "role_rows v t = Inr (roles, r)" and channels: "channel_rows v = Inr (channels, c)"
    and "for_all (allowed_channels c) roles = Inr ()" "for_all (channel_owner roles authority) channels = Inr ()"
  shows "list_all (\<lambda>role. list_all (consents role) channels
    \<and> (enum_field role ''roleClass'' ROLE_CLASSES = Inr ''D3'' \<or> ids_field role ''credentialDomains'' 1 = Inr [])) roles"
proof -
  have "list_all (consents role) channels
    \<and> (enum_field role ''roleClass'' ROLE_CLASSES = Inr ''D3'' \<or> ids_field role ''credentialDomains'' 1 = Inr [])"
    if role: "role \<in> set roles" for role
  proof -
    obtain a b where "role_step t role a = Inr b"
      using roles roles_each [of t roles no_roles r role] role by (auto simp: role_rows_def bnd_eq_Inr split: if_splits)
    then obtain role_id role_kind credentials where id: "nb_id role ''roleId'' = Inr role_id" "enum_field role ''roleClass'' ROLE_CLASSES = Inr role_kind"
        "ids_field role ''credentialDomains'' 1 = Inr credentials" "role_kind = ''D3'' \<or> credentials = []"
      using role_step_facts by blast
    have "channel_known c channel" if "channel \<in> set channels" for channel
      using channels that channels_known by (auto simp: channel_rows_def bnd_eq_Inr)
    then have "list_all (consents role) channels"
      using blocks_consent [OF id(1) role _ _ assms(3,4)] by (simp add: list_all_iff)
    then show ?thesis using id by auto
  qed
  then show ?thesis by (simp add: list_all_iff)
qed

subsection \<open>A deployment with one role and one channel\<close>

definition demo_digest :: string where "demo_digest = replicate 64 CHR ''a''"

definition demo_role :: val where
  "demo_role =
     Map [(''roleId'', Text ''drafter''), (''roleClass'', Text ''D3''), (''principalId'', Text ''p1''),
       (''artifactId'', Text ''a1''), (''artifactDigest'', Text demo_digest), (''credentialDomains'', Array [Text ''mail'']),
       (''allowedChannelIds'', Array [Text ''c1'']), (''uid'', Unsigned 1000), (''gid'', Unsigned 1000),
       (''supplementaryGroups'', Array []),
       (''namespaces'', Map (map (\<lambda>n. (n, Bool True)) NAMESPACES)), (''mounts'', Array []),
       (''cgroup'', Map [(''pathId'', Text ''g1''), (''memoryMax'', Unsigned 1), (''pidsMax'', Unsigned 1),
          (''cpuMaxMicros'', Unsigned 1), (''ioMaxDigest'', Text demo_digest)]),
       (''rlimits'', Map [(''nofile'', Unsigned 1), (''nproc'', Unsigned 1), (''core'', Unsigned 0), (''fsize'', Unsigned 1),
          (''addressSpace'', Unsigned 1)]),
       (''capabilitiesEmpty'', Bool True), (''dumpable'', Bool False), (''launchSeccompDigest'', Text demo_digest),
       (''steadySeccompDigest'', Text demo_digest), (''landlockDigest'', Text demo_digest),
       (''environmentAllowlist'', Array []), (''inheritedFdSlots'', Array []),
       (''requiredMeasurementFields'', Array (map Text MEASUREMENT_FIELDS))]"

definition demo_channel :: val where
  "demo_channel =
     Map [(''channelId'', Text ''c1''), (''fromEndpoint'', Text ''role:drafter''), (''toEndpoint'', Text ''supervisor:keep''),
       (''socketType'', Text ''seqpacket''), (''direction'', Text ''one-way''), (''maxFrameBytes'', Unsigned 4096),
       (''maxDescriptors'', Unsigned 0), (''peerCredentialPolicy'', Text ''exact-principal''), (''oneShot'', Bool False)]"

definition demo_deployment :: val where
  "demo_deployment = Map [(''roles'', Array [demo_role]), (''channels'', Array [demo_channel])]"

definition demo_artifacts :: artifact_table where
  "demo_artifacts = \<lparr>af_prior = Some ''a1'', af_ids = {''a1''}, af_digests = [(''a1'', demo_digest)], af_kinds = [(''a1'', ''role'')]\<rparr>"

definition demo_channels :: channel_table where
  "demo_channels = \<lparr>cn_prior = Some ''c1'', cn_ids = {''c1''}, cn_endpoints = [(''c1'', ''role:drafter'', ''supervisor:keep'')],
     cn_by_id = [(''c1'', demo_channel)]\<rparr>"

lemmas field_defs =
  nb_field_def nb_id_def nb_identifier_def nb_uint_def nb_bool_def enum_field_def nb_array_field_def nb_array_def ok_or_def
  identifier_text_def str_bytes_def byte_of_char_def is_ascii_alphanumeric_def is_ascii_digit_def nb_exact_keys_def

lemma demo_channel_rows: "channel_rows demo_deployment = Inr ([demo_channel], demo_channels)"
  by (simp add: channel_rows_def demo_deployment_def field_defs channel_step_def demo_channel_def CHANNEL_KEYS_def
      no_channels_def repeats_def refuse_if_def skip_def demo_channels_def)

lemma demo_digest_ok: "nb_digest (Text demo_digest) = Inr demo_digest"
  by (simp add: nb_digest_def demo_digest_def ok_or_def str_bytes_def byte_of_char_def lower_hex_byte_def
      is_ascii_digit_def list_all_iff)

lemma demo_measurements: "sorted_ids (Array (map Text MEASUREMENT_FIELDS)) 128 = Inr MEASUREMENT_FIELDS"
  by (simp add: sorted_ids_def sorted_list_def MEASUREMENT_FIELDS_def field_defs)

lemma demo_keys:
    "nb_exact_keys demo_role ROLE_KEYS = Inr ()"
    "exact_bool_map (Map (map (\<lambda>n. (n, Bool True)) NAMESPACES)) NAMESPACES = Inr ()"
  by (simp_all add: nb_exact_keys_def demo_role_def ROLE_KEYS_def exact_bool_map_def NAMESPACES_def nb_bool_def
      nb_field_def ok_or_def)

lemma demo_role_fields:
  "nb_field demo_role ''namespaces'' = Inr (Map (map (\<lambda>n. (n, Bool True)) NAMESPACES))"
  "nb_field demo_role ''launchSeccompDigest'' = Inr (Text demo_digest)"
  "nb_field demo_role ''steadySeccompDigest'' = Inr (Text demo_digest)"
  "nb_field demo_role ''landlockDigest'' = Inr (Text demo_digest)"
  "nb_field demo_role ''artifactDigest'' = Inr (Text demo_digest)"
  "nb_field demo_role ''requiredMeasurementFields'' = Inr (Array (map Text MEASUREMENT_FIELDS))"
  by (simp_all add: demo_role_def nb_field_def ok_or_def)

lemma demo_role_ids:
  "ids_field demo_role ''allowedChannelIds'' 128 = Inr [''c1'']" "ids_field demo_role ''credentialDomains'' 1 = Inr [''mail'']"
  "ids_field demo_role ''environmentAllowlist'' 64 = Inr []"
  "ids_field demo_role ''requiredMeasurementFields'' 128 = Inr MEASUREMENT_FIELDS"
  using demo_measurements
  by (simp_all add: ids_field_def demo_role_fields) (simp_all add: demo_role_def sorted_ids_def sorted_list_def field_defs)

lemma demo_role_plain:
  "nb_id demo_role ''roleId'' = Inr ''drafter''" "nb_id demo_role ''principalId'' = Inr ''p1''"
  "nb_id demo_role ''artifactId'' = Inr ''a1''" "enum_field demo_role ''roleClass'' ROLE_CLASSES = Inr ''D3''"
  "nb_uint demo_role ''uid'' = Inr 1000" "nb_uint demo_role ''gid'' = Inr 1000"
  "nb_bool demo_role ''capabilitiesEmpty'' = Inr True" "nb_bool demo_role ''dumpable'' = Inr False"
  "nb_array_field demo_role ''mounts'' 128 = Inr []" "nb_array_field demo_role ''supplementaryGroups'' 32 = Inr []"
  "nb_array_field demo_role ''inheritedFdSlots'' 64 = Inr []"
  by (simp_all add: demo_role_def field_defs ROLE_CLASSES_def)

lemma demo_role_maps:
  "role_cgroup demo_role = Inr ()"
  "bnd (nb_field demo_role ''rlimits'') (\<lambda>f. exact_uint_map f [''nofile'', ''nproc'', ''core'', ''fsize'', ''addressSpace'']) = Inr ()"
  using demo_digest_ok
  by (simp_all add: role_cgroup_def demo_role_def exact_uint_map_def field_defs nb_digest_field_def skip_def)

lemma demo_role_step: "\<exists>u. role_step demo_artifacts demo_role no_roles = Inr u"
  by (simp add: role_step_def demo_keys demo_role_plain demo_role_ids no_roles_def repeats_def demo_artifacts_def
      nb_digest_field_def demo_role_fields demo_digest_ok role_confinement_def unsigned_rows_def demo_role_maps
      holds_def refuse_if_def skip_def demo_role_ids(2) [unfolded One_nat_def])

lemma demo_role_rows: "\<exists>r. role_rows demo_deployment demo_artifacts = Inr ([demo_role], r)"
  using demo_role_step by (auto simp: role_rows_def demo_deployment_def nb_array_field_def nb_field_def nb_array_def ok_or_def)

lemma demo_permissions:
  "for_all (allowed_channels demo_channels) [demo_role] = Inr ()"
  "for_all (channel_owner [demo_role] {}) [demo_channel] = Inr ()"
proof -
  have channel: "nb_id demo_channel ''channelId'' = Inr ''c1''" "nb_id demo_channel ''fromEndpoint'' = Inr ''role:drafter''"
      "nb_id demo_channel ''toEndpoint'' = Inr ''supervisor:keep''"
    by (simp_all add: demo_channel_def field_defs)
  show "for_all (allowed_channels demo_channels) [demo_role] = Inr ()"
    by (simp add: allowed_channels_def demo_role_ids allowed_channel_def demo_role_plain demo_channels_def role_endpoint_def
        refuse_if_def)
  show "for_all (channel_owner [demo_role] {}) [demo_channel] = Inr ()"
    by (simp add: channel_owner_def channel id_or_empty_def demo_role_plain role_endpoint_def participant_def
        demo_role_ids refuse_if_def)
qed

theorem channel_consent_is_mutual_witness:
  "consents demo_role demo_channel \<and> ids_field demo_role ''credentialDomains'' 1 \<noteq> Inr []
    \<and> enum_field demo_role ''roleClass'' ROLE_CLASSES = Inr ''D3''"
proof -
  obtain r where "role_rows demo_deployment demo_artifacts = Inr ([demo_role], r)" using demo_role_rows by blast
  from channel_consent_is_mutual [OF this demo_channel_rows demo_permissions] show ?thesis
    using demo_role_ids(2) by auto
qed

end
