(* ===== verification/Handoff.thy ===== *)
theory Handoff
  imports Decimal_Forms
begin

section \<open>The post-jailer handoff\<close>

text \<open>
  \<open>validate_jailer_handoff\<close> of \<open>prober-vmm-shim/src/lib.rs\<close>: the closed argument contract under which the
  shim continues as the VMM. It is shown to accept exactly one shape of argument vector per mode.
\<close>

definition ACTUAL_VMM_PATH :: string where "ACTUAL_VMM_PATH = ''/firecracker-vmm''"
definition CONFIG_PATH :: string where "CONFIG_PATH = ''/config.json''"
definition SECCOMP_FILTER_PATH :: string where "SECCOMP_FILTER_PATH = ''/seccomp.bpf''"
definition PROJECT_PATH :: string where "PROJECT_PATH = ''/project.ext4''"
definition KVM_PATH :: string where "KVM_PATH = ''/dev/kvm''"
definition DENIED_CANARY_PATH :: string where "DENIED_CANARY_PATH = ''/landlock-denied-canary''"
definition CREATED_CANARY_PATH :: string where "CREATED_CANARY_PATH = ''/landlock-created-canary''"
definition MARKER_PREFIX :: string where "MARKER_PREFIX = ''[keep-prober-landlock]''"
definition SECCOMP_MARKER_PREFIX :: string where "SECCOMP_MARKER_PREFIX = ''[keep-prober-seccomp]''"
definition SECCOMP_CANARY_ARGUMENT :: string where "SECCOMP_CANARY_ARGUMENT = ''--keep-seccomp-canary''"

datatype handoff_mode = Exec | SeccompCanary

definition decimal_text :: "string \<Rightarrow> bool" where
  "decimal_text value \<longleftrightarrow> value \<noteq> [] \<and> list_all is_ascii_digit (str_bytes value)"

definition is_ascii_hexdigit :: "u8 \<Rightarrow> bool" where
  "is_ascii_hexdigit b \<longleftrightarrow> is_ascii_digit b \<or> (0x41 \<le> b \<and> b \<le> 0x46) \<or> (0x61 \<le> b \<and> b \<le> 0x66)"

definition is_ascii_uppercase :: "u8 \<Rightarrow> bool" where
  "is_ascii_uppercase b \<longleftrightarrow> 0x41 \<le> b \<and> b \<le> 0x5a"

definition attempt_id :: "string \<Rightarrow> bool" where
  "attempt_id value \<longleftrightarrow>
     length value = 37 \<and> starts_with value ''keep-''
     \<and> list_all (\<lambda>b. is_ascii_hexdigit b \<and> \<not> is_ascii_uppercase b) (str_bytes (drop 5 value))"

definition REFUSED :: string where "REFUSED = ''post-jailer VMM argument contract refused''"

definition validate_jailer_handoff :: "string list \<Rightarrow> (string, handoff_mode) res" where
  "validate_jailer_handoff arguments =
     bnd (if length arguments = 13 then Inr Exec
          else if length arguments = 14 \<and> arguments ! 13 = SECCOMP_CANARY_ARGUMENT then Inr SeccompCanary
          else Inl REFUSED) (\<lambda>mode.
     if length arguments < 13 \<or> arguments ! 0 \<noteq> ''--id'' \<or> \<not> attempt_id (arguments ! 1)
        \<or> arguments ! 2 \<noteq> ''--start-time-us'' \<or> \<not> decimal_text (arguments ! 3)
        \<or> arguments ! 4 \<noteq> ''--start-time-cpu-us'' \<or> \<not> decimal_text (arguments ! 5)
        \<or> arguments ! 6 \<noteq> ''--parent-cpu-time-us'' \<or> \<not> decimal_text (arguments ! 7)
        \<or> arguments ! 8 \<noteq> ''--no-api'' \<or> arguments ! 9 \<noteq> ''--config-file'' \<or> arguments ! 10 \<noteq> CONFIG_PATH
        \<or> arguments ! 11 \<noteq> ''--seccomp-filter'' \<or> arguments ! 12 \<noteq> SECCOMP_FILTER_PATH
     then Inl REFUSED else Inr mode)"

text \<open>The argument vector of a handoff, and that nothing else is accepted.\<close>

definition handoff_arguments :: "string \<Rightarrow> string \<Rightarrow> string \<Rightarrow> string \<Rightarrow> string list" where
  "handoff_arguments identity start cpu parent =
     [''--id'', identity, ''--start-time-us'', start, ''--start-time-cpu-us'', cpu, ''--parent-cpu-time-us'', parent,
      ''--no-api'', ''--config-file'', CONFIG_PATH, ''--seccomp-filter'', SECCOMP_FILTER_PATH]"

lemma attempt_id_form:
  "attempt_id value \<longleftrightarrow> (\<exists>h. value = ''keep-'' @ h \<and> length h = 32 \<and> list_all lower_hex_byte (str_bytes h))"
proof -
  have byte: "is_ascii_hexdigit b \<and> \<not> is_ascii_uppercase b \<longleftrightarrow> lower_hex_byte b" for b
    by (auto simp: is_ascii_hexdigit_def is_ascii_uppercase_def lower_hex_byte_def is_ascii_digit_def word_le_nat_alt)
  have five: "starts_with value ''keep-'' \<longleftrightarrow> take 5 value = ''keep-''" by (simp add: starts_with_def numeral_eq_Suc)
  have "attempt_id value \<longleftrightarrow> length value = 37 \<and> take 5 value = ''keep-'' \<and> list_all lower_hex_byte (str_bytes (drop 5 value))"
    by (simp add: attempt_id_def byte five)
  moreover have "length value = 37 \<and> take 5 value = ''keep-'' \<and> list_all lower_hex_byte (str_bytes (drop 5 value)) \<longleftrightarrow> (\<exists>h. value = ''keep-'' @ h \<and> length h = 32 \<and> list_all lower_hex_byte (str_bytes h))"
  proof
    assume *: "length value = 37 \<and> take 5 value = ''keep-'' \<and> list_all lower_hex_byte (str_bytes (drop 5 value))"
    then have "value = ''keep-'' @ drop 5 value" using append_take_drop_id [of 5 "value"] by simp
    then show "\<exists>h. value = ''keep-'' @ h \<and> length h = 32 \<and> list_all lower_hex_byte (str_bytes h)"
      using * by (intro exI [of _ "drop 5 value"]) simp
  qed (auto simp: numeral_eq_Suc)
  ultimately show ?thesis by blast
qed

lemma list_13:
  assumes "length xs = 13"
  shows "xs = [xs ! 0, xs ! 1, xs ! 2, xs ! 3, xs ! 4, xs ! 5, xs ! 6, xs ! 7, xs ! 8, xs ! 9, xs ! 10, xs ! 11, xs ! 12]"
  using assms by (simp add: list_eq_iff_nth_eq less_Suc_eq numeral_eq_Suc)

lemma handoff_exact:
  "validate_jailer_handoff arguments = Inr mode \<longleftrightarrow>
     (\<exists>identity start cpu parent. attempt_id identity \<and> decimal_text start \<and> decimal_text cpu \<and> decimal_text parent
        \<and> arguments = handoff_arguments identity start cpu parent
            @ (case mode of Exec \<Rightarrow> [] | SeccompCanary \<Rightarrow> [SECCOMP_CANARY_ARGUMENT]))"
proof
  assume ok: "validate_jailer_handoff arguments = Inr mode"
  define xs where "xs = take 13 arguments"
  have shape: "length arguments = 13 \<and> mode = Exec \<or>
      length arguments = 14 \<and> arguments ! 13 = SECCOMP_CANARY_ARGUMENT \<and> mode = SeccompCanary"
    and slots: "arguments ! 0 = ''--id''" "attempt_id (arguments ! 1)" "arguments ! 2 = ''--start-time-us''"
      "decimal_text (arguments ! 3)" "arguments ! 4 = ''--start-time-cpu-us''" "decimal_text (arguments ! 5)"
      "arguments ! 6 = ''--parent-cpu-time-us''" "decimal_text (arguments ! 7)" "arguments ! 8 = ''--no-api''"
      "arguments ! 9 = ''--config-file''" "arguments ! 10 = CONFIG_PATH" "arguments ! 11 = ''--seccomp-filter''"
      "arguments ! 12 = SECCOMP_FILTER_PATH"
    using ok by (auto simp: validate_jailer_handoff_def bnd_eq_Inr split: if_splits)
  have "length xs = 13" using shape by (auto simp: xs_def)
  moreover have "xs ! k = arguments ! k" if "k < 13" for k using that by (simp add: xs_def)
  ultimately have "xs = handoff_arguments (arguments ! 1) (arguments ! 3) (arguments ! 5) (arguments ! 7)"
    using list_13 [of xs] slots by (simp add: handoff_arguments_def)
  moreover have "arguments = xs @ (case mode of Exec \<Rightarrow> [] | SeccompCanary \<Rightarrow> [SECCOMP_CANARY_ARGUMENT])"
    using shape take_Suc_conv_app_nth [of 13 arguments] by (auto simp: xs_def)
  ultimately show "\<exists>identity start cpu parent. attempt_id identity \<and> decimal_text start \<and> decimal_text cpu \<and> decimal_text parent
      \<and> arguments = handoff_arguments identity start cpu parent
          @ (case mode of Exec \<Rightarrow> [] | SeccompCanary \<Rightarrow> [SECCOMP_CANARY_ARGUMENT])"
    using slots by metis
next
  assume "\<exists>identity start cpu parent. attempt_id identity \<and> decimal_text start \<and> decimal_text cpu \<and> decimal_text parent
      \<and> arguments = handoff_arguments identity start cpu parent
          @ (case mode of Exec \<Rightarrow> [] | SeccompCanary \<Rightarrow> [SECCOMP_CANARY_ARGUMENT])"
  then show "validate_jailer_handoff arguments = Inr mode"
    by (cases mode) (auto simp: validate_jailer_handoff_def handoff_arguments_def)
qed

end
