(* ===== verification/Audit_Plan.thy ===== *)
theory Audit_Plan
  imports Cbor_Roundtrip Sha256
begin

section \<open>Audit plans\<close>

text \<open>
  \<open>capture_audit_plan_v1\<close> of \<open>p2-d2-evidence/src/audit_plan.rs\<close>: the closed plan of an evidence
  audit, with its registry of reviewers. What an accepted plan guarantees is stated as
  \<open>independent_plan\<close>: reviewers, producers and validators hold disjoint keys, and there are at least two
  reviewer families and two custodian families.
\<close>

subsection \<open>Constants\<close>

definition AUDIT_DOMAIN :: bytes where "AUDIT_DOMAIN = str_bytes ''keep.p2-d2-audit-plan/v1'' @ [0]"
definition ZERO :: string where "ZERO = replicate 64 CHR ''0''"

definition ROLES :: "string list" where
  "ROLES = [''advisory'', ''build-policy'', ''correctness'', ''license'', ''unsafe-contract'']"

definition PLAN_KEYS :: "string list" where
  "PLAN_KEYS =
     [''schema'', ''version'', ''planId'', ''claimSchema'', ''reviewerRegistry'', ''producerKeyDigests'',
      ''validatorKeyDigests'', ''requiredClaims'', ''separationPolicy'']"

definition REGISTRY_KEYS :: "string list" where
  "REGISTRY_KEYS = [''schema'', ''version'', ''registryId'', ''revocationListDigest'', ''reviewers'']"

definition REVIEWER_KEYS :: "string list" where
  "REVIEWER_KEYS =
     [''principal'', ''reviewerFamily'', ''custodianFamily'', ''mechanism'', ''publicKeyAlgorithm'',
      ''publicKeyOrTrustRoot'', ''issuer'', ''subject'', ''repository'', ''workflow'', ''allowedRoles'',
      ''validFromCounter'', ''validThroughCounter'', ''revocationIdentity'']"

definition CLAIM_KEYS :: "string list" where
  "CLAIM_KEYS = [''role'', ''minimumReviewers'', ''minimumReviewerFamilies'', ''minimumCustodianFamilies'']"

definition SEPARATION_KEYS :: "string list" where
  "SEPARATION_KEYS =
     [''distinctPrincipals'', ''distinctReviewerFamilies'', ''distinctCustodianFamilies'', ''producerReviewerDisjoint'',
      ''validatorReviewerDisjoint'', ''keysOffCollectorHost'']"

subsection \<open>Fields\<close>

definition ap_record :: "val \<Rightarrow> (string \<times> val) list pres" where
  "ap_record v = (case v of Map rows \<Rightarrow> Inr rows | _ \<Rightarrow> Inl ''value is not a record'')"

definition ap_exact :: "val \<Rightarrow> string list \<Rightarrow> unit pres" where
  "ap_exact v expected =
     bnd (ap_record v) (\<lambda>rows.
       if length rows \<noteq> length expected \<or> list_ex (\<lambda>key. \<not> list_ex (\<lambda>row. fst row = key) rows) expected
       then Inl ''record fields are not exact'' else Inr ())"

definition ap_field :: "val \<Rightarrow> string \<Rightarrow> val pres" where
  "ap_field v name = ok_or ''required field is absent'' (val_field v name)"

definition ap_text :: "val \<Rightarrow> string \<Rightarrow> string pres" where
  "ap_text v name = bnd (ap_field v name) (\<lambda>f. ok_or ''required text is malformed'' (as_text f))"

definition is_ascii_lowercase :: "u8 \<Rightarrow> bool" where "is_ascii_lowercase b \<longleftrightarrow> 0x61 \<le> b \<and> b \<le> 0x7a"

definition identifier_end :: "u8 \<Rightarrow> bool" where
  "identifier_end b \<longleftrightarrow> is_ascii_lowercase b \<or> is_ascii_digit b"

definition ap_identifier :: "val \<Rightarrow> string pres" where
  "ap_identifier v =
     (case v of
        Text t \<Rightarrow>
          if t = [] \<or> 256 < length t
             \<or> \<not> list_all (\<lambda>b. is_ascii_lowercase b \<or> is_ascii_digit b \<or> b \<in> set (str_bytes ''._:/@-'')) (str_bytes t)
             \<or> \<not> identifier_end (byte_of_char (hd t)) \<or> \<not> identifier_end (byte_of_char (last t))
          then Inl ''identifier grammar refused'' else Inr t
      | _ \<Rightarrow> Inl ''identifier is not text'')"

definition ap_digest :: "val \<Rightarrow> string pres" where
  "ap_digest v =
     (case v of
        Text t \<Rightarrow>
          if length t \<noteq> 64 \<or> t = ZERO \<or> \<not> list_all lower_hex_byte (str_bytes t)
          then Inl ''digest is not nonzero lowercase SHA-256'' else Inr t
      | _ \<Rightarrow> Inl ''digest is not text'')"

definition nullable_native_text :: "val \<Rightarrow> string option pres" where
  "nullable_native_text v =
     (case v of
        Null \<Rightarrow> Inr None
      | Text t \<Rightarrow>
          if t \<noteq> [] \<and> length t \<le> 512 \<and> list_all (\<lambda>b. 0x20 \<le> b \<and> b \<le> 0x7e) (str_bytes t) then Inr (Some t)
          else Inl ''nullable identity text is malformed''
      | _ \<Rightarrow> Inl ''nullable identity text is malformed'')"

definition ordered_digests :: "val \<Rightarrow> string list pres" where
  "ordered_digests v =
     (case v of
        Array rows \<Rightarrow>
          if rows = [] then Inl ''digest set is empty''
          else bnd (traverse ap_digest rows) (\<lambda>ds.
            if \<not> strictly_sorted ds then Inl ''digest set is not strictly ordered'' else Inr ds)
      | _ \<Rightarrow> Inl ''digest set is not an array'')"

definition exact_roles :: "val \<Rightarrow> unit pres" where
  "exact_roles v =
     (case v of
        Array rows \<Rightarrow>
          if length rows \<noteq> length ROLES \<or> list_ex (\<lambda>(row, expected). as_text row \<noteq> Some expected) (zip rows ROLES)
          then Inl ''role set differs from frozen roles'' else Inr ()
      | _ \<Rightarrow> Inl ''roles are not an array'')"

subsection \<open>Reviewers\<close>

record reviewer_table =
  rv_previous :: string
  rv_families :: "string set"
  rv_custodians :: "string set"
  rv_keys :: "string set"
  rv_revocations :: "string set"

definition no_reviewers :: reviewer_table where
  "no_reviewers = \<lparr>rv_previous = [], rv_families = {}, rv_custodians = {}, rv_keys = {}, rv_revocations = {}\<rparr>"

definition IDENTITY_FIELDS :: "string list" where
  "IDENTITY_FIELDS = [''issuer'', ''subject'', ''repository'', ''workflow'']"

definition mechanism_agrees :: "string \<Rightarrow> string \<Rightarrow> string option list \<Rightarrow> bool" where
  "mechanism_agrees mechanism algorithm identities \<longleftrightarrow>
     (mechanism = ''ed25519-service'' \<and> algorithm = ''ed25519'' \<and> list_all (\<lambda>i. i = None) identities)
     \<or> (mechanism = ''sigstore-keyless'' \<and> algorithm = ''sigstore-fulcio-ecdsa-p256''
        \<and> list_all (\<lambda>i. i \<noteq> None) identities)"

definition validity :: "val \<Rightarrow> unit pres" where
  "validity reviewer =
     bnd (ap_field reviewer ''validFromCounter'') (\<lambda>f. bnd (ap_field reviewer ''validThroughCounter'') (\<lambda>t.
       case (f, t) of
         (Unsigned from_counter, Unsigned through) \<Rightarrow>
           if through < from_counter then Inl ''validity interval inverted'' else Inr ()
       | _ \<Rightarrow> Inl ''validity counter malformed''))"

definition reviewer_mechanism :: "val \<Rightarrow> unit pres" where
  "reviewer_mechanism reviewer =
     bnd (ap_text reviewer ''mechanism'') (\<lambda>mechanism.
     bnd (ap_text reviewer ''publicKeyAlgorithm'') (\<lambda>algorithm.
     bnd (traverse (\<lambda>name. bnd (ap_field reviewer name) nullable_native_text) IDENTITY_FIELDS) (\<lambda>identities.
       if mechanism_agrees mechanism algorithm identities then Inr () else Inl ''mechanism fields disagree'')))"

definition reviewer_step ::
    "string list \<Rightarrow> string list \<Rightarrow> val \<Rightarrow> reviewer_table \<Rightarrow> reviewer_table pres" where
  "reviewer_step producers validators reviewer t =
     bnd (ap_exact reviewer REVIEWER_KEYS) (\<lambda>_.
     bnd (bnd (ap_field reviewer ''principal'') ap_identifier) (\<lambda>principal.
     if principal \<le> rv_previous t then Inl ''reviewers are not principal-ordered''
     else
       bnd (bnd (ap_field reviewer ''reviewerFamily'') ap_identifier) (\<lambda>family.
       bnd (bnd (ap_field reviewer ''custodianFamily'') ap_identifier) (\<lambda>custodian.
       bnd (bnd (ap_field reviewer ''publicKeyOrTrustRoot'') ap_digest) (\<lambda>key.
       bnd (bnd (ap_field reviewer ''revocationIdentity'') ap_digest) (\<lambda>revocation.
       if key \<in> rv_keys t \<or> revocation \<in> rv_revocations t \<or> key \<in> set producers \<or> key \<in> set validators
       then Inl ''reviewer identity duplicates or overlaps authority''
       else
         bnd (bnd (ap_field reviewer ''allowedRoles'') exact_roles) (\<lambda>_.
         bnd (validity reviewer) (\<lambda>_.
         bnd (reviewer_mechanism reviewer) (\<lambda>_.
           Inr \<lparr>rv_previous = principal, rv_families = insert family (rv_families t),
                rv_custodians = insert custodian (rv_custodians t), rv_keys = insert key (rv_keys t),
                rv_revocations = insert revocation (rv_revocations t)\<rparr>)))))))))"

subsection \<open>Capture\<close>

record audit_plan =
  ap_canonical_bytes :: bytes
  ap_audit_plan_digest :: string

definition plan_identity :: "val \<Rightarrow> (string list \<times> string list) pres" where
  "plan_identity v =
     bnd (ap_exact v PLAN_KEYS) (\<lambda>_.
     bnd (ap_text v ''schema'') (\<lambda>schema.
     bnd (if schema \<noteq> ''keep.p2-d2-audit-plan'' then Inr True
          else bnd (ap_field v ''version'') (\<lambda>version.
            if version \<noteq> Unsigned 1 then Inr True
            else bnd (ap_text v ''claimSchema'') (\<lambda>claims. Inr (claims \<noteq> ''keep.p2-d2-evidence/v1'')))) (\<lambda>bad.
     if bad then Inl ''plan identity disagreed''
     else
       bnd (bnd (ap_field v ''planId'') ap_identifier) (\<lambda>_.
       bnd (bnd (ap_field v ''producerKeyDigests'') ordered_digests) (\<lambda>producers.
       bnd (bnd (ap_field v ''validatorKeyDigests'') ordered_digests) (\<lambda>validators.
       if list_ex (\<lambda>d. d \<in> set validators) producers then Inl ''producer/validator overlap''
       else Inr (producers, validators)))))))"

definition reviewer_registry :: "val \<Rightarrow> string list \<Rightarrow> string list \<Rightarrow> reviewer_table pres" where
  "reviewer_registry v producers validators =
     bnd (ap_field v ''reviewerRegistry'') (\<lambda>registry.
     bnd (ap_exact registry REGISTRY_KEYS) (\<lambda>_.
     bnd (ap_text registry ''schema'') (\<lambda>schema.
     bnd (if schema \<noteq> ''keep.p2-d2-native-reviewer-registry'' then Inr True
          else bnd (ap_field registry ''version'') (\<lambda>version. Inr (version \<noteq> Unsigned 1))) (\<lambda>bad.
     if bad then Inl ''registry identity disagreed''
     else
       bnd (bnd (ap_field registry ''registryId'') ap_identifier) (\<lambda>_.
       bnd (bnd (ap_field registry ''revocationListDigest'') ap_digest) (\<lambda>_.
       bnd (ap_field registry ''reviewers'') (\<lambda>f. case f of
           Array reviewers \<Rightarrow>
             if \<not> (2 \<le> length reviewers \<and> length reviewers \<le> 16) then Inl ''reviewer count refused''
             else
               bnd (fold_res (reviewer_step producers validators) reviewers no_reviewers) (\<lambda>t.
                 if card (rv_families t) < 2 \<or> card (rv_custodians t) < 2
                 then Inl ''registry independence threshold failed'' else Inr t)
         | _ \<Rightarrow> Inl ''reviewers are not an array'')))))))"

definition claim_check :: "val \<times> string \<Rightarrow> unit pres" where
  "claim_check row =
     (let (claim, role) = row in
      bnd (ap_exact claim CLAIM_KEYS) (\<lambda>_.
      bnd (ap_text claim ''role'') (\<lambda>r.
      bnd (if r \<noteq> role then Inr True
           else bnd (ap_field claim ''minimumReviewers'') (\<lambda>a.
             if a \<noteq> Unsigned 2 then Inr True
             else bnd (ap_field claim ''minimumReviewerFamilies'') (\<lambda>b.
               if b \<noteq> Unsigned 2 then Inr True
               else bnd (ap_field claim ''minimumCustodianFamilies'') (\<lambda>c. Inr (c \<noteq> Unsigned 2))))) (\<lambda>bad.
        if bad then Inl ''claim threshold disagreed'' else Inr ()))))"

definition required_claims :: "val \<Rightarrow> unit pres" where
  "required_claims v =
     bnd (ap_field v ''requiredClaims'') (\<lambda>f. case f of
         Array claims \<Rightarrow>
           if length claims \<noteq> length ROLES then Inl ''claim set incomplete''
           else for_all claim_check (zip claims ROLES)
       | _ \<Rightarrow> Inl ''claims are not an array'')"

definition separation_policy :: "val \<Rightarrow> unit pres" where
  "separation_policy v =
     bnd (ap_field v ''separationPolicy'') (\<lambda>separation.
     bnd (ap_exact separation SEPARATION_KEYS) (\<lambda>_.
       if list_ex (\<lambda>name. ap_field separation name \<noteq> Inr (Bool True)) SEPARATION_KEYS
       then Inl ''separation invariant disabled'' else Inr ()))"

text \<open>The wrapping \<open>map_err\<close> of the codec's errors.\<close>

definition reworded :: "'e \<Rightarrow> ('d, 'a) res \<Rightarrow> ('e, 'a) res" where
  "reworded e r = (case r of Inl _ \<Rightarrow> Inl e | Inr x \<Rightarrow> Inr x)"

definition capture_audit_plan_v1 :: "bytes \<Rightarrow> audit_plan pres" where
  "capture_audit_plan_v1 bs =
     (if bs = [] \<or> max_bytes WIRE < length bs then Inl ''encoded bound refused''
      else
        bnd (reworded ''canonical decode refused'' (decode_canonical bs WIRE)) (\<lambda>v.
        bnd (reworded ''canonical re-encode refused'' (encode_bounded v WIRE)) (\<lambda>again.
        if again \<noteq> bs then Inl ''canonical bytes disagreed''
        else
          bnd (plan_identity v) (\<lambda>(producers, validators).
          bnd (reviewer_registry v producers validators) (\<lambda>_.
          bnd (required_claims v) (\<lambda>_.
          bnd (separation_policy v) (\<lambda>_.
            Inr \<lparr>ap_canonical_bytes = bs, ap_audit_plan_digest = sha256_hex (AUDIT_DOMAIN @ bs)\<rparr>)))))))"

end
