(* ===== verification/Audit_Props.thy ===== *)
theory Audit_Props
  imports Audit_Plan
begin

section \<open>Accepted audit plans are independent\<close>

text \<open>
  What \<open>capture_audit_plan_v1\<close> guarantees of a plan it accepts, read off the decoded value by
  \<open>independent_plan\<close>. The loop over the reviewers is described by the table it has built: after any
  prefix, the table holds exactly the keys, families and custodians of that prefix.
\<close>

subsection \<open>Independence\<close>

definition text_at :: "string \<Rightarrow> val \<Rightarrow> string" where
  "text_at name v = (case val_field v name of Some (Text t) \<Rightarrow> t | _ \<Rightarrow> [])"

definition rows_at :: "string \<Rightarrow> val \<Rightarrow> val list" where
  "rows_at name v = (case val_field v name of Some (Array rows) \<Rightarrow> rows | _ \<Rightarrow> [])"

definition texts_at :: "string \<Rightarrow> val \<Rightarrow> string list" where
  "texts_at name v = map (\<lambda>t. case t of Text t \<Rightarrow> t | _ \<Rightarrow> []) (rows_at name v)"

definition plan_reviewers :: "val \<Rightarrow> val list" where
  "plan_reviewers v = (case val_field v ''reviewerRegistry'' of Some r \<Rightarrow> rows_at ''reviewers'' r | None \<Rightarrow> [])"

text \<open>
  The producers, the validators and the reviewers hold pairwise different keys; the reviewers are
  different principals with different keys and revocation identities, of at least two families and two
  custodian families; and each of them is admitted for the frozen roles.
\<close>

definition independent_plan :: "val \<Rightarrow> bool" where
  "independent_plan v \<longleftrightarrow>
     (let producers = texts_at ''producerKeyDigests'' v; validators = texts_at ''validatorKeyDigests'' v;
          reviewers = plan_reviewers v; keys = map (text_at ''publicKeyOrTrustRoot'') reviewers
      in distinct (producers @ validators @ keys) \<and> producers \<noteq> [] \<and> validators \<noteq> []
         \<and> 2 \<le> length reviewers \<and> length reviewers \<le> 16
         \<and> distinct (map (text_at ''principal'') reviewers) \<and> distinct (map (text_at ''revocationIdentity'') reviewers)
         \<and> 2 \<le> card (set (map (text_at ''reviewerFamily'') reviewers))
         \<and> 2 \<le> card (set (map (text_at ''custodianFamily'') reviewers))
         \<and> list_all (\<lambda>r. texts_at ''allowedRoles'' r = ROLES) reviewers)"

subsection \<open>The reviewers\<close>

lemma ap_identifier_Text: "ap_identifier f = Inr t \<Longrightarrow> f = Text t"
  by (auto simp: ap_identifier_def split: val.splits if_splits)

lemma ap_digest_Text: "ap_digest f = Inr t \<Longrightarrow> f = Text t"
  by (auto simp: ap_digest_def split: val.splits if_splits)

lemma ap_field_iff: "ap_field v name = Inr f \<longleftrightarrow> val_field v name = Some f"
  by (simp add: ap_field_def)

lemma exact_roles_texts:
  assumes "exact_roles f = Inr u"
  shows "\<exists>rows. f = Array rows \<and> map (\<lambda>t. case t of Text t \<Rightarrow> t | _ \<Rightarrow> []) rows = ROLES"
proof -
  obtain rows where rows: "f = Array rows" "length rows = length ROLES"
      "list_all (\<lambda>(row, expected). as_text row = Some expected) (zip rows ROLES)"
    using assms by (auto simp: exact_roles_def list_ex_iff list_all_iff split: val.splits if_splits)
  have "list_all2 (\<lambda>row expected. as_text row = Some expected) rows ROLES"
    using rows(2,3) by (simp add: list_all2_iff list_all_iff)
  then have "map (\<lambda>t. case t of Text t \<Rightarrow> t | _ \<Rightarrow> []) rows = ROLES"
    by (rule list_all2_induct) (auto elim: as_text.elims)
  then show ?thesis using rows(1) by blast
qed

lemma texts_atI: "val_field v name = Some (Array rows) \<Longrightarrow> texts_at name v = map (\<lambda>t. case t of Text t \<Rightarrow> t | _ \<Rightarrow> []) rows"
  by (simp add: texts_at_def rows_at_def)

lemma reviewer_step_next:
  assumes "reviewer_step producers validators r t = Inr u"
  shows "rv_previous t < text_at ''principal'' r" "text_at ''publicKeyOrTrustRoot'' r \<notin> rv_keys t \<union> set producers \<union> set validators"
    "text_at ''revocationIdentity'' r \<notin> rv_revocations t" "texts_at ''allowedRoles'' r = ROLES"
    "u = \<lparr>rv_previous = text_at ''principal'' r, rv_families = insert (text_at ''reviewerFamily'' r) (rv_families t),
          rv_custodians = insert (text_at ''custodianFamily'' r) (rv_custodians t),
          rv_keys = insert (text_at ''publicKeyOrTrustRoot'' r) (rv_keys t),
          rv_revocations = insert (text_at ''revocationIdentity'' r) (rv_revocations t)\<rparr>"
  using assms
  by (auto simp: reviewer_step_def bnd_eq_Inr ap_field_iff text_at_def not_le texts_atI split: if_splits
      dest!: ap_identifier_Text ap_digest_Text exact_roles_texts)

text \<open>The table after a run over \<open>rs\<close>, from any table.\<close>

definition extends_table :: "val list \<Rightarrow> reviewer_table \<Rightarrow> reviewer_table \<Rightarrow> bool" where
  "extends_table rs t u \<longleftrightarrow>
     rv_families u = rv_families t \<union> set (map (text_at ''reviewerFamily'') rs)
     \<and> rv_custodians u = rv_custodians t \<union> set (map (text_at ''custodianFamily'') rs)
     \<and> sorted_wrt (<) (rv_previous t # map (text_at ''principal'') rs)
     \<and> distinct (map (text_at ''publicKeyOrTrustRoot'') rs) \<and> rv_keys t \<inter> set (map (text_at ''publicKeyOrTrustRoot'') rs) = {}
     \<and> distinct (map (text_at ''revocationIdentity'') rs)
     \<and> rv_revocations t \<inter> set (map (text_at ''revocationIdentity'') rs) = {}"

lemma reviewers_run:
  assumes "fold_res (reviewer_step producers validators) rs t = Inr u"
  shows "extends_table rs t u
    \<and> set (map (text_at ''publicKeyOrTrustRoot'') rs) \<inter> (set producers \<union> set validators) = {}
    \<and> list_all (\<lambda>r. texts_at ''allowedRoles'' r = ROLES) rs"
  using assms
proof (induction rs arbitrary: t)
  case (Cons r rs)
  then obtain s where s: "reviewer_step producers validators r t = Inr s"
      "fold_res (reviewer_step producers validators) rs s = Inr u" by (auto simp: bnd_eq_Inr)
  note step = reviewer_step_next [OF s(1)]
  have order: "rv_previous t < text_at ''principal'' x" if "x \<in> set rs" for x
    using Cons.IH [OF s(2)] that step(1,5) by (auto simp: extends_table_def intro: less_trans)
  show ?case
    using Cons.IH [OF s(2)] step order by (auto simp: extends_table_def)
qed (simp add: extends_table_def)

lemma ordered_digests_texts:
  assumes "ordered_digests f = Inr ds"
  shows "f = Array (map Text ds) \<and> ds \<noteq> [] \<and> distinct ds"
proof -
  obtain rows where rows: "f = Array rows" "rows \<noteq> []" "traverse ap_digest rows = Inr ds" "strictly_sorted ds"
    using assms by (auto simp: ordered_digests_def bnd_eq_Inr split: val.splits if_splits)
  have "list_all2 (\<lambda>x y. x = Text y) rows ds"
    using rows(3) by (auto simp: traverse_Inr_iff elim!: list_all2_mono dest: ap_digest_Text)
  then have "rows = map Text ds"
    by (rule list_all2_induct) simp_all
  then show ?thesis using rows strictly_sorted_distinct by auto
qed

lemma plan_identity_blocks:
  assumes "plan_identity v = Inr (producers, validators)"
  shows "\<exists>p q. val_field v ''producerKeyDigests'' = Some p \<and> ordered_digests p = Inr producers
    \<and> val_field v ''validatorKeyDigests'' = Some q \<and> ordered_digests q = Inr validators
    \<and> set producers \<inter> set validators = {}"
proof -
  define bad where "bad schema = (if schema \<noteq> ''keep.p2-d2-audit-plan'' then Inr True
          else bnd (ap_field v ''version'') (\<lambda>version.
            if version \<noteq> Unsigned 1 then Inr True
            else bnd (ap_text v ''claimSchema'') (\<lambda>claims. Inr (claims \<noteq> ''keep.p2-d2-evidence/v1''))))" for schema
  show ?thesis
    using assms unfolding plan_identity_def bad_def [symmetric]
    by (auto simp: bnd_eq_Inr ap_field_iff list_ex_iff split: if_splits)
qed

lemma plan_identity_keys:
  assumes "plan_identity v = Inr (producers, validators)"
  shows "texts_at ''producerKeyDigests'' v = producers" "texts_at ''validatorKeyDigests'' v = validators"
    "distinct (producers @ validators)" "producers \<noteq> []" "validators \<noteq> []"
proof -
  obtain p q where p: "val_field v ''producerKeyDigests'' = Some p" "ordered_digests p = Inr producers"
      and q: "val_field v ''validatorKeyDigests'' = Some q" "ordered_digests q = Inr validators"
      and disjoint: "set producers \<inter> set validators = {}"
    using plan_identity_blocks [OF assms] by blast
  note ds = ordered_digests_texts [OF p(2)] ordered_digests_texts [OF q(2)]
  show "texts_at ''producerKeyDigests'' v = producers" using p(1) ds(1) by (simp add: texts_atI comp_def)
  show "texts_at ''validatorKeyDigests'' v = validators" using q(1) ds(2) by (simp add: texts_atI comp_def)
  show "distinct (producers @ validators)" "producers \<noteq> []" "validators \<noteq> []" using ds disjoint by simp_all
qed

lemma array_or_refusal:
  "(case v of Null \<Rightarrow> Inl m | Bool _ \<Rightarrow> Inl m | Unsigned _ \<Rightarrow> Inl m | Bytes _ \<Rightarrow> Inl m | Text _ \<Rightarrow> Inl m
      | Array rows \<Rightarrow> f rows | Map _ \<Rightarrow> Inl m) = Inr x \<longleftrightarrow> (\<exists>rows. v = Array rows \<and> f rows = Inr x)"
  by (cases v) simp_all

lemma registry_reviewers:
  assumes "reviewer_registry v producers validators = Inr t"
  shows "2 \<le> length (plan_reviewers v)" "length (plan_reviewers v) \<le> 16"
    "fold_res (reviewer_step producers validators) (plan_reviewers v) no_reviewers = Inr t"
    "2 \<le> card (rv_families t)" "2 \<le> card (rv_custodians t)"
proof -
  define bad where "bad schema registry = (if schema \<noteq> ''keep.p2-d2-native-reviewer-registry'' then Inr True
          else bnd (ap_field registry ''version'') (\<lambda>version. Inr (version \<noteq> Unsigned 1)))" for schema registry
  obtain registry reviewers where reg: "val_field v ''reviewerRegistry'' = Some registry"
      "val_field registry ''reviewers'' = Some (Array reviewers)" "2 \<le> length reviewers" "length reviewers \<le> 16"
      "fold_res (reviewer_step producers validators) reviewers no_reviewers = Inr t"
      "2 \<le> card (rv_families t)" "2 \<le> card (rv_custodians t)"
    using assms unfolding reviewer_registry_def bad_def [symmetric]
    by (auto simp: bnd_eq_Inr ap_field_iff array_or_refusal not_less split: if_splits)
  moreover from reg have "plan_reviewers v = reviewers" by (simp add: plan_reviewers_def rows_at_def)
  ultimately show "2 \<le> length (plan_reviewers v)" "length (plan_reviewers v) \<le> 16"
    "fold_res (reviewer_step producers validators) (plan_reviewers v) no_reviewers = Inr t"
    "2 \<le> card (rv_families t)" "2 \<le> card (rv_custodians t)" by simp_all
qed

lemma sorted_wrt_less_distinct: "sorted_wrt (<) xs \<Longrightarrow> distinct xs" for xs :: "'a::linorder list"
  by (simp add: strict_sorted_iff)

lemma blocks_independent:
  assumes "plan_identity v = Inr (producers, validators)" "reviewer_registry v producers validators = Inr t"
  shows "independent_plan v"
proof -
  note keys = plan_identity_keys [OF assms(1)] and reg = registry_reviewers [OF assms(2)]
  have run: "extends_table (plan_reviewers v) no_reviewers t"
      "set (map (text_at ''publicKeyOrTrustRoot'') (plan_reviewers v)) \<inter> (set producers \<union> set validators) = {}"
      "list_all (\<lambda>r. texts_at ''allowedRoles'' r = ROLES) (plan_reviewers v)"
    using reviewers_run [OF reg(3)] by auto
  have "distinct (map (text_at ''principal'') (plan_reviewers v))"
    using run(1) by (intro sorted_wrt_less_distinct) (simp add: extends_table_def)
  then show ?thesis
    using keys reg run by (auto simp: independent_plan_def Let_def extends_table_def no_reviewers_def)
qed

text \<open>
  C30: an accepted audit plan is independent: its producers, its validators and its reviewers hold pairwise
  different keys, its reviewers (2 to 16) are different principals of at least two reviewer families and
  two custodian families, each admitted for the five frozen roles. Its digest is the domain-separated
  SHA-256 of the bytes it was read from.
\<close>

theorem audit_plan_independent:
  assumes "capture_audit_plan_v1 bs = Inr plan"
  shows "\<exists>v. decode_canonical bs WIRE = Inr v \<and> independent_plan v \<and> ap_canonical_bytes plan = bs
    \<and> ap_audit_plan_digest plan = sha256_hex (AUDIT_DOMAIN @ bs)"
proof -
  obtain v producers validators t where "decode_canonical bs WIRE = Inr v" "plan_identity v = Inr (producers, validators)"
      "reviewer_registry v producers validators = Inr t"
      "plan = \<lparr>ap_canonical_bytes = bs, ap_audit_plan_digest = sha256_hex (AUDIT_DOMAIN @ bs)\<rparr>"
    using assms
    by (auto simp: capture_audit_plan_v1_def bnd_eq_Inr reworded_def split: if_splits prod.splits sum.splits)
  then show ?thesis using blocks_independent by auto
qed

subsection \<open>A plan with two reviewers\<close>

definition demo_reviewer :: "string \<Rightarrow> string \<Rightarrow> string \<Rightarrow> char \<Rightarrow> val" where
  "demo_reviewer who family custodian k =
     Map [(''issuer'', Null),
       (''subject'', Null),
       (''workflow'', Null),
       (''mechanism'', Text ''ed25519-service''),
       (''principal'', Text who),
       (''repository'', Null),
       (''allowedRoles'', Array (map Text ROLES)),
       (''reviewerFamily'', Text family),
       (''custodianFamily'', Text custodian),
       (''validFromCounter'', Unsigned 1),
       (''publicKeyAlgorithm'', Text ''ed25519''),
       (''revocationIdentity'', Text (replicate 64 k)),
       (''validThroughCounter'', Unsigned 9),
       (''publicKeyOrTrustRoot'', Text (replicate 64 k))]"

definition demo_claim :: "string \<Rightarrow> val" where
  "demo_claim role =
     Map [(''role'', Text role),
       (''minimumReviewers'', Unsigned 2),
       (''minimumReviewerFamilies'', Unsigned 2),
       (''minimumCustodianFamilies'', Unsigned 2)]"

definition demo_registry :: val where
  "demo_registry =
     Map [(''schema'', Text ''keep.p2-d2-native-reviewer-registry''),
       (''version'', Unsigned 1),
       (''reviewers'', Array [demo_reviewer ''r1'' ''f1'' ''c1'' CHR ''3'', demo_reviewer ''r2'' ''f2'' ''c2'' CHR ''4'']),
       (''registryId'', Text ''registry-1''),
       (''revocationListDigest'', Text (replicate 64 CHR ''e''))]"

definition demo_separation :: val where
  "demo_separation =
     Map [(''distinctPrincipals'', Bool True),
       (''keysOffCollectorHost'', Bool True),
       (''distinctReviewerFamilies'', Bool True),
       (''producerReviewerDisjoint'', Bool True),
       (''distinctCustodianFamilies'', Bool True),
       (''validatorReviewerDisjoint'', Bool True)]"

definition demo_plan :: val where
  "demo_plan =
     Map [(''planId'', Text ''plan-1''),
       (''schema'', Text ''keep.p2-d2-audit-plan''),
       (''version'', Unsigned 1),
       (''claimSchema'', Text ''keep.p2-d2-evidence/v1''),
       (''requiredClaims'', Array (map demo_claim ROLES)),
       (''reviewerRegistry'', demo_registry),
       (''separationPolicy'', demo_separation),
       (''producerKeyDigests'', Array [Text (replicate 64 CHR ''1'')]),
       (''validatorKeyDigests'', Array [Text (replicate 64 CHR ''2'')])]"


lemmas demo_plan_defs = demo_plan_def demo_registry_def demo_separation_def demo_claim_def demo_reviewer_def ROLES_def

lemma demo_plan_canon: "canon demo_plan = demo_plan"
  by (simp add: demo_plan_defs codec_eval)

lemma demo_plan_text: "str_bytes (replicate n c) = replicate n (byte_of_char c)"
  by (simp add: str_bytes_def)

lemma demo_plan_encodes: "encode_bounded demo_plan WIRE = Inr (enc demo_plan)"
  unfolding encode_bounded_iff [OF usize_limits_profiles(1)]
  by (simp add: demo_plan_defs codec_eval demo_plan_text byte_of_char_Char list_all_iff)

lemma list_all_replicate: "list_all P (replicate n x) \<longleftrightarrow> n = 0 \<or> P x"
  by (auto simp: list_all_iff)

lemma demo_identifiers:
    "list_all (\<lambda>t. ap_identifier (Text t) = Inr t) [''plan-1'', ''registry-1'', ''r1'', ''r2'', ''f1'', ''f2'', ''c1'', ''c2'']"
  by (simp add: ap_identifier_def str_bytes_def is_ascii_lowercase_def is_ascii_digit_def identifier_end_def byte_of_char_Char)

lemma demo_digests_hex:
    "list_all (\<lambda>c. ap_digest (Text (replicate 64 c)) = Inr (replicate 64 c)) [CHR ''1'', CHR ''2'', CHR ''3'', CHR ''4'', CHR ''e'']"
  by (simp add: ap_digest_def demo_plan_text lower_hex_byte_def is_ascii_digit_def byte_of_char_Char ZERO_def replicate_eq_replicate list_all_replicate)

lemmas demo_forms_ok = demo_identifiers [unfolded list.pred_inject] demo_digests_hex [unfolded list.pred_inject]

lemma demo_roles: "exact_roles (Array (map Text ROLES)) = Inr ()"
  by (simp add: exact_roles_def ROLES_def)

lemma ap_exact_Map: "ap_exact (Map rows) expected = (if length rows \<noteq> length expected \<or> \<not> set expected \<subseteq> set (map fst rows)
    then Inl ''record fields are not exact'' else Inr ())"
  by (auto simp: ap_exact_def ap_record_def list_ex_iff)

lemma demo_reviewer_step:
  assumes "rv_previous t < who" "list_all (\<lambda>x. ap_identifier (Text x) = Inr x) [who, family, custodian]"
    "ap_digest (Text (replicate 64 k)) = Inr (replicate 64 k)"
    "replicate 64 k \<notin> rv_keys t" "replicate 64 k \<notin> rv_revocations t" "replicate 64 k \<notin> set (producers @ validators)"
  shows "reviewer_step producers validators (demo_reviewer who family custodian k) t =
    Inr \<lparr>rv_previous = who, rv_families = insert family (rv_families t), rv_custodians = insert custodian (rv_custodians t),
         rv_keys = insert (replicate 64 k) (rv_keys t), rv_revocations = insert (replicate 64 k) (rv_revocations t)\<rparr>"
  using assms
  by (simp add: reviewer_step_def ap_exact_Map REVIEWER_KEYS_def demo_reviewer_def ap_field_def demo_roles validity_def
      reviewer_mechanism_def ap_text_def IDENTITY_FIELDS_def nullable_native_text_def mechanism_agrees_def not_le)

lemma demo_registry_accepted:
  "\<exists>t. reviewer_registry demo_plan [replicate 64 CHR ''1''] [replicate 64 CHR ''2''] = Inr t"
  by (simp add: reviewer_registry_def demo_plan_def demo_registry_def ap_field_def ap_exact_Map REGISTRY_KEYS_def ap_text_def
      demo_forms_ok demo_reviewer_step no_reviewers_def replicate_eq_replicate less_char_def)

lemma demo_plan_identity: "plan_identity demo_plan = Inr ([replicate 64 CHR ''1''], [replicate 64 CHR ''2''])"
  by (simp add: plan_identity_def demo_plan_def ap_field_def ap_exact_Map PLAN_KEYS_def ap_text_def ordered_digests_def
      demo_forms_ok replicate_eq_replicate)

lemma demo_plan_claims: "required_claims demo_plan = Inr ()"
  by (simp add: required_claims_def demo_plan_def ap_field_def ROLES_def claim_check_def demo_claim_def ap_exact_Map
      CLAIM_KEYS_def ap_text_def)

lemma demo_plan_separation: "separation_policy demo_plan = Inr ()"
  by (simp add: separation_policy_def demo_plan_def demo_separation_def ap_field_def ap_exact_Map SEPARATION_KEYS_def)

lemma demo_plan_captured:
  "capture_audit_plan_v1 (enc demo_plan)
     = Inr \<lparr>ap_canonical_bytes = enc demo_plan, ap_audit_plan_digest = sha256_hex (AUDIT_DOMAIN @ enc demo_plan)\<rparr>"
proof -
  have "decode_canonical (enc demo_plan) WIRE = Inr demo_plan"
    using demo_plan_canon demo_plan_encodes by (simp add: decode_canonical_iff [OF usize_limits_profiles(1)])
  moreover have "enc demo_plan \<noteq> []" "length (enc demo_plan) \<le> max_bytes WIRE"
    using demo_plan_encodes by (simp_all add: encode_bounded_iff [OF usize_limits_profiles(1)] enc_nonempty)
  ultimately show ?thesis
    using demo_registry_accepted demo_plan_identity demo_plan_claims demo_plan_separation demo_plan_encodes
    by (auto simp: capture_audit_plan_v1_def reworded_def)
qed

theorem audit_plan_independent_witness: "\<exists>v. decode_canonical (enc demo_plan) WIRE = Inr v \<and> independent_plan v"
  using audit_plan_independent [OF demo_plan_captured] by blast

end
