(* ===== verification/Patch_Inputs.thy ===== *)
theory Patch_Inputs
  imports Archive_Capture Overlay Sealed_Files
begin

section \<open>Acquiring the inputs of a patch\<close>

text \<open>
  \<open>p2-d2-supervisor/src/lib.rs\<close>: the overlay, the byte carriers and the source rows of a patch are read
  below one pinned root, checked against the digests of the request and against each other, and
  sent back as a stream of length-prefixed frames that ends with the digest of all preceding bytes.
  The source is an archive or a directory tree; a directory is listed before and after its files are read.
\<close>

subsection \<open>Actions with fuel\<close>

text \<open>An action that may run out of fuel (the inventory of a directory, which reads entries until the
  kernel has no more).\<close>

type_synonym ('s, 'a) fueled = "'s \<Rightarrow> ((capture_error, 'a) res \<times> 's) option"

definition fu_do :: "('s, capture_error, 'a) action \<Rightarrow> ('s, 'a) fueled" where "fu_do m = (\<lambda>s. Some (m s))"

definition fu_bind :: "('s, 'a) fueled \<Rightarrow> ('a \<Rightarrow> ('s, 'b) fueled) \<Rightarrow> ('s, 'b) fueled" where
  "fu_bind m f = (\<lambda>s. case m s of None \<Rightarrow> None | Some (Inl e, t) \<Rightarrow> Some (Inl e, t) | Some (Inr x, t) \<Rightarrow> f x t)"

fun fu_fold :: "('a \<Rightarrow> 'b \<Rightarrow> ('s, 'b) fueled) \<Rightarrow> 'a list \<Rightarrow> 'b \<Rightarrow> ('s, 'b) fueled" where
  "fu_fold f [] b = fu_do (io_ret b)"
| "fu_fold f (x # xs) b = fu_bind (f x b) (fu_fold f xs)"

lemma fu_fold_cong [fundef_cong]:
  assumes "xs = ys" "b = c" "\<And>x b. x \<in> set ys \<Longrightarrow> f x b = g x b"
  shows "fu_fold f xs b = fu_fold g ys c"
proof -
  have "fu_fold f zs = fu_fold g zs" if "set zs \<subseteq> set ys" for zs
    using that
  proof (induction zs)
    case (Cons z zs)
    then have "fu_fold f zs = fu_fold g zs" by simp
    moreover have "f z = g z" using Cons.prems assms(3) by (intro ext) simp
    ultimately show ?case by (intro ext) simp
  qed (simp add: fun_eq_iff)
  then show ?thesis using assms(1,2) by simp
qed

lemma fu_bind_Inr [io_simps]:
  "fu_bind m f s = Some (Inr y, u) \<longleftrightarrow> (\<exists>x t. m s = Some (Inr x, t) \<and> f x t = Some (Inr y, u))"
  by (auto simp: fu_bind_def split: option.splits prod.splits sum.splits)

lemma fu_do_Inr [io_simps]: "fu_do m s = Some (Inr y, t) \<longleftrightarrow> m s = (Inr y, t)"
  by (simp add: fu_do_def)

subsection \<open>Failures\<close>

definition capture_io :: "io_error \<Rightarrow> capture_error" where
  "capture_io e =
     (case capture_failure_from_io e of
        Some Path_Refused \<Rightarrow> Path
      | Some Type_Refused \<Rightarrow> Type
      | Some Limit_Reached \<Rightarrow> Limit
      | Some Race_Seen \<Rightarrow> Race
      | Some Unsupported_Here \<Rightarrow> Unsupported
      | None \<Rightarrow> Io)"

definition with_failures :: "('s, 'a) io \<Rightarrow> ('s, 'a) fueled" where
  "with_failures m = fu_do (io_map_err capture_io m)"

subsection \<open>Directories\<close>

definition MAX_ENTRIES :: nat where "MAX_ENTRIES = MAX_SOURCE_FILES + MAX_DIRECTORIES"
definition MAX_NAME_BYTES :: nat where "MAX_NAME_BYTES = MAX_ENTRIES * 255"

definition listing ::
    "nat \<Rightarrow> ('s, 'f) kernel \<Rightarrow> 'f pinned_directory \<Rightarrow> ('s, directory_entry_identity list) fueled" where
  "listing fuel K d s = map_option (\<lambda>(r, t). (map_err capture_io r, t)) (inventory fuel K d MAX_ENTRIES MAX_NAME_BYTES s)"

text \<open>A regular file of a listing: its metadata are checked before its bytes are read.\<close>

definition capture_entry_file ::
    "('s, 'f) kernel \<Rightarrow> 'f pinned_directory \<Rightarrow> directory_entry_identity \<Rightarrow> string \<Rightarrow> rows_builder
      \<Rightarrow> ('s, rows_builder) fueled" where
  "capture_entry_file K directory entry path rows =
     (let mode = fi_mode (de_identity entry) in
      fu_bind (fu_do (io_lift (validate_source_mode (mode AND 0xFFF)))) (\<lambda>_.
      if links (de_identity entry) \<noteq> 1 then fu_do (io_fail Type)
      else
        fu_bind (fu_do (io_lift (check_file rows path (mode AND 0x1FF) (unat (fi_size (de_identity entry)))))) (\<lambda>_.
        fu_bind (with_failures (capture_regular_file K directory (de_name entry) (remaining_file_bytes rows))) (\<lambda>f.
        if cr_identity f \<noteq> de_identity entry then fu_do (io_fail Race)
        else fu_do (\<lambda>s. (rows_push (may_reserve K 1 s) rows path (mode AND 0x1FF) (cr_bytes f), s))))))"

text \<open>
  One entry of a listing: a subdirectory is opened and captured by \<open>descend\<close>, unless the depth is 32; a
  regular file is read; nothing else is admitted. The state threaded through a listing is the set of
  folded names seen in it, the number of directories and the rows.
\<close>

definition capture_entry ::
    "('f pinned_directory \<Rightarrow> string \<Rightarrow> nat \<times> rows_builder \<Rightarrow> ('s, nat \<times> rows_builder) fueled)
      \<Rightarrow> ('s, 'f) kernel \<Rightarrow> 'f pinned_directory \<Rightarrow> string \<Rightarrow> nat \<Rightarrow> directory_entry_identity
      \<Rightarrow> string set \<times> nat \<times> rows_builder \<Rightarrow> ('s, string set \<times> nat \<times> rows_builder) fueled" where
  "capture_entry descend K directory prefix depth entry st =
     (let (folded, directories, rows) = st in
      if to_ascii_lowercase (de_name entry) \<in> folded then fu_do (io_fail Path)
      else
        let folded = insert (to_ascii_lowercase (de_name entry)) folded;
            path = (if prefix = [] then de_name entry else prefix @ ''/'' @ de_name entry);
            file_type = fi_mode (de_identity entry) AND 0xF000
        in
          fu_bind (fu_do (io_lift (validate_source_path path))) (\<lambda>_.
          if file_type = 0x4000 then
            if MAX_DIRECTORIES < directories + 1 then fu_do (io_fail Limit)
            else if depth \<ge> 32 then fu_do (io_fail Limit)
            else
              fu_bind (with_failures (open_child_directory K directory (de_name entry))) (\<lambda>child.
              if pd_identity child \<noteq> de_identity entry then fu_do (io_fail Race)
              else
                fu_bind (descend child path (directories + 1, rows))
                  (\<lambda>(directories, rows). fu_do (io_ret (folded, directories, rows))))
          else if file_type = 0x8000 then
            fu_bind (capture_entry_file K directory entry path rows)
              (\<lambda>rows. fu_do (io_ret (folded, directories, rows)))
          else fu_do (io_fail Type)))"

lemma capture_entry_cong [fundef_cong]:
  assumes "\<And>child path st. depth < 32 \<Longrightarrow> descend child path st = descend' child path st"
  shows "capture_entry descend K directory prefix depth entry st = capture_entry descend' K directory prefix depth entry st"
proof (cases "depth < 32")
  case True
  then have "descend = descend'" using assms by (simp add: fun_eq_iff)
  then show ?thesis by simp
qed (simp add: capture_entry_def Let_def split: prod.splits)

text \<open>The recursion goes through the subdirectories; a directory is listed again after its entries.\<close>

function capture_directory ::
    "nat \<Rightarrow> ('s, 'f) kernel \<Rightarrow> 'f pinned_directory \<Rightarrow> string \<Rightarrow> nat \<Rightarrow> nat \<times> rows_builder
      \<Rightarrow> ('s, nat \<times> rows_builder) fueled" where
  "capture_directory fuel K directory prefix depth st =
     fu_bind (listing fuel K directory) (\<lambda>before.
     fu_bind
       (fu_fold
         (capture_entry (\<lambda>child path st. capture_directory fuel K child path (depth + 1) st) K directory prefix depth)
         before ({}, st))
       (\<lambda>(_, st).
     fu_bind (listing fuel K directory) (\<lambda>after.
       if after \<noteq> before then fu_do (io_fail Race) else fu_do (io_ret st))))"
  by pat_completeness auto
termination by (relation "measure (\<lambda>(fuel, K, directory, prefix, depth, st). 32 - depth)") auto

declare capture_directory.simps [simp del]

definition capture_source_directory ::
    "nat \<Rightarrow> ('s, 'f) kernel \<Rightarrow> 'f pinned_directory \<Rightarrow> string \<Rightarrow> ('s, source_rows) fueled" where
  "capture_source_directory fuel K directory expected_source_row_digest =
     (if length expected_source_row_digest \<noteq> 64
         \<or> \<not> list_all lower_hex_byte (str_bytes expected_source_row_digest)
         \<or> list_all (\<lambda>b. b = byte_of_char CHR ''0'') (str_bytes expected_source_row_digest)
      then fu_do (io_fail Malformed)
      else
        fu_bind (capture_directory fuel K directory [] 0 (0, rows_new)) (\<lambda>(_, rows).
        fu_bind (fu_do (io_lift (rows_finish rows))) (\<lambda>rows.
        if sr_row_digest rows \<noteq> expected_source_row_digest then fu_do (io_fail Integrity)
        else fu_do (io_ret rows))))"

subsection \<open>The inputs\<close>

record patch_inputs =
  pi_request :: capture_request
  pi_source :: source_rows
  pi_overlay :: overlay_plan
  pi_carrier :: carrier_set

definition CAPTURE_CHUNK_BYTES :: nat where "CAPTURE_CHUNK_BYTES = 32 * 1024"
definition MAX_CAPTURE_FRAMES :: nat where "MAX_CAPTURE_FRAMES = 32768"
definition MAX_CAPTURE_RESPONSE_BYTES :: nat where "MAX_CAPTURE_RESPONSE_BYTES = 320 * 1024 * 1024"

definition div_ceil :: "nat \<Rightarrow> nat \<Rightarrow> nat" where "div_ceil n m = n div m + (if n mod m = 0 then 0 else 1)"

definition check_response_budget :: "patch_inputs \<Rightarrow> (capture_error, unit) res" where
  "check_response_budget i =
     (let (frames, meta) = fold (\<lambda>f (frames, meta).
            (frames + 1 + div_ceil (length (sf_bytes f)) CAPTURE_CHUNK_BYTES, meta + length (sf_path f) + 160))
            (sr_files (pi_source i)) (4, 2048);
          overlay = length (pl_canonical (pi_overlay i));
          carrier = length (cs_canonical (pi_carrier i));
          frames = frames + div_ceil overlay CAPTURE_CHUNK_BYTES + div_ceil carrier CAPTURE_CHUNK_BYTES;
          bytes = sr_byte_length (pi_source i) + overlay + carrier + meta + frames * 128
      in if frames > MAX_CAPTURE_FRAMES \<or> bytes > MAX_CAPTURE_RESPONSE_BYTES then Inl Limit else Inr ())"

text \<open>A file of the root, measured against the digest the request names.\<close>

definition measured_input ::
    "('s, 'f) kernel \<Rightarrow> 'f pinned_directory \<Rightarrow> string \<Rightarrow> nat \<Rightarrow> string \<Rightarrow> (bytes \<Rightarrow> 'a pres) \<Rightarrow> ('s, 'a) fueled" where
  "measured_input K root path maximum expected parse =
     fu_bind (with_failures (capture_regular_file K root path maximum)) (\<lambda>raw.
     if byte_digest (cr_bytes raw) \<noteq> expected then fu_do (io_fail Integrity)
     else fu_do (io_lift (map_err (\<lambda>_. Malformed) (parse (cr_bytes raw)))))"

definition open_source_directory ::
    "('s, 'f) kernel \<Rightarrow> 'f pinned_directory \<Rightarrow> string \<Rightarrow> ('s, 'f pinned_directory) fueled" where
  "open_source_directory K root path =
     (case split_on CHR ''/'' path of
        [] \<Rightarrow> fu_do (io_fail Path)
      | part # parts \<Rightarrow>
          fu_bind (with_failures (open_child_directory K root part))
            (fu_fold (\<lambda>part directory. with_failures (open_child_directory K directory part)) parts))"

definition acquire_source ::
    "nat \<Rightarrow> ('s, 'f) kernel \<Rightarrow> 'f pinned_directory \<Rightarrow> capture_request \<Rightarrow> ('s, source_rows) fueled" where
  "acquire_source fuel K root request =
     (case cr_source request of
        Archive format stream_digest \<Rightarrow>
          fu_bind (with_failures (capture_regular_file K root (cr_source_path request) MAX_INPUT_BYTES)) (\<lambda>raw.
            fu_do (\<lambda>s. (capture_archive (\<lambda>n. may_reserve K n s) (cr_bytes raw) format stream_digest, s)))
      | Directory expected_row_digest _ \<Rightarrow>
          fu_bind (open_source_directory K root (cr_source_path request)) (\<lambda>directory.
            capture_source_directory fuel K directory expected_row_digest))"

definition capture_patch_inputs ::
    "nat \<Rightarrow> ('s, 'f) kernel \<Rightarrow> capture_request \<Rightarrow> ('s, patch_inputs) fueled" where
  "capture_patch_inputs fuel K request =
     fu_bind (with_failures (pinned_open K (cr_root request))) (\<lambda>root.
     fu_bind (measured_input K root (cr_overlay_path request) (max_bytes WIRE) (cr_overlay_byte_digest request)
                capture_patch_overlay) (\<lambda>overlay.
     if ov_base_archive_digest (pl_overlay overlay) \<noteq> overlay_base_digest (cr_source request)
     then fu_do (io_fail Integrity)
     else
       fu_bind (measured_input K root (cr_carrier_path request) MAX_CARRIER_SET_ENCODED_BYTES
                  (cr_carrier_byte_digest request) capture_patch_byte_carrier_set) (\<lambda>carrier.
       fu_bind (fu_do (io_lift (map_err (\<lambda>_. Integrity) (join_patch_application_inputs overlay carrier)))) (\<lambda>_.
       fu_bind (acquire_source fuel K root request) (\<lambda>source.
       let result = \<lparr>pi_request = request, pi_source = source, pi_overlay = overlay, pi_carrier = carrier\<rparr> in
       fu_bind (fu_do (io_lift (check_response_budget result))) (\<lambda>_. fu_do (io_ret result)))))))"

end
