(* ===== verification/Patch_Response.thy ===== *)
theory Patch_Response
  imports Patch_Inputs Source_Rows_Props
begin

section \<open>The response to a capture\<close>

text \<open>
  \<open>CapturedPatchInputs::write_response\<close> and \<open>ResponseWriter\<close> of \<open>p2-d2-supervisor/src/lib.rs\<close>: a header, the
  rows of the source with their bytes in chunks, the overlay, the carriers and an end record. Every
  frame is bounded, counted and hashed before it is written.
\<close>

subsection \<open>Frames\<close>

definition CAPTURE_RESPONSE_DOMAIN :: bytes where
  "CAPTURE_RESPONSE_DOMAIN = str_bytes ''keep.patch-input-response/v1'' @ [0]"

record response_writer =
  rw_hash :: sha_state
  rw_frames :: nat
  rw_bytes :: nat

type_synonym ('s, 'a) capture_io = "('s, capture_error, 'a) action"

definition writer_new :: response_writer where
  "writer_new = \<lparr>rw_hash = sha_update sha_new CAPTURE_RESPONSE_DOMAIN, rw_frames = 0, rw_bytes = 0\<rparr>"

definition number :: "nat \<Rightarrow> val" where "number n = Unsigned (of_nat n)"

definition put_all :: "('s, 'f) kernel \<Rightarrow> 'f \<Rightarrow> bytes \<Rightarrow> ('s, unit) capture_io" where
  "put_all K out bs = io_map_err (\<lambda>_. Io) (sys_write_all K out bs)"

definition write_frame ::
    "('s, 'f) kernel \<Rightarrow> 'f \<Rightarrow> val \<Rightarrow> response_writer \<Rightarrow> ('s, response_writer) capture_io" where
  "write_frame K out v w =
     io_bind (io_lift (map_err (\<lambda>_. Limit) (encode_bounded v CAPTURE_FRAME_LIMITS))) (\<lambda>bs.
     io_bind (io_lift (ok_or Limit (checked_add (rw_bytes w) (length bs + 4)))) (\<lambda>total.
     if rw_frames w + 1 > MAX_CAPTURE_FRAMES \<or> total > MAX_CAPTURE_RESPONSE_BYTES then io_fail Limit
     else
       let len = to_be_bytes 4 (of_nat (length bs) :: u32) in
       io_bind (put_all K out len) (\<lambda>_.
       io_bind (put_all K out bs) (\<lambda>_.
         io_ret \<lparr>rw_hash = sha_update (sha_update (rw_hash w) len) bs, rw_frames = rw_frames w + 1, rw_bytes = total\<rparr>))))"

function byte_chunks :: "nat \<Rightarrow> bytes \<Rightarrow> bytes list" where
  "byte_chunks n bs = (if bs = [] \<or> n = 0 then [] else take n bs # byte_chunks n (drop n bs))"
  by pat_completeness auto
termination by (relation "measure (\<lambda>(n, bs). length bs)") auto

declare byte_chunks.simps [simp del]

definition chunk_record :: "nat \<Rightarrow> bytes \<Rightarrow> val" where
  "chunk_record sequence part =
     Map [(''record'', Text ''chunk''), (''sequence'', number sequence), (''bytes'', Bytes part)]"

definition write_chunks ::
    "('s, 'f) kernel \<Rightarrow> 'f \<Rightarrow> bytes \<Rightarrow> response_writer \<Rightarrow> ('s, response_writer) capture_io" where
  "write_chunks K out bs =
     (let parts = byte_chunks CAPTURE_CHUNK_BYTES bs in
      io_fold (\<lambda>(sequence, part). write_frame K out (chunk_record sequence part)) (zip [0..<length parts] parts))"

definition end_record :: "string \<Rightarrow> val" where
  "end_record digest = Map [(''record'', Text ''end''), (''responseDigest'', Text digest)]"

definition writer_finish :: "('s, 'f) kernel \<Rightarrow> 'f \<Rightarrow> response_writer \<Rightarrow> ('s, unit) capture_io" where
  "writer_finish K out w =
     (let digest = hex_string (sha_finalize (rw_hash w)) in
      io_bind (write_frame K out (end_record digest) (w\<lparr>rw_hash := sha_new\<rparr>)) (\<lambda>_.
        io_map_err (\<lambda>_. Io) (sys_flush K out)))"

subsection \<open>The records of a response\<close>

definition source_entry :: "capture_source \<Rightarrow> string \<times> val" where
  "source_entry source =
     (case source of
        Directory _ declared \<Rightarrow> (''declaredBaseArchiveDigest'', Text declared)
      | Archive _ stream \<Rightarrow> (''sourceStreamDigest'', Text stream))"

definition header_record :: "patch_inputs \<Rightarrow> val" where
  "header_record i =
     (let request = pi_request i in
      Map ([(''record'', Text ''header''), (''schema'', Text ''keep.patch-input-result''), (''version'', Unsigned 1),
            (''requestDigest'', Text (cr_digest request)), (''sourceKind'', Text (source_kind (cr_source request))),
            (''sourceRowDigest'', Text (sr_row_digest (pi_source i))),
            (''overlayTypedDigest'', Text (pl_digest (pi_overlay i))),
            (''carrierTypedDigest'', Text (cs_digest (pi_carrier i))),
            (''overlayByteDigest'', Text (cr_overlay_byte_digest request)),
            (''carrierByteDigest'', Text (cr_carrier_byte_digest request)),
            (''sourceCount'', number (length (sr_files (pi_source i)))),
            (''sourceBytes'', number (sr_byte_length (pi_source i))),
            (''overlayBytes'', number (length (pl_canonical (pi_overlay i)))),
            (''carrierBytes'', number (length (cs_canonical (pi_carrier i))))]
           @ [source_entry (cr_source request)]))"

definition row_record :: "nat \<Rightarrow> source_file \<Rightarrow> val" where
  "row_record index f =
     Map [(''record'', Text ''source-row''), (''index'', number index), (''path'', Text (sf_path f)),
          (''mode'', Unsigned (ucast (sf_mode f))), (''byteLength'', number (length (sf_bytes f))),
          (''byteDigest'', Text (sf_byte_digest f))]"

definition input_record :: "string \<Rightarrow> bytes \<Rightarrow> string \<Rightarrow> val" where
  "input_record role bs digest =
     Map [(''record'', Text ''input''), (''role'', Text role), (''byteLength'', number (length bs)),
          (''byteDigest'', Text digest)]"

definition write_row ::
    "('s, 'f) kernel \<Rightarrow> 'f \<Rightarrow> nat \<times> source_file \<Rightarrow> response_writer \<Rightarrow> ('s, response_writer) capture_io" where
  "write_row K out = (\<lambda>(index, f) w. io_bind (write_frame K out (row_record index f) w) (write_chunks K out (sf_bytes f)))"

definition write_input ::
    "('s, 'f) kernel \<Rightarrow> 'f \<Rightarrow> string \<times> bytes \<times> string \<Rightarrow> response_writer \<Rightarrow> ('s, response_writer) capture_io" where
  "write_input K out = (\<lambda>(role, bs, digest) w.
     io_bind (write_frame K out (input_record role bs digest) w) (write_chunks K out bs))"

definition write_response :: "('s, 'f) kernel \<Rightarrow> 'f \<Rightarrow> patch_inputs \<Rightarrow> ('s, unit) capture_io" where
  "write_response K out i =
     (let files = sr_files (pi_source i); request = pi_request i in
      io_bind (write_frame K out (header_record i) writer_new) (\<lambda>w.
      io_bind (io_fold (write_row K out) (zip [0..<length files] files) w) (\<lambda>w.
      io_bind (io_fold (write_input K out)
                 [(''overlay'', pl_canonical (pi_overlay i), cr_overlay_byte_digest request),
                  (''carrier'', cs_canonical (pi_carrier i), cr_carrier_byte_digest request)] w)
        (writer_finish K out))))"

subsection \<open>The budget of a run of frames\<close>

text \<open>
  \<open>sink_only K out m P\<close>: the action fails only when the sink does, and \<open>P\<close> holds of what it returns. A
  sink that never fails leaves no failure at all.
\<close>

definition never_fails :: "('s, 'f) kernel \<Rightarrow> 'f \<Rightarrow> bool" where
  "never_fails K out \<longleftrightarrow> (\<forall>bs s. is_ok (fst (sys_write_all K out bs s))) \<and> (\<forall>s. is_ok (fst (sys_flush K out s)))"

definition sink_only :: "('s, 'f) kernel \<Rightarrow> 'f \<Rightarrow> ('s, 'a) capture_io \<Rightarrow> ('a \<Rightarrow> bool) \<Rightarrow> bool" where
  "sink_only K out m P \<longleftrightarrow> (\<forall>s. case fst (m s) of Inl e \<Rightarrow> e = Io \<and> \<not> never_fails K out | Inr x \<Rightarrow> P x)"

lemma sink_only_ret [simp]: "sink_only K out (io_ret x) P \<longleftrightarrow> P x"
  by (simp add: sink_only_def io_ret_def)

lemma sink_only_bind:
  assumes "sink_only K out m Q" "\<And>x. Q x \<Longrightarrow> sink_only K out (f x) P"
  shows "sink_only K out (io_bind m f) P"
  unfolding sink_only_def
proof
  fix s
  show "case fst (io_bind m f s) of Inl e \<Rightarrow> e = Io \<and> \<not> never_fails K out | Inr x \<Rightarrow> P x"
    using assms(1)[unfolded sink_only_def, rule_format, of s] assms(2)
    by (cases "m s"; cases "fst (m s)") (auto simp: io_bind_def sink_only_def)
qed

lemma sink_only_mono: "sink_only K out m Q \<Longrightarrow> (\<And>x. Q x \<Longrightarrow> P x) \<Longrightarrow> sink_only K out m P"
  unfolding sink_only_def by (metis (mono_tags, lifting) sum.case_eq_if)

lemma sink_only_put: "sink_only K out (put_all K out bs) (\<lambda>_. True)"
  by (auto simp: sink_only_def put_all_def io_map_err_def never_fails_def split: prod.splits sum.splits)
    (metis fst_conv is_ok_simps(1))

lemma sink_only_flush: "sink_only K out (io_map_err (\<lambda>_. Io) (sys_flush K out)) (\<lambda>_. True)"
  by (auto simp: sink_only_def io_map_err_def never_fails_def split: prod.splits sum.splits)
    (metis fst_conv is_ok_simps(1))

text \<open>A writer that has used at most so many frames and bytes, and an action that adds at most so many.\<close>

definition used :: "nat \<Rightarrow> nat \<Rightarrow> response_writer \<Rightarrow> bool" where
  "used frames bytes w \<longleftrightarrow> rw_frames w \<le> frames \<and> rw_bytes w \<le> bytes \<and> (\<exists>data. sha_rep (rw_hash w) data)"

definition within :: "nat \<Rightarrow> nat \<Rightarrow> bool" where
  "within frames bytes \<longleftrightarrow> frames \<le> MAX_CAPTURE_FRAMES \<and> bytes \<le> MAX_CAPTURE_RESPONSE_BYTES"

definition costs :: "('s, 'f) kernel \<Rightarrow> 'f \<Rightarrow> (response_writer \<Rightarrow> ('s, response_writer) capture_io) \<Rightarrow> nat \<Rightarrow> nat \<Rightarrow> bool" where
  "costs K out m frames bytes \<longleftrightarrow>
     (\<forall>w f b. used f b w \<longrightarrow> within (f + frames) (b + bytes) \<longrightarrow> sink_only K out (m w) (used (f + frames) (b + bytes)))"

lemma costsD: "costs K out m n b \<Longrightarrow> used f c w \<Longrightarrow> within (f + n) (c + b) \<Longrightarrow> sink_only K out (m w) (used (f + n) (c + b))"
  by (simp add: costs_def)

lemma costs_frame:
  assumes "encode_bounded v CAPTURE_FRAME_LIMITS = Inr bs" "length bs + 4 \<le> n"
  shows "costs K out (write_frame K out v) 1 n"
  unfolding costs_def
proof (intro allI impI)
  fix w f b assume w: "used f b w" "within (f + 1) (b + n)"
  have "rw_bytes w + (length bs + 4) \<le> usize_max" "checked_add (rw_bytes w) (length bs + 4) = Some (rw_bytes w + (length bs + 4))"
    using w assms(2) by (auto simp: used_def within_def MAX_CAPTURE_RESPONSE_BYTES_def checked_add_def usize_max_def)
  then have run: "write_frame K out v w = (let len = to_be_bytes 4 (of_nat (length bs) :: u32) in
      io_bind (put_all K out len) (\<lambda>_. io_bind (put_all K out bs) (\<lambda>_.
        io_ret \<lparr>rw_hash = sha_update (sha_update (rw_hash w) len) bs, rw_frames = rw_frames w + 1,
                rw_bytes = rw_bytes w + (length bs + 4)\<rparr>)))"
    using w assms by (auto simp: write_frame_def used_def within_def io_lift_def Let_def io_bind_def fun_eq_iff)
  have "\<exists>data. sha_rep (sha_update (sha_update (rw_hash w) len) bs) data" for len
    using w(1) sha.rep_update unfolding used_def by blast
  then show "sink_only K out (write_frame K out v w) (used (f + 1) (b + n))"
    unfolding run Let_def
    by (intro sink_only_bind [OF sink_only_put]) (use w(1) assms(2) in \<open>simp add: used_def\<close>)
qed

lemma within_mono: "within f b \<Longrightarrow> f' \<le> f \<Longrightarrow> b' \<le> b \<Longrightarrow> within f' b'"
  by (auto simp: within_def)

lemma costs_bind:
  assumes "costs K out m n b" "costs K out m' n' b'"
  shows "costs K out (\<lambda>w. io_bind (m w) m') (n + n') (b + b')"
  unfolding costs_def
proof (intro allI impI)
  fix w f c assume w: "used f c w" "within (f + (n + n')) (c + (b + b'))"
  have "sink_only K out (m w) (used (f + n) (c + b))"
    using w by (intro costsD [OF assms(1)]) (auto elim: within_mono)
  then show "sink_only K out (io_bind (m w) m') (used (f + (n + n')) (c + (b + b')))"
    by (rule sink_only_bind) (use w costsD [OF assms(2), of "f + n" "c + b"] in \<open>simp add: add.assoc\<close>)
qed

lemma costs_fold:
  assumes "\<And>x. x \<in> set xs \<Longrightarrow> costs K out (f x) (n x) (b x)"
  shows "costs K out (io_fold f xs) (sum_list (map n xs)) (sum_list (map b xs))"
  using assms
proof (induction xs)
  case (Cons x xs)
  then show ?case
    using costs_bind [of K out "f x" "n x" "b x" "io_fold f xs"] by (simp add: fun_eq_iff)
qed (simp add: costs_def)

subsection \<open>What the records cost\<close>

lemma usize_frames: "usize_limits CAPTURE_FRAME_LIMITS"
  by (simp add: usize_limits_def limit_defs usize_max_def)

lemma frame_limits:
  "max_bytes CAPTURE_FRAME_LIMITS = 65536" "max_depth CAPTURE_FRAME_LIMITS = 16" "max_items CAPTURE_FRAME_LIMITS = 1024"
  "max_collection_items CAPTURE_FRAME_LIMITS = 32" "max_text_bytes CAPTURE_FRAME_LIMITS = 4096"
  by (simp_all add: limit_defs)

lemma costs_record:
  assumes "fits CAPTURE_FRAME_LIMITS 0 v" "encodable v" "vcount v \<le> 1024" "elen v \<le> 65536" "elen v + 4 \<le> n"
  shows "costs K out (write_frame K out v) 1 n"
proof (rule costs_frame)
  show "encode_bounded v CAPTURE_FRAME_LIMITS = Inr (enc v)"
    using assms by (intro encode_bounded_elen usize_frames) (simp_all add: frame_limits)
  show "length (enc v) + 4 \<le> n" using assms(4,5) by (subst length_enc) (simp_all add: usize_max_def)
qed

lemma head_len_le: "head_len n \<le> 9" "n \<le> 65535 \<Longrightarrow> head_len n \<le> 3"
  by (simp_all add: head_len_def)

lemma costs_chunk:
  assumes "length part \<le> CAPTURE_CHUNK_BYTES"
  shows "costs K out (write_frame K out (chunk_record sequence part)) 1 (length part + 128)"
proof (rule costs_record)
  show "elen (chunk_record sequence part) \<le> 65536" "elen (chunk_record sequence part) + 4 \<le> length part + 128"
    using assms head_len_le(1) [of "unat (of_nat sequence :: u64)"] head_len_le(2) [of "length part"]
    by (auto simp: chunk_record_def number_def CAPTURE_CHUNK_BYTES_def tlen_def head_len_def [of "length (_ # _)"]
        head_len_def [of "Suc _"] head_len_def [of "numeral _"])
qed (simp_all add: chunk_record_def number_def codec_eval frame_limits)

lemma byte_chunks_concat: "n \<noteq> 0 \<Longrightarrow> concat (byte_chunks n bs) = bs"
  by (induction n bs rule: byte_chunks.induct) (subst byte_chunks.simps, simp)

lemma byte_chunks_size: "part \<in> set (byte_chunks n bs) \<Longrightarrow> length part \<le> n"
proof (induction n bs rule: byte_chunks.induct)
  case (1 n bs)
  then show ?case by (subst (asm) byte_chunks.simps [of n bs]) (auto split: if_splits)
qed

lemma byte_chunks_count: "n \<noteq> 0 \<Longrightarrow> length (byte_chunks n bs) = div_ceil (length bs) n"
proof (induction n bs rule: byte_chunks.induct)
  case (1 n bs)
  show ?case
  proof (cases "bs = []")
    case False
    then have "length (byte_chunks n bs) = Suc (div_ceil (length bs - n) n)"
      using 1 by (subst byte_chunks.simps) simp
    also have "\<dots> = div_ceil (length bs) n"
    proof (cases "n \<le> length bs")
      case True
      then show ?thesis using 1(2) by (simp add: div_ceil_def le_div_geq le_mod_geq)
    qed (use False 1(2) in \<open>simp add: div_ceil_def\<close>)
    finally show ?thesis .
  qed (simp add: byte_chunks.simps div_ceil_def)
qed

lemma sum_indexed: "sum_list (map (\<lambda>x. g (snd x)) (zip [0..<length ys] ys)) = sum_list (map g ys)" for g :: "'a \<Rightarrow> nat"
proof -
  have "map (\<lambda>x. g (snd x)) (zip [0..<length ys] ys) = map g (map snd (zip [0..<length ys] ys))"
    by (simp only: map_map comp_def)
  then show ?thesis by simp
qed

lemma costs_chunks:
  "costs K out (write_chunks K out bs) (div_ceil (length bs) CAPTURE_CHUNK_BYTES)
     (length bs + 128 * div_ceil (length bs) CAPTURE_CHUNK_BYTES)"
proof -
  let ?parts = "byte_chunks CAPTURE_CHUNK_BYTES bs"
  let ?zipped = "zip [0..<length ?parts] ?parts"
  have "costs K out (io_fold (\<lambda>(sequence, part). write_frame K out (chunk_record sequence part)) ?zipped)
      (sum_list (map (\<lambda>_. 1) ?zipped)) (sum_list (map (\<lambda>x. length (snd x) + 128) ?zipped))"
    by (rule costs_fold) (auto intro!: costs_chunk [unfolded One_nat_def] byte_chunks_size dest: set_zip_rightD)
  moreover have "sum_list (map (\<lambda>x. length (snd x) + 128) ?zipped) = length (concat ?parts) + 128 * length ?parts"
    by (simp add: sum_indexed [of length] length_concat sum_list_addf sum_list_triv)
  moreover have "sum_list (map (\<lambda>_. 1::nat) ?zipped) = length ?parts" by (simp add: sum_list_triv)
  ultimately show ?thesis
    by (simp add: write_chunks_def Let_def byte_chunks_concat byte_chunks_count CAPTURE_CHUNK_BYTES_def)
qed

text \<open>What \<open>write_response\<close> relies on: the texts it sends are short ASCII, as the captures leave them.\<close>

definition rows_ok :: "source_rows \<Rightarrow> bool" where
  "rows_ok r \<longleftrightarrow>
     list_all (\<lambda>f. length (sf_path f) \<le> 4096 \<and> ascii_profile (str_bytes (sf_path f)) \<and> length (sf_byte_digest f) = 64
       \<and> ascii_profile (str_bytes (sf_byte_digest f))) (sr_files r)
     \<and> sr_byte_length r = sum_list (map (length \<circ> sf_bytes) (sr_files r))"

definition digest_text :: "string \<Rightarrow> bool" where
  "digest_text t \<longleftrightarrow> length t = 64 \<and> ascii_profile (str_bytes t)"

definition request_ok :: "capture_request \<Rightarrow> bool" where
  "request_ok r \<longleftrightarrow> digest_text (cr_digest r) \<and> digest_text (cr_overlay_byte_digest r)
     \<and> digest_text (cr_carrier_byte_digest r) \<and> digest_text (overlay_base_digest (cr_source r))"

definition inputs_ok :: "patch_inputs \<Rightarrow> bool" where
  "inputs_ok i \<longleftrightarrow> rows_ok (pi_source i) \<and> request_ok (pi_request i) \<and> digest_text (sr_row_digest (pi_source i))
     \<and> digest_text (pl_digest (pi_overlay i)) \<and> digest_text (cs_digest (pi_carrier i))"

lemmas record_eval = number_def codec_eval [unfolded ascii_profile_def] frame_limits

lemma head_len_literal: "head_len 0 = 1" "head_len (Suc n) = (if Suc n < 24 then 1 else if Suc n \<le> 0xff then 2
    else if Suc n \<le> 0xffff then 3 else if Suc n \<le> 0xffffffff then 5 else 9)"
  by (simp_all add: head_len_def)

lemma head_len_64: "head_len 64 = 2" by (simp add: head_len_def)

lemma head_len_u64: "head_len (unat (n :: u64)) \<le> 9" by (rule head_len_le)

lemma costs_row:
  assumes "length (sf_path f) \<le> 4096" "ascii_profile (str_bytes (sf_path f))" "length (sf_byte_digest f) = 64"
    "ascii_profile (str_bytes (sf_byte_digest f))"
  shows "costs K out (write_frame K out (row_record index f)) 1 (length (sf_path f) + 160)"
proof (rule costs_record)
  show "elen (row_record index f) \<le> 65536" "elen (row_record index f) + 4 \<le> length (sf_path f) + 160"
    using assms head_len_u64 [of "of_nat index"] head_len_le(2) [of "length (sf_path f)"]
      head_len_u64 [of "ucast (sf_mode f)"] head_len_u64 [of "of_nat (length (sf_bytes f))"]
    by (auto simp: row_record_def number_def tlen_def head_len_literal head_len_64)
qed (use assms in \<open>simp_all add: row_record_def number_def codec_eval frame_limits\<close>)

lemma costs_input:
  assumes "role \<in> {''overlay'', ''carrier''}" "digest_text digest"
  shows "costs K out (write_frame K out (input_record role bs digest)) 1 128"
proof (rule costs_record)
  show "elen (input_record role bs digest) \<le> 65536" "elen (input_record role bs digest) + 4 \<le> 128"
    using assms head_len_u64 [of "of_nat (length bs)"]
    by (auto simp: input_record_def number_def tlen_def head_len_literal head_len_64 digest_text_def)
qed (use assms in \<open>auto simp: input_record_def number_def codec_eval frame_limits digest_text_def\<close>)

lemma costs_end:
  assumes "digest_text digest"
  shows "costs K out (write_frame K out (end_record digest)) 1 128"
proof (rule costs_record)
  show "elen (end_record digest) \<le> 65536" "elen (end_record digest) + 4 \<le> 128"
    using assms by (auto simp: end_record_def tlen_def head_len_literal head_len_64 digest_text_def)
qed (use assms in \<open>simp_all add: end_record_def codec_eval frame_limits digest_text_def\<close>)

lemma source_kind_text: "length (source_kind s) \<le> 9 \<and> ascii_profile (str_bytes (source_kind s))"
  by (cases s rule: source_kind.cases) (simp_all add: codec_eval)

lemma costs_header:
  assumes "inputs_ok i"
  shows "costs K out (write_frame K out (header_record i)) 1 2176"
proof (rule costs_record)
  note ok = assms [unfolded inputs_ok_def request_ok_def digest_text_def]
  show "fits CAPTURE_FRAME_LIMITS 0 (header_record i)" "encodable (header_record i)" "vcount (header_record i) \<le> 1024"
    using ok source_kind_text [of "cr_source (pi_request i)"]
    by (auto simp: header_record_def source_entry_def number_def codec_eval frame_limits Let_def split: capture_source.splits)
  show "elen (header_record i) \<le> 65536" "elen (header_record i) + 4 \<le> 2176"
    using ok source_kind_text [of "cr_source (pi_request i)"] head_len_le(2) [of "length (source_kind (cr_source (pi_request i)))"]
      head_len_u64 [of "of_nat (length (sr_files (pi_source i)))"] head_len_u64 [of "of_nat (sr_byte_length (pi_source i))"]
      head_len_u64 [of "of_nat (length (pl_canonical (pi_overlay i)))"] head_len_u64 [of "of_nat (length (cs_canonical (pi_carrier i)))"]
    by (auto simp: header_record_def source_entry_def number_def tlen_def head_len_literal head_len_64 Let_def split: capture_source.splits)
qed

subsection \<open>The whole response\<close>

lemma io_bind_assoc: "io_bind (io_bind m f) g = io_bind m (\<lambda>x. io_bind (f x) g)"
  by (auto simp: io_bind_def fun_eq_iff split: prod.splits sum.splits)

lemma costs_write_row:
  assumes "length (sf_path f) \<le> 4096" "ascii_profile (str_bytes (sf_path f))" "length (sf_byte_digest f) = 64"
    "ascii_profile (str_bytes (sf_byte_digest f))"
  defines "n \<equiv> div_ceil (length (sf_bytes f)) CAPTURE_CHUNK_BYTES"
  shows "costs K out (write_row K out (index, f)) (1 + n) (length (sf_path f) + 160 + (length (sf_bytes f) + 128 * n))"
  using costs_bind [OF costs_row [OF assms(1-4), of K out index] costs_chunks [of K out "sf_bytes f"]]
  by (simp add: write_row_def n_def)

lemma costs_write_input:
  fixes bs :: bytes
  assumes "role \<in> {''overlay'', ''carrier''}" "digest_text digest"
  defines "n \<equiv> div_ceil (length bs) CAPTURE_CHUNK_BYTES"
  shows "costs K out (write_input K out (role, bs, digest)) (1 + n) (128 + (length bs + 128 * n))"
  using costs_bind [OF costs_input [OF assms(1,2), of K out bs] costs_chunks [of K out bs]]
  by (simp add: write_input_def n_def)

lemma hash_text: "digest_text (hex_string (sha256 data))"
proof -
  have "b \<le> 0x7e \<and> 0x20 \<le> b" if "lower_hex_byte b" for b
    using that by (auto simp: lower_hex_byte_def is_ascii_digit_def word_le_nat_alt)
  then show ?thesis
    using hex_string_lower by (fastforce simp: digest_text_def ascii_profile_def list_all_iff str_bytes_def)
qed

lemma finish_sink_only:
  assumes "used f b w" "within (f + 1) (b + 128)"
  shows "sink_only K out (writer_finish K out w) (\<lambda>_. True)"
proof -
  obtain data where data: "sha_rep (rw_hash w) data" using assms(1) by (auto simp: used_def)
  then have digest: "digest_text (hex_string (sha_finalize (rw_hash w)))" by (simp add: sha.finalize_rep hash_text)
  have "used f b (w\<lparr>rw_hash := sha_new\<rparr>)" using assms(1) sha.rep_new by (auto simp: used_def)
  then have "sink_only K out (write_frame K out (end_record (hex_string (sha_finalize (rw_hash w)))) (w\<lparr>rw_hash := sha_new\<rparr>))
      (used (f + 1) (b + 128))"
    using costsD [OF costs_end [OF digest] _ assms(2)] by simp
  then show ?thesis
    unfolding writer_finish_def Let_def
    by (rule sink_only_bind) (rule sink_only_flush)
qed

definition row_frames :: "source_file \<Rightarrow> nat" where
  "row_frames f = 1 + div_ceil (length (sf_bytes f)) CAPTURE_CHUNK_BYTES"

lemma budget_sums:
  fixes i
  defines "files \<equiv> sr_files (pi_source i)"
    and "ov \<equiv> length (pl_canonical (pi_overlay i))" and "ca \<equiv> length (cs_canonical (pi_carrier i))"
  defines "frames \<equiv> 4 + sum_list (map row_frames files) + div_ceil ov CAPTURE_CHUNK_BYTES + div_ceil ca CAPTURE_CHUNK_BYTES"
  assumes "check_response_budget i = Inr ()"
  shows "within frames (sr_byte_length (pi_source i) + ov + ca + 2048
    + sum_list (map (\<lambda>f. length (sf_path f) + 160) files) + 128 * frames)"
proof -
  have fold: "fold (\<lambda>f (frames, meta). (frames + 1 + div_ceil (length (sf_bytes f)) CAPTURE_CHUNK_BYTES,
        meta + length (sf_path f) + 160)) fs (a, b)
      = (a + sum_list (map row_frames fs), b + sum_list (map (\<lambda>f. length (sf_path f) + 160) fs))" for fs a b
    by (induction fs arbitrary: a b) (simp_all add: row_frames_def)
  show ?thesis
    using assms(5) unfolding check_response_budget_def fold
    by (simp add: Let_def within_def frames_def files_def ov_def ca_def add.assoc not_less split: if_splits)
qed

lemma response_sink_only:
  assumes ok: "inputs_ok i" and budget: "check_response_budget i = Inr ()"
  shows "sink_only K out (write_response K out i) (\<lambda>_. True)"
proof -
  let ?files = "sr_files (pi_source i)" and ?ov = "pl_canonical (pi_overlay i)" and ?ca = "cs_canonical (pi_carrier i)"
  let ?c = "\<lambda>n. div_ceil n CAPTURE_CHUNK_BYTES"
  let ?inputs = "[(''overlay'', ?ov, cr_overlay_byte_digest (pi_request i)), (''carrier'', ?ca, cr_carrier_byte_digest (pi_request i))]"
  define row_cost where "row_cost = (\<lambda>f :: source_file. length (sf_path f) + 160 + (length (sf_bytes f) + 128 * ?c (length (sf_bytes f))))"
  define input_cost where "input_cost = (\<lambda>x :: string \<times> bytes \<times> string. 128 + (length (fst (snd x)) + 128 * ?c (length (fst (snd x)))))"
  define input_frames where "input_frames = (\<lambda>x :: string \<times> bytes \<times> string. 1 + ?c (length (fst (snd x))))"
  have "costs K out (io_fold (write_row K out) (zip [0..<length ?files] ?files))
      (sum_list (map (\<lambda>x. row_frames (snd x)) (zip [0..<length ?files] ?files)))
      (sum_list (map (\<lambda>x. row_cost (snd x)) (zip [0..<length ?files] ?files)))"
  proof (rule costs_fold)
    fix x assume "x \<in> set (zip [0..<length ?files] ?files)"
    then have "snd x \<in> set ?files" by (metis prod.collapse set_zip_rightD)
    then show "costs K out (write_row K out x) (row_frames (snd x)) (row_cost (snd x))"
      using ok costs_write_row [of "snd x" K out "fst x"]
      by (auto simp: inputs_ok_def rows_ok_def list_all_iff row_cost_def row_frames_def)
  qed
  then have rows: "costs K out (io_fold (write_row K out) (zip [0..<length ?files] ?files)) (sum_list (map row_frames ?files))
      (sum_list (map row_cost ?files))"
    by (simp only: sum_indexed)
  have inputs: "costs K out (io_fold (write_input K out) ?inputs) (sum_list (map input_frames ?inputs)) (sum_list (map input_cost ?inputs))"
    by (rule costs_fold)
      (use ok in \<open>auto simp: inputs_ok_def request_ok_def input_cost_def input_frames_def intro!: costs_write_input [simplified]\<close>)
  note all = costs_bind [OF costs_header [OF ok, of K out] costs_bind [OF rows inputs]]
  define frames where "frames = 1 + (sum_list (map row_frames ?files) + sum_list (map input_frames ?inputs))"
  define used_bytes where "used_bytes = 2176 + (sum_list (map row_cost ?files) + sum_list (map input_cost ?inputs))"
  have row_sum: "sum_list (map row_cost fs) \<le> sum_list (map (\<lambda>f. length (sf_path f) + 160) fs)
      + sum_list (map (length \<circ> sf_bytes) fs) + 128 * sum_list (map row_frames fs)" for fs
    by (induction fs) (simp_all add: row_cost_def row_frames_def)
  have bound: "within (frames + 1) (used_bytes + 128)"
    using budget_sums [OF budget] row_sum [of ?files] ok
    by (auto simp: frames_def used_bytes_def input_frames_def input_cost_def inputs_ok_def rows_ok_def elim!: within_mono)
  have start: "used 0 0 writer_new"
    using sha.rep_update [OF sha.rep_new] by (auto simp: used_def writer_new_def)
  have "sink_only K out (io_bind (write_frame K out (header_record i) writer_new)
      (\<lambda>w. io_bind (io_fold (write_row K out) (zip [0..<length ?files] ?files) w) (io_fold (write_input K out) ?inputs)))
      (used (0 + frames) (0 + used_bytes))"
    by (rule costsD [OF all start, folded frames_def used_bytes_def]) (rule within_mono [OF bound], simp_all)
  then have "sink_only K out (io_bind (io_bind (write_frame K out (header_record i) writer_new)
      (\<lambda>w. io_bind (io_fold (write_row K out) (zip [0..<length ?files] ?files) w) (io_fold (write_input K out) ?inputs)))
      (writer_finish K out)) (\<lambda>_. True)"
    by (rule sink_only_bind) (use finish_sink_only bound in auto)
  then show ?thesis
    by (simp add: write_response_def Let_def io_bind_assoc)
qed

end
