(* ===== verification/Patch_Response_Props.thy ===== *)
theory Patch_Response_Props
  imports Patch_Response
begin

section \<open>A captured patch is sent whole\<close>

text \<open>
  What a capture leaves satisfies \<open>inputs_ok\<close> (\<open>captured_inputs_ok\<close>), so its response fits the limits of
  the protocol (\<open>response_within_limits\<close>) and is, byte for byte, the stream of its records followed by
  the digest of that stream (\<open>response_is_stream\<close>).
\<close>

subsection \<open>The bytes sent\<close>

definition frame_bytes :: "val \<Rightarrow> bytes" where
  "frame_bytes v = to_be_bytes 4 (of_nat (length (enc v)) :: u32) @ enc v"

definition stream :: "val list \<Rightarrow> bytes" where "stream vs = concat (map frame_bytes vs)"

definition chunk_records :: "bytes \<Rightarrow> val list" where
  "chunk_records bs =
     (let parts = byte_chunks CAPTURE_CHUNK_BYTES bs in map (\<lambda>(n, part). chunk_record n part) (zip [0..<length parts] parts))"

definition row_records :: "nat \<times> source_file \<Rightarrow> val list" where
  "row_records = (\<lambda>(index, f). row_record index f # chunk_records (sf_bytes f))"

definition input_records :: "string \<times> bytes \<times> string \<Rightarrow> val list" where
  "input_records = (\<lambda>(role, bs, digest). input_record role bs digest # chunk_records bs)"

text \<open>The records of a response, without the end record.\<close>

definition response_records :: "patch_inputs \<Rightarrow> val list" where
  "response_records i =
     (let files = sr_files (pi_source i); request = pi_request i in
      header_record i # concat (map row_records (zip [0..<length files] files))
      @ input_records (''overlay'', pl_canonical (pi_overlay i), cr_overlay_byte_digest request)
      @ input_records (''carrier'', cs_canonical (pi_carrier i), cr_carrier_byte_digest request))"

text \<open>A sink that appends: \<open>sent\<close> reads what has been written off the state.\<close>

definition appends :: "('s \<Rightarrow> bytes) \<Rightarrow> ('s, 'f) kernel \<Rightarrow> 'f \<Rightarrow> bool" where
  "appends sent K out \<longleftrightarrow>
     (\<forall>bs s t. sys_write_all K out bs s = (Inr (), t) \<longrightarrow> sent t = sent s @ bs)
     \<and> (\<forall>s t. sys_flush K out s = (Inr (), t) \<longrightarrow> sent t = sent s)"

definition sends :: "('s \<Rightarrow> bytes) \<Rightarrow> (response_writer \<Rightarrow> ('s, response_writer) capture_io) \<Rightarrow> val list \<Rightarrow> bool" where
  "sends sent m vs \<longleftrightarrow>
     (\<forall>w s w' t data. m w s = (Inr w', t) \<longrightarrow> sha_rep (rw_hash w) data \<longrightarrow>
        sent t = sent s @ stream vs \<and> sha_rep (rw_hash w') (data @ stream vs))"

lemma sends_frame:
  assumes "appends sent K out"
  shows "sends sent (write_frame K out v) [v]"
  unfolding sends_def
proof (intro allI impI)
  fix w s w' t data
  assume run: "write_frame K out v w s = (Inr w', t)" and rep: "sha_rep (rw_hash w) data"
  define len where "len = (to_be_bytes 4 (of_nat (length (enc v)) :: u32) :: bytes)"
  obtain u where writes: "sys_write_all K out len s = (Inr (), u)" "sys_write_all K out (enc v) u = (Inr (), t)"
    and hash: "rw_hash w' = sha_update (sha_update (rw_hash w) len) (enc v)"
    using run by (auto simp: write_frame_def io_simps put_all_def Let_def len_def encode_bounded_iff [OF usize_frames] split: if_splits)
  have "sent t = sent s @ len @ enc v" using assms writes by (simp add: appends_def)
  moreover have "sha_rep (rw_hash w') (data @ len @ enc v)"
    using sha.rep_update [OF sha.rep_update [OF rep]] by (simp add: hash)
  ultimately show "sent t = sent s @ stream [v] \<and> sha_rep (rw_hash w') (data @ stream [v])"
    by (simp add: stream_def frame_bytes_def len_def)
qed

lemma sends_bind: "sends sent m vs \<Longrightarrow> sends sent n us \<Longrightarrow> sends sent (\<lambda>w. io_bind (m w) n) (vs @ us)"
  unfolding sends_def io_simps by (fastforce simp: stream_def)

lemma sends_fold:
  assumes "\<And>x. sends sent (f x) (vs x)"
  shows "sends sent (io_fold f xs) (concat (map vs xs))"
proof (induction xs)
  case (Cons x xs)
  have "io_fold f (x # xs) = (\<lambda>w. io_bind (f x w) (io_fold f xs))" by (simp add: fun_eq_iff)
  then show ?case using sends_bind [OF assms [of x] Cons.IH] by simp
qed (simp add: sends_def stream_def io_ret_def)

lemma sends_chunks:
  assumes "appends sent K out"
  shows "sends sent (write_chunks K out bs) (chunk_records bs)"
proof -
  let ?parts = "byte_chunks CAPTURE_CHUNK_BYTES bs"
  have "sends sent (io_fold (\<lambda>(n, part). write_frame K out (chunk_record n part)) (zip [0..<length ?parts] ?parts))
      (concat (map (\<lambda>(n, part). [chunk_record n part]) (zip [0..<length ?parts] ?parts)))"
    by (rule sends_fold) (auto intro: sends_frame [OF assms] split: prod.splits)
  moreover have "concat (map (\<lambda>(n, part). [chunk_record n part]) xs) = map (\<lambda>(n, part). chunk_record n part) xs" for xs
    by (induction xs) auto
  ultimately show ?thesis by (simp add: write_chunks_def chunk_records_def Let_def)
qed

lemma sends_row: "appends sent K out \<Longrightarrow> sends sent (write_row K out x) (row_records x)"
  using sends_bind [OF sends_frame [of sent K out "row_record (fst x) (snd x)"] sends_chunks [of sent K out "sf_bytes (snd x)"]]
  by (auto simp: write_row_def row_records_def split: prod.splits)

lemma sends_input: "appends sent K out \<Longrightarrow> sends sent (write_input K out x) (input_records x)"
  using sends_bind [OF sends_frame [of sent K out "input_record (fst x) (fst (snd x)) (snd (snd x))"] sends_chunks [of sent K out "fst (snd x)"]]
  by (auto simp: write_input_def input_records_def split: prod.splits)

lemma sends_finish:
  assumes "appends sent K out" "writer_finish K out w s = (Inr (), t)" "sha_rep (rw_hash w) data"
  shows "sent t = sent s @ frame_bytes (end_record (sha256_hex data))"
proof -
  obtain w' u where "write_frame K out (end_record (hex_string (sha_finalize (rw_hash w)))) (w\<lparr>rw_hash := sha_new\<rparr>) s = (Inr w', u)"
      "sys_flush K out u = (Inr (), t)"
    using assms(2) by (auto simp: writer_finish_def Let_def io_simps)
  then show ?thesis
    using sends_frame [OF assms(1), of "end_record (hex_string (sha_finalize (rw_hash w)))", unfolded sends_def] sha.rep_new assms(1)
    by (fastforce simp: appends_def stream_def sha256_hex_def sha.finalize_rep [OF assms(3)])
qed

lemma response_bytes:
  assumes "appends sent K out" "write_response K out i s = (Inr (), t)"
  shows "sent t = sent s @ stream (response_records i)
    @ frame_bytes (end_record (sha256_hex (CAPTURE_RESPONSE_DOMAIN @ stream (response_records i))))"
proof -
  let ?files = "sr_files (pi_source i)"
  let ?inputs = "[(''overlay'', pl_canonical (pi_overlay i), cr_overlay_byte_digest (pi_request i)),
      (''carrier'', cs_canonical (pi_carrier i), cr_carrier_byte_digest (pi_request i))]"
  let ?records = "\<lambda>w. io_bind (write_frame K out (header_record i) w)
      (\<lambda>w. io_bind (io_fold (write_row K out) (zip [0..<length ?files] ?files) w) (io_fold (write_input K out) ?inputs))"
  have "sends sent ?records ([header_record i] @ concat (map row_records (zip [0..<length ?files] ?files)) @ concat (map input_records ?inputs))"
    by (intro sends_bind sends_frame sends_fold sends_row sends_input assms(1))
  then have all: "sends sent ?records (response_records i)" by (simp add: response_records_def Let_def)
  obtain w u where run: "?records writer_new s = (Inr w, u)" "writer_finish K out w u = (Inr (), t)"
    using assms(2) by (auto simp: write_response_def Let_def io_simps)
  have "sha_rep (rw_hash writer_new) CAPTURE_RESPONSE_DOMAIN"
    using sha.rep_update [OF sha.rep_new, of CAPTURE_RESPONSE_DOMAIN] by (simp add: writer_new_def)
  with all run(1) have "sent u = sent s @ stream (response_records i)"
      "sha_rep (rw_hash w) (CAPTURE_RESPONSE_DOMAIN @ stream (response_records i))"
    unfolding sends_def by blast+
  then show ?thesis using sends_finish [OF assms(1) run(2)] by simp
qed

subsection \<open>Captured inputs\<close>

lemma ascii_digest: "list_all lower_hex_byte (str_bytes t) \<Longrightarrow> ascii_profile (str_bytes t)"
  by (auto simp: ascii_profile_def list_all_iff lower_hex_byte_def is_ascii_digit_def word_le_nat_alt)

lemma sha_text: "digest_text (sha256_hex data)"
  by (simp add: sha256_hex_def hash_text)

lemma finished_rows_ok:
  assumes "rows_reachable b" "rows_finish b = Inr r"
  shows "rows_ok r \<and> digest_text (sr_row_digest r)"
proof -
  have r: "list_all texts_ok (sr_files r)" "sr_files r = sort_key sf_path (rb_files b)" "sr_byte_length r = rb_total b"
      "digest_text (sr_row_digest r)"
    using assms(2) by (auto simp: rows_finish_iff Let_def list_all_iff sha_text)
  have inv: "rows_inv b" using assms(1) by (rule rows_reachable_inv)
  then have "rb_total b = sum_list (map (length \<circ> sf_bytes) (sr_files r))"
    by (simp add: rows_inv_def r(2) sum_list_sort_key)
  moreover have "length (sf_byte_digest f) = 64" if "f \<in> set (sr_files r)" for f
    using that inv by (auto simp: r(2) rows_inv_def file_ok_def)
  ultimately show ?thesis
    using r by (auto simp: rows_ok_def list_all_iff texts_ok_def fits_text_def row_limits)
qed

lemma archive_body_reachable: "archive_body alloc rows body rows' \<Longrightarrow> rows_reachable rows \<Longrightarrow> rows_reachable rows'"
  by (induction rule: archive_body.induct) (auto intro: rows_reachable.push)

lemma archive_rows_ok:
  assumes "capture_archive alloc bs format expected = Inr r"
  shows "rows_ok r \<and> digest_text (sr_row_digest r)"
proof -
  obtain tar where "tar_archive alloc tar r"
    using assms tar_run_iff [of alloc bs r] captured_gzip [of bs alloc r]
    by (auto simp: capture_archive_def bnd_eq_Inr split: if_splits archive_format.splits)
  then obtain body rows where "archive_body alloc rows_new body rows" "rows_finish rows = Inr r"
    by (auto simp: tar_archive_def)
  then show ?thesis
    using finished_rows_ok archive_body_reachable rows_reachable.new by blast
qed

lemma fu_fold_inv:
  assumes "fu_fold f xs b s = Some (Inr c, t)" "P b"
    and "\<And>x b c s t. x \<in> set xs \<Longrightarrow> P b \<Longrightarrow> f x b s = Some (Inr c, t) \<Longrightarrow> P c"
  shows "P c"
  using assms
proof (induction xs arbitrary: b s)
  case (Cons x xs)
  then obtain d u where "f x b s = Some (Inr d, u)" "fu_fold f xs d u = Some (Inr c, t)" by (auto simp: io_simps)
  then show ?case using Cons by (metis list.set_intros)
qed (simp add: io_simps)

lemma entry_file_reachable:
  "capture_entry_file K directory entry path rows s = Some (Inr rows', t) \<Longrightarrow> rows_reachable rows \<Longrightarrow> rows_reachable rows'"
  by (auto simp: capture_entry_file_def io_simps Let_def intro: rows_reachable.push split: if_splits)

lemma entry_reachable:
  assumes "capture_entry descend K directory prefix depth entry b s = Some (Inr c, t)" "rows_reachable (snd (snd b))"
    and "\<And>child path st u st' v. depth < 32 \<Longrightarrow> descend child path st u = Some (Inr st', v) \<Longrightarrow>
       rows_reachable (snd st) \<Longrightarrow> rows_reachable (snd st')"
  shows "rows_reachable (snd (snd c))"
  using assms entry_file_reachable
  by (cases b) (fastforce simp: capture_entry_def io_simps Let_def split: if_splits)

lemma directory_reachable:
  "capture_directory fuel K directory prefix depth st s = Some (Inr st', t) \<Longrightarrow> rows_reachable (snd st) \<Longrightarrow>
     rows_reachable (snd st')"
proof (induction "32 - depth" arbitrary: directory prefix depth st s st' t rule: less_induct)
  case less
  let ?entry = "capture_entry (\<lambda>child path st. capture_directory fuel K child path (depth + 1) st) K directory prefix depth"
  obtain before c u v where fold: "fu_fold ?entry before ({}, st) u = Some (Inr c, v)" and st': "st' = snd c"
    using less.prems(1)
    by (subst (asm) capture_directory.simps) (auto simp: io_simps split: prod.splits if_splits)
  have "rows_reachable (snd (snd c))"
    using fold by (rule fu_fold_inv) (use less.prems(2) in \<open>auto elim!: entry_reachable intro: less.hyps [rotated]\<close>)
  then show ?case by (simp add: st')
qed

lemma overlay_plan_text: "capture_patch_overlay bs = Inr p \<Longrightarrow> digest_text (pl_digest p)"
  by (auto simp: capture_patch_overlay_def bnd_eq_Inr sha_text split: if_splits)

lemma carrier_set_text: "capture_patch_byte_carrier_set bs = Inr c \<Longrightarrow> digest_text (cs_digest c)"
  by (auto simp: capture_patch_byte_carrier_set_def bnd_eq_Inr sha_text split: if_splits prod.splits)

lemma valid_digest_text: "valid_digest t \<Longrightarrow> digest_text t"
  by (simp add: valid_digest_def digest_text_def ascii_digest)

lemma request_digest_text: "request_digest v key = Inr t \<Longrightarrow> digest_text t"
  by (auto simp: request_digest_def bnd_eq_Inr valid_digest_text split: if_splits)

lemma map_only_Inr:
  "(case v of Null \<Rightarrow> Inl m | Bool _ \<Rightarrow> Inl m | Unsigned _ \<Rightarrow> Inl m | Bytes _ \<Rightarrow> Inl m | Text _ \<Rightarrow> Inl m
      | Array _ \<Rightarrow> Inl m | Map entries \<Rightarrow> f entries) = Inr x \<longleftrightarrow> (\<exists>entries. v = Map entries \<and> f entries = Inr x)"
  by (cases v) simp_all

lemma captured_request_ok:
  assumes "capture_input_request bs = Inr r"
  shows "request_ok r"
proof -
  obtain v kind source overlay carrier where parts: "request_source v kind = Inr source"
      "request_digest v ''overlayByteDigest'' = Inr overlay" "request_digest v ''carrierByteDigest'' = Inr carrier"
    and r: "cr_source r = source" "cr_overlay_byte_digest r = overlay" "cr_carrier_byte_digest r = carrier"
      "cr_digest r = hex_string (sha_finalize (sha_update (sha_update sha_new CAPTURE_REQUEST_DOMAIN) bs))"
    using assms unfolding capture_input_request_def
    by (auto simp: bnd_eq_Inr map_only_Inr if_split_Inr Let_def)
  have "digest_text (overlay_base_digest source)"
    using parts(1) by (auto simp: request_source_def bnd_eq_Inr split: if_splits dest: request_digest_text)
  then show ?thesis
    using parts r by (auto simp: request_ok_def sha.two_hash hash_text dest: request_digest_text)
qed

lemma source_rows_ok:
  assumes "acquire_source fuel K root request s = Some (Inr r, t)"
  shows "rows_ok r \<and> digest_text (sr_row_digest r)"
proof (cases "cr_source request")
  case (Directory expected declared)
  then obtain st u v w b where "capture_directory fuel K b [] 0 (0, rows_new) u = Some (Inr st, v)" "rows_finish (snd st) = Inr r"
    using assms by (auto simp: acquire_source_def capture_source_directory_def io_simps split: if_splits prod.splits)
  then show ?thesis using directory_reachable finished_rows_ok rows_reachable.new by fastforce
next
  case (Archive format stream)
  then show ?thesis using assms archive_rows_ok by (auto simp: acquire_source_def io_simps)
qed

lemma measured_input_parsed: "measured_input K root path n d parse s = Some (Inr x, t) \<Longrightarrow> \<exists>bs. parse bs = Inr x"
  by (auto simp: measured_input_def io_simps map_err_def split: if_splits sum.splits)

text \<open>Whatever the kernel answered, the inputs captured for an admitted request can be sent whole.\<close>

lemma captured_inputs_ok:
  assumes "capture_input_request bs = Inr request" "capture_patch_inputs fuel K request s = Some (Inr i, t)"
  shows "inputs_ok i \<and> check_response_budget i = Inr ()"
proof -
  obtain overlay carrier source root u v w x y z where
      parts: "measured_input K root (cr_overlay_path request) (max_bytes WIRE) (cr_overlay_byte_digest request)
        capture_patch_overlay u = Some (Inr overlay, v)"
      "measured_input K root (cr_carrier_path request) MAX_CARRIER_SET_ENCODED_BYTES (cr_carrier_byte_digest request)
        capture_patch_byte_carrier_set w = Some (Inr carrier, x)"
      "acquire_source fuel K root request y = Some (Inr source, z)"
    and i: "i = \<lparr>pi_request = request, pi_source = source, pi_overlay = overlay, pi_carrier = carrier\<rparr>"
      "check_response_budget i = Inr ()"
    using assms(2) by (auto simp: capture_patch_inputs_def io_simps Let_def split: if_splits)
  then show ?thesis
    using captured_request_ok [OF assms(1)] source_rows_ok [OF parts(3)] measured_input_parsed [OF parts(1)]
      measured_input_parsed [OF parts(2)]
    by (auto simp: inputs_ok_def dest: overlay_plan_text carrier_set_text)
qed

subsection \<open>The response\<close>

text \<open>
  C31: the budget taken before the first frame is enough. For inputs as a capture leaves them
  (\<open>captured_inputs_ok\<close>) that pass \<open>check_response_budget\<close>, no frame of the response exceeds the limits of the
  encoder, of the frame count or of the total length: writing it fails only where the sink fails, and
  not at all on a sink that never does.
\<close>

theorem response_within_limits:
  assumes "inputs_ok i" "check_response_budget i = Inr ()"
  shows "case fst (write_response K out i s) of Inl e \<Rightarrow> e = Io \<and> \<not> never_fails K out | Inr _ \<Rightarrow> True"
  using response_sink_only [OF assms, of K out] by (auto simp: sink_only_def split: sum.splits)

text \<open>
  C32: a response is its records. On a sink that appends, the bytes sent are the frames of the header, of
  every source row with its chunks, of the overlay and of the carriers, in this order, followed by the end
  record, which names the SHA-256 of the response domain and of all the bytes sent before it.
\<close>

theorem response_is_stream:
  assumes "appends sent K out" "write_response K out i s = (Inr (), t)"
  shows "\<exists>body. body = stream (response_records i)
    \<and> sent t = sent s @ body @ frame_bytes (end_record (sha256_hex (CAPTURE_RESPONSE_DOMAIN @ body)))"
  using response_bytes [OF assms] by blast

text \<open>A capture of one file of three bytes, and a sink that keeps what it is given.\<close>

definition demo_captured :: patch_inputs where
  "demo_captured =
     \<lparr>pi_request = \<lparr>cr_root = ''/p'', cr_source_path = ''s'', cr_overlay_path = ''o'',
        cr_overlay_byte_digest = replicate 64 CHR ''1'', cr_carrier_path = ''c'',
        cr_carrier_byte_digest = replicate 64 CHR ''2'', cr_source = Archive Tar (replicate 64 CHR ''3''),
        cr_digest = replicate 64 CHR ''4''\<rparr>,
      pi_source = \<lparr>sr_files = [\<lparr>sf_path = ''lib.rs'', sf_mode = 0x1A4, sf_bytes = [1, 2, 3],
        sf_byte_digest = replicate 64 CHR ''5''\<rparr>], sr_byte_length = 3, sr_row_digest = replicate 64 CHR ''6''\<rparr>,
      pi_overlay = \<lparr>pl_overlay = \<lparr>ov_base_archive_digest = replicate 64 CHR ''3'', ov_operations = [], ov_rationale = ''r'',
        ov_result_tree_digest = replicate 64 CHR ''7'', ov_audit_plan_digest = replicate 64 CHR ''8''\<rparr>,
        pl_canonical = [0xa0], pl_digest = replicate 64 CHR ''9''\<rparr>,
      pi_carrier = \<lparr>cs_entries = [], cs_canonical = [0xa0], cs_digest = replicate 64 CHR ''a''\<rparr>\<rparr>"

definition demo_sink :: "(bytes, unit) kernel" where
  "demo_sink =
     \<lparr>sys_root = io_ret (), sys_openat2 = (\<lambda>f path how. io_ret ()), sys_fstat = (\<lambda>f. io_fail (Os EINVAL)),
      sys_fstatfs = (\<lambda>f. io_ret 0), sys_fstatvfs = (\<lambda>f. io_ret True), sys_statx = (\<lambda>f. io_ret (True, 1)),
      sys_dup = io_ret, sys_seek = (\<lambda>f n. io_ret ()), sys_read = (\<lambda>f n. io_ret []),
      sys_write_all = (\<lambda>f bs s. (Inr (), s @ bs)), sys_flush = (\<lambda>f. io_ret ()), sys_fsync = (\<lambda>f. io_ret ()),
      sys_fchmod = (\<lambda>f mode. io_ret ()), sys_mkdirat = (\<lambda>f name mode. io_ret ()), sys_rmdirat = (\<lambda>f name. io_ret ()),
      sys_memfd_create = (\<lambda>name flags. io_ret ()), sys_add_seals = (\<lambda>f seals. io_ret ()),
      sys_get_seals = (\<lambda>f. io_ret {}), sys_fdopendir = io_ret, sys_rewinddir = (\<lambda>f. io_ret ()),
      sys_readdir = (\<lambda>f. io_ret None), sys_geteuid = (\<lambda>s. 0), sys_getpid = (\<lambda>s. 7), may_reserve = (\<lambda>n s. True),
      PROC_SUPER_MAGIC = 0x9fa0, raw_fd = (\<lambda>f. 0)\<rparr>"

lemma demo_sink_keeps: "never_fails demo_sink ()" "appends (\<lambda>s. s) demo_sink ()"
  by (simp_all add: never_fails_def appends_def demo_sink_def io_ret_def)

lemma demo_captured_ok: "inputs_ok demo_captured" "check_response_budget demo_captured = Inr ()"
  by (simp_all add: demo_captured_def inputs_ok_def rows_ok_def request_ok_def digest_text_def ascii_profile_def list_all_iff
      str_bytes_def byte_of_char_Char check_response_budget_def div_ceil_def CAPTURE_CHUNK_BYTES_def
      MAX_CAPTURE_FRAMES_def MAX_CAPTURE_RESPONSE_BYTES_def)

theorem response_within_limits_witness: "is_ok (fst (write_response demo_sink () demo_captured []))"
  using response_within_limits [OF demo_captured_ok, of demo_sink "()" "[]"] demo_sink_keeps(1)
  by (auto split: sum.splits)

lemma demo_response: "\<exists>t. write_response demo_sink () demo_captured [] = (Inr (), t)"
proof -
  obtain r t where r: "write_response demo_sink () demo_captured [] = (r, t)" by fastforce
  then show ?thesis
    using response_sink_only [OF demo_captured_ok, of demo_sink "()", unfolded sink_only_def, rule_format, of "[]"]
      demo_sink_keeps(1) by (cases r) auto
qed

theorem response_is_stream_witness:
  "\<exists>t. write_response demo_sink () demo_captured [] = (Inr (), t)
    \<and> (\<exists>body. body = stream (response_records demo_captured)
         \<and> t = body @ frame_bytes (end_record (sha256_hex (CAPTURE_RESPONSE_DOMAIN @ body))))"
  using demo_response response_is_stream [OF demo_sink_keeps(2), of demo_captured "[]"] by auto

end
