(* ===== verification/Rust_Path.thy ===== *)
theory Rust_Path
  imports Rust_Bytes
begin

section \<open>Paths\<close>

text \<open>
  \<open>Path::parent\<close> and \<open>Path::file_name\<close> on text: the path without its last component, and that
  component, after trailing separators and \<open>.\<close> components. The empty path and the root have neither.
\<close>

fun trim_back :: "bool \<Rightarrow> string \<Rightarrow> string" where
  "trim_back root [] = []"
| "trim_back root (c # cs) =
     (if c = CHR ''/'' then (if root \<and> cs = [] then [c] else trim_back root cs)
      else if c = CHR ''.'' \<and> cs \<noteq> [] \<and> hd cs = CHR ''/'' then trim_back root cs
      else c # cs)"

definition path_parent :: "string \<Rightarrow> string option" where
  "path_parent path =
     (let root = starts_with path ''/''; body = trim_back root (rev path) in
      if body = [] \<or> (root \<and> body = ''/'') then None
      else Some (rev (trim_back root (dropWhile (\<lambda>c. c \<noteq> CHR ''/'') body))))"

definition path_file_name :: "string \<Rightarrow> string option" where
  "path_file_name path =
     (let root = starts_with path ''/''; body = trim_back root (rev path);
          name = rev (takeWhile (\<lambda>c. c \<noteq> CHR ''/'') body) in
      if body = [] \<or> (root \<and> body = ''/'') \<or> name = ''.'' \<or> name = ''..'' then None else Some name)"

lemma trim_back_length: "length (trim_back root cs) \<le> length cs"
  by (induction cs) auto

lemma trim_back_hd: "trim_back root cs = c # rest \<Longrightarrow> c \<noteq> CHR ''/'' \<or> (root \<and> rest = [])"
  by (induction cs) (auto split: if_splits)

lemma trim_back_suffix: "\<exists>front. cs = front @ trim_back root cs"
proof (induction cs)
  case (Cons c cs)
  then obtain front where "cs = front @ trim_back root cs" by blast
  then have "c # cs = (c # front) @ trim_back root cs" by simp
  then show ?case by (metis append_Nil trim_back.simps(2))
qed simp

lemma path_parent_shorter: "path_parent path = Some p \<Longrightarrow> length p < length path"
proof -
  assume p: "path_parent path = Some p"
  define root where "root = starts_with path ''/''"
  define body where "body = trim_back root (rev path)"
  have "body \<noteq> []" "\<not> (root \<and> body = ''/'')" and "p = rev (trim_back root (dropWhile (\<lambda>c. c \<noteq> CHR ''/'') body))"
    using p by (auto simp: path_parent_def root_def body_def Let_def split: if_splits)
  moreover from this obtain c rest where body: "body = c # rest" "c \<noteq> CHR ''/''"
    using trim_back_hd [of root "rev path"] by (cases body) (auto simp: body_def)
  moreover have "length (trim_back root (dropWhile (\<lambda>c. c \<noteq> CHR ''/'') rest)) \<le> length rest"
    using trim_back_length length_dropWhile_le by (rule order_trans)
  moreover have "length body \<le> length path" using trim_back_length [of root "rev path"] by (simp add: body_def)
  ultimately show "length p < length path" by simp
qed

text \<open>The parent of an absolute path is absolute.\<close>

lemma path_parent_prefix: "path_parent path = Some p \<Longrightarrow> \<exists>tail. path = p @ tail"
proof -
  assume p: "path_parent path = Some p"
  define root where "root = starts_with path ''/''"
  define body where "body = trim_back root (rev path)"
  have p: "p = rev (trim_back root (dropWhile (\<lambda>c. c \<noteq> CHR ''/'') body))"
    using p by (auto simp: path_parent_def root_def body_def Let_def split: if_splits)
  obtain f1 where f1: "rev path = f1 @ body" using trim_back_suffix [of "rev path" root] by (auto simp: body_def)
  obtain f2 where f2: "body = f2 @ dropWhile (\<lambda>c. c \<noteq> CHR ''/'') body" by (metis takeWhile_dropWhile_id)
  obtain f3 where f3: "dropWhile (\<lambda>c. c \<noteq> CHR ''/'') body = f3 @ rev p"
    using trim_back_suffix [of "dropWhile (\<lambda>c. c \<noteq> CHR ''/'') body" root] by (auto simp: p)
  have "rev path = (f1 @ f2 @ f3) @ rev p" using f1 f2 f3 by simp
  then have "path = p @ rev (f1 @ f2 @ f3)" by (metis rev_append rev_rev_ident)
  then show ?thesis by blast
qed

end
