(* ===== verification/Transport.thy ===== *)
theory Transport
  imports Wire_Protocol Sealed_Files Handoff Rust_Text Rust_Path
begin

section \<open>The seqpacket transport\<close>

text \<open>
  \<open>transport/src/lib.rs\<close>: the checks on the path and the peer of a Unix socket, the exchange of one
  packet each way, and the refusal the development server answers with. The sockets, the peer and the
  clock are fields of a record that extends the kernel; errors are the messages of the code. Every
  descriptor received with a packet is closed before the packet is refused.
\<close>

subsection \<open>The environment\<close>

datatype error_source = From_Std | From_Nix | From_Rustix

record peer_credentials =
  pe_pid :: int
  pe_uid :: u32
  pe_gid :: u32

datatype 'f ancillary = Scm_Rights "'f list" | Other_Ancillary
datatype recv_flag = RECV_CMSG_CLOEXEC | RECV_DONTWAIT | RECV_PEEK | RECV_TRUNC
datatype poll_flag = POLLIN | POLLHUP | POLLERR

text \<open>What a receive returns: the bytes copied into the buffer, the length of the packet, whether the
  packet or the control data were cut, and the ancillary messages.\<close>

record 'f received =
  rm_data :: bytes
  rm_length :: nat
  rm_truncated :: bool
  rm_ctruncated :: bool
  rm_ancillary :: "'f ancillary list"

record ('s, 'f) transport_os = "('s, 'f) kernel" +
  os_lstat :: "string \<Rightarrow> ('s, file_identity) io"
  os_statfs :: "string \<Rightarrow> ('s, u64) io"
  os_open_file :: "string \<Rightarrow> ('s, 'f) io"
  os_getegid :: "'s \<Rightarrow> u32"
  os_socketpair :: "('s, 'f \<times> 'f) io"
  os_socket :: "('s, 'f) io"
  os_address :: "string \<Rightarrow> (io_error, unit) res"
  os_bind :: "'f \<Rightarrow> string \<Rightarrow> ('s, unit) io"
  os_set_mode :: "string \<Rightarrow> u32 \<Rightarrow> ('s, unit) io"
  os_listen :: "'f \<Rightarrow> nat \<Rightarrow> ('s, unit) io"
  os_accept :: "'f \<Rightarrow> ('s, 'f) io"
  os_connect :: "'f \<Rightarrow> string \<Rightarrow> ('s, unit) io"
  os_peercred :: "'f \<Rightarrow> ('s, peer_credentials) io"
  os_peersec :: "'f \<Rightarrow> ('s, string) io"
  os_peerpidfd :: "'f \<Rightarrow> ('s, 'f) io"
  os_cloexec :: "'f \<Rightarrow> ('s, bool) io"
  os_poll :: "'f \<Rightarrow> poll_flag set \<Rightarrow> nat \<Rightarrow> ('s, nat) io"
  os_send :: "'f \<Rightarrow> bytes \<Rightarrow> ('s, nat) io"
  os_recvmsg :: "'f \<Rightarrow> nat \<Rightarrow> recv_flag set \<Rightarrow> ('s, 'f received) io"
  os_close :: "'f \<Rightarrow> 's \<Rightarrow> 's"
  os_remove_file :: "string \<Rightarrow> ('s, unit) io"
  os_now_ms :: "'s \<Rightarrow> nat option"
  os_current_exe :: "('s, string) io"
  os_read_file :: "string \<Rightarrow> ('s, bytes) io"
  os_read_text :: "string \<Rightarrow> ('s, string) io"
  os_shown :: "error_source \<Rightarrow> io_error \<Rightarrow> string"

type_synonym ('s, 'a) told = "('s, string, 'a) action"

text \<open>\<open>map_err(|error| format!("what: {error}"))\<close>.\<close>

definition told :: "('s, 'f) transport_os \<Rightarrow> error_source \<Rightarrow> string \<Rightarrow> ('s, 'a) io \<Rightarrow> ('s, 'a) told" where
  "told M source what m = io_map_err (\<lambda>e. what @ '': '' @ os_shown M source e) m"

definition require :: "bool \<Rightarrow> string \<Rightarrow> ('s, unit) told" where
  "require c message = (if c then io_ret () else io_fail message)"

lemma require_Inr [io_simps]: "require c message s = (Inr u, t) \<longleftrightarrow> c \<and> t = s"
  by (auto simp: require_def io_simps)

lemma told_Inr [io_simps]: "told M source what m s = (Inr x, t) \<longleftrightarrow> m s = (Inr x, t)"
  by (simp add: told_def io_simps)

subsection \<open>Constants\<close>

definition MAX_FRAME_BYTES :: nat where "MAX_FRAME_BYTES = 65536"
definition MAX_PEER_EXECUTABLE_BYTES :: nat where "MAX_PEER_EXECUTABLE_BYTES = 32 * 1024 * 1024"
definition SUPERVISOR_REQUEST_TIMEOUT_MS :: nat where "SUPERVISOR_REQUEST_TIMEOUT_MS = 2000"

subsection \<open>Measured files\<close>

definition require_live_pidfd :: "('s, 'f) transport_os \<Rightarrow> 'f \<Rightarrow> ('s, unit) told" where
  "require_live_pidfd M pidfd =
     io_bind (told M From_Nix ''peer pidfd poll'' (os_poll M pidfd {POLLIN} 0)) (\<lambda>ready.
       require (ready = 0) ''peer pidfd is not live'')"

definition require_procfs :: "('s, 'f) transport_os \<Rightarrow> string \<Rightarrow> ('s, unit) told" where
  "require_procfs M path =
     io_bind (told M From_Nix ''procfs identity'' (os_statfs M path)) (\<lambda>magic.
       require (magic = PROC_SUPER_MAGIC M) ''procfs identity mismatch'')"

definition the_kernel :: "('s, 'f) transport_os \<Rightarrow> ('s, 'f) kernel" where "the_kernel M = kernel.truncate M"

definition sha256_file_bounded_with_metadata ::
    "('s, 'f) transport_os \<Rightarrow> string \<Rightarrow> ('s, string \<times> file_identity) told" where
  "sha256_file_bounded_with_metadata M path =
     io_bind (told M From_Std ''open measured file'' (os_open_file M path)) (\<lambda>f.
     io_bind (told M From_Std ''measured file metadata'' (sys_fstat M f)) (\<lambda>metadata.
     io_bind (told M From_Std ''read measured file'' (read_to_limit (the_kernel M) f (MAX_PEER_EXECUTABLE_BYTES + 1))) (\<lambda>bs.
       if bs = [] \<or> length bs > MAX_PEER_EXECUTABLE_BYTES then io_fail ''measured file length is invalid''
       else io_ret (sha256_hex bs, metadata))))"

definition sha256_file_bounded :: "('s, 'f) transport_os \<Rightarrow> string \<Rightarrow> ('s, string) told" where
  "sha256_file_bounded M path = io_bind (sha256_file_bounded_with_metadata M path) (\<lambda>(digest, _). io_ret digest)"

subsection \<open>Paths\<close>

definition is_socket :: "file_identity \<Rightarrow> bool" where "is_socket i \<longleftrightarrow> fi_mode i AND S_IFMT = 0xC000"
definition is_symlink :: "file_identity \<Rightarrow> bool" where "is_symlink i \<longleftrightarrow> fi_mode i AND S_IFMT = 0xA000"

definition check_parent :: "('s, 'f) transport_os \<Rightarrow> string \<Rightarrow> u32 \<Rightarrow> u32 \<Rightarrow> ('s, unit) told" where
  "check_parent M path expected_uid expected_gid =
     io_bind (io_lift (ok_or ''socket path has no parent'' (path_parent path))) (\<lambda>parent.
     io_bind (told M From_Std ''socket parent'' (os_lstat M parent)) (\<lambda>metadata.
       if \<not> is_dir metadata \<or> is_symlink metadata then io_fail ''socket parent is not a real directory''
       else if uid metadata \<noteq> expected_uid \<or> gid metadata \<noteq> expected_gid
       then io_fail ''socket parent ownership mismatch''
       else if fi_mode metadata AND 0x3F \<noteq> 0 then io_fail ''socket parent must not grant group/other access''
       else io_ret ()))"

definition check_socket :: "('s, 'f) transport_os \<Rightarrow> string \<Rightarrow> u32 \<Rightarrow> u32 \<Rightarrow> ('s, unit) told" where
  "check_socket M path expected_uid expected_gid =
     io_bind (told M From_Std ''socket metadata'' (os_lstat M path)) (\<lambda>metadata.
       if \<not> is_socket metadata \<or> is_symlink metadata then io_fail ''transport endpoint is not a real socket''
       else if uid metadata \<noteq> expected_uid \<or> gid metadata \<noteq> expected_gid then io_fail ''socket ownership mismatch''
       else if fi_mode metadata AND 0x3F \<noteq> 0 then io_fail ''socket must not grant group/other access''
       else io_ret ())"

subsection \<open>The peer\<close>

definition pid_text :: "int \<Rightarrow> string" where
  "pid_text pid = (if pid < 0 then ''-'' else '''') @ dec_string (nat \<bar>pid\<bar>)"

definition expected_digest :: "string \<Rightarrow> bool" where
  "expected_digest t \<longleftrightarrow> length t = 64 \<and> list_all (\<lambda>b. is_ascii_hexdigit b \<and> \<not> is_ascii_uppercase b) (str_bytes t)"

text \<open>The executable of the peer, measured while its pidfd is live.\<close>

definition verify_executable ::
    "('s, 'f) transport_os \<Rightarrow> int \<Rightarrow> 'f \<Rightarrow> string \<Rightarrow> u64 option \<Rightarrow> ('s, unit) told" where
  "verify_executable M pid pidfd expected expected_device =
     (if \<not> expected_digest expected then io_fail ''expected peer executable digest is malformed''
      else
        io_bind (require_procfs M ''/proc'') (\<lambda>_.
        io_bind (sha256_file_bounded_with_metadata M (''/proc/'' @ pid_text pid @ ''/exe'')) (\<lambda>(digest, metadata).
        io_bind (require (case expected_device of
            None \<Rightarrow> True
          | Some dev \<Rightarrow> device metadata = dev \<and> uid metadata = 0 \<and> gid metadata = 0 \<and> fi_mode metadata AND 0x12 = 0)
            ''peer executable package identity mismatch'') (\<lambda>_.
        io_bind (require (digest = expected) ''peer executable measurement mismatch'') (\<lambda>_.
          require_live_pidfd M pidfd)))))"

definition verify_peer ::
    "('s, 'f) transport_os \<Rightarrow> 'f \<Rightarrow> u32 \<Rightarrow> u32 \<Rightarrow> string \<Rightarrow> string option \<Rightarrow> u64 option \<Rightarrow> ('s, unit) told" where
  "verify_peer M fd expected_uid expected_gid expected_label expected_sha256 expected_device =
     io_bind (told M From_Nix ''SO_PEERCRED'' (os_peercred M fd)) (\<lambda>credentials.
     if pe_uid credentials \<noteq> expected_uid \<or> pe_gid credentials \<noteq> expected_gid then io_fail ''peer credentials mismatch''
     else if expected_label = [] then io_fail ''expected peer security label is empty''
     else
       io_bind (told M From_Nix ''SO_PEERSEC'' (os_peersec M fd)) (\<lambda>label.
       if label \<noteq> expected_label then io_fail ''peer security label mismatch''
       else
         io_bind (told M From_Nix ''SO_PEERPIDFD'' (os_peerpidfd M fd)) (\<lambda>pidfd.
         io_bind (told M From_Nix ''peer pidfd F_GETFD'' (os_cloexec M pidfd)) (\<lambda>cloexec.
         if \<not> cloexec then io_fail ''peer pidfd is not CLOEXEC''
         else
           io_bind (require_live_pidfd M pidfd) (\<lambda>_.
             case expected_sha256 of
               None \<Rightarrow> io_ret ()
             | Some expected \<Rightarrow> verify_executable M (pe_pid credentials) pidfd expected expected_device)))))"

subsection \<open>Packets\<close>

definition close_rights :: "('s, 'f) transport_os \<Rightarrow> 'f list \<Rightarrow> 's \<Rightarrow> 's" where
  "close_rights M rights s = fold (os_close M) rights s"

fun all_rights :: "'f ancillary list \<Rightarrow> 'f list" where
  "all_rights [] = []"
| "all_rights (Scm_Rights rights # xs) = rights @ all_rights xs"
| "all_rights (Other_Ancillary # xs) = all_rights xs"

text \<open>
  Draining the control messages of a packet closes the rights they carry. On another kind of message the
  loop returns early; dropping the iterator closes what it has not reached.
\<close>

fun drain_rights :: "('s, 'f) transport_os \<Rightarrow> 'f ancillary list \<Rightarrow> bool \<Rightarrow> ('s, bool) told" where
  "drain_rights M [] received s = (Inr received, s)"
| "drain_rights M (Scm_Rights rights # xs) received s = drain_rights M xs True (close_rights M rights s)"
| "drain_rights M (Other_Ancillary # xs) received s =
     (Inl ''unexpected ancillary message'', close_rights M (all_rights xs) s)"

definition receive_packet :: "('s, 'f) transport_os \<Rightarrow> 'f \<Rightarrow> ('s, bytes) told" where
  "receive_packet M fd =
     io_bind (told M From_Rustix ''recvmsg'' (os_recvmsg M fd MAX_FRAME_BYTES {RECV_CMSG_CLOEXEC, RECV_TRUNC})) (\<lambda>message.
     io_bind (drain_rights M (rm_ancillary message) False) (\<lambda>received.
     if received then io_fail ''SCM_RIGHTS is forbidden''
     else if rm_truncated message \<or> rm_ctruncated message \<or> rm_length message > MAX_FRAME_BYTES
     then io_fail ''transport packet was truncated''
     else
       let buffer = take MAX_FRAME_BYTES (rm_data message @ replicate MAX_FRAME_BYTES 0);
           bs = take (rm_length message) buffer
       in if bs = [] then io_fail ''transport packet is empty'' else io_ret bs))"

definition wait_for_supervisor_request :: "('s, 'f) transport_os \<Rightarrow> 'f \<Rightarrow> ('s, unit) told" where
  "wait_for_supervisor_request M fd =
     io_bind (told M From_Nix ''request readiness poll''
         (os_poll M fd {POLLIN, POLLHUP, POLLERR} SUPERVISOR_REQUEST_TIMEOUT_MS)) (\<lambda>ready.
       require (ready \<noteq> 0) ''connected peer request timed out'')"

text \<open>The next packet is only looked at; that there is one is refused, after its rights are closed.\<close>

definition reject_queued_packet :: "('s, 'f) transport_os \<Rightarrow> 'f \<Rightarrow> ('s, unit) told" where
  "reject_queued_packet M fd = (\<lambda>s.
     (case os_recvmsg M fd 1 {RECV_CMSG_CLOEXEC, RECV_DONTWAIT, RECV_PEEK, RECV_TRUNC} s of
        (Inl e, t) \<Rightarrow>
          if e = Os EAGAIN then (Inr (), t) else (Inl (''peek next packet: '' @ os_shown M From_Rustix e), t)
      | (Inr message, t) \<Rightarrow>
          (Inl ''multiple transport packets are forbidden'', close_rights M (all_rights (rm_ancillary message)) t)))"

definition send_packet :: "('s, 'f) transport_os \<Rightarrow> 'f \<Rightarrow> bytes \<Rightarrow> ('s, unit) told" where
  "send_packet M fd bs =
     (if bs = [] \<or> length bs > MAX_FRAME_BYTES then io_fail ''transport packet length is invalid''
      else io_bind (told M From_Rustix ''send'' (os_send M fd bs)) (\<lambda>sent.
        require (sent = length bs) ''seqpacket send was partial''))"

subsection \<open>The refusal\<close>

definition required :: "val \<Rightarrow> string \<Rightarrow> val pres" where
  "required v key = ok_or (''request field missing: '' @ key) (val_field v key)"

text \<open>The admission of a request: a valid cancel request whose deadline has not passed.\<close>

definition admitted_request :: "bytes \<Rightarrow> val pres" where
  "admitted_request request_bytes =
     bnd (decode_canonical request_bytes WIRE) (\<lambda>request.
     bnd (validate_for request Development) (\<lambda>schema.
     if schema \<noteq> Request \<or> text_of request ''kind'' \<noteq> Some ''cancel''
     then Inl ''development transport accepts only cancel requests'' else Inr request))"

definition check_deadline :: "('s, 'f) transport_os \<Rightarrow> val \<Rightarrow> ('s, unit) told" where
  "check_deadline M request = (\<lambda>s.
     (case os_now_ms M s of
        None \<Rightarrow> (Inl ''system clock precedes Unix epoch'', s)
      | Some now \<Rightarrow>
          (bnd (required request ''deadlineMs'') (\<lambda>f.
           bnd (ok_or ''deadline is not an integer'' (as_u64 f)) (\<lambda>deadline.
             if unat deadline \<le> now then Inl ''request deadline expired'' else Inr ())), s)))"

definition refusal_value :: "val \<Rightarrow> bytes \<Rightarrow> string \<Rightarrow> val pres" where
  "refusal_value request artifact kernel_boot_id =
     bnd (required request ''requestId'') (\<lambda>request_id.
     bnd (native_boundary_request_digest request) (\<lambda>request_digest.
     bnd (required request ''deploymentId'') (\<lambda>deployment_id.
     bnd (required request ''bootId'') (\<lambda>boot_id.
     bnd (required request ''nonce'') (\<lambda>nonce.
     bnd (required request ''sequence'') (\<lambda>sequence.
       Inr (Map [(''protocol'', Text PROTOCOL_NAME), (''version'', Unsigned PROTOCOL_VERSION), (''requestId'', request_id),
         (''requestDigest'', Text request_digest), (''deploymentId'', deployment_id), (''bootId'', boot_id),
         (''nonce'', nonce), (''sequence'', sequence), (''helperArtifactDigest'', Text (sha256_hex artifact)),
         (''helperBuildId'', Text ''development.transport.v1''), (''kernelBootId'', Text kernel_boot_id),
         (''status'', Text ''refused''), (''roleHandles'', Array []), (''measurements'', Array []),
         (''failureCode'', Text ''evidence.unavailable.transport_only''), (''evidenceBundleDigest'', Null)])))))))"

definition refusal_for :: "('s, 'f) transport_os \<Rightarrow> bytes \<Rightarrow> ('s, bytes) told" where
  "refusal_for M request_bytes =
     io_bind (io_lift (admitted_request request_bytes)) (\<lambda>request.
     io_bind (check_deadline M request) (\<lambda>_.
     io_bind (told M From_Std ''current executable'' (os_current_exe M)) (\<lambda>executable.
     io_bind (told M From_Std ''read current executable'' (os_read_file M executable)) (\<lambda>artifact.
     io_bind (told M From_Std ''kernel boot id'' (os_read_text M ''/proc/sys/kernel/random/boot_id'')) (\<lambda>boot_id_text.
     io_bind (io_lift (refusal_value request artifact (str_trim boot_id_text))) (\<lambda>response.
     io_bind (io_lift (validate_for response Development)) (\<lambda>schema.
     if schema \<noteq> Response then io_fail ''constructed refusal is not a response''
     else io_lift (encode_bounded response WIRE))))))))"

subsection \<open>The exchange\<close>

record socket_path_guard =
  sg_path :: string
  sg_device :: u64
  sg_inode :: u64

definition guard_capture :: "('s, 'f) transport_os \<Rightarrow> string \<Rightarrow> ('s, socket_path_guard) told" where
  "guard_capture M path =
     io_bind (told M From_Std ''capture bound socket'' (os_lstat M path)) (\<lambda>metadata.
       if \<not> is_socket metadata \<or> is_symlink metadata then io_fail ''bound endpoint is not a real socket''
       else io_ret \<lparr>sg_path = path, sg_device = device metadata, sg_inode = inode metadata\<rparr>)"

definition guard_drop :: "('s, 'f) transport_os \<Rightarrow> socket_path_guard \<Rightarrow> 's \<Rightarrow> 's" where
  "guard_drop M g s =
     (case os_lstat M (sg_path g) s of
        (Inl _, t) \<Rightarrow> t
      | (Inr metadata, t) \<Rightarrow>
          if device metadata = sg_device g \<and> inode metadata = sg_inode g then snd (os_remove_file M (sg_path g) t) else t)"

text \<open>The guard is dropped when the scope ends, whatever its result.\<close>

definition guarded :: "('s, 'f) transport_os \<Rightarrow> socket_path_guard \<Rightarrow> ('s, 'a) told \<Rightarrow> ('s, 'a) told" where
  "guarded M g m = (\<lambda>s. let (r, t) = m s in (r, guard_drop M g t))"

definition serve_one_refusal :: "('s, 'f) transport_os \<Rightarrow> string \<Rightarrow> u32 \<Rightarrow> u32 \<Rightarrow> string \<Rightarrow> ('s, unit) told" where
  "serve_one_refusal M path expected_uid expected_gid expected_label =
     io_bind (\<lambda>s. check_parent M path (sys_geteuid M s) (os_getegid M s) s) (\<lambda>_.
     io_bind (\<lambda>s. case os_lstat M path s of
          (Inr _, t) \<Rightarrow> (Inl ''socket path already exists'', t) | (Inl _, t) \<Rightarrow> (Inr (), t)) (\<lambda>_.
     io_bind (told M From_Rustix ''socket'' (os_socket M)) (\<lambda>listener.
     io_bind (told M From_Rustix ''socket address'' (io_lift (os_address M path))) (\<lambda>_.
     io_bind (told M From_Rustix ''bind'' (os_bind M listener path)) (\<lambda>_.
     io_bind (guard_capture M path) (\<lambda>guard. guarded M guard (
       io_bind (told M From_Std ''socket permissions'' (os_set_mode M path 0x180)) (\<lambda>_.
       io_bind (told M From_Rustix ''listen'' (os_listen M listener 1)) (\<lambda>_.
       io_bind (told M From_Rustix ''accept'' (os_accept M listener)) (\<lambda>peer.
       io_bind (verify_peer M peer expected_uid expected_gid expected_label None None) (\<lambda>_.
       io_bind (wait_for_supervisor_request M peer) (\<lambda>_.
       io_bind (receive_packet M peer) (\<lambda>request.
       io_bind (reject_queued_packet M peer) (\<lambda>_.
       io_bind (refusal_for M request) (\<lambda>refusal.
         send_packet M peer refusal)))))))))))))))"

definition exchange_refusal ::
    "('s, 'f) transport_os \<Rightarrow> string \<Rightarrow> u32 \<Rightarrow> u32 \<Rightarrow> string \<Rightarrow> string \<Rightarrow> u64 option \<Rightarrow> bytes \<Rightarrow> ('s, bytes) told" where
  "exchange_refusal M path expected_uid expected_gid expected_label expected_sha256 expected_device request =
     io_bind (check_parent M path expected_uid expected_gid) (\<lambda>_.
     io_bind (check_socket M path expected_uid expected_gid) (\<lambda>_.
     io_bind (told M From_Rustix ''socket'' (os_socket M)) (\<lambda>peer.
     io_bind (told M From_Rustix ''socket address'' (io_lift (os_address M path))) (\<lambda>_.
     io_bind (told M From_Rustix ''connect'' (os_connect M peer path)) (\<lambda>_.
     io_bind (verify_peer M peer expected_uid expected_gid expected_label (Some expected_sha256) expected_device) (\<lambda>_.
     io_bind (send_packet M peer request) (\<lambda>_.
       receive_packet M peer)))))))"

subsection \<open>The probe\<close>

abbreviation ENOBUFS :: errno where "ENOBUFS \<equiv> Other_Errno 105"

record seqpacket_probe =
  sp_peer_pid :: int
  sp_peer_uid :: u32
  sp_peer_gid :: u32
  sp_label_nonempty :: bool
  sp_pidfd_cloexec :: bool
  sp_truncation_reported :: bool
  sp_full_packet_bytes :: nat
  sp_copied_packet_bytes :: nat

text \<open>
  \<open>RecvMsg::cmsgs\<close> refuses to iterate over cut control data. The rights it yields are plain numbers: dropping
  them closes nothing.
\<close>

definition cmsgs :: "'f received \<Rightarrow> ('s, 'f ancillary list) io" where
  "cmsgs message = (if rm_ctruncated message then io_fail (Os ENOBUFS) else io_ret (rm_ancillary message))"

definition probe_seqpacket_peer :: "('s, 'f) transport_os \<Rightarrow> ('s, seqpacket_probe) told" where
  "probe_seqpacket_peer M =
     io_bind (told M From_Nix ''socketpair'' (os_socketpair M)) (\<lambda>(left, right).
     io_bind (told M From_Nix ''SO_PEERCRED'' (os_peercred M left)) (\<lambda>peer.
     io_bind (told M From_Nix ''SO_PEERPIDFD'' (os_peerpidfd M left)) (\<lambda>peer_pidfd.
     io_bind (told M From_Nix ''SO_PEERSEC'' (os_peersec M left)) (\<lambda>label.
     io_bind (told M From_Nix ''pidfd F_GETFD'' (os_cloexec M peer_pidfd)) (\<lambda>cloexec.
     let payload = str_bytes ''keep-seqpacket'' in
     io_bind (told M From_Nix ''send seqpacket'' (os_send M right payload)) (\<lambda>sent.
     io_bind (require (sent = length payload) ''seqpacket send was partial'') (\<lambda>_.
     io_bind (told M From_Nix ''recvmsg seqpacket'' (os_recvmsg M left 4 {RECV_CMSG_CLOEXEC, RECV_TRUNC})) (\<lambda>message.
     io_bind (told M From_Nix ''cmsgs'' (cmsgs message)) (\<lambda>controls.
     if list_ex (\<lambda>a. case a of Scm_Rights _ \<Rightarrow> True | _ \<Rightarrow> False) controls
     then io_fail ''unexpected SCM_RIGHTS''
     else
       io_ret \<lparr>sp_peer_pid = pe_pid peer, sp_peer_uid = pe_uid peer, sp_peer_gid = pe_gid peer,
         sp_label_nonempty = (label \<noteq> []), sp_pidfd_cloexec = cloexec, sp_truncation_reported = rm_truncated message,
         sp_full_packet_bytes = rm_length message, sp_copied_packet_bytes = 4\<rparr>)))))))))"

subsection \<open>Frames on the standard streams\<close>

definition read_framed :: "('s, 'f) transport_os \<Rightarrow> 'f \<Rightarrow> ('s, bytes) told" where
  "read_framed M input =
     io_bind (told M From_Std ''read frame'' (read_to_limit (the_kernel M) input (MAX_FRAME_BYTES + 5))) (\<lambda>framed.
     if length framed < 4 then io_fail ''frame header is truncated''
     else
       let len = unat (from_be_bytes (take 4 framed) :: u32) in
       if len = 0 \<or> len > MAX_FRAME_BYTES \<or> length framed \<noteq> len + 4 then io_fail ''frame length is invalid''
       else io_ret (drop 4 framed))"

definition write_framed :: "('s, 'f) transport_os \<Rightarrow> 'f \<Rightarrow> bytes \<Rightarrow> ('s, unit) told" where
  "write_framed M out bs =
     (if bs = [] \<or> length bs > MAX_FRAME_BYTES then io_fail ''frame length is invalid''
      else
        io_bind (told M From_Std ''write frame'' (sys_write_all M out (to_be_bytes 4 (of_nat (length bs) :: u32)))) (\<lambda>_.
        io_bind (told M From_Std ''write frame'' (sys_write_all M out bs)) (\<lambda>_.
          told M From_Std ''flush frame'' (sys_flush M out))))"

end
