(* ===== verification/Transport_Props.thy ===== *)
theory Transport_Props
  imports Transport
begin

section \<open>What the transport lets through\<close>

text \<open>
  A packet is delivered only when it came whole and alone; the descriptors it carried are closed whether it
  is delivered or not. A request is answered only by a refusal that names it. A frame is read exactly
  when it is what \<open>write_framed\<close> would have written.
\<close>

subsection \<open>Packets\<close>

lemma close_rights_append: "close_rights M (xs @ ys) s = close_rights M ys (close_rights M xs s)"
  by (simp add: close_rights_def)

lemma drain_rights_closes: "snd (drain_rights M xs received s) = close_rights M (all_rights xs) s"
proof (induction M xs received s rule: drain_rights.induct)
  case (2 M rights xs received s)
  then show ?case by (simp add: close_rights_append)
qed (simp_all add: close_rights_def)

lemma drain_rights_unseen: "fst (drain_rights M xs received s) = Inr False \<longleftrightarrow> xs = [] \<and> \<not> received"
proof (induction M xs received s rule: drain_rights.induct)
  case (2 M rights xs received s)
  then show ?case by simp
qed simp_all

text \<open>
  C33: receiving leaves no descriptor behind. Whatever the kernel returns for a packet, every right it
  carries is closed, and nothing else happens to the state; and the packet is delivered exactly when it has no
  ancillary message, was not cut, is not empty and fits a frame.
\<close>

theorem received_rights_closed:
  "case os_recvmsg M fd MAX_FRAME_BYTES {RECV_CMSG_CLOEXEC, RECV_TRUNC} s of
     (Inl e, t) \<Rightarrow> receive_packet M fd s = (Inl (''recvmsg: '' @ os_shown M From_Rustix e), t)
   | (Inr m, t) \<Rightarrow>
       snd (receive_packet M fd s) = close_rights M (all_rights (rm_ancillary m)) t
       \<and> (is_ok (fst (receive_packet M fd s)) \<longleftrightarrow>
            rm_ancillary m = [] \<and> \<not> rm_truncated m \<and> \<not> rm_ctruncated m \<and> 0 < rm_length m \<and> rm_length m \<le> MAX_FRAME_BYTES)"
proof (cases "os_recvmsg M fd MAX_FRAME_BYTES {RECV_CMSG_CLOEXEC, RECV_TRUNC} s")
  case (Pair r t)
  show ?thesis
  proof (cases r)
    case (Inl e)
    then show ?thesis using Pair by (simp add: receive_packet_def told_def)
  next
    case (Inr m)
    obtain d u where drain: "drain_rights M (rm_ancillary m) False t = (d, u)" by fastforce
    have u: "u = close_rights M (all_rights (rm_ancillary m)) t" and
      d: "d = Inr False \<longleftrightarrow> rm_ancillary m = []"
      using drain_rights_closes [of M "rm_ancillary m" False t] drain_rights_unseen [of M "rm_ancillary m" False t]
      by (simp_all add: drain)
    show ?thesis
      using Pair Inr drain d u
      by (cases d) (auto simp: receive_packet_def told_def Let_def MAX_FRAME_BYTES_def is_ok_iff)
  qed
qed

subsection \<open>The answer to a request\<close>

text \<open>The fields of a response that tie it to a request.\<close>

definition answers :: "val \<Rightarrow> val \<Rightarrow> bool" where
  "answers response request \<longleftrightarrow>
     list_all (\<lambda>key. val_field response key = val_field request key \<and> val_field request key \<noteq> None)
       [''requestId'', ''deploymentId'', ''bootId'', ''nonce'', ''sequence'']
     \<and> map_option Inr (text_of response ''requestDigest'') = Some (native_boundary_request_digest request)"

definition refuses :: "val \<Rightarrow> bool" where
  "refuses response \<longleftrightarrow>
     text_of response ''status'' = Some ''refused'' \<and> val_field response ''roleHandles'' = Some (Array [])
     \<and> val_field response ''measurements'' = Some (Array [])
     \<and> text_of response ''failureCode'' = Some ''evidence.unavailable.transport_only''
     \<and> val_field response ''evidenceBundleDigest'' = Some Null"

lemma refusal_value_answers:
  assumes "refusal_value request artifact kernel_boot_id = Inr response"
  shows "answers response request \<and> refuses response"
  using assms
  by (auto simp: refusal_value_def bnd_eq_Inr required_def answers_def refuses_def text_of_def)

lemma val_field_canon:
  assumes "encodable v"
  shows "val_field (canon v) key = map_option canon (val_field v key)"
proof (cases v)
  case (Map es)
  have distinct: "distinct (map fst es)" using assms by (simp add: Map)
  then have "distinct (map fst (sort_key entry_key es))" by (simp add: distinct_map)
  then have "map_of (sort_key entry_key es) = map_of es"
    using distinct by (simp add: map_of_inject_set)
  moreover have "map_of (map (\<lambda>kv. (fst kv, canon (snd kv))) xs) key = map_option canon (map_of xs key)" for xs
    by (induction xs) auto
  ultimately show ?thesis by (simp add: Map)
qed simp_all

lemma text_of_canon: "encodable v \<Longrightarrow> text_of (canon v) key = text_of v key"
proof -
  have "as_text (canon x) = as_text x" for x by (cases x) simp_all
  then show "encodable v \<Longrightarrow> text_of (canon v) key = text_of v key"
    by (cases "val_field v key") (simp_all add: text_of_def val_field_canon)
qed

lemma answers_canon:
  assumes "answers response request" "canon request = request" "encodable request" "encodable response"
  shows "answers (canon response) request"
proof -
  have own: "canon x = x" if "val_field request key = Some x" for key x
    using val_field_canon [OF assms(3), of key] assms(2) that by simp
  have "val_field (canon response) key = val_field request key"
    if "val_field response key = val_field request key" "val_field request key \<noteq> None" for key
    using that own [of key] by (auto simp: val_field_canon [OF assms(4)])
  then show ?thesis using assms(1) by (auto simp: answers_def text_of_canon [OF assms(4)])
qed

lemma refuses_canon: "refuses response \<Longrightarrow> encodable response \<Longrightarrow> refuses (canon response)"
  by (simp add: refuses_def text_of_canon val_field_canon)

text \<open>
  C34: the server answers only a request it may answer, and only by refusing it. Whatever it sends back is the
  canonical encoding of a response that repeats the identity, nonce and sequence of the request and
  names its digest, has status refused, no role handles and no measurements; and the request was
  canonical, valid, a cancel request, and its deadline had not passed. Every other input is an error.
\<close>

theorem refusal_answers:
  "case refusal_for M request_bytes s of
     (Inl message, _) \<Rightarrow> True
   | (Inr sent, _) \<Rightarrow>
       \<exists>request answer now deadline. decode_canonical request_bytes WIRE = Inr request
         \<and> validate_for request Development = Inr Request \<and> text_of request ''kind'' = Some ''cancel''
         \<and> os_now_ms M s = Some now \<and> val_field request ''deadlineMs'' = Some (Unsigned deadline) \<and> now < unat deadline
         \<and> decode_canonical sent WIRE = Inr answer \<and> answers answer request \<and> refuses answer"
proof (cases "refusal_for M request_bytes s")
  case (Pair r t)
  show ?thesis
  proof (cases r)
    case (Inr sent)
    obtain request u artifact boot response where run: "admitted_request request_bytes = Inr request"
        "check_deadline M request s = (Inr (), u)" "refusal_value request artifact boot = Inr response"
        "encode_bounded response WIRE = Inr sent"
      using Pair Inr by (auto simp: refusal_for_def io_simps split: if_splits)
    have request: "decode_canonical request_bytes WIRE = Inr request" "validate_for request Development = Inr Request"
        "text_of request ''kind'' = Some ''cancel''"
      using run(1) by (auto simp: admitted_request_def bnd_eq_Inr split: if_splits)
    then have canonical: "canon request = request" "encodable request"
      by (auto simp: decode_canonical_iff [OF usize_limits_profiles(1)] encode_bounded_iff [OF usize_limits_profiles(1)])
    have encodable: "encodable response" using run(4) by (simp add: encode_bounded_iff [OF usize_limits_profiles(1)])
    have "decode_canonical sent WIRE = Inr (canon response)"
      using run(4) by (simp add: decode_canonical_iff [OF usize_limits_profiles(1)] encode_canon_ok [OF usize_limits_profiles(1)])
    moreover have "\<exists>now deadline. os_now_ms M s = Some now \<and> val_field request ''deadlineMs'' = Some (Unsigned deadline)
        \<and> now < unat deadline"
      using run(2) by (auto simp: check_deadline_def required_def bnd_eq_Inr not_le split: option.splits if_splits elim: as_u64.elims)
    ultimately show ?thesis
      using Pair Inr request refusal_value_answers [OF run(3)] answers_canon [OF _ canonical encodable] refuses_canon [OF _ encodable]
      by auto
  qed (use Pair in simp)
qed

subsection \<open>Frames\<close>

definition frame :: "bytes \<Rightarrow> bytes" where "frame bs = to_be_bytes 4 (of_nat (length bs) :: u32) @ bs"

lemma frame_length_word: "length bs \<le> MAX_FRAME_BYTES \<Longrightarrow> unat (of_nat (length bs) :: u32) = length bs"
  by (simp add: MAX_FRAME_BYTES_def unsigned_of_nat take_bit_nat_eq_self_iff)

text \<open>\<open>read_framed\<close> delivers exactly the non-empty bounded bytes that come as one frame and nothing more.\<close>

lemma read_framed_iff:
  "read_framed M input s = (Inr bs, t) \<longleftrightarrow>
     bs \<noteq> [] \<and> length bs \<le> MAX_FRAME_BYTES
     \<and> read_to_limit (the_kernel M) input (MAX_FRAME_BYTES + 5) s = (Inr (frame bs), t)" (is "?run \<longleftrightarrow> ?spec")
proof
  assume ?run
  then obtain framed where f: "read_to_limit (the_kernel M) input (MAX_FRAME_BYTES + 5) s = (Inr framed, t)"
      "4 \<le> length framed" "bs = drop 4 framed" and len: "0 < unat (from_be_bytes (take 4 framed) :: u32)"
      "unat (from_be_bytes (take 4 framed) :: u32) \<le> MAX_FRAME_BYTES" "length framed = unat (from_be_bytes (take 4 framed) :: u32) + 4"
    by (auto simp: read_framed_def io_simps Let_def split: if_splits)
  have "to_be_bytes 4 (from_be_bytes (take 4 framed) :: u32) = take 4 framed"
    using f(2) to_from_be_bytes [where 'a = 32 and bs = "take 4 framed"] by simp
  moreover have "(of_nat (length bs) :: u32) = from_be_bytes (take 4 framed)"
    using len(3) f(3) by simp
  ultimately have "frame bs = framed" using f(3) by (simp add: frame_def)
  then show ?spec using f len by auto
next
  assume ?spec
  moreover have "from_be_bytes (to_be_bytes 4 (of_nat (length bs) :: u32)) = (of_nat (length bs) :: u32)"
    by (rule from_to_be_bytes) simp
  ultimately show ?run
    by (simp add: read_framed_def io_simps Let_def frame_def frame_length_word)
qed

text \<open>\<open>write_framed\<close> hands the sink exactly that frame, in two writes, and then flushes it.\<close>

lemma write_framed_iff:
  "write_framed M out bs s = (Inr (), t) \<longleftrightarrow>
     bs \<noteq> [] \<and> length bs \<le> MAX_FRAME_BYTES
     \<and> (\<exists>head u v. frame bs = head @ bs \<and> length head = 4 \<and> sys_write_all M out head s = (Inr (), u)
          \<and> sys_write_all M out bs u = (Inr (), v) \<and> sys_flush M out v = (Inr (), t))"
  by (auto simp: write_framed_def io_simps frame_def split: if_splits)

end
