(* ===== verification/Host_Fs.thy ===== *)
theory Host_Fs
  imports Sealed_Files Rust_Text
begin

section \<open>The host of the launcher and the supervisors\<close>

text \<open>
  What the programs that run on the host ask of it beyond the pinned descriptors: files and directories by
  path, the process table, the environment, the clock and the random source. It is a record that extends
  the kernel; each field is one call of \<open>std\<close> (or one system call), a function of the state. A directory
  listing gives each entry as a result, since reading the next entry can fail; names are text.
\<close>

datatype pidfd_event = Readable | Hung_Up | Not_Open
datatype signal = SIGTERM | SIGKILL | Other_Signal nat

record ('s, 'f) host = "('s, 'f) kernel" +
  fs_read :: "string \<Rightarrow> ('s, bytes) io"
  fs_metadata :: "string \<Rightarrow> ('s, file_identity) io"
  fs_symlink_metadata :: "string \<Rightarrow> ('s, file_identity) io"
  fs_read_dir :: "string \<Rightarrow> ('s, (io_error, string) res list) io"
  fs_read_link :: "string \<Rightarrow> ('s, string) io"
  fs_create_dir :: "string \<Rightarrow> ('s, unit) io"
  fs_create_dir_all :: "string \<Rightarrow> ('s, unit) io"
  fs_set_permissions :: "string \<Rightarrow> u32 \<Rightarrow> ('s, unit) io"
  fs_chown :: "string \<Rightarrow> u32 \<Rightarrow> u32 \<Rightarrow> ('s, unit) io"
  fs_rename :: "string \<Rightarrow> string \<Rightarrow> ('s, unit) io"
  fs_write :: "string \<Rightarrow> bytes \<Rightarrow> ('s, unit) io"
  fs_remove_file :: "string \<Rightarrow> ('s, unit) io"
  fs_remove_dir :: "string \<Rightarrow> ('s, unit) io"
  fs_remove_dir_all :: "string \<Rightarrow> ('s, unit) io"
  fs_create_new :: "string \<Rightarrow> ('s, 'f) io"
  fs_open :: "string \<Rightarrow> bool \<Rightarrow> bool \<Rightarrow> ('s, 'f) io"
  sys_getfd :: "'f \<Rightarrow> ('s, u32) io"
  sys_setfd :: "'f \<Rightarrow> u32 \<Rightarrow> ('s, unit) io"
  sys_execveat :: "'f \<Rightarrow> string list \<Rightarrow> string list \<Rightarrow> ('s, unit) io"
  sys_pidfd_open :: "nat \<Rightarrow> ('s, 'f) io"
  sys_pidfd_poll :: "'f \<Rightarrow> ('s, nat \<times> pidfd_event set) io"
  sys_pidfd_send_signal :: "'f \<Rightarrow> signal \<Rightarrow> ('s, unit) io"
  os_variable :: "string \<Rightarrow> 's \<Rightarrow> string option"
  os_clock :: "'s \<Rightarrow> nat"
  os_sleep :: "nat \<Rightarrow> 's \<Rightarrow> 's"

abbreviation EEXIST :: errno where "EEXIST \<equiv> Other_Errno 17"
abbreviation ENOENT :: errno where "ENOENT \<equiv> Other_Errno 2"
abbreviation EACCES :: errno where "EACCES \<equiv> Other_Errno 13"

definition host_kernel :: "('s, 'f, 'm) host_scheme \<Rightarrow> ('s, 'f) kernel" where "host_kernel H = kernel.truncate H"

definition fs_read_to_string :: "('s, 'f, 'm) host_scheme \<Rightarrow> string \<Rightarrow> ('s, string) io" where
  "fs_read_to_string H path =
     io_bind (fs_read H path) (\<lambda>bs.
       if valid_utf8 bs then io_ret (bytes_str bs) else io_invalid ''stream did not contain valid UTF-8'')"

definition is_link :: "file_identity \<Rightarrow> bool" where "is_link i \<longleftrightarrow> fi_mode i AND S_IFMT = 0xA000"

text \<open>Questions whose answer is never an error.\<close>

definition succeeds :: "('s, 'e, 'a) action \<Rightarrow> ('a \<Rightarrow> bool) \<Rightarrow> 's \<Rightarrow> bool \<times> 's" where
  "succeeds m p s = (case m s of (Inl _, t) \<Rightarrow> (False, t) | (Inr x, t) \<Rightarrow> (p x, t))"

definition path_exists :: "('s, 'f, 'm) host_scheme \<Rightarrow> string \<Rightarrow> 's \<Rightarrow> bool \<times> 's" where
  "path_exists H path = succeeds (fs_metadata H path) (\<lambda>_. True)"

definition answering :: "('s \<Rightarrow> 'a \<times> 's) \<Rightarrow> ('s, 'e, 'a) action" where
  "answering m = (\<lambda>s. let (x, t) = m s in (Inr x, t))"

lemma answering_Inr [io_simps]: "answering m s = (Inr y, t) \<longleftrightarrow> m s = (y, t)"
  by (auto simp: answering_def split: prod.splits)

text \<open>\<open>let _ = \<close>: the result of the call is dropped.\<close>

definition ignoring :: "('s, 'e, 'a) action \<Rightarrow> 's \<Rightarrow> 's" where "ignoring m s = snd (m s)"

text \<open>\<open>Iterator::all\<close> over calls: it stops at the first that is not true.\<close>

fun all_m :: "('a \<Rightarrow> 's \<Rightarrow> bool \<times> 's) \<Rightarrow> 'a list \<Rightarrow> 's \<Rightarrow> bool \<times> 's" where
  "all_m p [] s = (True, s)"
| "all_m p (x # xs) s = (let (b, t) = p x s in if b then all_m p xs t else (False, t))"

text \<open>A call for every element, collecting the results; the first error ends it.\<close>

fun io_traverse :: "('a \<Rightarrow> ('s, 'e, 'b) action) \<Rightarrow> 'a list \<Rightarrow> ('s, 'e, 'b list) action" where
  "io_traverse f [] = io_ret []"
| "io_traverse f (x # xs) = io_bind (f x) (\<lambda>y. io_bind (io_traverse f xs) (\<lambda>ys. io_ret (y # ys)))"

text \<open>\<open>Path::join\<close>.\<close>

definition path_join :: "string \<Rightarrow> string \<Rightarrow> string" where
  "path_join a b = (if starts_with b ''/'' then b else if a = [] \<or> ends_with a ''/'' then a @ b else a @ ''/'' @ b)"

text \<open>\<open>create_dir_all\<close>, owner-only mode, and the check that the directory is private to root.\<close>

definition private_root :: "('s, 'f, 'm) host_scheme \<Rightarrow> string \<Rightarrow> ('s, bool) io" where
  "private_root H path =
     io_bind (fs_create_dir_all H path) (\<lambda>_.
     io_bind (fs_set_permissions H path 0x1C0) (\<lambda>_.
     io_bind (fs_symlink_metadata H path) (\<lambda>metadata.
       io_ret (is_dir metadata \<and> \<not> is_link metadata \<and> uid metadata = 0 \<and> gid metadata = 0
         \<and> fi_mode metadata AND 0x1FF = 0x1C0))))"

subsection \<open>A host that refuses everything\<close>

text \<open>The concrete hosts of the witnesses update the calls a run makes.\<close>

abbreviation no_call :: "('s, 'a) io" where "no_call \<equiv> io_fail (Os ENOSYS)"

definition refusing_host :: "('s, nat) host" where
  "refusing_host =
     \<lparr>sys_root = no_call, sys_openat2 = (\<lambda>_ _ _. no_call), sys_fstat = (\<lambda>_. no_call), sys_fstatfs = (\<lambda>_. no_call),
      sys_fstatvfs = (\<lambda>_. no_call), sys_statx = (\<lambda>_. no_call), sys_dup = (\<lambda>_. no_call), sys_seek = (\<lambda>_ _. no_call),
      sys_read = (\<lambda>_ _. no_call), sys_write_all = (\<lambda>_ _. no_call), sys_flush = (\<lambda>_. no_call), sys_fsync = (\<lambda>_. no_call),
      sys_fchmod = (\<lambda>_ _. no_call), sys_mkdirat = (\<lambda>_ _ _. no_call), sys_rmdirat = (\<lambda>_ _. no_call),
      sys_memfd_create = (\<lambda>_ _. no_call), sys_add_seals = (\<lambda>_ _. no_call), sys_get_seals = (\<lambda>_. no_call),
      sys_fdopendir = (\<lambda>_. no_call), sys_rewinddir = (\<lambda>_. no_call), sys_readdir = (\<lambda>_. no_call), sys_geteuid = (\<lambda>_. 0),
      sys_getpid = (\<lambda>_. 0), may_reserve = (\<lambda>_ _. False), PROC_SUPER_MAGIC = 0x9fa0, raw_fd = id,
      fs_read = (\<lambda>_. no_call), fs_metadata = (\<lambda>_. no_call), fs_symlink_metadata = (\<lambda>_. no_call),
      fs_read_dir = (\<lambda>_. no_call), fs_read_link = (\<lambda>_. no_call), fs_create_dir = (\<lambda>_. no_call),
      fs_create_dir_all = (\<lambda>_. no_call), fs_set_permissions = (\<lambda>_ _. no_call), fs_chown = (\<lambda>_ _ _. no_call),
      fs_rename = (\<lambda>_ _. no_call), fs_write = (\<lambda>_ _. no_call), fs_remove_file = (\<lambda>_. no_call),
      fs_remove_dir = (\<lambda>_. no_call), fs_remove_dir_all = (\<lambda>_. no_call), fs_create_new = (\<lambda>_. no_call),
      fs_open = (\<lambda>_ _ _. no_call), sys_getfd = (\<lambda>_. no_call),
      sys_setfd = (\<lambda>_ _. no_call), sys_execveat = (\<lambda>_ _ _. no_call), sys_pidfd_open = (\<lambda>_. no_call),
      sys_pidfd_poll = (\<lambda>_. no_call), sys_pidfd_send_signal = (\<lambda>_ _. no_call), os_variable = (\<lambda>_ _. None), os_clock = (\<lambda>_. 0),
      os_sleep = (\<lambda>_ s. s)\<rparr>"

end
