(* ===== verification/Candidate_Observe.thy ===== *)
theory Candidate_Observe
  imports Host_Fs Prober_Launcher Landlock_Ruleset Handoff
begin

section \<open>Observations of a running candidate\<close>

text \<open>
  The module \<open>candidate_probe\<close> of \<open>prober-launcher/src/lib.rs\<close>, its first part: what is observed of the VMM
  while it runs (the Landlock marker, the seccomp filters of every thread, the namespaces, the
  descriptors) and the lease of a user id. The errors are boxed in the code; here they are one datatype.
\<close>

datatype probe_error = Io io_error | Told string | Refused candidate_refusal | Bad_Number | Bad_Utf8

type_synonym ('s, 'a) probe = "('s, probe_error, 'a) action"

definition io_q :: "('s, 'a) io \<Rightarrow> ('s, 'a) probe" where "io_q = io_map_err Io"

abbreviation tell :: "bool \<Rightarrow> string \<Rightarrow> ('s, unit) probe" where
  "tell c message \<equiv> (if c then io_fail (Told message) else io_ret ())"

subsection \<open>Seccomp and Landlock\<close>

definition POLICY_SOURCE_SHA256 :: string where
  "POLICY_SOURCE_SHA256 = ''1b683d5c9fc51174ab1926b84aaf10dc2164678f6c2fe7c38a910556d7b5dc39''"
definition COMPILER_SHA256 :: string where
  "COMPILER_SHA256 = ''0a6d20e734f0e6c1d9cf8372fdc478675f301219c141064e4cea9c0582e37cc8''"
definition COMPILED_POLICY_SHA256 :: string where
  "COMPILED_POLICY_SHA256 = ''6a6dfed43d1417a244a999f5bd63679173bf03254dd50f19a9ac4db160c6b0fc''"

record seccomp_observation =
  so_policy_source_sha256 :: string
  so_compiler_sha256 :: string
  so_compiled_policy_sha256 :: string
  so_target_architecture :: string
  so_live_thread_count :: nat
  so_filters_per_thread :: nat

definition verify_seccomp :: "seccomp_observation \<Rightarrow> unit cres" where
  "verify_seccomp ob =
     (if so_policy_source_sha256 ob \<noteq> POLICY_SOURCE_SHA256 \<or> so_compiler_sha256 ob \<noteq> COMPILER_SHA256
         \<or> so_compiled_policy_sha256 ob \<noteq> COMPILED_POLICY_SHA256 \<or> so_target_architecture ob \<noteq> ''x86_64''
         \<or> so_live_thread_count ob < 2 \<or> so_filters_per_thread ob \<noteq> 1
      then Inl DirectProcessFailed else Inr ())"

record candidate_landlock =
  kl_abi :: nat
  kl_handled_filesystem :: nat
  kl_handled_network :: nat
  kl_scoped :: nat
  kl_denied_write_errno :: nat
  kl_denied_create_errno :: nat

definition verify_landlock :: "candidate_landlock \<Rightarrow> unit cres" where
  "verify_landlock ob =
     bnd (map_err (\<lambda>_. DirectProcessFailed) (reviewed_landlock_policy (of_nat (kl_abi ob)))) (\<lambda>expected.
       if kl_abi ob < 4 \<or> kl_handled_filesystem ob \<noteq> unat (handled_filesystem expected)
          \<or> kl_handled_network ob \<noteq> unat (handled_network expected) \<or> kl_scoped ob \<noteq> unat (lo_scoped expected)
          \<or> kl_denied_write_errno ob \<noteq> 13 \<or> kl_denied_create_errno ob \<noteq> 13
       then Inl DirectProcessFailed else Inr ())"

definition parse_canonical_hex_u64 :: "string \<Rightarrow> (probe_error, nat) res" where
  "parse_canonical_hex_u64 value =
     bnd (ok_or Bad_Number (parse_hex (2 ^ 64 - 1) value)) (\<lambda>parsed.
       if value = [] \<or> list_ex (\<lambda>b. \<not> is_ascii_hexdigit b \<or> is_ascii_uppercase b) (str_bytes value)
          \<or> hex_nat parsed \<noteq> value
       then Inl (Told ''Landlock marker mask is not canonical lowercase hexadecimal'') else Inr parsed)"

definition marker_field :: "string list \<Rightarrow> nat \<Rightarrow> string \<Rightarrow> (probe_error, string) res" where
  "marker_field fs index prefix = ok_or (Told ''Landlock activation marker key differs'') (strip_prefix (fs ! index) prefix)"

definition parse_marker :: "string \<Rightarrow> (probe_error, candidate_landlock) res" where
  "parse_marker marker =
     (let fs = split_ascii_whitespace marker in
      if length fs \<noteq> 6 then Inl (Told ''Landlock activation marker fields differ'')
      else
        bnd (marker_field fs 0 ''abi='') (\<lambda>v. bnd (ok_or Bad_Number (parse_decimal (2 ^ 32 - 1) v)) (\<lambda>abi.
        bnd (marker_field fs 1 ''fs='') (\<lambda>v. bnd (parse_canonical_hex_u64 v) (\<lambda>filesystem.
        bnd (marker_field fs 2 ''net='') (\<lambda>v. bnd (parse_canonical_hex_u64 v) (\<lambda>network.
        bnd (marker_field fs 3 ''scoped='') (\<lambda>v. bnd (parse_canonical_hex_u64 v) (\<lambda>scoped.
        bnd (marker_field fs 4 ''deniedWrite='') (\<lambda>v. bnd (ok_or Bad_Number (parse_decimal 255 v)) (\<lambda>denied_write.
        bnd (marker_field fs 5 ''deniedCreate='') (\<lambda>v. bnd (ok_or Bad_Number (parse_decimal 255 v)) (\<lambda>denied_create.
          Inr \<lparr>kl_abi = abi, kl_handled_filesystem = filesystem, kl_handled_network = network, kl_scoped = scoped,
            kl_denied_write_errno = denied_write, kl_denied_create_errno = denied_create\<rparr>)))))))))))))"

definition LANDLOCK_PREFIX :: string where "LANDLOCK_PREFIX = ''[keep-prober-landlock] ''"

definition markers :: "string \<Rightarrow> string list" where
  "markers text = List.map_filter (\<lambda>line. strip_prefix line LANDLOCK_PREFIX) (str_lines text)"

definition parse_landlock_observation :: "bytes \<Rightarrow> (probe_error, candidate_landlock) res" where
  "parse_landlock_observation stderr =
     (if \<not> valid_utf8 stderr then Inl Bad_Utf8
      else case markers (bytes_str stderr) of
          [] \<Rightarrow> Inl (Told ''Landlock activation marker absent'')
        | [marker] \<Rightarrow>
            bnd (parse_marker marker) (\<lambda>observation.
            bnd (map_err Refused (verify_landlock observation)) (\<lambda>_. Inr observation))
        | _ \<Rightarrow> Inl (Told ''Landlock activation marker duplicated''))"

subsection \<open>Live containment\<close>

record live_containment =
  lc_host_pid :: u32
  lc_uid :: u32
  lc_seccomp_mode :: nat
  lc_seccomp_thread_count :: nat
  lc_seccomp_filters_per_thread :: nat
  lc_pid_namespace_isolated :: bool
  lc_mount_namespace_isolated :: bool
  lc_chroot_matches_jail :: bool
  lc_capabilities_empty :: bool
  lc_socket_descriptors_absent :: bool
  lc_environment_empty :: bool
  lc_inherited_descriptor_absent :: bool

definition verify_containment :: "live_containment \<Rightarrow> unit cres" where
  "verify_containment c =
     (if lc_host_pid c = 0 \<or> \<not> (300000 \<le> lc_uid c \<and> lc_uid c < 340000) \<or> lc_seccomp_mode c \<noteq> 2
         \<or> lc_seccomp_thread_count c < 2 \<or> lc_seccomp_filters_per_thread c \<noteq> 1
         \<or> \<not> lc_pid_namespace_isolated c \<or> \<not> lc_mount_namespace_isolated c \<or> \<not> lc_chroot_matches_jail c
         \<or> \<not> lc_capabilities_empty c \<or> \<not> lc_socket_descriptors_absent c \<or> \<not> lc_environment_empty c
         \<or> \<not> lc_inherited_descriptor_absent c
      then Inl DirectProcessFailed else Inr ())"

definition status_field :: "string \<Rightarrow> string \<Rightarrow> (probe_error, string) res" where
  "status_field status name =
     (case List.map_filter (\<lambda>line. map_option str_trim (strip_prefix line (name @ '':''))) (str_lines status) of
        [] \<Rightarrow> Inl (Told ''process status field absent'')
      | [value] \<Rightarrow> Inr value
      | _ \<Rightarrow> Inl (Told ''process status field duplicated''))"

definition TAB :: string where "TAB = [CHR 0x09]"

definition task_ids :: "('s, 'f) host \<Rightarrow> string \<Rightarrow> ('s, string list) io" where
  "task_ids H root =
     io_bind (fs_read_dir H root) (\<lambda>entries. io_bind (io_lift (traverse id entries)) (\<lambda>ids. io_ret (sort ids)))"

text \<open>One thread: a thread without a filter is noted; the filter counts of the others have to agree.\<close>

definition task_step ::
    "('s, 'f) host \<Rightarrow> string \<Rightarrow> string \<Rightarrow> nat option \<times> bool \<Rightarrow> ('s, nat option \<times> bool) probe" where
  "task_step H task_root task st =
     (let (seen, all_filtered) = st in
      io_bind (io_q (fs_read_to_string H (task_root @ ''/'' @ task @ ''/status''))) (\<lambda>task_status.
      io_bind (io_lift (status_field task_status ''Seccomp'')) (\<lambda>mode.
      if mode \<noteq> ''2'' then io_ret (seen, False)
      else
        io_bind (io_lift (bnd (status_field task_status ''Seccomp_filters'') (\<lambda>v. ok_or Bad_Number (parse_decimal (2 ^ 32 - 1) v))))
          (\<lambda>filters.
        if filters = 0 \<or> (case seen of None \<Rightarrow> False | Some prior \<Rightarrow> prior \<noteq> filters)
        then io_fail (Told ''native PROBER Firecracker thread seccomp filter counts differ'')
        else io_ret (Some filters, all_filtered)))))"

definition namespace_differs :: "('s, 'f) host \<Rightarrow> string \<Rightarrow> string \<Rightarrow> ('s, bool) io" where
  "namespace_differs H process_root name =
     io_bind (fs_metadata H (''/proc/self/ns/'' @ name)) (\<lambda>host.
     io_bind (fs_metadata H (process_root @ ''/ns/'' @ name)) (\<lambda>child.
       io_ret (device host \<noteq> device child \<or> inode host \<noteq> inode child)))"

text \<open>The descriptor table: links that name a socket, and links that are the inherited canary. \<open>DirEntry::metadata\<close>
  does not follow a link.\<close>

definition names_no_socket :: "('s, 'f) host \<Rightarrow> string \<Rightarrow> string \<Rightarrow> 's \<Rightarrow> bool \<times> 's" where
  "names_no_socket H root entry = succeeds (fs_read_link H (root @ ''/'' @ entry)) (\<lambda>target. \<not> starts_with target ''socket:['')"

definition is_not_canary :: "('s, 'f) host \<Rightarrow> string \<Rightarrow> u64 \<times> u64 \<Rightarrow> string \<Rightarrow> 's \<Rightarrow> bool \<times> 's" where
  "is_not_canary H root canary entry =
     succeeds (fs_symlink_metadata H (root @ ''/'' @ entry)) (\<lambda>metadata. (device metadata, inode metadata) \<noteq> canary)"

definition split_ids :: "string \<Rightarrow> (probe_error, nat list) res" where
  "split_ids value = traverse (\<lambda>v. ok_or Bad_Number (parse_decimal (2 ^ 32 - 1) v)) (split_ascii_whitespace value)"

definition capability_empty :: "string \<Rightarrow> string \<Rightarrow> bool" where
  "capability_empty status name \<longleftrightarrow> status_field status name = Inr ''0000000000000000''"

text \<open>The thread inventory: the same before and after every thread was looked at.\<close>

definition observe_threads ::
    "('s, 'f) host \<Rightarrow> string \<Rightarrow> nat \<Rightarrow> ('s, nat \<times> nat \<times> nat) probe" where
  "observe_threads H process_root process_mode =
     (let task_root = process_root @ ''/task'' in
      io_bind (io_q (task_ids H task_root)) (\<lambda>before.
      io_bind (io_fold (task_step H task_root) before (None, process_mode = 2)) (\<lambda>(filters, all_filtered).
      io_bind (io_q (task_ids H task_root)) (\<lambda>after.
      io_bind (tell (after \<noteq> before) ''native PROBER Firecracker thread inventory changed during appraisal'') (\<lambda>_.
      io_bind (if all_filtered then io_lift (ok_or (Told ''seccomp thread evidence absent'') filters) else io_ret 0) (\<lambda>filters.
        io_ret (if all_filtered then 2 else 0, length before, filters)))))))"

definition observe_live_containment ::
    "('s, 'f) host \<Rightarrow> u32 \<Rightarrow> u32 \<Rightarrow> string \<Rightarrow> u64 \<times> u64 \<Rightarrow> ('s, live_containment) probe" where
  "observe_live_containment H pid leased jail_guest_root canary =
     (let process_root = ''/proc/'' @ dec_string (unat pid); u = dec_string (unat leased);
          exact_ids = u @ TAB @ u @ TAB @ u @ TAB @ u in
      io_bind (io_q (fs_read_to_string H (process_root @ ''/status''))) (\<lambda>status.
      io_bind (io_lift (bnd (status_field status ''Uid'') (\<lambda>ids.
          if ids \<noteq> exact_ids then Inr True else bnd (status_field status ''Gid'') (\<lambda>ids. Inr (ids \<noteq> exact_ids))))) (\<lambda>differ.
      io_bind (tell differ ''native PROBER descendant real/effective/saved/fs IDs differ'') (\<lambda>_.
      let capabilities = list_all (capability_empty status) [''CapInh'', ''CapPrm'', ''CapEff'', ''CapAmb''] in
      io_bind (io_lift (bnd (status_field status ''Seccomp'') (\<lambda>v. ok_or Bad_Number (parse_decimal 255 v)))) (\<lambda>process_mode.
      io_bind (observe_threads H process_root process_mode) (\<lambda>(mode, threads, filters).
      io_bind (io_lift (bnd (status_field status ''NSpid'') split_ids)) (\<lambda>nspid.
      let pid_isolated = (nspid = [unat pid, 1]) in
      io_bind (io_q (namespace_differs H process_root ''mnt'')) (\<lambda>mount_isolated.
      io_bind (io_q (namespace_differs H process_root ''pid'')) (\<lambda>pid_inode_isolated.
      io_bind (io_q (fs_metadata H jail_guest_root)) (\<lambda>jail.
      io_bind (io_q (fs_metadata H (process_root @ ''/root''))) (\<lambda>child_root.
      let chroot = (device jail = device child_root \<and> inode jail = inode child_root) in
      io_bind (io_q (fs_read_dir H (process_root @ ''/fd''))) (\<lambda>entries.
      io_bind (io_lift (map_err Io (traverse id entries))) (\<lambda>descriptors.
      io_bind (answering (all_m (names_no_socket H (process_root @ ''/fd'')) descriptors)) (\<lambda>sockets_absent.
      io_bind (answering (all_m (is_not_canary H (process_root @ ''/fd'') canary) descriptors)) (\<lambda>inherited_absent.
      io_bind (io_q (fs_read H (process_root @ ''/environ''))) (\<lambda>environ.
      if \<not> capabilities \<or> \<not> pid_isolated \<or> \<not> pid_inode_isolated \<or> \<not> mount_isolated \<or> \<not> chroot \<or> \<not> sockets_absent
         \<or> environ \<noteq> [] \<or> \<not> inherited_absent
      then io_fail (Told ''native PROBER live containment mismatch'')
      else if 2 ^ 32 \<le> threads then io_fail Bad_Number
      else io_ret \<lparr>lc_host_pid = pid, lc_uid = leased, lc_seccomp_mode = mode, lc_seccomp_thread_count = threads,
        lc_seccomp_filters_per_thread = filters, lc_pid_namespace_isolated = pid_isolated,
        lc_mount_namespace_isolated = mount_isolated, lc_chroot_matches_jail = chroot,
        lc_capabilities_empty = capabilities, lc_socket_descriptors_absent = sockets_absent,
        lc_environment_empty = (environ = []), lc_inherited_descriptor_absent = inherited_absent\<rparr>))))))))))))))))"

subsection \<open>Measurement of a pinned file\<close>

definition measure_pinned_file :: "('s, 'f) host \<Rightarrow> 'f pinned_regular_file \<Rightarrow> nat \<Rightarrow> ('s, bytes) probe" where
  "measure_pinned_file H p maximum_bytes =
     io_bind (io_q (read_bounded_chunks (host_kernel H) p maximum_bytes (\<lambda>m chunk. Inr (sha_update m chunk)) sha_new))
       (\<lambda>(total, measurement).
         if total \<noteq> unat (fi_size (pr_identity p)) then io_fail (Told ''launch measurement length changed'')
         else io_ret (sha_finalize measurement))"

subsection \<open>The lease of a user id\<close>

record uid_lease =
  ul_uid :: u32
  ul_path :: string

definition lease_drop :: "('s, 'f) host \<Rightarrow> uid_lease \<Rightarrow> 's \<Rightarrow> 's" where
  "lease_drop H lease = ignoring (fs_remove_file H (ul_path lease))"

text \<open>A process directory owned by the user, among the entries of \<open>/proc\<close>; no listing counts as one.\<close>

fun owned_process :: "('s, 'f) host \<Rightarrow> u32 \<Rightarrow> (io_error, string) res list \<Rightarrow> 's \<Rightarrow> bool \<times> 's" where
  "owned_process H u [] s = (False, s)"
| "owned_process H u (Inl _ # entries) s = owned_process H u entries s"
| "owned_process H u (Inr name # entries) s =
     (if \<not> all_digits name then owned_process H u entries s
      else let (own, t) = succeeds (fs_symlink_metadata H (''/proc/'' @ name)) (\<lambda>metadata. uid metadata = u) s in
        if own then (True, t) else owned_process H u entries t)"

definition uid_has_live_process :: "('s, 'f) host \<Rightarrow> u32 \<Rightarrow> 's \<Rightarrow> bool \<times> 's" where
  "uid_has_live_process H u s =
     (case fs_read_dir H ''/proc'' s of (Inl _, t) \<Rightarrow> (True, t) | (Inr entries, t) \<Rightarrow> owned_process H u entries t)"

definition registry_number :: "string \<Rightarrow> (probe_error, nat) res" where
  "registry_number v = ok_or Bad_Number (parse_decimal (2 ^ 32 - 1) v)"

fun named_in :: "string \<Rightarrow> u32 \<Rightarrow> string list \<Rightarrow> (probe_error, bool) res" where
  "named_in path i [] = Inr False"
| "named_in path i (line # rest) =
     (let fs = split_on CHR '':'' line in
      if length fs < 3 then Inl (Told (''malformed identity registry: '' @ path))
      else bnd (registry_number (fs ! 2)) (\<lambda>n. if n = unat i then Inr True else named_in path i rest))"

definition id_is_named :: "('s, 'f) host \<Rightarrow> string \<Rightarrow> u32 \<Rightarrow> ('s, bool) probe" where
  "id_is_named H path i =
     io_bind (io_q (fs_read_to_string H path)) (\<lambda>text. io_lift (named_in path i (str_lines text)))"

fun delegated_in :: "string \<Rightarrow> u32 \<Rightarrow> string list \<Rightarrow> (probe_error, bool) res" where
  "delegated_in path i [] = Inr False"
| "delegated_in path i (line # rest) =
     (let fs = split_on CHR '':'' line in
      if length fs \<noteq> 3 then Inl (Told (''malformed subordinate identity registry: '' @ path))
      else
        bnd (registry_number (fs ! 1)) (\<lambda>start.
        bnd (registry_number (fs ! 2)) (\<lambda>n.
        if 2 ^ 32 \<le> start + n then Inl (Told ''subordinate identity range overflow'')
        else if start \<le> unat i \<and> unat i < start + n then Inr True else delegated_in path i rest)))"

definition id_is_delegated :: "('s, 'f) host \<Rightarrow> string \<Rightarrow> u32 \<Rightarrow> ('s, bool) probe" where
  "id_is_delegated H path i =
     io_bind (io_q (fs_read_to_string H path)) (\<lambda>text. io_lift (delegated_in path i (str_lines text)))"

text \<open>\<open>a? || b?\<close>.\<close>

definition or_else :: "('s, bool) probe \<Rightarrow> ('s, bool) probe \<Rightarrow> ('s, bool) probe" where
  "or_else m n = io_bind m (\<lambda>b. if b then io_ret True else n)"

definition uid_is_reserved :: "('s, 'f) host \<Rightarrow> u32 \<Rightarrow> ('s, bool) probe" where
  "uid_is_reserved H u =
     or_else (id_is_named H ''/etc/passwd'' u) (or_else (id_is_named H ''/etc/group'' u)
       (or_else (id_is_delegated H ''/etc/subuid'' u) (id_is_delegated H ''/etc/subgid'' u)))"

text \<open>One candidate: \<open>None\<close> goes on to the next.\<close>

definition try_uid :: "('s, 'f) host \<Rightarrow> string \<Rightarrow> string \<Rightarrow> u32 \<Rightarrow> ('s, uid_lease option) probe" where
  "try_uid H root attempt u =
     io_bind (or_else (uid_is_reserved H u) (answering (uid_has_live_process H u))) (\<lambda>taken.
     if taken then io_ret None
     else
       let path = path_join root (dec_string (unat u)) in
       (\<lambda>s. case fs_create_new H path s of
          (Inl e, t) \<Rightarrow> if e = Os EEXIST then (Inr None, t) else (Inl (Io e), t)
        | (Inr f, t) \<Rightarrow>
            io_bind (io_q (sys_write_all H f (str_bytes (attempt @ [CHR 0x0A])))) (\<lambda>_.
            io_bind (io_q (sys_fsync H f)) (\<lambda>_.
            io_bind (answering (uid_has_live_process H u)) (\<lambda>live s.
              if live then (Inr None, ignoring (fs_remove_file H path) s)
              else (Inr (Some \<lparr>ul_uid = u, ul_path = path\<rparr>), s)))) t))"

fun lease_search :: "('s, 'f) host \<Rightarrow> string \<Rightarrow> string \<Rightarrow> u32 list \<Rightarrow> ('s, uid_lease) probe" where
  "lease_search H root attempt [] = io_fail (Told ''candidate UID lease space is exhausted'')"
| "lease_search H root attempt (u # us) =
     io_bind (try_uid H root attempt u) (\<lambda>found.
       case found of Some lease \<Rightarrow> io_ret lease | None \<Rightarrow> lease_search H root attempt us)"

text \<open>The candidates in order: the whole range once, from a start the attempt determines.\<close>

definition candidate_uids :: "u32 \<Rightarrow> u32 list" where
  "candidate_uids start = map (\<lambda>offset. 300000 + (start + of_nat offset) mod 40000) [0..<40000]"

definition acquire_uid_lease :: "('s, 'f) host \<Rightarrow> string \<Rightarrow> string \<Rightarrow> ('s, uid_lease) probe" where
  "acquire_uid_lease H work_root attempt =
     (let root = path_join work_root ''.uid-leases'' in
      io_bind (io_q (private_root H root)) (\<lambda>private.
      io_bind (tell (\<not> private) ''candidate UID lease root is not private root-owned storage'') (\<lambda>_.
      io_bind (io_lift (ok_or (Told ''attempt prefix'') (strip_prefix attempt ''keep-''))) (\<lambda>nonce.
      io_bind (io_lift (ok_or Bad_Number (parse_hex (2 ^ 32 - 1) (take 8 nonce)))) (\<lambda>start.
        lease_search H root attempt (candidate_uids (of_nat start mod 40000)))))))"

end
