(* ===== verification/Confined_Host.thy ===== *)
theory Confined_Host
  imports Host_Fs Landlock_Ruleset Seccomp_Filter
begin

section \<open>A process that confines itself\<close>

text \<open>
  The programs that run inside a sandbox confine themselves and then become another program: they build a
  Landlock ruleset, restrict themselves, install the seccomp filter and execute. Their host has, beyond
  files, the Landlock calls, the privilege flag, the filter, the standard error stream and \<open>execve\<close>.
  \<open>LandlockRuleset\<close> of \<open>linux-abi/src/lib.rs\<close> issues the calls that the definitions of
  \<open>Landlock_Ruleset\<close> compute; the kernel answers each. A refusal of the program is a message and exit
  status 125; a successful \<open>execve\<close> does not return, so it is the result of the program.
\<close>

record ('s, 'f) cell_host = "('s, 'f) host" +
  ch_environment_empty :: "'s \<Rightarrow> bool"
  ch_landlock_abi :: "('s, u32) io"
  ch_landlock_create :: "u64 \<Rightarrow> u64 \<Rightarrow> u64 \<Rightarrow> ('s, 'f) io"
  ch_landlock_add_rule :: "'f \<Rightarrow> 'f \<Rightarrow> u64 \<Rightarrow> ('s, unit) io"
  ch_landlock_restrict :: "'f \<Rightarrow> ('s, unit) io"
  ch_set_no_new_privileges :: "('s, unit) io"
  ch_get_no_new_privileges :: "('s, 64 word) io"
  ch_set_seccomp :: "sock_filter list \<Rightarrow> ('s, unit) io"
  ch_x86_64 :: bool
  ch_libc :: libc_constants
  ch_tcp_bind :: "string \<Rightarrow> ('s, unit) io"
  ch_tcp_connect :: "string \<Rightarrow> ('s, unit) io"
  ch_udp_bind :: "string \<Rightarrow> ('s, 'f) io"
  ch_udp_connect :: "'f \<Rightarrow> string \<Rightarrow> ('s, unit) io"
  ch_udp_send :: "'f \<Rightarrow> bytes \<Rightarrow> ('s, unit) io"
  ch_eprint :: "string \<Rightarrow> 's \<Rightarrow> 's"
  ch_exec :: "string \<Rightarrow> string list \<Rightarrow> string \<Rightarrow> (string \<times> string) list \<Rightarrow> ('s, unit) io"
  ch_status :: "string \<Rightarrow> string list \<Rightarrow> string \<Rightarrow> (string \<times> string) list \<Rightarrow> ('s, nat option) io"
  ch_shown :: "io_error \<Rightarrow> string"

text \<open>An error of the code that is not the kernel's: \<open>io::Error::new(Unsupported, message)\<close> or \<open>invalid\<close>.
  \<open>Kernel_Refused\<close> does not occur here, since the kernel answers the calls themselves.\<close>

fun landlock_io_error :: "landlock_error \<Rightarrow> io_error" where
  "landlock_io_error (Unsupported_Abi m) = Unsupported_Kind m"
| "landlock_io_error (Unhandled_Right m) = Invalid_Data m"
| "landlock_io_error Kernel_Refused = Unexpected_Eof"

record 'f landlock_ruleset =
  lr_file :: 'f
  lr_observation :: landlock_observation

definition landlock_new :: "('s, 'f) cell_host \<Rightarrow> u32 \<Rightarrow> ('s, 'f landlock_ruleset) io" where
  "landlock_new M minimum_abi =
     io_bind (ch_landlock_abi M) (\<lambda>abi.
     io_bind (io_lift (map_err landlock_io_error (snd (ruleset_new abi minimum_abi True)))) (\<lambda>p.
     io_bind (ch_landlock_create M (handled_filesystem p) (handled_network p) (lo_scoped p)) (\<lambda>f.
       io_ret \<lparr>lr_file = f, lr_observation = p\<rparr>)))"

definition allow_access :: "('s, 'f) cell_host \<Rightarrow> 'f landlock_ruleset \<Rightarrow> u64 \<Rightarrow> 'f \<Rightarrow> ('s, unit) io" where
  "allow_access M r access path =
     io_bind (io_lift (map_err landlock_io_error (snd (add_path (lr_observation r) access True)))) (\<lambda>_.
       ch_landlock_add_rule M (lr_file r) path access)"

definition allow_read_only :: "('s, 'f) cell_host \<Rightarrow> 'f landlock_ruleset \<Rightarrow> 'f \<Rightarrow> ('s, unit) io" where
  "allow_read_only M r = allow_access M r read_only_access"

definition allow_read_write :: "('s, 'f) cell_host \<Rightarrow> 'f landlock_ruleset \<Rightarrow> 'f \<Rightarrow> ('s, unit) io" where
  "allow_read_write M r = allow_access M r (read_write_access (lr_observation r))"

definition allow_read_write_file :: "('s, 'f) cell_host \<Rightarrow> 'f landlock_ruleset \<Rightarrow> 'f \<Rightarrow> ('s, unit) io" where
  "allow_read_write_file M r = allow_access M r read_write_file_access"

definition allow_device :: "('s, 'f) cell_host \<Rightarrow> 'f landlock_ruleset \<Rightarrow> 'f \<Rightarrow> ('s, unit) io" where
  "allow_device M r = allow_access M r (device_access (lr_observation r))"

definition landlock_restrict_self :: "('s, 'f) cell_host \<Rightarrow> 'f landlock_ruleset \<Rightarrow> ('s, u32) io" where
  "landlock_restrict_self M r =
     io_bind (ch_set_no_new_privileges M) (\<lambda>_.
     io_bind (ch_landlock_restrict M (lr_file r)) (\<lambda>_. io_ret (lo_abi (lr_observation r))))"

definition no_new_privileges_active :: "('s, 'f) cell_host \<Rightarrow> ('s, bool) io" where
  "no_new_privileges_active M =
     io_bind (ch_get_no_new_privileges M) (\<lambda>result.
       if result = 0 then io_ret False else if result = 1 then io_ret True
       else io_invalid ''kernel returned a non-boolean no_new_privs value'')"

definition install_seccomp :: "('s, 'f) cell_host \<Rightarrow> ('s, unit) io" where
  "install_seccomp M =
     (if \<not> ch_x86_64 M then io_fail (Unsupported_Kind ''Objective 3 seccomp architecture is not frozen'')
      else let program = objective3_program (ch_libc M) in
        if 2 ^ 16 \<le> length program then io_invalid ''seccomp program exceeds u16''
        else io_bind (ch_set_no_new_privileges M) (\<lambda>_. ch_set_seccomp M program))"

text \<open>A ruleset that was made has a reviewed policy of an ABI no lower than asked, created with its masks.\<close>

lemma landlock_new_reviewed:
  assumes "landlock_new M minimum_abi s = (Inr r, t)"
  shows "minimum_abi \<le> lo_abi (lr_observation r)
    \<and> reviewed_landlock_policy (lo_abi (lr_observation r)) = Inr (lr_observation r)
    \<and> (\<exists>u. ch_landlock_create M (handled_filesystem (lr_observation r)) (handled_network (lr_observation r))
          (lo_scoped (lr_observation r)) u = (Inr (lr_file r), t))"
proof -
  obtain abi p f u where *: "snd (ruleset_new abi minimum_abi True) = Inr p"
      "ch_landlock_create M (handled_filesystem p) (handled_network p) (lo_scoped p) u = (Inr f, t)"
      "r = \<lparr>lr_file = f, lr_observation = p\<rparr>"
    using assms by (auto simp: landlock_new_def io_simps map_err_eq_Inr)
  have "minimum_abi \<le> abi" "reviewed_landlock_policy abi = Inr p"
    using *(1) by (auto simp: ruleset_new_def not_less split: if_splits sum.splits)
  moreover from this(2) have "lo_abi p = abi"
    by (auto simp: reviewed_landlock_policy_def Let_def split: if_splits)
  ultimately show ?thesis using * by auto
qed

type_synonym ('s, 'a) refusing = "('s, string, 'a) action"

text \<open>\<open>unwrap_or_else(|_| fail(message))\<close>.\<close>

definition or_fail :: "string \<Rightarrow> ('s, 'a) io \<Rightarrow> ('s, 'a) refusing" where
  "or_fail message m = io_map_err (\<lambda>_. message) m"

lemma or_fail_Inr [io_simps]: "or_fail message m s = (Inr x, t) \<longleftrightarrow> m s = (Inr x, t)"
  by (simp add: or_fail_def io_simps)

text \<open>How a program ends when it does not refuse: \<open>execve\<close> replaced it, or it exits with a status.\<close>

datatype cell_end = Replaced | Exited nat

definition print :: "('s, 'f) cell_host \<Rightarrow> string \<Rightarrow> ('s, unit) refusing" where
  "print M line = (\<lambda>s. (Inr (), ch_eprint M line s))"

lemma print_Inr [io_simps]: "print M line s = (Inr x, t) \<longleftrightarrow> t = ch_eprint M line s"
  by (auto simp: print_def)

text \<open>A cell on a host that refuses everything.\<close>

definition demo_libc :: libc_constants where
  "demo_libc = \<lparr>sys_number = (\<lambda>_. 1000), clone_bits = (\<lambda>_. 0), ret_kill_process = 0x80000000, ret_errno = 0x50000,
     ret_allow = 0x7fff0000, EPERM = 1, ENOSYS = 38\<rparr>"

definition refusing_cell :: "('s, nat) cell_host" where
  "refusing_cell = host.extend refusing_host
     \<lparr>ch_environment_empty = (\<lambda>_. False), ch_landlock_abi = no_call, ch_landlock_create = (\<lambda>_ _ _. no_call),
      ch_landlock_add_rule = (\<lambda>_ _ _. no_call), ch_landlock_restrict = (\<lambda>_. no_call), ch_set_no_new_privileges = no_call,
      ch_get_no_new_privileges = no_call, ch_set_seccomp = (\<lambda>_. no_call), ch_x86_64 = True, ch_libc = demo_libc,
      ch_tcp_bind = (\<lambda>_. no_call), ch_tcp_connect = (\<lambda>_. no_call), ch_udp_bind = (\<lambda>_. no_call),
      ch_udp_connect = (\<lambda>_ _. no_call), ch_udp_send = (\<lambda>_ _. no_call), ch_eprint = (\<lambda>_ s. s),
      ch_exec = (\<lambda>_ _ _ _. no_call), ch_status = (\<lambda>_ _ _ _. no_call), ch_shown = (\<lambda>_. [])\<rparr>"

text \<open>A cell whose Landlock calls succeed, on ABI 4.\<close>

definition landlock_cell :: "(unit, nat) cell_host" where
  "landlock_cell = refusing_cell
     \<lparr>ch_landlock_abi := io_ret 4, ch_landlock_create := (\<lambda>_ _ _. io_ret 9), ch_landlock_add_rule := (\<lambda>_ _ _. io_ret ()),
      ch_landlock_restrict := (\<lambda>_. io_ret ()), ch_set_no_new_privileges := io_ret (),
      ch_exec := (\<lambda>_ _ _ _. io_ret ())\<rparr>"

definition policy_4 :: landlock_observation where
  "policy_4 = \<lparr>lo_abi = 4, handled_filesystem = 0x7fff, handled_network = 3, lo_scoped = 0\<rparr>"

lemma reviewed_policy_4: "reviewed_landlock_policy 4 = Inr policy_4"
  by (simp add: reviewed_landlock_policy_def policy_4_def base_filesystem_eq MAXIMUM_SUPPORTED_LANDLOCK_ABI_def landlock_bits)

text \<open>The Landlock calls of cells that differ from it in other fields only.\<close>

definition landlock_succeeds :: "(unit, nat) cell_host \<Rightarrow> bool" where
  "landlock_succeeds M \<longleftrightarrow>
     ch_landlock_abi M = io_ret 4 \<and> ch_landlock_create M = (\<lambda>_ _ _. io_ret 9)
     \<and> ch_landlock_add_rule M = (\<lambda>_ _ _. io_ret ()) \<and> ch_landlock_restrict M = (\<lambda>_. io_ret ())
     \<and> ch_set_no_new_privileges M = io_ret ()"

lemma landlock_runs:
  assumes "landlock_succeeds M"
  shows "landlock_new M 4 u = (Inr \<lparr>lr_file = 9, lr_observation = policy_4\<rparr>, u)"
    and "allow_read_only M \<lparr>lr_file = 9, lr_observation = policy_4\<rparr> f u = (Inr (), u)"
    and "allow_read_write M \<lparr>lr_file = 9, lr_observation = policy_4\<rparr> f u = (Inr (), u)"
    and "allow_read_write_file M \<lparr>lr_file = 9, lr_observation = policy_4\<rparr> f u = (Inr (), u)"
    and "allow_device M \<lparr>lr_file = 9, lr_observation = policy_4\<rparr> f u = (Inr (), u)"
    and "landlock_restrict_self M \<lparr>lr_file = 9, lr_observation = policy_4\<rparr> u = (Inr 4, u)"
proof -
  note calls = assms [unfolded landlock_succeeds_def]
  have handled: "handled_filesystem policy_4 = 0x7fff" by (simp add: policy_4_def)
  have access: "allow_access M \<lparr>lr_file = 9, lr_observation = policy_4\<rparr> a f () = (Inr (), ())"
    if "a AND NOT 0x7fff = 0" for a
    using that calls by (simp add: allow_access_def add_path_def handled io_lift_def)
  show "landlock_new M 4 u = (Inr \<lparr>lr_file = 9, lr_observation = policy_4\<rparr>, u)"
    using calls by (simp add: landlock_new_def ruleset_new_def reviewed_policy_4 io_lift_def)
  show "landlock_restrict_self M \<lparr>lr_file = 9, lr_observation = policy_4\<rparr> u = (Inr 4, u)"
    using calls by (simp add: landlock_restrict_self_def policy_4_def)
  show "allow_read_only M \<lparr>lr_file = 9, lr_observation = policy_4\<rparr> f u = (Inr (), u)"
    and "allow_read_write M \<lparr>lr_file = 9, lr_observation = policy_4\<rparr> f u = (Inr (), u)"
    and "allow_read_write_file M \<lparr>lr_file = 9, lr_observation = policy_4\<rparr> f u = (Inr (), u)"
    and "allow_device M \<lparr>lr_file = 9, lr_observation = policy_4\<rparr> f u = (Inr (), u)"
    by (simp_all add: allow_read_only_def allow_read_write_def allow_read_write_file_def allow_device_def access
        read_only_access_def read_write_access_def read_write_file_access_def device_access_def landlock_bits handled)
qed

end
