(* ===== verification/Post_Jailer.thy ===== *)
theory Post_Jailer
  imports Confined_Host Handoff
begin

section \<open>From the jailer to the VMM\<close>

text \<open>
  \<open>main\<close> of \<open>prober-vmm-shim/src/main.rs\<close>: what the shim does between the jailer and the VMM. It opens the
  four paths the VMM needs, restricts itself, tries two forbidden writes, reports the policy and becomes the
  VMM. The marker it prints is the line the launcher reads back.
\<close>

definition exact_denial :: "('s, 'a) io \<Rightarrow> string \<Rightarrow> ('s, unit) refusing" where
  "exact_denial attempt message = (\<lambda>s.
     case attempt s of
       (Inl e, t) \<Rightarrow> (if e = Os EACCES then Inr () else Inl ''Landlock canary returned the wrong error class'', t)
     | (Inr _, t) \<Rightarrow> (Inl message, t))"

definition activation_marker :: "u32 \<Rightarrow> landlock_observation \<Rightarrow> string" where
  "activation_marker restricted_abi p =
     MARKER_PREFIX @ '' abi='' @ dec_string (unat restricted_abi) @ '' fs='' @ hex_nat (unat (handled_filesystem p))
     @ '' net='' @ hex_nat (unat (handled_network p)) @ '' scoped='' @ hex_nat (unat (lo_scoped p))
     @ '' deniedWrite=13 deniedCreate=13''"

text \<open>The seccomp canary: the VMM runs as a child and has to die of SIGSYS.\<close>

definition run_canary :: "('s, 'f) cell_host \<Rightarrow> string list \<Rightarrow> ('s, cell_end) refusing" where
  "run_canary M arguments =
     io_bind (or_fail ''measured seccomp-canary VMM spawn failed'' (ch_status M ACTUAL_VMM_PATH (take 13 arguments) ''/'' []))
       (\<lambda>signal.
         if signal = Some 31
         then io_bind (print M (SECCOMP_MARKER_PREFIX @ '' signal=31'')) (\<lambda>_. io_ret (Exited 125))
         else io_fail ''measured seccomp-canary VMM did not terminate with SIGSYS'')"

definition become_vmm :: "('s, 'f) cell_host \<Rightarrow> string list \<Rightarrow> ('s, cell_end) refusing" where
  "become_vmm M arguments =
     io_bind (io_map_err (\<lambda>e. ''measured VMM exec failed: '' @ ch_shown M e) (ch_exec M ACTUAL_VMM_PATH arguments ''/'' []))
       (\<lambda>_. io_ret Replaced)"

text \<open>The ruleset with its three rules, in force.\<close>

definition confine_vmm :: "('s, 'f) cell_host \<Rightarrow> 'f \<Rightarrow> 'f \<Rightarrow> 'f \<Rightarrow> ('s, u32 \<times> landlock_observation) refusing" where
  "confine_vmm M root project kvm =
     io_bind (or_fail ''reviewed Landlock ABI was not available'' (landlock_new M 4)) (\<lambda>ruleset.
     io_bind (or_fail ''read-only jail rule was refused'' (allow_read_only M ruleset root)) (\<lambda>_.
     io_bind (or_fail ''project-image write rule was refused'' (allow_read_write_file M ruleset project)) (\<lambda>_.
     io_bind (or_fail ''KVM-device rule was refused'' (allow_device M ruleset kvm)) (\<lambda>_.
     io_bind (or_fail ''Landlock activation was refused'' (landlock_restrict_self M ruleset)) (\<lambda>restricted_abi.
       io_ret (restricted_abi, lr_observation ruleset))))))"

definition shim_main :: "('s, 'f) cell_host \<Rightarrow> string list \<Rightarrow> ('s, cell_end) refusing" where
  "shim_main M arguments =
     io_bind (\<lambda>s. if ch_environment_empty M s then (Inr (), s) else (Inl ''jailer environment was not empty'', s)) (\<lambda>_.
     io_bind (io_lift (validate_jailer_handoff arguments)) (\<lambda>mode.
     io_bind (or_fail ''private jail root was not readable'' (fs_open M ''/'' True False)) (\<lambda>root.
     io_bind (or_fail ''writable project image was not available'' (fs_open M PROJECT_PATH True True)) (\<lambda>project.
     io_bind (or_fail ''private KVM device was not available'' (fs_open M KVM_PATH True True)) (\<lambda>kvm.
     io_bind (or_fail ''pre-Landlock writable canary was not writable'' (fs_open M DENIED_CANARY_PATH True True)) (\<lambda>_.
     io_bind (confine_vmm M root project kvm) (\<lambda>(restricted_abi, observation).
     io_bind (exact_denial (fs_open M DENIED_CANARY_PATH False True)
         ''Landlock admitted a forbidden existing-file write'') (\<lambda>_.
     io_bind (exact_denial (fs_create_new M CREATED_CANARY_PATH)
         ''Landlock admitted a forbidden file creation'') (\<lambda>_.
     io_bind (print M (activation_marker restricted_abi observation)) (\<lambda>_.
       if mode = SeccompCanary then run_canary M arguments else become_vmm M arguments))))))))))"

lemma exact_denial_Inr [io_simps]: "exact_denial m message s = (Inr x, t) \<longleftrightarrow> m s = (Inl (Os EACCES), t)"
  by (auto simp: exact_denial_def split: prod.splits sum.splits if_splits)

text \<open>
  C35: the VMM runs only confined. If the shim becomes the VMM, its arguments are those of the handoff
  contract, the ruleset was created with the masks of the reviewed policy of an ABI of at least 4 and is in
  force; right after that the write to an existing file and the creation of a file were both denied with
  EACCES, the marker names exactly that policy, and the very next call is the execution of the measured VMM with
  those arguments and an empty environment.
\<close>

theorem vmm_runs_confined:
  assumes "shim_main M arguments s = (Inr Replaced, t)"
  shows "\<exists>p ruleset a b u v w x. validate_jailer_handoff arguments = Inr Exec
    \<and> 4 \<le> lo_abi p \<and> reviewed_landlock_policy (lo_abi p) = Inr p
    \<and> ch_landlock_create M (handled_filesystem p) (handled_network p) (lo_scoped p) a = (Inr ruleset, b)
    \<and> ch_landlock_restrict M ruleset u = (Inr (), v)
    \<and> fs_open M DENIED_CANARY_PATH False True v = (Inl (Os EACCES), w)
    \<and> fs_create_new M CREATED_CANARY_PATH w = (Inl (Os EACCES), x)
    \<and> ch_exec M ACTUAL_VMM_PATH arguments ''/'' [] (ch_eprint M (activation_marker (lo_abi p) p) x) = (Inr (), t)"
proof -
  have "\<not> (run_canary M arguments u = (Inr Replaced, t))" for u
    by (auto simp: run_canary_def io_simps split: if_splits)
  then obtain mode root project kvm abi p c v w x where mode: "validate_jailer_handoff arguments = Inr mode" "mode \<noteq> SeccompCanary"
    and confined: "confine_vmm M root project kvm c = (Inr (abi, p), v)"
    and denied: "fs_open M DENIED_CANARY_PATH False True v = (Inl (Os EACCES), w)"
      "fs_create_new M CREATED_CANARY_PATH w = (Inl (Os EACCES), x)"
    and run: "become_vmm M arguments (ch_eprint M (activation_marker abi p) x) = (Inr Replaced, t)"
    using assms by (auto simp: shim_main_def io_simps split: if_splits)
  obtain r d a b where r: "landlock_new M 4 d = (Inr r, a)" "ch_landlock_restrict M (lr_file r) b = (Inr (), v)"
      "abi = lo_abi p" "p = lr_observation r"
    using confined by (auto simp: confine_vmm_def landlock_restrict_self_def io_simps)
  then show ?thesis
    using landlock_new_reviewed [OF r(1)] mode denied run
    by (cases mode) (auto simp: become_vmm_def io_simps intro!: exI [of _ p] exI [of _ "lr_file r"])
qed

definition demo_shim :: "(unit, nat) cell_host" where
  "demo_shim = landlock_cell
     \<lparr>ch_environment_empty := (\<lambda>_. True), fs_create_new := (\<lambda>_. io_fail (Os EACCES)),
      fs_open := (\<lambda>path r w. if path = DENIED_CANARY_PATH \<and> \<not> r then io_fail (Os EACCES) else io_ret 3)\<rparr>"

definition demo_arguments :: "string list" where
  "demo_arguments = handoff_arguments (''keep-'' @ replicate 32 (CHR ''a'')) ''1'' ''2'' ''3''"

lemma demo_handoff: "validate_jailer_handoff demo_arguments = Inr Exec"
  by code_simp

lemma demo_shim_runs: "shim_main demo_shim demo_arguments () = (Inr Replaced, ())"
proof -
  have landlock: "landlock_succeeds demo_shim"
    by (simp add: landlock_succeeds_def demo_shim_def landlock_cell_def)
  have calls: "ch_environment_empty demo_shim u" "fs_create_new demo_shim path = io_fail (Os EACCES)"
    "fs_open demo_shim path r w = (if path = DENIED_CANARY_PATH \<and> \<not> r then io_fail (Os EACCES) else io_ret 3)"
    "ch_exec demo_shim = (\<lambda>_ _ _ _. io_ret ())" for u path r w
    by (simp_all add: demo_shim_def landlock_cell_def)
  show ?thesis
    by (simp add: shim_main_def calls demo_handoff io_lift_def or_fail_def exact_denial_def print_def become_vmm_def
        confine_vmm_def landlock_runs [OF landlock])
qed

theorem vmm_runs_confined_witness:
  "\<exists>p ruleset. 4 \<le> lo_abi p \<and> reviewed_landlock_policy (lo_abi p) = Inr p
    \<and> ch_landlock_restrict demo_shim ruleset () = (Inr (), ())
    \<and> ch_exec demo_shim ACTUAL_VMM_PATH demo_arguments ''/'' [] () = (Inr (), ())"
  using vmm_runs_confined [OF demo_shim_runs] by auto

end
