(* ===== verification/Candidate_Props.thy ===== *)
theory Candidate_Props
  imports Candidate_Observe Post_Jailer Guest_Result
begin

section \<open>What the launcher may rely on\<close>

text \<open>
  The marker the shim prints is read back by the launcher as exactly the reviewed policy, wherever it stands
  in the standard error of the VMM. A leased user id lies in the range the containment check admits, belongs to
  nobody and has no process; and the search passes over every id of the range once.
\<close>

subsection \<open>The Landlock marker\<close>

definition unlines :: "string list \<Rightarrow> string" where "unlines ls = concat (map (\<lambda>l. l @ [CHR 0x0A]) ls)"

lemma strip_cr_prefix: "starts_with (strip_cr l) p \<Longrightarrow> starts_with l p"
  by (cases l rule: rev_cases) (auto simp: strip_cr_def starts_with_iff split: if_splits)

lemma markers_line:
  assumes "CHR 0x0A \<notin> set l"
  shows "markers (l @ CHR 0x0A # rest) =
    (case strip_prefix (strip_cr l) LANDLOCK_PREFIX of None \<Rightarrow> markers rest | Some m \<Rightarrow> m # markers rest)"
  using assms by (simp add: markers_def str_lines_line List.map_filter_simps split: option.splits)

lemma markers_before:
  assumes "list_all (\<lambda>l. CHR 0x0A \<notin> set l \<and> \<not> starts_with l LANDLOCK_PREFIX) before"
  shows "markers (unlines before @ rest) = markers rest"
  using assms
proof (induction before)
  case (Cons l ls)
  then have "strip_prefix (strip_cr l) LANDLOCK_PREFIX = None"
    using strip_cr_prefix by (auto simp: strip_prefix_def)
  then show ?case using Cons by (simp add: unlines_def markers_line)
qed (simp add: unlines_def)

lemma hex_nat_all: "list_all P ''0123456789abcdef'' \<Longrightarrow> list_all P (hex_nat n)"
  using hex_nat_chars [of n] unfolding hex_digits list_all_iff by blast

lemma hex_nat_plain: "list_all (\<lambda>c. \<not> ascii_whitespace c \<and> c \<noteq> CHR 0x0A) (hex_nat n)"
  by (rule hex_nat_all) (simp add: ascii_whitespace_def)

lemma dec_string_plain: "list_all (\<lambda>c. \<not> ascii_whitespace c \<and> c \<noteq> CHR 0x0A) (dec_string n)"
proof -
  have "\<not> ascii_whitespace c \<and> c \<noteq> CHR 0x0A" if "c \<in> set (dec_string n)" for c
    using dec_string_digits [OF that] by (auto simp: ascii_whitespace_def is_ascii_digit_def byte_of_char_def)
  then show ?thesis unfolding list_all_iff by blast
qed

lemma parse_canonical_hex_u64_hex_nat: "n < 2 ^ 64 \<Longrightarrow> parse_canonical_hex_u64 (hex_nat n) = Inr n"
proof -
  assume "n < 2 ^ 64"
  moreover have "list_all (\<lambda>c. is_ascii_hexdigit (byte_of_char c) \<and> \<not> is_ascii_uppercase (byte_of_char c)) (hex_nat n)"
    by (rule hex_nat_all) code_simp
  then have "\<not> list_ex (\<lambda>b. \<not> is_ascii_hexdigit b \<or> is_ascii_uppercase b) (str_bytes (hex_nat n))"
    unfolding list_all_iff list_ex_iff str_bytes_def set_map by blast
  ultimately show ?thesis by (simp add: parse_canonical_hex_u64_def)
qed

definition marker_words :: "u32 \<Rightarrow> landlock_observation \<Rightarrow> string list" where
  "marker_words abi p =
     [''abi='' @ dec_string (unat abi), ''fs='' @ hex_nat (unat (handled_filesystem p)),
      ''net='' @ hex_nat (unat (handled_network p)), ''scoped='' @ hex_nat (unat (lo_scoped p)),
      ''deniedWrite=13'', ''deniedCreate=13'']"

lemma split_words:
  assumes "list_all (\<lambda>w. w \<noteq> [] \<and> list_all (\<lambda>c. \<not> ascii_whitespace c) w) ws" "ws \<noteq> []"
  shows "split_ascii_whitespace (join_with CHR '' '' ws) = ws"
  using assms
proof (induction ws rule: induct_list012)
  case (3 x y zs)
  then show ?case by (simp add: split_ascii_whitespace_word ascii_whitespace_def)
qed (simp_all add: split_ascii_whitespace_last)

lemma activation_marker_words:
  "activation_marker abi p = LANDLOCK_PREFIX @ join_with CHR '' '' (marker_words abi p)"
  by (simp add: activation_marker_def marker_words_def LANDLOCK_PREFIX_def MARKER_PREFIX_def)

lemma marker_words_plain:
  "list_all (\<lambda>w. w \<noteq> [] \<and> list_all (\<lambda>c. \<not> ascii_whitespace c \<and> c \<noteq> CHR 0x0A) w) (marker_words abi p)"
  using hex_nat_plain dec_string_plain by (simp add: marker_words_def ascii_whitespace_def)

lemma parse_activation_marker:
  "parse_marker (join_with CHR '' '' (marker_words abi p)) =
     Inr \<lparr>kl_abi = unat abi, kl_handled_filesystem = unat (handled_filesystem p),
       kl_handled_network = unat (handled_network p), kl_scoped = unat (lo_scoped p),
       kl_denied_write_errno = 13, kl_denied_create_errno = 13\<rparr>"
proof -
  have words: "split_ascii_whitespace (join_with CHR '' '' (marker_words abi p)) = marker_words abi p"
    using marker_words_plain [of abi p] by (intro split_words) (auto simp: list_all_iff marker_words_def)
  have "unat abi \<le> 2 ^ 32 - 1" "unat x < 2 ^ 64" for x :: u64
    using unsigned_less [of abi, where 'a = nat] unsigned_less [of x, where 'a = nat] by simp_all
  moreover have "parse_decimal 255 ''13'' = Some 13" by code_simp
  ultimately show ?thesis
    by (simp add: parse_marker_def words) (simp add: marker_words_def marker_field_def strip_prefix_eq_Some [THEN iffD2, OF refl]
        strip_prefix_def starts_with_def parse_canonical_hex_u64_hex_nat)
qed

text \<open>
  C37: the marker round-trips. Whatever lines of other text surround it in the standard error of the VMM,
  the line the shim prints after it restricted itself under a reviewed policy of ABI 4 or later is
  read back as that policy, with both denials, and passes the launcher's own check.
\<close>

theorem landlock_marker_round_trip:
  assumes "reviewed_landlock_policy (lo_abi p) = Inr p" "4 \<le> lo_abi p"
    and "list_all (\<lambda>l. CHR 0x0A \<notin> set l \<and> \<not> starts_with l LANDLOCK_PREFIX) before" "markers after = []"
    and "valid_utf8 (str_bytes (unlines before @ activation_marker (lo_abi p) p @ CHR 0x0A # after))"
  shows "parse_landlock_observation (str_bytes (unlines before @ activation_marker (lo_abi p) p @ CHR 0x0A # after)) =
    Inr \<lparr>kl_abi = unat (lo_abi p), kl_handled_filesystem = unat (handled_filesystem p),
      kl_handled_network = unat (handled_network p), kl_scoped = unat (lo_scoped p),
      kl_denied_write_errno = 13, kl_denied_create_errno = 13\<rparr>"
proof -
  define m where "m = activation_marker (lo_abi p) p"
  have last: "strip_cr m = m" by (simp add: m_def activation_marker_def strip_cr_def)
  have m: "m = LANDLOCK_PREFIX @ join_with CHR '' '' (marker_words (lo_abi p) p)"
    by (simp add: m_def activation_marker_words)
  have "CHR 0x0A \<notin> set m"
    using marker_words_plain [of "lo_abi p" p] set_join_with [of "CHR 0x0A" "CHR '' ''" "marker_words (lo_abi p) p"]
    by (auto simp: m LANDLOCK_PREFIX_def list_all_iff)
  then have "markers (unlines before @ m @ CHR 0x0A # after) = [join_with CHR '' '' (marker_words (lo_abi p) p)]"
    using markers_before [OF assms(3)] markers_line [of m after] assms(4) last strip_prefix_eq_Some [THEN iffD2, OF m]
    by simp
  moreover have "unat (4 :: u32) \<le> unat (lo_abi p)" using assms(2) by (simp only: word_le_nat_alt)
  moreover define stderr where "stderr = unlines before @ m @ CHR 0x0A # after"
  ultimately have "markers stderr = [join_with CHR '' '' (marker_words (lo_abi p) p)]" "4 \<le> unat (lo_abi p)" by simp_all
  then show ?thesis
    using assms(1) assms(5) [folded m_def, folded stderr_def]
    unfolding m_def [symmetric] stderr_def [symmetric]
    by (simp add: parse_landlock_observation_def parse_activation_marker verify_landlock_def)
qed

theorem landlock_marker_round_trip_witness:
  "parse_landlock_observation (str_bytes (unlines [''boot''] @ activation_marker 4 policy_4 @ CHR 0x0A # ''done'')) =
     Inr \<lparr>kl_abi = 4, kl_handled_filesystem = 0x7fff, kl_handled_network = 3, kl_scoped = 0,
       kl_denied_write_errno = 13, kl_denied_create_errno = 13\<rparr>"
proof -
  have abi: "lo_abi policy_4 = 4" and masks: "handled_filesystem policy_4 = 0x7fff" "handled_network policy_4 = 3"
      "lo_scoped policy_4 = 0" by (simp_all add: policy_4_def)
  have "char_of (52 :: nat) = CHR ''4''" "char_of (55 :: nat) = CHR ''7''" "char_of (102 :: nat) = CHR ''f''"
      "char_of (51 :: nat) = CHR ''3''" "char_of (48 :: nat) = CHR ''0''" by code_simp+
  then have printed: "dec_string 4 = ''4''" "hex_nat 0x7fff = ''7fff''" "hex_nat 3 = ''3''" "hex_nat 0 = ''0''"
    by (simp_all add: dec_string.simps hex_nat.simps hex_digit_def)
  have line: "activation_marker 4 policy_4 = ''[keep-prober-landlock] abi=4 fs=7fff net=3 scoped=0 deniedWrite=13 deniedCreate=13''"
    by (simp add: activation_marker_def MARKER_PREFIX_def masks printed)
  have "list_all (\<lambda>l. CHR 0x0A \<notin> set l \<and> \<not> starts_with l LANDLOCK_PREFIX) [''boot'']" "markers ''done'' = []"
    by code_simp+
  moreover have "valid_utf8 (str_bytes (unlines [''boot''] @ activation_marker 4 policy_4 @ CHR 0x0A # ''done''))"
    unfolding line by code_simp
  ultimately show ?thesis
    using landlock_marker_round_trip [of policy_4 "[''boot'']" "''done''"] reviewed_policy_4 by (simp add: abi masks)
qed

subsection \<open>The lease of a user id\<close>

lemma rotation_injective: "inj_on (\<lambda>k. (a + k) mod n) {0..<n}" for a n :: nat
proof (rule linorder_inj_onI)
  fix x y assume *: "x < y" "x \<in> {0..<n}" "y \<in> {0..<n}"
  show "(a + x) mod n \<noteq> (a + y) mod n"
  proof
    assume "(a + x) mod n = (a + y) mod n"
    then have "n dvd y - x" using mod_eq_dvd_iff_nat [of "a + x" "a + y" n] * by simp
    then show False using * by (simp add: nat_dvd_not_less)
  qed
qed (simp add: linear)

lemma rotation_covers:
  fixes a n base :: nat
  assumes "0 < n"
  shows "distinct (map (\<lambda>k. base + (a + k) mod n) [0..<n])"
    and "set (map (\<lambda>k. base + (a + k) mod n) [0..<n]) = {base..<base + n}"
proof -
  have inj: "inj_on (\<lambda>k. base + (a + k) mod n) {0..<n}"
    using rotation_injective [of a n] unfolding inj_on_def add_left_cancel .
  then show "distinct (map (\<lambda>k. base + (a + k) mod n) [0..<n])" by (simp add: distinct_map)
  have "(\<lambda>k. base + (a + k) mod n) ` {0..<n} = {base..<base + n}"
  proof (rule card_subset_eq)
    show "card ((\<lambda>k. base + (a + k) mod n) ` {0..<n}) = card {base..<base + n}" using card_image [OF inj] by simp
  qed (use assms in auto)
  then show "set (map (\<lambda>k. base + (a + k) mod n) [0..<n]) = {base..<base + n}" by simp
qed

text \<open>The candidates are the whole range, each once, whatever the start.\<close>

lemma candidate_uids_cover:
  "distinct (candidate_uids (of_nat start mod 40000))
   \<and> set (candidate_uids (of_nat start mod 40000)) = {u. 300000 \<le> u \<and> u < 340000}"
proof -
  define a where "a = unat (of_nat start mod 40000 :: u32)"
  have a: "a < 40000" by (simp add: a_def unat_mod_distrib)
  have start: "of_nat start mod 40000 = (of_nat a :: u32)" by (simp add: a_def)
  have word: "unat (300000 + (of_nat a + of_nat k) mod 40000 :: u32) = 300000 + (a + k) mod 40000" if "k < 40000" for k
    using that a by (simp add: unat_word_ariths unat_mod_distrib unat_of_nat take_bit_nat_eq_self_iff)
  have uids: "map unat (candidate_uids (of_nat start mod 40000)) = map (\<lambda>k. 300000 + (a + k) mod 40000) [0..<40000]"
    unfolding start candidate_uids_def map_map
    by (rule map_cong [OF refl]) (simp only: set_upt atLeastLessThan_iff o_def word)
  have covered: "distinct (map unat (candidate_uids (of_nat start mod 40000)))"
      "set (map unat (candidate_uids (of_nat start mod 40000))) = {300000..<340000}"
    using rotation_covers [of 40000 300000 a] unfolding uids by (simp_all del: upt_rec_numeral set_map set_upt)
  have "u \<in> set (candidate_uids (of_nat start mod 40000)) \<longleftrightarrow> unat u \<in> {300000..<340000}" for u
    unfolding covered(2) [symmetric] set_map image_iff by (metis unsigned_word_eqI)
  then have "set (candidate_uids (of_nat start mod 40000)) = {u. 300000 \<le> u \<and> u < 340000}"
    by (auto simp: word_le_nat_alt word_less_nat_alt)
  then show ?thesis using covered(1) unfolding distinct_map by blast
qed

lemma try_uid_leased:
  assumes "try_uid H root attempt u s = (Inr (Some lease), t)"
  shows "ul_uid lease = u \<and> ul_path lease = path_join root (dec_string (unat u))
    \<and> (\<exists>a. uid_is_reserved H u s = (Inr False, a)) \<and> (\<exists>f a b. fs_create_new H (ul_path lease) a = (Inr f, b))
    \<and> (\<exists>a. uid_has_live_process H u a = (False, t))"
proof -
  define path where "path = path_join root (dec_string (unat u))"
  obtain a b where free: "uid_is_reserved H u s = (Inr False, a)" "uid_has_live_process H u a = (False, b)"
    and run: "(case fs_create_new H path b of
          (Inl e, t) \<Rightarrow> if e = Os EEXIST then (Inr None, t) else (Inl (Io e), t)
        | (Inr f, t) \<Rightarrow>
            io_bind (io_q (sys_write_all H f (str_bytes (attempt @ [CHR 0x0A])))) (\<lambda>_.
            io_bind (io_q (sys_fsync H f)) (\<lambda>_.
            io_bind (answering (uid_has_live_process H u)) (\<lambda>live s.
              if live then (Inr None, ignoring (fs_remove_file H path) s)
              else (Inr (Some \<lparr>ul_uid = u, ul_path = path\<rparr>), s)))) t) = (Inr (Some lease), t)"
    using assms unfolding try_uid_def or_else_def Let_def path_def [symmetric] by (auto simp: io_simps split: if_splits)
  obtain f c d where "fs_create_new H path b = (Inr f, c)" "uid_has_live_process H u d = (False, t)"
      "lease = \<lparr>ul_uid = u, ul_path = path\<rparr>"
    using run by (auto simp: io_simps split: prod.splits sum.splits if_splits)
  then show ?thesis using free unfolding path_def by auto
qed

lemma lease_search_found:
  assumes "lease_search H root attempt us s = (Inr lease, t)"
  shows "\<exists>u a. u \<in> set us \<and> try_uid H root attempt u a = (Inr (Some lease), t)"
  using assms
proof (induction us arbitrary: s)
  case (Cons u us)
  then obtain found a where first: "try_uid H root attempt u s = (Inr found, a)"
    and rest: "(case found of None \<Rightarrow> lease_search H root attempt us | Some lease \<Rightarrow> io_ret lease) a = (Inr lease, t)"
    by (auto simp: io_simps)
  show ?case
  proof (cases found)
    case None
    then show ?thesis using Cons.IH rest by fastforce
  next
    case (Some l)
    then show ?thesis using first rest by (auto simp: io_simps)
  qed
qed (simp add: io_simps)

text \<open>
  C38: a leased user id is private to the attempt. It lies in the range the containment check admits, is neither
  named nor delegated by the identity registries, its lease file was created new below the private lease
  directory, and after that the process table held no process of it.
\<close>

theorem uid_lease_exclusive:
  assumes "acquire_uid_lease H work_root attempt s = (Inr lease, t)"
  shows "300000 \<le> ul_uid lease \<and> ul_uid lease < 340000
    \<and> ul_path lease = path_join (path_join work_root ''.uid-leases'') (dec_string (unat (ul_uid lease)))
    \<and> (\<exists>a. private_root H (path_join work_root ''.uid-leases'') s = (Inr True, a))
    \<and> (\<exists>a b. uid_is_reserved H (ul_uid lease) a = (Inr False, b))
    \<and> (\<exists>f a b. fs_create_new H (ul_path lease) a = (Inr f, b))
    \<and> (\<exists>a. uid_has_live_process H (ul_uid lease) a = (False, t))"
proof -
  obtain start a where prv: "\<exists>a. private_root H (path_join work_root ''.uid-leases'') s = (Inr True, a)"
    and search: "lease_search H (path_join work_root ''.uid-leases'') attempt (candidate_uids (of_nat start mod 40000)) a
      = (Inr lease, t)"
    using assms unfolding acquire_uid_lease_def Let_def io_q_def by (auto simp: io_simps split: if_splits)
  obtain u b where u: "u \<in> set (candidate_uids (of_nat start mod 40000))"
      "try_uid H (path_join work_root ''.uid-leases'') attempt u b = (Inr (Some lease), t)"
    using lease_search_found [OF search] by blast
  show ?thesis using prv u(1) try_uid_leased [OF u(2)] candidate_uids_cover [of start] by fastforce
qed

text \<open>A host with empty registries, no process, and a private lease directory.\<close>

definition demo_lease_directory :: file_identity where
  "demo_lease_directory = \<lparr>device = 1, inode = 2, fi_mode = 0x41C0, links = 2, uid = 0, gid = 0, fi_size = 0,
     modified_seconds = 0, modified_nanoseconds = 0, changed_seconds = 0, changed_nanoseconds = 0\<rparr>"

definition demo_lease_host :: "(unit, nat) host" where
  "demo_lease_host = refusing_host
     \<lparr>fs_create_dir_all := (\<lambda>_. io_ret ()), fs_set_permissions := (\<lambda>_ _. io_ret ()),
      fs_symlink_metadata := (\<lambda>_. io_ret demo_lease_directory), fs_read := (\<lambda>_. io_ret []), fs_read_dir := (\<lambda>_. io_ret []),
      fs_create_new := (\<lambda>_. io_ret 5), sys_write_all := (\<lambda>_ _. io_ret ()), sys_fsync := (\<lambda>_. io_ret ())\<rparr>"

definition demo_attempt :: string where "demo_attempt = ''keep-00000000000000000000000000000000''"

lemma demo_leased:
  "acquire_uid_lease demo_lease_host ''/jails'' demo_attempt () =
     (Inr \<lparr>ul_uid = 300000, ul_path = ''/jails/.uid-leases/'' @ dec_string 300000\<rparr>, ())"
proof -
  have calls: "fs_create_dir_all demo_lease_host = (\<lambda>_. io_ret ())" "fs_set_permissions demo_lease_host = (\<lambda>_ _. io_ret ())"
    "fs_symlink_metadata demo_lease_host = (\<lambda>_. io_ret demo_lease_directory)" "fs_read demo_lease_host = (\<lambda>_. io_ret [])"
    "fs_read_dir demo_lease_host = (\<lambda>_. io_ret [])" "fs_create_new demo_lease_host = (\<lambda>_. io_ret 5)"
    "sys_write_all demo_lease_host = (\<lambda>_ _. io_ret ())" "sys_fsync demo_lease_host = (\<lambda>_. io_ret ())"
    by (simp_all add: demo_lease_host_def)
  have root: "private_root demo_lease_host path () = (Inr True, ())" for path
    by (simp add: private_root_def calls demo_lease_directory_def is_dir_def is_link_def S_IFMT_def)
  have "fs_read_to_string demo_lease_host path () = (Inr [], ())" for path
    by (simp add: fs_read_to_string_def calls bytes_str_def)
  then have named: "id_is_named demo_lease_host path u () = (Inr False, ())"
      "id_is_delegated demo_lease_host path u () = (Inr False, ())" for path u
    by (simp_all add: id_is_named_def id_is_delegated_def io_q_def io_lift_def)
  have free: "uid_is_reserved demo_lease_host u () = (Inr False, ())" "uid_has_live_process demo_lease_host u () = (False, ())" for u
    by (simp_all add: uid_is_reserved_def or_else_def io_bind_def named calls uid_has_live_process_def)
  have joined: "path_join ''/jails'' ''.uid-leases'' = ''/jails/.uid-leases''"
    "path_join ''/jails/.uid-leases'' (dec_string 300000) = ''/jails/.uid-leases/'' @ dec_string 300000"
  proof -
    obtain c cs where d: "dec_string 300000 = c # cs" by (cases "dec_string 300000") simp_all
    then have "c \<noteq> CHR ''/''" using dec_string_digits [of c 300000] by (auto simp: is_ascii_digit_def byte_of_char_def)
    then show "path_join ''/jails/.uid-leases'' (dec_string 300000) = ''/jails/.uid-leases/'' @ dec_string 300000"
      by (simp add: path_join_def d starts_with_def ends_with_def)
  qed (simp add: path_join_def starts_with_def ends_with_def)
  have nonce: "strip_prefix demo_attempt ''keep-'' = Some ''00000000000000000000000000000000''"
    by (simp add: demo_attempt_def strip_prefix_eq_Some)
  have start: "parse_hex m ''00000000'' = Some 0" for m
    by (simp add: parse_hex_def strip_plus_def hex_text_value_def hex_char_value_def Let_def)
  have tried: "try_uid demo_lease_host ''/jails/.uid-leases'' demo_attempt 300000 () =
      (Inr (Some \<lparr>ul_uid = 300000, ul_path = ''/jails/.uid-leases/'' @ dec_string 300000\<rparr>), ())"
    by (simp add: try_uid_def or_else_def free answering_def calls io_q_def joined Let_def io_bind_def)
  obtain rest where "candidate_uids (of_nat 0 mod 40000) = 300000 # rest"
  proof
    show "candidate_uids (of_nat 0 mod 40000) = 300000 # map (\<lambda>offset. 300000 + (0 + of_nat offset) mod 40000) [Suc 0..<40000]"
      unfolding candidate_uids_def by (subst upt_conv_Cons) (simp_all del: upt_rec_numeral)
  qed
  then show ?thesis
    by (simp add: acquire_uid_lease_def root joined nonce start io_q_def io_lift_def tried io_map_err_def io_bind_def)
qed

theorem uid_lease_exclusive_witness:
  "\<exists>a b. uid_is_reserved demo_lease_host 300000 a = (Inr False, b) \<and> uid_has_live_process demo_lease_host 300000 a = (False, b)
     \<and> private_root demo_lease_host (path_join ''/jails'' ''.uid-leases'') a = (Inr True, b)"
  using uid_lease_exclusive [OF demo_leased] by auto

subsection \<open>The check for an inherited descriptor\<close>

text \<open>
  The identity compared with the canary's is that of the link below \<open>/proc\<close>, not of the file it leads to. When the
  links live on another device than the canary, the check passes whatever descriptors the process holds.
\<close>

lemma inherited_check_blind:
  assumes "\<And>entry u. entry \<in> set entries \<Longrightarrow>
      \<exists>m v. fs_symlink_metadata H (root @ ''/'' @ entry) u = (Inr m, v) \<and> device m \<noteq> fst canary"
  shows "fst (all_m (is_not_canary H root canary) entries s)"
  using assms
proof (induction entries arbitrary: s)
  case (Cons entry entries)
  obtain m v where "fs_symlink_metadata H (root @ ''/'' @ entry) s = (Inr m, v)" "device m \<noteq> fst canary"
    using Cons.prems [of entry s] by auto
  then have "is_not_canary H root canary entry s = (True, v)" by (auto simp: is_not_canary_def succeeds_def)
  then show ?case using Cons by simp
qed simp

end
