(* ===== verification/Host_Objects.thy ===== *)
theory Host_Objects
  imports Host_Fs
begin

section \<open>Inherited descriptors, sealed programs, processes, staged copies\<close>

text \<open>
  The rest of \<open>linux-abi/src/lib.rs\<close>: clearing close-on-exec, executing a sealed program by its descriptor,
  signalling one process incarnation by its pidfd, and the private copy of a pinned file, which is written,
  made durable, given its mode and compared byte by byte with its source.
\<close>

subsection \<open>Descriptors that survive \<open>execve\<close>\<close>

definition FD_CLOEXEC :: u32 where "FD_CLOEXEC = 1"

definition clear_close_on_exec :: "('s, 'f, 'm) host_scheme \<Rightarrow> 'f \<Rightarrow> ('s, nat) io" where
  "clear_close_on_exec H f =
     io_bind (sys_getfd H f) (\<lambda>flags.
     io_bind (sys_setfd H f (flags AND NOT FD_CLOEXEC)) (\<lambda>_. io_ret (raw_fd H f)))"

definition sealed_inheritable :: "('s, 'f, 'm) host_scheme \<Rightarrow> 'f sealed_file \<Rightarrow> ('s, nat) io" where
  "sealed_inheritable H p = clear_close_on_exec H (sl_file p)"

definition directory_inheritable :: "('s, 'f, 'm) host_scheme \<Rightarrow> 'f pinned_directory \<Rightarrow> ('s, nat) io" where
  "directory_inheritable H d = clear_close_on_exec H (pd_directory d)"

subsection \<open>Executing a sealed program\<close>

text \<open>\<open>Inr ()\<close>: the process was replaced. Every other end is the error the function returns.\<close>

definition c_strings :: "string list \<Rightarrow> (unit, string list) res" where
  "c_strings ts = (if list_ex (\<lambda>t. CHR 0x00 \<in> set t) ts then Inl () else Inr ts)"

definition sealed_exec :: "('s, 'f, 'm) host_scheme \<Rightarrow> 'f sealed_file \<Rightarrow> string list \<Rightarrow> (string \<times> string) list \<Rightarrow> ('s, unit) io" where
  "sealed_exec H p arguments environment =
     (case c_strings arguments of
        Inl _ \<Rightarrow> io_invalid ''sealed executable arguments are empty or contain NUL''
      | Inr argv \<Rightarrow>
          if argv = [] then io_invalid ''sealed executable arguments are empty or contain NUL''
          else (case c_strings (map (\<lambda>(k, v). k @ ''='' @ v) environment) of
              Inl _ \<Rightarrow> io_invalid ''sealed executable environment contains NUL''
            | Inr envp \<Rightarrow> sys_execveat H (sl_file p) argv envp))"

lemma sealed_exec_Inr:
  "sealed_exec H p arguments environment s = (Inr (), t) \<longleftrightarrow>
     arguments \<noteq> [] \<and> \<not> list_ex (\<lambda>a. CHR 0x00 \<in> set a) arguments
     \<and> \<not> list_ex (\<lambda>a. CHR 0x00 \<in> set a) (map (\<lambda>(k, v). k @ ''='' @ v) environment)
     \<and> sys_execveat H (sl_file p) arguments (map (\<lambda>(k, v). k @ ''='' @ v) environment) s = (Inr (), t)"
  by (auto simp: sealed_exec_def c_strings_def io_simps)

subsection \<open>One process incarnation\<close>

record 'f process_identity =
  pi_file :: 'f
  pi_pid :: u32

definition process_open :: "('s, 'f, 'm) host_scheme \<Rightarrow> u32 \<Rightarrow> ('s, 'f process_identity) io" where
  "process_open H pid =
     (if 2 ^ 31 \<le> unat pid then io_invalid ''PID exceeds signed kernel range''
      else if pid = 0 then io_invalid ''PID must identify a userspace process''
      else io_bind (sys_pidfd_open H (unat pid)) (\<lambda>f. io_ret \<lparr>pi_file = f, pi_pid = pid\<rparr>))"

definition has_exited :: "('s, 'f, 'm) host_scheme \<Rightarrow> 'f process_identity \<Rightarrow> ('s, bool) io" where
  "has_exited H p =
     io_bind (sys_pidfd_poll H (pi_file p)) (\<lambda>(ready, events).
       if Not_Open \<in> events then io_invalid ''pidfd became invalid''
       else io_ret (ready = 1 \<and> events \<inter> {Readable, Hung_Up} \<noteq> {}))"

definition send_signal :: "('s, 'f, 'm) host_scheme \<Rightarrow> 'f process_identity \<Rightarrow> signal \<Rightarrow> ('s, unit) io" where
  "send_signal H p signal =
     (if signal \<noteq> SIGKILL \<and> signal \<noteq> SIGTERM then io_invalid ''process signal is outside the closed teardown set''
      else sys_pidfd_send_signal H (pi_file p) signal)"

definition process_terminate :: "('s, 'f, 'm) host_scheme \<Rightarrow> 'f process_identity \<Rightarrow> ('s, unit) io" where
  "process_terminate H p = send_signal H p SIGTERM"

definition process_kill :: "('s, 'f, 'm) host_scheme \<Rightarrow> 'f process_identity \<Rightarrow> ('s, unit) io" where
  "process_kill H p = send_signal H p SIGKILL"

subsection \<open>The private copy of a pinned file\<close>

text \<open>
  The comparison reads both files in chunks and ends at the end of the source; a short read of only one of them
  counts as a difference. It runs as long as the kernel gives bytes, so it takes fuel, one unit a round.
\<close>

primrec compare_loop :: "nat \<Rightarrow> ('s, 'f) kernel \<Rightarrow> 'f \<Rightarrow> 'f \<Rightarrow> 's \<Rightarrow> ((io_error, unit) res \<times> 's) option" where
  "compare_loop 0 K source destination s = None"
| "compare_loop (Suc fuel) K source destination s =
     (case read_chunk K source CHUNK_BYTES s of
        (Inl e, t) \<Rightarrow> Some (Inl e, t)
      | (Inr source_chunk, t) \<Rightarrow>
          (case read_chunk K destination CHUNK_BYTES t of
             (Inl e, u) \<Rightarrow> Some (Inl e, u)
           | (Inr destination_chunk, u) \<Rightarrow>
               if source_chunk \<noteq> destination_chunk
               then Some (Inl (Invalid_Data ''private streamed copy byte comparison differs''), u)
               else if source_chunk = [] then Some (Inr (), u)
               else compare_loop fuel K source destination u))"

text \<open>\<open>io::copy\<close> from a limited reader: the bytes it reads are the bytes it writes.\<close>

definition io_copy :: "('s, 'f) kernel \<Rightarrow> 'f \<Rightarrow> nat \<Rightarrow> 'f \<Rightarrow> ('s, nat) io" where
  "io_copy K source limit destination =
     io_bind (read_to_limit K source limit) (\<lambda>bs. io_bind (sys_write_all K destination bs) (\<lambda>_. io_ret (length bs)))"

text \<open>The copy up to the comparison: the destination, and the two descriptors to compare.\<close>

definition copy_private ::
    "('s, 'f) kernel \<Rightarrow> 'f pinned_directory \<Rightarrow> string \<Rightarrow> 'f pinned_regular_file \<Rightarrow> u64 \<Rightarrow> u32 \<Rightarrow> ('s, 'f \<times> 'f \<times> 'f) io" where
  "copy_private K d name source maximum_bytes final_mode =
     (if \<not> one_component name \<or> maximum_bytes < fi_size (pr_identity source) \<or> final_mode \<notin> STAGED_MODES
      then io_invalid ''private streamed-copy parameters are not admitted''
      else
        io_bind (io_lift (c_string (Invalid_Data ''private streamed-copy name contains NUL'') name)) (\<lambda>name.
        io_bind (sys_openat2 K (pd_directory d) name create_how) (\<lambda>destination.
        io_bind (sys_dup K (pr_file source)) (\<lambda>source_reader.
        io_bind (sys_seek K source_reader 0) (\<lambda>_.
        io_bind (io_copy K source_reader (saturating_successor maximum_bytes) destination) (\<lambda>copied.
        if copied \<noteq> unat (fi_size (pr_identity source)) \<or> unat maximum_bytes < copied
        then io_invalid ''private streamed copy length differs''
        else
          io_bind (sys_flush K destination) (\<lambda>_.
          io_bind (sys_fsync K destination) (\<lambda>_.
          io_bind (sys_fchmod K destination final_mode) (\<lambda>_.
          io_bind (sys_dup K (pr_file source)) (\<lambda>source_compare.
          io_bind (sys_dup K destination) (\<lambda>destination_compare.
          io_bind (sys_seek K source_compare 0) (\<lambda>_.
          io_bind (sys_seek K destination_compare 0) (\<lambda>_.
            io_ret (destination, source_compare, destination_compare))))))))))))))"

definition copied_identity ::
    "('s, 'f) kernel \<Rightarrow> 'f pinned_regular_file \<Rightarrow> 'f \<Rightarrow> u32 \<Rightarrow> ('s, 'f pinned_regular_file) io" where
  "copied_identity K source destination final_mode =
     io_bind (sys_fstat K (pr_file source)) (\<lambda>source_after.
     io_bind (sys_fstat K destination) (\<lambda>i.
       if source_after \<noteq> pr_identity source \<or> fi_size i \<noteq> fi_size (pr_identity source) \<or> links i \<noteq> 1 \<or> uid i \<noteq> 0
          \<or> gid i \<noteq> 0 \<or> fi_mode i AND 0x1FF \<noteq> final_mode
       then io_invalid ''streamed source or destination identity changed''
       else io_ret \<lparr>pr_file = destination, pr_identity = i\<rparr>))"

definition stage_private_copy ::
    "nat \<Rightarrow> ('s, 'f) kernel \<Rightarrow> 'f pinned_directory \<Rightarrow> string \<Rightarrow> 'f pinned_regular_file \<Rightarrow> u64 \<Rightarrow> u32 \<Rightarrow> 's
      \<Rightarrow> ((io_error, 'f pinned_regular_file) res \<times> 's) option" where
  "stage_private_copy fuel K d name source maximum_bytes final_mode s =
     (case copy_private K d name source maximum_bytes final_mode s of
        (Inl e, t) \<Rightarrow> Some (Inl e, t)
      | (Inr (destination, source_compare, destination_compare), t) \<Rightarrow>
          (case compare_loop fuel K source_compare destination_compare t of
             None \<Rightarrow> None
           | Some (Inl e, u) \<Rightarrow> Some (Inl e, u)
           | Some (Inr _, u) \<Rightarrow> Some (copied_identity K source destination final_mode u)))"

text \<open>What a staged copy is: one private root-owned file of the mode asked for and the size of an unchanged source.\<close>

lemma staged_copy:
  assumes "stage_private_copy fuel K d name source maximum_bytes final_mode s = Some (Inr p, t)"
  shows "one_component name \<and> final_mode \<in> STAGED_MODES \<and> fi_size (pr_identity p) = fi_size (pr_identity source)
    \<and> fi_size (pr_identity source) \<le> maximum_bytes \<and> links (pr_identity p) = 1 \<and> uid (pr_identity p) = 0
    \<and> gid (pr_identity p) = 0 \<and> fi_mode (pr_identity p) AND 0x1FF = final_mode
    \<and> (\<exists>u v. sys_fstat K (pr_file source) u = (Inr (pr_identity source), v))"
proof -
  obtain destination sc dc a b where copied: "copy_private K d name source maximum_bytes final_mode s = (Inr (destination, sc, dc), a)"
    and "copied_identity K source destination final_mode b = (Inr p, t)"
    using assms by (auto simp: stage_private_copy_def split: prod.splits sum.splits option.splits)
  moreover have "one_component name \<and> final_mode \<in> STAGED_MODES \<and> fi_size (pr_identity source) \<le> maximum_bytes"
    using copied by (auto simp: copy_private_def io_simps split: if_splits)
  ultimately show ?thesis by (auto simp: copied_identity_def io_simps split: if_splits)
qed

end
