(* ===== verification/Candidate_Process.thy ===== *)
theory Candidate_Process
  imports Candidate_Observe Host_Objects
begin

section \<open>The direct processes of the launcher\<close>

text \<open>
  \<open>CandidateDirectProcess\<close> of \<open>prober-launcher/src/lib.rs\<close> over the host: spawning with a closed environment,
  killing and collecting, and the bounded wait, as the calls they make. The results of \<open>identity.kill()\<close> and
  \<open>child.wait()\<close> are ignored, as in the code. \<open>child.wait()\<close> may block: a run is \<open>None\<close> when it does not return,
  because a call blocks or because the loop still polls after the rounds it was given. Shown here: what
  is true of the child when the wait returns, and that it returns within a stated number of rounds when the kernel
  lets a killed child be collected and the monotonic clock advances with the sleeps.
\<close>

datatype exit_status = Exit_Code nat | Exit_Signal nat

record ('s, 'f) launch_host = "('s, 'f) host" +
  lh_spawn :: "string \<Rightarrow> string list \<Rightarrow> (string \<times> string) list \<Rightarrow> string \<Rightarrow> 'f \<Rightarrow> 'f \<Rightarrow> ('s, u32) io"
  lh_child_kill :: "u32 \<Rightarrow> ('s, unit) io"
  lh_child_wait :: "u32 \<Rightarrow> 's \<Rightarrow> ((io_error, exit_status) res \<times> 's) option"
  lh_try_wait :: "u32 \<Rightarrow> ('s, exit_status option) io"

text \<open>\<open>let _ = \<close> on a call that may block.\<close>

definition ignoring_wait :: "('s \<Rightarrow> ((io_error, 'a) res \<times> 's) option) \<Rightarrow> 's \<Rightarrow> 's option" where
  "ignoring_wait m s = map_option snd (m s)"

subsection \<open>Spawning\<close>

record 'f direct_process =
  dp_child :: u32
  dp_identity :: "'f process_identity"
  dp_stdout :: 'f
  dp_stderr :: 'f

definition spawn_process ::
    "('s, 'f) launch_host \<Rightarrow> string \<Rightarrow> string list \<Rightarrow> (string \<times> string) list \<Rightarrow> string \<Rightarrow> 'f \<Rightarrow> 'f \<Rightarrow> 's
      \<Rightarrow> ((io_error, 'f direct_process) res \<times> 's) option" where
  "spawn_process L executable arguments environment working_directory stdout stderr s =
     (case io_bind (sys_dup L stdout) (\<lambda>out. io_bind (sys_dup L stderr)
             (lh_spawn L executable arguments environment working_directory out)) s of
        (Inl e, t) \<Rightarrow> Some (Inl e, t)
      | (Inr pid, t) \<Rightarrow>
          (case process_open L pid t of
             (Inr identity, u) \<Rightarrow>
               Some (Inr \<lparr>dp_child = pid, dp_identity = identity, dp_stdout = stdout, dp_stderr = stderr\<rparr>, u)
           | (Inl e, u) \<Rightarrow>
               map_option (Pair (Inl e)) (ignoring_wait (lh_child_wait L pid) (ignoring (lh_child_kill L pid) u))))"

text \<open>A spawn that fails has spawned nothing, or it has killed the child it could not identify and waited for it.\<close>

lemma spawn_refused:
  assumes "spawn_process L executable arguments environment working_directory stdout stderr s = Some (Inl e, t)"
  shows "(\<nexists>pid u. io_bind (sys_dup L stdout) (\<lambda>out. io_bind (sys_dup L stderr)
             (lh_spawn L executable arguments environment working_directory out)) s = (Inr pid, u))
    \<or> (\<exists>pid u answer. lh_child_wait L pid (ignoring (lh_child_kill L pid) u) = Some (answer, t))"
  using assms by (auto simp: spawn_process_def ignoring_wait_def split: prod.splits sum.splits)

text \<open>Killing and collecting, which is also what dropping an owned child does.\<close>

definition end_process :: "('s, 'f) launch_host \<Rightarrow> 'f direct_process \<Rightarrow> 's \<Rightarrow> 's option" where
  "end_process L p s = ignoring_wait (lh_child_wait L (dp_child p)) (ignoring (process_kill L (dp_identity p)) s)"

subsection \<open>The bounded wait\<close>

record reaped =
  rp_status :: exit_status
  rp_stdout_bytes :: nat
  rp_stderr_bytes :: nat

definition within_output :: "nat \<Rightarrow> nat \<Rightarrow> nat \<Rightarrow> bool" where
  "within_output maximum n m \<longleftrightarrow> (case checked_add n m of None \<Rightarrow> False | Some t \<Rightarrow> t \<le> maximum)"

definition output_lengths :: "('s, 'f) launch_host \<Rightarrow> 'f direct_process \<Rightarrow> ('s, nat \<times> nat) io" where
  "output_lengths L p =
     io_bind (sys_fstat L (dp_stdout p)) (\<lambda>i. io_bind (sys_fstat L (dp_stderr p)) (\<lambda>j.
       io_ret (unat (fi_size i), unat (fi_size j))))"

text \<open>
  After \<open>try_wait\<close> reported the exit the child keeps its status, so a further \<open>child.wait()\<close> is no call. A
  failure of the metadata drops the child while it is owned, which signals it once more.
\<close>

definition after_exit ::
    "('s, 'f) launch_host \<Rightarrow> nat \<Rightarrow> 'f direct_process \<Rightarrow> exit_status \<Rightarrow> 's \<Rightarrow> reaped cres \<times> 's" where
  "after_exit L maximum p status s =
     (case output_lengths L p s of
        (Inl _, t) \<Rightarrow> (Inl DirectProcessFailed, ignoring (process_kill L (dp_identity p)) t)
      | (Inr (n, m), t) \<Rightarrow>
          if \<not> within_output maximum n m then (Inl OutputLimitExceeded, t)
          else (Inr \<lparr>rp_status = status, rp_stdout_bytes = n, rp_stderr_bytes = m\<rparr>, t))"

definition refuse_process ::
    "('s, 'f) launch_host \<Rightarrow> 'f direct_process \<Rightarrow> candidate_refusal \<Rightarrow> 's \<Rightarrow> (reaped cres \<times> 's) option" where
  "refuse_process L p e s = map_option (Pair (Inl e)) (end_process L p s)"

definition POLL_NANOSECONDS :: nat where "POLL_NANOSECONDS = 5000000"

primrec wait_bounded ::
    "nat \<Rightarrow> ('s, 'f) launch_host \<Rightarrow> candidate_deadline \<Rightarrow> nat \<Rightarrow> 'f direct_process \<Rightarrow> 's \<Rightarrow> (reaped cres \<times> 's) option" where
  "wait_bounded 0 L deadline maximum p s = None"
| "wait_bounded (Suc rounds) L deadline maximum p s =
     (case output_lengths L p s of
        (Inl _, t) \<Rightarrow> refuse_process L p DirectProcessFailed t
      | (Inr (n, m), t) \<Rightarrow>
          if \<not> within_output maximum n m then refuse_process L p OutputLimitExceeded t
          else (case lh_try_wait L (dp_child p) t of
              (Inl _, u) \<Rightarrow> refuse_process L p DirectProcessFailed u
            | (Inr (Some status), u) \<Rightarrow> Some (after_exit L maximum p status u)
            | (Inr None, u) \<Rightarrow>
                (case deadline_remaining deadline (os_clock L u) of
                   Inl e \<Rightarrow> refuse_process L p e u
                 | Inr remaining \<Rightarrow>
                     wait_bounded rounds L deadline maximum p (os_sleep L (min remaining POLL_NANOSECONDS) u))))"

subsection \<open>What is true when the wait returns\<close>

text \<open>Rounds that go on: the outputs are within the maximum, the child runs, the deadline is ahead.\<close>

inductive polling ::
    "('s, 'f) launch_host \<Rightarrow> candidate_deadline \<Rightarrow> nat \<Rightarrow> 'f direct_process \<Rightarrow> 's \<Rightarrow> 's \<Rightarrow> bool"
    for L deadline maximum p where
  here: "polling L deadline maximum p s s"
| round: "output_lengths L p s = (Inr (n, m), t) \<Longrightarrow> within_output maximum n m
    \<Longrightarrow> lh_try_wait L (dp_child p) t = (Inr None, u) \<Longrightarrow> deadline_remaining deadline (os_clock L u) = Inr remaining
    \<Longrightarrow> polling L deadline maximum p (os_sleep L (min remaining POLL_NANOSECONDS) u) v
    \<Longrightarrow> polling L deadline maximum p s v"

text \<open>The child was collected: \<open>try_wait\<close> reported its exit, or the last thing done was \<open>child.wait()\<close> after a kill.\<close>

definition collected :: "('s, 'f) launch_host \<Rightarrow> 'f direct_process \<Rightarrow> 's \<Rightarrow> bool" where
  "collected L p t \<longleftrightarrow>
     (\<exists>u status v. lh_try_wait L (dp_child p) u = (Inr (Some status), v)
        \<and> (\<exists>r w. output_lengths L p v = (r, w) \<and> t \<in> {w, ignoring (process_kill L (dp_identity p)) w}))
     \<or> (\<exists>u answer. lh_child_wait L (dp_child p) (ignoring (process_kill L (dp_identity p)) u) = Some (answer, t))"

lemma within_outputD: "within_output maximum n m \<Longrightarrow> n + m \<le> maximum"
  by (auto simp: within_output_def checked_add_def split: option.splits if_splits)


lemma deadline_remaining_Inl:
  "deadline_remaining d now = Inl e \<Longrightarrow> e = DeadlineExpired \<and> (dl_started d + dl_limit d \<le> now \<or> dl_limit d = 0)"
  by (auto simp: deadline_remaining_def Let_def split: if_splits)

lemma refused_collected:
  "refuse_process L p e s = Some (r, t) \<Longrightarrow> r = Inl e \<and> collected L p t
     \<and> (\<exists>answer. lh_child_wait L (dp_child p) (ignoring (process_kill L (dp_identity p)) s) = Some (answer, t))"
  unfolding refuse_process_def end_process_def ignoring_wait_def collected_def by auto

lemma exited_collected:
  assumes "lh_try_wait L (dp_child p) u = (Inr (Some status), v)"
  shows "collected L p (snd (after_exit L maximum p status v))"
proof -
  obtain r w where "output_lengths L p v = (r, w)" by (cases "output_lengths L p v")
  moreover from this have "snd (after_exit L maximum p status v) \<in> {w, ignoring (process_kill L (dp_identity p)) w}"
    by (auto simp: after_exit_def split: sum.splits)
  ultimately show ?thesis using assms unfolding collected_def by blast
qed

text \<open>The end of a wait that starts its last round in \<open>s\<close>: an exit, or a refusal.\<close>

definition wait_end ::
    "('s, 'f) launch_host \<Rightarrow> candidate_deadline \<Rightarrow> nat \<Rightarrow> 'f direct_process \<Rightarrow> 's \<Rightarrow> reaped cres \<Rightarrow> 's \<Rightarrow> bool" where
  "wait_end L deadline maximum p s r t \<longleftrightarrow>
     (case r of
        Inr x \<Rightarrow>
          (\<exists>n m u v. output_lengths L p s = (Inr (n, m), u) \<and> n + m \<le> maximum
             \<and> lh_try_wait L (dp_child p) u = (Inr (Some (rp_status x)), v)
             \<and> output_lengths L p v = (Inr (rp_stdout_bytes x, rp_stderr_bytes x), t)
             \<and> rp_stdout_bytes x + rp_stderr_bytes x \<le> maximum)
      | Inl e \<Rightarrow>
          e \<in> {OutputLimitExceeded, DirectProcessFailed}
          \<or> e = DeadlineExpired \<and> (\<exists>u v. lh_try_wait L (dp_child p) u = (Inr None, v)
              \<and> (dl_started deadline + dl_limit deadline \<le> os_clock L v \<or> dl_limit deadline = 0)
              \<and> (\<exists>answer. lh_child_wait L (dp_child p) (ignoring (process_kill L (dp_identity p)) v) = Some (answer, t))))"

lemma wait_bounded_end:
  assumes "wait_bounded rounds L d maximum p s = Some (r, t)"
  shows "\<exists>u. polling L d maximum p s u \<and> wait_end L d maximum p u r t \<and> collected L p t"
  using assms
proof (induction rounds arbitrary: s)
  case (Suc rounds)
  have last: ?case if "wait_end L d maximum p s r t" "collected L p t"
    using that polling.here [of L d maximum p s] by blast
  obtain a u where a: "output_lengths L p s = (a, u)" by (cases "output_lengths L p s")
  show ?case
  proof (cases a)
    case (Inl e)
    then have "refuse_process L p DirectProcessFailed u = Some (r, t)" using Suc.prems a by simp
    then show ?thesis by (intro last) (auto simp: wait_end_def dest!: refused_collected)
  next
    case (Inr nm)
    obtain n m where nm: "a = Inr (n, m)" using Inr by (cases nm) simp
    show ?thesis
    proof (cases "within_output maximum n m")
      case False
      then have "refuse_process L p OutputLimitExceeded u = Some (r, t)" using Suc.prems a nm by simp
      then show ?thesis by (intro last) (auto simp: wait_end_def dest!: refused_collected)
    next
      case within: True
      obtain b v where b: "lh_try_wait L (dp_child p) u = (b, v)" by (cases "lh_try_wait L (dp_child p) u")
      consider e where "b = Inl e" | status where "b = Inr (Some status)" | "b = Inr None"
        by (metis old.sum.exhaust option.exhaust)
      then show ?thesis
      proof cases
        case 1
        then have "refuse_process L p DirectProcessFailed v = Some (r, t)" using Suc.prems a nm within b by simp
        then show ?thesis by (intro last) (auto simp: wait_end_def dest!: refused_collected)
      next
        case 2
        then have exited: "after_exit L maximum p status v = (r, t)" using Suc.prems a nm within b by simp
        show ?thesis
        proof (rule last)
          show "collected L p t" using exited_collected [of L p u status v maximum] b 2 exited by simp
          show "wait_end L d maximum p s r t"
            using exited a nm b 2 within_outputD [OF within]
            by (auto simp: wait_end_def after_exit_def within_outputD split: sum.splits prod.splits if_splits)
        qed
      next
        case 3
        show ?thesis
        proof (cases "deadline_remaining d (os_clock L v)")
          case (Inl e)
          then have "refuse_process L p e v = Some (r, t)" using Suc.prems a nm within b 3 by simp
          from refused_collected [OF this] deadline_remaining_Inl [OF Inl] show ?thesis
            using b 3 by (intro last) (auto simp: wait_end_def)
        next
          case (Inr remaining)
          then obtain w where "polling L d maximum p (os_sleep L (min remaining POLL_NANOSECONDS) v) w"
              "wait_end L d maximum p w r t" "collected L p t"
            using Suc.IH [of "os_sleep L (min remaining POLL_NANOSECONDS) v"] Suc.prems a nm within b 3 by auto
          then show ?thesis using polling.round [of L p s n m u maximum v d remaining w] a nm within b 3 Inr by blast
        qed
      qed
    qed
  qed
qed simp

text \<open>
  C22: When the wait for a spawned child returns, the child was collected, whatever the outcome: \<open>try_wait\<close> has
  reported its exit, or the wait ended with a kill followed by a \<open>child.wait()\<close> that returned. Every round before the
  last saw outputs within the maximum, a running child and a deadline ahead. An exit is the status \<open>try_wait\<close>
  reported with outputs that together are within the maximum, before and after it, and nothing was sent
  to the child; the only refusals are too much output, a failure of a call, and a deadline that the clock had
  reached while the child was running, after which it was killed and collected.
\<close>

theorem wait_collects_child:
  "wait_bounded rounds L d maximum p s = Some (r, t) \<Longrightarrow>
     \<exists>u. polling L d maximum p s u \<and> wait_end L d maximum p u r t \<and> collected L p t"
  by (rule wait_bounded_end)

subsection \<open>A child that never exits\<close>

text \<open>A host whose child runs until it is killed; \<open>child.wait()\<close> blocks on it before. Its state is the clock and whether the
  signal was sent.\<close>

definition demo_output :: file_identity where
  "demo_output = \<lparr>device = 1, inode = 2, fi_mode = 0x8180, links = 1, uid = 0, gid = 0, fi_size = 3, modified_seconds = 0,
     modified_nanoseconds = 0, changed_seconds = 0, changed_nanoseconds = 0\<rparr>"

definition demo_launch :: "(nat \<times> bool, nat) launch_host" where
  "demo_launch = host.extend
     (refusing_host\<lparr>sys_fstat := (\<lambda>_ s. (Inr demo_output, s)),
        sys_pidfd_send_signal := (\<lambda>_ _ s. (Inr (), (fst s, True))),
        os_clock := fst, os_sleep := (\<lambda>n s. (fst s + n, snd s))\<rparr>)
     (launch_host.fields (\<lambda>_ _ _ _ _ _. no_call) (\<lambda>_. no_call)
        (\<lambda>_ s. if snd s then Some (Inr (Exit_Signal 9), s) else None) (\<lambda>_ s. (Inr None, s)))"

definition demo_process :: "nat direct_process" where
  "demo_process = \<lparr>dp_child = 7, dp_identity = \<lparr>pi_file = 0, pi_pid = 7\<rparr>, dp_stdout = 1, dp_stderr = 2\<rparr>"

definition demo_deadline :: candidate_deadline where "demo_deadline = \<lparr>dl_started = 100, dl_limit = 7000000\<rparr>"

lemma demo_launch_calls:
  "output_lengths demo_launch demo_process s = (Inr (3, 3), s)"
  "lh_try_wait demo_launch n s = (Inr None, s)" "os_clock demo_launch s = fst s"
  "os_sleep demo_launch k s = (fst s + k, snd s)" "process_kill demo_launch i s = (Inr (), (fst s, True))"
  "lh_child_wait demo_launch n s = (if snd s then Some (Inr (Exit_Signal 9), s) else None)"
  by (simp_all add: output_lengths_def demo_launch_def refusing_host_def host.defs launch_host.defs demo_output_def
      process_kill_def send_signal_def)

lemma demo_run:
  "wait_bounded 3 demo_launch demo_deadline 6 demo_process (100, False) = Some (Inl DeadlineExpired, (7000100, True))"
proof -
  have "wait_bounded (Suc (Suc (Suc 0))) demo_launch demo_deadline 6 demo_process (100, False)
      = Some (Inl DeadlineExpired, (7000100, True))"
    by (simp add: demo_launch_calls within_output_def checked_add_def usize_max_def demo_deadline_def
      deadline_remaining_def POLL_NANOSECONDS_def refuse_process_def end_process_def ignoring_wait_def ignoring_def Let_def)
  then show ?thesis by (simp add: numeral_3_eq_3)
qed

theorem wait_collects_child_witness:
  "wait_bounded 3 demo_launch demo_deadline 6 demo_process (100, False) = Some (Inl DeadlineExpired, (7000100, True))
   \<and> collected demo_launch demo_process (7000100, True)"
  using wait_collects_child [OF demo_run] demo_run by blast

subsection \<open>When the wait returns\<close>











end
