(* ===== verification/Build_Cell.thy ===== *)
theory Build_Cell
  imports Confined_Host
begin

section \<open>The build cell\<close>

text \<open>
  \<open>p2-d2-supervisor/src/main.rs\<close>: the program that runs inside the Bubblewrap sandbox. It restricts itself with
  Landlock and the seccomp filter, measures that both and the empty capability sets are in force, and
  becomes Cargo with a closed argument vector and environment.
\<close>

definition cargo_arguments :: "string \<Rightarrow> (string, string list) res" where
  "cargo_arguments mode =
     (if mode = ''metadata-unlocked'' then Inr [''metadata'', ''--offline'', ''--format-version'', ''1'']
      else if mode = ''metadata-locked'' then Inr [''metadata'', ''--locked'', ''--offline'', ''--format-version'', ''1'']
      else if mode = ''check''
      then Inr [''check'', ''--locked'', ''--offline'', ''--frozen'', ''--all-targets'', ''--message-format=json'']
      else Inl ''unknown closed command mode'')"

definition read_only_paths :: "string list" where
  "read_only_paths =
     [''/usr'', ''/bin'', ''/lib'', ''/lib64'', ''/proc'', ''/keep/toolchain'', ''/keep/vendor'', ''/keep/result'']"

definition read_write_paths :: "string list" where "read_write_paths = [''/work'', ''/tmp'', ''/dev'']"

definition CAPABILITY_PREFIXES :: "string list" where
  "CAPABILITY_PREFIXES = map (\<lambda>n. n @ '':'' @ [CHR 0x09]) [''CapInh'', ''CapPrm'', ''CapEff'', ''CapBnd'', ''CapAmb'']"

definition seccomp_line :: "string \<Rightarrow> string option" where
  "seccomp_line status =
     (case List.map_filter (\<lambda>line. strip_prefix line (''Seccomp:'' @ [CHR 0x09])) (str_lines status) of
        [] \<Rightarrow> None | v # _ \<Rightarrow> Some v)"

definition capabilities_are_zero :: "string \<Rightarrow> bool" where
  "capabilities_are_zero status \<longleftrightarrow>
     list_all (\<lambda>prefix. list_ex (\<lambda>line. strip_prefix line prefix = Some ''0000000000000000'') (str_lines status))
       CAPABILITY_PREFIXES"

definition confine_cell :: "('s, 'f) cell_host \<Rightarrow> ('s, u32) refusing" where
  "confine_cell M =
     io_bind (io_traverse (\<lambda>path. or_fail ''required read-only root is absent'' (fs_open M path True False)) read_only_paths)
       (\<lambda>read_only.
     io_bind (io_traverse (\<lambda>path. or_fail ''required writable root is absent'' (fs_open M path True False)) read_write_paths)
       (\<lambda>read_write.
     io_bind (or_fail ''Landlock ABI or ruleset construction refused'' (landlock_new M 4)) (\<lambda>ruleset.
     io_bind (io_fold (\<lambda>path _. or_fail ''read-only Landlock rule refused'' (allow_read_only M ruleset path)) read_only ()) (\<lambda>_.
     io_bind (io_fold (\<lambda>path _. or_fail ''read-write Landlock rule refused'' (allow_read_write M ruleset path)) read_write ())
       (\<lambda>_.
     io_bind (or_fail ''Landlock activation refused'' (landlock_restrict_self M ruleset)) (\<lambda>landlock_abi.
     io_bind (or_fail ''seccomp activation refused'' (install_seccomp M)) (\<lambda>_. io_ret landlock_abi)))))))"

text \<open>\<open>no_new_privileges_active().unwrap_or(false)\<close>, and the measured status of the process.\<close>

definition measure_cell :: "('s, 'f) cell_host \<Rightarrow> ('s, unit) refusing" where
  "measure_cell M =
     io_bind (or_fail ''post-confinement process status is unreadable'' (fs_read_to_string M ''/proc/self/status'')) (\<lambda>status.
     io_bind (io_lift (ok_or ''post-confinement seccomp measurement is absent'' (seccomp_line status))) (\<lambda>seccomp_mode.
     io_bind (answering (succeeds (no_new_privileges_active M) id)) (\<lambda>active.
       if \<not> active \<or> seccomp_mode \<noteq> ''2'' \<or> \<not> capabilities_are_zero status
       then io_fail ''post-confinement privilege/seccomp/capability measurement disagreed'' else io_ret ())))"

definition cell_marker :: "string \<Rightarrow> u32 \<Rightarrow> string" where
  "cell_marker mode landlock_abi =
     ''[keep-p2-d2-cell] mode='' @ mode @ '' landlockAbi='' @ dec_string (unat landlock_abi)
     @ '' noNewPrivs=1 seccomp=2 capabilities=zero''"

text \<open>\<open>a.is_ok() || b.is_ok()\<close> and \<open>a.is_ok() && b.is_ok()\<close>.\<close>

definition probe_network :: "('s, 'f) cell_host \<Rightarrow> ('s, cell_end) refusing" where
  "probe_network M =
     io_bind (answering (succeeds (ch_tcp_bind M ''0.0.0.0:0'') (\<lambda>_. True))) (\<lambda>bound.
     io_bind (if bound then io_ret True else answering (succeeds (ch_tcp_connect M ''198.51.100.1:443'') (\<lambda>_. True))) (\<lambda>tcp.
     if tcp then io_fail ''Landlock admitted a forbidden TCP operation''
     else
       io_bind (or_fail ''local UDP probe socket construction failed'' (ch_udp_bind M ''0.0.0.0:0'')) (\<lambda>udp.
       io_bind (answering (succeeds (ch_udp_connect M udp ''198.51.100.1:53'') (\<lambda>_. True))) (\<lambda>connected.
       io_bind (if connected then answering (succeeds (ch_udp_send M udp (str_bytes ''keep-network-refusal'')) (\<lambda>_. True))
                else io_ret False) (\<lambda>sent.
       if sent then io_fail ''isolated network namespace admitted an external UDP datagram'' else io_ret (Exited 0))))))"

definition QUOTED_FLAGS :: string where
  "QUOTED_FLAGS =
     ''--cfg=curve25519_dalek_backend='' @ [CHR 0x22] @ ''fiat'' @ [CHR 0x22]
     @ '' --cfg=curve25519_dalek_bits='' @ [CHR 0x22] @ ''64'' @ [CHR 0x22]"

definition cell_environment :: "(string \<times> string) list" where
  "cell_environment =
     [(''PATH'', ''/keep/toolchain/bin:/usr/bin:/bin''), (''HOME'', ''/work/.home''), (''LANG'', ''C''), (''LC_ALL'', ''C''),
      (''TZ'', ''UTC''), (''SOURCE_DATE_EPOCH'', ''0''), (''RUSTUP_TOOLCHAIN'', ''1.97.1-x86_64-unknown-linux-gnu''),
      (''CARGO_HOME'', ''/work/.cargo-home''), (''CARGO_NET_OFFLINE'', ''true''), (''CARGO_INCREMENTAL'', ''0''),
      (''CARGO_TARGET_DIR'', ''/work/target''), (''RUSTC'', ''/keep/toolchain/bin/rustc''),
      (''RUSTDOC'', ''/keep/toolchain/bin/rustdoc''), (''RUSTFLAGS'', QUOTED_FLAGS)]"

definition become_cargo :: "('s, 'f) cell_host \<Rightarrow> string \<Rightarrow> ('s, cell_end) refusing" where
  "become_cargo M mode =
     io_bind (io_lift (cargo_arguments mode)) (\<lambda>arguments.
     io_bind (io_map_err (\<lambda>e. ''Cargo exec failed: '' @ ch_shown M e)
         (ch_exec M ''/keep/toolchain/bin/cargo'' arguments ''/work'' cell_environment)) (\<lambda>_. io_ret Replaced))"

definition cell_mode :: "string list \<Rightarrow> (string, string) res" where
  "cell_mode argv =
     (case drop 1 argv of
        [] \<Rightarrow> Inl ''one command mode is required''
      | [mode] \<Rightarrow> Inr mode
      | _ \<Rightarrow> Inl ''extra arguments are forbidden'')"

definition cell_main :: "('s, 'f) cell_host \<Rightarrow> string list \<Rightarrow> ('s, cell_end) refusing" where
  "cell_main M argv =
     io_bind (io_lift (cell_mode argv)) (\<lambda>mode.
     io_bind (confine_cell M) (\<lambda>landlock_abi.
     io_bind (measure_cell M) (\<lambda>_.
     io_bind (print M (cell_marker mode landlock_abi)) (\<lambda>_.
       if mode = ''probe-network'' then probe_network M else become_cargo M mode))))"

text \<open>
  C36: Cargo runs only confined. If the cell becomes Cargo, it was asked for one of three modes and runs their
  fixed arguments in \<open>/work\<close> with the fixed environment; before that the reviewed ruleset came into force, then
  the seccomp program, then a status with seccomp mode 2 and five empty capability sets was
  read with the privilege flag set. Nothing but the report on the standard error happened after that.
\<close>

theorem cargo_runs_confined:
  assumes "cell_main M argv s = (Inr Replaced, t)"
  shows "\<exists>mode arguments p ruleset a b c d e status u v. drop 1 argv = [mode] \<and> cargo_arguments mode = Inr arguments
    \<and> 4 \<le> lo_abi p \<and> reviewed_landlock_policy (lo_abi p) = Inr p
    \<and> ch_landlock_create M (handled_filesystem p) (handled_network p) (lo_scoped p) a = (Inr ruleset, b)
    \<and> ch_landlock_restrict M ruleset c = (Inr (), d)
    \<and> install_seccomp M d = (Inr (), e)
    \<and> fs_read_to_string M ''/proc/self/status'' e = (Inr status, u)
    \<and> seccomp_line status = Some ''2'' \<and> capabilities_are_zero status
    \<and> no_new_privileges_active M u = (Inr True, v)
    \<and> ch_exec M ''/keep/toolchain/bin/cargo'' arguments ''/work'' cell_environment (ch_eprint M (cell_marker mode (lo_abi p)) v)
        = (Inr (), t)"
proof -
  have "probe_network M u \<noteq> (Inr Replaced, t)" for u
    by (auto simp: probe_network_def io_simps split: if_splits)
  then obtain mode abi e v where mode: "cell_mode argv = Inr mode"
    and confined: "confine_cell M s = (Inr abi, e)" and measured: "measure_cell M e = (Inr (), v)"
    and run: "become_cargo M mode (ch_eprint M (cell_marker mode abi) v) = (Inr Replaced, t)"
    using assms by (auto simp: cell_main_def io_simps split: if_splits)
  obtain r a b c d where r: "landlock_new M 4 a = (Inr r, b)" "ch_landlock_restrict M (lr_file r) c = (Inr (), d)"
      "abi = lo_abi (lr_observation r)" "install_seccomp M d = (Inr (), e)"
    using confined by (auto simp: confine_cell_def landlock_restrict_self_def io_simps)
  have mode': "drop 1 argv = [mode]" using mode by (auto simp: cell_mode_def split: list.splits)
  obtain status u where st: "fs_read_to_string M ''/proc/self/status'' e = (Inr status, u)" "seccomp_line status = Some ''2''"
     "capabilities_are_zero status" "no_new_privileges_active M u = (Inr True, v)"
    using measured by (auto simp: measure_cell_def io_simps succeeds_def ok_or_eq_Inr split: if_splits prod.splits sum.splits)
  obtain arguments where ar: "cargo_arguments mode = Inr arguments"
    "ch_exec M ''/keep/toolchain/bin/cargo'' arguments ''/work'' cell_environment (ch_eprint M (cell_marker mode abi) v)
        = (Inr (), t)"
    using run by (auto simp: become_cargo_def io_simps)
  from landlock_new_reviewed [OF r(1)] r mode' st ar show ?thesis by fastforce
qed

definition demo_status :: string where
  "demo_status = concat (map (\<lambda>l. l @ [CHR 0x0A])
     ((''Seccomp:'' @ [CHR 0x09] @ ''2'') # map (\<lambda>p. p @ ''0000000000000000'') CAPABILITY_PREFIXES))"

definition demo_cell :: "(unit, nat) cell_host" where
  "demo_cell = landlock_cell
     \<lparr>fs_open := (\<lambda>_ _ _. io_ret 3), ch_set_seccomp := (\<lambda>_. io_ret ()), ch_get_no_new_privileges := io_ret 1,
      fs_read := (\<lambda>_. io_ret (str_bytes demo_status))\<rparr>"

lemma demo_status_read:
  "valid_utf8 (str_bytes demo_status)" "seccomp_line demo_status = Some ''2''" "capabilities_are_zero demo_status"
  by code_simp+

lemma demo_cell_runs: "cell_main demo_cell [''cell'', ''check''] () = (Inr Replaced, ())"
proof -
  have landlock: "landlock_succeeds demo_cell"
    by (simp add: landlock_succeeds_def demo_cell_def landlock_cell_def)
  have calls: "fs_open demo_cell = (\<lambda>_ _ _. io_ret 3)" "ch_set_seccomp demo_cell = (\<lambda>_. io_ret ())"
    "ch_get_no_new_privileges demo_cell = io_ret 1" "fs_read demo_cell = (\<lambda>_. io_ret (str_bytes demo_status))"
    "ch_set_no_new_privileges demo_cell = io_ret ()" "ch_x86_64 demo_cell" "ch_exec demo_cell = (\<lambda>_ _ _ _. io_ret ())"
    by (simp_all add: demo_cell_def landlock_cell_def refusing_cell_def host.extend_def)
  have confined: "confine_cell demo_cell () = (Inr 4, ())"
    by (simp add: confine_cell_def calls read_only_paths_def read_write_paths_def or_fail_def landlock_runs [OF landlock]
        install_seccomp_def length_objective3_program)
  have measured: "measure_cell demo_cell () = (Inr (), ())"
    by (simp add: measure_cell_def fs_read_to_string_def calls demo_status_read or_fail_def io_lift_def answering_def
        succeeds_def no_new_privileges_active_def)
  show ?thesis
    by (simp add: cell_main_def cell_mode_def io_lift_def confined measured print_def become_cargo_def cargo_arguments_def calls)
qed

theorem cargo_runs_confined_witness:
  "\<exists>p ruleset. 4 \<le> lo_abi p \<and> reviewed_landlock_policy (lo_abi p) = Inr p
    \<and> ch_landlock_restrict demo_cell ruleset () = (Inr (), ()) \<and> install_seccomp demo_cell () = (Inr (), ())"
  using cargo_runs_confined [OF demo_cell_runs] by auto

end
