(* ===== verification/Supervisor.thy ===== *)
theory Supervisor
  imports Confined_Host Host_Objects Handoff Rust_Path Sha256
begin

section \<open>The sandbox supervisor\<close>

text \<open>
  \<open>p2-d2-supervisor/src/supervisor.rs\<close>: the program that builds the Bubblewrap sandbox of the build cell. It
  checks its cgroup, seals the three snapshots its manifests name into memory files, replaces every path
  to bind by a descriptor of the object it pinned, and executes the sealed Bubblewrap. \<open>fail\<close> ends the program with
  status 125: it is an error of the action. Descriptors that are kept open until the execution are not in the state.
\<close>

definition BWRAP_DIRECTORY :: string where "BWRAP_DIRECTORY = ''/opt/keep/bubblewrap/0.13.0''"
definition BWRAP_DIGEST :: string where
  "BWRAP_DIGEST = ''e96e817b17de74e75f9680755a700f16c9f59917a264c499175da704651bd41f''"
definition MEMORY_MAX :: string where "MEMORY_MAX = ''2147483648''"
definition MEMORY_SWAP_MAX :: string where "MEMORY_SWAP_MAX = ''0''"
definition PIDS_MAX :: string where "PIDS_MAX = ''256''"
definition CPU_MAX :: string where "CPU_MAX = ''400000 100000''"
definition IO_BYTES_PER_SECOND :: string where "IO_BYTES_PER_SECOND = ''268435456''"
definition IO_OPERATIONS_PER_SECOND :: string where "IO_OPERATIONS_PER_SECOND = ''4096''"
definition MANIFEST_MAX_BYTES :: nat where "MANIFEST_MAX_BYTES = 1024 * 1024"

text \<open>\<open>fail(message)\<close> under a condition.\<close>

abbreviation fail_if :: "bool \<Rightarrow> string \<Rightarrow> ('s, unit) refusing" where
  "fail_if c message \<equiv> (if c then io_fail message else io_ret ())"

subsection \<open>The cgroup\<close>

definition exact_file :: "('s, 'f) cell_host \<Rightarrow> string \<Rightarrow> string \<Rightarrow> ('s, unit) refusing" where
  "exact_file M path expected =
     io_bind (or_fail ''cgroup control file is unreadable'' (fs_read_to_string M path)) (\<lambda>observed.
       fail_if (trim_end observed \<noteq> expected) ''cgroup control value differs from the frozen Objective 3 ceiling'')"

definition linux_device_numbers :: "u64 \<Rightarrow> u64 \<times> u64" where
  "linux_device_numbers dev =
     ((drop_bit 8 dev AND 0xfff) OR (drop_bit 32 dev AND NOT 0xfff), (dev AND 0xff) OR (drop_bit 12 dev AND NOT 0xff))"

definition unit_name :: "string \<Rightarrow> bool" where
  "unit_name unit \<longleftrightarrow>
     starts_with unit ''keep-objective3-'' \<and> ends_with unit ''.service'' \<and> length unit \<le> 96
     \<and> list_all (\<lambda>b. is_ascii_alphanumeric b \<or> b \<in> set (str_bytes ''._-'')) (str_bytes unit)"

definition io_max_line :: "u64 \<Rightarrow> string" where
  "io_max_line dev =
     (let (major, minor) = linux_device_numbers dev in
      dec_string (unat major) @ '':'' @ dec_string (unat minor) @ '' rbps='' @ IO_BYTES_PER_SECOND @ '' wbps='' @ IO_BYTES_PER_SECOND
      @ '' riops='' @ IO_OPERATIONS_PER_SECOND @ '' wiops='' @ IO_OPERATIONS_PER_SECOND)"

definition open_file_values :: "string list \<Rightarrow> bool" where
  "open_file_values values \<longleftrightarrow> 5 \<le> length values \<and> take 2 (drop 3 values) = [''4096'', ''4096'']"

definition verify_cgroup :: "('s, 'f) cell_host \<Rightarrow> string \<Rightarrow> string \<Rightarrow> ('s, unit) refusing" where
  "verify_cgroup M unit work =
     io_bind (fail_if (\<not> unit_name unit) ''transient cgroup unit identity is malformed'') (\<lambda>_.
     io_bind (\<lambda>s. case fs_read_to_string M ''/proc/self/cgroup'' s of (Inl _, t) \<Rightarrow> (Inr [], t) | (Inr text, t) \<Rightarrow> (Inr text, t))
       (\<lambda>cgroup.
     io_bind (fail_if (cgroup \<noteq> ''0::/system.slice/'' @ unit @ [CHR 0x0A]) ''process is not in the expected systemd cgroup'') (\<lambda>_.
     let root = path_join ''/sys/fs/cgroup/system.slice'' unit in
     io_bind (exact_file M (path_join root ''memory.max'') MEMORY_MAX) (\<lambda>_.
     io_bind (exact_file M (path_join root ''memory.swap.max'') MEMORY_SWAP_MAX) (\<lambda>_.
     io_bind (exact_file M (path_join root ''pids.max'') PIDS_MAX) (\<lambda>_.
     io_bind (exact_file M (path_join root ''cpu.max'') CPU_MAX) (\<lambda>_.
     io_bind (or_fail ''work root device identity is unreadable'' (fs_metadata M work)) (\<lambda>metadata.
     io_bind (exact_file M (path_join root ''io.max'') (io_max_line (device metadata))) (\<lambda>_.
     io_bind (or_fail ''process resource limits are unreadable'' (fs_read_to_string M ''/proc/self/limits'')) (\<lambda>limits.
     io_bind (io_lift (ok_or ''open-file limit is absent''
         (find (\<lambda>line. starts_with line ''Max open files'') (str_lines limits)))) (\<lambda>open_files.
       fail_if (\<not> open_file_values (split_whitespace open_files))
         ''open-file limit differs from the frozen snapshot ceiling'')))))))))))"

subsection \<open>The snapshots\<close>

definition capture_absolute_file :: "('s, 'f) cell_host \<Rightarrow> string \<Rightarrow> nat \<Rightarrow> ('s, 'f captured_regular_file) refusing" where
  "capture_absolute_file M path maximum_bytes =
     io_bind (io_lift (ok_or ''captured file parent is absent'' (path_parent path))) (\<lambda>directory.
     io_bind (or_fail ''captured file parent pinning refused'' (pinned_open (host_kernel M) directory)) (\<lambda>parent.
     io_bind (io_lift (ok_or ''captured file leaf is malformed'' (path_file_name path))) (\<lambda>leaf.
       or_fail ''regular-file capture refused'' (capture_regular_file (host_kernel M) parent leaf maximum_bytes))))"

text \<open>\<open>line.splitn(3, ' ')\<close>, absent parts empty.\<close>

definition manifest_fields :: "string \<Rightarrow> string \<times> string \<times> string" where
  "manifest_fields line =
     (case split_once CHR '' '' line of
        None \<Rightarrow> (line, [], [])
      | Some (digest, rest) \<Rightarrow>
          (case split_once CHR '' '' rest of None \<Rightarrow> (digest, rest, []) | Some (size_text, relative) \<Rightarrow> (digest, size_text, relative)))"

definition manifest_row_ok :: "string \<Rightarrow> string \<Rightarrow> string \<Rightarrow> string \<Rightarrow> bool" where
  "manifest_row_ok previous digest size_text relative \<longleftrightarrow>
     length digest = 64 \<and> list_all (\<lambda>b. is_ascii_hexdigit b \<and> \<not> is_ascii_uppercase b) (str_bytes digest)
     \<and> size_text \<noteq> [] \<and> \<not> (starts_with size_text ''0'' \<and> size_text \<noteq> ''0'') \<and> relative \<noteq> []
     \<and> CHR '' '' \<notin> set relative \<and> previous < relative"

record 'f snapshot_state =
  ss_directories :: "string list"
  ss_bindings :: "string list"
  ss_previous :: string
  ss_total :: nat
  ss_sequence :: nat
  ss_sealed :: "'f sealed_file list"

text \<open>A \<open>BTreeSet\<close> is the sorted list of its elements.\<close>

definition btree_insert :: "string \<Rightarrow> string list \<Rightarrow> string list" where
  "btree_insert x xs = (if x \<in> set xs then xs else insort x xs)"

text \<open>The ancestors of a destination that are not shorter than the destination root.\<close>

function ancestor_directories :: "nat \<Rightarrow> string \<Rightarrow> string list" where
  "ancestor_directories n path =
     (case path_parent path of
        None \<Rightarrow> []
      | Some parent \<Rightarrow> if length parent < n then [] else parent # ancestor_directories n parent)"
  by pat_completeness auto
termination by (relation "measure (\<lambda>(n, path). length path)") (auto dest: path_parent_shorter)

declare ancestor_directories.simps [simp del]

definition executable_member :: "bool \<Rightarrow> string \<Rightarrow> bool" where
  "executable_member executable relative \<longleftrightarrow>
     executable \<and> relative \<in> {''bin/cargo'', ''bin/rustc'', ''bin/rustdoc''}
     \<or> executable \<and> ends_with relative ''/bin/rust-lld''"

text \<open>The bytes of one member, as the manifest describes them.\<close>

definition capture_member ::
    "('s, 'f) cell_host \<Rightarrow> 'f pinned_directory \<Rightarrow> string \<Rightarrow> nat \<Rightarrow> string \<Rightarrow> ('s, bytes) refusing" where
  "capture_member M source digest member_size relative =
     io_bind (io_map_err (\<lambda>e. ''snapshot member capture refused for '' @ relative @ '': '' @ ch_shown M e)
         (capture_regular_file (host_kernel M) source relative member_size)) (\<lambda>capture.
       if length (cr_bytes capture) \<noteq> member_size \<or> sha256_hex (cr_bytes capture) \<noteq> digest
       then io_fail ''snapshot member bytes disagree with the authenticated manifest''
       else io_ret (cr_bytes capture))"

definition seal_member ::
    "('s, 'f) cell_host \<Rightarrow> nat \<Rightarrow> bool \<Rightarrow> string \<Rightarrow> bytes \<Rightarrow> nat \<Rightarrow> ('s, 'f sealed_file \<times> nat) refusing" where
  "seal_member M sequence is_executable relative bs member_size =
     (let name = ''keep-snapshot-'' @ dec_string sequence in
      io_bind (io_map_err (\<lambda>e. ''snapshot member sealing refused for '' @ relative @ '': '' @ ch_shown M e)
          (if is_executable then seal_file_bytes (host_kernel M) name bs (of_nat member_size) 0x140
           else seal_data_file_bytes (host_kernel M) name bs (of_nat member_size) 0x100)) (\<lambda>sealed.
      io_bind (or_fail ''snapshot descriptor inheritance refused'' (sealed_inheritable M sealed)) (\<lambda>descriptor.
        io_ret (sealed, descriptor))))"

definition member_binding :: "bool \<Rightarrow> nat \<Rightarrow> string \<Rightarrow> string list" where
  "member_binding is_executable descriptor destination =
     [''--perms'', if is_executable then ''0500'' else ''0400'', ''--ro-bind-data'', dec_string descriptor, destination]"

definition snapshot_row ::
    "('s, 'f) cell_host \<Rightarrow> 'f pinned_directory \<Rightarrow> string \<Rightarrow> bool \<Rightarrow> nat \<Rightarrow> string \<Rightarrow> 'f snapshot_state
      \<Rightarrow> ('s, 'f snapshot_state) refusing" where
  "snapshot_row M source destination_root executable total_maximum line st =
     (let (digest, size_text, relative) = manifest_fields line in
      if \<not> manifest_row_ok (ss_previous st) digest size_text relative then io_fail ''snapshot manifest row is noncanonical''
      else
        io_bind (io_lift (ok_or ''snapshot manifest size is malformed'' (parse_decimal (2 ^ 64 - 1) size_text))) (\<lambda>member_size.
        let total = ss_total st + member_size in
        if 2 ^ 64 \<le> total \<or> total_maximum < total then io_fail ''snapshot manifest aggregate exceeds its ceiling''
        else
          io_bind (capture_member M source digest member_size relative) (\<lambda>bs.
          let sequence = ss_sequence st + 1; is_executable = executable_member executable relative in
          io_bind (seal_member M sequence is_executable relative bs member_size) (\<lambda>(sealed, descriptor).
          let destination = destination_root @ ''/'' @ relative in
          io_ret
            \<lparr>ss_directories = fold btree_insert (ancestor_directories (length destination_root) destination) (ss_directories st),
             ss_bindings = ss_bindings st @ member_binding is_executable descriptor destination,
             ss_previous = relative, ss_total = total, ss_sequence = sequence, ss_sealed = ss_sealed st @ [sealed]\<rparr>))))"

text \<open>The manifest, captured and of the digest its caller names; then every row of it.\<close>

definition snapshot_manifest :: "('s, 'f) cell_host \<Rightarrow> string \<Rightarrow> string \<Rightarrow> ('s, string) refusing" where
  "snapshot_manifest M manifest_path manifest_digest =
     io_bind (capture_absolute_file M manifest_path MANIFEST_MAX_BYTES) (\<lambda>manifest.
     let bs = cr_bytes manifest in
     if sha256_hex bs \<noteq> manifest_digest then io_fail ''snapshot manifest digest disagreed''
     else if \<not> valid_utf8 bs then io_fail ''snapshot manifest is not UTF-8''
     else if bs = [] \<or> \<not> ends_with (bytes_str bs) [CHR 0x0A] then io_fail ''snapshot manifest is empty or unterminated''
     else io_ret (bytes_str bs))"

definition snapshot_arguments :: "'f snapshot_state \<Rightarrow> string list" where
  "snapshot_arguments st = concat (map (\<lambda>directory. [''--dir'', directory]) (ss_directories st)) @ ss_bindings st"

definition sealed_snapshot_arguments ::
    "('s, 'f) cell_host \<Rightarrow> string \<Rightarrow> string \<Rightarrow> string \<Rightarrow> string \<Rightarrow> bool \<Rightarrow> nat \<Rightarrow> nat \<times> 'f sealed_file list
      \<Rightarrow> ('s, 'f snapshot_state) refusing" where
  "sealed_snapshot_arguments M source_root manifest_path manifest_digest destination_root executable total_maximum progress =
     io_bind (snapshot_manifest M manifest_path manifest_digest) (\<lambda>text.
     io_bind (or_fail ''snapshot source root pinning refused'' (pinned_open (host_kernel M) source_root)) (\<lambda>source.
       io_fold (snapshot_row M source destination_root executable total_maximum) (str_lines text)
         \<lparr>ss_directories = [destination_root], ss_bindings = [], ss_previous = [], ss_total = 0,
          ss_sequence = fst progress, ss_sealed = snd progress\<rparr>))"

subsection \<open>The arguments\<close>

definition ARGUMENT_MESSAGES :: "string list" where
  "ARGUMENT_MESSAGES =
     [''cgroup unit argument is missing'', ''work root is missing'', ''toolchain root is missing'',
      ''toolchain manifest is missing'', ''toolchain manifest digest is missing'', ''build-cell path is missing'',
      ''vendor root is missing'', ''vendor manifest is missing'', ''vendor manifest digest is missing'',
      ''result root is missing'', ''result manifest is missing'', ''result manifest digest is missing'',
      ''closed operation is missing'']"

definition check_arguments :: "string list \<Rightarrow> (string, unit) res" where
  "check_arguments arguments =
     (if length arguments < 13 then Inl (ARGUMENT_MESSAGES ! length arguments)
      else if 13 < length arguments then Inl ''extra supervisor arguments are forbidden'' else Inr ())"

definition NAMESPACE_SCRIPT :: string where
  "NAMESPACE_SCRIPT =
     ''test ! -e /root; test ! -e /outside; ! touch /outside 2>/dev/null; test '' @ [CHR 0x22]
     @ ''$(wc -l < /proc/net/route)'' @ [CHR 0x22] @ '' -eq 1; readlink /proc/self/ns/net''"

definition sandbox_program :: "string \<Rightarrow> (string, string \<times> string list) res" where
  "sandbox_program operation =
     (if operation = ''probe-namespace'' then Inr (''/bin/sh'', [''-c'', NAMESPACE_SCRIPT])
      else if operation \<in> {''metadata-unlocked'', ''metadata-locked'', ''check'', ''probe-network''}
      then Inr (''/keep/build-cell'', [operation])
      else if operation = ''probe-snapshot-race'' then Inr (''/keep/build-cell'', [''check''])
      else Inl ''operation is outside the closed supervisor set'')"

definition bwrap_template :: "string list" where
  "bwrap_template =
     [''bwrap'', ''--unshare-all'', ''--unshare-user'', ''--disable-userns'', ''--die-with-parent'', ''--new-session'',
      ''--proc'', ''/proc'', ''--dev'', ''/dev'', ''--tmpfs'', ''/tmp'', ''--ro-bind'', ''/usr'', ''/usr'',
      ''--symlink'', ''usr/bin'', ''/bin'', ''--symlink'', ''usr/lib'', ''/lib'', ''--symlink'', ''usr/lib64'', ''/lib64'',
      ''--dir'', ''/keep'', ''--ro-bind'', ''/keep/build-cell-placeholder'', ''/keep/build-cell'',
      ''--bind'', ''/keep/work-placeholder'', ''/work'']"

fun position_of :: "string \<Rightarrow> string list \<Rightarrow> nat option" where
  "position_of x [] = None"
| "position_of x (y # ys) = (if y = x then Some 0 else map_option Suc (position_of x ys))"

definition put_source :: "string \<Rightarrow> string \<Rightarrow> string \<Rightarrow> string list \<Rightarrow> (string, string list) res" where
  "put_source message placeholder path arguments =
     bnd (ok_or message (position_of placeholder arguments)) (\<lambda>i. Inr (arguments[i := path]))"

definition bwrap_sources :: "string \<Rightarrow> string \<Rightarrow> (string, string list) res" where
  "bwrap_sources build_cell work =
     bnd (put_source ''sandbox build placeholder is absent'' ''/keep/build-cell-placeholder'' build_cell bwrap_template)
       (put_source ''sandbox work placeholder is absent'' ''/keep/work-placeholder'' work)"

definition RUST_FLAGS :: string where
  "RUST_FLAGS =
     ''--cfg=curve25519_dalek_backend='' @ [CHR 0x22] @ ''fiat'' @ [CHR 0x22]
     @ '' --cfg=curve25519_dalek_bits='' @ [CHR 0x22] @ ''64'' @ [CHR 0x22]"

definition sandbox_environment :: "(string \<times> string) list" where
  "sandbox_environment =
     [(''PATH'', ''/keep/toolchain/bin:/usr/bin:/bin''), (''HOME'', ''/work/.home''), (''LANG'', ''C''), (''LC_ALL'', ''C''),
      (''TZ'', ''UTC''), (''SOURCE_DATE_EPOCH'', ''0''), (''RUSTUP_TOOLCHAIN'', ''1.97.1-x86_64-unknown-linux-gnu''),
      (''CARGO_HOME'', ''/work/.cargo-home''), (''CARGO_NET_OFFLINE'', ''true''), (''CARGO_INCREMENTAL'', ''0''),
      (''CARGO_TARGET_DIR'', ''/work/target''), (''RUSTC'', ''/keep/toolchain/bin/rustc''),
      (''RUSTDOC'', ''/keep/toolchain/bin/rustdoc''), (''RUSTFLAGS'', RUST_FLAGS)]"

definition bwrap_tail :: "string \<Rightarrow> string list" where
  "bwrap_tail program =
     ''--clearenv'' # concat (map (\<lambda>(k, v). [''--setenv'', k, v]) sandbox_environment)
     @ [''--cap-drop'', ''ALL'', ''--chdir'', ''/work'', program]"

subsection \<open>Binding by descriptor\<close>

definition expected_mode :: "string \<Rightarrow> string option" where
  "expected_mode destination =
     (if destination = ''/work'' then Some ''--bind''
      else if destination \<in> {''/usr'', ''/keep/toolchain'', ''/keep/vendor'', ''/keep/result''} then Some ''--ro-bind''
      else if destination = ''/keep/build-cell'' then Some ''--ro-bind''
      else None)"

definition CELL_MAXIMUM :: nat where "CELL_MAXIMUM = 4 * 1024 * 1024"

definition seal_build_cell :: "('s, 'f) cell_host \<Rightarrow> string \<Rightarrow> ('s, nat) refusing" where
  "seal_build_cell M source =
     io_bind (io_lift (ok_or ''build-cell parent is absent'' (path_parent source))) (\<lambda>directory.
     io_bind (or_fail ''build-cell parent pinning refused'' (pinned_open (host_kernel M) directory)) (\<lambda>parent.
     io_bind (io_lift (ok_or ''build-cell leaf is malformed'' (path_file_name source))) (\<lambda>leaf.
     io_bind (or_fail ''build-cell capture refused'' (capture_regular_file (host_kernel M) parent leaf CELL_MAXIMUM)) (\<lambda>capture.
     io_bind (or_fail ''build-cell sealing refused''
         (seal_executable_bytes (host_kernel M) ''keep-objective3-cell'' (cr_bytes capture) (of_nat CELL_MAXIMUM))) (\<lambda>sealed.
       or_fail ''build-cell descriptor inheritance refused'' (sealed_inheritable M sealed))))))"

definition pin_source :: "('s, 'f) cell_host \<Rightarrow> string \<Rightarrow> ('s, nat) refusing" where
  "pin_source M source =
     io_bind (or_fail ''bind-source pinning refused'' (pinned_open (host_kernel M) source)) (\<lambda>pinned.
       or_fail ''bind-source descriptor inheritance refused'' (directory_inheritable M pinned))"

text \<open>The checks on one binding, and the descriptor that takes the place of its source.\<close>

definition binding_descriptor ::
    "('s, 'f) cell_host \<Rightarrow> string \<Rightarrow> string \<Rightarrow> string \<Rightarrow> string list \<Rightarrow> ('s, nat) refusing" where
  "binding_descriptor M binding source destination observed =
     io_bind (io_lift (ok_or ''bubblewrap binding destination is outside the closed set'' (expected_mode destination))) (\<lambda>expected.
     io_bind (fail_if (binding \<noteq> expected \<or> destination \<in> set observed)
         ''bubblewrap binding mode or destination uniqueness disagreed'') (\<lambda>_.
       if destination = ''/keep/build-cell'' then seal_build_cell M source else pin_source M source))"

definition binding_option :: "string \<Rightarrow> string \<Rightarrow> string" where
  "binding_option binding destination =
     (if binding = ''--bind'' then ''--bind-fd''
      else if destination = ''/keep/build-cell'' then ''--ro-bind-data'' else ''--ro-bind-fd'')"

function bind_loop ::
    "('s, 'f) cell_host \<Rightarrow> string list \<Rightarrow> nat \<Rightarrow> nat option \<Rightarrow> string list
      \<Rightarrow> ('s, string list \<times> nat option \<times> string list) refusing" where
  "bind_loop M arguments index cell observed s =
     (if length arguments \<le> index then (Inr (arguments, cell, observed), s)
      else
        let binding = arguments ! index in
        if binding \<noteq> ''--ro-bind'' \<and> binding \<noteq> ''--bind'' then bind_loop M arguments (index + 1) cell observed s
        else if length arguments \<le> index + 2 then (Inl ''bubblewrap binding is truncated'', s)
        else
          let source = arguments ! (index + 1); destination = arguments ! (index + 2) in
          (case binding_descriptor M binding source destination observed s of
             (Inl e, t) \<Rightarrow> (Inl e, t)
           | (Inr descriptor, t) \<Rightarrow>
               bind_loop M (arguments[index := binding_option binding destination, index + 1 := dec_string descriptor])
                 (index + 3) (if binding \<noteq> ''--bind'' \<and> destination = ''/keep/build-cell'' then Some index else cell)
                 (observed @ [destination]) t))"
  by pat_completeness auto
termination by (relation "measure (\<lambda>(M, arguments, index, cell, observed, s). length arguments - index)") auto

declare bind_loop.simps [simp del]

text \<open>\<open>splice(i..i, extra)\<close>.\<close>

definition splice_at :: "nat \<Rightarrow> 'a list \<Rightarrow> 'a list \<Rightarrow> 'a list" where
  "splice_at i extra xs = take i xs @ extra @ drop i xs"

definition bind_by_descriptor :: "('s, 'f) cell_host \<Rightarrow> string list \<Rightarrow> ('s, string list) refusing" where
  "bind_by_descriptor M arguments =
     io_bind (bind_loop M arguments 1 None []) (\<lambda>(bound, cell, observed).
     io_bind (fail_if (length observed \<noteq> 3) ''bubblewrap binding set is incomplete'') (\<lambda>_.
     io_bind (io_lift (ok_or ''build-cell binding is absent'' cell)) (\<lambda>i.
       io_ret (splice_at i [''--perms'', ''0500''] bound))))"

subsection \<open>The program\<close>

primrec await_mutation :: "nat \<Rightarrow> ('s, 'f) cell_host \<Rightarrow> string \<Rightarrow> 's \<Rightarrow> 's" where
  "await_mutation 0 M path s = s"
| "await_mutation (Suc n) M path s =
     (let (found, t) = succeeds (fs_metadata M path) is_file s in
      if found then t else await_mutation n M path (os_sleep M 10000000 t))"

definition snapshot_race :: "('s, 'f) cell_host \<Rightarrow> string \<Rightarrow> ('s, unit) refusing" where
  "snapshot_race M work =
     io_bind (or_fail ''snapshot-race readiness creation refused'' (fs_create_new M (path_join work ''.keep-snapshot-ready''))) (\<lambda>_.
     let mutated = path_join work ''.keep-snapshot-mutated'' in
     io_bind (\<lambda>s. (Inr (), await_mutation 500 M mutated s)) (\<lambda>_.
     io_bind (answering (succeeds (fs_metadata M mutated) is_file)) (\<lambda>found.
       fail_if (\<not> found) ''snapshot-race mutation acknowledgement timed out'')))"

definition TOOLCHAIN_MAXIMUM :: nat where "TOOLCHAIN_MAXIMUM = 1024 * 1024 * 1024"
definition MEMBER_MAXIMUM :: nat where "MEMBER_MAXIMUM = 64 * 1024 * 1024"

text \<open>The three snapshots in order: the count of members and the sealed files go on from one to the next.\<close>

definition sealed_snapshots :: "('s, 'f) cell_host \<Rightarrow> string list \<Rightarrow> ('s, string list) refusing" where
  "sealed_snapshots M a =
     io_bind (sealed_snapshot_arguments M (a ! 2) (a ! 3) (a ! 4) ''/keep/toolchain'' True TOOLCHAIN_MAXIMUM (0, [])) (\<lambda>toolchain.
     io_bind (sealed_snapshot_arguments M (a ! 6) (a ! 7) (a ! 8) ''/keep/vendor'' False MEMBER_MAXIMUM
         (ss_sequence toolchain, ss_sealed toolchain)) (\<lambda>vendor.
     io_bind (sealed_snapshot_arguments M (a ! 9) (a ! 10) (a ! 11) ''/keep/result'' False MEMBER_MAXIMUM
         (ss_sequence vendor, ss_sealed vendor)) (\<lambda>result.
       io_ret (snapshot_arguments toolchain @ snapshot_arguments vendor @ snapshot_arguments result))))"

definition seal_bwrap :: "('s, 'f) cell_host \<Rightarrow> ('s, 'f sealed_file) refusing" where
  "seal_bwrap M =
     io_bind (or_fail ''dedicated Bubblewrap directory pinning refused'' (pinned_open (host_kernel M) BWRAP_DIRECTORY)) (\<lambda>binaries.
     io_bind (or_fail ''bubblewrap capture refused'' (capture_regular_file (host_kernel M) binaries ''bwrap'' CELL_MAXIMUM)) (\<lambda>capture.
       if sha256_hex (cr_bytes capture) \<noteq> BWRAP_DIGEST then io_fail ''bubblewrap bytes differ from the frozen identity''
       else or_fail ''bubblewrap sealing refused''
         (seal_executable_bytes (host_kernel M) ''keep-objective3-bwrap'' (cr_bytes capture) (of_nat CELL_MAXIMUM))))"

definition BWRAP_ENVIRONMENT :: "(string \<times> string) list" where
  "BWRAP_ENVIRONMENT = [(''PATH'', ''/usr/bin:/bin''), (''LANG'', ''C''), (''LC_ALL'', ''C''), (''TZ'', ''UTC'')]"

definition become_bwrap :: "('s, 'f) cell_host \<Rightarrow> 'f sealed_file \<Rightarrow> string list \<Rightarrow> ('s, cell_end) refusing" where
  "become_bwrap M sealed argv =
     io_bind (io_map_err (\<lambda>e. ''sealed bubblewrap exec failed: '' @ ch_shown M e) (sealed_exec M sealed argv BWRAP_ENVIRONMENT))
       (\<lambda>_. io_ret Replaced)"

text \<open>The arguments are those after the program's name: unit, work, toolchain root, manifest and digest, build
  cell, vendor root, manifest and digest, result root, manifest and digest, operation.\<close>

definition supervisor_main :: "('s, 'f) cell_host \<Rightarrow> string list \<Rightarrow> ('s, cell_end) refusing" where
  "supervisor_main M a =
     io_bind (io_lift (check_arguments a)) (\<lambda>_.
     io_bind (io_lift (sandbox_program (a ! 12))) (\<lambda>(program, program_arguments).
     io_bind (io_lift (bwrap_sources (a ! 5) (a ! 1))) (\<lambda>sources.
     io_bind (sealed_snapshots M a) (\<lambda>snapshots.
     io_bind (if a ! 12 = ''probe-snapshot-race'' then snapshot_race M (a ! 1) else io_ret ()) (\<lambda>_.
     io_bind (verify_cgroup M (a ! 0) (a ! 1)) (\<lambda>_.
     io_bind (bind_by_descriptor M (sources @ snapshots @ bwrap_tail program @ program_arguments)) (\<lambda>argv.
     io_bind (seal_bwrap M) (\<lambda>sealed.
       become_bwrap M sealed argv))))))))"

end
