(* ===== verification/Supervisor_Props.thy ===== *)
theory Supervisor_Props
  imports Supervisor
begin

section \<open>What the sandbox binds\<close>

text \<open>
  A snapshot holds exactly the members of an authenticated manifest, as sealed copies of bytes with the
  digest and size the manifest states. The arguments of the sealed Bubblewrap are a closed list: its three
  bindings are descriptors of objects pinned or sealed by the supervisor, and no other argument binds a path.
\<close>

subsection \<open>The snapshots\<close>

record member =
  mb_digest :: string
  mb_size_text :: string
  mb_relative :: string
  mb_bytes :: bytes
  mb_descriptor :: nat

definition member_seal :: "('s, 'f) cell_host \<Rightarrow> bool \<Rightarrow> bytes \<Rightarrow> nat \<Rightarrow> bool" where
  "member_seal M is_executable bs descriptor \<longleftrightarrow>
     (\<exists>name sealed u v. (if is_executable then seal_file_bytes (host_kernel M) name bs (of_nat (length bs)) 0x140 u
           else seal_data_file_bytes (host_kernel M) name bs (of_nat (length bs)) 0x100 u) = (Inr sealed, v)
        \<and> descriptor = raw_fd M (sl_file sealed))"

definition member_of :: "('s, 'f) cell_host \<Rightarrow> bool \<Rightarrow> string \<Rightarrow> member \<Rightarrow> bool" where
  "member_of M executable line m \<longleftrightarrow>
     manifest_fields line = (mb_digest m, mb_size_text m, mb_relative m)
     \<and> sha256_hex (mb_bytes m) = mb_digest m
     \<and> parse_decimal (2 ^ 64 - 1) (mb_size_text m) = Some (length (mb_bytes m))
     \<and> member_seal M (executable_member executable (mb_relative m)) (mb_bytes m) (mb_descriptor m)"

definition member_arguments :: "bool \<Rightarrow> string \<Rightarrow> member \<Rightarrow> string list" where
  "member_arguments executable destination_root m =
     member_binding (executable_member executable (mb_relative m)) (mb_descriptor m) (destination_root @ ''/'' @ mb_relative m)"

lemma snapshot_row_member:
  assumes "snapshot_row M source destination_root executable total_maximum line st s = (Inr st', t)"
  shows "\<exists>m. member_of M executable line m \<and> ss_previous st < mb_relative m \<and> ss_previous st' = mb_relative m
    \<and> ss_bindings st' = ss_bindings st @ member_arguments executable destination_root m
    \<and> ss_total st' = ss_total st + length (mb_bytes m) \<and> ss_total st' \<le> total_maximum
    \<and> ss_directories st' =
        fold btree_insert (ancestor_directories (length destination_root) (destination_root @ ''/'' @ mb_relative m)) (ss_directories st)"
proof -
  obtain digest size_text relative where line: "manifest_fields line = (digest, size_text, relative)"
    by (cases "manifest_fields line") auto
  obtain n bs sealed descriptor u v w where row: "manifest_row_ok (ss_previous st) digest size_text relative"
      "parse_decimal (2 ^ 64 - 1) size_text = Some n" "ss_total st + n \<le> total_maximum"
    and captured: "capture_member M source digest n relative u = (Inr bs, v)"
    and sealed: "seal_member M (ss_sequence st + 1) (executable_member executable relative) relative bs n v = (Inr (sealed, descriptor), w)"
    and st': "st' = \<lparr>ss_directories =
        fold btree_insert (ancestor_directories (length destination_root) (destination_root @ ''/'' @ relative)) (ss_directories st),
      ss_bindings = ss_bindings st @ member_binding (executable_member executable relative) descriptor (destination_root @ ''/'' @ relative),
      ss_previous = relative, ss_total = ss_total st + n, ss_sequence = ss_sequence st + 1, ss_sealed = ss_sealed st @ [sealed]\<rparr>"
    using assms by (auto simp: snapshot_row_def line Let_def io_simps not_le not_less split: if_splits)
  have bytes: "length bs = n" "sha256_hex bs = digest"
    using captured by (auto simp: capture_member_def io_simps split: if_splits)
  have "member_seal M (executable_member executable relative) bs descriptor"
    using sealed unfolding seal_member_def Let_def member_seal_def bytes(1)
    by (auto simp: io_simps sealed_inheritable_def clear_close_on_exec_def split: if_splits)
  then have "member_of M executable line \<lparr>mb_digest = digest, mb_size_text = size_text, mb_relative = relative, mb_bytes = bs,
      mb_descriptor = descriptor\<rparr>"
    using line row(2) bytes by (simp add: member_of_def)
  then show ?thesis
    using row(1,3) bytes st'
    by (intro exI [of _ "\<lparr>mb_digest = digest, mb_size_text = size_text, mb_relative = relative, mb_bytes = bs,
      mb_descriptor = descriptor\<rparr>"]) (auto simp: manifest_row_ok_def member_arguments_def)
qed

lemma snapshot_members:
  assumes "io_fold (snapshot_row M source destination_root executable total_maximum) lines st s = (Inr st', t)"
    and "ss_total st \<le> total_maximum"
  shows "\<exists>ms. list_all2 (member_of M executable) lines ms
    \<and> sorted_wrt (<) (ss_previous st # map mb_relative ms)
    \<and> ss_bindings st' = ss_bindings st @ concat (map (member_arguments executable destination_root) ms)
    \<and> ss_total st' = ss_total st + sum_list (map (\<lambda>m. length (mb_bytes m)) ms) \<and> ss_total st' \<le> total_maximum
    \<and> ss_directories st' = fold (\<lambda>m. fold btree_insert
        (ancestor_directories (length destination_root) (destination_root @ ''/'' @ mb_relative m))) ms (ss_directories st)"
  using assms
proof (induction lines arbitrary: st s)
  case Nil
  then show ?case by (auto simp: io_simps)
next
  case (Cons line lines)
  obtain st1 u where first: "snapshot_row M source destination_root executable total_maximum line st s = (Inr st1, u)"
    and rest: "io_fold (snapshot_row M source destination_root executable total_maximum) lines st1 u = (Inr st', t)"
    using Cons.prems(1) by (auto simp: io_simps)
  from snapshot_row_member [OF first] obtain m where m: "member_of M executable line m" "ss_previous st < mb_relative m"
      "ss_previous st1 = mb_relative m" "ss_bindings st1 = ss_bindings st @ member_arguments executable destination_root m"
      "ss_total st1 = ss_total st + length (mb_bytes m)" "ss_total st1 \<le> total_maximum"
      "ss_directories st1 =
        fold btree_insert (ancestor_directories (length destination_root) (destination_root @ ''/'' @ mb_relative m)) (ss_directories st)"
    by blast
  from Cons.IH [OF rest m(6)] obtain ms where ms: "list_all2 (member_of M executable) lines ms"
      "sorted_wrt (<) (mb_relative m # map mb_relative ms)"
      "ss_bindings st' = ss_bindings st1 @ concat (map (member_arguments executable destination_root) ms)"
      "ss_total st' = ss_total st1 + sum_list (map (\<lambda>m. length (mb_bytes m)) ms)" "ss_total st' \<le> total_maximum"
      "ss_directories st' = fold (\<lambda>m. fold btree_insert
        (ancestor_directories (length destination_root) (destination_root @ ''/'' @ mb_relative m))) ms (ss_directories st1)"
    unfolding m(3) by blast
  have "sorted_wrt (<) (ss_previous st # map mb_relative (m # ms))"
    using m(2) ms(2) by (auto intro: less_trans)
  then show ?case using m ms by (intro exI [of _ "m # ms"]) auto
qed

text \<open>
  C40: a snapshot is what its manifest says. The manifest has the digest the caller names; its lines are the
  members in strictly increasing order, each captured with the digest and the size its line states and sealed from
  those bytes; together they stay within the ceiling; and the file bindings are the members' descriptors, in order, at the
  destinations the lines name.
\<close>

theorem snapshot_authenticated:
  "case sealed_snapshot_arguments M source_root manifest_path manifest_digest destination_root executable total_maximum progress s of
     (Inl message, t) \<Rightarrow> True
   | (Inr st, t) \<Rightarrow>
       \<exists>manifest members u. capture_absolute_file M manifest_path MANIFEST_MAX_BYTES s = (Inr manifest, u)
         \<and> sha256_hex (cr_bytes manifest) = manifest_digest
         \<and> list_all2 (member_of M executable) (str_lines (bytes_str (cr_bytes manifest))) members
         \<and> sorted_wrt (<) (map mb_relative members)
         \<and> sum_list (map (\<lambda>m. length (mb_bytes m)) members) \<le> total_maximum
         \<and> ss_bindings st = concat (map (member_arguments executable destination_root) members)"
proof (cases "sealed_snapshot_arguments M source_root manifest_path manifest_digest destination_root executable total_maximum progress s")
  case (Pair r t)
  show ?thesis
  proof (cases r)
    case (Inr st)
    obtain manifest source u v where manifest: "capture_absolute_file M manifest_path MANIFEST_MAX_BYTES s = (Inr manifest, u)"
        "sha256_hex (cr_bytes manifest) = manifest_digest"
      and rows: "io_fold (snapshot_row M source destination_root executable total_maximum)
           (str_lines (bytes_str (cr_bytes manifest)))
           \<lparr>ss_directories = [destination_root], ss_bindings = [], ss_previous = [], ss_total = 0,
            ss_sequence = fst progress, ss_sealed = snd progress\<rparr> v = (Inr st, t)"
      using Pair Inr by (auto simp: sealed_snapshot_arguments_def snapshot_manifest_def Let_def io_simps split: if_splits)
    from snapshot_members [OF rows] manifest show ?thesis by (auto simp: Pair Inr)
  qed (simp add: Pair)
qed

subsection \<open>The bindings\<close>

definition binds :: "string \<Rightarrow> bool" where "binds a \<longleftrightarrow> a = ''--bind'' \<or> a = ''--ro-bind''"

lemma bind_loop_skip:
  assumes "list_all (\<lambda>a. \<not> binds a) mid"
  shows "bind_loop M (front @ mid @ suffix) (length front) cell observed s =
    bind_loop M (front @ mid @ suffix) (length (front @ mid)) cell observed s"
  using assms
proof (induction mid arbitrary: front)
  case (Cons a mid)
  have "bind_loop M (front @ (a # mid) @ suffix) (length front) cell observed s =
      bind_loop M (front @ (a # mid) @ suffix) (Suc (length front)) cell observed s"
    using Cons.prems by (simp add: bind_loop.simps [of M "front @ a # mid @ suffix" "length front"] binds_def)
  then show ?case using Cons.IH [of "front @ [a]"] Cons.prems by simp
qed simp

lemma bind_loop_end: "bind_loop M arguments (length arguments) cell observed s = (Inr (arguments, cell, observed), s)"
  by (simp add: bind_loop.simps)

lemma bind_loop_binding:
  assumes "bind_loop M (front @ [option, source, destination] @ suffix) (length front) cell observed s = (Inr out, t)" "binds option"
  shows "\<exists>descriptor u. binding_descriptor M option source destination observed s = (Inr descriptor, u)
    \<and> bind_loop M (front @ [binding_option option destination, dec_string descriptor, destination] @ suffix)
        (length (front @ [binding_option option destination, dec_string descriptor, destination]))
        (if option \<noteq> ''--bind'' \<and> destination = ''/keep/build-cell'' then Some (length front) else cell)
        (observed @ [destination]) u = (Inr out, t)"
  using assms unfolding binds_def
  by (auto simp: bind_loop.simps [of M "front @ option # source # destination # suffix" "length front"] Let_def
      nth_append list_update_append numeral_3_eq_3 split: prod.splits sum.splits)

definition sandbox_head :: "string list" where
  "sandbox_head =
     [''bwrap'', ''--unshare-all'', ''--unshare-user'', ''--disable-userns'', ''--die-with-parent'', ''--new-session'',
      ''--proc'', ''/proc'', ''--dev'', ''/dev'', ''--tmpfs'', ''/tmp'']"

definition sandbox_links :: "string list" where
  "sandbox_links =
     [''--symlink'', ''usr/bin'', ''/bin'', ''--symlink'', ''usr/lib'', ''/lib'', ''--symlink'', ''usr/lib64'', ''/lib64'',
      ''--dir'', ''/keep'']"

text \<open>The template with its two sources, and with its three bindings by descriptor.\<close>

definition bound_by_path :: "string \<Rightarrow> string \<Rightarrow> string list" where
  "bound_by_path build_cell work =
     sandbox_head @ [''--ro-bind'', ''/usr'', ''/usr''] @ sandbox_links
     @ [''--ro-bind'', build_cell, ''/keep/build-cell'', ''--bind'', work, ''/work'']"

definition bound_by_descriptor :: "nat \<Rightarrow> nat \<Rightarrow> nat \<Rightarrow> string list" where
  "bound_by_descriptor usr cell work =
     sandbox_head @ [''--ro-bind-fd'', dec_string usr, ''/usr''] @ sandbox_links
     @ [''--perms'', ''0500'', ''--ro-bind-data'', dec_string cell, ''/keep/build-cell'',
        ''--bind-fd'', dec_string work, ''/work'']"

text \<open>The two sources; a build cell named like the placeholder of the work root would take its place.\<close>

definition bind_sources :: "string \<Rightarrow> string \<Rightarrow> string \<times> string" where
  "bind_sources build_cell work =
     (if build_cell = ''/keep/work-placeholder'' then (work, ''/keep/work-placeholder'') else (build_cell, work))"

lemma bwrap_sources_paths:
  "bwrap_sources build_cell work = Inr (bound_by_path (fst (bind_sources build_cell work)) (snd (bind_sources build_cell work)))"
  by (simp add: bwrap_sources_def put_source_def bwrap_template_def bound_by_path_def sandbox_head_def sandbox_links_def
      bind_sources_def)

lemma bind_by_descriptor_closed:
  assumes run: "bind_by_descriptor M (bound_by_path build_cell work @ rest) s = (Inr argv, t)"
    and rest: "list_all (\<lambda>a. \<not> binds a) rest"
  shows "\<exists>usr cell root u v. pin_source M ''/usr'' s = (Inr usr, u) \<and> seal_build_cell M build_cell u = (Inr cell, v)
    \<and> pin_source M work v = (Inr root, t) \<and> argv = bound_by_descriptor usr cell root @ rest"
proof -
  obtain bound i observed where loop: "bind_loop M (bound_by_path build_cell work @ rest) 1 None [] s = (Inr (bound, Some i, observed), t)"
    and argv: "argv = splice_at i [''--perms'', ''0500''] bound"
    using run by (auto simp: bind_by_descriptor_def io_simps ok_or_eq_Inr split: if_splits)
  obtain options where head: "sandbox_head = ''bwrap'' # options" "list_all (\<lambda>a. \<not> binds a) options"
    by (simp add: sandbox_head_def binds_def)
  have links: "list_all (\<lambda>a. \<not> binds a) sandbox_links" by (simp add: sandbox_links_def binds_def)
  have one: "bind_loop M (sandbox_head @ [''--ro-bind'', ''/usr'', ''/usr''] @ sandbox_links
      @ [''--ro-bind'', build_cell, ''/keep/build-cell'', ''--bind'', work, ''/work''] @ rest) (length sandbox_head) None [] s
      = (Inr (bound, Some i, observed), t)"
    using loop bind_loop_skip [OF head(2), of M "[''bwrap'']"] by (simp add: bound_by_path_def head(1))
  obtain usr u where usr: "pin_source M ''/usr'' s = (Inr usr, u)"
    and two: "bind_loop M (sandbox_head @ [''--ro-bind-fd'', dec_string usr, ''/usr''] @ sandbox_links
      @ [''--ro-bind'', build_cell, ''/keep/build-cell'', ''--bind'', work, ''/work''] @ rest)
      (length (sandbox_head @ [''--ro-bind-fd'', dec_string usr, ''/usr''])) None [''/usr''] u = (Inr (bound, Some i, observed), t)"
    using bind_loop_binding [OF one]
    by (auto simp: binds_def binding_descriptor_def expected_mode_def binding_option_def io_simps split: if_splits)
  define front where "front = sandbox_head @ [''--ro-bind-fd'', dec_string usr, ''/usr''] @ sandbox_links"
  have three: "bind_loop M (front @ [''--ro-bind'', build_cell, ''/keep/build-cell''] @ [''--bind'', work, ''/work''] @ rest) (length front) None [''/usr''] u
      = (Inr (bound, Some i, observed), t)"
    using two bind_loop_skip [OF links, of M "sandbox_head @ [''--ro-bind-fd'', dec_string usr, ''/usr'']"] by (simp add: front_def)
  obtain cell v where cell: "seal_build_cell M build_cell u = (Inr cell, v)"
    and four: "bind_loop M ((front @ [''--ro-bind-data'', dec_string cell, ''/keep/build-cell'']) @ [''--bind'', work, ''/work''] @ rest)
      (length (front @ [''--ro-bind-data'', dec_string cell, ''/keep/build-cell''])) (Some (length front)) [''/usr'', ''/keep/build-cell''] v
      = (Inr (bound, Some i, observed), t)"
    using bind_loop_binding [OF three]
    by (auto simp: binds_def binding_descriptor_def expected_mode_def binding_option_def io_simps split: if_splits)
  obtain root w where root: "pin_source M work v = (Inr root, w)"
    and five: "bind_loop M ((front @ [''--ro-bind-data'', dec_string cell, ''/keep/build-cell'', ''--bind-fd'', dec_string root, ''/work'']) @ rest)
      (length (front @ [''--ro-bind-data'', dec_string cell, ''/keep/build-cell'', ''--bind-fd'', dec_string root, ''/work'']))
      (Some (length front)) [''/usr'', ''/keep/build-cell'', ''/work''] w = (Inr (bound, Some i, observed), t)"
    using bind_loop_binding [OF four]
    by (auto simp: binds_def binding_descriptor_def expected_mode_def binding_option_def io_simps split: if_splits)
  define final where "final = front @ [''--ro-bind-data'', dec_string cell, ''/keep/build-cell'', ''--bind-fd'', dec_string root, ''/work'']"
  have "(Inr (bound, Some i, observed), t) =
      (Inr (final @ rest, Some (length front), [''/usr'', ''/keep/build-cell'', ''/work'']), w)"
    using five [folded final_def] bind_loop_skip [OF rest, of M final "[]" "Some (length front)"]
      bind_loop_end [of M "final @ rest" "Some (length front)"] by simp
  then have "bound = final @ rest" "i = length front" "w = t" by simp_all
  then have "argv = front @ [''--perms'', ''0500'', ''--ro-bind-data'', dec_string cell, ''/keep/build-cell'',
      ''--bind-fd'', dec_string root, ''/work''] @ rest" "w = t"
    using argv by (simp_all add: final_def splice_at_def)
  then show ?thesis using usr cell root by (auto simp: front_def bound_by_descriptor_def)
qed

text \<open>The arguments of a snapshot bind nothing by path.\<close>

lemma absolute_not_binds: "starts_with a ''/'' \<Longrightarrow> \<not> binds a"
  by (auto simp: binds_def starts_with_def)

lemma decimal_not_binds: "\<not> binds (dec_string n)"
proof
  assume "binds (dec_string n)"
  then have "CHR ''-'' \<in> set (dec_string n)" by (auto simp: binds_def)
  from dec_string_digits [OF this] show False by (simp add: is_ascii_digit_def byte_of_char_def)
qed

lemma ancestors_absolute:
  assumes "starts_with path ''/''" "0 < n"
  shows "list_all (\<lambda>a. starts_with a ''/'') (ancestor_directories n path)"
  using assms
proof (induction n path rule: ancestor_directories.induct)
  case (1 n path)
  show ?case
  proof (cases "path_parent path")
    case (Some p)
    have "starts_with p ''/''" if "n \<le> length p"
      using path_parent_prefix [OF Some] that 1 (2,3) by (cases p) (auto simp: starts_with_def)
    then show ?thesis
      using "1.IH" [OF Some] 1 (3) by (simp add: Some ancestor_directories.simps [of n path] not_less)
  qed (simp add: ancestor_directories.simps)
qed

lemma fold_btree_insert: "set (fold btree_insert xs ys) = set xs \<union> set ys"
  by (induction xs arbitrary: ys) (auto simp: btree_insert_def set_insort_key)

lemma fold_directories_absolute:
  assumes "starts_with destination_root ''/''" "list_all (\<lambda>a. starts_with a ''/'') ds"
  shows "list_all (\<lambda>a. starts_with a ''/'') (fold (\<lambda>m. fold btree_insert
        (ancestor_directories (length destination_root) (destination_root @ ''/'' @ mb_relative m))) ms ds)"
  using assms(2)
proof (induction ms arbitrary: ds)
  case (Cons m ms)
  have "0 < length destination_root" using assms(1) by (auto simp: starts_with_def)
  then have "list_all (\<lambda>a. starts_with a ''/'') (ancestor_directories (length destination_root) (destination_root @ ''/'' @ mb_relative m))"
    using assms(1) by (intro ancestors_absolute) (auto simp: starts_with_iff)
  then have "list_all (\<lambda>a. starts_with a ''/'')
      (fold btree_insert (ancestor_directories (length destination_root) (destination_root @ ''/'' @ mb_relative m)) ds)"
    using Cons.prems by (auto simp: list_all_iff fold_btree_insert)
  from Cons.IH [OF this] show ?case by simp
qed simp

lemma snapshot_binds_nothing:
  assumes "sealed_snapshot_arguments M source_root manifest_path manifest_digest destination_root executable total_maximum progress s
      = (Inr st, t)" "starts_with destination_root ''/''"
  shows "list_all (\<lambda>a. \<not> binds a) (snapshot_arguments st)"
proof -
  obtain source contents v where "io_fold (snapshot_row M source destination_root executable total_maximum) (str_lines contents)
         \<lparr>ss_directories = [destination_root], ss_bindings = [], ss_previous = [], ss_total = 0,
          ss_sequence = fst progress, ss_sealed = snd progress\<rparr> v = (Inr st, t)"
    using assms(1) by (auto simp: sealed_snapshot_arguments_def io_simps split: if_splits)
  from snapshot_members [OF this] obtain ms where
      bindings: "ss_bindings st = concat (map (member_arguments executable destination_root) ms)"
    and directories: "ss_directories st = fold (\<lambda>m. fold btree_insert
        (ancestor_directories (length destination_root) (destination_root @ ''/'' @ mb_relative m))) ms [destination_root]"
    by auto
  have "list_all (\<lambda>a. starts_with a ''/'') (ss_directories st)"
    unfolding directories using assms(2) by (intro fold_directories_absolute) simp_all
  then have "list_all (\<lambda>a. \<not> binds a) (concat (map (\<lambda>directory. [''--dir'', directory]) (ss_directories st)))"
    by (auto simp: list_all_iff absolute_not_binds) (auto simp: binds_def)
  moreover have "\<not> binds (destination_root @ ''/'' @ relative)" for relative
    using assms(2) by (intro absolute_not_binds) (auto simp: starts_with_iff)
  then have "list_all (\<lambda>a. \<not> binds a) (member_arguments executable destination_root m)" for m
    by (simp add: member_arguments_def member_binding_def decimal_not_binds) (simp add: binds_def)
  then have "list_all (\<lambda>a. \<not> binds a) (ss_bindings st)" unfolding bindings by (auto simp: list_all_iff)
  ultimately show ?thesis by (simp add: snapshot_arguments_def)
qed

lemma tail_binds_nothing:
  assumes "sandbox_program operation = Inr (program, program_arguments)"
  shows "list_all (\<lambda>a. \<not> binds a) (bwrap_tail program @ program_arguments)"
  using assms
  by (auto simp: sandbox_program_def bwrap_tail_def sandbox_environment_def RUST_FLAGS_def NAMESPACE_SCRIPT_def binds_def
      split: if_splits)

text \<open>
  C39: the sandbox is closed. When the supervisor executes, it executes the sealed bytes of the frozen Bubblewrap,
  with an argument list that is fixed but for three descriptors and the snapshots: the first two bind \<open>/usr\<close> read-only and
  the sealed build cell, the third binds the work root; the snapshots are sealed data at absolute destinations; no
  argument that could bind a path remains. Just before the bindings were made, the cgroup had its frozen limits.
\<close>

theorem sandbox_closed:
  "case supervisor_main M a s of
     (Inr Replaced, t) \<Rightarrow>
       \<exists>program program_arguments snapshots usr cell work sealed u v w x y z k.
         length a = 13 \<and> sandbox_program (a ! 12) = Inr (program, program_arguments)
         \<and> sealed_snapshots M a s = (Inr snapshots, u) \<and> list_all (\<lambda>a. \<not> binds a) snapshots
         \<and> verify_cgroup M (a ! 0) (a ! 1) v = (Inr (), w)
         \<and> pin_source M ''/usr'' w = (Inr usr, x)
         \<and> seal_build_cell M (fst (bind_sources (a ! 5) (a ! 1))) x = (Inr cell, y)
         \<and> pin_source M (snd (bind_sources (a ! 5) (a ! 1))) y = (Inr work, z)
         \<and> seal_bwrap M z = (Inr sealed, k)
         \<and> sealed_exec M sealed (bound_by_descriptor usr cell work @ snapshots @ bwrap_tail program @ program_arguments)
             BWRAP_ENVIRONMENT k = (Inr (), t)
   | _ \<Rightarrow> True"
proof (cases "supervisor_main M a s = (Inr Replaced, snd (supervisor_main M a s))")
  case True
  define t where "t = snd (supervisor_main M a s)"
  obtain program program_arguments snapshots argv sealed u v w z k where steps: "check_arguments a = Inr ()"
      "sandbox_program (a ! 12) = Inr (program, program_arguments)" "sealed_snapshots M a s = (Inr snapshots, u)"
      "verify_cgroup M (a ! 0) (a ! 1) v = (Inr (), w)"
      "bind_by_descriptor M (bound_by_path (fst (bind_sources (a ! 5) (a ! 1))) (snd (bind_sources (a ! 5) (a ! 1)))
         @ snapshots @ bwrap_tail program @ program_arguments) w = (Inr argv, z)"
      "seal_bwrap M z = (Inr sealed, k)" "become_bwrap M sealed argv k = (Inr Replaced, t)"
    using True [folded t_def] by (auto simp: supervisor_main_def bwrap_sources_paths io_simps)
  have "list_all (\<lambda>a. \<not> binds a) snapshots"
    using steps(3) by (auto simp: sealed_snapshots_def io_simps starts_with_def dest!: snapshot_binds_nothing)
  moreover from this have "list_all (\<lambda>a. \<not> binds a) (snapshots @ bwrap_tail program @ program_arguments)"
    using tail_binds_nothing [OF steps(2)] by simp
  from bind_by_descriptor_closed [OF steps(5) this] obtain usr cell work x y where "pin_source M ''/usr'' w = (Inr usr, x)"
      "seal_build_cell M (fst (bind_sources (a ! 5) (a ! 1))) x = (Inr cell, y)"
      "pin_source M (snd (bind_sources (a ! 5) (a ! 1))) y = (Inr work, z)"
      "argv = bound_by_descriptor usr cell work @ snapshots @ bwrap_tail program @ program_arguments"
    by blast
  moreover have "length a = 13" using steps(1) by (auto simp: check_arguments_def split: if_splits)
  moreover have "sealed_exec M sealed argv BWRAP_ENVIRONMENT k = (Inr (), t)"
    using steps(7) by (auto simp: become_bwrap_def io_simps)
  moreover have "supervisor_main M a s = (Inr Replaced, t)" using True by (simp add: t_def)
  ultimately show ?thesis using steps by simp blast
qed (auto split: prod.splits sum.splits cell_end.splits)

end

