(* ===== verification/Spec2Isabelle.thy ===== *)
theory Spec2Isabelle
  imports Archive_Capture Landlock_Ruleset Overlay_Props Prober_Props Guest_Result Digest_Registry Production_Resolver
    Seccomp_Filter Deployment_Props Handoff Audit_Props Patch_Response_Props Transport_Props
    Candidate_Props Candidate_Process Build_Cell Supervisor_Props
begin

text \<open>
  Verification of the native crates of the repository: the Rust code under \<open>src/native/crates\<close> that
  captures, checks and confines what the rest of the system only proposes. Each definition below is
  the translation of a function, type or constant of that code, named as there where HOL allows it.

  \<^bold>\<open>The program.\<close> The crate \<open>protocol\<close> holds the formats: a canonical CBOR codec, SHA-256, the
  documents of the native boundary (deployments, closures, indexes, revocations, evidence, requests,
  responses), the P2 schemas with their validators, the patch formats, a tar parser and a gzip decoder.
  \<open>linux-abi\<close> holds the system calls: pinned directories, captured and sealed files, Landlock and seccomp.
  \<open>production-resolver\<close> reads deployments and artifacts from two pinned roots. \<open>transport\<close> is one exchange
  over a seqpacket socket. \<open>p2-d2-evidence\<close> captures audit plans. \<open>p2-d2-supervisor\<close> captures patch inputs
  and runs a build below a Bubblewrap sandbox. \<open>prober-launcher\<close> and \<open>prober-vmm-shim\<close> start a virtual machine
  and read an authenticated result from its serial log. All of them rest on the codec, the hash
  and the pinned files; an operation that spans crates (a patch capture, the observation of a deployment)
  is modelled as the composition the code makes.

  \<^bold>\<open>Conventions.\<close> A string is the list of the bytes of its UTF-8 text, one \<open>char\<close> per byte; machine integers are
  words of their width; \<open>usize\<close> and lengths are \<open>nat\<close> with the 64-bit checks written out. A \<open>Result\<close> is
  a sum, with the error message or the error type of the code on the left. A panic, an \<open>unwrap\<close> or an
  \<open>unreachable!()\<close> is an error value of its own. A \<open>BTreeMap\<close> is an association list in key order
  (\<open>Ordered_Map\<close>), a \<open>BTreeSet\<close> a sorted list or a set. Allocation that may fail
  (\<open>try_reserve\<close>) is an argument. The operating system is not code of the repository: it is a record
  whose fields are its calls, functions of an abstract state (\<open>kernel\<close> in \<open>Kernel_Io\<close>, extended by \<open>host\<close> in
  \<open>Host_Fs\<close>, by \<open>cell_host\<close> in \<open>Confined_Host\<close>, \<open>launch_host\<close> in \<open>Candidate_Process\<close> and \<open>transport_os\<close> in \<open>Transport\<close>), and an operation of the code
  is a function from a state to a result and the next state. Theorems hold for every such record and state.

  \<^bold>\<open>Theories, in the order of the code.\<close>

  \<^item> \<open>Keep_Prelude\<close>, \<open>Rust_Bytes\<close>, \<open>Rust_Text\<close>, \<open>Rust_Path\<close>: results, words, and the operations of \<open>str\<close>, \<open>[u8]\<close>
    and \<open>Path\<close> the code calls. \<open>Hash_Interface\<close>, \<open>Sink_Interface\<close>, \<open>Ordered_Map\<close>: the locales
    \<open>incremental_hash\<close>, \<open>chunk_sink\<close> and \<open>ordered_map\<close>, with the laws their clients rely on.
  \<^item> \<open>Cbor\<close> (\<open>protocol/src/lib.rs\<close>: \<open>Value\<close>, \<open>Limits\<close>, \<open>Parser\<close>, \<open>encode_bounded\<close>, \<open>decode_canonical\<close>), \<open>Cbor_Encode\<close>,
    \<open>Cbor_Parse\<close>, \<open>Cbor_Roundtrip\<close>: reference functions, the two passes of the encoder against them, the parser, and
    the inverse laws of the two.
  \<^item> \<open>Sha256\<close> (\<open>lib.rs\<close>: \<open>sha256\<close>, \<open>Sha256State\<close>; an interpretation of \<open>incremental_hash\<close>), \<open>Sha512\<close> (\<open>p2_schema.rs\<close>).
  \<^item> \<open>Text_Forms\<close>, \<open>Decimal_Forms\<close>: paths, identifiers, digests and decimal numbers as texts.
  \<^item> \<open>Native_Fields\<close>, \<open>Measurements\<close>, \<open>Deployment\<close>, \<open>Topology\<close>, \<open>Native_Evidence\<close>, \<open>Wire_Protocol\<close>, with
    \<open>Deployment_Props\<close> (\<open>lib.rs\<close>, from \<open>exact_keys\<close> to \<open>capture_canonical\<close>): the documents of the native boundary.
    \<open>validate_deployment\<close> is cut into its blocks, in order. \<open>Digest_Registry\<close>: the registry of digests and its DAG.
  \<^item> \<open>P2_Spec\<close>, \<open>P2_Specs_A\<close>, \<open>P2_Specs_B\<close>, \<open>P2_Schemas\<close>, \<open>P2_Spec_Props\<close> (\<open>p2_schema_specs.rs\<close> and the interpreters in
    \<open>p2_schema.rs\<close>): the recursive schemas, one definition per constant, and the set of values each admits.
    \<open>P2_Validate\<close>, \<open>P2_Policies\<close>, \<open>P2_Confinement\<close>, \<open>P2_Capture\<close> with \<open>P2_Capture_Props\<close>, \<open>P2_Panic_Free\<close>,
    \<open>P2_Records\<close>: the checks beyond the schemas and \<open>capture_p2\<close>.
  \<^item> \<open>Source_Rows\<close>, \<open>Source_Rows_Props\<close>, \<open>Tar_Capture\<close>, \<open>Tar_Props\<close>, \<open>Archive_Capture\<close> (\<open>patch_capture.rs\<close>) and \<open>Gzip\<close>,
    \<open>Gzip_Props\<close> (\<open>gzip.rs\<close>): requests, source rows, the streaming tar parser, the decoder, and their composition. The
    parser and the decoder meet in \<open>chunk_sink\<close>: the borders of the output do not matter.
  \<^item> \<open>Overlay\<close>, \<open>Overlay_Props\<close> (\<open>p2_d2.rs\<close>): patch overlays, the bytes they carry, the result tree.
    \<open>Audit_Plan\<close>, \<open>Audit_Props\<close> (\<open>audit_plan.rs\<close>): audit plans and what an accepted one guarantees.
  \<^item> \<open>Kernel_Io\<close>, \<open>Pinned_Files\<close>, \<open>Sealed_Files\<close>, \<open>Host_Fs\<close>, \<open>Host_Objects\<close> (\<open>linux-abi/src/lib.rs\<close>): actions over the kernel
    record, pinned directories, capture, sealing, inventories, descriptors, pidfds, private copies.
    \<open>Seccomp_Filter\<close>, \<open>Landlock_Ruleset\<close>, \<open>Confined_Host\<close>: the BPF program with an interpreter of its instructions, the
    ruleset, and the calls of a process that confines itself.
  \<^item> \<open>Root_Identity\<close>, \<open>Production_Resolver\<close> (\<open>production-resolver/src/lib.rs\<close>): configured roots, the observation of a
    deployment with its artifacts.
  \<^item> \<open>Patch_Inputs\<close>, \<open>Patch_Response\<close>, \<open>Patch_Response_Props\<close> (\<open>p2-d2-supervisor/src/lib.rs\<close>): the inputs of a patch read below
    a pinned root, and the framed response. \<open>Supervisor\<close>, \<open>Supervisor_Props\<close> (\<open>supervisor.rs\<close>): cgroup, sealed
    snapshots, the Bubblewrap arguments. \<open>Build_Cell\<close> (\<open>main.rs\<close>): the program inside the sandbox.
  \<^item> \<open>Transport\<close>, \<open>Transport_Props\<close> (\<open>transport/src/lib.rs\<close>): peers, packets, the refusal, framed streams.
  \<^item> \<open>Prober_Launcher\<close>, \<open>Prober_Props\<close>, \<open>Guest_Result\<close>, \<open>Candidate_Process\<close>, \<open>Candidate_Observe\<close>, \<open>Candidate_Props\<close>
    (\<open>prober-launcher/src/lib.rs\<close>): secrets, deadlines, the lifecycle, the parser of the serial log, direct processes with
    the bounded wait, observations and user-id leases.
    \<open>Handoff\<close>, \<open>Post_Jailer\<close> (\<open>prober-vmm-shim\<close>): the argument contract of the shim and its \<open>main\<close>.

  \<^bold>\<open>What the theorems show.\<close> The formats: decoding and encoding are inverse on canonical bytes, with the accounting
  of the encoder exact (C1, C2); streaming SHA-256 is one-shot SHA-256 (C3); an accepted relative path
  stays below its directory (C4); the rows of a capture are alias-free, bounded and committed to
  by their digest (C5 to C8); the tar parser and the gzip decoder accept exactly a grammar that is
  stated without their machinery, and an archive is captured exactly when it is in it (C9 to C12).
  The schemas: the recursive validator is the declarative meaning of a schema, tables are well-formed,
  \<open>capture_p2\<close> accepts exactly the canonical records, never panics and keeps a journal consecutive (C13 to C18).
  Patches: overlays are well-formed, the result tree is the patch applied (C19, C20), a response fits
  its budget and is the stream of its frames (C31, C32). Processes: the lifecycle, the wait, which collects its child and returns, and the guest's
  result (C21 to C24), user-id leases and the Landlock marker (C37, C38). Authority: the digest DAG (C25),
  observed artifacts (C28), channel consent (C29), audit independence (C30). Confinement: the seccomp program decides
  exactly the specified table (C26), the documents and the boundary crate have the same Landlock rights for every
  ABI (C27; no code builds a ruleset from a document), the VMM and Cargo run only after their confinement was
  measured (C35, C36), the sandbox is closed and its
  snapshots authenticated (C39, C40). The transport: received descriptors are closed, refusals are bound
  to their request (C33, C34).

  \<^bold>\<open>Bounds and fuel.\<close> Recursion that is not structural has a termination proof. Loops that go on as long
  as the host answers take fuel, one unit a round, and are \<open>None\<close> when it is used up: the inventory of a directory (the
  entries that are not \<open>.\<close> or \<open>..\<close> are bounded by the limit of the code, so its limit, the two dot entries and the round that ends are enough),
  the comparison of a staged copy (one chunk a round), the bounded wait its rounds (one for
  every 5 ms of its limit and two more are enough, C23). A call that may block, \<open>child.wait()\<close>, is a function whose value
  \<open>None\<close> says that it does not return. The capture of a directory tree ends at the depth 32 of the
  code, by a termination proof. The wait for a mutation is the
  500 rounds of the code.

  \<^bold>\<open>What modelling showed.\<close> The findings of the manifest: the x32 form of a denied call passes the seccomp
  filter (\<open>x32_form_allowed\<close>); an unnamed capture of a version 2 Landlock policy is checked as version 1
  (\<open>unnamed_landlock_is_v1\<close>); the check for an inherited descriptor compares the identity of a link below
  \<open>/proc\<close> and cannot fail (\<open>inherited_check_blind\<close>); two named patterns differ from the code; the sizes of a
  snapshot manifest admit a plus sign.

  \<^bold>\<open>Not modelled.\<close> The elliptic-curve arithmetic and the other vendored crates (third-party code), the
  TypeScript and JavaScript parts of the repository (another language), test modules. Of the native crates: the orchestration
  of the fixture in \<open>candidate_probe\<close> (building an image, mounts, cgroup files and the processes of the exercises), the
  command-line oracles that only print what the modelled functions return, and \<open>p2-crypto-candidate\<close>, a
  wrapper of a vendored signature library. Dropping a descriptor, zeroing memory and the effects of
  concurrent processes other than through the state of the host have no effect of their own in the model.
\<close>

end
